(* ===== verification/Prelude.thy ===== *)
theory Prelude
  imports Main "HOL-Library.Sublist"
begin

text \<open>
  Shared vocabulary of the development.

  \<^item> Error values: one constructor per exception class the modelled Python code raises.
    Messages are not modelled, so two raises of the same class are the same value.
  \<^item> Effects: an operation of a Python object reads and writes the state and may raise
    part-way. A raise does not undo what was already written, so the type pairs the
    outcome with the state in both cases. Database transactions, which do undo, are built on top.
  \<^item> Python string operations on code points below 256: whitespace, \<open>strip\<close>,
    \<open>casefold\<close>, \<open>upper\<close>, \<open>replace\<close>, \<open>split\<close>.
  \<^item> First-match lookup in lists of rows.
\<close>

section \<open>Errors and results\<close>

datatype err =
    ValueError
  | KeyError
  | AssertionError
  | FileExistsError
  | FileNotFoundError
  | IntegrityError
  | WorkflowError
  | LivenessViolation string
  | CoordinatorFencedError
  | RuntimeTransitionError
  | EnvelopeError
  | PromotionConflictError
  | RuntimeAuthorizationError
  | EvidenceBindingError
  | ArtifactNotFoundError
  | ArtifactCorruptError
  | SemanticConflictError
  | ExternalMutationError
  | OperationalError
  | TypeError
  | ProjectError
  | UnsafePathError
  | DuplicateArtifactError
  | InvalidTransitionError
  | GitCommandError
  | CatalogConflictError
  | ProjectUnreachableError
  | CalledProcessError
  | ProviderSetupError
  | IntegrationError
  | SubprocessError
  | ValidationError
  | KnowledgeIsolationError
  | PromotionDeniedError
  | OverlayPrivilegeError
  | OrganizationalKnowledgeError
  | PermissionError
  | RecursionError

type_synonym 'a res = "err + 'a"

text \<open>Sequencing of pure fallible code, and the guard \<open>if not c: raise e\<close>.\<close>

definition rbind :: "'a res \<Rightarrow> ('a \<Rightarrow> 'b res) \<Rightarrow> 'b res" where
  "rbind r f = (case r of Inl e \<Rightarrow> Inl e | Inr x \<Rightarrow> f x)"

definition ensure :: "bool \<Rightarrow> err \<Rightarrow> unit res" where
  "ensure c e = (if c then Inr () else Inl e)"

lemma rbind_simps [simp]:
  "rbind (Inl e) f = Inl e"
  "rbind (Inr x) f = f x"
  by (simp_all add: rbind_def)

lemma rbind_Inr_iff: "rbind r f = Inr y \<longleftrightarrow> (\<exists>x. r = Inr x \<and> f x = Inr y)"
  by (cases r) auto

lemma rbind_Inl_iff: "rbind r f = Inl e \<longleftrightarrow> r = Inl e \<or> (\<exists>x. r = Inr x \<and> f x = Inl e)"
  by (cases r) auto

lemma rbind_InrE: "rbind r f = Inr y \<Longrightarrow> (\<And>x. r = Inr x \<Longrightarrow> f x = Inr y \<Longrightarrow> P) \<Longrightarrow> P"
  by (cases r) simp_all

lemma ensure_Inr_iff [simp]: "ensure c e = Inr u \<longleftrightarrow> c"
  by (simp add: ensure_def)

lemma ensure_Inl_iff [simp]: "ensure c e = Inl e' \<longleftrightarrow> \<not> c \<and> e' = e"
  by (auto simp add: ensure_def)

lemma ensure_bool [simp]: "ensure True e = Inr ()" "ensure False e = Inl e"
  by (simp_all add: ensure_def)

fun rmap :: "('a \<Rightarrow> 'b res) \<Rightarrow> 'a list \<Rightarrow> 'b list res" where
  "rmap f [] = Inr []"
| "rmap f (x # xs) = rbind (f x) (\<lambda>y. rbind (rmap f xs) (\<lambda>ys. Inr (y # ys)))"

lemma rmap_Inr_iff: "rmap f xs = Inr ys \<longleftrightarrow> list_all2 (\<lambda>x y. f x = Inr y) xs ys"
  by (induction xs arbitrary: ys) (auto simp: rbind_Inr_iff list_all2_Cons1)

lemma rmap_nth_mem: "rmap f xs = Inr ys \<Longrightarrow> y \<in> set ys \<Longrightarrow> \<exists>x \<in> set xs. f x = Inr y"
  by (induction xs arbitrary: ys) (auto simp: rbind_Inr_iff)

lemma rmap_image: "rmap f xs = Inr ys \<Longrightarrow> x \<in> set xs \<Longrightarrow> \<exists>y \<in> set ys. f x = Inr y"
  by (induction xs arbitrary: ys) (auto simp: rbind_Inr_iff)

lemma rmap_snoc: "rmap f (xs @ [x]) = rbind (rmap f xs) (\<lambda>ys. rbind (f x) (\<lambda>y. Inr (ys @ [y])))"
  by (induction xs) (auto simp: rbind_def split: sum.splits)

lemma rmap_cong: "(\<And>x. x \<in> set xs \<Longrightarrow> f x = g x) \<Longrightarrow> rmap f xs = rmap g xs"
  by (induction xs) auto

lemma rmap_no_error: "(\<And>x. x \<in> set xs \<Longrightarrow> f x \<noteq> Inl e) \<Longrightarrow> rmap f xs \<noteq> Inl e"
  by (induction xs) (auto simp: rbind_Inl_iff)

section \<open>Effects: state and exceptions\<close>

type_synonym ('s, 'a) eff = "'s \<Rightarrow> 'a res \<times> 's"

named_theorems eff_defs \<open>definitions of the effect combinators\<close>
named_theorems eff_elims \<open>what a successful run of a combinator says\<close>

definition ret :: "'a \<Rightarrow> ('s, 'a) eff" where
  [eff_defs]: "ret x = (\<lambda>s. (Inr x, s))"

definition raise :: "err \<Rightarrow> ('s, 'a) eff" where
  [eff_defs]: "raise e = (\<lambda>s. (Inl e, s))"

definition bnd :: "('s, 'a) eff \<Rightarrow> ('a \<Rightarrow> ('s, 'b) eff) \<Rightarrow> ('s, 'b) eff" where
  [eff_defs]: "bnd m f = (\<lambda>s. case m s of (Inl e, s') \<Rightarrow> (Inl e, s') | (Inr x, s') \<Rightarrow> f x s')"

definition gets :: "('s \<Rightarrow> 'a) \<Rightarrow> ('s, 'a) eff" where
  [eff_defs]: "gets f = (\<lambda>s. (Inr (f s), s))"

definition lift :: "'a res \<Rightarrow> ('s, 'a) eff" where
  [eff_defs]: "lift r = (\<lambda>s. (r, s))"

definition req :: "bool \<Rightarrow> err \<Rightarrow> ('s, unit) eff" where
  [eff_defs]: "req c e = (\<lambda>s. (ensure c e, s))"

text \<open>A test of the state, and an update of it.\<close>

definition check :: "('s \<Rightarrow> bool) \<Rightarrow> err \<Rightarrow> ('s, unit) eff" where
  [eff_defs]: "check p e = (\<lambda>s. (ensure (p s) e, s))"

definition modify :: "('s \<Rightarrow> 's) \<Rightarrow> ('s, unit) eff" where
  [eff_defs]: "modify f = (\<lambda>s. (Inr (), f s))"

text \<open>A lookup whose miss raises.\<close>

definition some_or :: "err \<Rightarrow> 'a option \<Rightarrow> ('s, 'a) eff" where
  [eff_defs]: "some_or e x = (\<lambda>s. (case x of None \<Rightarrow> Inl e | Some y \<Rightarrow> Inr y, s))"

lemma ret_run [simp]: "ret x s = (Inr x, s)" by (simp add: ret_def)
lemma raise_run [simp]: "raise e s = (Inl e, s)" by (simp add: raise_def)
lemma gets_run [simp]: "gets f s = (Inr (f s), s)" by (simp add: gets_def)
lemma lift_run [simp]: "lift r s = (r, s)" by (simp add: lift_def)
lemma req_run [simp]: "req c e s = (ensure c e, s)" by (simp add: req_def)

lemma check_run [simp]: "check p e s = (ensure (p s) e, s)" by (simp add: check_def)
lemma modify_run [simp]: "modify f s = (Inr (), f s)" by (simp add: modify_def)

lemma some_or_run [simp]:
  "some_or e None s = (Inl e, s)"
  "some_or e (Some x) s = (Inr x, s)"
  by (simp_all add: some_or_def)

lemma bnd_run_Inl [simp]: "m s = (Inl e, s') \<Longrightarrow> bnd m f s = (Inl e, s')"
  by (simp add: bnd_def)

lemma bnd_run_Inr [simp]: "m s = (Inr x, s') \<Longrightarrow> bnd m f s = f x s'"
  by (simp add: bnd_def)

lemma bnd_assoc: "bnd (bnd m f) g = bnd m (\<lambda>x. bnd (f x) g)"
  by (rule ext) (simp add: bnd_def split: prod.splits sum.splits)

lemma bnd_InrE [eff_elims]:
  assumes "bnd m f s = (Inr y, t)"
  obtains x s' where "m s = (Inr x, s')" and "f x s' = (Inr y, t)"
  using assms by (auto simp: bnd_def split: prod.splits sum.splits)

lemma some_or_InrE [eff_elims]:
  assumes "some_or e x s = (Inr y, t)"
  obtains "x = Some y" and "t = s"
  using assms by (cases x) auto

lemma ret_InrE [eff_elims]:
  assumes "ret x s = (Inr y, t)"
  obtains "y = x" and "t = s"
  using assms by simp

lemma gets_InrE [eff_elims]:
  assumes "gets f s = (Inr y, t)"
  obtains "y = f s" and "t = s"
  using assms unfolding gets_def by (metis Inr_inject Pair_inject)

lemma lift_InrE [eff_elims]:
  assumes "lift r s = (Inr y, t)"
  obtains "r = Inr y" and "t = s"
  using assms by simp

lemma req_InrE [eff_elims]:
  assumes "req c e s = (Inr y, t)"
  obtains "c" and "t = s"
  using assms unfolding req_def by (metis Pair_inject ensure_Inr_iff)

lemma check_InrE [eff_elims]:
  assumes "check p e s = (Inr y, t)"
  obtains "p s" and "t = s"
  using assms unfolding check_def by (metis Pair_inject ensure_Inr_iff)

lemma modify_InrE [eff_elims]:
  assumes "modify f s = (Inr y, t)"
  obtains "t = f s"
  using assms by simp

text \<open>
  A relation between the state before and after is kept by an effect when it holds whatever
  the outcome, raise included. For a preorder the property composes; the locale collects the rules
  once, and every step relation of the development instantiates it.
\<close>

definition keeps :: "('s \<Rightarrow> 's \<Rightarrow> bool) \<Rightarrow> ('s, 'a) eff \<Rightarrow> bool" where
  "keeps R m \<longleftrightarrow> (\<forall>s. R s (snd (m s)))"

locale state_preorder =
  fixes R :: "'s \<Rightarrow> 's \<Rightarrow> bool"
  assumes R_refl: "R s s"
    and R_trans: "R s t \<Longrightarrow> R t u \<Longrightarrow> R s u"
begin

lemma keeps_ret: "keeps R (ret x)"
  by (simp add: keeps_def R_refl)

lemma keeps_raise: "keeps R (raise e)"
  by (simp add: keeps_def R_refl)

lemma keeps_gets: "keeps R (gets f)"
  by (simp add: keeps_def R_refl)

lemma keeps_lift: "keeps R (lift r)"
  by (simp add: keeps_def R_refl)

lemma keeps_req: "keeps R (req c e)"
  by (simp add: keeps_def R_refl)

lemma keeps_check: "keeps R (check p e)"
  by (simp add: keeps_def R_refl)

lemma keeps_pair: "keeps R (Pair r)"
  by (simp add: keeps_def R_refl)

lemma keeps_modify: "(\<And>s. R s (f s)) \<Longrightarrow> keeps R (modify f)"
  by (simp add: keeps_def)

lemma keeps_some_or: "keeps R (some_or e x)"
  by (cases x) (simp_all add: keeps_def R_refl)

lemma keeps_bnd:
  assumes "keeps R m" and "\<And>x. keeps R (f x)"
  shows "keeps R (bnd m f)"
  unfolding keeps_def
proof
  fix s
  obtain r s' where m: "m s = (r, s')" by (cases "m s")
  with assms(1) have "R s s'" by (metis keeps_def snd_conv)
  moreover have "R s' (snd (f x s'))" for x
    using assms(2) by (simp add: keeps_def)
  ultimately show "R s (snd (bnd m f s))"
    using m by (cases r) (auto intro: R_trans)
qed

lemma keeps_if: "(c \<Longrightarrow> keeps R a) \<Longrightarrow> (\<not> c \<Longrightarrow> keeps R b) \<Longrightarrow> keeps R (if c then a else b)"
  by simp

lemma keeps_case_option:
  "keeps R a \<Longrightarrow> (\<And>y. x = Some y \<Longrightarrow> keeps R (b y)) \<Longrightarrow> keeps R (case x of None \<Rightarrow> a | Some y \<Rightarrow> b y)"
  by (cases x) simp_all

lemmas keeps_basic =
  keeps_pair keeps_ret keeps_raise keeps_gets keeps_lift keeps_req keeps_check keeps_some_or keeps_bnd keeps_if
  keeps_case_option

text \<open>The same from one given state, so that what a read returned can be used by the write after it.\<close>

definition from_state :: "('s, 'a) eff \<Rightarrow> 's \<Rightarrow> bool" where
  "from_state m s \<longleftrightarrow> R s (snd (m s))"

lemma keeps_from_state: "keeps R m \<longleftrightarrow> (\<forall>s. from_state m s)"
  by (simp add: keeps_def from_state_def)

lemma from_state_pure: "(\<And>s. snd (m s) = s) \<Longrightarrow> from_state m s"
  by (simp add: from_state_def R_refl)

lemma from_ret: "from_state (ret x) s"
  and from_pair: "from_state (Pair r) s"
  and from_raise: "from_state (raise e) s"
  and from_req: "from_state (req c e) s"
  and from_lift: "from_state (lift r) s"
  by (simp_all add: from_state_def R_refl)

lemma from_bnd:
  assumes "from_state m s" and "\<And>x t. m s = (Inr x, t) \<Longrightarrow> from_state (f x) t"
  shows "from_state (bnd m f) s"
proof -
  obtain r t where m: "m s = (r, t)" by (cases "m s")
  with assms show ?thesis
    by (cases r) (auto simp: from_state_def intro: R_trans)
qed

lemma from_bnd_gets: "from_state (f (g s)) s \<Longrightarrow> from_state (bnd (gets g) f) s"
  and from_bnd_req: "(c \<Longrightarrow> from_state (h ()) s) \<Longrightarrow> from_state (bnd (req c e) h) s"
  and from_bnd_lift: "(\<And>x. r = Inr x \<Longrightarrow> from_state (k x) s) \<Longrightarrow> from_state (bnd (lift r) k) s"
  and from_bnd_some: "(\<And>y. v = Some y \<Longrightarrow> from_state (l y) s) \<Longrightarrow> from_state (bnd (some_or e v) l) s"
  by (auto intro!: from_bnd from_req from_lift simp: from_state_def R_refl)
    (auto simp: some_or_def bnd_def R_refl split: option.splits sum.splits)

lemma from_if: "(c \<Longrightarrow> from_state a s) \<Longrightarrow> (\<not> c \<Longrightarrow> from_state b s) \<Longrightarrow> from_state (if c then a else b) s"
  by simp

lemma from_case_option:
  "(x = None \<Longrightarrow> from_state a s) \<Longrightarrow> (\<And>y. x = Some y \<Longrightarrow> from_state (b y) s) \<Longrightarrow>
    from_state (case x of None \<Rightarrow> a | Some y \<Rightarrow> b y) s"
  by (cases x) simp_all

lemmas from_basic =
  from_pair from_ret from_raise from_req from_lift from_bnd_gets from_bnd_req from_bnd_lift from_bnd_some from_if
  from_case_option

end

text \<open>An invariant of a step relation holds in every state it reaches.\<close>

locale invariant_system =
  fixes step :: "'s \<Rightarrow> 's \<Rightarrow> bool" and inv :: "'s \<Rightarrow> bool"
  assumes step_inv: "inv s \<Longrightarrow> step s t \<Longrightarrow> inv t"
begin

lemma reach_inv: "step\<^sup>*\<^sup>* s t \<Longrightarrow> inv s \<Longrightarrow> inv t"
  by (induction rule: rtranclp_induct) (auto intro: step_inv)

end

text \<open>A preorder that every step satisfies holds between a state and every state it reaches.\<close>

locale step_preorder = state_preorder R for R :: "'s \<Rightarrow> 's \<Rightarrow> bool" +
  fixes step :: "'s \<Rightarrow> 's \<Rightarrow> bool"
  assumes step_R: "step s t \<Longrightarrow> R s t"
begin

lemma reach_R: "step\<^sup>*\<^sup>* s t \<Longrightarrow> R s t"
  by (induction rule: rtranclp_induct) (auto intro: R_refl R_trans step_R)

end

section \<open>Python strings over code points below 256\<close>

definition ccode :: "char \<Rightarrow> nat" where
  "ccode c = of_char c"

text \<open>\<open>str.isspace\<close> of one character; the class \<open>\s\<close> of \<open>re\<close> is the same set.\<close>

definition is_space :: "char \<Rightarrow> bool" where
  "is_space c = (let n = ccode c in
     (9 \<le> n \<and> n \<le> 13) \<or> (28 \<le> n \<and> n \<le> 32) \<or> n = 133 \<or> n = 160)"

definition strip :: "string \<Rightarrow> string" where
  "strip s = rev (dropWhile is_space (rev (dropWhile is_space s)))"

text \<open>The test \<open>if not value.strip()\<close>.\<close>

abbreviation blank :: "string \<Rightarrow> bool" where
  "blank s \<equiv> strip s = []"

lemma blank_iff: "blank s \<longleftrightarrow> (\<forall>c \<in> set s. is_space c)"
proof -
  have "blank s \<longleftrightarrow> (\<forall>c \<in> set (dropWhile is_space s). is_space c)"
    by (simp add: strip_def dropWhile_eq_Nil_conv)
  also have "\<dots> \<longleftrightarrow> (\<forall>c \<in> set s. is_space c)"
    by (induction s) auto
  finally show ?thesis .
qed

definition is_upper :: "char \<Rightarrow> bool" where
  "is_upper c = (65 \<le> ccode c \<and> ccode c \<le> 90)"

definition is_lower :: "char \<Rightarrow> bool" where
  "is_lower c = (97 \<le> ccode c \<and> ccode c \<le> 122)"

definition is_digit :: "char \<Rightarrow> bool" where
  "is_digit c = (48 \<le> ccode c \<and> ccode c \<le> 57)"

text \<open>
  \<open>casefold\<close> and \<open>upper\<close> on the Latin-1 range; sharp s becomes two letters. The micro
  sign and y with diaeresis map outside the range in Python and are left alone here; the code only
  ever compares the results with ASCII words, so the difference cannot be observed.
\<close>

definition fold_char :: "char \<Rightarrow> string" where
  "fold_char c = (let n = ccode c in
     if n = 223 then ''ss''
     else if (65 \<le> n \<and> n \<le> 90) \<or> (192 \<le> n \<and> n \<le> 222 \<and> n \<noteq> 215) then [char_of (n + 32)]
     else [c])"

definition casefold :: "string \<Rightarrow> string" where
  "casefold s = concat (map fold_char s)"

definition upper_char :: "char \<Rightarrow> string" where
  "upper_char c = (let n = ccode c in
     if n = 223 then ''SS''
     else if (97 \<le> n \<and> n \<le> 122) \<or> (224 \<le> n \<and> n \<le> 254 \<and> n \<noteq> 247) then [char_of (n - 32)]
     else [c])"

definition upper :: "string \<Rightarrow> string" where
  "upper s = concat (map upper_char s)"

text \<open>\<open>str.split(sep)\<close> for one separator character, and \<open>sep.join\<close>.\<close>

fun split_on :: "char \<Rightarrow> string \<Rightarrow> string list" where
  "split_on d [] = [[]]"
| "split_on d (c # cs) =
     (if c = d then [] # split_on d cs
      else (case split_on d cs of [] \<Rightarrow> [[c]] | w # ws \<Rightarrow> (c # w) # ws))"

fun join_with :: "char \<Rightarrow> string list \<Rightarrow> string" where
  "join_with d [] = []"
| "join_with d [w] = w"
| "join_with d (w # ws) = w @ d # join_with d ws"

definition hex_char :: "nat \<Rightarrow> char" where
  "hex_char n = (if n < 10 then char_of (48 + n) else char_of (87 + n))"

text \<open>The separator \<open>', '\<close> of lists in text.\<close>

fun comma_join :: "string list \<Rightarrow> string" where
  "comma_join [] = []"
| "comma_join [x] = x"
| "comma_join (x # xs) = x @ '', '' @ comma_join xs"

lemma split_on_not_Nil [simp]: "split_on d s \<noteq> []"
  by (induction s) (auto split: list.splits)

lemma split_on_no_sep: "w \<in> set (split_on d s) \<Longrightarrow> d \<notin> set w"
  by (induction s arbitrary: w) (auto split: if_splits list.splits)

lemma split_on_free: "d \<notin> set w \<Longrightarrow> split_on d w = [w]"
  by (induction w) auto

lemma split_on_append_sep: "d \<notin> set w \<Longrightarrow> split_on d (w @ d # s) = w # split_on d s"
  by (induction w) auto

lemma split_join: "ws \<noteq> [] \<Longrightarrow> (\<And>w. w \<in> set ws \<Longrightarrow> d \<notin> set w) \<Longrightarrow> split_on d (join_with d ws) = ws"
  by (induction d ws rule: join_with.induct) (auto simp: split_on_free split_on_append_sep)

lemma split_on_join_append:
  "ws \<noteq> [] \<Longrightarrow> (\<And>w. w \<in> set ws \<Longrightarrow> d \<notin> set w) \<Longrightarrow> split_on d (join_with d ws @ d # s) = ws @ split_on d s"
  by (induction d ws rule: join_with.induct) (auto simp: split_on_append_sep)

lemma join_with_append:
  "xs \<noteq> [] \<Longrightarrow> ys \<noteq> [] \<Longrightarrow> join_with d (xs @ ys) = join_with d xs @ d # join_with d ys"
  by (induction d xs rule: join_with.induct) (auto simp: neq_Nil_conv)

section \<open>Rows\<close>

text \<open>\<open>UPDATE ... WHERE\<close> and its \<open>rowcount\<close>.\<close>

definition update_where :: "('r \<Rightarrow> bool) \<Rightarrow> ('r \<Rightarrow> 'r) \<Rightarrow> 'r list \<Rightarrow> 'r list" where
  "update_where P f rows = map (\<lambda>r. if P r then f r else r) rows"

definition rowcount :: "('r \<Rightarrow> bool) \<Rightarrow> 'r list \<Rightarrow> nat" where
  "rowcount P rows = length (filter P rows)"

lemma set_update_where: "set (update_where P f rows) = (\<lambda>r. if P r then f r else r) ` set rows"
  by (simp add: update_where_def)

lemma map_update_where: "(\<And>r. k (f r) = k r) \<Longrightarrow> map k (update_where P f rows) = map k rows"
  by (simp add: update_where_def)

lemma rowcount_one: "rowcount P rows = 1 \<Longrightarrow> \<exists>r \<in> set rows. P r"
  unfolding rowcount_def by (metis filter_empty_conv list.size(3) zero_neq_one)

lemma rowcount_key:
  assumes "distinct (map k rows)" and "r \<in> set rows"
  shows "rowcount (\<lambda>x. k x = k r \<and> Q x) rows = (if Q r then 1 else 0)"
  using assms by (induction rows) (auto simp: rowcount_def image_iff filter_empty_conv)

lemma find_map_key:
  assumes "\<And>r. r \<in> set xs \<Longrightarrow> P (f r) = P r"
  shows "find P (map f xs) = map_option f (find P xs)"
  using assms by (induction xs) auto

lemma find_append: "find P (xs @ ys) = (case find P xs of Some x \<Rightarrow> Some x | None \<Rightarrow> find P ys)"
  by (induction xs) auto

lemma find_SomeD: "find P xs = Some x \<Longrightarrow> x \<in> set xs \<and> P x"
  by (induction xs) (auto split: if_splits)

lemma find_NoneD: "find P xs = None \<Longrightarrow> x \<in> set xs \<Longrightarrow> \<not> P x"
  by (induction xs) (auto split: if_splits)

lemma find_distinct_key:
  assumes "distinct (map k xs)" and "x \<in> set xs"
  shows "find (\<lambda>r. k r = k x) xs = Some x"
  using assms by (induction xs) (auto simp: image_iff)

section \<open>Enumerations\<close>

text \<open>\<open>Enum(text)\<close>: the member with that value, or \<open>ValueError\<close>.\<close>

definition member_of :: "('e \<Rightarrow> string) \<Rightarrow> 'e list \<Rightarrow> string \<Rightarrow> 'e res" where
  "member_of val members s = (case find (\<lambda>m. val m = s) members of None \<Rightarrow> Inl ValueError | Some m \<Rightarrow> Inr m)"

lemma member_of_Inr: "member_of val ms s = Inr m \<Longrightarrow> m \<in> set ms \<and> val m = s"
  by (auto simp: member_of_def split: option.splits dest: find_SomeD)

lemma member_of_value:
  "(\<And>x y. val x = val y \<Longrightarrow> x = y) \<Longrightarrow> m \<in> set ms \<Longrightarrow> member_of val ms (val m) = Inr m"
  by (induction ms) (auto simp: member_of_def split: option.splits)

lemma find_key: "distinct (map f xs) \<Longrightarrow> find (\<lambda>b. f b = k) xs = Some a \<longleftrightarrow> a \<in> set xs \<and> f a = k"
  by (induction xs) (auto simp: image_iff)

lemma rmap_self: "(\<And>x. x \<in> set xs \<Longrightarrow> f x = Inr x) \<Longrightarrow> rmap f xs = Inr xs"
  by (induction xs) auto

end
