(* ===== verification/Policy.thy ===== *)
theory Policy
  imports Prelude
begin

text \<open>
  Models \<open>src/artifex/policy.py\<close> (trust and authority enumerations, the secret
  scrubber, the privilege ceiling) and \<open>src/artifex/ids.py\<close> (stable identifiers).

  The regular expressions of both files are written as deterministic scanners. In each of them the
  alternatives start with different letters and adjacent classes are disjoint, so Python's greedy
  backtracking search has at most one way to match at a position, which is the one the scanner takes.
  Shown: an identifier survives its own parsing; the scrubber changes a text exactly when
  one of its patterns occurs in it.
\<close>

section \<open>Authority and trust\<close>

datatype instruction_trust = ACCEPTED_AUTHORITY | TRUST_USER | IMPLEMENTATION | EXTERNAL_DATA

datatype acceptance_authority = CORE | INDEPENDENT_VALIDATOR | ARCHITECT | HUMAN

definition can_transition_canonical_acceptance :: "acceptance_authority \<Rightarrow> bool" where
  "can_transition_canonical_acceptance authority = (authority = CORE)"

definition can_supply_instructions :: "instruction_trust \<Rightarrow> bool" where
  "can_supply_instructions trust = (trust \<noteq> EXTERNAL_DATA)"

record privilege_policy =
  allowed :: "string set"

definition permits_overlay :: "privilege_policy \<Rightarrow> string set \<Rightarrow> bool" where
  "permits_overlay p requested = (requested \<subseteq> allowed p)"

section \<open>Secret scrubbing\<close>

text \<open>A literal of a pattern compiled with \<open>re.IGNORECASE\<close>: what is left after it.\<close>

definition same_ci :: "char \<Rightarrow> char \<Rightarrow> bool" where
  "same_ci a b = (casefold [a] = casefold [b])"

fun eat_ci :: "string \<Rightarrow> string \<Rightarrow> string option" where
  "eat_ci [] s = Some s"
| "eat_ci (p # ps) [] = None"
| "eat_ci (p # ps) (c # cs) = (if same_ci p c then eat_ci ps cs else None)"

definition or_else :: "'a option \<Rightarrow> 'a option \<Rightarrow> 'a option" where
  "or_else a b = (case a of Some x \<Rightarrow> Some x | None \<Rightarrow> b)"

lemma or_else_Some_iff: "or_else a b = Some x \<longleftrightarrow> a = Some x \<or> a = None \<and> b = Some x"
  by (simp add: or_else_def split: option.split)

lemma case_None_Some_iff: "(case a of None \<Rightarrow> None | Some y \<Rightarrow> f y) = Some x \<longleftrightarrow> (\<exists>y. a = Some y \<and> f y = Some x)"
  by (simp split: option.split)

text \<open>\<open>[_-]?\<close>\<close>

definition eat_sep :: "string \<Rightarrow> string" where
  "eat_sep s = (case s of [] \<Rightarrow> [] | c # cs \<Rightarrow> if c = CHR ''_'' \<or> c = CHR ''-'' then cs else s)"

text \<open>\<open>(?P<label>api[_-]?key|token|password|secret)\<close>\<close>

definition eat_label :: "string \<Rightarrow> string option" where
  "eat_label s =
     or_else (case eat_ci ''api'' s of None \<Rightarrow> None | Some r \<Rightarrow> eat_ci ''key'' (eat_sep r))
       (or_else (eat_ci ''token'' s) (or_else (eat_ci ''password'' s) (eat_ci ''secret'' s)))"

definition value_char :: "char \<Rightarrow> bool" where
  "value_char c = (\<not> is_space c \<and> c \<noteq> CHR '','' \<and> c \<noteq> CHR '';'')"

text \<open>The label, \<open>\s*[:=]\s*\<close> and \<open>(?P<value>[^\s,;]+)\<close>.\<close>

definition match_labelled :: "string \<Rightarrow> string option" where
  "match_labelled s =
     (case eat_label s of
        None \<Rightarrow> None
      | Some r \<Rightarrow>
          (case dropWhile is_space r of
             [] \<Rightarrow> None
           | c # cs \<Rightarrow>
               if c = CHR '':'' \<or> c = CHR ''='' then
                 (let v = dropWhile is_space cs in
                  if takeWhile value_char v = [] then None else Some (dropWhile value_char v))
               else None))"

definition word_char :: "char \<Rightarrow> bool" where
  "word_char c = (is_upper c \<or> is_lower c \<or> is_digit c \<or> c = CHR ''_'')"

text \<open>\<open>gh[opusr]_[A-Za-z0-9_]{20,}\<close>\<close>

definition match_github :: "string \<Rightarrow> string option" where
  "match_github s =
     (case eat_ci ''gh'' s of
        Some (k # u # r) \<Rightarrow>
          if (\<exists>x \<in> set ''opusr''. same_ci x k) \<and> u = CHR ''_'' \<and> 20 \<le> length (takeWhile word_char r)
          then Some (dropWhile word_char r) else None
      | _ \<Rightarrow> None)"

definition dash_word_char :: "char \<Rightarrow> bool" where
  "dash_word_char c = (word_char c \<or> c = CHR ''-'')"

text \<open>\<open>sk-[A-Za-z0-9_-]{20,}\<close>\<close>

definition match_sk :: "string \<Rightarrow> string option" where
  "match_sk s =
     (case eat_ci ''sk-'' s of
        Some r \<Rightarrow> if 20 \<le> length (takeWhile dash_word_char r) then Some (dropWhile dash_word_char r) else None
      | None \<Rightarrow> None)"

text \<open>\<open>pattern.sub(replacement, text)\<close>: leftmost matches, scanning on after each.\<close>

fun sub_all :: "(string \<Rightarrow> string option) \<Rightarrow> string \<Rightarrow> string" where
  "sub_all m [] = []"
| "sub_all m (c # cs) =
     (case m (c # cs) of
        Some r \<Rightarrow> if length r \<le> length cs then ''[REDACTED]'' @ sub_all m r else c # sub_all m cs
      | None \<Rightarrow> c # sub_all m cs)"

definition scrub_secrets :: "string \<Rightarrow> string" where
  "scrub_secrets text = sub_all match_sk (sub_all match_github (sub_all match_labelled text))"

subsection \<open>When the scrubber leaves a text alone\<close>

definition occurs :: "(string \<Rightarrow> string option) \<Rightarrow> string \<Rightarrow> bool" where
  "occurs m s = (\<exists>t. suffix t s \<and> t \<noteq> [] \<and> m t \<noteq> None)"

definition contains_secret :: "string \<Rightarrow> bool" where
  "contains_secret s = (occurs match_labelled s \<or> occurs match_github s \<or> occurs match_sk s)"

text \<open>A pattern consumes at least a character and does not start with a bracket.\<close>

definition proper_match :: "(string \<Rightarrow> string option) \<Rightarrow> bool" where
  "proper_match m = (\<forall>c cs r. m (c # cs) = Some r \<longrightarrow> length r \<le> length cs \<and> c \<noteq> CHR ''['')"

lemma eat_ci_length: "eat_ci p s = Some r \<Longrightarrow> length r + length p = length s"
  by (induction p s rule: eat_ci.induct) (auto split: if_splits)

lemma eat_ci_Cons: "eat_ci (p # ps) s = Some r \<Longrightarrow> \<exists>c cs. s = c # cs \<and> same_ci p c"
  by (cases s) (auto split: if_splits)

lemma same_ci_bracket:
  "\<not> same_ci CHR ''a'' CHR ''[''" "\<not> same_ci CHR ''t'' CHR ''[''" "\<not> same_ci CHR ''p'' CHR ''[''"
  "\<not> same_ci CHR ''s'' CHR ''[''" "\<not> same_ci CHR ''g'' CHR ''[''"
  by code_simp+

lemma eat_label_proper:
  assumes "eat_label (c # cs) = Some r"
  shows "length r \<le> length cs \<and> c \<noteq> CHR ''[''"
proof -
  have api: "length r' \<le> length cs \<and> c \<noteq> CHR ''[''"
    if "eat_ci ''api'' (c # cs) = Some r'" for r'
    using eat_ci_length [OF that] eat_ci_Cons [OF that] same_ci_bracket by auto
  have key: "length r \<le> length q" if "eat_ci ''key'' q = Some r" for q
    using eat_ci_length [OF that] by simp
  have word: "length r \<le> length cs \<and> c \<noteq> CHR ''[''"
    if "eat_ci w (c # cs) = Some r" and "w = ''token'' \<or> w = ''password'' \<or> w = ''secret''" for w
    using eat_ci_length [OF that(1)] that eat_ci_Cons same_ci_bracket by fastforce
  have sep: "length (eat_sep q) \<le> length q" for q
    by (simp add: eat_sep_def split: list.split)
  consider q where "eat_ci ''api'' (c # cs) = Some q" "eat_ci ''key'' (eat_sep q) = Some r"
    | w where "eat_ci w (c # cs) = Some r" "w = ''token'' \<or> w = ''password'' \<or> w = ''secret''"
    using assms unfolding eat_label_def or_else_Some_iff case_None_Some_iff by blast
  then show ?thesis
  proof cases
    case 1
    then show ?thesis using api [OF 1(1)] key [OF 1(2)] sep [of q] by linarith
  next
    case 2
    then show ?thesis by (rule word)
  qed
qed

lemma length_dropWhile_Cons: "dropWhile P s = c # cs \<Longrightarrow> length cs \<le> length s"
  by (metis length_Cons length_dropWhile_le Suc_leD)

lemma match_labelled_proper: "proper_match match_labelled"
  unfolding proper_match_def
proof (intro allI impI)
  fix c cs r
  assume m: "match_labelled (c # cs) = Some r"
  then obtain q d ds where q: "eat_label (c # cs) = Some q" "dropWhile is_space q = d # ds"
    and r: "r = dropWhile value_char (dropWhile is_space ds)"
    by (auto simp: match_labelled_def Let_def split: option.splits list.splits if_splits)
  have "length r \<le> length ds"
    unfolding r by (meson le_trans length_dropWhile_le)
  also have "\<dots> \<le> length q" by (rule length_dropWhile_Cons [OF q(2)])
  finally show "length r \<le> length cs \<and> c \<noteq> CHR ''[''"
    using eat_label_proper [OF q(1)] by simp
qed

lemma match_github_proper: "proper_match match_github"
  unfolding proper_match_def
proof (intro allI impI)
  fix c cs r
  assume m: "match_github (c # cs) = Some r"
  then obtain k u q where q: "eat_ci ''gh'' (c # cs) = Some (k # u # q)" and r: "r = dropWhile word_char q"
    by (auto simp: match_github_def split: option.splits list.splits if_splits)
  have "length r \<le> length q" unfolding r by (rule length_dropWhile_le)
  then show "length r \<le> length cs \<and> c \<noteq> CHR ''[''"
    using eat_ci_length [OF q] eat_ci_Cons [OF q] same_ci_bracket by auto
qed

lemma match_sk_proper: "proper_match match_sk"
  unfolding proper_match_def
proof (intro allI impI)
  fix c cs r
  assume m: "match_sk (c # cs) = Some r"
  then obtain q where q: "eat_ci ''sk-'' (c # cs) = Some q" and r: "r = dropWhile dash_word_char q"
    by (auto simp: match_sk_def split: option.splits if_splits)
  have "length r \<le> length q" unfolding r by (rule length_dropWhile_le)
  then show "length r \<le> length cs \<and> c \<noteq> CHR ''[''"
    using eat_ci_length [OF q] eat_ci_Cons [OF q] same_ci_bracket by auto
qed

lemma occurs_Cons: "occurs m (c # cs) \<longleftrightarrow> m (c # cs) \<noteq> None \<or> occurs m cs"
  by (auto simp: occurs_def suffix_Cons)

lemma sub_all_id_iff:
  assumes "proper_match m"
  shows "sub_all m s = s \<longleftrightarrow> \<not> occurs m s"
proof (induction s)
  case Nil
  show ?case by (simp add: occurs_def)
next
  case (Cons c cs)
  then show ?case
    using assms by (auto simp: occurs_Cons proper_match_def split: option.splits)
qed

lemmas pattern_proper = match_labelled_proper match_github_proper match_sk_proper

text \<open>
  A pass that changes a text puts an opening bracket where the text has another character,
  at the first position it changes; no later pass can undo that.
\<close>

definition marked :: "string \<Rightarrow> string \<Rightarrow> bool" where
  "marked s t = (\<exists>i. i < length s \<and> i < length t \<and> take i s = take i t \<and> s ! i \<noteq> CHR ''['' \<and> t ! i = CHR ''['')"

lemma marked_neq: "marked s t \<Longrightarrow> t \<noteq> s"
  by (auto simp: marked_def)

lemma marked_Cons: "marked s t \<Longrightarrow> marked (c # s) (c # t)"
  unfolding marked_def by (auto intro: exI [where x = "Suc i" for i])

lemma marked_trans:
  assumes "marked s t" and "marked t u"
  shows "marked s u"
proof -
  from assms(1) obtain i where i: "i < length s" "i < length t" "take i s = take i t" "s ! i \<noteq> CHR ''[''" "t ! i = CHR ''[''"
    by (auto simp: marked_def)
  from assms(2) obtain j where j: "j < length t" "j < length u" "take j t = take j u" "t ! j \<noteq> CHR ''[''" "u ! j = CHR ''[''"
    by (auto simp: marked_def)
  consider "i < j" | "j < i" using i j by (metis linorder_less_linear)
  then show ?thesis
  proof cases
    case 1
    then have "take i t = take i u" "t ! i = u ! i"
      using j(3) by (metis min.absorb1 less_imp_le take_take) (metis 1 j(3) nth_take)
    with i 1 j show ?thesis by (auto simp: marked_def intro!: exI [where x = i])
  next
    case 2
    then have "take j s = take j t" "s ! j = t ! j"
      using i(3) by (metis min.absorb1 less_imp_le take_take) (metis 2 i(3) nth_take)
    with i 2 j show ?thesis by (auto simp: marked_def intro!: exI [where x = j])
  qed
qed

lemma sub_all_marked:
  assumes "proper_match m"
  shows "sub_all m s = s \<or> marked s (sub_all m s)"
proof (induction s)
  case Nil
  show ?case by simp
next
  case (Cons c cs)
  show ?case
  proof (cases "m (c # cs)")
    case None
    with Cons show ?thesis by (auto dest: marked_Cons)
  next
    case (Some r)
    with assms have "length r \<le> length cs" "c \<noteq> CHR ''[''"
      by (auto simp: proper_match_def)
    with Some show ?thesis
      by (auto simp: marked_def intro!: exI [where x = 0])
  qed
qed

lemma scrub_id_iff: "scrub_secrets s = s \<longleftrightarrow> \<not> contains_secret s"
proof -
  define s1 where "s1 = sub_all match_labelled s"
  define s2 where "s2 = sub_all match_github s1"
  define s3 where "s3 = sub_all match_sk s2"
  have step: "s1 = s \<or> marked s s1" "s2 = s1 \<or> marked s1 s2" "s3 = s2 \<or> marked s2 s3"
    unfolding s1_def s2_def s3_def by (rule sub_all_marked, rule pattern_proper)+
  have "s3 = s \<longleftrightarrow> s1 = s \<and> s2 = s \<and> s3 = s"
    using step by (metis marked_neq marked_trans)
  also have "\<dots> \<longleftrightarrow> \<not> contains_secret s"
    using sub_all_id_iff [OF pattern_proper(1), of s] sub_all_id_iff [OF pattern_proper(2), of s]
      sub_all_id_iff [OF pattern_proper(3), of s]
    by (auto simp: contains_secret_def s1_def s2_def s3_def)
  finally show ?thesis by (simp add: scrub_secrets_def s1_def s2_def s3_def)
qed

subsection \<open>What the scrubber leaves holds no secret\<close>

text \<open>
  One pass edits a text by putting a bracket where a match began, and a match begins with a
  letter. Every scanner that succeeds on the edited text therefore succeeds on the original at
  the same place, so no pass creates an occurrence of any pattern.
\<close>

definition is_letter :: "char \<Rightarrow> bool" where
  "is_letter c = (is_upper c \<or> is_lower c)"

definition edited :: "string \<Rightarrow> string \<Rightarrow> bool" where
  "edited u v = (u = v \<or> (\<exists>p c x y. u = p @ c # x \<and> v = p @ CHR ''['' # y \<and> is_letter c))"

definition letter_match :: "(string \<Rightarrow> string option) \<Rightarrow> bool" where
  "letter_match m = (\<forall>c cs r. m (c # cs) = Some r \<longrightarrow> suffix r cs \<and> is_letter c)"

lemma edited_refl: "edited u u"
  by (simp add: edited_def)

lemma edited_Cons: "edited u v \<Longrightarrow> edited (c # u) (c # v)"
  unfolding edited_def by (metis append_Cons)

lemma edited_ConsD:
  assumes "edited u (d # ds)" and "d \<noteq> CHR ''[''"
  shows "\<exists>us. u = d # us \<and> edited us ds"
proof -
  from assms(1) consider "u = d # ds"
    | p c x y where "u = p @ c # x" "d # ds = p @ CHR ''['' # y" "is_letter c"
    unfolding edited_def by blast
  then show ?thesis
  proof cases
    case 1
    then show ?thesis by (simp add: edited_refl)
  next
    case 2
    with assms(2) obtain q where "p = d # q" by (cases p) auto
    with 2 show ?thesis by (auto simp: edited_def)
  qed
qed

lemma edited_bracketD: "edited u (CHR ''['' # ds) \<Longrightarrow> \<exists>c us. u = c # us \<and> (c = CHR ''['' \<or> is_letter c)"
  unfolding edited_def by (auto simp: append_eq_Cons_conv Cons_eq_append_conv)

lemma edited_NilD: "edited u [] \<Longrightarrow> u = []"
  by (auto simp: edited_def)

lemma letter_classes:
  "is_letter c \<Longrightarrow> \<not> is_space c" "is_letter c \<Longrightarrow> value_char c" "is_letter c \<Longrightarrow> c \<noteq> CHR ''_'' \<and> c \<noteq> CHR ''-''"
  by (auto simp: is_letter_def is_upper_def is_lower_def is_space_def value_char_def ccode_def)

lemma bracket_classes:
  "\<not> is_space CHR ''[''" "value_char CHR ''[''" "\<not> word_char CHR ''[''" "\<not> dash_word_char CHR ''[''"
  by code_simp+

lemma edited_eat_ci:
  assumes "edited u v" and "eat_ci w v = Some r" and "\<forall>c \<in> set w. \<not> same_ci c CHR ''[''"
  shows "\<exists>r'. eat_ci w u = Some r' \<and> edited r' r"
  using assms
proof (induction w v arbitrary: u rule: eat_ci.induct)
  case (1 s)
  then show ?case by simp
next
  case (2 p ps)
  then show ?case by simp
next
  case (3 p ps c cs)
  then have "same_ci p c" "c \<noteq> CHR ''[''" "eat_ci ps cs = Some r" by (auto split: if_splits)
  with 3 edited_ConsD obtain us where "u = c # us" "edited us cs" by blast
  with 3 \<open>same_ci p c\<close> show ?case by auto
qed

lemma edited_dropWhile_space: "edited u v \<Longrightarrow> edited (dropWhile is_space u) (dropWhile is_space v)"
proof (induction v arbitrary: u)
  case Nil
  then show ?case by (auto dest: edited_NilD simp: edited_refl)
next
  case (Cons d ds)
  show ?case
  proof (cases "d = CHR ''[''")
    case True
    with Cons.prems obtain c us where u: "u = c # us" "c = CHR ''['' \<or> is_letter c"
      by (auto dest: edited_bracketD)
    then have "dropWhile is_space u = u"
      using bracket_classes(1) letter_classes(1) by auto
    with True Cons.prems show ?thesis by (simp add: bracket_classes)
  next
    case False
    with Cons.prems obtain us where "u = d # us" "edited us ds" by (auto dest: edited_ConsD)
    with Cons show ?thesis by simp
  qed
qed

lemma edited_eat_sep: "edited u v \<Longrightarrow> edited (eat_sep u) (eat_sep v)"
proof (cases v)
  case Nil
  then show "edited u v \<Longrightarrow> ?thesis" by (auto dest: edited_NilD simp: edited_refl)
next
  case (Cons d ds)
  assume e: "edited u v"
  show ?thesis
  proof (cases "d = CHR ''[''")
    case True
    with Cons e obtain c us where "u = c # us" "c = CHR ''['' \<or> is_letter c"
      by (auto dest: edited_bracketD)
    with e True Cons show ?thesis using letter_classes(3) by (auto simp: eat_sep_def)
  next
    case False
    with Cons e obtain us where "u = d # us" "edited us ds" by (auto dest: edited_ConsD)
    with e Cons show ?thesis by (auto simp: eat_sep_def)
  qed
qed

lemma edited_takeWhile_length:
  "edited u v \<Longrightarrow> \<not> P CHR ''['' \<Longrightarrow> length (takeWhile P v) \<le> length (takeWhile P u)"
proof (induction v arbitrary: u)
  case Nil
  then show ?case by simp
next
  case (Cons d ds)
  show ?case
  proof (cases "P d")
    case True
    with Cons.prems obtain us where "u = d # us" "edited us ds" by (metis edited_ConsD)
    with Cons show ?thesis by simp
  next
    case False
    then show ?thesis by simp
  qed
qed

lemma no_bracket_words:
  "\<forall>c \<in> set ''api''. \<not> same_ci c CHR ''[''" "\<forall>c \<in> set ''key''. \<not> same_ci c CHR ''[''"
  "\<forall>c \<in> set ''token''. \<not> same_ci c CHR ''[''" "\<forall>c \<in> set ''password''. \<not> same_ci c CHR ''[''"
  "\<forall>c \<in> set ''secret''. \<not> same_ci c CHR ''[''" "\<forall>c \<in> set ''gh''. \<not> same_ci c CHR ''[''"
  "\<forall>c \<in> set ''sk-''. \<not> same_ci c CHR ''[''" "\<forall>c \<in> set ''opusr''. \<not> same_ci c CHR ''[''"
  by code_simp+

text \<open>The labels start with different letters, so the order of the alternatives does not matter.\<close>

lemma eat_ci_exclusive:
  assumes "eat_ci (x # w) s = Some q" and "casefold [x] \<noteq> casefold [y]"
  shows "eat_ci (y # w') s = None"
  using eat_ci_Cons [OF assms(1)] assms(2) by (auto simp: same_ci_def)

lemma label_initials:
  "casefold ''a'' = ''a''" "casefold ''t'' = ''t''" "casefold ''p'' = ''p''" "casefold ''s'' = ''s''"
  "casefold ''g'' = ''g''"
  by code_simp+

lemma eat_label_iff:
  "eat_label s = Some r \<longleftrightarrow>
     (\<exists>q. eat_ci ''api'' s = Some q \<and> eat_ci ''key'' (eat_sep q) = Some r) \<or>
     eat_ci ''token'' s = Some r \<or> eat_ci ''password'' s = Some r \<or> eat_ci ''secret'' s = Some r"
proof -
  have "eat_ci ''api'' s = None" if "eat_ci ''token'' s = Some q \<or> eat_ci ''password'' s = Some q \<or> eat_ci ''secret'' s = Some q" for q
    using that by (elim disjE; elim eat_ci_exclusive; simp add: label_initials)
  moreover have "eat_ci ''token'' s = None" if "eat_ci ''password'' s = Some q \<or> eat_ci ''secret'' s = Some q" for q
    using that by (elim disjE; elim eat_ci_exclusive; simp add: label_initials)
  moreover have "eat_ci ''password'' s = None" if "eat_ci ''secret'' s = Some q" for q
    using that by (elim eat_ci_exclusive) (simp add: label_initials)
  ultimately show ?thesis
    unfolding eat_label_def or_else_Some_iff case_None_Some_iff
    by (metis (no_types, lifting) option.simps(4))
qed

lemma edited_eat_label:
  assumes "edited u v" and "eat_label v = Some r"
  shows "\<exists>r'. eat_label u = Some r' \<and> edited r' r"
proof -
  note ec = edited_eat_ci [OF assms(1)]
  from assms(2) consider q where "eat_ci ''api'' v = Some q" "eat_ci ''key'' (eat_sep q) = Some r"
    | "eat_ci ''token'' v = Some r" | "eat_ci ''password'' v = Some r" | "eat_ci ''secret'' v = Some r"
    unfolding eat_label_iff by blast
  then show ?thesis
  proof cases
    case 1
    from ec [OF 1(1) no_bracket_words(1)] obtain q' where q': "eat_ci ''api'' u = Some q'" "edited q' q"
      by blast
    from edited_eat_ci [OF edited_eat_sep [OF q'(2)] 1(2) no_bracket_words(2)] q'(1) show ?thesis
      unfolding eat_label_iff by blast
  next
    case 2
    from ec [OF this no_bracket_words(3)] show ?thesis unfolding eat_label_iff by blast
  next
    case 3
    from ec [OF this no_bracket_words(4)] show ?thesis unfolding eat_label_iff by blast
  next
    case 4
    from ec [OF this no_bracket_words(5)] show ?thesis unfolding eat_label_iff by blast
  qed
qed

text \<open>A scanner that finds nothing in a text finds nothing in an edited copy of it.\<close>

definition edit_stable :: "(string \<Rightarrow> string option) \<Rightarrow> bool" where
  "edit_stable m = (\<forall>u v. edited u v \<longrightarrow> m v \<noteq> None \<longrightarrow> m u \<noteq> None)"

lemma match_labelled_stable: "edit_stable match_labelled"
  unfolding edit_stable_def
proof (intro allI impI)
  fix u v
  assume e: "edited u v" and m: "match_labelled v \<noteq> None"
  then obtain r d ds where r: "eat_label v = Some r" "dropWhile is_space r = d # ds"
    "d = CHR '':'' \<or> d = CHR ''=''" "takeWhile value_char (dropWhile is_space ds) \<noteq> []"
    by (auto simp: match_labelled_def Let_def split: option.splits list.splits if_splits)
  from edited_eat_label [OF e r(1)] obtain r' where r': "eat_label u = Some r'" "edited r' r"
    by blast
  from edited_dropWhile_space [OF r'(2)] r(2,3) obtain ds' where
    ds': "dropWhile is_space r' = d # ds'" "edited ds' ds"
    by (auto dest: edited_ConsD)
  have ed: "edited (dropWhile is_space ds') (dropWhile is_space ds)"
    by (rule edited_dropWhile_space [OF ds'(2)])
  from r(4) obtain x xs where x: "dropWhile is_space ds = x # xs" "value_char x"
    by (cases "dropWhile is_space ds") (auto split: if_splits)
  have "takeWhile value_char (dropWhile is_space ds') \<noteq> []"
  proof (cases "x = CHR ''[''")
    case True
    with ed x obtain c us where "dropWhile is_space ds' = c # us" "c = CHR ''['' \<or> is_letter c"
      by (auto dest: edited_bracketD)
    then show ?thesis using letter_classes(2) bracket_classes(2) by auto
  next
    case False
    with ed x show ?thesis by (auto dest: edited_ConsD)
  qed
  with r' ds' r(3) show "match_labelled u \<noteq> None"
    by (auto simp: match_labelled_def Let_def)
qed

lemma match_github_stable: "edit_stable match_github"
  unfolding edit_stable_def
proof (intro allI impI)
  fix u v
  assume e: "edited u v" and m: "match_github v \<noteq> None"
  then obtain k r where r: "eat_ci ''gh'' v = Some (k # CHR ''_'' # r)"
    "\<exists>x \<in> set ''opusr''. same_ci x k" "20 \<le> length (takeWhile word_char r)"
    by (auto simp: match_github_def split: option.splits list.splits if_splits)
  from edited_eat_ci [OF e r(1) no_bracket_words(6)] obtain q where
    q: "eat_ci ''gh'' u = Some q" "edited q (k # CHR ''_'' # r)" by blast
  have "k \<noteq> CHR ''[''" using r(2) no_bracket_words(8) by blast
  with q(2) obtain q' where "q = k # q'" "edited q' (CHR ''_'' # r)" by (auto dest: edited_ConsD)
  then obtain r' where r': "q = k # CHR ''_'' # r'" "edited r' r" by (auto dest: edited_ConsD)
  from edited_takeWhile_length [where P = word_char, OF r'(2) bracket_classes(3)] r q r' show "match_github u \<noteq> None"
    by (auto simp: match_github_def)
qed

lemma match_sk_stable: "edit_stable match_sk"
  unfolding edit_stable_def
proof (intro allI impI)
  fix u v
  assume e: "edited u v" and m: "match_sk v \<noteq> None"
  then obtain r where r: "eat_ci ''sk-'' v = Some r" "20 \<le> length (takeWhile dash_word_char r)"
    by (auto simp: match_sk_def split: option.splits if_splits)
  from edited_eat_ci [OF e r(1) no_bracket_words(7)] obtain q where
    q: "eat_ci ''sk-'' u = Some q" "edited q r" by blast
  from edited_takeWhile_length [where P = dash_word_char, OF q(2) bracket_classes(4)] r q show "match_sk u \<noteq> None"
    by (auto simp: match_sk_def)
qed

lemma eat_ci_suffix: "eat_ci w s = Some r \<Longrightarrow> suffix r s"
  by (induction w s rule: eat_ci.induct) (auto intro: suffix_ConsI split: if_splits)

lemma letter_of_same_ci:
  assumes "same_ci x c" and "x \<in> set ''atpsg''"
  shows "is_letter c"
proof -
  have "casefold [c] = [x]"
    using assms label_initials by (auto simp: same_ci_def)
  then have "fold_char c = [x]" by (simp add: casefold_def)
  then have "c = x \<or> (65 \<le> ccode c \<and> ccode c \<le> 90) \<or> (192 \<le> ccode c \<and> char_of (ccode c + 32) = x \<and> ccode c \<le> 222)"
    by (auto simp: fold_char_def Let_def split: if_splits)
  moreover have "\<not> (192 \<le> ccode c \<and> char_of (ccode c + 32) = x \<and> ccode c \<le> 222)"
  proof
    assume a: "192 \<le> ccode c \<and> char_of (ccode c + 32) = x \<and> ccode c \<le> 222"
    then have "ccode x = ccode c + 32" by (auto simp: ccode_def of_char_of)
    with a assms(2) show False by (auto simp: ccode_def)
  qed
  ultimately show ?thesis
    using assms(2) by (auto simp: is_letter_def is_upper_def is_lower_def ccode_def)
qed

lemma eat_ci_start:
  assumes "eat_ci (x # w) (c # cs) = Some q" and "x \<in> set ''atpsg''"
  shows "suffix q cs \<and> is_letter c"
  using assms by (auto split: if_splits intro: letter_of_same_ci dest: eat_ci_suffix)

lemma eat_label_start:
  assumes "eat_label (c # cs) = Some q"
  shows "suffix q cs \<and> is_letter c"
proof -
  have sep: "suffix (eat_sep t) t" for t
    by (auto simp: eat_sep_def suffix_ConsI split: list.split)
  from assms consider t where "eat_ci ''api'' (c # cs) = Some t" "eat_ci ''key'' (eat_sep t) = Some q"
    | x w where "eat_ci (x # w) (c # cs) = Some q" "x \<in> set ''atpsg''"
    unfolding eat_label_iff by fastforce
  then show ?thesis
  proof cases
    case 1
    from eat_ci_start [OF 1(1)] have "suffix t cs" "is_letter c" by auto
    moreover have "suffix q (eat_sep t)" by (rule eat_ci_suffix [OF 1(2)])
    ultimately show ?thesis using sep [of t] by (meson suffix_order.order_trans)
  next
    case 2
    then show ?thesis by (rule eat_ci_start)
  qed
qed

lemma match_labelled_letter: "letter_match match_labelled"
  unfolding letter_match_def
proof (intro allI impI)
  fix c cs r
  assume m: "match_labelled (c # cs) = Some r"
  then obtain q d ds where q: "eat_label (c # cs) = Some q" "dropWhile is_space q = d # ds"
    and r: "r = dropWhile value_char (dropWhile is_space ds)"
    by (auto simp: match_labelled_def Let_def split: option.splits list.splits if_splits)
  have "suffix ds q" using q(2) by (metis suffix_ConsD suffix_dropWhile)
  moreover have "suffix r ds" unfolding r by (meson suffix_dropWhile suffix_order.order_trans)
  ultimately show "suffix r cs \<and> is_letter c"
    using eat_label_start [OF q(1)] by (meson suffix_order.order_trans)
qed

lemma match_github_letter: "letter_match match_github"
  unfolding letter_match_def
proof (intro allI impI)
  fix c cs r
  assume m: "match_github (c # cs) = Some r"
  then obtain k u q where q: "eat_ci ''gh'' (c # cs) = Some (k # u # q)" and r: "r = dropWhile word_char q"
    by (auto simp: match_github_def split: option.splits list.splits if_splits)
  have "suffix q (k # u # q)" by (simp add: suffix_ConsI)
  moreover have "suffix r q" unfolding r by (rule suffix_dropWhile)
  ultimately show "suffix r cs \<and> is_letter c"
    using eat_ci_start [OF q] by (auto intro: suffix_order.order_trans)
qed

lemma match_sk_letter: "letter_match match_sk"
  unfolding letter_match_def
proof (intro allI impI)
  fix c cs r
  assume m: "match_sk (c # cs) = Some r"
  then obtain q where q: "eat_ci ''sk-'' (c # cs) = Some q" and r: "r = dropWhile dash_word_char q"
    by (auto simp: match_sk_def split: option.splits if_splits)
  have "suffix r q" unfolding r by (rule suffix_dropWhile)
  then show "suffix r cs \<and> is_letter c"
    using eat_ci_start [OF q] by (auto intro: suffix_order.order_trans)
qed

text \<open>No pattern begins inside the replacement text itself.\<close>

definition inert :: "(string \<Rightarrow> string option) \<Rightarrow> bool" where
  "inert m = (\<forall>t w. suffix t ''[REDACTED]'' \<longrightarrow> t \<noteq> [] \<longrightarrow> m (t @ w) = None)"

lemma replacement_chars:
  "\<forall>x \<in> set ''tpsg''. \<forall>y \<in> set ''[REDAC]''. \<not> same_ci x y"
  "\<forall>x \<in> set ''apsg''. \<forall>y \<in> set ''[REDTC]''. \<not> same_ci x y"
  "\<not> same_ci CHR ''o'' CHR ''E''"
  by code_simp+

lemma replacement_no_word:
  assumes "suffix t ''[REDACTED]''" and "t \<noteq> []"
  shows "eat_ci ''api'' (t @ w) = None \<and> eat_ci ''token'' (t @ w) = None \<and> eat_ci ''password'' (t @ w) = None \<and>
    eat_ci ''secret'' (t @ w) = None \<and> eat_ci ''gh'' (t @ w) = None \<and> eat_ci ''sk-'' (t @ w) = None"
  using assms replacement_chars by (auto simp: suffix_Cons)

lemma inert_patterns: "inert match_labelled" "inert match_github" "inert match_sk"
  using replacement_no_word
  by (simp_all add: inert_def match_labelled_def match_github_def match_sk_def eat_label_def or_else_def
      del: eat_ci.simps)

lemma sub_all_edited: "letter_match m \<Longrightarrow> edited u (sub_all m u)"
proof (induction u)
  case Nil
  show ?case by (simp add: edited_refl)
next
  case (Cons c cs)
  show ?case
  proof (cases "m (c # cs)")
    case None
    with Cons show ?thesis by (simp add: edited_Cons)
  next
    case (Some r)
    with Cons.prems have "length r \<le> length cs" "is_letter c"
      by (auto simp: letter_match_def dest: suffix_length_le)
    with Some show ?thesis
      by (auto simp: edited_def intro!: exI [where x = "[]"])
  qed
qed

lemma occurs_append:
  assumes "occurs m (p @ w)" and "\<And>t. suffix t p \<Longrightarrow> t \<noteq> [] \<Longrightarrow> m (t @ w) = None"
  shows "occurs m w"
  using assms
proof (induction p)
  case Nil
  then show ?case by simp
next
  case (Cons c p)
  from Cons.prems(2) [of "c # p"] have "m (c # p @ w) = None" by simp
  with Cons.prems(1) have "occurs m (p @ w)" by (simp add: occurs_Cons)
  then show ?case using Cons.prems(2) by (intro Cons.IH) (auto intro: suffix_ConsI)
qed

lemma occurs_suffix: "suffix t s \<Longrightarrow> occurs m t \<Longrightarrow> occurs m s"
  unfolding occurs_def by (meson suffix_order.order_trans)

text \<open>A pass creates no occurrence of any pattern, and removes those of its own.\<close>

lemma sub_all_occurs:
  assumes l: "letter_match m'" and e: "edit_stable m" and i: "inert m"
  shows "occurs m (sub_all m' u) \<Longrightarrow> occurs m u"
proof (induction "length u" arbitrary: u rule: less_induct)
  case less
  show ?case
  proof (cases u)
    case Nil
    with less.prems show ?thesis by (simp add: occurs_def)
  next
    case (Cons c cs)
    show ?thesis
    proof (cases "m' u")
      case None
      with Cons have sub: "sub_all m' u = c # sub_all m' cs" by simp
      have "m (sub_all m' u) \<noteq> None \<Longrightarrow> m u \<noteq> None"
        using e sub_all_edited [OF l, of u] unfolding edit_stable_def by blast
      moreover have "occurs m (sub_all m' cs) \<Longrightarrow> occurs m cs"
        using less.hyps [of cs] Cons by simp
      ultimately show ?thesis
        using less.prems sub Cons by (auto simp: occurs_Cons)
    next
      case (Some r)
      with Cons l have r: "suffix r cs" by (auto simp: letter_match_def)
      then have "length r \<le> length cs" by (rule suffix_length_le)
      with Some Cons have "sub_all m' u = ''[REDACTED]'' @ sub_all m' r" by simp
      with less.prems have "occurs m (sub_all m' r)"
        using i by (metis occurs_append inert_def)
      then have "occurs m r" using less.hyps [of r] Cons \<open>length r \<le> length cs\<close> by simp
      with r Cons show ?thesis by (meson occurs_suffix suffix_ConsI)
    qed
  qed
qed

lemma sub_all_clears:
  assumes l: "letter_match m" and e: "edit_stable m" and i: "inert m"
  shows "\<not> occurs m (sub_all m u)"
proof (induction "length u" arbitrary: u rule: less_induct)
  case less
  show ?case
  proof (cases u)
    case Nil
    then show ?thesis by (simp add: occurs_def)
  next
    case (Cons c cs)
    show ?thesis
    proof (cases "m u")
      case None
      with Cons have "sub_all m u = c # sub_all m cs" by simp
      moreover have "m (sub_all m u) = None"
        using None e sub_all_edited [OF l, of u] unfolding edit_stable_def by blast
      moreover have "\<not> occurs m (sub_all m cs)" using less.hyps [of cs] Cons by simp
      ultimately show ?thesis by (simp add: occurs_Cons)
    next
      case (Some r)
      with Cons l have "suffix r cs" by (auto simp: letter_match_def)
      then have len: "length r \<le> length cs" by (rule suffix_length_le)
      with Some Cons have "sub_all m u = ''[REDACTED]'' @ sub_all m r" by simp
      moreover have "\<not> occurs m (sub_all m r)" using less.hyps [of r] Cons len by simp
      ultimately show ?thesis using i by (metis occurs_append inert_def)
    qed
  qed
qed

lemmas pattern_stable = match_labelled_stable match_github_stable match_sk_stable
lemmas pattern_letter = match_labelled_letter match_github_letter match_sk_letter

lemma scrub_secrets_free: "\<not> contains_secret (scrub_secrets s)"
proof -
  define s1 where "s1 = sub_all match_labelled s"
  define s2 where "s2 = sub_all match_github s1"
  define s3 where "s3 = sub_all match_sk s2"
  have "\<not> occurs match_labelled s1" "\<not> occurs match_github s2" "\<not> occurs match_sk s3"
    unfolding s1_def s2_def s3_def
    by (rule sub_all_clears [OF pattern_letter(1) pattern_stable(1) inert_patterns(1)]
        sub_all_clears [OF pattern_letter(2) pattern_stable(2) inert_patterns(2)]
        sub_all_clears [OF pattern_letter(3) pattern_stable(3) inert_patterns(3)])+
  then have "\<not> contains_secret s3"
    unfolding contains_secret_def s2_def s3_def
    using sub_all_occurs [OF pattern_letter(2) pattern_stable(1) inert_patterns(1)]
      sub_all_occurs [OF pattern_letter(3) pattern_stable(1) inert_patterns(1)]
      sub_all_occurs [OF pattern_letter(3) pattern_stable(2) inert_patterns(2)]
    by blast
  then show ?thesis by (simp add: scrub_secrets_def s1_def s2_def s3_def)
qed

text \<open>
  C35. The scrubber that every persisted result, reason and audit payload goes through removes
  every credential form it knows: its output contains no labelled secret, no GitHub token and no
  sk- key, and scrubbing again changes nothing.
\<close>

theorem scrub_secrets_clean:
  "\<not> contains_secret (scrub_secrets s) \<and> scrub_secrets (scrub_secrets s) = scrub_secrets s"
  using scrub_secrets_free [of s] scrub_id_iff [of "scrub_secrets s"] by simp

section \<open>Stable identifiers\<close>

definition id_char :: "char \<Rightarrow> bool" where
  "id_char c = (is_upper c \<or> is_digit c)"

text \<open>\<open>\d{n}\<close> and \<open>[A-Z0-9][A-Z0-9-]*\<close>\<close>

definition digits :: "nat \<Rightarrow> string \<Rightarrow> bool" where
  "digits n s = (length s = n \<and> list_all is_digit s)"

definition id_body :: "string \<Rightarrow> bool" where
  "id_body s = (case s of [] \<Rightarrow> False | c # cs \<Rightarrow> id_char c \<and> list_all (\<lambda>d. id_char d \<or> d = CHR ''-'') cs)"

definition after :: "string \<Rightarrow> string \<Rightarrow> string option" where
  "after p s = (if prefix p s then Some (drop (length p) s) else None)"

definition matches_after :: "string \<Rightarrow> (string \<Rightarrow> bool) \<Rightarrow> string \<Rightarrow> bool" where
  "matches_after p P s = (case after p s of None \<Rightarrow> False | Some r \<Rightarrow> P r)"

definition id_patterns :: "(string \<Rightarrow> bool) list" where
  "id_patterns =
     [\<lambda>s. matches_after ''REQ-F-'' (digits 3) s \<or> matches_after ''REQ-NF-'' (digits 3) s,
      matches_after ''ADR-'' (\<lambda>r. 5 \<le> length r \<and> digits 3 (drop (length r - 3) r) \<and>
         r ! (length r - 4) = CHR ''-'' \<and> id_body (take (length r - 4) r)),
      matches_after ''INV-'' (digits 3),
      matches_after ''M'' (digits 2),
      matches_after ''M'' (\<lambda>r. digits 2 (take 2 r) \<and> matches_after ''-T'' (digits 2) (drop 2 r)),
      \<lambda>s. list_ex (\<lambda>k. matches_after (k @ ''-'') id_body s)
        [''VAL'', ''EVD'', ''WAV'', ''LES'', ''IMP'', ''CHG'', ''ART'', ''STG'', ''INT'', ''RSR'', ''RBL'']]"

definition stable_id :: "string \<Rightarrow> string res" where
  "stable_id value = (let normalized = upper (strip value) in
     if list_ex (\<lambda>p. p normalized) id_patterns then Inr normalized else Inl ValueError)"

definition id_text :: "string \<Rightarrow> bool" where
  "id_text s = list_all (\<lambda>c. id_char c \<or> c = CHR ''-'') s"

lemma id_text_append [simp]: "id_text (s @ t) \<longleftrightarrow> id_text s \<and> id_text t"
  by (simp add: id_text_def)

lemma digits_id_text: "digits n s \<Longrightarrow> id_text s"
  by (auto simp: digits_def id_text_def id_char_def list_all_iff)

lemma id_body_id_text: "id_body s \<Longrightarrow> id_text s"
  by (auto simp: id_body_def id_text_def split: list.splits)

lemma matches_after_iff: "matches_after p P s \<longleftrightarrow> (\<exists>r. s = p @ r \<and> P r)"
  by (auto simp: matches_after_def after_def prefix_def)

lemma id_literals:
  "list_all (\<lambda>k. id_text (k @ ''-''))
    [''VAL'', ''EVD'', ''WAV'', ''LES'', ''IMP'', ''CHG'', ''ART'', ''STG'', ''INT'', ''RSR'', ''RBL'']"
  "id_text ''M''" "id_text ''-T''" "id_text ''-''"
  by code_simp+

lemma adr_id_text:
  assumes "5 \<le> length r" "digits 3 (drop (length r - 3) r)" "r ! (length r - 4) = CHR ''-''"
    "id_body (take (length r - 4) r)"
  shows "id_text r"
proof -
  have "r = take (length r - 4) r @ r ! (length r - 4) # drop (length r - 3) r"
  proof -
    have "Suc (length r - 4) = length r - 3" using assms(1) by arith
    then show ?thesis using assms(1) id_take_nth_drop [of "length r - 4" r] by simp
  qed
  then show ?thesis
    using assms digits_id_text id_body_id_text id_literals(4)
    by (metis append_Cons append_Nil id_text_append)
qed

lemma task_id_text:
  assumes "digits 2 (take 2 r)" "matches_after ''-T'' (digits 2) (drop 2 r)"
  shows "id_text r"
  using assms digits_id_text id_literals(3) unfolding matches_after_iff
  by (metis append_take_drop_id id_text_append)

lemma matches_after_text:
  "matches_after p P s \<Longrightarrow> id_text p \<Longrightarrow> (\<And>r. P r \<Longrightarrow> id_text r) \<Longrightarrow> id_text s"
  by (auto simp: matches_after_iff)

lemma id_prefixes:
  "id_text ''REQ-F-''" "id_text ''REQ-NF-''" "id_text ''ADR-''" "id_text ''INV-''"
  by code_simp+

lemma id_pattern_text:
  assumes "p \<in> set id_patterns" and "p s"
  shows "id_text s"
proof -
  from assms consider "matches_after ''REQ-F-'' (digits 3) s" | "matches_after ''REQ-NF-'' (digits 3) s"
    | "matches_after ''ADR-'' (\<lambda>r. 5 \<le> length r \<and> digits 3 (drop (length r - 3) r) \<and>
         r ! (length r - 4) = CHR ''-'' \<and> id_body (take (length r - 4) r)) s"
    | "matches_after ''INV-'' (digits 3) s" | "matches_after ''M'' (digits 2) s"
    | "matches_after ''M'' (\<lambda>r. digits 2 (take 2 r) \<and> matches_after ''-T'' (digits 2) (drop 2 r)) s"
    | k where "id_text (k @ ''-'')" "matches_after (k @ ''-'') id_body s"
    using id_literals(1) unfolding id_patterns_def list_ex_iff list_all_iff
    by (simp only: list.set insert_iff empty_iff) blast
  then show ?thesis
    by cases (rule matches_after_text, assumption;
      auto intro: id_prefixes id_literals(2) digits_id_text id_body_id_text adr_id_text task_id_text)+
qed

lemma upper_id_text:
  assumes "id_text s"
  shows "upper s = s"
proof -
  have "upper_char c = [c]" if "id_char c \<or> c = CHR ''-''" for c
    using that by (auto simp: upper_char_def id_char_def is_upper_def is_digit_def ccode_def Let_def)
  with assms show ?thesis
    by (induction s) (auto simp: upper_def id_text_def)
qed

lemma strip_id_text:
  assumes "id_text s"
  shows "strip s = s"
proof -
  have "\<not> is_space c" if "c \<in> set s" for c
    using assms that
    by (auto simp: id_text_def list_all_iff id_char_def is_upper_def is_digit_def is_space_def ccode_def Let_def)
  then have "dropWhile is_space s = s" "dropWhile is_space (rev s) = rev s"
    by (simp_all add: dropWhile_eq_self_iff hd_rev) (meson last_in_set hd_in_set)+
  then show ?thesis by (simp add: strip_def)
qed

lemma stable_id_text:
  assumes "stable_id v = Inr n"
  shows "stable_id n = Inr n" and "id_text n"
proof -
  from assms have n: "n = upper (strip v)" "list_ex (\<lambda>p. p n) id_patterns"
    by (auto simp: stable_id_def Let_def split: if_splits)
  then show t: "id_text n" using id_pattern_text by (auto simp: list_ex_iff)
  with n(2) show "stable_id n = Inr n" by (simp add: stable_id_def Let_def strip_id_text upper_id_text)
qed

text \<open>
  A stable identifier is its own canonical form: parsing the text of an accepted identifier
  gives the same identifier, whatever spacing and letter case it was first written in, and
  the text is upper-case letters, digits and dashes only.
\<close>

theorem stable_id_roundtrip:
  assumes "stable_id v = Inr n"
  shows "stable_id n = Inr n \<and> id_text n"
  using stable_id_text [OF assms] by blast

theorem stable_id_roundtrip_witness:
  "stable_id '' req-f-007'' = Inr ''REQ-F-007'' \<and> stable_id ''REQ-F-007'' = Inr ''REQ-F-007'' \<and> id_text ''REQ-F-007''"
proof -
  have h: "stable_id '' req-f-007'' = Inr ''REQ-F-007''" by code_simp
  show ?thesis using h stable_id_roundtrip [OF h] by blast
qed

end
