(* ===== verification/Workflow.thy ===== *)
theory Workflow
  imports Complex_Main Policy
begin

text \<open>
  Models \<open>src/artifex/workflow/core.py\<close>: stage contracts, the in-memory workflow
  engine and the liveness guard. The engine is the map of its \<open>_stages\<close> dictionary and
  every method is an effect on it; the guard likewise on \<open>_observations\<close>. Instants and
  durations are rational seconds. The SHA-256 \<open>fingerprint\<close> of a contract is not used by the
  engine and is left out.

  Shown: what every sequence of engine calls keeps (contracts never change, states only move
  along the contract's transitions), that canonical acceptance needs Core authority and is final
  under the standard transitions, and that the guard bounds visits and stalls.
\<close>

section \<open>Contracts\<close>

datatype stage_state =
    S_PENDING | S_READY | S_RUNNING | S_CLAIMED_COMPLETE | S_VALIDATING
  | S_ACCEPTED | S_FAILED | S_BLOCKED | S_CANCELLED

datatype execution_status = SUCCESS | FAIL | ES_BLOCKED | ES_CANCELLED | REBASE_REQUIRED

record execution_baseline =
  base_commit :: string
  contract_hash :: string
  project_model_fingerprint :: string

definition execution_baseline_init :: "string \<Rightarrow> string \<Rightarrow> string \<Rightarrow> execution_baseline res" where
  "execution_baseline_init commit contract model =
     (if list_all (\<lambda>v. v \<noteq> [] \<and> strip v = v) [commit, contract, model]
      then Inr \<lparr>base_commit = commit, contract_hash = contract, project_model_fingerprint = model\<rparr>
      else Inl WorkflowError)"

definition classify_execution_result ::
  "execution_baseline \<Rightarrow> execution_baseline \<Rightarrow> execution_status \<Rightarrow> execution_status" where
  "classify_execution_result worker current claimed =
     (if worker \<noteq> current then REBASE_REQUIRED else claimed)"

type_synonym stage_transition = "stage_state \<times> stage_state"

definition stage_transition_init :: "stage_state \<Rightarrow> stage_state \<Rightarrow> stage_transition res" where
  "stage_transition_init source target = (if source = target then Inl WorkflowError else Inr (source, target))"

record liveness_policy =
  max_stage_visits :: int
  max_no_progress_observations :: int
  max_stall_seconds :: rat

definition liveness_policy_check :: "liveness_policy \<Rightarrow> unit res" where
  "liveness_policy_check p =
     rbind (ensure (1 \<le> min (max_stage_visits p) (max_no_progress_observations p)) WorkflowError)
       (\<lambda>_. ensure (0 < max_stall_seconds p) WorkflowError)"

definition default_liveness :: liveness_policy where
  "default_liveness = \<lparr>max_stage_visits = 8, max_no_progress_observations = 3, max_stall_seconds = 900\<rparr>"

definition standard_transitions :: "stage_transition list" where
  "standard_transitions =
    [(S_PENDING, S_READY), (S_PENDING, S_BLOCKED), (S_READY, S_RUNNING), (S_READY, S_BLOCKED),
     (S_RUNNING, S_CLAIMED_COMPLETE), (S_RUNNING, S_READY), (S_RUNNING, S_FAILED), (S_RUNNING, S_BLOCKED),
     (S_CLAIMED_COMPLETE, S_VALIDATING), (S_CLAIMED_COMPLETE, S_RUNNING),
     (S_VALIDATING, S_ACCEPTED), (S_VALIDATING, S_RUNNING), (S_VALIDATING, S_FAILED), (S_BLOCKED, S_READY)]"

record stage_contract =
  stage_id :: string
  requires :: "string list"
  produces :: "string list"
  capabilities :: "string set"
  validators :: "string list"
  transitions :: "stage_transition list"
  liveness :: liveness_policy

definition stage_contract_check :: "stage_contract \<Rightarrow> unit res" where
  "stage_contract_check c =
     rbind (ensure (stage_id c \<noteq> []) WorkflowError) (\<lambda>_.
     rbind (ensure (validators c \<noteq> []) WorkflowError) (\<lambda>_.
     rbind (ensure (distinct (requires c)) WorkflowError) (\<lambda>_.
     rbind (ensure (distinct (produces c)) WorkflowError) (\<lambda>_.
     ensure (distinct (transitions c)) WorkflowError))))"

text \<open>\<open>StageTransition(source, target) in self.transitions\<close>: building the pair raises when nothing changes.\<close>

definition permits :: "stage_contract \<Rightarrow> stage_state \<Rightarrow> stage_state \<Rightarrow> bool res" where
  "permits c source target =
     rbind (stage_transition_init source target) (\<lambda>t. Inr (t \<in> set (transitions c)))"

section \<open>The engine\<close>

record stage_runtime =
  contract :: stage_contract
  state :: stage_state
  baseline :: "execution_baseline option"
  outputs :: "string set"

definition stage_runtime_init :: "stage_contract \<Rightarrow> stage_runtime" where
  "stage_runtime_init c = \<lparr>contract = c, state = S_PENDING, baseline = None, outputs = {}\<rparr>"

type_synonym engine = "string \<Rightarrow> stage_runtime option"

definition set_stage :: "string \<Rightarrow> stage_runtime \<Rightarrow> (engine, stage_runtime) eff" where
  "set_stage i r = (\<lambda>e. (Inr r, e(i \<mapsto> r)))"

definition register :: "stage_contract \<Rightarrow> (engine, stage_runtime) eff" where
  "register c =
     bnd (gets (\<lambda>e. e (stage_id c))) (\<lambda>old.
     bnd (req (old = None) WorkflowError) (\<lambda>_.
     set_stage (stage_id c) (stage_runtime_init c)))"

definition get_stage :: "string \<Rightarrow> (engine, stage_runtime) eff" where
  "get_stage i = bnd (gets (\<lambda>e. e i)) (some_or WorkflowError)"

definition transition :: "string \<Rightarrow> stage_state \<Rightarrow> acceptance_authority option \<Rightarrow> (engine, stage_runtime) eff" where
  "transition i target authority =
     bnd (get_stage i) (\<lambda>runtime.
     bnd (req (target = S_ACCEPTED \<longrightarrow> authority = Some CORE) WorkflowError) (\<lambda>_.
     bnd (lift (permits (contract runtime) (state runtime) target)) (\<lambda>ok.
     bnd (req ok WorkflowError) (\<lambda>_.
     set_stage i (runtime\<lparr>state := target\<rparr>)))))"

definition start :: "string \<Rightarrow> string set \<Rightarrow> string set \<Rightarrow> execution_baseline \<Rightarrow> (engine, stage_runtime) eff" where
  "start i available_inputs available_capabilities b =
     bnd (get_stage i) (\<lambda>runtime.
     bnd (req (set (requires (contract runtime)) - available_inputs = {} \<and>
               capabilities (contract runtime) - available_capabilities = {}) WorkflowError) (\<lambda>_.
     bnd (transition i S_RUNNING None) (\<lambda>running.
     set_stage i (running\<lparr>baseline := Some b\<rparr>))))"

definition claim_complete :: "string \<Rightarrow> string set \<Rightarrow> (engine, stage_runtime) eff" where
  "claim_complete i outs =
     bnd (get_stage i) (\<lambda>runtime.
     bnd (req (set (produces (contract runtime)) - outs = {}) WorkflowError) (\<lambda>_.
     bnd (transition i S_CLAIMED_COMPLETE None) (\<lambda>claimed.
     set_stage i (claimed\<lparr>outputs := outs\<rparr>))))"

definition require_instruction_authority :: "instruction_trust \<Rightarrow> unit res" where
  "require_instruction_authority trust = ensure (can_supply_instructions trust) WorkflowError"

subsection \<open>Runs of calls\<close>

datatype engine_call =
    Register stage_contract
  | Transition string stage_state "acceptance_authority option"
  | Start string "string set" "string set" execution_baseline
  | Claim_Complete string "string set"

fun call :: "engine_call \<Rightarrow> (engine, stage_runtime) eff" where
  "call (Register c) = register c"
| "call (Transition i t a) = transition i t a"
| "call (Start i ins caps b) = start i ins caps b"
| "call (Claim_Complete i outs) = claim_complete i outs"

text \<open>A run goes on after a call that raised, as a client that handles the exception does.\<close>

fun run_calls :: "engine_call list \<Rightarrow> engine \<Rightarrow> engine" where
  "run_calls [] e = e"
| "run_calls (c # cs) e = run_calls cs (snd (call c e))"

lemma bnd_Inr_iff: "bnd m f s = (Inr y, t) \<longleftrightarrow> (\<exists>x s'. m s = (Inr x, s') \<and> f x s' = (Inr y, t))"
  by (auto simp: bnd_def split: prod.splits sum.splits)

lemma snd_bnd: "snd (bnd m f s) = (case m s of (Inl e, s') \<Rightarrow> s' | (Inr x, s') \<Rightarrow> snd (f x s'))"
  by (auto simp: bnd_def split: prod.splits sum.splits)

lemma get_stage_run: "get_stage i e = (case e i of None \<Rightarrow> (Inl WorkflowError, e) | Some r \<Rightarrow> (Inr r, e))"
  by (auto simp: get_stage_def bnd_def split: option.splits)

lemma transition_run:
  "transition i target a e =
     (case e i of
        None \<Rightarrow> (Inl WorkflowError, e)
      | Some r \<Rightarrow>
          if (target = S_ACCEPTED \<longrightarrow> a = Some CORE) \<and> state r \<noteq> target \<and> (state r, target) \<in> set (transitions (contract r))
          then (Inr (r\<lparr>state := target\<rparr>), e(i \<mapsto> r\<lparr>state := target\<rparr>))
          else (Inl WorkflowError, e))"
  by (auto simp: transition_def get_stage_run bnd_def permits_def stage_transition_init_def set_stage_def
      ensure_def split: option.splits)

text \<open>One call moves a stage along one transition of its contract, or not at all.\<close>

definition stage_move :: "engine_call \<Rightarrow> string \<Rightarrow> stage_runtime \<Rightarrow> stage_runtime \<Rightarrow> bool" where
  "stage_move c i r r' \<longleftrightarrow> contract r' = contract r \<and>
     (r' = r \<or> ((state r, state r') \<in> set (transitions (contract r)) \<and> state r' \<noteq> state r \<and>
        (state r' = S_ACCEPTED \<longrightarrow> c = Transition i S_ACCEPTED (Some CORE))))"

lemma call_stage:
  assumes "e i = Some r"
  shows "\<exists>r'. snd (call c e) i = Some r' \<and> stage_move c i r r'"
proof (cases c)
  case (Register k)
  then show ?thesis
    using assms by (auto simp: register_def bnd_def set_stage_def stage_move_def ensure_def)
next
  case (Transition j t a)
  then show ?thesis
    using assms by (auto simp: transition_run stage_move_def split: option.splits)
next
  case (Start j ins caps b)
  then show ?thesis
    using assms
    by (auto simp: start_def bnd_def get_stage_run transition_run set_stage_def stage_move_def ensure_def
        split: option.splits)
next
  case (Claim_Complete j outs)
  then show ?thesis
    using assms
    by (auto simp: claim_complete_def bnd_def get_stage_run transition_run set_stage_def stage_move_def ensure_def
        split: option.splits)
qed

lemma call_new_stage:
  assumes "e i = None" and "snd (call c e) i = Some r"
  shows "c = Register (contract r) \<and> stage_id (contract r) = i \<and> r = stage_runtime_init (contract r)"
  using assms
  by (cases c)
    (auto simp: register_def start_def claim_complete_def bnd_def get_stage_run transition_run set_stage_def
      ensure_def stage_runtime_init_def split: option.splits if_splits)

text \<open>
  What a run of calls may do to a registered stage: keep its contract, follow its transitions,
  and accept only on a call that carries Core authority.
\<close>

lemma run_calls_stage:
  assumes "e i = Some r"
  shows "\<exists>r'. run_calls cs e i = Some r' \<and> contract r' = contract r \<and>
     (state r, state r') \<in> (set (transitions (contract r)))\<^sup>* \<and>
     (state r' = S_ACCEPTED \<longrightarrow> state r = S_ACCEPTED \<or> Transition i S_ACCEPTED (Some CORE) \<in> set cs)"
  using assms
proof (induction cs arbitrary: e r)
  case Nil
  then show ?case by simp
next
  case (Cons c cs)
  from call_stage [of e i r, OF Cons.prems] obtain r1 where
    r1: "snd (call c e) i = Some r1" "stage_move c i r r1" by blast
  from Cons.IH [of "snd (call c e)" r1, OF r1(1)] obtain r2 where
    r2: "run_calls cs (snd (call c e)) i = Some r2" "contract r2 = contract r1"
      "(state r1, state r2) \<in> (set (transitions (contract r1)))\<^sup>*"
      "state r2 = S_ACCEPTED \<longrightarrow> state r1 = S_ACCEPTED \<or> Transition i S_ACCEPTED (Some CORE) \<in> set cs"
    by blast
  from r1(2) have "(state r, state r1) \<in> (set (transitions (contract r)))\<^sup>*" "contract r1 = contract r"
    "state r1 = S_ACCEPTED \<longrightarrow> state r = S_ACCEPTED \<or> c = Transition i S_ACCEPTED (Some CORE)"
    by (auto simp: stage_move_def)
  with r2 show ?case by (auto intro: rtrancl_trans)
qed

lemma run_calls_registered:
  assumes "run_calls cs e i = Some r" and "e i = None"
  shows "Register (contract r) \<in> set cs \<and> stage_id (contract r) = i \<and>
     (S_PENDING, state r) \<in> (set (transitions (contract r)))\<^sup>* \<and>
     (state r = S_ACCEPTED \<longrightarrow> Transition i S_ACCEPTED (Some CORE) \<in> set cs)"
  using assms
proof (induction cs arbitrary: e)
  case Nil
  then show ?case by simp
next
  case (Cons c cs)
  show ?case
  proof (cases "snd (call c e) i")
    case None
    with Cons show ?thesis by auto
  next
    case (Some r1)
    with call_new_stage [of e i c r1, OF Cons.prems(2)] have r1:
      "c = Register (contract r1)" "stage_id (contract r1) = i" "r1 = stage_runtime_init (contract r1)"
      by blast+
    then have "state r1 = S_PENDING" by (metis stage_runtime.select_convs(2) stage_runtime_init_def)
    with run_calls_stage [of "snd (call c e)" i r1, OF Some, of cs] Cons.prems(1) r1 show ?thesis by auto
  qed
qed

text \<open>
  Canonical acceptance is Core's alone: whatever calls a client makes on a fresh engine, in
  whatever order and with whatever failures in between, a stage that ends up ACCEPTED was registered
  under its own identifier, got there along the transitions of its contract, and one of the calls asked
  for acceptance with CORE authority.
\<close>

theorem acceptance_needs_core:
  assumes "run_calls cs Map.empty i = Some r" and "state r = S_ACCEPTED"
  shows "Transition i S_ACCEPTED (Some CORE) \<in> set cs \<and> Register (contract r) \<in> set cs \<and>
     stage_id (contract r) = i \<and> (S_PENDING, S_ACCEPTED) \<in> (set (transitions (contract r)))\<^sup>*"
  using run_calls_registered [OF assms(1)] assms(2) by simp

definition sample_contract :: stage_contract where
  "sample_contract = \<lparr>stage_id = ''build'', requires = [''plan''], produces = [''bin''], capabilities = {''fs''},
     validators = [''tests''], transitions = standard_transitions, liveness = default_liveness\<rparr>"

definition sample_baseline :: execution_baseline where
  "sample_baseline = \<lparr>base_commit = ''c'', contract_hash = ''h'', project_model_fingerprint = ''f''\<rparr>"

definition sample_calls :: "engine_call list" where
  "sample_calls =
     [Register sample_contract, Transition ''build'' S_READY None, Start ''build'' {''plan''} {''fs''} sample_baseline,
      Claim_Complete ''build'' {''bin''}, Transition ''build'' S_VALIDATING None,
      Transition ''build'' S_ACCEPTED (Some HUMAN), Transition ''build'' S_ACCEPTED (Some CORE)]"

lemma sample_run:
  "run_calls sample_calls Map.empty ''build'' =
     Some \<lparr>contract = sample_contract, state = S_ACCEPTED, baseline = Some sample_baseline, outputs = {''bin''}\<rparr>"
  by (simp add: sample_calls_def register_def start_def claim_complete_def transition_run get_stage_run bnd_def
      set_stage_def sample_contract_def standard_transitions_def stage_runtime_init_def)

theorem acceptance_needs_core_witness:
  "Transition ''build'' S_ACCEPTED (Some CORE) \<in> set sample_calls \<and> Register sample_contract \<in> set sample_calls"
  using acceptance_needs_core [OF sample_run] by simp

text \<open>
  Under the standard transitions ACCEPTED and FAILED are final: no sequence of calls changes
  anything about such a stage, and no stage of such a contract is ever CANCELLED.
\<close>

theorem standard_terminal:
  assumes "e i = Some r" and "transitions (contract r) = standard_transitions"
    and "state r = S_ACCEPTED \<or> state r = S_FAILED"
  shows "run_calls cs e i = Some r \<and> (S_PENDING, S_CANCELLED) \<notin> (set standard_transitions)\<^sup>*"
proof
  have fixed: "r' = r" if "stage_move c i r r'" for c r'
    using that assms(2,3) by (auto simp: stage_move_def standard_transitions_def)
  show "run_calls cs e i = Some r"
    using assms(1)
  proof (induction cs arbitrary: e)
    case (Cons c cs)
    from call_stage [of e i r, OF Cons.prems, of c] fixed have "snd (call c e) i = Some r" by blast
    then show ?case using Cons.IH by simp
  qed simp
  show "(S_PENDING, S_CANCELLED) \<notin> (set standard_transitions)\<^sup>*"
    by (auto simp: standard_transitions_def elim: rtranclE)
qed

theorem standard_terminal_witness:
  "run_calls [Transition ''build'' S_RUNNING None, Claim_Complete ''build'' {''x''}] (run_calls sample_calls Map.empty) ''build''
     = run_calls sample_calls Map.empty ''build'' \<and> (S_PENDING, S_CANCELLED) \<notin> (set standard_transitions)\<^sup>*"
  using standard_terminal [where e = "run_calls sample_calls Map.empty" and i = "''build''", OF sample_run, of "[Transition ''build'' S_RUNNING None, Claim_Complete ''build'' {''x''}]"]
  by (simp add: sample_run) (simp add: sample_contract_def)

section \<open>The liveness guard\<close>

datatype liveness_status = PROGRESS | NO_PROGRESS | REVISIT_LIMIT | NO_PROGRESS_LIMIT | STALLED

fun liveness_status_value :: "liveness_status \<Rightarrow> string" where
  "liveness_status_value PROGRESS = ''PROGRESS''"
| "liveness_status_value NO_PROGRESS = ''NO_PROGRESS''"
| "liveness_status_value REVISIT_LIMIT = ''REVISIT_LIMIT''"
| "liveness_status_value NO_PROGRESS_LIMIT = ''NO_PROGRESS_LIMIT''"
| "liveness_status_value STALLED = ''STALLED''"

record liveness_report =
  rep_status :: liveness_status
  rep_stage_id :: string
  rep_visits :: int
  rep_no_progress_observations :: int

record observation =
  obs_token :: string
  visits :: int
  no_progress :: int
  last_progress_at :: rat
  last_observed_at :: rat

type_synonym guard = "string \<Rightarrow> observation option"

definition record_obs :: "string \<Rightarrow> observation \<Rightarrow> liveness_status \<Rightarrow> (guard, liveness_report) eff" where
  "record_obs i ob st = (\<lambda>g. (Inr \<lparr>rep_status = st, rep_stage_id = i, rep_visits = visits ob,
     rep_no_progress_observations = no_progress ob\<rparr>, g(i \<mapsto> ob)))"

definition observe :: "liveness_policy \<Rightarrow> string \<Rightarrow> string \<Rightarrow> rat \<Rightarrow> (guard, liveness_report) eff" where
  "observe p i tok tm =
     bnd (gets (\<lambda>g. g i)) (\<lambda>previous.
     case previous of
       None \<Rightarrow> record_obs i \<lparr>obs_token = tok, visits = 1, no_progress = 0, last_progress_at = tm, last_observed_at = tm\<rparr> PROGRESS
     | Some prev \<Rightarrow>
         bnd (req (\<not> tm < last_observed_at prev) WorkflowError) (\<lambda>_.
         let v = visits prev + 1 in
         bnd (req (\<not> max_stage_visits p < v) (LivenessViolation (liveness_status_value REVISIT_LIMIT))) (\<lambda>_.
         if tok \<noteq> obs_token prev then
           record_obs i \<lparr>obs_token = tok, visits = v, no_progress = 0, last_progress_at = tm, last_observed_at = tm\<rparr> PROGRESS
         else
           (let n = no_progress prev + 1; elapsed = tm - last_progress_at prev in
            bnd (req (\<not> max_stall_seconds p \<le> elapsed) (LivenessViolation (liveness_status_value STALLED))) (\<lambda>_.
            bnd (req (\<not> max_no_progress_observations p \<le> n) (LivenessViolation (liveness_status_value NO_PROGRESS_LIMIT))) (\<lambda>_.
            record_obs i \<lparr>obs_token = tok, visits = v, no_progress = n,
              last_progress_at = last_progress_at prev, last_observed_at = tm\<rparr> NO_PROGRESS))))))"

text \<open>A history of observations, each a stage, a token and an instant, and how many of one stage were accepted.\<close>

fun observe_all :: "liveness_policy \<Rightarrow> (string \<times> string \<times> rat) list \<Rightarrow> guard \<Rightarrow> guard" where
  "observe_all p [] g = g"
| "observe_all p ((i, tok, tm) # os) g = observe_all p os (snd (observe p i tok tm g))"

fun accepted_count :: "liveness_policy \<Rightarrow> string \<Rightarrow> (string \<times> string \<times> rat) list \<Rightarrow> guard \<Rightarrow> nat" where
  "accepted_count p i [] g = 0"
| "accepted_count p i ((j, tok, tm) # os) g =
     (if j = i \<and> \<not> isl (fst (observe p j tok tm g)) then 1 else 0) + accepted_count p i os (snd (observe p j tok tm g))"

definition guard_ok :: "liveness_policy \<Rightarrow> observation \<Rightarrow> bool" where
  "guard_ok p ob \<longleftrightarrow> 1 \<le> visits ob \<and> visits ob \<le> max_stage_visits p \<and>
     0 \<le> no_progress ob \<and> no_progress ob < max_no_progress_observations p \<and>
     last_progress_at ob \<le> last_observed_at ob \<and> last_observed_at ob - last_progress_at ob < max_stall_seconds p"

definition visits_of :: "guard \<Rightarrow> string \<Rightarrow> int" where
  "visits_of g i = (case g i of None \<Rightarrow> 0 | Some ob \<Rightarrow> visits ob)"

definition guards_ok :: "liveness_policy \<Rightarrow> guard \<Rightarrow> bool" where
  "guards_ok p g \<longleftrightarrow> (\<forall>i ob. g i = Some ob \<longrightarrow> guard_ok p ob)"

lemma policy_positive:
  assumes "liveness_policy_check p = Inr ()"
  shows "1 \<le> max_stage_visits p" "1 \<le> max_no_progress_observations p" "0 < max_stall_seconds p"
  using assms by (auto simp: liveness_policy_check_def rbind_Inr_iff)

lemma observe_cases:
  assumes "liveness_policy_check p = Inr ()" and "\<And>prev. g j = Some prev \<Longrightarrow> guard_ok p prev"
  obtains e where "observe p j tok tm g = (Inl e, g)"
  | r ob where "observe p j tok tm g = (Inr r, g(j \<mapsto> ob))" "guard_ok p ob" "visits ob = visits_of g j + 1"
proof (cases "g j")
  case None
  then show ?thesis
    using policy_positive [OF assms(1)]
    by (intro that(2)) (auto simp: observe_def bnd_def record_obs_def guard_ok_def visits_of_def)
next
  case (Some prev)
  from assms(2) [OF this] have ok: "guard_ok p prev" .
  show ?thesis
  proof (cases "tm < last_observed_at prev \<or> max_stage_visits p < visits prev + 1 \<or>
      (tok = obs_token prev \<and> (max_stall_seconds p \<le> tm - last_progress_at prev \<or>
        max_no_progress_observations p \<le> no_progress prev + 1))")
    case True
    then have "\<exists>e. observe p j tok tm g = (Inl e, g)"
      using Some by (auto simp: observe_def bnd_def Let_def ensure_def)
    then show ?thesis using that(1) by blast
  next
    case False
    then have "\<exists>r ob. observe p j tok tm g = (Inr r, g(j \<mapsto> ob)) \<and> guard_ok p ob \<and> visits ob = visits_of g j + 1"
      using Some ok policy_positive [OF assms(1)]
      by (cases "tok = obs_token prev")
        (auto simp: observe_def bnd_def Let_def record_obs_def guard_ok_def visits_of_def)
    then show ?thesis using that(2) by blast
  qed
qed

lemma observe_step:
  assumes "liveness_policy_check p = Inr ()" and "guards_ok p g"
  shows "guards_ok p (snd (observe p j tok tm g)) \<and> visits_of (snd (observe p j tok tm g)) i =
      visits_of g i + (if j = i \<and> \<not> isl (fst (observe p j tok tm g)) then 1 else 0)"
proof -
  have "guard_ok p prev" if "g j = Some prev" for prev
    using assms(2) that by (simp add: guards_ok_def)
  then show ?thesis
    using assms by (elim observe_cases [of p g j tok tm, OF assms(1)])
      (auto simp: guards_ok_def visits_of_def)
qed

lemma observe_all_ok:
  assumes "liveness_policy_check p = Inr ()" and "guards_ok p g"
  shows "guards_ok p (observe_all p os g) \<and>
     visits_of (observe_all p os g) i = visits_of g i + int (accepted_count p i os g)"
  using assms(2)
proof (induction os arbitrary: g)
  case Nil
  then show ?case by simp
next
  case (Cons ob os)
  obtain j tok tm where ob: "ob = (j, tok, tm)" by (cases ob)
  show ?case
    using observe_step [OF assms(1) Cons.prems, of j tok tm i] Cons.IH [of "snd (observe p j tok tm g)"]
    by (auto simp: ob)
qed

text \<open>
  C36. The guard bounds execution mechanically: for a valid policy and any history of observations
  on a fresh guard, a stage is accepted at most \<open>max_stage_visits\<close> times, and what is
  remembered about it always shows fewer than the allowed observations without progress and less
  than the allowed stall.
\<close>

theorem liveness_bounded:
  assumes "liveness_policy_check p = Inr ()"
  shows "int (accepted_count p i os Map.empty) \<le> max_stage_visits p \<and>
     (\<forall>ob. observe_all p os Map.empty i = Some ob \<longrightarrow>
        visits ob = int (accepted_count p i os Map.empty) \<and>
        no_progress ob < max_no_progress_observations p \<and>
        last_observed_at ob - last_progress_at ob < max_stall_seconds p)"
proof -
  have "guards_ok p Map.empty" by (simp add: guards_ok_def)
  note ok = observe_all_ok [OF assms this, of os i]
  show ?thesis
  proof (cases "observe_all p os Map.empty i")
    case None
    with ok policy_positive(1) [OF assms] show ?thesis by (simp add: visits_of_def)
  next
    case (Some ob)
    with ok have "guard_ok p ob" by (simp add: guards_ok_def)
    with ok Some show ?thesis by (simp add: visits_of_def guard_ok_def)
  qed
qed

theorem liveness_bounded_witness:
  "int (accepted_count default_liveness ''s'' [(''s'', ''a'', 0), (''s'', ''a'', 5), (''s'', ''b'', 9)] Map.empty) \<le> 8"
proof -
  have h: "liveness_policy_check default_liveness = Inr ()"
    by (simp add: liveness_policy_check_def default_liveness_def)
  show ?thesis
    using liveness_bounded [OF h, of "''s''" "[(''s'', ''a'', 0), (''s'', ''a'', 5), (''s'', ''b'', 9)]"]
    by (simp add: default_liveness_def)
qed

text \<open>
  C6. A stale worker never publishes: the classified result is SUCCESS only for a worker that
  claims success on exactly the current baseline, and any other baseline gives REBASE_REQUIRED.
\<close>

theorem stale_worker_rebased:
  "(classify_execution_result w c s = SUCCESS \<longleftrightarrow> w = c \<and> s = SUCCESS) \<and>
   (w = c \<or> classify_execution_result w c s = REBASE_REQUIRED)"
  by (simp add: classify_execution_result_def)

end
