(* ===== verification/Runtime_Models.thy ===== *)
theory Runtime_Models
  imports Policy "HOL-Library.AList"
begin

text \<open>
  Models \<open>src/artifex/runtime/models.py\<close>: actors and delegation, credentials, the
  Execution Envelope with all its construction checks, and the records and enumerations of the
  durable runtime. A dataclass is a record; its \<open>__post_init__\<close> is a \<open>_check\<close>
  that returns the error it raises. \<open>to_dict\<close> results are JSON values.

  The envelope fingerprint is SHA-256 over the canonical JSON text; the hash is a parameter
  \<open>sha\<close> of the definitions that use it, applied to the JSON value.
\<close>

section \<open>JSON values\<close>

text \<open>A JSON document. A finite floating-point number is \<open>m * 2 ^ e\<close> for its mantissa and exponent.\<close>

datatype json =
    JNull
  | JBool bool
  | JInt int
  | JFloat int int
  | JStr string
  | JArr "json list"
  | JObj "(string \<times> json) list"

definition jstrs :: "string list \<Rightarrow> json" where
  "jstrs xs = JArr (map JStr xs)"

definition jopt :: "('a \<Rightarrow> json) \<Rightarrow> 'a option \<Rightarrow> json" where
  "jopt f x = (case x of None \<Rightarrow> JNull | Some y \<Rightarrow> f y)"

section \<open>Enumerations\<close>

datatype actor_type =
    AT_USER | AT_ARTIFEX_SERVICE | AT_INTERACTION_CLIENT | AT_PROVIDER | AT_AGENT | AT_AUTOMATION_SYSTEM_ACTOR

fun actor_type_value :: "actor_type \<Rightarrow> string" where
  "actor_type_value AT_USER = ''USER''"
| "actor_type_value AT_ARTIFEX_SERVICE = ''ARTIFEX_SERVICE''"
| "actor_type_value AT_INTERACTION_CLIENT = ''INTERACTION_CLIENT''"
| "actor_type_value AT_PROVIDER = ''PROVIDER''"
| "actor_type_value AT_AGENT = ''AGENT''"
| "actor_type_value AT_AUTOMATION_SYSTEM_ACTOR = ''AUTOMATION_SYSTEM_ACTOR''"

datatype supervision_level = L1 | L2 | L3 | L4

fun supervision_level_value :: "supervision_level \<Rightarrow> string" where
  "supervision_level_value L1 = ''L1''"
| "supervision_level_value L2 = ''L2''"
| "supervision_level_value L3 = ''L3''"
| "supervision_level_value L4 = ''L4''"

datatype materiality = OPERATIONAL | TACTICAL | STRATEGIC_MATERIAL

fun materiality_value :: "materiality \<Rightarrow> string" where
  "materiality_value OPERATIONAL = ''OPERATIONAL''"
| "materiality_value TACTICAL = ''TACTICAL''"
| "materiality_value STRATEGIC_MATERIAL = ''STRATEGIC_MATERIAL''"

datatype workstream_state = WS_READY | WS_ACTIVE | WS_BLOCKED | WS_COMPLETE | WS_CANCELLED

fun workstream_state_value :: "workstream_state \<Rightarrow> string" where
  "workstream_state_value WS_READY = ''READY''"
| "workstream_state_value WS_ACTIVE = ''ACTIVE''"
| "workstream_state_value WS_BLOCKED = ''BLOCKED''"
| "workstream_state_value WS_COMPLETE = ''COMPLETE''"
| "workstream_state_value WS_CANCELLED = ''CANCELLED''"

datatype run_state = RUN_PENDING | RUN_RUNNING | RUN_WAITING_RECONCILIATION | RUN_COMPLETED | RUN_CANCELLED

fun run_state_value :: "run_state \<Rightarrow> string" where
  "run_state_value RUN_PENDING = ''PENDING''"
| "run_state_value RUN_RUNNING = ''RUNNING''"
| "run_state_value RUN_WAITING_RECONCILIATION = ''WAITING_RECONCILIATION''"
| "run_state_value RUN_COMPLETED = ''COMPLETED''"
| "run_state_value RUN_CANCELLED = ''CANCELLED''"

datatype job_state =
    JOB_PENDING | JOB_RUNNING | JOB_FINISHED | JOB_ACCEPTED | JOB_REJECTED | JOB_REWORK
  | JOB_REQUIRE_APPROVAL | JOB_PROMOTION_CONFLICT | JOB_UNKNOWN | JOB_CANCELLED

fun job_state_value :: "job_state \<Rightarrow> string" where
  "job_state_value JOB_PENDING = ''PENDING''"
| "job_state_value JOB_RUNNING = ''RUNNING''"
| "job_state_value JOB_FINISHED = ''FINISHED''"
| "job_state_value JOB_ACCEPTED = ''ACCEPTED''"
| "job_state_value JOB_REJECTED = ''REJECTED''"
| "job_state_value JOB_REWORK = ''REWORK''"
| "job_state_value JOB_REQUIRE_APPROVAL = ''REQUIRE_APPROVAL''"
| "job_state_value JOB_PROMOTION_CONFLICT = ''PROMOTION_CONFLICT''"
| "job_state_value JOB_UNKNOWN = ''UNKNOWN''"
| "job_state_value JOB_CANCELLED = ''CANCELLED''"

datatype attempt_state =
    ATT_PENDING | ATT_RUNNING | ATT_FINISHED | ATT_FAILED | ATT_CANCELLED | ATT_UNKNOWN
  | ATT_NEEDS_RECONCILIATION | ATT_RECONCILED_RETRYABLE

fun attempt_state_value :: "attempt_state \<Rightarrow> string" where
  "attempt_state_value ATT_PENDING = ''PENDING''"
| "attempt_state_value ATT_RUNNING = ''RUNNING''"
| "attempt_state_value ATT_FINISHED = ''FINISHED''"
| "attempt_state_value ATT_FAILED = ''FAILED''"
| "attempt_state_value ATT_CANCELLED = ''CANCELLED''"
| "attempt_state_value ATT_UNKNOWN = ''UNKNOWN''"
| "attempt_state_value ATT_NEEDS_RECONCILIATION = ''NEEDS_RECONCILIATION''"
| "attempt_state_value ATT_RECONCILED_RETRYABLE = ''RECONCILED_RETRYABLE''"

datatype acceptance_outcome = ACCEPT | REJECT | REWORK | REQUIRE_APPROVAL

fun acceptance_outcome_value :: "acceptance_outcome \<Rightarrow> string" where
  "acceptance_outcome_value ACCEPT = ''ACCEPT''"
| "acceptance_outcome_value REJECT = ''REJECT''"
| "acceptance_outcome_value REWORK = ''REWORK''"
| "acceptance_outcome_value REQUIRE_APPROVAL = ''REQUIRE_APPROVAL''"

datatype reconciliation_outcome = RECOVERED_FINISHED | SAFE_TO_RETRY | STILL_UNKNOWN

fun reconciliation_outcome_value :: "reconciliation_outcome \<Rightarrow> string" where
  "reconciliation_outcome_value RECOVERED_FINISHED = ''RECOVERED_FINISHED''"
| "reconciliation_outcome_value SAFE_TO_RETRY = ''SAFE_TO_RETRY''"
| "reconciliation_outcome_value STILL_UNKNOWN = ''STILL_UNKNOWN''"

section \<open>Delegation and actors\<close>

record delegation_grant =
  grant_id :: string
  delegator_id :: string
  delegate_id :: string
  grant_project_id :: string
  allowed_actions :: "string list"
  issued_at :: int
  grant_expires_at :: "int option"

definition delegation_grant_check :: "delegation_grant \<Rightarrow> unit res" where
  "delegation_grant_check g =
     rbind (ensure (list_all (\<lambda>v. \<not> blank v) [grant_id g, delegator_id g, delegate_id g, grant_project_id g])
       RuntimeAuthorizationError) (\<lambda>_.
     rbind (ensure (allowed_actions g \<noteq> [] \<and> list_all (\<lambda>a. \<not> blank a) (allowed_actions g))
       RuntimeAuthorizationError) (\<lambda>_.
     ensure (case grant_expires_at g of None \<Rightarrow> True | Some x \<Rightarrow> issued_at g < x) RuntimeAuthorizationError))"

definition not_expired :: "int option \<Rightarrow> int \<Rightarrow> bool" where
  "not_expired x now = (case x of None \<Rightarrow> True | Some e \<Rightarrow> now < e)"

definition grant_permits :: "delegation_grant \<Rightarrow> string \<Rightarrow> string \<Rightarrow> string \<Rightarrow> int \<Rightarrow> bool" where
  "grant_permits g actor_id project_id action now =
     (actor_id = delegate_id g \<and> project_id = grant_project_id g \<and> not_expired (grant_expires_at g) now \<and>
      (action \<in> set (allowed_actions g) \<or> ''*'' \<in> set (allowed_actions g)))"

definition grant_to_dict :: "delegation_grant \<Rightarrow> json" where
  "grant_to_dict g = JObj
     [(''grant_id'', JStr (grant_id g)), (''delegator_id'', JStr (delegator_id g)),
      (''delegate_id'', JStr (delegate_id g)), (''project_id'', JStr (grant_project_id g)),
      (''allowed_actions'', jstrs (allowed_actions g)), (''issued_at'', JInt (issued_at g)),
      (''expires_at'', jopt JInt (grant_expires_at g))]"

record actor_principal =
  actor_id :: string
  actor_type :: actor_type
  authenticated :: bool
  authentication_method :: string
  direct_permissions :: "string list"
  delegation :: "delegation_grant option"

definition actor_principal_check :: "actor_principal \<Rightarrow> unit res" where
  "actor_principal_check p =
     rbind (ensure (\<not> blank (actor_id p)) RuntimeAuthorizationError) (\<lambda>_.
     rbind (ensure (\<not> (authenticated p \<and> blank (authentication_method p))) RuntimeAuthorizationError) (\<lambda>_.
     ensure (case delegation p of None \<Rightarrow> True | Some g \<Rightarrow> delegate_id g = actor_id p) RuntimeAuthorizationError))"

definition is_anonymous :: "string \<Rightarrow> bool" where
  "is_anonymous s = (casefold s = ''anonymous'')"

definition require :: "actor_principal \<Rightarrow> string \<Rightarrow> string \<Rightarrow> int \<Rightarrow> unit res" where
  "require p action project_id now =
     rbind (ensure (\<not> (\<not> authenticated p \<or> is_anonymous (actor_id p))) RuntimeAuthorizationError) (\<lambda>_.
     if action \<in> set (direct_permissions p) \<or> ''*'' \<in> set (direct_permissions p) then Inr ()
     else ensure (case delegation p of None \<Rightarrow> False
                  | Some g \<Rightarrow> grant_permits g (actor_id p) project_id action now) RuntimeAuthorizationError)"

definition to_audit_dict :: "actor_principal \<Rightarrow> json" where
  "to_audit_dict p = JObj
     [(''actor_id'', JStr (actor_id p)), (''actor_type'', JStr (actor_type_value (actor_type p))),
      (''authenticated'', JBool (authenticated p)), (''authentication_method'', JStr (authentication_method p)),
      (''delegation_id'', jopt (\<lambda>g. JStr (grant_id g)) (delegation p)),
      (''delegated_by'', jopt (\<lambda>g. JStr (delegator_id g)) (delegation p))]"

text \<open>\<open>ActorLike = str | ActorPrincipal\<close>; \<open>as_principal\<close> is the function \<open>actor_principal\<close>.\<close>

datatype actor_like = Actor_String string | Principal actor_principal

fun is_principal :: "actor_like \<Rightarrow> bool" where
  "is_principal (Actor_String s) = False"
| "is_principal (Principal p) = True"

fun as_principal :: "actor_like \<Rightarrow> actor_principal" where
  "as_principal (Principal p) = p"
| "as_principal (Actor_String actor) =
     (let value = strip actor in
      if value = [] \<or> is_anonymous value then
        \<lparr>actor_id = (if value = [] then ''anonymous'' else value), actor_type = AT_INTERACTION_CLIENT,
         authenticated = False, authentication_method = [], direct_permissions = [], delegation = None\<rparr>
      else if value = ''managed-service-local-client'' then
        \<lparr>actor_id = value, actor_type = AT_USER, authenticated = True,
         authentication_method = ''authenticated-local-transport'', direct_permissions = [], delegation = None\<rparr>
      else
        \<lparr>actor_id = value, actor_type = AT_ARTIFEX_SERVICE, authenticated = True,
         authentication_method = ''legacy-in-process'', direct_permissions = [''*''], delegation = None\<rparr>)"

section \<open>Credentials\<close>

record credential_reference =
  reference_id :: string
  cred_provider_id :: string
  role :: string
  cred_project_id :: string
  cred_expires_at :: "int option"
  revoked :: bool

definition credential_reference_check :: "credential_reference \<Rightarrow> unit res" where
  "credential_reference_check c =
     rbind (ensure (list_all (\<lambda>v. \<not> blank v) [reference_id c, cred_provider_id c, role c, cred_project_id c])
       RuntimeAuthorizationError) (\<lambda>_.
     ensure (scrub_secrets (reference_id c) = reference_id c) RuntimeAuthorizationError)"

definition credential_permits :: "credential_reference \<Rightarrow> string \<Rightarrow> string \<Rightarrow> string \<Rightarrow> int \<Rightarrow> bool" where
  "credential_permits c provider_id r project_id now =
     (\<not> revoked c \<and> cred_provider_id c = provider_id \<and> role c = r \<and> cred_project_id c = project_id \<and>
      not_expired (cred_expires_at c) now)"

definition credential_to_dict :: "credential_reference \<Rightarrow> json" where
  "credential_to_dict c = JObj
     [(''reference_id'', JStr (reference_id c)), (''provider_id'', JStr (cred_provider_id c)),
      (''role'', JStr (role c)), (''project_id'', JStr (cred_project_id c)),
      (''expires_at'', jopt JInt (cred_expires_at c)), (''revoked'', JBool (revoked c))]"

record fence_token =
  holder_id :: string
  generation :: int
  expires_at :: int

definition fence_token_to_dict :: "fence_token \<Rightarrow> json" where
  "fence_token_to_dict t = JObj
     [(''holder_id'', JStr (holder_id t)), (''generation'', JInt (generation t)), (''expires_at'', JInt (expires_at t))]"

section \<open>Relative paths\<close>

text \<open>\<open>PurePosixPath(s).parts\<close> of a relative path: empty and single-dot components are dropped.\<close>

definition path_parts :: "string \<Rightarrow> string list" where
  "path_parts s = filter (\<lambda>p. p \<noteq> [] \<and> p \<noteq> ''.'') (split_on CHR ''/'' s)"

definition as_posix :: "string list \<Rightarrow> string" where
  "as_posix parts = (if parts = [] then ''.'' else join_with CHR ''/'' parts)"

definition remove_prefix :: "string \<Rightarrow> string \<Rightarrow> string" where
  "remove_prefix p s = (if prefix p s then drop (length p) s else s)"

definition to_slashes :: "string \<Rightarrow> string" where
  "to_slashes s = map (\<lambda>c. if ccode c = 92 then CHR ''/'' else c) s"

definition safe_relative_path :: "string \<Rightarrow> string res" where
  "safe_relative_path value =
     (let candidate = strip (to_slashes value);
          parts = path_parts candidate in
      rbind (ensure (\<not> (candidate = [] \<or> candidate = ''/'' \<or> (\<exists>c \<in> set candidate. ccode c = 0))) EnvelopeError) (\<lambda>_.
      rbind (ensure (\<not> (prefix ''/'' candidate \<or> ''..'' \<in> set parts \<or>
          (parts \<noteq> [] \<and> CHR '':'' \<in> set (hd parts)))) EnvelopeError) (\<lambda>_.
      let normalized = remove_prefix ''./'' (as_posix parts) in
      Inr (if normalized = [] then ''.'' else normalized))))"

section \<open>Execution Envelope\<close>

record execution_envelope =
  envelope_id :: string
  version :: int
  env_project_id :: string
  objective :: string
  baseline_revision :: int
  env_actor_id :: string
  allowed_paths :: "string list"
  allowed_capabilities :: "string list"
  required_gates :: "string list"
  max_attempts :: int
  recovery_policy :: string
  stop_on_unknown :: bool
  approved :: bool
  env_supervision_level :: supervision_level
  env_materiality :: materiality
  allowed_workstreams :: "string list"
  allowed_providers :: "string list"
  allowed_provider_roles :: "string list"
  filesystem_permissions :: "string list"
  network_permissions :: "string list"
  tool_permissions :: "string list"
  data_classification :: string
  credential_references :: "credential_reference list"
  resource_budget :: "(string \<times> int) list"
  deadline_at :: "int option"
  stop_conditions :: "string list"
  require_durable_evidence :: bool
  baseline_fingerprint :: "string option"
  baseline_commit :: "string option"

text \<open>\<open>re.fullmatch(r"[a-f0-9]{n}", s)\<close>\<close>

definition hex_digits :: "nat \<Rightarrow> string \<Rightarrow> bool" where
  "hex_digits n s = (length s = n \<and> list_all (\<lambda>c. is_digit c \<or> (97 \<le> ccode c \<and> ccode c \<le> 102)) s)"

definition secret_safe_values :: "execution_envelope \<Rightarrow> string list" where
  "secret_safe_values e =
     [objective e, env_actor_id e, recovery_policy e, data_classification e] @ allowed_paths e @
     allowed_capabilities e @ required_gates e @ network_permissions e @ tool_permissions e @ stop_conditions e"

text \<open>
  \<open>ExecutionEnvelope.__post_init__\<close>. The check that the supervision level is one of
  the enumeration is the type of the field.
\<close>

definition envelope_check :: "execution_envelope \<Rightarrow> unit res" where
  "envelope_check e =
     rbind (ensure (list_all (\<lambda>v. \<not> blank v) [envelope_id e, env_project_id e, objective e, env_actor_id e]) EnvelopeError) (\<lambda>_.
     rbind (ensure (\<not> (version e < 1 \<or> baseline_revision e < 1 \<or> max_attempts e < 1)) EnvelopeError) (\<lambda>_.
     rbind (ensure (\<not> (allowed_paths e = [] \<or> required_gates e = [] \<or> blank (recovery_policy e))) EnvelopeError) (\<lambda>_.
     rbind (rmap safe_relative_path (allowed_paths e)) (\<lambda>normalized_paths.
     rbind (ensure (distinct normalized_paths) EnvelopeError) (\<lambda>_.
     rbind (ensure (list_all (\<lambda>v. \<not> blank v) (allowed_capabilities e @ required_gates e)) EnvelopeError) (\<lambda>_.
     rbind (ensure (\<not> (blank (data_classification e) \<or> stop_conditions e = [])) EnvelopeError) (\<lambda>_.
     rbind (ensure (list_all (\<lambda>v. scrub_secrets v = v) (secret_safe_values e)) EnvelopeError) (\<lambda>_.
     rbind (ensure (list_all (\<lambda>p. p = ''READ'' \<or> p = ''WRITE'') (filesystem_permissions e)) EnvelopeError) (\<lambda>_.
     rbind (ensure (\<not> (allowed_providers e \<noteq> [] \<and> allowed_provider_roles e = [])) EnvelopeError) (\<lambda>_.
     rbind (ensure (\<not> (allowed_provider_roles e \<noteq> [] \<and> allowed_providers e = [])) EnvelopeError) (\<lambda>_.
     rbind (ensure (\<not> (''provider:codex'' \<in> set (allowed_capabilities e) \<and> ''codex'' \<notin> set (allowed_providers e))) EnvelopeError) (\<lambda>_.
     rbind (ensure (\<not> (allowed_providers e \<noteq> [] \<and> (baseline_fingerprint e = None \<or> baseline_commit e = None))) EnvelopeError) (\<lambda>_.
     rbind (ensure (case baseline_fingerprint e of None \<Rightarrow> True | Some f \<Rightarrow> hex_digits 64 f) EnvelopeError) (\<lambda>_.
     rbind (ensure (case baseline_commit e of None \<Rightarrow> True | Some f \<Rightarrow> hex_digits 40 f) EnvelopeError) (\<lambda>_.
     rbind (ensure (list_all (\<lambda>c. cred_project_id c = env_project_id e) (credential_references e)) EnvelopeError) (\<lambda>_.
     rbind (ensure (list_all (\<lambda>(k, v). \<not> (blank k \<or> v < 0)) (resource_budget e)) EnvelopeError) (\<lambda>_.
     ensure (case deadline_at e of None \<Rightarrow> True | Some d \<Rightarrow> \<not> d < 1) EnvelopeError)))))))))))))))))"

definition dict_of :: "(string \<times> 'a) list \<Rightarrow> (string \<times> 'a) list" where
  "dict_of kvs = foldl (\<lambda>d (k, v). AList.update k v d) [] kvs"

definition authority_dict :: "execution_envelope \<Rightarrow> json" where
  "authority_dict e = JObj
     [(''envelope_id'', JStr (envelope_id e)), (''version'', JInt (version e)), (''project_id'', JStr (env_project_id e)),
      (''objective'', JStr (objective e)), (''baseline_revision'', JInt (baseline_revision e)),
      (''actor_id'', JStr (env_actor_id e)), (''allowed_paths'', jstrs (allowed_paths e)),
      (''allowed_capabilities'', jstrs (allowed_capabilities e)), (''required_gates'', jstrs (required_gates e)),
      (''max_attempts'', JInt (max_attempts e)), (''recovery_policy'', JStr (recovery_policy e)),
      (''stop_on_unknown'', JBool (stop_on_unknown e)), (''approved'', JBool (approved e)),
      (''supervision_level'', JStr (supervision_level_value (env_supervision_level e))),
      (''materiality'', JStr (materiality_value (env_materiality e))),
      (''allowed_workstreams'', jstrs (allowed_workstreams e)), (''allowed_providers'', jstrs (allowed_providers e)),
      (''allowed_provider_roles'', jstrs (allowed_provider_roles e)),
      (''filesystem_permissions'', jstrs (filesystem_permissions e)),
      (''network_permissions'', jstrs (network_permissions e)), (''tool_permissions'', jstrs (tool_permissions e)),
      (''data_classification'', JStr (data_classification e)),
      (''credential_references'', JArr (map credential_to_dict (credential_references e))),
      (''resource_budget'', JObj (map (\<lambda>(k, v). (k, JInt v)) (dict_of (resource_budget e)))),
      (''deadline_at'', jopt JInt (deadline_at e)), (''stop_conditions'', jstrs (stop_conditions e)),
      (''require_durable_evidence'', JBool (require_durable_evidence e)),
      (''baseline_fingerprint'', jopt JStr (baseline_fingerprint e)), (''baseline_commit'', jopt JStr (baseline_commit e))]"

definition fingerprint :: "(json \<Rightarrow> string) \<Rightarrow> execution_envelope \<Rightarrow> string" where
  "fingerprint sha e = sha (authority_dict e)"

definition envelope_to_dict :: "(json \<Rightarrow> string) \<Rightarrow> execution_envelope \<Rightarrow> json" where
  "envelope_to_dict sha e =
     (case authority_dict e of JObj kvs \<Rightarrow> JObj (kvs @ [(''fingerprint'', JStr (fingerprint sha e))]) | j \<Rightarrow> j)"

definition owns_path :: "string \<Rightarrow> string \<Rightarrow> bool" where
  "owns_path owner candidate = (owner = ''.'' \<or> candidate = owner \<or> prefix (owner @ ''/'') candidate)"

fun any_owner :: "string \<Rightarrow> string list \<Rightarrow> bool res" where
  "any_owner candidate [] = Inr False"
| "any_owner candidate (p # ps) =
     rbind (safe_relative_path p) (\<lambda>owner. if owns_path owner candidate then Inr True else any_owner candidate ps)"

definition authorizes_path :: "execution_envelope \<Rightarrow> string \<Rightarrow> string \<Rightarrow> bool res" where
  "authorizes_path e path permission =
     (if permission \<notin> set (filesystem_permissions e) then Inr False
      else rbind (safe_relative_path path) (\<lambda>candidate. any_owner candidate (allowed_paths e)))"

definition credential :: "execution_envelope \<Rightarrow> string \<Rightarrow> credential_reference option" where
  "credential e rid = find (\<lambda>c. reference_id c = rid) (credential_references e)"

section \<open>Dispatch, evidence and acceptance records\<close>

record dispatch_authorization =
  authorization_id :: string
  dsp_attempt_id :: string
  dsp_provider_id :: string
  provider_role :: string
  requested_capabilities :: "string list"
  dsp_filesystem_permissions :: "string list"
  dsp_network_permissions :: "string list"
  dsp_tool_permissions :: "string list"
  credential_reference_ids :: "string list"
  dsp_envelope_fingerprint :: string
  dsp_actor_id :: string
  authorized_at :: int

definition dispatch_to_dict :: "dispatch_authorization \<Rightarrow> (string \<times> json) list" where
  "dispatch_to_dict d =
     [(''authorization_id'', JStr (authorization_id d)), (''attempt_id'', JStr (dsp_attempt_id d)),
      (''provider_id'', JStr (dsp_provider_id d)), (''provider_role'', JStr (provider_role d)),
      (''requested_capabilities'', jstrs (requested_capabilities d)),
      (''filesystem_permissions'', jstrs (dsp_filesystem_permissions d)),
      (''network_permissions'', jstrs (dsp_network_permissions d)), (''tool_permissions'', jstrs (dsp_tool_permissions d)),
      (''credential_reference_ids'', jstrs (credential_reference_ids d)),
      (''envelope_fingerprint'', JStr (dsp_envelope_fingerprint d)), (''actor_id'', JStr (dsp_actor_id d)),
      (''authorized_at'', JInt (authorized_at d))]"

record evidence_record =
  evidence_id :: string
  ev_project_job_id :: string
  ev_attempt_id :: string
  gate :: string
  passed :: bool
  ev_envelope_fingerprint :: string
  ev_baseline_revision :: int
  artifact_ref :: string
  artifact_digest :: string
  ev_actor_id :: string
  recorded_at :: int

definition evidence_record_check :: "evidence_record \<Rightarrow> unit res" where
  "evidence_record_check r =
     rbind (ensure (list_all (\<lambda>v. \<not> blank v)
       [evidence_id r, ev_project_job_id r, ev_attempt_id r, gate r, ev_envelope_fingerprint r, artifact_ref r,
        artifact_digest r, ev_actor_id r]) EvidenceBindingError) (\<lambda>_.
     rbind (ensure (\<not> ev_baseline_revision r < 1) EvidenceBindingError) (\<lambda>_.
     rbind (ensure (hex_digits 64 (artifact_digest r)) EvidenceBindingError) (\<lambda>_.
     ensure (scrub_secrets (artifact_ref r) = artifact_ref r) EvidenceBindingError)))"

definition evidence_to_dict :: "evidence_record \<Rightarrow> (string \<times> json) list" where
  "evidence_to_dict r =
     [(''evidence_id'', JStr (evidence_id r)), (''project_job_id'', JStr (ev_project_job_id r)),
      (''attempt_id'', JStr (ev_attempt_id r)), (''gate'', JStr (gate r)), (''passed'', JBool (passed r)),
      (''envelope_fingerprint'', JStr (ev_envelope_fingerprint r)), (''baseline_revision'', JInt (ev_baseline_revision r)),
      (''artifact_ref'', JStr (artifact_ref r)), (''artifact_digest'', JStr (artifact_digest r)),
      (''actor_id'', JStr (ev_actor_id r)), (''recorded_at'', JInt (recorded_at r))]"

record acceptance_decision =
  decision_id :: string
  dec_project_job_id :: string
  outcome :: acceptance_outcome
  evidence_valid :: bool
  dec_actor_id :: string
  reason :: string
  decided_at :: int
  evidence_ids :: "string list"
  dec_envelope_fingerprint :: "string option"

definition decision_to_dict :: "acceptance_decision \<Rightarrow> (string \<times> json) list" where
  "decision_to_dict d =
     [(''decision_id'', JStr (decision_id d)), (''project_job_id'', JStr (dec_project_job_id d)),
      (''outcome'', JStr (acceptance_outcome_value (outcome d))), (''evidence_valid'', JBool (evidence_valid d)),
      (''actor_id'', JStr (dec_actor_id d)), (''reason'', JStr (reason d)), (''decided_at'', JInt (decided_at d)),
      (''evidence_ids'', jstrs (evidence_ids d)), (''envelope_fingerprint'', jopt JStr (dec_envelope_fingerprint d))]"

section \<open>Authority of actors\<close>

lemma require_Inr_iff:
  "require p action project now = Inr () \<longleftrightarrow>
     authenticated p \<and> \<not> is_anonymous (actor_id p) \<and>
     (action \<in> set (direct_permissions p) \<or> ''*'' \<in> set (direct_permissions p) \<or>
      (\<exists>g. delegation p = Some g \<and> grant_permits g (actor_id p) project action now))"
  by (auto simp: require_def rbind_Inr_iff split: option.splits)

lemma require_cases: "require p action project now = Inr () \<or> require p action project now = Inl RuntimeAuthorizationError"
  by (auto simp: require_def ensure_def)

text \<open>
  Who may act: an actor passes \<open>require\<close> exactly when it is authenticated under a
  name other than anonymous and holds the action directly, or by a delegation to it for that Project
  that has not expired; every refusal is the same authorization error. A plain string identity
  passes exactly when it names someone other than anonymous and is not the local transport client.
\<close>

theorem require_exact:
  "(require p action project now = Inr () \<longleftrightarrow>
      authenticated p \<and> \<not> is_anonymous (actor_id p) \<and>
      (action \<in> set (direct_permissions p) \<or> ''*'' \<in> set (direct_permissions p) \<or>
       (\<exists>g. delegation p = Some g \<and> delegate_id g = actor_id p \<and> grant_project_id g = project \<and>
            (grant_expires_at g = None \<or> (\<exists>x. grant_expires_at g = Some x \<and> now < x)) \<and>
            (action \<in> set (allowed_actions g) \<or> ''*'' \<in> set (allowed_actions g))))) \<and>
   (require p action project now \<noteq> Inr () \<longleftrightarrow> require p action project now = Inl RuntimeAuthorizationError) \<and>
   (require (as_principal (Actor_String s)) action project now = Inr () \<longleftrightarrow>
      \<not> blank s \<and> \<not> is_anonymous (strip s) \<and> strip s \<noteq> ''managed-service-local-client'')"
proof (intro conjI)
  show "require p action project now \<noteq> Inr () \<longleftrightarrow> require p action project now = Inl RuntimeAuthorizationError"
    using require_cases [of p action project now] by auto
  show "require (as_principal (Actor_String s)) action project now = Inr () \<longleftrightarrow>
      \<not> blank s \<and> \<not> is_anonymous (strip s) \<and> strip s \<noteq> ''managed-service-local-client''"
    by (auto simp: require_Inr_iff Let_def)
qed (auto simp: require_Inr_iff grant_permits_def not_expired_def split: option.splits)

section \<open>Path confinement\<close>

lemma path_parts_as_posix:
  assumes "\<And>p. p \<in> set ps \<Longrightarrow> CHR ''/'' \<notin> set p \<and> p \<noteq> [] \<and> p \<noteq> ''.''"
  shows "path_parts (as_posix ps) = ps"
proof (cases "ps = []")
  case True
  then show ?thesis by (simp add: as_posix_def path_parts_def)
next
  case False
  with assms have "split_on CHR ''/'' (join_with CHR ''/'' ps) = ps"
    by (intro split_join) auto
  with False assms show ?thesis by (auto simp: as_posix_def path_parts_def intro: filter_True)
qed

lemma path_parts_components: "p \<in> set (path_parts s) \<Longrightarrow> CHR ''/'' \<notin> set p \<and> p \<noteq> [] \<and> p \<noteq> ''.''"
  by (auto simp: path_parts_def dest: split_on_no_sep)

lemma join_with_Cons_nonempty: "p \<noteq> [] \<Longrightarrow> join_with d (p # ps) \<noteq> [] \<and> hd (join_with d (p # ps)) = hd p"
  by (cases ps) auto

lemma as_posix_no_dot_slash:
  assumes "\<And>p. p \<in> set ps \<Longrightarrow> CHR ''/'' \<notin> set p \<and> p \<noteq> [] \<and> p \<noteq> ''.''"
  shows "remove_prefix ''./'' (as_posix ps) = as_posix ps \<and> as_posix ps \<noteq> []"
proof (cases ps)
  case Nil
  then show ?thesis by (simp add: as_posix_def remove_prefix_def)
next
  case (Cons p qs)
  have "split_on CHR ''/'' (as_posix ps) = ps"
    using Cons assms split_join [of ps "CHR ''/''"] by (auto simp: as_posix_def)
  then have "\<not> prefix ''./'' (as_posix ps)"
    using Cons assms [of p] by (auto simp: prefix_def)
  moreover have "as_posix ps \<noteq> []"
    using Cons assms join_with_Cons_nonempty [of p "CHR ''/''" qs] by (simp add: as_posix_def)
  ultimately show ?thesis by (simp add: remove_prefix_def)
qed

lemma safe_relative_path_Inr:
  assumes "safe_relative_path v = Inr c"
  shows "c = as_posix (path_parts (strip (to_slashes v))) \<and> path_parts c = path_parts (strip (to_slashes v)) \<and>
     ''..'' \<notin> set (path_parts c) \<and> \<not> prefix ''/'' (strip (to_slashes v))"
  using assms as_posix_no_dot_slash [of "path_parts (strip (to_slashes v))"] path_parts_components
    path_parts_as_posix [of "path_parts (strip (to_slashes v))"]
  by (auto simp: safe_relative_path_def Let_def rbind_Inr_iff)

lemma owns_path_iff:
  assumes "\<And>p. p \<in> set ps \<Longrightarrow> CHR ''/'' \<notin> set p \<and> p \<noteq> [] \<and> p \<noteq> ''.''"
    and "\<And>p. p \<in> set qs \<Longrightarrow> CHR ''/'' \<notin> set p \<and> p \<noteq> [] \<and> p \<noteq> ''.''"
  shows "owns_path (as_posix ps) (as_posix qs) \<longleftrightarrow> prefix ps qs"
proof (cases "ps = []")
  case True
  then show ?thesis by (simp add: owns_path_def as_posix_def)
next
  case False
  have parts: "path_parts (as_posix ps) = ps" "path_parts (as_posix qs) = qs"
    using path_parts_as_posix assms by blast+
  have "path_parts ''.'' = []" by (simp add: path_parts_def)
  then have dot: "as_posix ps \<noteq> ''.''" using parts False by metis
  have eq: "as_posix qs = as_posix ps \<longleftrightarrow> qs = ps" using parts by metis
  have "prefix (as_posix ps @ ''/'') (as_posix qs) \<longleftrightarrow> (\<exists>r. r \<noteq> [] \<and> qs = ps @ r)"
  proof
    assume "prefix (as_posix ps @ ''/'') (as_posix qs)"
    then obtain z where z: "as_posix qs = join_with CHR ''/'' ps @ CHR ''/'' # z"
      using False by (auto simp: prefix_def as_posix_def)
    have "qs \<noteq> []"
    proof
      assume "qs = []"
      with z have "''.'' = join_with CHR ''/'' ps @ CHR ''/'' # z" by (simp add: as_posix_def)
      then show False by (cases "join_with CHR ''/'' ps") auto
    qed
    then have "qs = split_on CHR ''/'' (as_posix qs)"
      using assms(2) split_join [of qs "CHR ''/''"] by (auto simp: as_posix_def)
    also have "\<dots> = ps @ split_on CHR ''/'' z"
      using z False assms(1) split_on_join_append [of ps "CHR ''/''"] by auto
    finally show "\<exists>r. r \<noteq> [] \<and> qs = ps @ r" by (metis split_on_not_Nil)
  next
    assume "\<exists>r. r \<noteq> [] \<and> qs = ps @ r"
    then show "prefix (as_posix ps @ ''/'') (as_posix qs)"
      using False by (auto simp: as_posix_def join_with_append)
  qed
  then show ?thesis using dot eq by (auto simp: owns_path_def prefix_def)
qed

lemma any_owner_iff:
  assumes "rmap safe_relative_path ps = Inr ns"
  shows "any_owner c ps = Inr (\<exists>n \<in> set ns. owns_path n c)"
  using assms by (induction ps arbitrary: ns) (auto simp: rbind_Inr_iff)

definition components :: "string \<Rightarrow> string list" where
  "components v = path_parts (strip (to_slashes v))"

text \<open>
  Path confinement: a valid Envelope authorizes an access exactly when it grants the permission,
  the requested path is an acceptable relative path, and the component list of one of its owned paths is
  an initial segment of the component list of the request; in particular a sibling such as
  \<open>src-old\<close> is outside \<open>src\<close>, and an authorized path never has a parent
  component and is never absolute.
\<close>

theorem authorizes_path_confined:
  assumes "envelope_check e = Inr ()"
  shows "(authorizes_path e path perm = Inr True \<longleftrightarrow>
      perm \<in> set (filesystem_permissions e) \<and> safe_relative_path path = Inr (as_posix (components path)) \<and>
      (\<exists>owner \<in> set (allowed_paths e). prefix (components owner) (components path))) \<and>
    (authorizes_path e path perm = Inr True \<longrightarrow>
      ''..'' \<notin> set (components path) \<and> \<not> prefix ''/'' (strip (to_slashes path)))"
proof -
  obtain ns where ns: "rmap safe_relative_path (allowed_paths e) = Inr ns"
    using assms by (auto simp: envelope_check_def rbind_Inr_iff)
  have all2: "list_all2 (\<lambda>p n. n = as_posix (components p)) (allowed_paths e) ns"
    using ns safe_relative_path_Inr unfolding rmap_Inr_iff components_def
    by (auto elim!: list_all2_mono)
  then have owners: "set ns = (\<lambda>p. as_posix (components p)) ` set (allowed_paths e)"
    by (induction rule: list_all2_induct) auto
  have owns: "owns_path (as_posix (components p)) (as_posix (components path)) \<longleftrightarrow>
      prefix (components p) (components path)" for p
    by (intro owns_path_iff) (auto simp: components_def dest: path_parts_components)
  have safe: "safe_relative_path path = Inr c \<Longrightarrow> c = as_posix (components path) \<and>
      ''..'' \<notin> set (components path) \<and> \<not> prefix ''/'' (strip (to_slashes path))" for c
    using safe_relative_path_Inr [of path c] by (auto simp: components_def)
  have main: "authorizes_path e path perm = Inr True \<longleftrightarrow>
      perm \<in> set (filesystem_permissions e) \<and> safe_relative_path path = Inr (as_posix (components path)) \<and>
      (\<exists>owner \<in> set (allowed_paths e). prefix (components owner) (components path))"
  proof (cases "perm \<in> set (filesystem_permissions e) \<and> (\<exists>c. safe_relative_path path = Inr c)")
    case True
    then obtain c where "safe_relative_path path = Inr c" "perm \<in> set (filesystem_permissions e)" by blast
    moreover from this safe have "c = as_posix (components path)" by blast
    ultimately show ?thesis
      using any_owner_iff [OF ns, of c] owners owns by (simp add: authorizes_path_def)
  next
    case False
    then show ?thesis by (auto simp: authorizes_path_def rbind_Inr_iff)
  qed
  with safe show ?thesis by blast
qed

definition sample_envelope :: execution_envelope where
  "sample_envelope = \<lparr>envelope_id = ''env'', version = 1, env_project_id = ''P'', objective = ''build'',
     baseline_revision = 1, env_actor_id = ''ana'', allowed_paths = [''src''], allowed_capabilities = [''code''],
     required_gates = [''unit''], max_attempts = 2, recovery_policy = ''manual'', stop_on_unknown = True,
     approved = True, env_supervision_level = L2, env_materiality = TACTICAL, allowed_workstreams = [],
     allowed_providers = [], allowed_provider_roles = [], filesystem_permissions = [''READ''],
     network_permissions = [], tool_permissions = [], data_classification = ''INTERNAL'',
     credential_references = [], resource_budget = [], deadline_at = None, stop_conditions = [''MAX_ATTEMPTS''],
     require_durable_evidence = True, baseline_fingerprint = None, baseline_commit = None\<rparr>"

lemma sample_envelope_ok: "envelope_check sample_envelope = Inr ()"
  by code_simp

theorem authorizes_path_confined_witness:
  "envelope_check sample_envelope = Inr () \<and>
   (\<exists>owner \<in> set (allowed_paths sample_envelope). prefix (components owner) (components ''src/app.py'')) \<and>
   \<not> (\<exists>owner \<in> set (allowed_paths sample_envelope). prefix (components owner) (components ''src-old/app.py''))"
proof -
  have "authorizes_path sample_envelope ''src/app.py'' ''READ'' = Inr True"
    "authorizes_path sample_envelope ''src-old/app.py'' ''READ'' = Inr False"
    "safe_relative_path ''src-old/app.py'' = Inr ''src-old/app.py''"
    "as_posix (components ''src-old/app.py'') = ''src-old/app.py''"
    "''READ'' \<in> set (filesystem_permissions sample_envelope)"
    by code_simp+
  then show ?thesis
    using authorizes_path_confined [OF sample_envelope_ok, of "''src/app.py''" "''READ''"]
      authorizes_path_confined [OF sample_envelope_ok, of "''src-old/app.py''" "''READ''"]
      sample_envelope_ok by simp
qed

end
