(* ===== verification/Run_Store.thy ===== *)
theory Run_Store
  imports Runtime_Models "HOL-Library.List_Lexorder" "HOL-Library.Char_ord" "HOL-Library.Product_Lexorder"
begin

text \<open>
  Models \<open>src/artifex/runtime/store.py\<close>, the SQLite RunStore that is the only durable
  authority of the runtime and that fences its writers.

  The database is a record with one list of rows per table, in insertion order. A column that holds
  JSON text which every reader decodes is kept decoded; the one that a reader uses as text
  (\<open>acceptance_decisions.evidence_ids\<close>) is kept as text. Key, uniqueness and
  foreign-key constraints of the schema are checks that raise \<open>IntegrityError\<close>. An operation
  is an effect on the database; \<open>transaction\<close> restores the state it started from when the body raises.
  State columns are strings, as in the database.
\<close>

section \<open>Rows and tables\<close>

record lease =
  ls_holder_id :: string
  ls_generation :: int
  ls_expires_at :: int

text \<open>The stored payload is \<open>ExecutionEnvelope.to_dict\<close>: the envelope and its fingerprint.\<close>

record env_payload =
  pl_envelope :: execution_envelope
  pl_fingerprint :: string

record envelope_row =
  er_envelope_id :: string
  er_version :: int
  er_project_id :: string
  er_fingerprint :: string
  er_approved_by :: string
  er_payload :: env_payload

record workstream_row =
  ws_id :: string
  ws_project_id :: string
  ws_state :: string
  ws_created_at :: int
  ws_updated_at :: int

record run_row =
  rn_id :: string
  rn_workstream_id :: string
  rn_project_id :: string
  rn_envelope_id :: string
  rn_envelope_version :: int
  rn_state :: string
  rn_created_at :: int
  rn_updated_at :: int

record job_row =
  jb_id :: string
  jb_run_id :: string
  jb_state :: string
  jb_purpose :: string
  jb_created_at :: int
  jb_updated_at :: int

record attempt_row =
  at_id :: string
  at_project_job_id :: string
  at_ordinal :: int
  at_state :: string
  at_result_claim :: "string option"
  at_reconciliation_outcome :: "string option"
  at_created_at :: int
  at_updated_at :: int

record workspace_row =
  wk_id :: string
  wk_attempt_id :: string
  wk_project_root :: string
  wk_workspace_root :: string
  wk_baseline_revision :: int
  wk_state :: string
  wk_created_at :: int

record acceptance_row =
  ac_decision_id :: string
  ac_project_job_id :: string
  ac_outcome :: string
  ac_evidence_valid :: bool
  ac_actor_id :: string
  ac_reason :: string
  ac_decided_at :: int
  ac_evidence_ids :: string
  ac_envelope_fingerprint :: "string option"

record audit_row =
  au_sequence :: nat
  au_event_type :: string
  au_actor_id :: string
  au_actor_kind :: string
  au_authentication_method :: string
  au_delegation_id :: "string option"
  au_correlation_id :: "string option"
  au_entity_type :: string
  au_entity_id :: string
  au_occurred_at :: int
  au_payload :: json

record proposal_row =
  ep_envelope_id :: string
  ep_version :: int
  ep_project_id :: string
  ep_fingerprint :: string
  ep_proposed_by :: string
  ep_payload :: env_payload
  ep_proposed_at :: int
  ep_state :: string

record session_row =
  ss_id :: string
  ss_project_id :: string
  ss_workstream_id :: "string option"
  ss_run_id :: "string option"
  ss_actor_id :: string
  ss_actor_type :: string
  ss_delegation_id :: "string option"
  ss_delegated_actions :: "string list"
  ss_opened_revision :: int
  ss_last_seen_revision :: int
  ss_state :: string
  ss_reconnect_token_hash :: string
  ss_created_at :: int
  ss_updated_at :: int

record request_row =
  dr_id :: string
  dr_project_id :: string
  dr_run_id :: "string option"
  dr_requested_by :: string
  dr_materiality :: string
  dr_question :: string
  dr_affected_workstreams :: "string list"
  dr_blocked_from_states :: "(string \<times> string) list"
  dr_state :: string
  dr_outcome :: "string option"
  dr_resolution :: "string option"
  dr_resolved_by :: "string option"
  dr_created_at :: int
  dr_resolved_at :: "int option"

record control_row =
  oc_scope_type :: string
  oc_scope_id :: string
  oc_project_id :: "string option"
  oc_state :: string
  oc_reason :: string
  oc_generation :: int
  oc_actor_id :: string
  oc_updated_at :: int

record db =
  coordinator_lease :: "lease option"
  envelopes :: "envelope_row list"
  workstreams :: "workstream_row list"
  runs :: "run_row list"
  project_jobs :: "job_row list"
  attempts :: "attempt_row list"
  workspaces :: "workspace_row list"
  acceptance_decisions :: "acceptance_row list"
  dispatch_authorizations :: "dispatch_authorization list"
  evidence_records :: "evidence_record list"
  runtime_audit :: "audit_row list"
  envelope_proposals :: "proposal_row list"
  interaction_sessions :: "session_row list"
  decision_requests :: "request_row list"
  operational_controls :: "control_row list"

definition empty_db :: db where
  "empty_db = \<lparr>coordinator_lease = None, envelopes = [], workstreams = [], runs = [], project_jobs = [],
     attempts = [], workspaces = [], acceptance_decisions = [], dispatch_authorizations = [],
     evidence_records = [], runtime_audit = [], envelope_proposals = [], interaction_sessions = [],
     decision_requests = [], operational_controls = []\<rparr>"

section \<open>Transactions, the fence and the audit trail\<close>

definition transaction :: "(db, 'a) eff \<Rightarrow> (db, 'a) eff" where
  "transaction body d = (case body d of (Inl e, _) \<Rightarrow> (Inl e, d) | (Inr x, d') \<Rightarrow> (Inr x, d'))"

definition fence_ok :: "fence_token \<Rightarrow> int \<Rightarrow> db \<Rightarrow> bool" where
  "fence_ok t now d = (case coordinator_lease d of None \<Rightarrow> False
     | Some row \<Rightarrow> \<not> (ls_holder_id row \<noteq> holder_id t \<or> ls_generation row \<noteq> generation t \<or> ls_expires_at row \<le> now))"

definition assert_fence :: "fence_token \<Rightarrow> int \<Rightarrow> (db, unit) eff" where
  "assert_fence t now = check (fence_ok t now) CoordinatorFencedError"

definition validate_actor :: "actor_like \<Rightarrow> (db, unit) eff" where
  "validate_actor actor =
     (let principal = as_principal actor in
      req (\<not> (\<not> authenticated principal \<or> is_anonymous (actor_id principal))) RuntimeAuthorizationError)"

definition sensitive_keys :: "string list" where
  "sensitive_keys = [''secret'', ''password'', ''token'', ''api_key'', ''credential_value'']"

definition sensitive :: "string \<Rightarrow> bool" where
  "sensitive key = list_ex (\<lambda>marker. sublist marker (casefold key)) sensitive_keys"

fun secret_safe :: "string \<Rightarrow> json \<Rightarrow> json" where
  "secret_safe key (JStr s) = (if sensitive key then JStr ''[REDACTED]'' else JStr (scrub_secrets s))"
| "secret_safe key (JObj kvs) = (if sensitive key then JStr ''[REDACTED]''
     else JObj (map (\<lambda>(k, item). (k, secret_safe k item)) kvs))"
| "secret_safe key (JArr items) = (if sensitive key then JStr ''[REDACTED]''
     else JArr (map (secret_safe []) items))"
| "secret_safe key (JInt i) = (if sensitive key then JStr ''[REDACTED]'' else JInt i)"
| "secret_safe key (JFloat m e) = (if sensitive key then JStr ''[REDACTED]'' else JFloat m e)"
| "secret_safe key (JBool b) = (if sensitive key then JStr ''[REDACTED]'' else JBool b)"
| "secret_safe key JNull = (if sensitive key then JStr ''[REDACTED]'' else JNull)"

text \<open>
  \<open>_audit\<close>. The sequence number is an \<open>AUTOINCREMENT\<close> key; rows are never deleted, so
  it is one more than the number of rows.
\<close>

definition audit_entry :: "string \<Rightarrow> actor_like \<Rightarrow> string \<Rightarrow> string \<Rightarrow> int \<Rightarrow> (string \<times> json) list \<Rightarrow>
    string option \<Rightarrow> db \<Rightarrow> audit_row" where
  "audit_entry event actor entity_type entity_id occurred_at payload correlation_id d =
     (let principal = as_principal actor in
      \<lparr>au_sequence = Suc (length (runtime_audit d)), au_event_type = event, au_actor_id = actor_id principal,
       au_actor_kind = actor_type_value (actor_type principal),
       au_authentication_method = authentication_method principal,
       au_delegation_id = map_option grant_id (delegation principal),
       au_correlation_id = correlation_id, au_entity_type = entity_type, au_entity_id = entity_id,
       au_occurred_at = occurred_at,
       au_payload = secret_safe [] (JObj (AList.update ''actor'' (to_audit_dict principal) payload))\<rparr>)"

definition log_audit :: "string \<Rightarrow> actor_like \<Rightarrow> string \<Rightarrow> string \<Rightarrow> int \<Rightarrow> (string \<times> json) list \<Rightarrow>
    string option \<Rightarrow> (db, unit) eff" where
  "log_audit event actor entity_type entity_id occurred_at payload correlation_id =
     modify (\<lambda>d. d\<lparr>runtime_audit := runtime_audit d @
       [audit_entry event actor entity_type entity_id occurred_at payload correlation_id d]\<rparr>)"

section \<open>The coordinator lease\<close>

definition acquire_coordinator :: "string \<Rightarrow> int \<Rightarrow> int \<Rightarrow> (db, fence_token) eff" where
  "acquire_coordinator holder now ttl =
     bnd (req (\<not> (blank holder \<or> ttl < 1)) ValueError) (\<lambda>_.
     transaction (
       bnd (gets coordinator_lease) (\<lambda>row.
       bnd (case row of None \<Rightarrow> ret 1
            | Some l \<Rightarrow> (if ls_expires_at l > now \<and> ls_holder_id l \<noteq> holder then raise CoordinatorFencedError
                        else ret (ls_generation l + 1))) (\<lambda>gen.
       bnd (modify (\<lambda>d. d\<lparr>coordinator_lease := Some \<lparr>ls_holder_id = holder, ls_generation = gen,
              ls_expires_at = now + ttl\<rparr>\<rparr>)) (\<lambda>_.
       bnd (log_audit ''COORDINATOR_ACQUIRED'' (Actor_String holder) ''coordinator'' holder now
              [(''generation'', JInt gen), (''expires_at'', JInt (now + ttl))] None) (\<lambda>_.
       ret \<lparr>holder_id = holder, generation = gen, expires_at = now + ttl\<rparr>))))))"

definition renew_coordinator :: "fence_token \<Rightarrow> int \<Rightarrow> int \<Rightarrow> (db, fence_token) eff" where
  "renew_coordinator t now ttl =
     transaction (
       bnd (assert_fence t now) (\<lambda>_.
       bnd (modify (\<lambda>d. d\<lparr>coordinator_lease :=
              map_option (\<lambda>l. l\<lparr>ls_expires_at := now + ttl\<rparr>) (coordinator_lease d)\<rparr>)) (\<lambda>_.
       ret \<lparr>holder_id = holder_id t, generation = generation t, expires_at = now + ttl\<rparr>)))"

section \<open>Envelopes\<close>

definition payload_of :: "(json \<Rightarrow> string) \<Rightarrow> execution_envelope \<Rightarrow> env_payload" where
  "payload_of sha e = \<lparr>pl_envelope = e, pl_fingerprint = fingerprint sha e\<rparr>"

definition find_envelope :: "string \<Rightarrow> int \<Rightarrow> db \<Rightarrow> envelope_row option" where
  "find_envelope i v d = find (\<lambda>r. er_envelope_id r = i \<and> er_version r = v) (envelopes d)"

definition insert_envelope :: "envelope_row \<Rightarrow> (db, unit) eff" where
  "insert_envelope r =
     bnd (check (\<lambda>d. find_envelope (er_envelope_id r) (er_version r) d = None) IntegrityError) (\<lambda>_.
     modify (\<lambda>d. d\<lparr>envelopes := envelopes d @ [r]\<rparr>))"

definition put_envelope :: "(json \<Rightarrow> string) \<Rightarrow> execution_envelope \<Rightarrow> fence_token \<Rightarrow> int \<Rightarrow>
    actor_like option \<Rightarrow> string option \<Rightarrow> (db, unit) eff" where
  "put_envelope sha e t now actor correlation_id =
     bnd (req (approved e) RuntimeAuthorizationError) (\<lambda>_.
     let principal = as_principal (case actor of Some a \<Rightarrow> a | None \<Rightarrow> Actor_String (env_actor_id e)) in
     bnd (lift (require principal ''envelope:approve'' (env_project_id e) now)) (\<lambda>_.
     transaction (
       bnd (assert_fence t now) (\<lambda>_.
       bnd (gets (find_envelope (envelope_id e) (version e))) (\<lambda>existing.
       case existing of
         Some r \<Rightarrow> req (\<not> er_fingerprint r \<noteq> fingerprint sha e) RuntimeAuthorizationError
       | None \<Rightarrow>
           bnd (insert_envelope \<lparr>er_envelope_id = envelope_id e, er_version = version e,
                  er_project_id = env_project_id e, er_fingerprint = fingerprint sha e,
                  er_approved_by = actor_id principal, er_payload = payload_of sha e\<rparr>) (\<lambda>_.
           log_audit ''ENVELOPE_APPROVED'' (Principal principal) ''envelope'' (envelope_id e) now
             [(''version'', JInt (version e)), (''fingerprint'', JStr (fingerprint sha e)),
              (''project_id'', JStr (env_project_id e)),
              (''supervision_level'', JStr (supervision_level_value (env_supervision_level e)))] correlation_id))))))"

definition envelope :: "string \<Rightarrow> int \<Rightarrow> db \<Rightarrow> env_payload option" where
  "envelope i v d = map_option er_payload (find_envelope i v d)"

definition get_workstream :: "string \<Rightarrow> db \<Rightarrow> workstream_row option" where
  "get_workstream i d = find (\<lambda>r. ws_id r = i) (workstreams d)"

definition get_run :: "string \<Rightarrow> db \<Rightarrow> run_row option" where
  "get_run i d = find (\<lambda>r. rn_id r = i) (runs d)"

definition get_job :: "string \<Rightarrow> db \<Rightarrow> job_row option" where
  "get_job i d = find (\<lambda>r. jb_id r = i) (project_jobs d)"

definition get_attempt :: "string \<Rightarrow> db \<Rightarrow> attempt_row option" where
  "get_attempt i d = find (\<lambda>r. at_id r = i) (attempts d)"

definition get_workspace :: "string \<Rightarrow> db \<Rightarrow> workspace_row option" where
  "get_workspace i d = find (\<lambda>r. wk_id r = i) (workspaces d)"

text \<open>
  The joined query of \<open>envelope_for_attempt\<close>; the keys joined on are unique, so the query has
  at most one row. The stored payload is a mapping by type.
\<close>

definition envelope_for_attempt :: "string \<Rightarrow> db \<Rightarrow> env_payload res" where
  "envelope_for_attempt i d =
     (case get_attempt i d of None \<Rightarrow> Inl KeyError | Some a \<Rightarrow>
     (case get_job (at_project_job_id a) d of None \<Rightarrow> Inl KeyError | Some j \<Rightarrow>
     (case get_run (jb_run_id j) d of None \<Rightarrow> Inl KeyError | Some r \<Rightarrow>
     (case envelope (rn_envelope_id r) (rn_envelope_version r) d of None \<Rightarrow> Inl KeyError | Some p \<Rightarrow> Inr p))))"

section \<open>Dispatch authorizations and evidence\<close>

definition dispatch_authorization :: "string \<Rightarrow> db \<Rightarrow> dispatch_authorization option" where
  "dispatch_authorization i d = find (\<lambda>r. dsp_attempt_id r = i) (dispatch_authorizations d)"

definition insert_dispatch :: "dispatch_authorization \<Rightarrow> (db, unit) eff" where
  "insert_dispatch r =
     bnd (check (\<lambda>d. authorization_id r \<notin> authorization_id ` set (dispatch_authorizations d) \<and>
       dsp_attempt_id r \<notin> dsp_attempt_id ` set (dispatch_authorizations d) \<and>
       get_attempt (dsp_attempt_id r) d \<noteq> None) IntegrityError) (\<lambda>_.
     modify (\<lambda>d. d\<lparr>dispatch_authorizations := dispatch_authorizations d @ [r]\<rparr>))"

definition record_dispatch_authorization :: "dispatch_authorization \<Rightarrow> fence_token \<Rightarrow> int \<Rightarrow> actor_like \<Rightarrow>
    string option \<Rightarrow> (db, unit) eff" where
  "record_dispatch_authorization a t now actor correlation_id =
     (let principal = as_principal actor in
     transaction (
       bnd (assert_fence t now) (\<lambda>_.
       bnd (insert_dispatch a) (\<lambda>_.
       log_audit ''ATTEMPT_DISPATCH_AUTHORIZED'' (Principal principal) ''attempts'' (dsp_attempt_id a) now
         (dispatch_to_dict a) correlation_id))))"

definition insert_evidence :: "evidence_record \<Rightarrow> (db, unit) eff" where
  "insert_evidence r =
     bnd (check (\<lambda>d. evidence_id r \<notin> evidence_id ` set (evidence_records d) \<and>
       get_job (ev_project_job_id r) d \<noteq> None \<and> get_attempt (ev_attempt_id r) d \<noteq> None) IntegrityError) (\<lambda>_.
     modify (\<lambda>d. d\<lparr>evidence_records := evidence_records d @ [r]\<rparr>))"

definition record_evidence :: "evidence_record \<Rightarrow> fence_token \<Rightarrow> int \<Rightarrow> actor_like \<Rightarrow> string option \<Rightarrow> (db, unit) eff" where
  "record_evidence ev t now actor correlation_id =
     (let principal = as_principal actor in
     transaction (
       bnd (assert_fence t now) (\<lambda>_.
       bnd (insert_evidence ev) (\<lambda>_.
       log_audit ''EVIDENCE_RECORDED'' (Principal principal) ''evidence'' (evidence_id ev) now
         (evidence_to_dict ev) correlation_id))))"

text \<open>\<open>evidence\<close>: the known records in the order of the requested identifiers.\<close>

definition evidence :: "string list \<Rightarrow> db \<Rightarrow> evidence_record list" where
  "evidence ids d = List.map_filter (\<lambda>i. find (\<lambda>r. evidence_id r = i) (evidence_records d)) ids"

section \<open>Insertion of runtime rows\<close>

text \<open>The five tables \<open>insert\<close> supports, with the row it inserts.\<close>

datatype new_row =
    New_Workstream workstream_row
  | New_Run run_row
  | New_Job job_row
  | New_Attempt attempt_row
  | New_Workspace workspace_row

fun row_table :: "new_row \<Rightarrow> string" where
  "row_table (New_Workstream r) = ''workstreams''"
| "row_table (New_Run r) = ''runs''"
| "row_table (New_Job r) = ''project_jobs''"
| "row_table (New_Attempt r) = ''attempts''"
| "row_table (New_Workspace r) = ''workspaces''"

fun row_id :: "new_row \<Rightarrow> string" where
  "row_id (New_Workstream r) = ws_id r"
| "row_id (New_Run r) = rn_id r"
| "row_id (New_Job r) = jb_id r"
| "row_id (New_Attempt r) = at_id r"
| "row_id (New_Workspace r) = wk_id r"

fun row_values :: "new_row \<Rightarrow> (string \<times> json) list" where
  "row_values (New_Workstream r) =
     [(''workstream_id'', JStr (ws_id r)), (''project_id'', JStr (ws_project_id r)), (''state'', JStr (ws_state r)),
      (''created_at'', JInt (ws_created_at r)), (''updated_at'', JInt (ws_updated_at r))]"
| "row_values (New_Run r) =
     [(''run_id'', JStr (rn_id r)), (''workstream_id'', JStr (rn_workstream_id r)),
      (''project_id'', JStr (rn_project_id r)), (''envelope_id'', JStr (rn_envelope_id r)),
      (''envelope_version'', JInt (rn_envelope_version r)), (''state'', JStr (rn_state r)),
      (''created_at'', JInt (rn_created_at r)), (''updated_at'', JInt (rn_updated_at r))]"
| "row_values (New_Job r) =
     [(''project_job_id'', JStr (jb_id r)), (''run_id'', JStr (jb_run_id r)), (''state'', JStr (jb_state r)),
      (''purpose'', JStr (jb_purpose r)), (''created_at'', JInt (jb_created_at r)),
      (''updated_at'', JInt (jb_updated_at r))]"
| "row_values (New_Attempt r) =
     [(''attempt_id'', JStr (at_id r)), (''project_job_id'', JStr (at_project_job_id r)),
      (''ordinal'', JInt (at_ordinal r)), (''state'', JStr (at_state r)),
      (''result_claim'', jopt JStr (at_result_claim r)),
      (''reconciliation_outcome'', jopt JStr (at_reconciliation_outcome r)),
      (''created_at'', JInt (at_created_at r)), (''updated_at'', JInt (at_updated_at r))]"
| "row_values (New_Workspace r) =
     [(''workspace_id'', JStr (wk_id r)), (''attempt_id'', JStr (wk_attempt_id r)),
      (''project_root'', JStr (wk_project_root r)), (''workspace_root'', JStr (wk_workspace_root r)),
      (''baseline_revision'', JInt (wk_baseline_revision r)), (''state'', JStr (wk_state r)),
      (''created_at'', JInt (wk_created_at r))]"

text \<open>The constraints of the schema on a new row.\<close>

fun row_ok :: "new_row \<Rightarrow> db \<Rightarrow> bool" where
  "row_ok (New_Workstream r) d \<longleftrightarrow> get_workstream (ws_id r) d = None"
| "row_ok (New_Run r) d \<longleftrightarrow> get_run (rn_id r) d = None \<and> get_workstream (rn_workstream_id r) d \<noteq> None \<and>
     find_envelope (rn_envelope_id r) (rn_envelope_version r) d \<noteq> None"
| "row_ok (New_Job r) d \<longleftrightarrow> get_job (jb_id r) d = None \<and> get_run (jb_run_id r) d \<noteq> None"
| "row_ok (New_Attempt r) d \<longleftrightarrow> get_attempt (at_id r) d = None \<and> get_job (at_project_job_id r) d \<noteq> None \<and>
     (at_project_job_id r, at_ordinal r) \<notin> (\<lambda>a. (at_project_job_id a, at_ordinal a)) ` set (attempts d)"
| "row_ok (New_Workspace r) d \<longleftrightarrow> get_workspace (wk_id r) d = None \<and> get_attempt (wk_attempt_id r) d \<noteq> None \<and>
     wk_attempt_id r \<notin> wk_attempt_id ` set (workspaces d)"

fun add_row :: "new_row \<Rightarrow> db \<Rightarrow> db" where
  "add_row (New_Workstream r) d = d\<lparr>workstreams := workstreams d @ [r]\<rparr>"
| "add_row (New_Run r) d = d\<lparr>runs := runs d @ [r]\<rparr>"
| "add_row (New_Job r) d = d\<lparr>project_jobs := project_jobs d @ [r]\<rparr>"
| "add_row (New_Attempt r) d = d\<lparr>attempts := attempts d @ [r]\<rparr>"
| "add_row (New_Workspace r) d = d\<lparr>workspaces := workspaces d @ [r]\<rparr>"

definition insert_row :: "new_row \<Rightarrow> (db, unit) eff" where
  "insert_row r = bnd (check (row_ok r) IntegrityError) (\<lambda>_. modify (add_row r))"

definition insert_values :: "new_row \<Rightarrow> fence_token \<Rightarrow> int \<Rightarrow> actor_like \<Rightarrow> string \<Rightarrow> (db, unit) eff" where
  "insert_values r t now actor event =
     bnd (validate_actor actor) (\<lambda>_.
     transaction (
       bnd (assert_fence t now) (\<lambda>_.
       bnd (insert_row r) (\<lambda>_.
       log_audit event actor (row_table r) (row_id r) now (row_values r) None))))"

section \<open>State transitions\<close>

text \<open>
  The columns a transition sets besides the state. Only \<open>attempts\<close> has them; setting
  one on another table is an SQL error.
\<close>

datatype update_column = Result_Claim | Reconciliation_Outcome

fun update_column_name :: "update_column \<Rightarrow> string" where
  "update_column_name Result_Claim = ''result_claim''"
| "update_column_name Reconciliation_Outcome = ''reconciliation_outcome''"

record change =
  ch_table :: string
  ch_id_column :: string
  ch_identifier :: string
  ch_expected_state :: string
  ch_target_state :: string
  ch_updates :: "(update_column \<times> string) list"

definition transition_targets :: "(string \<times> string) list" where
  "transition_targets = [(''workstreams'', ''workstream_id''), (''runs'', ''run_id''),
     (''project_jobs'', ''project_job_id''), (''attempts'', ''attempt_id'')]"

fun set_column :: "update_column \<times> string \<Rightarrow> attempt_row \<Rightarrow> attempt_row" where
  "set_column (Result_Claim, v) r = r\<lparr>at_result_claim := Some v\<rparr>"
| "set_column (Reconciliation_Outcome, v) r = r\<lparr>at_reconciliation_outcome := Some v\<rparr>"

definition set_attempt :: "change \<Rightarrow> int \<Rightarrow> attempt_row \<Rightarrow> attempt_row" where
  "set_attempt c now r = fold set_column (ch_updates c) (r\<lparr>at_state := ch_target_state c, at_updated_at := now\<rparr>)"

text \<open>The \<open>UPDATE\<close> of one change: the rows it would change, and the changed database.\<close>

definition change_count :: "change \<Rightarrow> db \<Rightarrow> nat" where
  "change_count c d =
     (let i = ch_identifier c; s = ch_expected_state c in
      if ch_table c = ''workstreams'' then rowcount (\<lambda>r. ws_id r = i \<and> ws_state r = s) (workstreams d)
      else if ch_table c = ''runs'' then rowcount (\<lambda>r. rn_id r = i \<and> rn_state r = s) (runs d)
      else if ch_table c = ''project_jobs'' then rowcount (\<lambda>r. jb_id r = i \<and> jb_state r = s) (project_jobs d)
      else rowcount (\<lambda>r. at_id r = i \<and> at_state r = s) (attempts d))"

definition change_rows :: "change \<Rightarrow> int \<Rightarrow> db \<Rightarrow> db" where
  "change_rows c now d =
     (let i = ch_identifier c; s = ch_expected_state c; u = ch_target_state c in
      if ch_table c = ''workstreams'' then d\<lparr>workstreams :=
          update_where (\<lambda>r. ws_id r = i \<and> ws_state r = s) (\<lambda>r. r\<lparr>ws_state := u, ws_updated_at := now\<rparr>) (workstreams d)\<rparr>
      else if ch_table c = ''runs'' then d\<lparr>runs :=
          update_where (\<lambda>r. rn_id r = i \<and> rn_state r = s) (\<lambda>r. r\<lparr>rn_state := u, rn_updated_at := now\<rparr>) (runs d)\<rparr>
      else if ch_table c = ''project_jobs'' then d\<lparr>project_jobs :=
          update_where (\<lambda>r. jb_id r = i \<and> jb_state r = s) (\<lambda>r. r\<lparr>jb_state := u, jb_updated_at := now\<rparr>) (project_jobs d)\<rparr>
      else d\<lparr>attempts :=
          update_where (\<lambda>r. at_id r = i \<and> at_state r = s) (set_attempt c now) (attempts d)\<rparr>)"

definition apply_change :: "change \<Rightarrow> int \<Rightarrow> actor_like \<Rightarrow> (db, unit) eff" where
  "apply_change c now actor =
     bnd (req ((ch_table c, ch_id_column c) \<in> set transition_targets) ValueError) (\<lambda>_.
     bnd (req (ch_table c = ''attempts'' \<or> ch_updates c = []) OperationalError) (\<lambda>_.
     bnd (check (\<lambda>d. change_count c d = 1) CoordinatorFencedError) (\<lambda>_.
     bnd (modify (change_rows c now)) (\<lambda>_.
     log_audit (upper (ch_table c) @ ''_TRANSITION'') actor (ch_table c) (ch_identifier c) now
       (foldl (\<lambda>kvs (k, v). AList.update (update_column_name k) (JStr v) kvs)
         [(''from'', JStr (ch_expected_state c)), (''to'', JStr (ch_target_state c))] (ch_updates c)) None))))"

fun apply_changes :: "change list \<Rightarrow> int \<Rightarrow> actor_like \<Rightarrow> (db, unit) eff" where
  "apply_changes [] now actor = ret ()"
| "apply_changes (c # cs) now actor = bnd (apply_change c now actor) (\<lambda>_. apply_changes cs now actor)"

definition transition_batch :: "change list \<Rightarrow> fence_token \<Rightarrow> int \<Rightarrow> actor_like \<Rightarrow> (db, unit) eff" where
  "transition_batch changes t now actor =
     bnd (validate_actor actor) (\<lambda>_.
     bnd (req (changes \<noteq> []) ValueError) (\<lambda>_.
     transaction (
       bnd (assert_fence t now) (\<lambda>_.
       apply_changes changes now actor))))"

definition transition_one :: "string \<Rightarrow> string \<Rightarrow> string \<Rightarrow> string \<Rightarrow> string \<Rightarrow> fence_token \<Rightarrow> int \<Rightarrow> actor_like \<Rightarrow>
    (update_column \<times> string) list \<Rightarrow> (db, unit) eff" where
  "transition_one table id_column identifier expected target t now actor updates =
     transition_batch [\<lparr>ch_table = table, ch_id_column = id_column, ch_identifier = identifier,
       ch_expected_state = expected, ch_target_state = target, ch_updates = updates\<rparr>] t now actor"

section \<open>Acceptance decisions\<close>

text \<open>\<open>json.dumps\<close> of a list of strings, with its ASCII escapes.\<close>

definition json_escape :: "char \<Rightarrow> string" where
  "json_escape c = (let n = ccode c in
     if n = 34 \<or> n = 92 then [CHR 0x5C, c]
     else if 32 \<le> n \<and> n \<le> 126 then [c]
     else if n = 8 then [CHR 0x5C, CHR ''b'']
     else if n = 9 then [CHR 0x5C, CHR ''t'']
     else if n = 10 then [CHR 0x5C, CHR ''n'']
     else if n = 12 then [CHR 0x5C, CHR ''f'']
     else if n = 13 then [CHR 0x5C, CHR ''r'']
     else [CHR 0x5C, CHR ''u'', CHR ''0'', CHR ''0'', hex_char (n div 16), hex_char (n mod 16)])"

definition json_string :: "string \<Rightarrow> string" where
  "json_string s = CHR 0x22 # concat (map json_escape s) @ [CHR 0x22]"

definition dumps_strings :: "string list \<Rightarrow> string" where
  "dumps_strings xs = ''['' @ comma_join (map json_string xs) @ '']''"

definition acceptance_row_of :: "acceptance_decision \<Rightarrow> acceptance_row" where
  "acceptance_row_of v =
     \<lparr>ac_decision_id = decision_id v, ac_project_job_id = dec_project_job_id v,
      ac_outcome = acceptance_outcome_value (outcome v), ac_evidence_valid = evidence_valid v,
      ac_actor_id = dec_actor_id v, ac_reason = reason v, ac_decided_at = decided_at v,
      ac_evidence_ids = dumps_strings (evidence_ids v), ac_envelope_fingerprint = dec_envelope_fingerprint v\<rparr>"

definition insert_acceptance :: "acceptance_row \<Rightarrow> (db, unit) eff" where
  "insert_acceptance r =
     bnd (check (\<lambda>d. ac_decision_id r \<notin> ac_decision_id ` set (acceptance_decisions d) \<and>
       get_job (ac_project_job_id r) d \<noteq> None) IntegrityError) (\<lambda>_.
     modify (\<lambda>d. d\<lparr>acceptance_decisions := acceptance_decisions d @ [r]\<rparr>))"

definition set_job_state :: "string \<Rightarrow> string \<Rightarrow> string \<Rightarrow> int \<Rightarrow> (db, unit) eff" where
  "set_job_state job expected target now =
     bnd (check (\<lambda>d. rowcount (\<lambda>r. jb_id r = job \<and> jb_state r = expected) (project_jobs d) = 1) CoordinatorFencedError) (\<lambda>_.
     modify (\<lambda>d. d\<lparr>project_jobs := update_where (\<lambda>r. jb_id r = job \<and> jb_state r = expected)
       (\<lambda>r. r\<lparr>jb_state := target, jb_updated_at := now\<rparr>) (project_jobs d)\<rparr>))"

definition record_acceptance :: "acceptance_decision \<Rightarrow> fence_token \<Rightarrow> int \<Rightarrow> string \<Rightarrow> actor_like option \<Rightarrow>
    string option \<Rightarrow> (db, unit) eff" where
  "record_acceptance v t now target actor correlation_id =
     (let audit_actor = (case actor of Some a \<Rightarrow> a | None \<Rightarrow> Actor_String (dec_actor_id v)) in
     bnd (validate_actor audit_actor) (\<lambda>_.
     transaction (
       bnd (assert_fence t now) (\<lambda>_.
       bnd (insert_acceptance (acceptance_row_of v)) (\<lambda>_.
       bnd (set_job_state (dec_project_job_id v) ''FINISHED'' target now) (\<lambda>_.
       bnd (log_audit ''ACCEPTANCE_DECIDED'' audit_actor ''project_jobs'' (dec_project_job_id v) now
              (decision_to_dict v) correlation_id) (\<lambda>_.
       log_audit ''PROJECT_JOBS_TRANSITION'' audit_actor ''project_jobs'' (dec_project_job_id v) now
         [(''from'', JStr ''FINISHED''), (''to'', JStr target)] correlation_id)))))))"

text \<open>
  \<open>acceptance\<close>: the decision with the greatest \<open>decided_at\<close>. SQL leaves the choice among
  equals open; the first is taken here. A ProjectJob of the runtime has at most one decision.
\<close>

fun latest :: "acceptance_row list \<Rightarrow> acceptance_row option" where
  "latest [] = None"
| "latest (r # rs) = (case latest rs of None \<Rightarrow> Some r
     | Some q \<Rightarrow> if ac_decided_at q > ac_decided_at r then Some q else Some r)"

definition acceptance :: "string \<Rightarrow> db \<Rightarrow> acceptance_row option" where
  "acceptance job d = latest (filter (\<lambda>r. ac_project_job_id r = job) (acceptance_decisions d))"

section \<open>Workspaces\<close>

definition set_workspace_state :: "string \<Rightarrow> string \<Rightarrow> string \<Rightarrow> fence_token \<Rightarrow> int \<Rightarrow> actor_like \<Rightarrow> (db, unit) eff" where
  "set_workspace_state i expected target t now actor =
     bnd (validate_actor actor) (\<lambda>_.
     transaction (
       bnd (assert_fence t now) (\<lambda>_.
       bnd (check (\<lambda>d. rowcount (\<lambda>r. wk_id r = i \<and> wk_state r = expected) (workspaces d) = 1) CoordinatorFencedError) (\<lambda>_.
       bnd (modify (\<lambda>d. d\<lparr>workspaces := update_where (\<lambda>r. wk_id r = i \<and> wk_state r = expected)
              (\<lambda>r. r\<lparr>wk_state := target\<rparr>) (workspaces d)\<rparr>)) (\<lambda>_.
       log_audit ''WORKSPACE_TRANSITION'' actor ''workspaces'' i now
         [(''from'', JStr expected), (''to'', JStr target)] None)))))"

section \<open>Envelope proposals\<close>

definition envelope_proposal :: "string \<Rightarrow> int \<Rightarrow> db \<Rightarrow> proposal_row option" where
  "envelope_proposal i v d = find (\<lambda>r. ep_envelope_id r = i \<and> ep_version r = v) (envelope_proposals d)"

definition propose_envelope :: "(json \<Rightarrow> string) \<Rightarrow> execution_envelope \<Rightarrow> fence_token \<Rightarrow> int \<Rightarrow> actor_like \<Rightarrow>
    string option \<Rightarrow> (db, unit) eff" where
  "propose_envelope sha e t now actor correlation_id =
     bnd (req (\<not> approved e) RuntimeAuthorizationError) (\<lambda>_.
     let principal = as_principal actor in
     bnd (lift (require principal ''envelope:propose'' (env_project_id e) now)) (\<lambda>_.
     transaction (
       bnd (assert_fence t now) (\<lambda>_.
       bnd (check (\<lambda>d. envelope_proposal (envelope_id e) (version e) d = None) IntegrityError) (\<lambda>_.
       bnd (modify (\<lambda>d. d\<lparr>envelope_proposals := envelope_proposals d @
              [\<lparr>ep_envelope_id = envelope_id e, ep_version = version e, ep_project_id = env_project_id e,
                ep_fingerprint = fingerprint sha e, ep_proposed_by = actor_id principal,
                ep_payload = payload_of sha e, ep_proposed_at = now, ep_state = ''PROPOSED''\<rparr>]\<rparr>)) (\<lambda>_.
       log_audit ''ENVELOPE_PROPOSED'' (Principal principal) ''envelope'' (envelope_id e) now
         [(''version'', JInt (version e)), (''fingerprint'', JStr (fingerprint sha e))] correlation_id))))))"

definition mark_envelope_proposal_approved :: "string \<Rightarrow> int \<Rightarrow> fence_token \<Rightarrow> int \<Rightarrow> actor_like \<Rightarrow> (db, unit) eff" where
  "mark_envelope_proposal_approved i v t now actor =
     (let pending = (\<lambda>r. ep_envelope_id r = i \<and> ep_version r = v \<and> ep_state r = ''PROPOSED'') in
     transaction (
       bnd (assert_fence t now) (\<lambda>_.
       bnd (check (\<lambda>d. rowcount pending (envelope_proposals d) = 1) CoordinatorFencedError) (\<lambda>_.
       bnd (modify (\<lambda>d. d\<lparr>envelope_proposals :=
              update_where pending (\<lambda>r. r\<lparr>ep_state := ''APPROVED''\<rparr>) (envelope_proposals d)\<rparr>)) (\<lambda>_.
       log_audit ''ENVELOPE_PROPOSAL_APPROVED'' actor ''envelope'' i now [(''version'', JInt v)] None)))))"

section \<open>Interaction sessions\<close>

definition interaction_session :: "string \<Rightarrow> db \<Rightarrow> session_row option" where
  "interaction_session i d = find (\<lambda>r. ss_id r = i) (interaction_sessions d)"

definition sessions_of_project :: "string \<Rightarrow> db \<Rightarrow> session_row list" where
  "sessions_of_project project d = sort_key ss_created_at (filter (\<lambda>r. ss_project_id r = project) (interaction_sessions d))"

definition create_interaction_session :: "session_row \<Rightarrow> fence_token \<Rightarrow> int \<Rightarrow> actor_like \<Rightarrow> (db, unit) eff" where
  "create_interaction_session r t now actor =
     bnd (validate_actor actor) (\<lambda>_.
     transaction (
       bnd (assert_fence t now) (\<lambda>_.
       bnd (check (\<lambda>d. interaction_session (ss_id r) d = None) IntegrityError) (\<lambda>_.
       bnd (modify (\<lambda>d. d\<lparr>interaction_sessions := interaction_sessions d @ [r]\<rparr>)) (\<lambda>_.
       log_audit ''INTERACTION_SESSION_OPENED'' actor ''interaction_session'' (ss_id r) now
         [(''project_id'', JStr (ss_project_id r)), (''opened_revision'', JInt (ss_opened_revision r))] None)))))"

definition update_interaction_session :: "string \<Rightarrow> string \<Rightarrow> string \<Rightarrow> int \<Rightarrow> fence_token \<Rightarrow> int \<Rightarrow> actor_like \<Rightarrow>
    string \<Rightarrow> (db, unit) eff" where
  "update_interaction_session i expected target seen t now actor event =
     bnd (validate_actor actor) (\<lambda>_.
     transaction (
       bnd (assert_fence t now) (\<lambda>_.
       bnd (check (\<lambda>d. rowcount (\<lambda>r. ss_id r = i \<and> ss_state r = expected) (interaction_sessions d) = 1) CoordinatorFencedError) (\<lambda>_.
       bnd (modify (\<lambda>d. d\<lparr>interaction_sessions := update_where (\<lambda>r. ss_id r = i \<and> ss_state r = expected)
              (\<lambda>r. r\<lparr>ss_state := target, ss_last_seen_revision := seen, ss_updated_at := now\<rparr>) (interaction_sessions d)\<rparr>)) (\<lambda>_.
       log_audit event actor ''interaction_session'' i now
         [(''from'', JStr expected), (''to'', JStr target), (''last_seen_revision'', JInt seen)] None)))))"

section \<open>Decision requests\<close>

definition block_workstream :: "request_row \<Rightarrow> string \<times> string \<Rightarrow> int \<Rightarrow> actor_like \<Rightarrow> (db, unit) eff" where
  "block_workstream v = (\<lambda>(i, expected) now actor.
     let hit = (\<lambda>r. ws_id r = i \<and> ws_project_id r = dr_project_id v \<and> ws_state r = expected) in
     bnd (check (\<lambda>d. rowcount hit (workstreams d) = 1) CoordinatorFencedError) (\<lambda>_.
     bnd (modify (\<lambda>d. d\<lparr>workstreams :=
            update_where hit (\<lambda>r. r\<lparr>ws_state := ''BLOCKED'', ws_updated_at := now\<rparr>) (workstreams d)\<rparr>)) (\<lambda>_.
     log_audit ''WORKSTREAM_BLOCKED_BY_DECISION'' actor ''workstream'' i now
       [(''decision_request_id'', JStr (dr_id v)), (''from'', JStr expected), (''to'', JStr ''BLOCKED'')] None)))"

fun block_workstreams :: "request_row \<Rightarrow> (string \<times> string) list \<Rightarrow> int \<Rightarrow> actor_like \<Rightarrow> (db, unit) eff" where
  "block_workstreams v [] now actor = ret ()"
| "block_workstreams v (b # bs) now actor =
     bnd (block_workstream v b now actor) (\<lambda>_. block_workstreams v bs now actor)"

definition decision_request :: "string \<Rightarrow> db \<Rightarrow> request_row option" where
  "decision_request i d = find (\<lambda>r. dr_id r = i) (decision_requests d)"

definition requests_of_project :: "string \<Rightarrow> db \<Rightarrow> request_row list" where
  "requests_of_project project d = sort_key dr_created_at (filter (\<lambda>r. dr_project_id r = project) (decision_requests d))"

definition create_decision_request :: "request_row \<Rightarrow> fence_token \<Rightarrow> int \<Rightarrow> actor_like \<Rightarrow> (db, unit) eff" where
  "create_decision_request v t now actor =
     bnd (validate_actor actor) (\<lambda>_.
     transaction (
       bnd (assert_fence t now) (\<lambda>_.
       bnd (req (dr_blocked_from_states v \<noteq> []) ValueError) (\<lambda>_.
       bnd (block_workstreams v (dr_blocked_from_states v) now actor) (\<lambda>_.
       bnd (check (\<lambda>d. decision_request (dr_id v) d = None) IntegrityError) (\<lambda>_.
       bnd (modify (\<lambda>d. d\<lparr>decision_requests := decision_requests d @ [v]\<rparr>)) (\<lambda>_.
       log_audit ''DECISION_REQUEST_CREATED'' actor ''decision_request'' (dr_id v) now
         [(''materiality'', JStr (dr_materiality v)),
          (''affected_workstreams'', jstrs (dr_affected_workstreams v))] None)))))))"

definition resume_workstream :: "string \<Rightarrow> string \<times> string \<Rightarrow> int \<Rightarrow> actor_like \<Rightarrow> (db, unit) eff" where
  "resume_workstream request = (\<lambda>(i, target) now actor.
     let hit = (\<lambda>r. ws_id r = i \<and> ws_state r = ''BLOCKED'') in
     bnd (check (\<lambda>d. rowcount hit (workstreams d) = 1) CoordinatorFencedError) (\<lambda>_.
     bnd (modify (\<lambda>d. d\<lparr>workstreams :=
            update_where hit (\<lambda>r. r\<lparr>ws_state := target, ws_updated_at := now\<rparr>) (workstreams d)\<rparr>)) (\<lambda>_.
     log_audit ''WORKSTREAM_RESUMED_AFTER_DECISION'' actor ''workstream'' i now
       [(''decision_request_id'', JStr request), (''from'', JStr ''BLOCKED''), (''to'', JStr target)] None)))"

fun resume_workstreams :: "string \<Rightarrow> (string \<times> string) list \<Rightarrow> int \<Rightarrow> actor_like \<Rightarrow> (db, unit) eff" where
  "resume_workstreams request [] now actor = ret ()"
| "resume_workstreams request (b # bs) now actor =
     bnd (resume_workstream request b now actor) (\<lambda>_. resume_workstreams request bs now actor)"

definition resolve_decision_request :: "string \<Rightarrow> string \<Rightarrow> string \<Rightarrow> bool \<Rightarrow> fence_token \<Rightarrow> int \<Rightarrow> actor_like \<Rightarrow>
    (db, unit) eff" where
  "resolve_decision_request i result resolution restore_workstreams t now actor =
     (let open_request = (\<lambda>r. dr_id r = i \<and> dr_state r = ''OPEN'') in
     bnd (validate_actor actor) (\<lambda>_.
     transaction (
       bnd (assert_fence t now) (\<lambda>_.
       bnd (gets (\<lambda>d. find open_request (decision_requests d))) (\<lambda>row.
       bnd (some_or CoordinatorFencedError row) (\<lambda>r.
       bnd (if restore_workstreams then resume_workstreams i (dr_blocked_from_states r) now actor else ret ()) (\<lambda>_.
       bnd (check (\<lambda>d. rowcount open_request (decision_requests d) = 1) CoordinatorFencedError) (\<lambda>_.
       bnd (modify (\<lambda>d. d\<lparr>decision_requests := update_where open_request
              (\<lambda>q. q\<lparr>dr_state := ''RESOLVED'', dr_outcome := Some result, dr_resolution := Some resolution,
                    dr_resolved_by := Some (actor_id (as_principal actor)), dr_resolved_at := Some now\<rparr>)
              (decision_requests d)\<rparr>)) (\<lambda>_.
       log_audit ''DECISION_REQUEST_RESOLVED'' actor ''decision_request'' i now
         [(''outcome'', JStr result), (''resolution'', JStr resolution)] None)))))))))"

section \<open>Operational controls\<close>

definition operational_control :: "string \<Rightarrow> string \<Rightarrow> db \<Rightarrow> control_row option" where
  "operational_control scope i d = find (\<lambda>r. oc_scope_type r = scope \<and> oc_scope_id r = i) (operational_controls d)"

definition all_controls :: "db \<Rightarrow> control_row list" where
  "all_controls d = sort_key (\<lambda>r. (oc_scope_type r, oc_scope_id r)) (operational_controls d)"

text \<open>\<open>INSERT ... ON CONFLICT(scope_type, scope_id) DO UPDATE\<close>\<close>

definition upsert_control :: "control_row \<Rightarrow> db \<Rightarrow> db" where
  "upsert_control c d = d\<lparr>operational_controls :=
     (if operational_control (oc_scope_type c) (oc_scope_id c) d = None then operational_controls d @ [c]
      else update_where (\<lambda>r. oc_scope_type r = oc_scope_type c \<and> oc_scope_id r = oc_scope_id c) (\<lambda>_. c)
        (operational_controls d))\<rparr>"

definition set_operational_control :: "string \<Rightarrow> string \<Rightarrow> string option \<Rightarrow> string \<Rightarrow> string \<Rightarrow> int \<Rightarrow> fence_token \<Rightarrow>
    int \<Rightarrow> actor_like \<Rightarrow> (db, unit) eff" where
  "set_operational_control scope i project st why gen t now actor =
     bnd (validate_actor actor) (\<lambda>_.
     transaction (
       bnd (assert_fence t now) (\<lambda>_.
       bnd (modify (upsert_control \<lparr>oc_scope_type = scope, oc_scope_id = i, oc_project_id = project, oc_state = st,
              oc_reason = why, oc_generation = gen, oc_actor_id = actor_id (as_principal actor),
              oc_updated_at = now\<rparr>)) (\<lambda>_.
       log_audit ''OPERATIONAL_CONTROL_CHANGED'' actor ''operational_control'' (scope @ '':'' @ i) now
         [(''state'', JStr st), (''reason'', JStr why), (''generation'', JInt gen)] None))))"

section \<open>Events and projections\<close>

definition record_event :: "string \<Rightarrow> string \<Rightarrow> string \<Rightarrow> (string \<times> json) list \<Rightarrow> fence_token \<Rightarrow> int \<Rightarrow> actor_like \<Rightarrow>
    string option \<Rightarrow> (db, unit) eff" where
  "record_event event entity_type entity_id payload t now actor correlation_id =
     bnd (validate_actor actor) (\<lambda>_.
     transaction (
       bnd (assert_fence t now) (\<lambda>_.
       log_audit event actor entity_type entity_id now payload correlation_id)))"

record run_snapshot =
  sn_workstream :: "workstream_row option"
  sn_run :: run_row
  sn_project_jobs :: "job_row list"
  sn_attempts :: "attempt_row list"
  sn_acceptance_decisions :: "acceptance_row list"
  sn_workspaces :: "workspace_row list"
  sn_dispatch_authorizations :: "dispatch_authorization list"
  sn_evidence_records :: "evidence_record list"

definition job_in_run :: "string \<Rightarrow> db \<Rightarrow> string \<Rightarrow> bool" where
  "job_in_run run d job = list_ex (\<lambda>j. jb_id j = job \<and> jb_run_id j = run) (project_jobs d)"

definition attempt_in_run :: "string \<Rightarrow> db \<Rightarrow> string \<Rightarrow> bool" where
  "attempt_in_run run d att = list_ex (\<lambda>a. at_id a = att \<and> job_in_run run d (at_project_job_id a)) (attempts d)"

definition snapshot_run :: "string \<Rightarrow> db \<Rightarrow> run_snapshot res" where
  "snapshot_run run d =
     (case get_run run d of None \<Rightarrow> Inl KeyError
      | Some r \<Rightarrow> Inr
          \<lparr>sn_workstream = get_workstream (rn_workstream_id r) d, sn_run = r,
           sn_project_jobs = sort_key jb_id (filter (\<lambda>j. jb_run_id j = run) (project_jobs d)),
           sn_attempts = sort_key at_id (filter (\<lambda>a. job_in_run run d (at_project_job_id a)) (attempts d)),
           sn_acceptance_decisions =
             sort_key ac_decided_at (filter (\<lambda>c. job_in_run run d (ac_project_job_id c)) (acceptance_decisions d)),
           sn_workspaces = sort_key wk_id (filter (\<lambda>w. attempt_in_run run d (wk_attempt_id w)) (workspaces d)),
           sn_dispatch_authorizations =
             sort_key authorized_at (filter (\<lambda>p. attempt_in_run run d (dsp_attempt_id p)) (dispatch_authorizations d)),
           sn_evidence_records =
             sort_key recorded_at (filter (\<lambda>v. job_in_run run d (ev_project_job_id v)) (evidence_records d))\<rparr>)"

section \<open>Upgrade of stored envelopes\<close>

definition envelope_defaults :: "(string \<times> json) list" where
  "envelope_defaults =
     [(''supervision_level'', JStr ''L2''), (''materiality'', JStr ''TACTICAL''), (''allowed_workstreams'', JArr []),
      (''allowed_providers'', JArr []), (''allowed_provider_roles'', JArr []),
      (''filesystem_permissions'', jstrs [''READ'', ''WRITE'']), (''network_permissions'', JArr []),
      (''tool_permissions'', JArr []), (''data_classification'', JStr ''INTERNAL''), (''credential_references'', JArr []),
      (''resource_budget'', JObj []), (''deadline_at'', JNull),
      (''stop_conditions'', jstrs [''MAX_ATTEMPTS'', ''UNKNOWN_OUTCOME'']), (''require_durable_evidence'', JBool False),
      (''baseline_fingerprint'', JNull), (''baseline_commit'', JNull)]"

definition set_default :: "string \<times> json \<Rightarrow> (string \<times> json) list \<Rightarrow> (string \<times> json) list" where
  "set_default = (\<lambda>(k, v) kvs. if k \<in> fst ` set kvs then kvs else kvs @ [(k, v)])"

definition upgrade_envelope_payload :: "(json \<Rightarrow> string) \<Rightarrow> (string \<times> json) list \<Rightarrow> (string \<times> json) list" where
  "upgrade_envelope_payload sha payload =
     (let filled = fold set_default envelope_defaults payload;
          authority = filter (\<lambda>(k, v). k \<noteq> ''fingerprint'') filled in
      AList.update ''fingerprint'' (JStr (sha (JObj authority))) filled)"

end
