(* ===== verification/Store_Laws.thy ===== *)
theory Store_Laws
  imports Run_Store
begin

text \<open>
  What the RunStore promises to its clients.

  \<^item> The contract of a fenced operation (locale \<open>fenced_operation\<close>): it commits only under the
    live lease of its token, leaves no trace when it raises and never changes the fence itself. Every
    mutating operation of the store is an interpretation.
  \<^item> The writes a committed transaction is made of (\<open>store_write\<close>), with the schema
    constraint of each, the step relation \<open>store_step\<close> they generate, and the refinement lemma of
    every operation: its effect is a sequence of writes.
  \<^item> Invariants of every reachable database: keys, references, audit trail.
\<close>

section \<open>Transactions\<close>

lemma transaction_Inr [simp]: "transaction m d = (Inr x, d') \<longleftrightarrow> m d = (Inr x, d')"
  by (auto simp: transaction_def split: prod.splits sum.splits)

lemma transaction_Inl: "transaction m d = (Inl e, d') \<longleftrightarrow> fst (m d) = Inl e \<and> d' = d"
  by (auto simp: transaction_def split: prod.splits sum.splits)

lemma transaction_rollback: "transaction m d = (Inl e, d') \<Longrightarrow> d' = d"
  by (simp add: transaction_Inl)


lemma bnd_pure_Inl:
  assumes "bnd m f d = (Inl e, d')" and "\<And>e s. m d = (Inl e, s) \<Longrightarrow> s = d"
    and "\<And>x s. m d = (Inr x, s) \<Longrightarrow> s = d" and "\<And>x s. f x d = (Inl e, s) \<Longrightarrow> s = d"
  shows "d' = d"
  using assms by (auto simp: bnd_def split: prod.splits sum.splits)

text \<open>An effect whose raise leaves no trace; a transaction is one, and checks before it keep it.\<close>

definition traceless :: "(db, 'a) eff \<Rightarrow> bool" where
  "traceless m \<longleftrightarrow> (\<forall>d e d'. m d = (Inl e, d') \<longrightarrow> d' = d)"

lemma traceless_transaction: "traceless (transaction m)"
  by (auto simp: traceless_def transaction_Inl)

lemma traceless_req_bnd: "traceless (f ()) \<Longrightarrow> traceless (bnd (req c e) f)"
  by (auto simp: traceless_def bnd_def ensure_def split: if_splits)

lemma traceless_lift_bnd: "(\<And>x. traceless (f x)) \<Longrightarrow> traceless (bnd (lift r) f)"
  by (auto simp: traceless_def bnd_def split: sum.splits)

lemma traceless_validate_bnd: "traceless (f ()) \<Longrightarrow> traceless (bnd (validate_actor a) f)"
  by (simp add: validate_actor_def Let_def traceless_req_bnd)

lemmas traceless_rules = traceless_transaction traceless_req_bnd traceless_lift_bnd traceless_validate_bnd

text \<open>Relations between databases that a transaction keeps because it rolls back.\<close>

locale db_preorder = state_preorder R for R :: "db \<Rightarrow> db \<Rightarrow> bool"
begin

lemma from_transaction:
  assumes "from_state m d"
  shows "from_state (transaction m) d"
proof -
  obtain r d' where r: "m d = (r, d')" by (cases "m d")
  with assms show ?thesis
    by (cases r) (auto simp: transaction_def from_state_def R_refl)
qed

lemma keeps_transaction: "keeps R m \<Longrightarrow> keeps R (transaction m)"
  by (simp add: keeps_from_state from_transaction)

lemmas keeps_db = keeps_basic keeps_transaction
lemmas from_db = from_basic from_transaction

end

section \<open>The fence contract\<close>

definition same_fence :: "db \<Rightarrow> db \<Rightarrow> bool" where
  "same_fence d d' \<longleftrightarrow>
     map_option (\<lambda>l. (ls_holder_id l, ls_generation l)) (coordinator_lease d') =
     map_option (\<lambda>l. (ls_holder_id l, ls_generation l)) (coordinator_lease d)"

interpretation fence_order: db_preorder same_fence
  by unfold_locales (simp_all add: same_fence_def)

locale fenced_operation =
  fixes op :: "fence_token \<Rightarrow> int \<Rightarrow> (db, 'a) eff"
  assumes fence_needed: "op t now d = (Inr x, d') \<Longrightarrow> fence_ok t now d"
    and no_trace: "traceless (op t now)"
    and fence_kept: "keeps same_fence (op t now)"
begin

lemma fenced_out:
  assumes "\<not> fence_ok t now d"
  shows "\<exists>e. op t now d = (Inl e, d)"
proof -
  obtain r d' where r: "op t now d = (r, d')" by (cases "op t now d")
  with assms fence_needed obtain e where "r = Inl e" by (cases r) auto
  with r no_trace show ?thesis by (auto simp: traceless_def)
qed

lemma all_or_nothing: "snd (op t now d) \<noteq> d \<Longrightarrow> (\<exists>x. fst (op t now d) = Inr x) \<and> fence_ok t now d"
proof -
  assume c: "snd (op t now d) \<noteq> d"
  obtain r d' where r: "op t now d = (r, d')" by (cases "op t now d")
  with c no_trace obtain x where "r = Inr x" by (cases r) (auto simp: traceless_def)
  with r fence_needed show ?thesis by auto
qed

lemma generation_kept: "same_fence d (snd (op t now d))"
  using fence_kept by (simp add: keeps_def)

end

lemma same_fence_other:
  "coordinator_lease d' = coordinator_lease d \<Longrightarrow> same_fence d d'"
  by (simp add: same_fence_def)

lemma keeps_fence_modify: "(\<And>d. coordinator_lease (f d) = coordinator_lease d) \<Longrightarrow> keeps same_fence (modify f)"
  by (simp add: keeps_def same_fence_def)

lemma keeps_fence_audit: "keeps same_fence (log_audit ev a ty i now p c)"
  by (simp add: log_audit_def keeps_fence_modify)

lemma lease_add_row [simp]: "coordinator_lease (add_row r d) = coordinator_lease d"
  by (cases r) simp_all

lemma lease_change_rows [simp]: "coordinator_lease (change_rows c now d) = coordinator_lease d"
  by (simp add: change_rows_def Let_def)

lemma lease_upsert [simp]: "coordinator_lease (upsert_control c d) = coordinator_lease d"
  by (simp add: upsert_control_def)

lemmas fence_keep_rules =
  fence_order.keeps_db keeps_fence_audit keeps_fence_modify

lemma keeps_fence_changes: "keeps same_fence (apply_changes cs now a)"
  by (induction cs) (auto simp: apply_change_def intro!: fence_keep_rules)

lemma keeps_fence_block: "keeps same_fence (block_workstreams v bs now a)"
  by (induction bs) (auto simp: block_workstream_def Let_def intro!: fence_keep_rules)

lemma keeps_fence_resume: "keeps same_fence (resume_workstreams i bs now a)"
  by (induction bs) (auto simp: resume_workstream_def Let_def intro!: fence_keep_rules)

lemmas fence_loop_rules = keeps_fence_changes keeps_fence_block keeps_fence_resume

lemma fenced_body:
  "transaction (bnd (assert_fence t now) f) d = (Inr x, d') \<Longrightarrow> fence_ok t now d"
  by (auto simp: assert_fence_def elim!: eff_elims)

text \<open>Every mutating operation of the store meets the contract.\<close>

lemmas fence_simps = Let_def assert_fence_def validate_actor_def same_fence_def
  insert_envelope_def insert_dispatch_def insert_evidence_def insert_row_def insert_acceptance_def set_job_state_def

interpretation f_put_envelope: fenced_operation "\<lambda>t now. put_envelope sha e t now a c"
  by unfold_locales (auto simp: put_envelope_def fence_simps elim!: eff_elims intro!: traceless_rules fence_keep_rules fence_loop_rules)

interpretation f_record_dispatch_authorization: fenced_operation "\<lambda>t now. record_dispatch_authorization x t now a c"
  by unfold_locales (auto simp: record_dispatch_authorization_def fence_simps elim!: eff_elims intro!: traceless_rules fence_keep_rules fence_loop_rules)

interpretation f_record_evidence: fenced_operation "\<lambda>t now. record_evidence x t now a c"
  by unfold_locales (auto simp: record_evidence_def fence_simps elim!: eff_elims intro!: traceless_rules fence_keep_rules fence_loop_rules)

interpretation f_insert_values: fenced_operation "\<lambda>t now. insert_values r t now a ev"
  by unfold_locales (auto simp: insert_values_def fence_simps elim!: eff_elims intro!: traceless_rules fence_keep_rules fence_loop_rules)

interpretation f_transition_batch: fenced_operation "\<lambda>t now. transition_batch cs t now a"
  by unfold_locales (auto simp: transition_batch_def fence_simps elim!: eff_elims intro!: traceless_rules fence_keep_rules fence_loop_rules)

interpretation f_record_acceptance: fenced_operation "\<lambda>t now. record_acceptance v t now st a c"
  by unfold_locales (auto simp: record_acceptance_def fence_simps elim!: eff_elims intro!: traceless_rules fence_keep_rules fence_loop_rules)

interpretation f_set_workspace_state: fenced_operation "\<lambda>t now. set_workspace_state i x y t now a"
  by unfold_locales (auto simp: set_workspace_state_def fence_simps elim!: eff_elims intro!: traceless_rules fence_keep_rules fence_loop_rules)

interpretation f_propose_envelope: fenced_operation "\<lambda>t now. propose_envelope sha e t now a c"
  by unfold_locales (auto simp: propose_envelope_def fence_simps elim!: eff_elims intro!: traceless_rules fence_keep_rules fence_loop_rules)

interpretation f_mark_envelope_proposal_approved: fenced_operation "\<lambda>t now. mark_envelope_proposal_approved i v t now a"
  by unfold_locales (auto simp: mark_envelope_proposal_approved_def fence_simps elim!: eff_elims intro!: traceless_rules fence_keep_rules fence_loop_rules)

interpretation f_create_interaction_session: fenced_operation "\<lambda>t now. create_interaction_session r t now a"
  by unfold_locales (auto simp: create_interaction_session_def fence_simps elim!: eff_elims intro!: traceless_rules fence_keep_rules fence_loop_rules)

interpretation f_update_interaction_session: fenced_operation "\<lambda>t now. update_interaction_session i x y n t now a ev"
  by unfold_locales (auto simp: update_interaction_session_def fence_simps elim!: eff_elims intro!: traceless_rules fence_keep_rules fence_loop_rules)

interpretation f_create_decision_request: fenced_operation "\<lambda>t now. create_decision_request v t now a"
  by unfold_locales (auto simp: create_decision_request_def fence_simps elim!: eff_elims intro!: traceless_rules fence_keep_rules fence_loop_rules)

interpretation f_resolve_decision_request: fenced_operation "\<lambda>t now. resolve_decision_request i x y b t now a"
  by unfold_locales (auto simp: resolve_decision_request_def fence_simps elim!: eff_elims intro!: traceless_rules fence_keep_rules fence_loop_rules)

interpretation f_set_operational_control: fenced_operation "\<lambda>t now. set_operational_control x i p st w g t now a"
  by unfold_locales (auto simp: set_operational_control_def fence_simps elim!: eff_elims intro!: traceless_rules fence_keep_rules fence_loop_rules)

interpretation f_record_event: fenced_operation "\<lambda>t now. record_event ev ty i p t now a c"
  by unfold_locales (auto simp: record_event_def fence_simps elim!: eff_elims intro!: traceless_rules fence_keep_rules fence_loop_rules)

interpretation f_renew_coordinator: fenced_operation "\<lambda>t now. renew_coordinator t now ttl"
proof unfold_locales
  show "keeps same_fence (renew_coordinator t now ttl)" for t now
    unfolding renew_coordinator_def assert_fence_def
    by (intro fence_order.keeps_db fence_order.keeps_modify)
      (simp add: same_fence_def option.map_comp comp_def)
qed (auto simp: renew_coordinator_def fence_simps elim!: eff_elims intro!: traceless_rules)

section \<open>Writes\<close>

text \<open>
  What one committed transaction does to the database besides logging: one write, or a sequence of
  changes for a transition batch. A write raises when the schema, a compare-and-set or the generation
  rule of the lease refuses it.
\<close>

datatype store_write =
    W_Lease lease
  | W_Renew int
  | W_Audit string actor_like string string int "(string \<times> json) list" "string option"
  | W_Envelope envelope_row
  | W_Row new_row
  | W_Change change int
  | W_Acceptance acceptance_decision string int
  | W_Dispatch dispatch_authorization
  | W_Evidence evidence_record
  | W_Workspace string string string
  | W_Proposal proposal_row
  | W_Proposal_Approved string int
  | W_Session session_row
  | W_Session_Update string string string int int
  | W_Request request_row int actor_like
  | W_Resolve string string string bool int actor_like
  | W_Control control_row

definition next_generation :: "db \<Rightarrow> int" where
  "next_generation d = (case coordinator_lease d of None \<Rightarrow> 1 | Some l \<Rightarrow> ls_generation l + 1)"

fun write_eff :: "store_write \<Rightarrow> (db, unit) eff" where
  "write_eff (W_Lease l) = bnd (check (\<lambda>d. ls_generation l = next_generation d) ValueError) (\<lambda>_.
     modify (\<lambda>d. d\<lparr>coordinator_lease := Some l\<rparr>))"
| "write_eff (W_Renew x) = modify (\<lambda>d. d\<lparr>coordinator_lease :=
     map_option (\<lambda>l. l\<lparr>ls_expires_at := x\<rparr>) (coordinator_lease d)\<rparr>)"
| "write_eff (W_Audit ev a ty i now p c) = log_audit ev a ty i now p c"
| "write_eff (W_Envelope r) = insert_envelope r"
| "write_eff (W_Row r) = insert_row r"
| "write_eff (W_Change c now) =
     bnd (req ((ch_table c, ch_id_column c) \<in> set transition_targets) ValueError) (\<lambda>_.
     bnd (req (ch_table c = ''attempts'' \<or> ch_updates c = []) OperationalError) (\<lambda>_.
     bnd (check (\<lambda>d. change_count c d = 1) CoordinatorFencedError) (\<lambda>_.
     modify (change_rows c now))))"
| "write_eff (W_Acceptance v target now) =
     bnd (insert_acceptance (acceptance_row_of v)) (\<lambda>_. set_job_state (dec_project_job_id v) ''FINISHED'' target now)"
| "write_eff (W_Dispatch a) = insert_dispatch a"
| "write_eff (W_Evidence r) = insert_evidence r"
| "write_eff (W_Workspace i x y) =
     bnd (check (\<lambda>d. rowcount (\<lambda>r. wk_id r = i \<and> wk_state r = x) (workspaces d) = 1) CoordinatorFencedError) (\<lambda>_.
     modify (\<lambda>d. d\<lparr>workspaces := update_where (\<lambda>r. wk_id r = i \<and> wk_state r = x) (\<lambda>r. r\<lparr>wk_state := y\<rparr>) (workspaces d)\<rparr>))"
| "write_eff (W_Proposal r) =
     bnd (check (\<lambda>d. envelope_proposal (ep_envelope_id r) (ep_version r) d = None) IntegrityError) (\<lambda>_.
     modify (\<lambda>d. d\<lparr>envelope_proposals := envelope_proposals d @ [r]\<rparr>))"
| "write_eff (W_Proposal_Approved i v) =
     bnd (check (\<lambda>d. rowcount (\<lambda>r. ep_envelope_id r = i \<and> ep_version r = v \<and> ep_state r = ''PROPOSED'') (envelope_proposals d) = 1)
       CoordinatorFencedError) (\<lambda>_.
     modify (\<lambda>d. d\<lparr>envelope_proposals := update_where (\<lambda>r. ep_envelope_id r = i \<and> ep_version r = v \<and> ep_state r = ''PROPOSED'')
       (\<lambda>r. r\<lparr>ep_state := ''APPROVED''\<rparr>) (envelope_proposals d)\<rparr>))"
| "write_eff (W_Session r) =
     bnd (check (\<lambda>d. interaction_session (ss_id r) d = None) IntegrityError) (\<lambda>_.
     modify (\<lambda>d. d\<lparr>interaction_sessions := interaction_sessions d @ [r]\<rparr>))"
| "write_eff (W_Session_Update i x y n now) =
     bnd (check (\<lambda>d. rowcount (\<lambda>r. ss_id r = i \<and> ss_state r = x) (interaction_sessions d) = 1) CoordinatorFencedError) (\<lambda>_.
     modify (\<lambda>d. d\<lparr>interaction_sessions := update_where (\<lambda>r. ss_id r = i \<and> ss_state r = x)
       (\<lambda>r. r\<lparr>ss_state := y, ss_last_seen_revision := n, ss_updated_at := now\<rparr>) (interaction_sessions d)\<rparr>))"
| "write_eff (W_Request v now a) =
     bnd (req (dr_blocked_from_states v \<noteq> []) ValueError) (\<lambda>_.
     bnd (block_workstreams v (dr_blocked_from_states v) now a) (\<lambda>_.
     bnd (check (\<lambda>d. decision_request (dr_id v) d = None) IntegrityError) (\<lambda>_.
     modify (\<lambda>d. d\<lparr>decision_requests := decision_requests d @ [v]\<rparr>))))"
| "write_eff (W_Resolve i x y b now a) =
     bnd (gets (\<lambda>d. find (\<lambda>r. dr_id r = i \<and> dr_state r = ''OPEN'') (decision_requests d))) (\<lambda>row.
     bnd (some_or CoordinatorFencedError row) (\<lambda>r.
     bnd (if b then resume_workstreams i (dr_blocked_from_states r) now a else ret ()) (\<lambda>_.
     bnd (check (\<lambda>d. rowcount (\<lambda>r. dr_id r = i \<and> dr_state r = ''OPEN'') (decision_requests d) = 1) CoordinatorFencedError) (\<lambda>_.
     modify (\<lambda>d. d\<lparr>decision_requests := update_where (\<lambda>r. dr_id r = i \<and> dr_state r = ''OPEN'')
       (\<lambda>q. q\<lparr>dr_state := ''RESOLVED'', dr_outcome := Some x, dr_resolution := Some y,
             dr_resolved_by := Some (actor_id (as_principal a)), dr_resolved_at := Some now\<rparr>)
       (decision_requests d)\<rparr>)))))"
| "write_eff (W_Control c) = modify (upsert_control c)"

text \<open>
  Steps of the database under writers that only issue writes satisfying \<open>P\<close>;
  \<open>store_step\<close> allows every write.
\<close>

inductive step_by :: "(store_write \<Rightarrow> db \<Rightarrow> bool) \<Rightarrow> db \<Rightarrow> db \<Rightarrow> bool" for P where
  issue: "P w d \<Longrightarrow> write_eff w d = (Inr (), d') \<Longrightarrow> step_by P d d'"

abbreviation store_step :: "db \<Rightarrow> db \<Rightarrow> bool" where
  "store_step \<equiv> step_by (\<lambda>_ _. True)"

inductive_cases step_byE: "step_by P d d'"

lemma step_by_mono: "(\<And>w d. P w d \<Longrightarrow> Q w d) \<Longrightarrow> step_by P d d' \<Longrightarrow> step_by Q d d'"
  by (blast elim: step_byE intro: step_by.intros)

lemma steps_by_mono: "(\<And>w d. P w d \<Longrightarrow> Q w d) \<Longrightarrow> (step_by P)\<^sup>*\<^sup>* d d' \<Longrightarrow> (step_by Q)\<^sup>*\<^sup>* d d'"
  by (erule rtranclp_mono [THEN predicate2D, rotated]) (auto intro: step_by_mono)

text \<open>
  A client issues writes that satisfy \<open>P\<close> and may always log. Each operation of the store then moves
  along \<open>step_by P\<close> when the write it makes satisfies \<open>P\<close>.
\<close>

locale store_client =
  fixes P :: "store_write \<Rightarrow> db \<Rightarrow> bool"
  assumes audit_ok: "P (W_Audit ev a ty i now p c) d"
begin

definition reach :: "db \<Rightarrow> db \<Rightarrow> bool" where
  "reach = (step_by P)\<^sup>*\<^sup>*"

lemma reach_refl: "reach d d"
  by (simp add: reach_def)

lemma reach_trans: "reach d d' \<Longrightarrow> reach d' d'' \<Longrightarrow> reach d d''"
  by (simp add: reach_def)

lemma reach_write: "write_eff w d = (Inr u, d') \<Longrightarrow> P w d \<Longrightarrow> reach d d'"
  unfolding reach_def by (cases u) (blast intro: step_by.intros)

lemma reach_audit: "log_audit ev a ty i now p c d = (Inr u, d') \<Longrightarrow> reach d d'"
  using reach_write [of "W_Audit ev a ty i now p c"] audit_ok by simp

lemma reach_write_audit:
  "write_eff w d = (Inr u, d1) \<Longrightarrow> log_audit ev a ty i now p c d1 = (Inr v, d') \<Longrightarrow> P w d \<Longrightarrow> reach d d'"
  by (blast intro: reach_write reach_audit reach_trans)

text \<open>The common shape: a write under the fence, then a log entry.\<close>

lemma reach_fenced:
  assumes "transaction (bnd (assert_fence t now) (\<lambda>_. bnd (write_eff w) (\<lambda>_. log_audit ev a ty i now p c))) d = (Inr x, d')"
    and "P w d"
  shows "reach d d'"
proof -
  obtain u d1 where "write_eff w d = (Inr u, d1)" "log_audit ev a ty i now p c d1 = (Inr x, d')"
    using assms(1) by (auto simp: assert_fence_def elim!: eff_elims)
  with assms(2) show ?thesis by (blast intro: reach_write reach_audit reach_trans)
qed

lemma acquire_coordinator_reach:
  assumes "acquire_coordinator h now ttl d = (Inr tok, d')" and "\<And>l. P (W_Lease l) d"
  shows "reach d d'"
proof -
  define l where "l = \<lparr>ls_holder_id = h, ls_generation = next_generation d, ls_expires_at = now + ttl\<rparr>"
  have "write_eff (W_Lease l) d = (Inr (), d\<lparr>coordinator_lease := Some l\<rparr>)"
    by (simp add: l_def)
  moreover have "\<exists>ev a ty i p c. log_audit ev a ty i now p c (d\<lparr>coordinator_lease := Some l\<rparr>) = (Inr (), d')"
    using assms(1) unfolding acquire_coordinator_def l_def next_generation_def
    by (auto simp: log_audit_def elim!: eff_elims split: option.splits if_splits) blast+
  ultimately show ?thesis using assms(2) by (blast intro: reach_write reach_audit reach_trans)
qed

lemma renew_coordinator_reach:
  assumes "renew_coordinator t now ttl d = (Inr tok, d')" and "P (W_Renew (now + ttl)) d"
  shows "reach d d'"
proof -
  have "write_eff (W_Renew (now + ttl)) d = (Inr (), d')"
    using assms(1) by (auto simp: renew_coordinator_def assert_fence_def elim!: eff_elims)
  with assms(2) show ?thesis by (blast intro: reach_write)
qed

lemma put_envelope_reach:
  assumes "put_envelope sha e t now a c d = (Inr x, d')"
    and "\<And>who. P (W_Envelope \<lparr>er_envelope_id = envelope_id e, er_version = version e, er_project_id = env_project_id e,
           er_fingerprint = fingerprint sha e, er_approved_by = who, er_payload = payload_of sha e\<rparr>) d"
    (is "\<And>who. P (W_Envelope (?r who)) d")
  shows "reach d d'"
proof (cases "find_envelope (envelope_id e) (version e) d")
  case None
  then obtain who d1 ev b ty i p k where
    "write_eff (W_Envelope (?r who)) d = (Inr (), d1)" "log_audit ev b ty i now p k d1 = (Inr x, d')"
    using assms(1) by (auto simp: put_envelope_def Let_def assert_fence_def elim!: eff_elims)
  then show ?thesis using assms(2) by (blast intro: reach_write reach_audit reach_trans)
next
  case (Some r)
  then show ?thesis
    using assms(1) by (auto simp: put_envelope_def Let_def assert_fence_def reach_refl elim!: eff_elims)
qed

lemma record_dispatch_authorization_reach:
  "record_dispatch_authorization x t now a c d = (Inr u, d') \<Longrightarrow> P (W_Dispatch x) d \<Longrightarrow> reach d d'"
  unfolding record_dispatch_authorization_def Let_def by (rule reach_fenced) simp_all

lemma record_evidence_reach:
  "record_evidence x t now a c d = (Inr u, d') \<Longrightarrow> P (W_Evidence x) d \<Longrightarrow> reach d d'"
  unfolding record_evidence_def Let_def by (rule reach_fenced) simp_all

lemma insert_values_reach:
  "insert_values r t now a ev d = (Inr u, d') \<Longrightarrow> P (W_Row r) d \<Longrightarrow> reach d d'"
  using reach_write_audit [of "W_Row r"]
  by (auto simp: insert_values_def validate_actor_def Let_def assert_fence_def elim!: eff_elims)

lemma apply_change_reach:
  assumes "apply_change c now a d = (Inr u, d')" and "P (W_Change c now) d"
  shows "reach d d'"
proof -
  have eq: "apply_change c now a = bnd (write_eff (W_Change c now)) (\<lambda>_.
     log_audit (upper (ch_table c) @ ''_TRANSITION'') a (ch_table c) (ch_identifier c) now
       (foldl (\<lambda>kvs (k, v). AList.update (update_column_name k) (JStr v) kvs)
         [(''from'', JStr (ch_expected_state c)), (''to'', JStr (ch_target_state c))] (ch_updates c)) None)"
    by (simp add: apply_change_def bnd_assoc)
  show ?thesis
    using assms(1) unfolding eq
    by (rule bnd_InrE) (erule reach_write_audit, assumption, rule assms(2))
qed

lemma apply_changes_reach:
  "apply_changes cs now a d = (Inr u, d') \<Longrightarrow> (\<And>c d. c \<in> set cs \<Longrightarrow> P (W_Change c now) d) \<Longrightarrow> reach d d'"
proof (induction cs arbitrary: d)
  case Nil
  then show ?case by (auto intro: reach_refl)
next
  case (Cons c cs)
  from Cons.prems(1) obtain v d1 where "apply_change c now a d = (Inr v, d1)" "apply_changes cs now a d1 = (Inr u, d')"
    by (auto elim: eff_elims)
  with Cons show ?case by (meson apply_change_reach list.set_intros reach_trans)
qed

lemma transition_batch_reach:
  "transition_batch cs t now a d = (Inr u, d') \<Longrightarrow> (\<And>c d. c \<in> set cs \<Longrightarrow> P (W_Change c now) d) \<Longrightarrow> reach d d'"
  by (auto simp: transition_batch_def validate_actor_def Let_def assert_fence_def elim!: eff_elims
      intro: apply_changes_reach)

lemma transition_one_reach:
  assumes "transition_batch [c] t now a d = (Inr u, d')" and "P (W_Change c now) d"
  shows "reach d d'"
  using assms(1)
  by (auto simp: transition_batch_def validate_actor_def Let_def assert_fence_def elim!: eff_elims
      intro: apply_change_reach assms(2))

lemma record_acceptance_reach:
  assumes "record_acceptance v t now st a c d = (Inr u, d')" and "P (W_Acceptance v st now) d"
  shows "reach d d'"
proof -
  obtain d1 d2 ev b ty i p k ev2 b2 ty2 i2 p2 k2 where
    "write_eff (W_Acceptance v st now) d = (Inr (), d1)" "log_audit ev b ty i now p k d1 = (Inr (), d2)"
    "log_audit ev2 b2 ty2 i2 now p2 k2 d2 = (Inr u, d')"
    using assms(1)
    by (auto simp: record_acceptance_def validate_actor_def Let_def assert_fence_def elim!: eff_elims)
  then show ?thesis using assms(2) by (blast intro: reach_write reach_audit reach_trans)
qed

lemma set_workspace_state_reach:
  "set_workspace_state i x y t now a d = (Inr u, d') \<Longrightarrow> P (W_Workspace i x y) d \<Longrightarrow> reach d d'"
  using reach_write_audit [of "W_Workspace i x y"]
  by (auto simp: set_workspace_state_def validate_actor_def Let_def assert_fence_def elim!: eff_elims)

lemma propose_envelope_reach:
  assumes "propose_envelope sha e t now a c d = (Inr u, d')" and "\<And>r. P (W_Proposal r) d"
  shows "reach d d'"
proof -
  define r where "r = \<lparr>ep_envelope_id = envelope_id e, ep_version = version e, ep_project_id = env_project_id e,
                ep_fingerprint = fingerprint sha e, ep_proposed_by = actor_id (as_principal a),
                ep_payload = payload_of sha e, ep_proposed_at = now, ep_state = ''PROPOSED''\<rparr>"
  show ?thesis
    using assms reach_write_audit [of "W_Proposal r" d]
    by (auto simp: propose_envelope_def Let_def assert_fence_def r_def elim!: eff_elims)
qed

lemma mark_envelope_proposal_approved_reach:
  "mark_envelope_proposal_approved i v t now a d = (Inr u, d') \<Longrightarrow> P (W_Proposal_Approved i v) d \<Longrightarrow> reach d d'"
  using reach_write_audit [of "W_Proposal_Approved i v"]
  by (auto simp: mark_envelope_proposal_approved_def Let_def assert_fence_def elim!: eff_elims)

lemma create_interaction_session_reach:
  "create_interaction_session r t now a d = (Inr u, d') \<Longrightarrow> P (W_Session r) d \<Longrightarrow> reach d d'"
  using reach_write_audit [of "W_Session r"]
  by (auto simp: create_interaction_session_def validate_actor_def Let_def assert_fence_def elim!: eff_elims)

lemma update_interaction_session_reach:
  "update_interaction_session i x y n t now a ev d = (Inr u, d') \<Longrightarrow> P (W_Session_Update i x y n now) d \<Longrightarrow> reach d d'"
  using reach_write_audit [of "W_Session_Update i x y n now"]
  by (auto simp: update_interaction_session_def validate_actor_def Let_def assert_fence_def elim!: eff_elims)

lemma create_decision_request_reach:
  assumes "create_decision_request v t now a d = (Inr u, d')" and "P (W_Request v now a) d"
  shows "reach d d'"
proof -
  obtain d1 ev b ty i p k where "write_eff (W_Request v now a) d = (Inr (), d1)" "log_audit ev b ty i now p k d1 = (Inr u, d')"
    using assms(1) by (auto simp: create_decision_request_def validate_actor_def Let_def assert_fence_def elim!: eff_elims)
  with assms(2) show ?thesis by (blast intro: reach_write_audit)
qed

lemma resolve_decision_request_reach:
  assumes "resolve_decision_request i x y b t now a d = (Inr u, d')" and "P (W_Resolve i x y b now a) d"
  shows "reach d d'"
proof -
  have "resolve_decision_request i x y b t now a = bnd (validate_actor a) (\<lambda>_. transaction (bnd (assert_fence t now) (\<lambda>_.
      bnd (write_eff (W_Resolve i x y b now a)) (\<lambda>_.
      log_audit ''DECISION_REQUEST_RESOLVED'' a ''decision_request'' i now
         [(''outcome'', JStr x), (''resolution'', JStr y)] None))))"
    by (simp add: resolve_decision_request_def Let_def bnd_assoc)
  with assms show ?thesis
    by (auto simp: validate_actor_def Let_def simp del: write_eff.simps elim!: bnd_InrE req_InrE intro: reach_fenced)
qed

lemma set_operational_control_reach:
  assumes "set_operational_control s i p st w g t now a d = (Inr u, d')"
    and "P (W_Control \<lparr>oc_scope_type = s, oc_scope_id = i, oc_project_id = p, oc_state = st, oc_reason = w, oc_generation = g,
        oc_actor_id = actor_id (as_principal a), oc_updated_at = now\<rparr>) d" (is "P (W_Control ?c) d")
  shows "reach d d'"
  using assms reach_write_audit [of "W_Control ?c" d]
  by (auto simp: set_operational_control_def validate_actor_def Let_def assert_fence_def elim!: eff_elims)

lemma record_event_reach: "record_event ev ty i p t now a c d = (Inr u, d') \<Longrightarrow> reach d d'"
  by (auto simp: record_event_def validate_actor_def Let_def assert_fence_def elim!: eff_elims intro: reach_audit)

end

interpretation any_client: store_client "\<lambda>_ _. True"
  by unfold_locales simp

section \<open>Relations kept by every write\<close>

text \<open>Columns that no \<open>UPDATE\<close> of the store touches.\<close>

definition ws_ident :: "workstream_row \<Rightarrow> string \<times> string" where
  "ws_ident r = (ws_id r, ws_project_id r)"

definition rn_ident :: "run_row \<Rightarrow> string \<times> string \<times> string \<times> string \<times> int" where
  "rn_ident r = (rn_id r, rn_workstream_id r, rn_project_id r, rn_envelope_id r, rn_envelope_version r)"

definition jb_ident :: "job_row \<Rightarrow> string \<times> string \<times> string" where
  "jb_ident r = (jb_id r, jb_run_id r, jb_purpose r)"

definition at_ident :: "attempt_row \<Rightarrow> string \<times> string \<times> int" where
  "at_ident r = (at_id r, at_project_job_id r, at_ordinal r)"

definition wk_ident :: "workspace_row \<Rightarrow> string \<times> string \<times> int" where
  "wk_ident r = (wk_id r, wk_attempt_id r, wk_baseline_revision r)"

definition dr_ident :: "request_row \<Rightarrow> string \<times> string \<times> (string \<times> string) list" where
  "dr_ident r = (dr_id r, dr_project_id r, dr_blocked_from_states r)"

lemma at_ident_set_column [simp]: "at_ident (set_column u r) = at_ident r" "at_state (set_column u r) = at_state r"
  by (cases u; cases "fst u"; simp add: at_ident_def)+

lemma at_ident_fold [simp]: "at_ident (fold set_column us r) = at_ident r" "at_state (fold set_column us r) = at_state r"
  by (induction us arbitrary: r) simp_all

lemma at_ident_set_attempt [simp]: "at_ident (set_attempt c now r) = at_ident r"
  by (simp add: set_attempt_def) (simp add: at_ident_def)

text \<open>
  A preorder on databases that every kind of row write satisfies. The obligations are the distinct ways
  the store writes a row; the locale derives that every write, and so every step, satisfies the relation.
\<close>

locale write_closed = db_preorder R for R :: "db \<Rightarrow> db \<Rightarrow> bool" +
  assumes on_lease: "ls_generation l = next_generation d \<Longrightarrow> R d (d\<lparr>coordinator_lease := Some l\<rparr>)"
    and on_renew: "R d (d\<lparr>coordinator_lease := map_option (\<lambda>l. l\<lparr>ls_expires_at := x\<rparr>) (coordinator_lease d)\<rparr>)"
    and on_audit: "R d (d\<lparr>runtime_audit := runtime_audit d @ [audit_entry ev a ty i now p c d]\<rparr>)"
    and on_envelope: "find_envelope (er_envelope_id e) (er_version e) d = None \<Longrightarrow> R d (d\<lparr>envelopes := envelopes d @ [e]\<rparr>)"
    and on_row: "row_ok nr d \<Longrightarrow> R d (add_row nr d)"
    and on_workstreams: "(\<And>r. ws_ident (f1 r) = ws_ident r) \<Longrightarrow> R d (d\<lparr>workstreams := map f1 (workstreams d)\<rparr>)"
    and on_runs: "(\<And>r. rn_ident (f2 r) = rn_ident r) \<Longrightarrow> R d (d\<lparr>runs := map f2 (runs d)\<rparr>)"
    and on_jobs: "(\<And>r. jb_ident (f3 r) = jb_ident r) \<Longrightarrow> R d (d\<lparr>project_jobs := map f3 (project_jobs d)\<rparr>)"
    and on_attempts: "(\<And>r. at_ident (f4 r) = at_ident r) \<Longrightarrow> R d (d\<lparr>attempts := map f4 (attempts d)\<rparr>)"
    and on_workspaces: "(\<And>r. wk_ident (f5 r) = wk_ident r) \<Longrightarrow> R d (d\<lparr>workspaces := map f5 (workspaces d)\<rparr>)"
    and on_requests: "(\<And>r. dr_ident (f6 r) = dr_ident r) \<Longrightarrow> R d (d\<lparr>decision_requests := map f6 (decision_requests d)\<rparr>)"
    and on_sessions: "(\<And>r. ss_id (f7 r) = ss_id r) \<Longrightarrow> R d (d\<lparr>interaction_sessions := map f7 (interaction_sessions d)\<rparr>)"
    and on_proposals: "(\<And>r. ep_envelope_id (f8 r) = ep_envelope_id r \<and> ep_version (f8 r) = ep_version r) \<Longrightarrow>
      R d (d\<lparr>envelope_proposals := map f8 (envelope_proposals d)\<rparr>)"
    and on_acceptance: "ac_decision_id ac \<notin> ac_decision_id ` set (acceptance_decisions d) \<Longrightarrow> get_job (ac_project_job_id ac) d \<noteq> None \<Longrightarrow>
      R d (d\<lparr>acceptance_decisions := acceptance_decisions d @ [ac]\<rparr>)"
    and on_dispatch: "authorization_id da \<notin> authorization_id ` set (dispatch_authorizations d) \<Longrightarrow>
      dsp_attempt_id da \<notin> dsp_attempt_id ` set (dispatch_authorizations d) \<Longrightarrow> get_attempt (dsp_attempt_id da) d \<noteq> None \<Longrightarrow>
      R d (d\<lparr>dispatch_authorizations := dispatch_authorizations d @ [da]\<rparr>)"
    and on_evidence: "evidence_id er \<notin> evidence_id ` set (evidence_records d) \<Longrightarrow> get_job (ev_project_job_id er) d \<noteq> None \<Longrightarrow>
      get_attempt (ev_attempt_id er) d \<noteq> None \<Longrightarrow> R d (d\<lparr>evidence_records := evidence_records d @ [er]\<rparr>)"
    and on_proposal: "envelope_proposal (ep_envelope_id pr) (ep_version pr) d = None \<Longrightarrow>
      R d (d\<lparr>envelope_proposals := envelope_proposals d @ [pr]\<rparr>)"
    and on_session: "interaction_session (ss_id se) d = None \<Longrightarrow> R d (d\<lparr>interaction_sessions := interaction_sessions d @ [se]\<rparr>)"
    and on_request: "decision_request (dr_id rq) d = None \<Longrightarrow> R d (d\<lparr>decision_requests := decision_requests d @ [rq]\<rparr>)"
    and on_control: "R d (upsert_control oc d)"
begin

lemma audit_R: "R d (snd (log_audit ev a ty i now p c d))"
  by (simp add: log_audit_def on_audit)

lemma change_R: "R d (change_rows c now d)"
  by (auto simp: change_rows_def Let_def update_where_def ws_ident_def rn_ident_def jb_ident_def
      intro!: on_workstreams on_runs on_jobs on_attempts)

lemma block_R: "block_workstreams v bs now a d = (Inr u, d') \<Longrightarrow> R d d'"
proof (induction bs arbitrary: d)
  case Nil
  then show ?case by (auto simp: R_refl)
next
  case (Cons b bs)
  from Cons.prems obtain w d1 where 1: "block_workstream v b now a d = (Inr w, d1)"
    and 2: "block_workstreams v bs now a d1 = (Inr u, d')"
    by (auto elim: eff_elims)
  from 1 have "R d d1"
    by (cases b) (auto simp: block_workstream_def Let_def log_audit_def update_where_def ws_ident_def
        elim!: eff_elims intro!: R_trans [OF on_workstreams on_audit])
  from this Cons.IH [OF 2] show ?case by (rule R_trans)
qed

lemma resume_R: "resume_workstreams i bs now a d = (Inr u, d') \<Longrightarrow> R d d'"
proof (induction bs arbitrary: d)
  case Nil
  then show ?case by (auto simp: R_refl)
next
  case (Cons b bs)
  from Cons.prems obtain w d1 where 1: "resume_workstream i b now a d = (Inr w, d1)"
    and 2: "resume_workstreams i bs now a d1 = (Inr u, d')"
    by (auto elim: eff_elims)
  from 1 have "R d d1"
    by (cases b) (auto simp: resume_workstream_def Let_def log_audit_def update_where_def ws_ident_def
        elim!: eff_elims intro!: R_trans [OF on_workstreams on_audit])
  from this Cons.IH [OF 2] show ?case by (rule R_trans)
qed

lemma acceptance_R: "write_eff (W_Acceptance v st now) d = (Inr u, d') \<Longrightarrow> R d d'"
  by (auto simp: insert_acceptance_def set_job_state_def update_where_def jb_ident_def elim!: eff_elims
      intro!: R_trans [OF on_acceptance on_jobs])

lemma request_R: "write_eff (W_Request v now a) d = (Inr u, d') \<Longrightarrow> R d d'"
  by (auto elim!: eff_elims intro!: R_trans [OF block_R on_request])

lemma resolve_R:
  assumes "write_eff (W_Resolve i x y b now a) d = (Inr u, d')"
  shows "R d d'"
proof -
  define f where "f = (\<lambda>r :: request_row. if dr_id r = i \<and> dr_state r = ''OPEN'' then
    r\<lparr>dr_state := ''RESOLVED'', dr_outcome := Some x, dr_resolution := Some y,
      dr_resolved_by := Some (actor_id (as_principal a)), dr_resolved_at := Some now\<rparr> else r)"
  obtain r :: request_row and d1 where "(if b then resume_workstreams i (dr_blocked_from_states r) now a else ret ()) d = (Inr (), d1)"
    and d': "d' = d1\<lparr>decision_requests := map f (decision_requests d1)\<rparr>"
    using assms by (auto simp: update_where_def f_def elim!: eff_elims)
  then have "R d d1" by (auto simp: R_refl split: if_splits intro: resume_R)
  moreover have "R d1 d'" unfolding d' by (rule on_requests) (simp add: f_def dr_ident_def)
  ultimately show ?thesis by (rule R_trans)
qed

lemma write_R: "write_eff w d = (Inr u, d') \<Longrightarrow> R d d'"
proof (cases w)
  case (W_Acceptance v st now)
  then show "write_eff w d = (Inr u, d') \<Longrightarrow> ?thesis" using acceptance_R by blast
next
  case (W_Request v now a)
  then show "write_eff w d = (Inr u, d') \<Longrightarrow> ?thesis" using request_R by blast
next
  case (W_Resolve i x y b now a)
  then show "write_eff w d = (Inr u, d') \<Longrightarrow> ?thesis" using resolve_R by blast
qed (auto simp: log_audit_def insert_envelope_def insert_row_def insert_dispatch_def insert_evidence_def
    update_where_def wk_ident_def elim!: eff_elims
    intro!: on_lease on_renew on_audit on_envelope on_row change_R on_workspaces on_sessions on_proposals on_dispatch
      on_evidence on_proposal on_session on_control)

lemma step_R: "step_by P d d' \<Longrightarrow> R d d'"
  by (auto elim: step_byE intro: write_R)

lemma steps_R: "(step_by P)\<^sup>*\<^sup>* d d' \<Longrightarrow> R d d'"
  by (induction rule: rtranclp_induct) (auto intro: R_refl R_trans step_R)

end

section \<open>History is only extended\<close>

definition current_generation :: "db \<Rightarrow> int" where
  "current_generation d = (case coordinator_lease d of None \<Rightarrow> 0 | Some l \<Rightarrow> ls_generation l)"

text \<open>
  Records that are evidence of the past are only appended to; rows with a state keep their place
  and identity; the lease generation never decreases.
\<close>

definition extends :: "db \<Rightarrow> db \<Rightarrow> bool" where
  "extends d d' \<longleftrightarrow>
     prefix (envelopes d) (envelopes d') \<and> prefix (runtime_audit d) (runtime_audit d') \<and>
     prefix (dispatch_authorizations d) (dispatch_authorizations d') \<and>
     prefix (evidence_records d) (evidence_records d') \<and>
     prefix (acceptance_decisions d) (acceptance_decisions d') \<and>
     prefix (map ws_ident (workstreams d)) (map ws_ident (workstreams d')) \<and>
     prefix (map rn_ident (runs d)) (map rn_ident (runs d')) \<and>
     prefix (map jb_ident (project_jobs d)) (map jb_ident (project_jobs d')) \<and>
     prefix (map at_ident (attempts d)) (map at_ident (attempts d')) \<and>
     prefix (map wk_ident (workspaces d)) (map wk_ident (workspaces d')) \<and>
     prefix (map dr_ident (decision_requests d)) (map dr_ident (decision_requests d')) \<and>
     current_generation d \<le> current_generation d'"

lemma extends_trans: "extends d d' \<Longrightarrow> extends d' d'' \<Longrightarrow> extends d d''"
  unfolding extends_def by (intro conjI) (auto elim: prefix_order.trans)

lemma extends_add_row: "extends d (add_row r d)"
  by (cases r) (simp_all add: extends_def current_generation_def)

interpretation ext: write_closed extends
proof unfold_locales
  show "extends d (add_row r d)" for r d by (rule extends_add_row)
qed (auto simp: extends_def comp_def next_generation_def current_generation_def upsert_control_def
      intro: prefix_order.trans split: option.splits)

section \<open>Keys and references\<close>

lemma get_workstream_None: "get_workstream i d = None \<longleftrightarrow> i \<notin> ws_id ` set (workstreams d)"
  by (auto simp: get_workstream_def find_None_iff)

lemma get_run_None: "get_run i d = None \<longleftrightarrow> i \<notin> rn_id ` set (runs d)"
  by (auto simp: get_run_def find_None_iff)

lemma get_job_None: "get_job i d = None \<longleftrightarrow> i \<notin> jb_id ` set (project_jobs d)"
  by (auto simp: get_job_def find_None_iff)

lemma get_attempt_None: "get_attempt i d = None \<longleftrightarrow> i \<notin> at_id ` set (attempts d)"
  by (auto simp: get_attempt_def find_None_iff)

lemma get_workspace_None: "get_workspace i d = None \<longleftrightarrow> i \<notin> wk_id ` set (workspaces d)"
  by (auto simp: get_workspace_def find_None_iff)

definition er_key :: "envelope_row \<Rightarrow> string \<times> int" where
  "er_key r = (er_envelope_id r, er_version r)"

lemma find_envelope_None: "find_envelope i v d = None \<longleftrightarrow> (i, v) \<notin> er_key ` set (envelopes d)"
  by (auto simp: find_envelope_def find_None_iff er_key_def image_iff)

lemmas get_None = get_workstream_None get_run_None get_job_None get_attempt_None get_workspace_None find_envelope_None

definition ep_key :: "proposal_row \<Rightarrow> string \<times> int" where
  "ep_key r = (ep_envelope_id r, ep_version r)"

lemma envelope_proposal_None: "envelope_proposal i v d = None \<longleftrightarrow> (i, v) \<notin> ep_key ` set (envelope_proposals d)"
  by (auto simp: envelope_proposal_def find_None_iff ep_key_def image_iff)

lemma ep_key_kept:
  assumes "\<And>r. ep_envelope_id (f8 r) = ep_envelope_id r \<and> ep_version (f8 r) = ep_version r"
  shows "ep_key (f8 r) = ep_key r"
  using assms by (simp add: ep_key_def)

definition keys_ok :: "db \<Rightarrow> bool" where
  "keys_ok d \<longleftrightarrow>
     distinct (map er_key (envelopes d)) \<and> distinct (map ws_id (workstreams d)) \<and> distinct (map rn_id (runs d)) \<and>
     distinct (map jb_id (project_jobs d)) \<and> distinct (map at_id (attempts d)) \<and>
     distinct (map (\<lambda>a. (at_project_job_id a, at_ordinal a)) (attempts d)) \<and>
     distinct (map wk_id (workspaces d)) \<and> distinct (map wk_attempt_id (workspaces d)) \<and>
     distinct (map ac_decision_id (acceptance_decisions d)) \<and>
     distinct (map authorization_id (dispatch_authorizations d)) \<and> distinct (map dsp_attempt_id (dispatch_authorizations d)) \<and>
     distinct (map evidence_id (evidence_records d)) \<and> distinct (map ep_key (envelope_proposals d)) \<and>
     distinct (map ss_id (interaction_sessions d)) \<and> distinct (map dr_id (decision_requests d)) \<and>
     distinct (map (\<lambda>c. (oc_scope_type c, oc_scope_id c)) (operational_controls d))"

definition refs_ok :: "db \<Rightarrow> bool" where
  "refs_ok d \<longleftrightarrow>
     (\<forall>r \<in> set (runs d). rn_workstream_id r \<in> ws_id ` set (workstreams d) \<and>
        (rn_envelope_id r, rn_envelope_version r) \<in> er_key ` set (envelopes d)) \<and>
     (\<forall>j \<in> set (project_jobs d). jb_run_id j \<in> rn_id ` set (runs d)) \<and>
     (\<forall>a \<in> set (attempts d). at_project_job_id a \<in> jb_id ` set (project_jobs d)) \<and>
     (\<forall>w \<in> set (workspaces d). wk_attempt_id w \<in> at_id ` set (attempts d)) \<and>
     (\<forall>c \<in> set (acceptance_decisions d). ac_project_job_id c \<in> jb_id ` set (project_jobs d)) \<and>
     (\<forall>p \<in> set (dispatch_authorizations d). dsp_attempt_id p \<in> at_id ` set (attempts d)) \<and>
     (\<forall>v \<in> set (evidence_records d). ev_project_job_id v \<in> jb_id ` set (project_jobs d) \<and>
        ev_attempt_id v \<in> at_id ` set (attempts d))"

definition preserves :: "(db \<Rightarrow> bool) \<Rightarrow> db \<Rightarrow> db \<Rightarrow> bool" where
  "preserves I d d' \<longleftrightarrow> (I d \<longrightarrow> I d')"

lemma keys_add_row: "row_ok r d \<Longrightarrow> keys_ok d \<Longrightarrow> keys_ok (add_row r d)"
  by (cases r) (auto simp: keys_ok_def get_None)

lemma refs_add_row: "row_ok r d \<Longrightarrow> refs_ok d \<Longrightarrow> refs_ok (add_row r d)"
  by (cases r) (auto simp: refs_ok_def get_None)

lemma operational_control_None:
  "operational_control s i d = None \<longleftrightarrow> (s, i) \<notin> (\<lambda>c. (oc_scope_type c, oc_scope_id c)) ` set (operational_controls d)"
  by (auto simp: operational_control_def find_None_iff image_iff)

lemma map_ident_key:
  "(\<And>r. ws_ident (f1 r) = ws_ident r) \<Longrightarrow> ws_id (f1 w) = ws_id w"
  "(\<And>r. rn_ident (f2 r) = rn_ident r) \<Longrightarrow> rn_id (f2 r) = rn_id r \<and> rn_workstream_id (f2 r) = rn_workstream_id r \<and>
     rn_envelope_id (f2 r) = rn_envelope_id r \<and> rn_envelope_version (f2 r) = rn_envelope_version r"
  "(\<And>r. jb_ident (f3 r) = jb_ident r) \<Longrightarrow> jb_id (f3 j) = jb_id j \<and> jb_run_id (f3 j) = jb_run_id j"
  "(\<And>r. at_ident (f4 r) = at_ident r) \<Longrightarrow> at_id (f4 a) = at_id a \<and> at_project_job_id (f4 a) = at_project_job_id a \<and>
     at_ordinal (f4 a) = at_ordinal a"
  "(\<And>r. wk_ident (f5 r) = wk_ident r) \<Longrightarrow> wk_id (f5 k) = wk_id k \<and> wk_attempt_id (f5 k) = wk_attempt_id k"
  "(\<And>r. dr_ident (f6 r) = dr_ident r) \<Longrightarrow> dr_id (f6 q) = dr_id q"
  by (simp_all add: ws_ident_def rn_ident_def jb_ident_def at_ident_def wk_ident_def dr_ident_def)

lemma control_keys_upsert:
  "map (\<lambda>c. (oc_scope_type c, oc_scope_id c)) (operational_controls (upsert_control c d)) =
     (if operational_control (oc_scope_type c) (oc_scope_id c) d = None
      then map (\<lambda>c. (oc_scope_type c, oc_scope_id c)) (operational_controls d) @ [(oc_scope_type c, oc_scope_id c)]
      else map (\<lambda>c. (oc_scope_type c, oc_scope_id c)) (operational_controls d))"
  by (simp add: upsert_control_def update_where_def)

lemma keys_upsert: "keys_ok d \<Longrightarrow> keys_ok (upsert_control c d)"
  using control_keys_upsert [of c d]
  by (auto simp: keys_ok_def operational_control_None) (auto simp: upsert_control_def)

interpretation keys: write_closed "preserves keys_ok"
proof unfold_locales
  show "preserves keys_ok d (upsert_control c d)" for c d by (simp add: preserves_def keys_upsert)
  show "row_ok r d \<Longrightarrow> preserves keys_ok d (add_row r d)" for r d by (simp add: preserves_def keys_add_row)
qed (auto simp: preserves_def keys_ok_def get_None map_ident_key comp_def er_key_def envelope_proposal_None ep_key_kept
      interaction_session_def decision_request_def find_None_iff, auto simp: ep_key_def)

interpretation refs: write_closed "preserves refs_ok"
proof unfold_locales
  show "row_ok r d \<Longrightarrow> preserves refs_ok d (add_row r d)" for r d by (simp add: preserves_def refs_add_row)
qed (auto simp: preserves_def refs_ok_def get_None map_ident_key image_image upsert_control_def)

section \<open>The audit trail\<close>

fun json_secret_free :: "json \<Rightarrow> bool" where
  "json_secret_free (JStr s) \<longleftrightarrow> \<not> contains_secret s"
| "json_secret_free (JArr xs) \<longleftrightarrow> list_all json_secret_free xs"
| "json_secret_free (JObj kvs) \<longleftrightarrow> list_all (\<lambda>kv. json_secret_free (snd kv)) kvs"
| "json_secret_free _ \<longleftrightarrow> True"

lemma redacted_free: "\<not> contains_secret ''[REDACTED]''"
proof -
  have "scrub_secrets ''[REDACTED]'' = ''[REDACTED]''" by code_simp
  then show ?thesis by (simp add: scrub_id_iff)
qed

lemma secret_safe_free: "json_secret_free (secret_safe k v)"
proof (induction k v rule: secret_safe.induct)
  case (2 key kvs)
  then show ?case by (auto simp: redacted_free list_all_iff)
next
  case (3 key items)
  then show ?case by (auto simp: redacted_free list_all_iff)
qed (auto simp: redacted_free scrub_secrets_free)

definition audit_ok :: "db \<Rightarrow> bool" where
  "audit_ok d \<longleftrightarrow> map au_sequence (runtime_audit d) = [1 ..< Suc (length (runtime_audit d))] \<and>
     list_all (\<lambda>r. json_secret_free (au_payload r)) (runtime_audit d)"

lemma audit_add_row: "runtime_audit (add_row r d) = runtime_audit d"
  by (cases r) simp_all

interpretation aud: write_closed "preserves audit_ok"
  by unfold_locales
    (auto simp: preserves_def audit_ok_def audit_add_row audit_entry_def Let_def secret_safe_free upsert_control_def
      simp del: secret_safe.simps)

section \<open>Calls of the store\<close>

text \<open>The mutating operations as values, so that one statement can range over all of them.\<close>

datatype store_call =
    Renew int
  | Put_Envelope execution_envelope "actor_like option" "string option"
  | Record_Dispatch dispatch_authorization actor_like "string option"
  | Record_Evidence evidence_record actor_like "string option"
  | Insert new_row actor_like string
  | Transition_Batch "change list" actor_like
  | Record_Acceptance acceptance_decision string "actor_like option" "string option"
  | Set_Workspace_State string string string actor_like
  | Propose_Envelope execution_envelope actor_like "string option"
  | Mark_Proposal_Approved string int actor_like
  | Create_Session session_row actor_like
  | Update_Session string string string int actor_like string
  | Create_Request request_row actor_like
  | Resolve_Request string string string bool actor_like
  | Set_Control string string "string option" string string int actor_like
  | Record_Event string string string "(string \<times> json) list" actor_like "string option"

fun exec_call :: "(json \<Rightarrow> string) \<Rightarrow> store_call \<Rightarrow> fence_token \<Rightarrow> int \<Rightarrow> (db, unit) eff" where
  "exec_call sha (Renew ttl) t now = bnd (renew_coordinator t now ttl) (\<lambda>_. ret ())"
| "exec_call sha (Put_Envelope e a c) t now = put_envelope sha e t now a c"
| "exec_call sha (Record_Dispatch x a c) t now = record_dispatch_authorization x t now a c"
| "exec_call sha (Record_Evidence x a c) t now = record_evidence x t now a c"
| "exec_call sha (Insert r a ev) t now = insert_values r t now a ev"
| "exec_call sha (Transition_Batch cs a) t now = transition_batch cs t now a"
| "exec_call sha (Record_Acceptance v st a c) t now = record_acceptance v t now st a c"
| "exec_call sha (Set_Workspace_State i x y a) t now = set_workspace_state i x y t now a"
| "exec_call sha (Propose_Envelope e a c) t now = propose_envelope sha e t now a c"
| "exec_call sha (Mark_Proposal_Approved i v a) t now = mark_envelope_proposal_approved i v t now a"
| "exec_call sha (Create_Session r a) t now = create_interaction_session r t now a"
| "exec_call sha (Update_Session i x y n a ev) t now = update_interaction_session i x y n t now a ev"
| "exec_call sha (Create_Request v a) t now = create_decision_request v t now a"
| "exec_call sha (Resolve_Request i x y b a) t now = resolve_decision_request i x y b t now a"
| "exec_call sha (Set_Control s i p st w g a) t now = set_operational_control s i p st w g t now a"
| "exec_call sha (Record_Event ev ty i p a c) t now = record_event ev ty i p t now a c"

lemma fenced_renew_unit: "fenced_operation (\<lambda>t now. bnd (renew_coordinator t now ttl) (\<lambda>_. ret ()))"
proof unfold_locales
  show "keeps same_fence (bnd (renew_coordinator t now ttl) (\<lambda>_. ret ()))" for t now
    by (intro fence_order.keeps_db f_renew_coordinator.fence_kept)
  show "traceless (bnd (renew_coordinator t now ttl) (\<lambda>_. ret ()))" for t now
    using f_renew_coordinator.no_trace [of t now ttl]
    by (auto simp: traceless_def bnd_def split: prod.splits sum.splits)
qed (auto dest: f_renew_coordinator.fence_needed elim!: eff_elims)

interpretation calls: fenced_operation "exec_call sha call"
proof -
  have "fenced_operation (\<lambda>t now. exec_call sha call t now)"
  proof (cases call)
    case (Renew ttl)
    then show ?thesis using fenced_renew_unit [of ttl] by simp
  qed (simp_all add: f_put_envelope.fenced_operation_axioms f_record_dispatch_authorization.fenced_operation_axioms
      f_record_evidence.fenced_operation_axioms f_insert_values.fenced_operation_axioms
      f_transition_batch.fenced_operation_axioms f_record_acceptance.fenced_operation_axioms
      f_set_workspace_state.fenced_operation_axioms f_propose_envelope.fenced_operation_axioms
      f_mark_envelope_proposal_approved.fenced_operation_axioms f_create_interaction_session.fenced_operation_axioms
      f_update_interaction_session.fenced_operation_axioms f_create_decision_request.fenced_operation_axioms
      f_resolve_decision_request.fenced_operation_axioms f_set_operational_control.fenced_operation_axioms
      f_record_event.fenced_operation_axioms)
  then show "fenced_operation (exec_call sha call)" .
qed

lemma exec_call_steps:
  assumes "exec_call sha call t now d = (Inr u, d')"
  shows "store_step\<^sup>*\<^sup>* d d'"
proof -
  have "any_client.reach d d'"
  proof (cases call)
    case (Renew ttl)
    with assms show ?thesis by (auto elim!: bnd_InrE ret_InrE intro: any_client.renew_coordinator_reach)
  next
    case (Put_Envelope e a c)
    with assms show ?thesis by (auto intro: any_client.put_envelope_reach)
  qed (use assms in \<open>auto intro: any_client.record_dispatch_authorization_reach any_client.record_evidence_reach
      any_client.insert_values_reach any_client.transition_batch_reach any_client.record_acceptance_reach
      any_client.set_workspace_state_reach any_client.propose_envelope_reach
      any_client.mark_envelope_proposal_approved_reach any_client.create_interaction_session_reach
      any_client.update_interaction_session_reach any_client.create_decision_request_reach
      any_client.resolve_decision_request_reach any_client.set_operational_control_reach
      any_client.record_event_reach\<close>)
  then show ?thesis by (simp add: any_client.reach_def)
qed

text \<open>Histories of the store: acquisitions and calls with any token at any time, failing ones included.\<close>

datatype store_action = Acquire string int int | Call store_call fence_token int

fun act :: "(json \<Rightarrow> string) \<Rightarrow> store_action \<Rightarrow> db \<Rightarrow> db" where
  "act sha (Acquire h now ttl) d = snd (acquire_coordinator h now ttl d)"
| "act sha (Call call t now) d = snd (exec_call sha call t now d)"

definition run_history :: "(json \<Rightarrow> string) \<Rightarrow> store_action list \<Rightarrow> db \<Rightarrow> db" where
  "run_history sha as d = fold (act sha) as d"

lemma traceless_acquire: "traceless (acquire_coordinator h now ttl)"
  unfolding acquire_coordinator_def by (intro traceless_rules)

lemma act_steps: "store_step\<^sup>*\<^sup>* d (act sha a d)"
proof (cases a)
  case (Acquire h now ttl)
  obtain r d' where r: "acquire_coordinator h now ttl d = (r, d')" by (cases "acquire_coordinator h now ttl d")
  with Acquire show ?thesis
    using traceless_acquire [of h now ttl] any_client.acquire_coordinator_reach [of h now ttl d _ d']
    by (cases r) (auto simp: traceless_def any_client.reach_def)
next
  case (Call call t now)
  obtain r d' where r: "exec_call sha call t now d = (r, d')" by (cases "exec_call sha call t now d")
  with Call show ?thesis
    using calls.no_trace [of sha call t now] exec_call_steps [of sha call t now d _ d']
    by (cases r) (auto simp: traceless_def)
qed

lemma run_history_steps: "store_step\<^sup>*\<^sup>* d (run_history sha as d)"
proof (induction as arbitrary: d)
  case (Cons a as)
  then show ?case using act_steps [of d sha a] by (auto simp: run_history_def intro: rtranclp_trans)
qed (simp add: run_history_def)

end
