(* ===== verification/Store_Properties.thy ===== *)
theory Store_Properties
  imports Store_Laws
begin

text \<open>
  Properties of the RunStore for arbitrary clients: fencing and exclusivity of the coordinator lease,
  atomic compare-and-set of transition batches, integrity of every database the store can produce, and the
  append-only history.
\<close>

section \<open>Fencing\<close>

lemma acquire_generation:
  assumes "acquire_coordinator h now ttl d = (Inr t, d')"
  shows "generation t = current_generation d + 1 \<and> current_generation d' = generation t \<and>
    coordinator_lease d' = Some \<lparr>ls_holder_id = h, ls_generation = generation t, ls_expires_at = now + ttl\<rparr> \<and>
    holder_id t = h \<and> expires_at t = now + ttl"
  using assms unfolding acquire_coordinator_def current_generation_def
  by (auto simp: log_audit_def elim!: eff_elims split: option.splits if_splits)

lemma fence_ok_generation: "fence_ok t now d \<Longrightarrow> generation t = current_generation d"
  by (auto simp: fence_ok_def current_generation_def split: option.splits)

lemma history_extends: "extends d (run_history sha as d)"
  by (rule ext.steps_R [OF run_history_steps])

text \<open>
  C4. Fencing: once a coordinator has acquired the lease, every token issued before is dead for good.
  Whatever acquisitions and calls happen afterwards and whatever the clock says, no mutating operation
  of the store called with such a token changes the database: it raises and leaves no trace.
\<close>

theorem stale_token_fenced:
  assumes "acquire_coordinator h now ttl d = (Inr t', d1)" and "generation t \<le> current_generation d"
  shows "\<exists>e. exec_call sha call t now' (run_history sha as d1) = (Inl e, run_history sha as d1)"
proof -
  have "current_generation d < current_generation d1"
    using acquire_generation [OF assms(1)] by simp
  also have "\<dots> \<le> current_generation (run_history sha as d1)"
    using history_extends by (simp add: extends_def)
  finally have "\<not> fence_ok t now' (run_history sha as d1)"
    using assms(2) fence_ok_generation by fastforce
  then show ?thesis by (rule calls.fenced_out)
qed

lemma acquire_empty:
  "acquire_coordinator ''a'' 10 5 empty_db =
     (Inr \<lparr>holder_id = ''a'', generation = 1, expires_at = 15\<rparr>, act sha (Acquire ''a'' 10 5) empty_db)"
  by (simp add: acquire_coordinator_def empty_db_def log_audit_def transaction_def bnd_def strip_def is_space_def ccode_def ensure_def)

theorem stale_token_fenced_witness:
  "\<exists>e. exec_call (\<lambda>_. '''') (Renew 100) \<lparr>holder_id = ''b'', generation = 0, expires_at = 99\<rparr> 11
     (run_history (\<lambda>_. '''') [] (act (\<lambda>_. '''') (Acquire ''a'' 10 5) empty_db)) =
   (Inl e, run_history (\<lambda>_. '''') [] (act (\<lambda>_. '''') (Acquire ''a'' 10 5) empty_db))"
  by (rule stale_token_fenced [OF acquire_empty]) (simp add: current_generation_def empty_db_def)

lemma acquire_iff:
  "(\<exists>t d'. acquire_coordinator h now ttl d = (Inr t, d')) \<longleftrightarrow>
     \<not> blank h \<and> 1 \<le> ttl \<and> (case coordinator_lease d of None \<Rightarrow> True | Some l \<Rightarrow> ls_expires_at l \<le> now \<or> ls_holder_id l = h)"
  by (auto simp: acquire_coordinator_def transaction_def bnd_def ensure_def log_audit_def split: option.splits)

text \<open>
  The lease is exclusive: acquisition succeeds exactly for a named holder with a positive
  duration when there is no lease, the lease has run out, or the caller already holds it. The new token has a
  generation above every earlier one and passes the fence exactly until the lease runs out, and two tokens that
  pass the fence at the same time are of the same holder and generation.
\<close>

theorem lease_exclusive:
  "((\<exists>t d'. acquire_coordinator h now ttl d = (Inr t, d')) \<longleftrightarrow>
     \<not> blank h \<and> 1 \<le> ttl \<and> (case coordinator_lease d of None \<Rightarrow> True | Some l \<Rightarrow> ls_expires_at l \<le> now \<or> ls_holder_id l = h)) \<and>
   (\<forall>t d' now'. acquire_coordinator h now ttl d = (Inr t, d') \<longrightarrow>
      holder_id t = h \<and> current_generation d < generation t \<and> (fence_ok t now' d' \<longleftrightarrow> now' < now + ttl)) \<and>
   (\<forall>t1 t2 n. fence_ok t1 n d \<longrightarrow> fence_ok t2 n d \<longrightarrow> holder_id t1 = holder_id t2 \<and> generation t1 = generation t2)"
proof (intro conjI allI impI)
  fix t d' now'
  assume "acquire_coordinator h now ttl d = (Inr t, d')"
  note a = acquire_generation [OF this]
  show "holder_id t = h" "current_generation d < generation t" "fence_ok t now' d' \<longleftrightarrow> now' < now + ttl"
    using a by (auto simp: fence_ok_def)
qed (rule acquire_iff, auto simp: fence_ok_def split: option.splits)

theorem lease_exclusive_witness:
  "fence_ok \<lparr>holder_id = ''a'', generation = 1, expires_at = 15\<rparr> 14 (act (\<lambda>_. '''') (Acquire ''a'' 10 5) empty_db) \<and>
   \<not> (\<exists>t d'. acquire_coordinator ''b'' 14 5 (act (\<lambda>_. '''') (Acquire ''a'' 10 5) empty_db) = (Inr t, d'))"
proof -
  define d where "d = act (\<lambda>_. '''') (Acquire ''a'' 10 5) empty_db"
  define t where "t = \<lparr>holder_id = ''a'', generation = 1, expires_at = 15\<rparr>"
  have a: "acquire_coordinator ''a'' 10 5 empty_db = (Inr t, d)"
    unfolding d_def t_def by (rule acquire_empty)
  from acquire_generation [OF this]
  have l: "coordinator_lease d = Some \<lparr>ls_holder_id = ''a'', ls_generation = 1, ls_expires_at = 15\<rparr>"
    by (simp add: t_def)
  have "fence_ok t 14 d"
    using lease_exclusive [THEN conjunct2, THEN conjunct1, rule_format, OF a, of 14] by simp
  moreover have "\<not> (\<exists>t d'. acquire_coordinator ''b'' 14 5 d = (Inr t, d'))"
    using lease_exclusive [of "''b''" 14 5 d, THEN conjunct1] l by simp
  ultimately show ?thesis unfolding d_def t_def by blast
qed

section \<open>Transition batches\<close>

definition row_state :: "string \<Rightarrow> string \<Rightarrow> db \<Rightarrow> string option" where
  "row_state table i d =
     (if table = ''workstreams'' then map_option ws_state (get_workstream i d)
      else if table = ''runs'' then map_option rn_state (get_run i d)
      else if table = ''project_jobs'' then map_option jb_state (get_job i d)
      else map_option at_state (get_attempt i d))"

definition change_key :: "change \<Rightarrow> string \<times> string" where
  "change_key c = (ch_table c, ch_identifier c)"

definition supported :: "change \<Rightarrow> bool" where
  "supported c \<longleftrightarrow> (ch_table c, ch_id_column c) \<in> set transition_targets \<and> (ch_table c = ''attempts'' \<or> ch_updates c = [])"

definition tables :: "string set" where
  "tables = {''workstreams'', ''runs'', ''project_jobs'', ''attempts''}"

lemma rowcount_find:
  "distinct (map k rows) \<Longrightarrow>
     rowcount (\<lambda>r. k r = i \<and> st r = x) rows = (if map_option st (find (\<lambda>r. k r = i) rows) = Some x then 1 else 0)"
proof (cases "find (\<lambda>r. k r = i) rows")
  case None
  then show ?thesis by (auto simp: rowcount_def filter_empty_conv dest: find_NoneD)
next
  case (Some r)
  assume "distinct (map k rows)"
  with Some show ?thesis using find_SomeD [OF Some] rowcount_key [of k rows r "\<lambda>r. st r = x"] by auto
qed

lemma find_update_where:
  assumes "\<And>r. k (f r) = k r"
  shows "find (\<lambda>r. k r = i) (update_where P f rows) = map_option (\<lambda>r. if P r then f r else r) (find (\<lambda>r. k r = i) rows)"
  unfolding update_where_def using assms by (intro find_map_key) simp

lemma set_attempt_fields [simp]:
  "at_id (set_attempt c now r) = at_id r" "at_state (set_attempt c now r) = ch_target_state c"
  using at_ident_set_attempt [of c now r] by (simp_all add: at_ident_def) (simp add: set_attempt_def)

lemma change_count_row_state:
  assumes "keys_ok d"
  shows "change_count c d = (if row_state (ch_table c) (ch_identifier c) d = Some (ch_expected_state c) then 1 else 0)"
  using assms
  by (simp add: change_count_def row_state_def Let_def keys_ok_def rowcount_find get_workstream_def get_run_def
      get_job_def get_attempt_def)

lemma state_update_where:
  assumes "\<And>r. k (f r) = k r" and "\<And>r. st (f r) = y"
  shows "map_option st (find (\<lambda>r. k r = i) (update_where (\<lambda>r. k r = j \<and> st r = x) f rows)) =
    (if i = j \<and> map_option st (find (\<lambda>r. k r = i) rows) = Some x then Some y else map_option st (find (\<lambda>r. k r = i) rows))"
  using assms by (cases "find (\<lambda>r. k r = i) rows") (auto simp: find_update_where dest: find_SomeD)

lemma row_state_change_rows:
  assumes "t \<in> tables" and "ch_table c \<in> tables"
  shows "row_state t i (change_rows c now d) =
    (if (t, i) = change_key c \<and> row_state t i d = Some (ch_expected_state c) then Some (ch_target_state c) else row_state t i d)"
proof -
  let ?u = "ch_target_state c"
  note upd =
    state_update_where [of ws_id "\<lambda>r. r\<lparr>ws_state := ?u, ws_updated_at := now\<rparr>" ws_state ?u]
    state_update_where [of rn_id "\<lambda>r. r\<lparr>rn_state := ?u, rn_updated_at := now\<rparr>" rn_state ?u]
    state_update_where [of jb_id "\<lambda>r. r\<lparr>jb_state := ?u, jb_updated_at := now\<rparr>" jb_state ?u]
    state_update_where [of at_id "set_attempt c now" at_state ?u]
  note simps = row_state_def change_rows_def Let_def change_key_def get_workstream_def get_run_def get_job_def
    get_attempt_def
  from assms(2) consider "ch_table c = ''workstreams''" | "ch_table c = ''runs''" | "ch_table c = ''project_jobs''"
    | "ch_table c = ''attempts''" by (auto simp: tables_def)
  then show ?thesis
  proof cases
    case 1
    show ?thesis using 1 by (cases "i = ch_identifier c") (simp_all add: simps upd del: map_option_eq_Some)
  next
    case 2
    show ?thesis using 2 by (cases "i = ch_identifier c") (simp_all add: simps upd del: map_option_eq_Some)
  next
    case 3
    show ?thesis using 3 by (cases "i = ch_identifier c") (simp_all add: simps upd del: map_option_eq_Some)
  next
    case 4
    show ?thesis using 4 assms(1) by (cases "i = ch_identifier c") (auto simp add: simps upd tables_def simp del: map_option_eq_Some)
  qed
qed

lemma supported_table: "supported c \<Longrightarrow> ch_table c \<in> tables"
  by (auto simp: supported_def transition_targets_def tables_def)

lemma row_state_audit: "row_state t i (d\<lparr>runtime_audit := x\<rparr>) = row_state t i d"
  by (simp add: row_state_def get_workstream_def get_run_def get_job_def get_attempt_def)

lemma apply_change_iff:
  assumes "keys_ok d" and "supported c"
  shows "(\<exists>d'. apply_change c now a d = (Inr (), d')) \<longleftrightarrow> row_state (ch_table c) (ch_identifier c) d = Some (ch_expected_state c)"
  using assms by (auto simp: apply_change_def supported_def bnd_def ensure_def change_count_row_state log_audit_def)

lemma apply_change_effect:
  assumes "apply_change c now a d = (Inr (), d')" and "keys_ok d" and "supported c"
  shows "keys_ok d'" and "t \<in> tables \<Longrightarrow> row_state t i d' = (if (t, i) = change_key c then Some (ch_target_state c) else row_state t i d)"
proof -
  have eq: "d' = snd (log_audit (upper (ch_table c) @ ''_TRANSITION'') a (ch_table c) (ch_identifier c) now
       (foldl (\<lambda>kvs (k, v). AList.update (update_column_name k) (JStr v) kvs)
         [(''from'', JStr (ch_expected_state c)), (''to'', JStr (ch_target_state c))] (ch_updates c)) None (change_rows c now d))"
    using assms(1) by (auto simp: apply_change_def log_audit_def elim!: eff_elims)
  show "keys_ok d'"
    unfolding eq using keys.change_R [of d c now] keys.audit_R assms(2) by (auto simp: preserves_def)
  have "row_state (ch_table c) (ch_identifier c) d = Some (ch_expected_state c)"
    using apply_change_iff [OF assms(2,3)] assms(1) by blast
  then show "t \<in> tables \<Longrightarrow> row_state t i d' = (if (t, i) = change_key c then Some (ch_target_state c) else row_state t i d)"
    unfolding eq using supported_table [OF assms(3)]
    by (auto simp: log_audit_def row_state_audit row_state_change_rows change_key_def)
qed

lemma apply_changes_iff:
  assumes "keys_ok d" and "list_all supported cs" and "distinct (map change_key cs)"
  shows "(\<exists>d'. apply_changes cs now a d = (Inr (), d')) \<longleftrightarrow>
      list_all (\<lambda>c. row_state (ch_table c) (ch_identifier c) d = Some (ch_expected_state c)) cs"
  using assms
proof (induction cs arbitrary: d)
  case (Cons c cs)
  have IH: "(\<exists>d'. apply_changes cs now a d1 = (Inr (), d')) \<longleftrightarrow>
      list_all (\<lambda>c. row_state (ch_table c) (ch_identifier c) d = Some (ch_expected_state c)) cs"
    if s: "apply_change c now a d = (Inr (), d1)" for d1
  proof -
    note e = apply_change_effect [OF s Cons.prems(1)]
    have "row_state (ch_table c') (ch_identifier c') d1 = row_state (ch_table c') (ch_identifier c') d" if "c' \<in> set cs" for c'
      using that Cons.prems e(2) [of "ch_table c'" "ch_identifier c'"] supported_table
      by (auto simp: list_all_iff change_key_def image_iff)
    then show ?thesis using Cons.IH [of d1] Cons.prems e(1) by (simp add: list_all_iff)
  qed
  have "(\<exists>d'. apply_changes (c # cs) now a d = (Inr (), d')) \<longleftrightarrow>
      (\<exists>d1. apply_change c now a d = (Inr (), d1) \<and> (\<exists>d'. apply_changes cs now a d1 = (Inr (), d')))"
    by (auto elim!: bnd_InrE)
  then show ?case using IH apply_change_iff [OF Cons.prems(1), of c now a] Cons.prems(2) by auto
qed simp

lemma apply_changes_effect:
  assumes "apply_changes cs now a d = (Inr (), d')" and "keys_ok d" and "list_all supported cs"
    and "distinct (map change_key cs)" and "t \<in> tables"
  shows "row_state t i d' = (case find (\<lambda>c. change_key c = (t, i)) cs of Some c \<Rightarrow> Some (ch_target_state c) | None \<Rightarrow> row_state t i d)"
  using assms(1-4)
proof (induction cs arbitrary: d)
  case (Cons c cs)
  then obtain d1 where s: "apply_change c now a d = (Inr (), d1)" and r: "apply_changes cs now a d1 = (Inr (), d')"
    by (auto elim!: bnd_InrE)
  have "supported c" using Cons.prems by simp
  note e = apply_change_effect [OF s Cons.prems(2) this]
  have "find (\<lambda>c. change_key c = (t, i)) cs = None" if "(t, i) = change_key c"
    using that Cons.prems(4) by (auto simp: find_None_iff) (metis image_eqI)
  then show ?case
    using Cons.IH [OF r e(1)] Cons.prems e(2) [OF assms(5), of i] by (auto split: option.splits)
qed simp

text \<open>
  A transition batch is atomic and compares before it sets: on a database with intact keys, a
  non-empty batch of supported changes to different rows, by a valid actor under a live fence, commits exactly when every
  row is in its expected state; then every named row is in its target state and every other row keeps its
  state. In every other case the batch raises and the database is unchanged.
\<close>

theorem transition_batch_atomic:
  assumes "keys_ok d" and "list_all supported cs" and "distinct (map change_key cs)" and "cs \<noteq> []"
    and "fst (validate_actor a d) = Inr ()" and "fence_ok t now d"
  shows "((\<exists>d'. transition_batch cs t now a d = (Inr (), d')) \<longleftrightarrow>
      list_all (\<lambda>c. row_state (ch_table c) (ch_identifier c) d = Some (ch_expected_state c)) cs) \<and>
    (\<forall>d' tb i. transition_batch cs t now a d = (Inr (), d') \<longrightarrow> tb \<in> tables \<longrightarrow>
      row_state tb i d' = (case find (\<lambda>c. change_key c = (tb, i)) cs of Some c \<Rightarrow> Some (ch_target_state c) | None \<Rightarrow> row_state tb i d)) \<and>
    (\<forall>e d'. transition_batch cs t now a d = (Inl e, d') \<longrightarrow> d' = d)"
proof -
  have "validate_actor a d = (Inr (), d)"
    using assms(5) by (auto simp: validate_actor_def Let_def ensure_def split: if_splits)
  with assms(4,6) have eq: "transition_batch cs t now a d = (Inr (), d') \<longleftrightarrow> apply_changes cs now a d = (Inr (), d')" for d'
    by (simp add: transition_batch_def assert_fence_def bnd_def)
  show ?thesis
    using apply_changes_iff [OF assms(1-3), of now a] apply_changes_effect [OF _ assms(1-3)]
      f_transition_batch.no_trace [of cs t now a] by (auto simp: eq traceless_def)
qed

text \<open>A small database: one Run with a running ProjectJob and Attempt under \<open>sample_envelope\<close>.\<close>

definition demo_token :: fence_token where
  "demo_token = \<lparr>holder_id = ''svc'', generation = 1, expires_at = 100\<rparr>"

definition demo_db :: db where
  "demo_db = empty_db\<lparr>
     coordinator_lease := Some \<lparr>ls_holder_id = ''svc'', ls_generation = 1, ls_expires_at = 100\<rparr>,
     envelopes := [\<lparr>er_envelope_id = ''env'', er_version = 1, er_project_id = ''P'', er_fingerprint = ''f'',
       er_approved_by = ''ana'', er_payload = payload_of (\<lambda>_. ''f'') sample_envelope\<rparr>],
     workstreams := [\<lparr>ws_id = ''w'', ws_project_id = ''P'', ws_state = ''ACTIVE'', ws_created_at = 1, ws_updated_at = 1\<rparr>],
     runs := [\<lparr>rn_id = ''r'', rn_workstream_id = ''w'', rn_project_id = ''P'', rn_envelope_id = ''env'',
       rn_envelope_version = 1, rn_state = ''RUNNING'', rn_created_at = 1, rn_updated_at = 1\<rparr>],
     project_jobs := [\<lparr>jb_id = ''j'', jb_run_id = ''r'', jb_state = ''RUNNING'', jb_purpose = ''build'',
       jb_created_at = 1, jb_updated_at = 1\<rparr>],
     attempts := [\<lparr>at_id = ''a'', at_project_job_id = ''j'', at_ordinal = 1, at_state = ''RUNNING'',
       at_result_claim = None, at_reconciliation_outcome = None, at_created_at = 1, at_updated_at = 1\<rparr>]\<rparr>"

definition demo_changes :: "change list" where
  "demo_changes =
     [\<lparr>ch_table = ''attempts'', ch_id_column = ''attempt_id'', ch_identifier = ''a'', ch_expected_state = ''RUNNING'',
       ch_target_state = ''FINISHED'', ch_updates = [(Result_Claim, ''done'')]\<rparr>,
      \<lparr>ch_table = ''project_jobs'', ch_id_column = ''project_job_id'', ch_identifier = ''j'', ch_expected_state = ''RUNNING'',
       ch_target_state = ''FINISHED'', ch_updates = []\<rparr>]"

lemma demo_db_ok: "keys_ok demo_db" "refs_ok demo_db" "audit_ok demo_db"
  by (simp_all add: demo_db_def empty_db_def keys_ok_def refs_ok_def audit_ok_def er_key_def)

lemma demo_actor: "as_principal (Actor_String ''svc'') = \<lparr>actor_id = ''svc'', actor_type = AT_ARTIFEX_SERVICE, authenticated = True,
    authentication_method = ''legacy-in-process'', direct_permissions = [''*''], delegation = None\<rparr>"
  by code_simp

lemma demo_actor_ok: "fst (validate_actor (Actor_String ''svc'') d) = Inr ()"
  by (simp add: validate_actor_def demo_actor del: as_principal.simps) code_simp

theorem transition_batch_atomic_witness:
  "\<exists>d'. transition_batch demo_changes demo_token 50 (Actor_String ''svc'') demo_db = (Inr (), d') \<and>
     row_state ''attempts'' ''a'' d' = Some ''FINISHED'' \<and> row_state ''project_jobs'' ''j'' d' = Some ''FINISHED'' \<and>
     row_state ''runs'' ''r'' d' = Some ''RUNNING''"
proof -
  have pre: "list_all supported demo_changes" "distinct (map change_key demo_changes)" "demo_changes \<noteq> []"
    "fence_ok demo_token 50 demo_db"
    by (simp_all add: demo_changes_def supported_def transition_targets_def change_key_def fence_ok_def demo_db_def demo_token_def)
  note batch = transition_batch_atomic [OF demo_db_ok(1) pre(1-3) demo_actor_ok pre(4)]
  have st: "list_all (\<lambda>c. row_state (ch_table c) (ch_identifier c) demo_db = Some (ch_expected_state c)) demo_changes"
    "row_state ''runs'' ''r'' demo_db = Some ''RUNNING''"
    by (simp_all add: demo_changes_def demo_db_def row_state_def get_job_def get_attempt_def get_run_def)
  with batch obtain d' where d': "transition_batch demo_changes demo_token 50 (Actor_String ''svc'') demo_db = (Inr (), d')"
    by blast
  with batch have "t \<in> tables \<Longrightarrow> row_state t i d' =
      (case find (\<lambda>c. change_key c = (t, i)) demo_changes of Some c \<Rightarrow> Some (ch_target_state c) | None \<Rightarrow> row_state t i demo_db)" for t i
    by blast
  from this [of "''attempts''" "''a''"] this [of "''project_jobs''" "''j''"] this [of "''runs''" "''r''"]
  have "row_state ''attempts'' ''a'' d' = Some ''FINISHED''" "row_state ''project_jobs'' ''j'' d' = Some ''FINISHED''"
    "row_state ''runs'' ''r'' d' = Some ''RUNNING''"
    using st(2) by (simp_all add: tables_def demo_changes_def change_key_def)
  with d' show ?thesis by blast
qed

section \<open>Integrity\<close>


section \<open>Secrets in Envelopes\<close>

lemma fixed_texts_free:
  "\<not> contains_secret (supervision_level_value l)" "\<not> contains_secret (materiality_value m)"
  "\<not> contains_secret ''READ''" "\<not> contains_secret ''WRITE''"
proof -
  have "list_all (\<lambda>s. scrub_secrets s = s) (map supervision_level_value [L1, L2, L3, L4] @ map materiality_value [OPERATIONAL, TACTICAL, STRATEGIC_MATERIAL] @
      [''READ'', ''WRITE''])"
    by code_simp
  then show "\<not> contains_secret (supervision_level_value l)" "\<not> contains_secret (materiality_value m)"
    "\<not> contains_secret ''READ''" "\<not> contains_secret ''WRITE''"
    unfolding scrub_id_iff [symmetric] by (cases l; cases m; simp)+
qed

lemma jstrs_free: "json_secret_free (jstrs xs) \<longleftrightarrow> list_all (\<lambda>v. \<not> contains_secret v) xs"
  by (simp add: jstrs_def list_all_iff)

text \<open>
  C40. Every text of a valid Envelope's document is free of the credential forms the patterns know, but for those the class does not scan:
  the identifiers of Envelope, Project and Workstreams, the names of providers and of their roles, the credential references, the names in the
  resource budget, and the digests.
\<close>

theorem envelope_document_secret_free:
  assumes "envelope_check e = Inr ()" and "envelope_to_dict sha e = JObj kvs" and "(k, j) \<in> set kvs"
    and "k \<notin> {''envelope_id'', ''project_id'', ''allowed_workstreams'', ''allowed_providers'', ''allowed_provider_roles'', ''credential_references'',
      ''resource_budget'', ''baseline_fingerprint'', ''baseline_commit'', ''fingerprint''}"
  shows "json_secret_free j"
proof -
  have "list_all (\<lambda>v. scrub_secrets v = v) (secret_safe_values e)"
    and permissions: "list_all (\<lambda>p. p = ''READ'' \<or> p = ''WRITE'') (filesystem_permissions e)"
    using assms(1) unfolding envelope_check_def Let_def by (elim rbind_InrE, simp only: ensure_Inr_iff)+
  then have scanned: "list_all (\<lambda>v. \<not> contains_secret v) (secret_safe_values e)" by (simp only: scrub_id_iff)
  have "list_all (\<lambda>v. \<not> contains_secret v) (filesystem_permissions e)"
    using permissions by (rule list.pred_mono_strong) (use fixed_texts_free(3,4) in auto)
  with scanned have free: "json_secret_free (jstrs (allowed_paths e))" "json_secret_free (jstrs (allowed_capabilities e))"
    "json_secret_free (jstrs (required_gates e))" "json_secret_free (jstrs (network_permissions e))" "json_secret_free (jstrs (tool_permissions e))"
    "json_secret_free (jstrs (stop_conditions e))" "json_secret_free (jstrs (filesystem_permissions e))"
    "\<not> contains_secret (objective e)" "\<not> contains_secret (env_actor_id e)" "\<not> contains_secret (recovery_policy e)"
    "\<not> contains_secret (data_classification e)"
    by (simp_all add: secret_safe_values_def jstrs_free)
  have deadline: "json_secret_free (jopt JInt (deadline_at e))" by (cases "deadline_at e") (simp_all add: jopt_def)
  define free_entry where "free_entry = (\<lambda>(k, j). k \<in> {''envelope_id'', ''project_id'', ''allowed_workstreams'', ''allowed_providers'',
      ''allowed_provider_roles'', ''credential_references'', ''resource_budget'', ''baseline_fingerprint'', ''baseline_commit'', ''fingerprint''} \<or>
      json_secret_free j)"
  have entry: "free_entry (k, j)" if "k \<in> {''envelope_id'', ''project_id'', ''allowed_workstreams'', ''allowed_providers'', ''allowed_provider_roles'',
      ''credential_references'', ''resource_budget'', ''baseline_fingerprint'', ''baseline_commit'', ''fingerprint''} \<or> json_secret_free j" for k j
    using that by (simp add: free_entry_def)
  have "list_all free_entry kvs"
    using assms(2) unfolding envelope_to_dict_def authority_dict_def
    by (simp only: json.case json.inject) (elim subst, simp only: list.pred_inject append.simps simp_thms, intro conjI; rule entry;
      simp add: free deadline fixed_texts_free)
  then have "free_entry (k, j)" using assms(3) by (auto simp: list_all_iff)
  with assms(4) show ?thesis by (simp add: free_entry_def)
qed

theorem envelope_document_secret_free_witness:
  "json_secret_free (JStr (objective sample_envelope)) \<and> json_secret_free (jstrs (stop_conditions sample_envelope))"
proof -
  obtain kvs where kvs: "envelope_to_dict (\<lambda>_. []) sample_envelope = JObj kvs" by (simp add: envelope_to_dict_def authority_dict_def)
  then have "(''objective'', JStr (objective sample_envelope)) \<in> set kvs" "(''stop_conditions'', jstrs (stop_conditions sample_envelope)) \<in> set kvs"
    by (auto simp: envelope_to_dict_def authority_dict_def)
  from this [THEN envelope_document_secret_free [OF sample_envelope_ok kvs]] show ?thesis by simp
qed

section \<open>History is immutable\<close>

lemma find_prefix: "prefix xs ys \<Longrightarrow> find Q xs = Some r \<Longrightarrow> find Q ys = Some r"
  by (auto simp: prefix_def find_append)

lemma put_envelope_same:
  assumes "put_envelope sha e t now a c d = (Inr u, d')" and "find_envelope (envelope_id e) (version e) d = Some r"
  shows "er_fingerprint r = fingerprint sha e"
  using assms unfolding put_envelope_def Let_def assert_fence_def
  by (elim eff_elims) (simp only: transaction_Inr, elim eff_elims, simp)

text \<open>
  History is only extended and an approved Envelope version is immutable: no sequence of acquisitions
  and calls removes or changes an Envelope, dispatch authorization, evidence record, acceptance decision or audit entry,
  or the identity of a Workstream, Run, ProjectJob, Attempt, workspace or decision request. In
  particular a stored Envelope version is found unchanged ever after, and storing another content under
  its identity is refused.
\<close>

theorem history_append_only:
  assumes "find_envelope i v d = Some r"
  shows "extends d (run_history sha as d) \<and> find_envelope i v (run_history sha as d) = Some r \<and>
    (\<forall>e t now a c. envelope_id e = i \<longrightarrow> version e = v \<longrightarrow> fingerprint sha e \<noteq> er_fingerprint r \<longrightarrow>
      (\<exists>x. put_envelope sha e t now a c (run_history sha as d) = (Inl x, run_history sha as d)))"
proof -
  let ?d = "run_history sha as d"
  have e: "extends d ?d" by (rule history_extends)
  then have "prefix (envelopes d) (envelopes ?d)" by (simp add: extends_def)
  then have f: "find_envelope i v ?d = Some r"
    using assms unfolding find_envelope_def by (rule find_prefix)
  have "\<exists>x. put_envelope sha e t now a c ?d = (Inl x, ?d)"
    if h: "envelope_id e = i" "version e = v" "fingerprint sha e \<noteq> er_fingerprint r" for e t now a c
  proof -
    have "put_envelope sha e t now a c ?d \<noteq> (Inr u, d'')" for u d''
      using h f put_envelope_same [of sha e t now a c ?d u d'' r] by auto
    moreover obtain q d'' where q: "put_envelope sha e t now a c ?d = (q, d'')" by (cases "put_envelope sha e t now a c ?d")
    ultimately obtain x where "q = Inl x" by (cases q) auto
    with q show ?thesis using f_put_envelope.no_trace [of sha e t now a c] by (auto simp: traceless_def)
  qed
  with e f show ?thesis by blast
qed

theorem history_append_only_witness:
  "find_envelope ''env'' 1 (run_history (\<lambda>_. ''g'') [Call (Put_Envelope sample_envelope None None) demo_token 50] demo_db) \<noteq> None"
proof -
  have "find_envelope ''env'' 1 demo_db = Some (hd (envelopes demo_db))"
    by (simp add: find_envelope_def demo_db_def)
  from history_append_only [OF this] show ?thesis by auto
qed

end
