(* ===== verification/Coordinator.thy ===== *)
theory Coordinator
  imports Store_Properties
begin

text \<open>
  Models \<open>src/artifex/runtime/coordinator.py\<close>: the fenced execution coordinator that owns every
  runtime transition.

  A service process sees a \<open>world\<close>: the database, and how many clock readings and random values have been
  drawn. The readings, the UUIDs, the random tokens and the hashes are the parameters of a \<open>runtime_env\<close>. The
  coordinator object is a record; an operation that assigns \<open>self.token\<close> returns the updated object.
  An operation is the sequence of reads and store transactions of the source; a raise after a committed
  transaction keeps what was committed.
\<close>

section \<open>The world of a service process\<close>

record runtime_env =
  clock_reading :: "nat \<Rightarrow> int"
  uuid_text :: "nat \<Rightarrow> string"
  sha_json :: "json \<Rightarrow> string"
  token_text :: "nat \<Rightarrow> string"
  sha_text :: "string \<Rightarrow> string"

record world =
  store_db :: db
  ticks :: nat
  draws :: nat

definition clock :: "runtime_env \<Rightarrow> (world, int) eff" where
  "clock env = (\<lambda>w. (Inr (clock_reading env (ticks w)), w\<lparr>ticks := Suc (ticks w)\<rparr>))"

definition uuid4 :: "runtime_env \<Rightarrow> (world, string) eff" where
  "uuid4 env = (\<lambda>w. (Inr (uuid_text env (draws w)), w\<lparr>draws := Suc (draws w)\<rparr>))"

definition token_urlsafe :: "runtime_env \<Rightarrow> (world, string) eff" where
  "token_urlsafe env = (\<lambda>w. (Inr (token_text env (draws w)), w\<lparr>draws := Suc (draws w)\<rparr>))"

definition in_store :: "(db, 'a) eff \<Rightarrow> (world, 'a) eff" where
  "in_store m = (\<lambda>w. case m (store_db w) of (r, d) \<Rightarrow> (r, w\<lparr>store_db := d\<rparr>))"

definition query :: "(db \<Rightarrow> 'a) \<Rightarrow> (world, 'a) eff" where
  "query f = gets (\<lambda>w. f (store_db w))"

text \<open>A lookup of the store whose miss raises; \<open>_require\<close> is the lookup that raises \<open>KeyError\<close>.\<close>

definition fetch :: "err \<Rightarrow> (db \<Rightarrow> 'a option) \<Rightarrow> (world, 'a) eff" where
  "fetch e f = bnd (query f) (\<lambda>x. some_or e x)"

abbreviation require_row :: "(db \<Rightarrow> 'a option) \<Rightarrow> (world, 'a) eff" where
  "require_row \<equiv> fetch KeyError"

record coordinator =
  co_holder_id :: string
  co_lease_seconds :: int
  co_token :: fence_token

definition coordinator_init :: "runtime_env \<Rightarrow> string \<Rightarrow> int \<Rightarrow> (world, coordinator) eff" where
  "coordinator_init env holder lease_seconds =
     bnd (clock env) (\<lambda>now.
     bnd (in_store (acquire_coordinator holder now lease_seconds)) (\<lambda>t.
     ret \<lparr>co_holder_id = holder, co_lease_seconds = lease_seconds, co_token = t\<rparr>))"

definition renew :: "runtime_env \<Rightarrow> coordinator \<Rightarrow> (world, coordinator) eff" where
  "renew env co =
     bnd (clock env) (\<lambda>now.
     bnd (in_store (renew_coordinator (co_token co) now (co_lease_seconds co))) (\<lambda>t.
     ret (co\<lparr>co_token := t\<rparr>)))"

definition mk_change :: "string \<Rightarrow> string \<Rightarrow> string \<Rightarrow> string \<Rightarrow> string \<Rightarrow> (update_column \<times> string) list \<Rightarrow> change" where
  "mk_change table id_column identifier expected target updates =
     \<lparr>ch_table = table, ch_id_column = id_column, ch_identifier = identifier, ch_expected_state = expected,
      ch_target_state = target, ch_updates = updates\<rparr>"

definition transition_changes :: "coordinator \<Rightarrow> change list \<Rightarrow> actor_like \<Rightarrow> int \<Rightarrow> (world, unit) eff" where
  "transition_changes co changes actor now = in_store (transition_batch changes (co_token co) now actor)"

definition transition_single :: "coordinator \<Rightarrow> string \<Rightarrow> string \<Rightarrow> string \<Rightarrow> string \<Rightarrow> string \<Rightarrow> actor_like \<Rightarrow> int \<Rightarrow>
    (world, unit) eff" where
  "transition_single co table id_column identifier expected target actor now =
     in_store (transition_one table id_column identifier expected target (co_token co) now actor [])"

section \<open>Envelopes, Workstreams, Runs, ProjectJobs and Attempts\<close>

definition approve_envelope :: "runtime_env \<Rightarrow> coordinator \<Rightarrow> execution_envelope \<Rightarrow> actor_like option \<Rightarrow>
    string option \<Rightarrow> (world, unit) eff" where
  "approve_envelope env co e actor correlation_id =
     (let approval_actor = (case actor of Some a \<Rightarrow> a | None \<Rightarrow> Actor_String (env_actor_id e));
          principal = as_principal approval_actor in
     bnd (req (\<not> (is_principal approval_actor \<and>
       actor_type principal \<in> {AT_PROVIDER, AT_AUTOMATION_SYSTEM_ACTOR, AT_INTERACTION_CLIENT})) RuntimeAuthorizationError) (\<lambda>_.
     bnd (clock env) (\<lambda>now.
     in_store (put_envelope (sha_json env) e (co_token co) now (Some approval_actor) correlation_id))))"

definition create_workstream :: "runtime_env \<Rightarrow> coordinator \<Rightarrow> string \<Rightarrow> string \<Rightarrow> actor_like \<Rightarrow> (world, unit) eff" where
  "create_workstream env co workstream_id project_id actor =
     bnd (clock env) (\<lambda>now.
     in_store (insert_values (New_Workstream \<lparr>ws_id = workstream_id, ws_project_id = project_id,
       ws_state = workstream_state_value WS_READY, ws_created_at = now, ws_updated_at = now\<rparr>)
       (co_token co) now actor ''WORKSTREAM_CREATED''))"

definition create_run :: "runtime_env \<Rightarrow> coordinator \<Rightarrow> string \<Rightarrow> string \<Rightarrow> string \<Rightarrow> string \<Rightarrow> int \<Rightarrow> actor_like \<Rightarrow>
    (world, unit) eff" where
  "create_run env co run_id workstream_id project_id env_id env_version actor =
     bnd (fetch RuntimeTransitionError (envelope env_id env_version)) (\<lambda>p.
     let e = pl_envelope p in
     bnd (req (approved e) RuntimeTransitionError) (\<lambda>_.
     bnd (req (\<not> env_project_id e \<noteq> project_id) RuntimeTransitionError) (\<lambda>_.
     bnd (req (\<not> (allowed_workstreams e \<noteq> [] \<and> workstream_id \<notin> set (allowed_workstreams e))) RuntimeAuthorizationError) (\<lambda>_.
     bnd (case deadline_at e of None \<Rightarrow> ret ()
          | Some deadline \<Rightarrow> bnd (clock env) (\<lambda>now. req (\<not> now \<ge> deadline) RuntimeAuthorizationError)) (\<lambda>_.
     bnd (require_row (get_workstream workstream_id)) (\<lambda>ws.
     bnd (req (\<not> ws_project_id ws \<noteq> project_id) RuntimeTransitionError) (\<lambda>_.
     bnd (clock env) (\<lambda>now.
     in_store (insert_values (New_Run \<lparr>rn_id = run_id, rn_workstream_id = workstream_id, rn_project_id = project_id,
       rn_envelope_id = env_id, rn_envelope_version = env_version, rn_state = run_state_value RUN_PENDING,
       rn_created_at = now, rn_updated_at = now\<rparr>) (co_token co) now actor ''RUN_CREATED'')))))))))"

definition create_project_job :: "runtime_env \<Rightarrow> coordinator \<Rightarrow> string \<Rightarrow> string \<Rightarrow> string \<Rightarrow> actor_like \<Rightarrow> (world, unit) eff" where
  "create_project_job env co project_job_id run_id purpose actor =
     bnd (req (\<not> blank purpose) ValueError) (\<lambda>_.
     bnd (require_row (get_run run_id)) (\<lambda>_.
     bnd (clock env) (\<lambda>now.
     in_store (insert_values (New_Job \<lparr>jb_id = project_job_id, jb_run_id = run_id, jb_state = job_state_value JOB_PENDING,
       jb_purpose = purpose, jb_created_at = now, jb_updated_at = now\<rparr>) (co_token co) now actor ''PROJECT_JOB_CREATED''))))"

definition create_attempt :: "runtime_env \<Rightarrow> coordinator \<Rightarrow> string \<Rightarrow> string \<Rightarrow> actor_like \<Rightarrow> (world, unit) eff" where
  "create_attempt env co attempt_id project_job_id actor =
     bnd (require_row (get_job project_job_id)) (\<lambda>job.
     bnd (query (snapshot_run (jb_run_id job))) (\<lambda>snap.
     bnd (lift snap) (\<lambda>snapshot.
     let current_attempts = filter (\<lambda>a. at_project_job_id a = project_job_id) (sn_attempts snapshot);
         run = sn_run snapshot in
     bnd (fetch AssertionError (envelope (rn_envelope_id run) (rn_envelope_version run))) (\<lambda>p.
     let ordinal = int (length current_attempts) + 1 in
     bnd (req (\<not> ordinal > max_attempts (pl_envelope p)) RuntimeTransitionError) (\<lambda>_.
     bnd (clock env) (\<lambda>now.
     in_store (insert_values (New_Attempt \<lparr>at_id = attempt_id, at_project_job_id = project_job_id, at_ordinal = ordinal,
       at_state = attempt_state_value ATT_PENDING, at_result_claim = None, at_reconciliation_outcome = None,
       at_created_at = now, at_updated_at = now\<rparr>) (co_token co) now actor ''ATTEMPT_CREATED'')))))))"

section \<open>Dispatch and evidence\<close>

record dispatch_request =
  rq_provider_id :: string
  rq_provider_role :: string
  rq_capabilities :: "string list"
  rq_filesystem :: "string list"
  rq_network :: "string list"
  rq_tools :: "string list"
  rq_credentials :: "string list"

text \<open>\<open>_require_subset\<close>\<close>

definition require_subset :: "string list \<Rightarrow> string list \<Rightarrow> (world, unit) eff" where
  "require_subset requested permitted = req (set requested \<subseteq> set permitted) RuntimeAuthorizationError"

text \<open>The dictionary of credential references: rebuilt, and a later entry replaces an earlier one.\<close>

definition credential_table :: "execution_envelope \<Rightarrow> credential_reference list res" where
  "credential_table e = rmap (\<lambda>c. rbind (credential_reference_check c) (\<lambda>_. Inr c)) (credential_references e)"

definition lookup_credential :: "credential_reference list \<Rightarrow> string \<Rightarrow> credential_reference option" where
  "lookup_credential cs i = find (\<lambda>c. reference_id c = i) (rev cs)"

definition credential_usable :: "credential_reference list \<Rightarrow> dispatch_request \<Rightarrow> string \<Rightarrow> int \<Rightarrow> string \<Rightarrow> bool" where
  "credential_usable cs q project now i = (case lookup_credential cs i of None \<Rightarrow> False
     | Some c \<Rightarrow> credential_permits c (rq_provider_id q) (rq_provider_role q) project now)"

definition authorize_attempt_dispatch :: "runtime_env \<Rightarrow> coordinator \<Rightarrow> string \<Rightarrow> dispatch_request \<Rightarrow> actor_principal \<Rightarrow>
    string option \<Rightarrow> (world, dispatch_authorization) eff" where
  "authorize_attempt_dispatch env co attempt_id q actor correlation_id =
     bnd (require_row (get_attempt attempt_id)) (\<lambda>attempt.
     bnd (req (\<not> at_state attempt \<noteq> attempt_state_value ATT_PENDING) RuntimeTransitionError) (\<lambda>_.
     bnd (require_row (get_job (at_project_job_id attempt))) (\<lambda>job.
     bnd (require_row (get_run (jb_run_id job))) (\<lambda>run.
     bnd (clock env) (\<lambda>now.
     bnd (lift (require actor ''runtime:dispatch'' (rn_project_id run) now)) (\<lambda>_.
     bnd (req (actor_type actor \<in> {AT_ARTIFEX_SERVICE, AT_AGENT, AT_AUTOMATION_SYSTEM_ACTOR}) RuntimeAuthorizationError) (\<lambda>_.
     bnd (fetch RuntimeTransitionError (envelope (rn_envelope_id run) (rn_envelope_version run))) (\<lambda>p.
     let e = pl_envelope p in
     bnd (req (rq_provider_id q \<in> set (allowed_providers e)) RuntimeAuthorizationError) (\<lambda>_.
     bnd (req (rq_provider_role q \<in> set (allowed_provider_roles e)) RuntimeAuthorizationError) (\<lambda>_.
     bnd (req (set (rq_capabilities q) \<subseteq> set (allowed_capabilities e)) RuntimeAuthorizationError) (\<lambda>_.
     bnd (require_subset (rq_filesystem q) (filesystem_permissions e)) (\<lambda>_.
     bnd (require_subset (rq_network q) (network_permissions e)) (\<lambda>_.
     bnd (require_subset (rq_tools q) (tool_permissions e)) (\<lambda>_.
     bnd (req (case deadline_at e of None \<Rightarrow> True | Some deadline \<Rightarrow> \<not> now \<ge> deadline) RuntimeAuthorizationError) (\<lambda>_.
     bnd (lift (credential_table e)) (\<lambda>references.
     bnd (req (list_all (credential_usable references q (rn_project_id run) now) (rq_credentials q)) RuntimeAuthorizationError) (\<lambda>_.
     bnd (uuid4 env) (\<lambda>u.
     let authorization = \<lparr>authorization_id = ''dispatch-'' @ u, dsp_attempt_id = attempt_id,
           dsp_provider_id = rq_provider_id q, provider_role = rq_provider_role q,
           requested_capabilities = rq_capabilities q, dsp_filesystem_permissions = rq_filesystem q,
           dsp_network_permissions = rq_network q, dsp_tool_permissions = rq_tools q,
           credential_reference_ids = rq_credentials q, dsp_envelope_fingerprint = pl_fingerprint p,
           dsp_actor_id = actor_id actor, authorized_at = now\<rparr> in
     bnd (in_store (record_dispatch_authorization authorization (co_token co) now (Principal actor) correlation_id)) (\<lambda>_.
     ret authorization)))))))))))))))))))"

definition coordinator_record_evidence :: "runtime_env \<Rightarrow> coordinator \<Rightarrow> evidence_record \<Rightarrow> actor_like \<Rightarrow> string option \<Rightarrow>
    (world, unit) eff" where
  "coordinator_record_evidence env co ev actor correlation_id =
     bnd (require_row (get_attempt (ev_attempt_id ev))) (\<lambda>attempt.
     bnd (req (\<not> at_project_job_id attempt \<noteq> ev_project_job_id ev) RuntimeTransitionError) (\<lambda>_.
     bnd (require_row (get_job (ev_project_job_id ev))) (\<lambda>job.
     bnd (require_row (get_run (jb_run_id job))) (\<lambda>run.
     bnd (fetch RuntimeTransitionError (envelope (rn_envelope_id run) (rn_envelope_version run))) (\<lambda>p.
     bnd (req (\<not> ev_envelope_fingerprint ev \<noteq> pl_fingerprint p) RuntimeTransitionError) (\<lambda>_.
     bnd (req (\<not> ev_baseline_revision ev \<noteq> baseline_revision (pl_envelope p)) RuntimeTransitionError) (\<lambda>_.
     let principal = as_principal actor in
     bnd (clock env) (\<lambda>now1.
     bnd (lift (require principal ''evidence:record'' (rn_project_id run) now1)) (\<lambda>_.
     bnd (req (\<not> actor_id principal \<noteq> ev_actor_id ev) RuntimeAuthorizationError) (\<lambda>_.
     bnd (clock env) (\<lambda>now.
     in_store (record_evidence ev (co_token co) now (Principal principal) correlation_id))))))))))))"

section \<open>Attempt lifecycle\<close>

definition start_attempt :: "runtime_env \<Rightarrow> coordinator \<Rightarrow> string \<Rightarrow> actor_like \<Rightarrow> (world, unit) eff" where
  "start_attempt env co attempt_id actor =
     bnd (require_row (get_attempt attempt_id)) (\<lambda>attempt.
     bnd (require_row (get_job (at_project_job_id attempt))) (\<lambda>job.
     bnd (require_row (get_run (jb_run_id job))) (\<lambda>run.
     bnd (require_row (get_workstream (rn_workstream_id run))) (\<lambda>workstream.
     bnd (fetch RuntimeTransitionError (envelope (rn_envelope_id run) (rn_envelope_version run))) (\<lambda>p.
     bnd (query (dispatch_authorization attempt_id)) (\<lambda>dispatch.
     bnd (req (\<not> (allowed_providers (pl_envelope p) \<noteq> [] \<and> dispatch = None)) RuntimeAuthorizationError) (\<lambda>_.
     bnd (clock env) (\<lambda>now.
     bnd (if ws_state workstream = workstream_state_value WS_READY
          then transition_single co ''workstreams'' ''workstream_id'' (ws_id workstream)
            (workstream_state_value WS_READY) (workstream_state_value WS_ACTIVE) actor now
          else ret ()) (\<lambda>_.
     bnd (if rn_state run = run_state_value RUN_PENDING
          then transition_single co ''runs'' ''run_id'' (rn_id run)
            (run_state_value RUN_PENDING) (run_state_value RUN_RUNNING) actor now
          else ret ()) (\<lambda>_.
     bnd (if jb_state job = job_state_value JOB_PENDING
          then transition_single co ''project_jobs'' ''project_job_id'' (jb_id job)
            (job_state_value JOB_PENDING) (job_state_value JOB_RUNNING) actor now
          else ret ()) (\<lambda>_.
     transition_single co ''attempts'' ''attempt_id'' attempt_id
       (attempt_state_value ATT_PENDING) (attempt_state_value ATT_RUNNING) actor now)))))))))))"

definition finish_attempt :: "runtime_env \<Rightarrow> coordinator \<Rightarrow> string \<Rightarrow> string \<Rightarrow> actor_like \<Rightarrow> string option \<Rightarrow> (world, unit) eff" where
  "finish_attempt env co attempt_id result_claim actor correlation_id =
     bnd (req (\<not> blank result_claim) ValueError) (\<lambda>_.
     let safe_claim = scrub_secrets result_claim in
     bnd (require_row (get_attempt attempt_id)) (\<lambda>attempt.
     bnd (clock env) (\<lambda>now.
     bnd (query (dispatch_authorization attempt_id)) (\<lambda>dispatch.
     bnd (case dispatch of None \<Rightarrow> ret () | Some dsp \<Rightarrow>
       bnd (require_row (get_job (at_project_job_id attempt))) (\<lambda>job.
       bnd (require_row (get_run (jb_run_id job))) (\<lambda>run.
       let principal = as_principal actor in
       bnd (lift (require principal ''result:submit'' (rn_project_id run) now)) (\<lambda>_.
       bnd (req (\<not> (is_principal actor \<and> actor_type principal \<notin> {AT_PROVIDER, AT_ARTIFEX_SERVICE}))
         RuntimeAuthorizationError) (\<lambda>_.
       in_store (record_event ''PROVIDER_RESULT_RECORDED'' ''attempts'' attempt_id
         [(''result_claim'', JStr safe_claim), (''provider_id'', JStr (dsp_provider_id dsp)),
          (''provider_role'', JStr (provider_role dsp)), (''envelope_fingerprint'', JStr (dsp_envelope_fingerprint dsp))]
         (co_token co) now (Principal principal) correlation_id)))))) (\<lambda>_.
     bnd (transition_changes co
       [mk_change ''attempts'' ''attempt_id'' attempt_id (attempt_state_value ATT_RUNNING)
          (attempt_state_value ATT_FINISHED) [(Result_Claim, safe_claim)],
        mk_change ''project_jobs'' ''project_job_id'' (at_project_job_id attempt) (job_state_value JOB_RUNNING)
          (job_state_value JOB_FINISHED) []] actor now) (\<lambda>_.
     in_store (record_event ''ATTEMPT_FINISHED'' ''attempts'' attempt_id
       [(''project_job_id'', JStr (at_project_job_id attempt)), (''result_claim'', JStr safe_claim)]
       (co_token co) now actor correlation_id)))))))"

definition terminal_jobs :: "string list" where
  "terminal_jobs = map job_state_value [JOB_ACCEPTED, JOB_REJECTED, JOB_REQUIRE_APPROVAL, JOB_PROMOTION_CONFLICT, JOB_CANCELLED]"

definition settle_run_for_job :: "runtime_env \<Rightarrow> coordinator \<Rightarrow> string \<Rightarrow> actor_like \<Rightarrow> (world, unit) eff" where
  "settle_run_for_job env co project_job_id actor =
     bnd (require_row (get_job project_job_id)) (\<lambda>job.
     bnd (require_row (get_run (jb_run_id job))) (\<lambda>run.
     if rn_state run \<noteq> run_state_value RUN_RUNNING then ret ()
     else
       bnd (query (snapshot_run (rn_id run))) (\<lambda>snap.
       bnd (lift snap) (\<lambda>snapshot.
       if sn_project_jobs snapshot = [] \<or> list_ex (\<lambda>j. jb_state j \<notin> set terminal_jobs) (sn_project_jobs snapshot) then ret ()
       else
         bnd (clock env) (\<lambda>now.
         bnd (require_row (get_workstream (rn_workstream_id run))) (\<lambda>workstream.
         transition_changes co
           (mk_change ''runs'' ''run_id'' (rn_id run) (run_state_value RUN_RUNNING) (run_state_value RUN_COMPLETED) [] #
            (if ws_state workstream = workstream_state_value WS_ACTIVE
             then [mk_change ''workstreams'' ''workstream_id'' (ws_id workstream) (workstream_state_value WS_ACTIVE)
                     (workstream_state_value WS_COMPLETE) []]
             else [])) actor now))))))"

definition cancel_attempt :: "runtime_env \<Rightarrow> coordinator \<Rightarrow> string \<Rightarrow> actor_like \<Rightarrow> (world, unit) eff" where
  "cancel_attempt env co attempt_id actor =
     bnd (require_row (get_attempt attempt_id)) (\<lambda>attempt.
     bnd (req (at_state attempt \<in> {attempt_state_value ATT_PENDING, attempt_state_value ATT_RUNNING}) RuntimeTransitionError) (\<lambda>_.
     bnd (require_row (get_job (at_project_job_id attempt))) (\<lambda>job.
     bnd (clock env) (\<lambda>now.
     bnd (transition_changes co
       [mk_change ''attempts'' ''attempt_id'' attempt_id (at_state attempt) (attempt_state_value ATT_CANCELLED) [],
        mk_change ''project_jobs'' ''project_job_id'' (jb_id job) (jb_state job) (job_state_value JOB_CANCELLED) []]
       actor now) (\<lambda>_.
     settle_run_for_job env co (jb_id job) actor)))))"

definition mark_unknown :: "runtime_env \<Rightarrow> coordinator \<Rightarrow> string \<Rightarrow> actor_like \<Rightarrow> (world, unit) eff" where
  "mark_unknown env co attempt_id actor =
     bnd (require_row (get_attempt attempt_id)) (\<lambda>attempt.
     bnd (require_row (get_job (at_project_job_id attempt))) (\<lambda>job.
     bnd (clock env) (\<lambda>now.
     transition_changes co
       [mk_change ''attempts'' ''attempt_id'' attempt_id (attempt_state_value ATT_RUNNING) (attempt_state_value ATT_UNKNOWN) [],
        mk_change ''project_jobs'' ''project_job_id'' (jb_id job) (job_state_value JOB_RUNNING) (job_state_value JOB_UNKNOWN) [],
        mk_change ''runs'' ''run_id'' (jb_run_id job) (run_state_value RUN_RUNNING)
          (run_state_value RUN_WAITING_RECONCILIATION) []] actor now)))"

definition begin_reconciliation :: "runtime_env \<Rightarrow> coordinator \<Rightarrow> string \<Rightarrow> actor_like \<Rightarrow> (world, unit) eff" where
  "begin_reconciliation env co attempt_id actor =
     bnd (clock env) (\<lambda>now.
     transition_single co ''attempts'' ''attempt_id'' attempt_id
       (attempt_state_value ATT_UNKNOWN) (attempt_state_value ATT_NEEDS_RECONCILIATION) actor now)"

definition reconcile_attempt :: "runtime_env \<Rightarrow> coordinator \<Rightarrow> string \<Rightarrow> reconciliation_outcome \<Rightarrow> actor_like \<Rightarrow>
    string option \<Rightarrow> (world, unit) eff" where
  "reconcile_attempt env co attempt_id result actor recovered_claim =
     bnd (require_row (get_attempt attempt_id)) (\<lambda>attempt.
     bnd (require_row (get_job (at_project_job_id attempt))) (\<lambda>job.
     bnd (clock env) (\<lambda>now.
     case result of
       STILL_UNKNOWN \<Rightarrow> raise RuntimeTransitionError
     | RECOVERED_FINISHED \<Rightarrow>
         bnd (req (recovered_claim \<noteq> None \<and> recovered_claim \<noteq> Some []) RuntimeTransitionError) (\<lambda>_.
         transition_changes co
           [mk_change ''attempts'' ''attempt_id'' attempt_id (attempt_state_value ATT_NEEDS_RECONCILIATION)
              (attempt_state_value ATT_FINISHED)
              [(Result_Claim, the recovered_claim), (Reconciliation_Outcome, reconciliation_outcome_value result)],
            mk_change ''project_jobs'' ''project_job_id'' (jb_id job) (job_state_value JOB_UNKNOWN) (job_state_value JOB_FINISHED) [],
            mk_change ''runs'' ''run_id'' (jb_run_id job) (run_state_value RUN_WAITING_RECONCILIATION)
              (run_state_value RUN_RUNNING) []] actor now)
     | SAFE_TO_RETRY \<Rightarrow>
         transition_changes co
           [mk_change ''attempts'' ''attempt_id'' attempt_id (attempt_state_value ATT_NEEDS_RECONCILIATION)
              (attempt_state_value ATT_RECONCILED_RETRYABLE) [(Reconciliation_Outcome, reconciliation_outcome_value result)],
            mk_change ''project_jobs'' ''project_job_id'' (jb_id job) (job_state_value JOB_UNKNOWN) (job_state_value JOB_RUNNING) [],
            mk_change ''runs'' ''run_id'' (jb_run_id job) (run_state_value RUN_WAITING_RECONCILIATION)
              (run_state_value RUN_RUNNING) []] actor now)))"

definition retry_attempt :: "runtime_env \<Rightarrow> coordinator \<Rightarrow> string \<Rightarrow> string \<Rightarrow> actor_like \<Rightarrow> (world, unit) eff" where
  "retry_attempt env co previous_attempt_id new_attempt_id actor =
     bnd (require_row (get_attempt previous_attempt_id)) (\<lambda>previous.
     bnd (req (\<not> (at_state previous \<noteq> attempt_state_value ATT_RECONCILED_RETRYABLE \<or>
       at_reconciliation_outcome previous \<noteq> Some (reconciliation_outcome_value SAFE_TO_RETRY))) RuntimeTransitionError) (\<lambda>_.
     create_attempt env co new_attempt_id (at_project_job_id previous) actor))"

definition snapshot :: "string \<Rightarrow> (world, run_snapshot) eff" where
  "snapshot run_id = bnd (query (snapshot_run run_id)) (\<lambda>s. lift s)"

end
