(* ===== verification/Acceptance.thy ===== *)
theory Acceptance
  imports Coordinator
begin

text \<open>
  Models \<open>src/artifex/runtime/acceptance.py\<close>: the Acceptance Authority, which interprets durable
  evidence and decides about finished ProjectJobs but never executes Attempts.
\<close>

section \<open>Evidence\<close>

definition authority_gates :: "string list" where
  "authority_gates = [''acceptance'', ''acceptance-authority'', ''project-authority'']"

definition required_evidence :: "execution_envelope \<Rightarrow> string list" where
  "required_evidence e = filter (\<lambda>g. casefold g \<notin> set authority_gates) (required_gates e)"

definition evidence_bound :: "string \<Rightarrow> string \<Rightarrow> env_payload \<Rightarrow> evidence_record \<Rightarrow> bool" where
  "evidence_bound project_job_id attempt_id p r =
     (\<not> (ev_project_job_id r \<noteq> project_job_id \<or> ev_attempt_id r \<noteq> attempt_id \<or>
         ev_envelope_fingerprint r \<noteq> pl_fingerprint p \<or>
         ev_baseline_revision r \<noteq> baseline_revision (pl_envelope p) \<or> \<not> passed r))"

definition validate_evidence :: "evidence_record list \<Rightarrow> string list \<Rightarrow> string \<Rightarrow> string \<Rightarrow> env_payload \<Rightarrow> bool" where
  "validate_evidence records requested_ids project_job_id attempt_id p =
     (if length records \<noteq> length requested_ids \<or> length (remdups requested_ids) \<noteq> length requested_ids then False
      else if list_ex (\<lambda>r. \<not> evidence_bound project_job_id attempt_id p r) records then False
      else set (required_evidence (pl_envelope p)) \<subseteq> set (map gate records))"

section \<open>Decisions\<close>

text \<open>\<open>max(attempts, key=ordinal)\<close>: the first of the Attempts with the greatest ordinal.\<close>

fun max_ordinal :: "attempt_row list \<Rightarrow> attempt_row option" where
  "max_ordinal [] = None"
| "max_ordinal (a # as) = (case max_ordinal as of None \<Rightarrow> Some a
     | Some b \<Rightarrow> if at_ordinal b > at_ordinal a then Some b else Some a)"

fun target_state :: "acceptance_outcome \<Rightarrow> job_state" where
  "target_state ACCEPT = JOB_ACCEPTED"
| "target_state REJECT = JOB_REJECTED"
| "target_state REWORK = JOB_REWORK"
| "target_state REQUIRE_APPROVAL = JOB_REQUIRE_APPROVAL"

definition decide :: "runtime_env \<Rightarrow> fence_token \<Rightarrow> string \<Rightarrow> acceptance_outcome \<Rightarrow> bool \<Rightarrow> actor_like \<Rightarrow> string \<Rightarrow>
    string list \<Rightarrow> string option \<Rightarrow> (world, acceptance_decision) eff" where
  "decide env t project_job_id result valid actor why ids correlation_id =
     (let principal = as_principal actor in
     bnd (req (\<not> blank why) ValueError) (\<lambda>_.
     let safe_reason = scrub_secrets why in
     bnd (fetch RuntimeTransitionError (get_job project_job_id)) (\<lambda>job.
     bnd (req (\<not> jb_state job \<noteq> job_state_value JOB_FINISHED) RuntimeTransitionError) (\<lambda>_.
     bnd (clock env) (\<lambda>now.
     bnd (fetch RuntimeTransitionError (get_run (jb_run_id job))) (\<lambda>run.
     bnd (req (\<not> (is_principal actor \<and>
       actor_type principal \<in> {AT_PROVIDER, AT_AUTOMATION_SYSTEM_ACTOR, AT_INTERACTION_CLIENT})) RuntimeAuthorizationError) (\<lambda>_.
     bnd (lift (require principal ''acceptance:decide'' (rn_project_id run) now)) (\<lambda>_.
     bnd (fetch RuntimeTransitionError (envelope (rn_envelope_id run) (rn_envelope_version run))) (\<lambda>p.
     bnd (query (snapshot_run (rn_id run))) (\<lambda>snap.
     bnd (lift snap) (\<lambda>snapshot.
     bnd (some_or RuntimeTransitionError
       (max_ordinal (filter (\<lambda>a. at_project_job_id a = project_job_id \<and> at_state a = ''FINISHED'') (sn_attempts snapshot)))) (\<lambda>attempt.
     bnd (query (dispatch_authorization (at_id attempt))) (\<lambda>dispatch.
     bnd (req (case dispatch of None \<Rightarrow> True | Some dsp \<Rightarrow> dsp_actor_id dsp \<noteq> actor_id principal) RuntimeAuthorizationError) (\<lambda>_.
     bnd (query (evidence ids)) (\<lambda>records.
     let durable_valid = validate_evidence records ids project_job_id (at_id attempt) p in
     bnd (req (\<not> (result = ACCEPT \<and> require_durable_evidence (pl_envelope p) \<and> \<not> durable_valid)) EvidenceBindingError) (\<lambda>_.
     bnd (req (\<not> (result = ACCEPT \<and> (\<not> valid \<or> ids \<noteq> [] \<and> \<not> durable_valid))) RuntimeTransitionError) (\<lambda>_.
     bnd (uuid4 env) (\<lambda>u.
     let decision = \<lparr>decision_id = ''decision-'' @ u, dec_project_job_id = project_job_id, outcome = result,
           evidence_valid = valid, dec_actor_id = actor_id principal, reason = safe_reason, decided_at = now,
           evidence_ids = ids, dec_envelope_fingerprint = Some (pl_fingerprint p)\<rparr> in
     bnd (in_store (record_acceptance decision t now (job_state_value (target_state result)) (Some (Principal principal)) correlation_id)) (\<lambda>_.
     ret decision)))))))))))))))))))"

end
