(* ===== verification/Governance.thy ===== *)
theory Governance
  imports Acceptance
begin

text \<open>
  Models \<open>src/artifex/runtime/governance.py\<close>: reconnectable interaction sessions, material decision
  requests that block the Workstreams they affect, and operational controls by scope.

  The managers share the store and the coordinator; their methods take the coordinator (for its
  token) as an argument. \<open>ProjectAuthority(root).current()\<close> is the argument \<open>current\<close> of
  the one operation that calls it.
\<close>

section \<open>Enumerations\<close>

datatype interaction_state = IS_ACTIVE | IS_DISCONNECTED | IS_CLOSED

fun interaction_state_value :: "interaction_state \<Rightarrow> string" where
  "interaction_state_value IS_ACTIVE = ''ACTIVE''"
| "interaction_state_value IS_DISCONNECTED = ''DISCONNECTED''"
| "interaction_state_value IS_CLOSED = ''CLOSED''"

datatype decision_outcome = DO_APPROVE | DO_REJECT | DO_REWORK

fun decision_outcome_value :: "decision_outcome \<Rightarrow> string" where
  "decision_outcome_value DO_APPROVE = ''APPROVE''"
| "decision_outcome_value DO_REJECT = ''REJECT''"
| "decision_outcome_value DO_REWORK = ''REWORK''"

datatype control_state = OC_RUNNING | OC_DRAINING | OC_PAUSED | OC_EMERGENCY_STOP

fun control_state_value :: "control_state \<Rightarrow> string" where
  "control_state_value OC_RUNNING = ''RUNNING''"
| "control_state_value OC_DRAINING = ''DRAINING''"
| "control_state_value OC_PAUSED = ''PAUSED''"
| "control_state_value OC_EMERGENCY_STOP = ''EMERGENCY_STOP''"

datatype control_scope = SC_PLATFORM | SC_PROJECT | SC_WORKSTREAM | SC_RUN | SC_PROJECT_JOB | SC_PROVIDER

fun control_scope_value :: "control_scope \<Rightarrow> string" where
  "control_scope_value SC_PLATFORM = ''PLATFORM''"
| "control_scope_value SC_PROJECT = ''PROJECT''"
| "control_scope_value SC_WORKSTREAM = ''WORKSTREAM''"
| "control_scope_value SC_RUN = ''RUN''"
| "control_scope_value SC_PROJECT_JOB = ''PROJECT_JOB''"
| "control_scope_value SC_PROVIDER = ''PROVIDER''"

definition to_interaction_state :: "string \<Rightarrow> interaction_state res" where
  "to_interaction_state = member_of interaction_state_value [IS_ACTIVE, IS_DISCONNECTED, IS_CLOSED]"

definition to_actor_type :: "string \<Rightarrow> actor_type res" where
  "to_actor_type = member_of actor_type_value
     [AT_USER, AT_ARTIFEX_SERVICE, AT_INTERACTION_CLIENT, AT_PROVIDER, AT_AGENT, AT_AUTOMATION_SYSTEM_ACTOR]"

definition to_control_state :: "string \<Rightarrow> control_state res" where
  "to_control_state = member_of control_state_value [OC_RUNNING, OC_DRAINING, OC_PAUSED, OC_EMERGENCY_STOP]"

definition to_workstream_state :: "string \<Rightarrow> workstream_state res" where
  "to_workstream_state = member_of workstream_state_value [WS_READY, WS_ACTIVE, WS_BLOCKED, WS_COMPLETE, WS_CANCELLED]"

definition to_attempt_state :: "string \<Rightarrow> attempt_state res" where
  "to_attempt_state = member_of attempt_state_value
     [ATT_PENDING, ATT_RUNNING, ATT_FINISHED, ATT_FAILED, ATT_CANCELLED, ATT_UNKNOWN, ATT_NEEDS_RECONCILIATION,
      ATT_RECONCILED_RETRYABLE]"

section \<open>Interaction sessions\<close>

record session =
  sx_session_id :: string
  sx_project_id :: string
  sx_actor_id :: string
  sx_actor_type :: actor_type
  sx_delegated_actions :: "string list"
  sx_opened_revision :: int
  sx_last_seen_revision :: int
  sx_state :: interaction_state
  sx_workstream_id :: "string option"
  sx_run_id :: "string option"
  sx_delegation_id :: "string option"

definition session_from_row :: "session_row \<Rightarrow> session res" where
  "session_from_row r =
     rbind (to_actor_type (ss_actor_type r)) (\<lambda>ty.
     rbind (to_interaction_state (ss_state r)) (\<lambda>st.
     Inr \<lparr>sx_session_id = ss_id r, sx_project_id = ss_project_id r, sx_actor_id = ss_actor_id r, sx_actor_type = ty,
       sx_delegated_actions = ss_delegated_actions r, sx_opened_revision = ss_opened_revision r,
       sx_last_seen_revision = ss_last_seen_revision r, sx_state = st, sx_workstream_id = ss_workstream_id r,
       sx_run_id = ss_run_id r, sx_delegation_id = ss_delegation_id r\<rparr>))"

definition session_to_dict :: "session \<Rightarrow> json" where
  "session_to_dict s = JObj
     [(''session_id'', JStr (sx_session_id s)), (''project_id'', JStr (sx_project_id s)), (''actor_id'', JStr (sx_actor_id s)),
      (''actor_type'', JStr (actor_type_value (sx_actor_type s))), (''delegated_actions'', jstrs (sx_delegated_actions s)),
      (''opened_revision'', JInt (sx_opened_revision s)), (''last_seen_revision'', JInt (sx_last_seen_revision s)),
      (''state'', JStr (interaction_state_value (sx_state s))), (''workstream_id'', jopt JStr (sx_workstream_id s)),
      (''run_id'', jopt JStr (sx_run_id s)), (''delegation_id'', jopt JStr (sx_delegation_id s))]"

definition session_require :: "string \<Rightarrow> (world, session) eff" where
  "session_require i = bnd (fetch KeyError (interaction_session i)) (\<lambda>r. lift (session_from_row r))"

text \<open>The Project revision that \<open>ProjectAuthority(root).current()\<close> returns.\<close>

record project_revision =
  pv_project_id :: string
  pv_number :: int
  pv_fingerprint :: string

definition open_session :: "runtime_env \<Rightarrow> coordinator \<Rightarrow> (string \<Rightarrow> project_revision res) \<Rightarrow> string \<Rightarrow> actor_principal \<Rightarrow>
    string option \<Rightarrow> string option \<Rightarrow> string option \<Rightarrow> (world, session \<times> string) eff" where
  "open_session env co current project_root actor workstream run session_id =
     bnd (lift (current project_root)) (\<lambda>revision.
     bnd (clock env) (\<lambda>now1.
     bnd (lift (require actor ''interaction:connect'' (pv_project_id revision) now1)) (\<lambda>_.
     bnd (req (actor_type actor = AT_INTERACTION_CLIENT) RuntimeAuthorizationError) (\<lambda>_.
     bnd (case run of None \<Rightarrow> ret () | Some run_id \<Rightarrow>
       bnd (fetch ValueError (get_run run_id)) (\<lambda>r.
       bnd (req (\<not> rn_project_id r \<noteq> pv_project_id revision) ValueError) (\<lambda>_.
       req (case workstream of None \<Rightarrow> True | Some i \<Rightarrow> \<not> rn_workstream_id r \<noteq> i) ValueError))) (\<lambda>_.
     bnd (case workstream of None \<Rightarrow> ret () | Some i \<Rightarrow>
       bnd (fetch ValueError (get_workstream i)) (\<lambda>r.
       req (\<not> ws_project_id r \<noteq> pv_project_id revision) ValueError)) (\<lambda>_.
     bnd (if session_id \<noteq> None \<and> session_id \<noteq> Some [] then ret (the session_id)
          else bnd (uuid4 env) (\<lambda>u. ret (''session-'' @ u))) (\<lambda>identifier.
     bnd (token_urlsafe env) (\<lambda>reconnect_token.
     bnd (clock env) (\<lambda>now.
     bnd (in_store (create_interaction_session
       \<lparr>ss_id = identifier, ss_project_id = pv_project_id revision, ss_workstream_id = workstream, ss_run_id = run,
        ss_actor_id = actor_id actor, ss_actor_type = actor_type_value (actor_type actor),
        ss_delegation_id = map_option grant_id (delegation actor),
        ss_delegated_actions = (case delegation actor of None \<Rightarrow> direct_permissions actor | Some g \<Rightarrow> allowed_actions g),
        ss_opened_revision = pv_number revision, ss_last_seen_revision = pv_number revision,
        ss_state = interaction_state_value IS_ACTIVE, ss_reconnect_token_hash = sha_text env reconnect_token,
        ss_created_at = now, ss_updated_at = now\<rparr> (co_token co) now (Principal actor))) (\<lambda>_.
     bnd (session_require identifier) (\<lambda>s.
     ret (s, reconnect_token))))))))))))"

definition require_active :: "runtime_env \<Rightarrow> string \<Rightarrow> actor_principal \<Rightarrow> (world, session) eff" where
  "require_active env i actor =
     bnd (session_require i) (\<lambda>s.
     bnd (req (sx_state s = IS_ACTIVE) RuntimeTransitionError) (\<lambda>_.
     bnd (req (\<not> (actor_id actor \<noteq> sx_actor_id s \<or> actor_type actor \<noteq> sx_actor_type s)) RuntimeAuthorizationError) (\<lambda>_.
     bnd (clock env) (\<lambda>now.
     bnd (lift (require actor ''interaction:write'' (sx_project_id s) now)) (\<lambda>_.
     ret s)))))"

definition session_transition :: "runtime_env \<Rightarrow> coordinator \<Rightarrow> session \<Rightarrow> interaction_state \<Rightarrow> actor_principal \<Rightarrow> string \<Rightarrow>
    (world, unit) eff" where
  "session_transition env co s target actor event =
     bnd (clock env) (\<lambda>now.
     in_store (update_interaction_session (sx_session_id s) (interaction_state_value (sx_state s))
       (interaction_state_value target) (sx_last_seen_revision s) (co_token co) now (Principal actor) event))"

definition disconnect :: "runtime_env \<Rightarrow> coordinator \<Rightarrow> string \<Rightarrow> actor_principal \<Rightarrow> (world, session) eff" where
  "disconnect env co i actor =
     bnd (require_active env i actor) (\<lambda>s.
     bnd (session_transition env co s IS_DISCONNECTED actor ''INTERACTION_DISCONNECTED'') (\<lambda>_.
     session_require i))"

definition reconnect :: "runtime_env \<Rightarrow> coordinator \<Rightarrow> string \<Rightarrow> string \<Rightarrow> actor_principal \<Rightarrow> (world, session) eff" where
  "reconnect env co i reconnect_token actor =
     bnd (session_require i) (\<lambda>s.
     bnd (req (sx_state s = IS_DISCONNECTED) RuntimeTransitionError) (\<lambda>_.
     bnd (req (\<not> (actor_id actor \<noteq> sx_actor_id s \<or> actor_type actor \<noteq> sx_actor_type s)) RuntimeAuthorizationError) (\<lambda>_.
     bnd (fetch AssertionError (interaction_session i)) (\<lambda>r.
     bnd (req (ss_reconnect_token_hash r = sha_text env reconnect_token) RuntimeAuthorizationError) (\<lambda>_.
     bnd (clock env) (\<lambda>now.
     bnd (lift (require actor ''interaction:connect'' (sx_project_id s) now)) (\<lambda>_.
     bnd (session_transition env co s IS_ACTIVE actor ''INTERACTION_RECONNECTED'') (\<lambda>_.
     session_require i))))))))"

definition close_session :: "runtime_env \<Rightarrow> coordinator \<Rightarrow> string \<Rightarrow> actor_principal \<Rightarrow> (world, session) eff" where
  "close_session env co i actor =
     bnd (session_require i) (\<lambda>s.
     if sx_state s = IS_CLOSED then ret s
     else
       bnd (req (\<not> actor_id actor \<noteq> sx_actor_id s) RuntimeAuthorizationError) (\<lambda>_.
       bnd (clock env) (\<lambda>now.
       bnd (lift (require actor ''interaction:connect'' (sx_project_id s) now)) (\<lambda>_.
       bnd (session_transition env co s IS_CLOSED actor ''INTERACTION_CLOSED'') (\<lambda>_.
       session_require i)))))"

definition record_revision :: "runtime_env \<Rightarrow> coordinator \<Rightarrow> string \<Rightarrow> int \<Rightarrow> actor_principal \<Rightarrow> (world, session) eff" where
  "record_revision env co i revision actor =
     bnd (require_active env i actor) (\<lambda>_.
     bnd (clock env) (\<lambda>now.
     bnd (in_store (update_interaction_session i (interaction_state_value IS_ACTIVE) (interaction_state_value IS_ACTIVE)
       revision (co_token co) now (Principal actor) ''INTERACTION_REVISION_OBSERVED'')) (\<lambda>_.
     session_require i)))"

definition list_sessions :: "string \<Rightarrow> (world, session list) eff" where
  "list_sessions project_id = bnd (query (sessions_of_project project_id)) (\<lambda>rows. lift (rmap session_from_row rows))"

section \<open>Material decisions\<close>

fun collect_states :: "string \<Rightarrow> string list \<Rightarrow> (world, (string \<times> string) list) eff" where
  "collect_states project_id [] = ret []"
| "collect_states project_id (i # is) =
     bnd (fetch ValueError (get_workstream i)) (\<lambda>r.
     bnd (req (\<not> ws_project_id r \<noteq> project_id) ValueError) (\<lambda>_.
     bnd (lift (to_workstream_state (ws_state r))) (\<lambda>st.
     bnd (req (st \<in> {WS_READY, WS_ACTIVE}) RuntimeTransitionError) (\<lambda>_.
     bnd (collect_states project_id is) (\<lambda>rest.
     ret ((i, workstream_state_value st) # rest))))))"

definition create_decision :: "runtime_env \<Rightarrow> coordinator \<Rightarrow> string \<Rightarrow> string \<Rightarrow> string list \<Rightarrow> actor_principal \<Rightarrow>
    string option \<Rightarrow> string option \<Rightarrow> materiality \<Rightarrow> (world, request_row) eff" where
  "create_decision env co project_id question affected actor run request_id mat =
     bnd (clock env) (\<lambda>now1.
     bnd (lift (require actor ''governance:request-decision'' project_id now1)) (\<lambda>_.
     bnd (req (mat = STRATEGIC_MATERIAL) ValueError) (\<lambda>_.
     bnd (req (\<not> (blank question \<or> affected = [])) ValueError) (\<lambda>_.
     bnd (req (distinct affected) ValueError) (\<lambda>_.
     bnd (case run of None \<Rightarrow> ret () | Some run_id \<Rightarrow>
       bnd (fetch ValueError (get_run run_id)) (\<lambda>r. req (\<not> rn_project_id r \<noteq> project_id) ValueError)) (\<lambda>_.
     bnd (collect_states project_id affected) (\<lambda>states.
     bnd (if request_id \<noteq> None \<and> request_id \<noteq> Some [] then ret (the request_id)
          else bnd (uuid4 env) (\<lambda>u. ret (''decision-'' @ u))) (\<lambda>identifier.
     bnd (clock env) (\<lambda>now.
     bnd (in_store (create_decision_request
       \<lparr>dr_id = identifier, dr_project_id = project_id, dr_run_id = run, dr_requested_by = actor_id actor,
        dr_materiality = materiality_value mat, dr_question = question,
        dr_affected_workstreams = sort (map fst states), dr_blocked_from_states = sort_key fst states,
        dr_state = ''OPEN'', dr_outcome = None, dr_resolution = None, dr_resolved_by = None, dr_created_at = now,
        dr_resolved_at = None\<rparr> (co_token co) now (Principal actor))) (\<lambda>_.
     fetch AssertionError (decision_request identifier)))))))))))"

definition resolve_decision :: "runtime_env \<Rightarrow> coordinator \<Rightarrow> string \<Rightarrow> decision_outcome \<Rightarrow> string \<Rightarrow> actor_principal \<Rightarrow>
    (world, request_row) eff" where
  "resolve_decision env co i result resolution actor =
     bnd (fetch KeyError (decision_request i)) (\<lambda>r.
     bnd (clock env) (\<lambda>now1.
     bnd (lift (require actor ''governance:resolve-decision'' (dr_project_id r) now1)) (\<lambda>_.
     bnd (req (actor_type actor = AT_USER) RuntimeAuthorizationError) (\<lambda>_.
     bnd (req (\<not> blank resolution) ValueError) (\<lambda>_.
     bnd (clock env) (\<lambda>now.
     bnd (in_store (resolve_decision_request i (decision_outcome_value result) resolution (result = DO_APPROVE)
       (co_token co) now (Principal actor))) (\<lambda>_.
     fetch AssertionError (decision_request i))))))))"

definition assert_project_job_unblocked :: "string \<Rightarrow> (world, unit) eff" where
  "assert_project_job_unblocked project_job_id =
     bnd (fetch KeyError (get_job project_job_id)) (\<lambda>job.
     bnd (fetch AssertionError (get_run (jb_run_id job))) (\<lambda>run.
     bnd (fetch AssertionError (get_workstream (rn_workstream_id run))) (\<lambda>ws.
     req (\<not> ws_state ws = workstream_state_value WS_BLOCKED) RuntimeAuthorizationError)))"

section \<open>Operational controls\<close>

fun rank :: "control_state \<Rightarrow> nat" where
  "rank OC_RUNNING = 0"
| "rank OC_DRAINING = 1"
| "rank OC_PAUSED = 2"
| "rank OC_EMERGENCY_STOP = 3"

definition validate_project_scope :: "control_scope \<Rightarrow> string \<Rightarrow> string \<Rightarrow> (world, unit) eff" where
  "validate_project_scope scope scope_id project_id =
     (case scope of
       SC_PROJECT \<Rightarrow> req (\<not> scope_id \<noteq> project_id) ValueError
     | SC_WORKSTREAM \<Rightarrow>
         bnd (fetch ValueError (get_workstream scope_id)) (\<lambda>r. req (\<not> ws_project_id r \<noteq> project_id) ValueError)
     | SC_RUN \<Rightarrow>
         bnd (fetch ValueError (get_run scope_id)) (\<lambda>r. req (\<not> rn_project_id r \<noteq> project_id) ValueError)
     | SC_PROJECT_JOB \<Rightarrow>
         bnd (fetch ValueError (get_job scope_id)) (\<lambda>job.
         bnd (fetch ValueError (get_run (jb_run_id job))) (\<lambda>r. req (\<not> rn_project_id r \<noteq> project_id) ValueError))
     | _ \<Rightarrow> raise ValueError)"

definition set_control :: "runtime_env \<Rightarrow> coordinator \<Rightarrow> control_scope \<Rightarrow> string \<Rightarrow> string option \<Rightarrow> control_state \<Rightarrow> string \<Rightarrow>
    actor_principal \<Rightarrow> bool \<Rightarrow> (world, control_row) eff" where
  "set_control env co scope scope_id project st why actor reconciled =
     bnd (req (\<not> (blank scope_id \<or> blank why)) ValueError) (\<lambda>_.
     let authority_project = (case project of None \<Rightarrow> ''*'' | Some p \<Rightarrow> if p = [] then ''*'' else p) in
     bnd (clock env) (\<lambda>now1.
     bnd (lift (require actor ''control:operate'' authority_project now1)) (\<lambda>_.
     bnd (req (actor_type actor \<in> {AT_USER, AT_ARTIFEX_SERVICE}) RuntimeAuthorizationError) (\<lambda>_.
     bnd (if scope = SC_PLATFORM then req (\<not> (scope_id \<noteq> ''global'' \<or> project \<noteq> None)) ValueError
          else if scope = SC_PROVIDER then req (\<not> project \<noteq> None) ValueError
          else (case project of None \<Rightarrow> raise ValueError | Some p \<Rightarrow> validate_project_scope scope scope_id p)) (\<lambda>_.
     bnd (query (operational_control (control_scope_value scope) scope_id)) (\<lambda>cur.
     bnd (case cur of None \<Rightarrow> ret OC_RUNNING | Some r \<Rightarrow> lift (to_control_state (oc_state r))) (\<lambda>previous.
     bnd (req (\<not> (previous = OC_EMERGENCY_STOP \<and> st \<noteq> previous \<and> \<not> reconciled)) RuntimeTransitionError) (\<lambda>_.
     bnd (clock env) (\<lambda>now.
     bnd (in_store (set_operational_control (control_scope_value scope) scope_id project (control_state_value st) why
       (case cur of None \<Rightarrow> 1 | Some r \<Rightarrow> oc_generation r + 1) (co_token co) now (Principal actor))) (\<lambda>_.
     fetch AssertionError (operational_control (control_scope_value scope) scope_id)))))))))))"

text \<open>\<open>max(states, key=rank, default=RUNNING)\<close>\<close>

fun max_rank :: "control_state list \<Rightarrow> control_state" where
  "max_rank [] = OC_RUNNING"
| "max_rank [s] = s"
| "max_rank (s # ss) = (let m = max_rank ss in if rank m > rank s then m else s)"

definition control_keys :: "run_row \<Rightarrow> job_row \<Rightarrow> string option \<Rightarrow> (string \<times> string) list" where
  "control_keys run job provider =
     [(control_scope_value SC_PLATFORM, ''global''), (control_scope_value SC_PROJECT, rn_project_id run),
      (control_scope_value SC_WORKSTREAM, rn_workstream_id run), (control_scope_value SC_RUN, rn_id run),
      (control_scope_value SC_PROJECT_JOB, jb_id job)] @
     (case provider of None \<Rightarrow> [] | Some p \<Rightarrow> [(control_scope_value SC_PROVIDER, p)])"

definition effective_for_attempt :: "string \<Rightarrow> string option \<Rightarrow> (world, control_state \<times> control_row list) eff" where
  "effective_for_attempt attempt_id provider =
     bnd (fetch KeyError (get_attempt attempt_id)) (\<lambda>attempt.
     bnd (fetch AssertionError (get_job (at_project_job_id attempt))) (\<lambda>job.
     bnd (fetch AssertionError (get_run (jb_run_id job))) (\<lambda>run.
     bnd (fetch AssertionError (get_workstream (rn_workstream_id run))) (\<lambda>ws.
     bnd (req (\<not> ws_state ws = workstream_state_value WS_BLOCKED) RuntimeAuthorizationError) (\<lambda>_.
     bnd (query (\<lambda>d. List.map_filter (\<lambda>(s, i). operational_control s i d) (control_keys run job provider))) (\<lambda>controls.
     bnd (lift (rmap (\<lambda>c. to_control_state (oc_state c)) controls)) (\<lambda>states.
     ret (max_rank states, controls))))))))"

definition assert_dispatch_allowed :: "string \<Rightarrow> string option \<Rightarrow> (world, unit) eff" where
  "assert_dispatch_allowed attempt_id provider =
     bnd (effective_for_attempt attempt_id provider) (\<lambda>(st, _).
     req (st = OC_RUNNING) RuntimeAuthorizationError)"

definition emergency_attempt :: "runtime_env \<Rightarrow> coordinator \<Rightarrow> string \<Rightarrow> bool \<Rightarrow> actor_principal \<Rightarrow> (world, attempt_state \<times> bool) eff" where
  "emergency_attempt env co attempt_id termination_confirmed actor =
     bnd (fetch KeyError (get_attempt attempt_id)) (\<lambda>attempt.
     bnd (lift (to_attempt_state (at_state attempt))) (\<lambda>st.
     bnd (req (st = ATT_RUNNING) RuntimeTransitionError) (\<lambda>_.
     if termination_confirmed then
       bnd (cancel_attempt env co attempt_id (Principal actor)) (\<lambda>_. ret (ATT_CANCELLED, True))
     else
       bnd (mark_unknown env co attempt_id (Principal actor)) (\<lambda>_.
       bnd (begin_reconciliation env co attempt_id (Principal actor)) (\<lambda>_.
       ret (ATT_NEEDS_RECONCILIATION, False))))))"

end
