(* ===== verification/Managed_Service.thy ===== *)
theory Managed_Service
  imports Governance
begin

text \<open>
  Models \<open>src/artifex/runtime/service.py\<close>: the managed service that composes the store, the
  coordinator, the Acceptance Authority and the governance managers. The acceptance authority shares the token
  the coordinator had when the service was built.
\<close>

record service =
  sv_coordinator :: coordinator
  sv_acceptance_token :: fence_token

definition service_init :: "runtime_env \<Rightarrow> string \<Rightarrow> int \<Rightarrow> (world, service) eff" where
  "service_init env service_id lease_seconds =
     bnd (coordinator_init env service_id lease_seconds) (\<lambda>co.
     ret \<lparr>sv_coordinator = co, sv_acceptance_token = co_token co\<rparr>)"

definition bootstrap_run :: "runtime_env \<Rightarrow> service \<Rightarrow> execution_envelope \<Rightarrow> string \<Rightarrow> string \<Rightarrow> string \<Rightarrow> string \<Rightarrow> string \<Rightarrow>
    actor_like \<Rightarrow> actor_principal option \<Rightarrow> string option \<Rightarrow> (world, run_snapshot) eff" where
  "bootstrap_run env sv e workstream_id run_id project_job_id attempt_id purpose actor approval_actor correlation_id =
     (let co = sv_coordinator sv in
     bnd (req (\<not> (allowed_providers e \<noteq> [] \<and> approval_actor = None)) ValueError) (\<lambda>_.
     bnd (approve_envelope env co e (map_option Principal approval_actor) correlation_id) (\<lambda>_.
     bnd (create_workstream env co workstream_id (env_project_id e) actor) (\<lambda>_.
     bnd (create_run env co run_id workstream_id (env_project_id e) (envelope_id e) (version e) actor) (\<lambda>_.
     bnd (create_project_job env co project_job_id run_id purpose actor) (\<lambda>_.
     bnd (create_attempt env co attempt_id project_job_id actor) (\<lambda>_.
     bnd (if allowed_providers e = []
          then bnd (assert_dispatch_allowed attempt_id None) (\<lambda>_. start_attempt env co attempt_id actor)
          else ret ()) (\<lambda>_.
     snapshot run_id))))))))"

definition authorize_dispatch :: "runtime_env \<Rightarrow> service \<Rightarrow> string \<Rightarrow> dispatch_request \<Rightarrow> actor_principal \<Rightarrow> string option \<Rightarrow>
    (world, dispatch_authorization) eff" where
  "authorize_dispatch env sv attempt_id q actor correlation_id =
     bnd (assert_dispatch_allowed attempt_id (Some (rq_provider_id q))) (\<lambda>_.
     bnd (authorize_attempt_dispatch env (sv_coordinator sv) attempt_id q actor correlation_id) (\<lambda>authorization.
     bnd (start_attempt env (sv_coordinator sv) attempt_id (Principal actor)) (\<lambda>_.
     ret authorization)))"

definition authorize_approved_run :: "runtime_env \<Rightarrow> service \<Rightarrow> string \<Rightarrow> int \<Rightarrow> string \<Rightarrow> string \<Rightarrow> string \<Rightarrow> string \<Rightarrow> string \<Rightarrow>
    actor_like \<Rightarrow> (world, run_snapshot) eff" where
  "authorize_approved_run env sv env_id env_version workstream_id run_id project_job_id attempt_id purpose actor =
     (let co = sv_coordinator sv in
     bnd (fetch ValueError (envelope env_id env_version)) (\<lambda>p.
     bnd (req (approved (pl_envelope p)) ValueError) (\<lambda>_.
     let project_id = env_project_id (pl_envelope p); principal = as_principal actor in
     bnd (clock env) (\<lambda>now.
     bnd (lift (require principal ''run:authorize'' project_id now)) (\<lambda>_.
     bnd (req (\<not> (is_principal actor \<and> actor_type principal \<in> {AT_INTERACTION_CLIENT, AT_PROVIDER, AT_AGENT}))
       RuntimeAuthorizationError) (\<lambda>_.
     bnd (create_workstream env co workstream_id project_id actor) (\<lambda>_.
     bnd (create_run env co run_id workstream_id project_id env_id env_version actor) (\<lambda>_.
     bnd (create_project_job env co project_job_id run_id purpose actor) (\<lambda>_.
     bnd (create_attempt env co attempt_id project_job_id actor) (\<lambda>_.
     snapshot run_id))))))))))"

text \<open>
  \<open>coordinator_heartbeat\<close>: the renewals of the worker thread, for the number of intervals that pass
  before the guarded call ends; the first failure stops it and is raised when the block is left.
\<close>

fun heartbeat :: "runtime_env \<Rightarrow> nat \<Rightarrow> coordinator \<Rightarrow> (world, coordinator) eff" where
  "heartbeat env 0 co = ret co"
| "heartbeat env (Suc n) co = bnd (renew env co) (\<lambda>co'. heartbeat env n co')"

definition service_record_evidence :: "runtime_env \<Rightarrow> service \<Rightarrow> evidence_record \<Rightarrow> actor_like \<Rightarrow> string option \<Rightarrow> (world, unit) eff" where
  "service_record_evidence env sv ev actor correlation_id =
     coordinator_record_evidence env (sv_coordinator sv) ev actor correlation_id"

definition service_finish :: "runtime_env \<Rightarrow> service \<Rightarrow> string \<Rightarrow> string \<Rightarrow> actor_like \<Rightarrow> string option \<Rightarrow> (world, unit) eff" where
  "service_finish env sv attempt_id result_claim actor correlation_id =
     finish_attempt env (sv_coordinator sv) attempt_id result_claim actor correlation_id"

definition service_cancel :: "runtime_env \<Rightarrow> service \<Rightarrow> string \<Rightarrow> actor_like \<Rightarrow> (world, unit) eff" where
  "service_cancel env sv attempt_id actor = cancel_attempt env (sv_coordinator sv) attempt_id actor"

definition service_accept :: "runtime_env \<Rightarrow> service \<Rightarrow> string \<Rightarrow> bool \<Rightarrow> actor_like \<Rightarrow> string \<Rightarrow> string list \<Rightarrow> string option \<Rightarrow>
    (world, acceptance_decision) eff" where
  "service_accept env sv project_job_id valid actor why ids correlation_id =
     bnd (assert_project_job_unblocked project_job_id) (\<lambda>_.
     bnd (decide env (sv_acceptance_token sv) project_job_id ACCEPT valid actor why ids correlation_id) (\<lambda>decision.
     bnd (settle_run_for_job env (sv_coordinator sv) project_job_id actor) (\<lambda>_.
     ret decision)))"

definition service_mark_unknown :: "runtime_env \<Rightarrow> service \<Rightarrow> string \<Rightarrow> actor_like \<Rightarrow> (world, unit) eff" where
  "service_mark_unknown env sv attempt_id actor = mark_unknown env (sv_coordinator sv) attempt_id actor"

definition service_begin_reconciliation :: "runtime_env \<Rightarrow> service \<Rightarrow> string \<Rightarrow> actor_like \<Rightarrow> (world, unit) eff" where
  "service_begin_reconciliation env sv attempt_id actor = begin_reconciliation env (sv_coordinator sv) attempt_id actor"

definition service_reconcile :: "runtime_env \<Rightarrow> service \<Rightarrow> string \<Rightarrow> reconciliation_outcome \<Rightarrow> actor_like \<Rightarrow> string option \<Rightarrow>
    (world, unit) eff" where
  "service_reconcile env sv attempt_id result actor recovered_claim =
     reconcile_attempt env (sv_coordinator sv) attempt_id result actor recovered_claim"

text \<open>\<open>AcceptanceOutcome(text)\<close>\<close>

definition to_acceptance_outcome :: "string \<Rightarrow> acceptance_outcome res" where
  "to_acceptance_outcome = member_of acceptance_outcome_value [ACCEPT, REJECT, REWORK, REQUIRE_APPROVAL]"

text \<open>
  The decision that \<open>promote_accepted_workspace\<close> rebuilds from the stored row and hands to the
  workspace manager. The evidence identifiers are the elements of the stored text, which are its characters.
\<close>

definition stored_decision :: "string \<Rightarrow> (world, acceptance_decision) eff" where
  "stored_decision project_job_id =
     bnd (fetch ValueError (acceptance project_job_id)) (\<lambda>v.
     bnd (lift (to_acceptance_outcome (ac_outcome v))) (\<lambda>result.
     ret \<lparr>decision_id = ac_decision_id v, dec_project_job_id = ac_project_job_id v, outcome = result,
        evidence_valid = ac_evidence_valid v, dec_actor_id = ac_actor_id v, reason = ac_reason v,
        decided_at = ac_decided_at v, evidence_ids = map (\<lambda>c. [c]) (ac_evidence_ids v),
        dec_envelope_fingerprint = ac_envelope_fingerprint v\<rparr>))"

record runtime_status =
  st_snapshot :: run_snapshot
  st_audit :: "audit_row list"
  st_sessions :: "json list"
  st_requests :: "request_row list"
  st_controls :: "control_row list"

definition status :: "string \<Rightarrow> (world, runtime_status) eff" where
  "status run_id =
     bnd (snapshot run_id) (\<lambda>s.
     let project_id = rn_project_id (sn_run s) in
     bnd (query runtime_audit) (\<lambda>audit.
     bnd (list_sessions project_id) (\<lambda>sessions.
     bnd (query (requests_of_project project_id)) (\<lambda>requests.
     bnd (query all_controls) (\<lambda>controls.
     ret \<lparr>st_snapshot = s, st_audit = audit, st_sessions = map session_to_dict sessions, st_requests = requests,
        st_controls = controls\<rparr>)))))"

end
