(* ===== verification/Runtime_Steps.thy ===== *)
theory Runtime_Steps
  imports Managed_Service
begin

text \<open>
  The abstract specification of the runtime: what the coordinator, the Acceptance Authority and the
  governance managers may write (\<open>client_ok\<close>), and the step relation \<open>runtime_step\<close> of a database whose
  writers keep to it. Each operation of those components is shown to move only along these steps,
  whether it returns or raises part-way. The conditions are on the database at the write, so they also
  cover several services that work on one database in turns.
\<close>

section \<open>What the runtime may write\<close>

definition envelope_of_job :: "string \<Rightarrow> db \<Rightarrow> env_payload option" where
  "envelope_of_job job d = (case get_job job d of None \<Rightarrow> None | Some j \<Rightarrow>
     (case get_run (jb_run_id j) d of None \<Rightarrow> None | Some r \<Rightarrow> envelope (rn_envelope_id r) (rn_envelope_version r) d))"

definition workstream_moves :: "(string \<times> string) list" where
  "workstream_moves = [(''READY'', ''ACTIVE''), (''ACTIVE'', ''COMPLETE'')]"

definition run_moves :: "(string \<times> string) list" where
  "run_moves = [(''PENDING'', ''RUNNING''), (''RUNNING'', ''WAITING_RECONCILIATION''),
     (''WAITING_RECONCILIATION'', ''RUNNING''), (''RUNNING'', ''COMPLETED'')]"

definition job_moves :: "(string \<times> string) list" where
  "job_moves = [(''PENDING'', ''RUNNING''), (''RUNNING'', ''FINISHED''), (''RUNNING'', ''UNKNOWN''), (''UNKNOWN'', ''FINISHED''),
     (''UNKNOWN'', ''RUNNING''), (''ACCEPTED'', ''PROMOTION_CONFLICT'')]"

text \<open>An Attempt's moves with the columns each must set.\<close>

definition attempt_move :: "string \<Rightarrow> string \<Rightarrow> (update_column \<times> string) list \<Rightarrow> bool" where
  "attempt_move x y us \<longleftrightarrow>
     (x = ''PENDING'' \<and> y = ''RUNNING'' \<and> us = []) \<or>
     (x = ''RUNNING'' \<and> y = ''FINISHED'' \<and> (\<exists>c. us = [(Result_Claim, c)])) \<or>
     ((x = ''PENDING'' \<or> x = ''RUNNING'') \<and> y = ''CANCELLED'' \<and> us = []) \<or>
     (x = ''RUNNING'' \<and> y = ''UNKNOWN'' \<and> us = []) \<or>
     (x = ''UNKNOWN'' \<and> y = ''NEEDS_RECONCILIATION'' \<and> us = []) \<or>
     (x = ''NEEDS_RECONCILIATION'' \<and> y = ''FINISHED'' \<and>
        (\<exists>c. us = [(Result_Claim, c), (Reconciliation_Outcome, ''RECOVERED_FINISHED'')])) \<or>
     (x = ''NEEDS_RECONCILIATION'' \<and> y = ''RECONCILED_RETRYABLE'' \<and> us = [(Reconciliation_Outcome, ''SAFE_TO_RETRY'')])"

definition legal_change :: "change \<Rightarrow> bool" where
  "legal_change c \<longleftrightarrow> (let x = ch_expected_state c; y = ch_target_state c in
     if ch_table c = ''workstreams'' then (x, y) \<in> set workstream_moves
     else if ch_table c = ''runs'' then (x, y) \<in> set run_moves
     else if ch_table c = ''project_jobs'' then (x, y) \<in> set job_moves \<or> y = ''CANCELLED''
     else attempt_move x y (ch_updates c))"

definition new_row_ok :: "new_row \<Rightarrow> db \<Rightarrow> bool" where
  "new_row_ok nr d \<longleftrightarrow> (case nr of
     New_Workstream r \<Rightarrow> ws_state r = ''READY''
   | New_Run r \<Rightarrow> rn_state r = ''PENDING'' \<and>
       (\<exists>p w. envelope (rn_envelope_id r) (rn_envelope_version r) d = Some p \<and> approved (pl_envelope p) \<and>
          env_project_id (pl_envelope p) = rn_project_id r \<and>
          (allowed_workstreams (pl_envelope p) = [] \<or> rn_workstream_id r \<in> set (allowed_workstreams (pl_envelope p))) \<and>
          get_workstream (rn_workstream_id r) d = Some w \<and> ws_project_id w = rn_project_id r)
   | New_Job r \<Rightarrow> jb_state r = ''PENDING''
   | New_Attempt r \<Rightarrow> at_state r = ''PENDING'' \<and> at_result_claim r = None \<and> at_reconciliation_outcome r = None \<and>
       1 \<le> at_ordinal r \<and>
       (\<exists>p. envelope_of_job (at_project_job_id r) d = Some p \<and> at_ordinal r \<le> max_attempts (pl_envelope p))
   | New_Workspace r \<Rightarrow> wk_state r = ''ACTIVE'')"

definition dispatch_ok :: "dispatch_authorization \<Rightarrow> db \<Rightarrow> bool" where
  "dispatch_ok a d \<longleftrightarrow> (\<exists>att p.
     get_attempt (dsp_attempt_id a) d = Some att \<and> at_state att = ''PENDING'' \<and>
     envelope_of_job (at_project_job_id att) d = Some p \<and> dsp_envelope_fingerprint a = pl_fingerprint p \<and>
     dsp_provider_id a \<in> set (allowed_providers (pl_envelope p)) \<and>
     provider_role a \<in> set (allowed_provider_roles (pl_envelope p)) \<and>
     set (requested_capabilities a) \<subseteq> set (allowed_capabilities (pl_envelope p)) \<and>
     set (dsp_filesystem_permissions a) \<subseteq> set (filesystem_permissions (pl_envelope p)) \<and>
     set (dsp_network_permissions a) \<subseteq> set (network_permissions (pl_envelope p)) \<and>
     set (dsp_tool_permissions a) \<subseteq> set (tool_permissions (pl_envelope p)) \<and>
     not_expired (deadline_at (pl_envelope p)) (authorized_at a) \<and>
     (\<forall>i \<in> set (credential_reference_ids a). \<exists>c \<in> set (credential_references (pl_envelope p)).
        reference_id c = i \<and> \<not> revoked c \<and> cred_provider_id c = dsp_provider_id a \<and> role c = provider_role a \<and>
        not_expired (cred_expires_at c) (authorized_at a)))"

text \<open>An Attempt starts only when its Envelope names no provider or a dispatch has been authorized.\<close>

definition start_ok :: "string \<Rightarrow> db \<Rightarrow> bool" where
  "start_ok i d \<longleftrightarrow> (\<exists>att p. get_attempt i d = Some att \<and> envelope_of_job (at_project_job_id att) d = Some p \<and>
     (allowed_providers (pl_envelope p) = [] \<or> dispatch_authorization i d \<noteq> None))"

definition starts :: "change \<Rightarrow> bool" where
  "starts c \<longleftrightarrow> ch_table c = ''attempts'' \<and> ch_target_state c = ''RUNNING''"

definition evidence_ok :: "evidence_record \<Rightarrow> db \<Rightarrow> bool" where
  "evidence_ok r d \<longleftrightarrow> (\<exists>att p. get_attempt (ev_attempt_id r) d = Some att \<and> at_project_job_id att = ev_project_job_id r \<and>
     envelope_of_job (ev_project_job_id r) d = Some p \<and> ev_envelope_fingerprint r = pl_fingerprint p \<and>
     ev_baseline_revision r = baseline_revision (pl_envelope p))"

text \<open>
  A decision rests on the latest finished Attempt of the ProjectJob: not dispatched by the decider,
  and for \<open>ACCEPT\<close> with evidence that covers every gate when the Envelope requires durable evidence.
\<close>

definition decision_basis :: "acceptance_decision \<Rightarrow> attempt_row \<Rightarrow> env_payload \<Rightarrow> db \<Rightarrow> bool" where
  "decision_basis v att p d \<longleftrightarrow>
     att \<in> set (attempts d) \<and> at_project_job_id att = dec_project_job_id v \<and> at_state att = ''FINISHED'' \<and>
     envelope_of_job (dec_project_job_id v) d = Some p \<and> dec_envelope_fingerprint v = Some (pl_fingerprint p) \<and>
     (\<forall>dsp. dispatch_authorization (at_id att) d = Some dsp \<longrightarrow> dsp_actor_id dsp \<noteq> dec_actor_id v) \<and>
     (outcome v = ACCEPT \<longrightarrow> evidence_valid v \<and>
       (require_durable_evidence (pl_envelope p) \<or> evidence_ids v \<noteq> [] \<longrightarrow>
        validate_evidence (evidence (evidence_ids v) d) (evidence_ids v) (dec_project_job_id v) (at_id att) p))"

definition session_moves :: "(string \<times> string) list" where
  "session_moves = [(''ACTIVE'', ''DISCONNECTED''), (''DISCONNECTED'', ''ACTIVE''), (''ACTIVE'', ''CLOSED''),
     (''DISCONNECTED'', ''CLOSED''), (''ACTIVE'', ''ACTIVE'')]"

fun client_ok :: "store_write \<Rightarrow> db \<Rightarrow> bool" where
  "client_ok (W_Envelope r) d \<longleftrightarrow> approved (pl_envelope (er_payload r)) \<and> er_fingerprint r = pl_fingerprint (er_payload r) \<and>
     er_envelope_id r = envelope_id (pl_envelope (er_payload r)) \<and> er_version r = version (pl_envelope (er_payload r))"
| "client_ok (W_Row nr) d \<longleftrightarrow> new_row_ok nr d"
| "client_ok (W_Change c now) d \<longleftrightarrow> legal_change c \<and> (starts c \<longrightarrow> start_ok (ch_identifier c) d)"
| "client_ok (W_Acceptance v st now) d \<longleftrightarrow> st = job_state_value (target_state (outcome v)) \<and> (\<exists>att p. decision_basis v att p d)"
| "client_ok (W_Dispatch a) d \<longleftrightarrow> dispatch_ok a d"
| "client_ok (W_Evidence r) d \<longleftrightarrow> evidence_ok r d"
| "client_ok (W_Workspace i x y) d \<longleftrightarrow> x = ''ACTIVE'' \<and> (y = ''PROMOTED'' \<or> y = ''PROMOTION_CONFLICT'')"
| "client_ok (W_Session r) d \<longleftrightarrow> ss_state r = ''ACTIVE''"
| "client_ok (W_Session_Update i x y n now) d \<longleftrightarrow> (x, y) \<in> set session_moves"
| "client_ok (W_Request v now a) d \<longleftrightarrow> dr_state v = ''OPEN'' \<and> distinct (map fst (dr_blocked_from_states v)) \<and>
     (\<forall>b \<in> set (dr_blocked_from_states v). snd b = ''READY'' \<or> snd b = ''ACTIVE'')"
| "client_ok (W_Resolve i x y b now a) d \<longleftrightarrow> b = (x = ''APPROVE'')"
| "client_ok _ d \<longleftrightarrow> True"

abbreviation runtime_step :: "db \<Rightarrow> db \<Rightarrow> bool" where
  "runtime_step \<equiv> step_by client_ok"

interpretation rt: store_client client_ok
  by unfold_locales simp

section \<open>Stable lookups\<close>

lemma find_ident_prefix:
  assumes "prefix (map f xs) (map f ys)" and "\<And>r. P r \<longleftrightarrow> Q (f r)" and "find P xs = Some x"
  shows "\<exists>y. find P ys = Some y \<and> f y = f x"
proof -
  have m: "find Q (map f zs) = map_option f (find P zs)" for zs
    by (induction zs) (auto simp: assms(2))
  have "find Q (map f ys) = Some (f x)"
    by (rule find_prefix [OF assms(1)]) (simp add: m assms(3))
  then show ?thesis by (auto simp: m)
qed

lemma get_job_stable: "extends d d' \<Longrightarrow> get_job i d = Some j \<Longrightarrow> \<exists>j'. get_job i d' = Some j' \<and> jb_ident j' = jb_ident j"
  unfolding get_job_def extends_def
  by (rule find_ident_prefix [of jb_ident _ _ _ "\<lambda>k. fst k = i"]) (auto simp: jb_ident_def)

lemma get_run_stable: "extends d d' \<Longrightarrow> get_run i d = Some j \<Longrightarrow> \<exists>j'. get_run i d' = Some j' \<and> rn_ident j' = rn_ident j"
  unfolding get_run_def extends_def
  by (rule find_ident_prefix [of rn_ident _ _ _ "\<lambda>k. fst k = i"]) (auto simp: rn_ident_def)

lemma get_attempt_stable:
  "extends d d' \<Longrightarrow> get_attempt i d = Some j \<Longrightarrow> \<exists>j'. get_attempt i d' = Some j' \<and> at_ident j' = at_ident j"
  unfolding get_attempt_def extends_def
  by (rule find_ident_prefix [of at_ident _ _ _ "\<lambda>k. fst k = i"]) (auto simp: at_ident_def)

lemma envelope_stable: "extends d d' \<Longrightarrow> envelope i v d = Some p \<Longrightarrow> envelope i v d' = Some p"
  unfolding envelope_def find_envelope_def extends_def by (auto dest: find_prefix)

lemma envelope_of_job_stable:
  assumes "extends d d'" and "envelope_of_job j d = Some p"
  shows "envelope_of_job j d' = Some p"
proof -
  from assms(2) obtain job run where job: "get_job j d = Some job" and run: "get_run (jb_run_id job) d = Some run"
    and e: "envelope (rn_envelope_id run) (rn_envelope_version run) d = Some p"
    by (auto simp: envelope_of_job_def split: option.splits)
  obtain job' run' where "get_job j d' = Some job'" "jb_ident job' = jb_ident job"
    "get_run (jb_run_id job) d' = Some run'" "rn_ident run' = rn_ident run"
    using get_job_stable [OF assms(1) job] get_run_stable [OF assms(1) run] by blast
  then show ?thesis
    using envelope_stable [OF assms(1) e] by (simp add: envelope_of_job_def jb_ident_def rn_ident_def)
qed

lemmas step_extends = ext.step_R [where P = client_ok]

lemma dispatch_stable: "extends d d' \<Longrightarrow> dispatch_authorization i d = Some x \<Longrightarrow> dispatch_authorization i d' = Some x"
  unfolding dispatch_authorization_def extends_def by (auto dest: find_prefix)

lemma start_ok_stable:
  assumes "start_ok i d" and "extends d d'"
  shows "start_ok i d'"
proof -
  from assms(1) obtain att p where "get_attempt i d = Some att" "envelope_of_job (at_project_job_id att) d = Some p"
    "allowed_providers (pl_envelope p) = [] \<or> dispatch_authorization i d \<noteq> None"
    by (auto simp: start_ok_def)
  with get_attempt_stable [OF assms(2)] envelope_of_job_stable [OF assms(2)] dispatch_stable [OF assms(2)]
  show ?thesis unfolding start_ok_def at_ident_def by fastforce
qed

section \<open>Operations move along runtime steps\<close>

definition wreach :: "world \<Rightarrow> world \<Rightarrow> bool" where
  "wreach w w' \<longleftrightarrow> rt.reach (store_db w) (store_db w')"

interpretation wr: state_preorder wreach
  by unfold_locales (auto simp: wreach_def intro: rt.reach_refl rt.reach_trans)

lemma wreach_extends: "wreach w w' \<Longrightarrow> extends (store_db w) (store_db w')"
  unfolding wreach_def rt.reach_def by (rule ext.steps_R)

lemma from_clock: "wr.from_state (clock env) w"
  by (simp add: wr.from_state_def wreach_def clock_def rt.reach_refl)

lemma from_bnd_clock: "(\<And>now. wr.from_state (f now) (w\<lparr>ticks := Suc (ticks w)\<rparr>)) \<Longrightarrow> wr.from_state (bnd (clock env) f) w"
  by (simp add: wr.from_state_def wreach_def clock_def bnd_def)

lemma from_bnd_uuid: "(\<And>u. wr.from_state (f u) (w\<lparr>draws := Suc (draws w)\<rparr>)) \<Longrightarrow> wr.from_state (bnd (uuid4 env) f) w"
  by (simp add: wr.from_state_def wreach_def uuid4_def bnd_def)

lemma from_bnd_token: "(\<And>u. wr.from_state (f u) (w\<lparr>draws := Suc (draws w)\<rparr>)) \<Longrightarrow> wr.from_state (bnd (token_urlsafe env) f) w"
  by (simp add: wr.from_state_def wreach_def token_urlsafe_def bnd_def)

lemma from_bnd_query: "wr.from_state (f (g (store_db w))) w \<Longrightarrow> wr.from_state (bnd (query g) f) w"
  by (simp add: query_def wr.from_bnd_gets)

lemma from_bnd_fetch: "(\<And>x. g (store_db w) = Some x \<Longrightarrow> wr.from_state (f x) w) \<Longrightarrow> wr.from_state (bnd (fetch e g) f) w"
  by (simp add: fetch_def bnd_assoc from_bnd_query wr.from_bnd_some)

lemma from_fetch: "wr.from_state (fetch e g) w"
  by (rule wr.from_state_pure) (simp add: fetch_def query_def bnd_def some_or_def split: option.splits)

lemma from_in_store:
  assumes "traceless m" and "\<And>x d'. m (store_db w) = (Inr x, d') \<Longrightarrow> rt.reach (store_db w) d'"
  shows "wr.from_state (in_store m) w"
proof -
  obtain r d' where r: "m (store_db w) = (r, d')" by (cases "m (store_db w)")
  have "d' = store_db w" if "r = Inl e" for e
    using assms(1) r that unfolding traceless_def by blast
  with r assms(2) show ?thesis
    by (cases r) (auto simp: wr.from_state_def wreach_def in_store_def rt.reach_refl)
qed

lemmas world_rules = wr.from_basic from_clock from_bnd_clock from_bnd_uuid from_bnd_token from_bnd_query from_bnd_fetch from_fetch

lemma bnd_ret [simp]: "bnd (ret x) f = f x"
  by (simp add: bnd_def fun_eq_iff)

lemma bnd_if: "bnd (if c then a else b) f = (if c then bnd a f else bnd b f)"
  by simp

lemma bnd_case_option: "bnd (case x of None \<Rightarrow> a | Some y \<Rightarrow> b y) f = (case x of None \<Rightarrow> bnd a f | Some y \<Rightarrow> bnd (b y) f)"
  by (cases x) simp_all

lemmas bnd_normal = bnd_assoc bnd_case_option bnd_ret

lemma coordinator_init_from: "wr.from_state (coordinator_init env h n) w"
  unfolding coordinator_init_def
  by (intro world_rules wr.from_bnd from_in_store traceless_acquire) (auto intro: rt.acquire_coordinator_reach)

lemma renew_from: "wr.from_state (renew env co) w"
  unfolding renew_def
  by (intro world_rules wr.from_bnd from_in_store f_renew_coordinator.no_trace) (auto intro: rt.renew_coordinator_reach)

lemma approve_envelope_from: "wr.from_state (approve_envelope env co e a c) w"
  unfolding approve_envelope_def Let_def
proof (intro world_rules from_in_store f_put_envelope.no_trace)
  fix now x d' and w' :: world
  assume p: "put_envelope (sha_json env) e (co_token co) now (Some (case a of None \<Rightarrow> Actor_String (env_actor_id e) | Some a \<Rightarrow> a)) c
      (store_db w') = (Inr x, d')"
  have "approved e" using p unfolding put_envelope_def by (auto elim!: bnd_InrE req_InrE)
  then show "rt.reach (store_db w') d'"
    by (intro rt.put_envelope_reach [OF p]) (simp add: payload_of_def)
qed

lemma insert_from:
  assumes "client_ok (W_Row r) (store_db w)"
  shows "wr.from_state (in_store (insert_values r t now a ev)) w"
  by (intro from_in_store f_insert_values.no_trace) (blast intro: rt.insert_values_reach assms)

lemma create_workstream_from: "wr.from_state (create_workstream env co i p a) w"
  unfolding create_workstream_def by (intro world_rules insert_from) (simp add: new_row_ok_def)

lemma create_run_from: "wr.from_state (create_run env co i ws p e v a) w"
  unfolding create_run_def Let_def bnd_normal
  by (intro world_rules insert_from) (simp_all add: new_row_ok_def)

lemma create_project_job_from: "wr.from_state (create_project_job env co i r p a) w"
  unfolding create_project_job_def by (intro world_rules insert_from) (simp add: new_row_ok_def)

lemma in_run_attempts:
  assumes "snapshot_run (jb_run_id j) d = Inr s" and "get_job i d = Some j"
  shows "sn_run s = the (get_run (jb_run_id j) d)" and "get_run (jb_run_id j) d = Some (sn_run s)"
    and "set (filter (\<lambda>a. at_project_job_id a = i) (sn_attempts s)) = {a \<in> set (attempts d). at_project_job_id a = i}"
proof -
  have "job_in_run (jb_run_id j) d i"
    using find_SomeD [OF assms(2) [unfolded get_job_def]] by (auto simp: job_in_run_def list_ex_iff)
  then show "set (filter (\<lambda>a. at_project_job_id a = i) (sn_attempts s)) = {a \<in> set (attempts d). at_project_job_id a = i}"
    using assms(1) by (auto simp: snapshot_run_def split: option.splits)
  show "sn_run s = the (get_run (jb_run_id j) d)" "get_run (jb_run_id j) d = Some (sn_run s)"
    using assms(1) by (auto simp: snapshot_run_def split: option.splits)
qed

lemma create_attempt_from: "wr.from_state (create_attempt env co i j a) w"
  unfolding create_attempt_def Let_def
  by (intro world_rules insert_from)
    (auto simp: new_row_ok_def envelope_of_job_def dest: in_run_attempts(2))

lemma credential_table_Inr: "credential_table e = Inr cs \<Longrightarrow> cs = credential_references e"
proof -
  have "list_all2 (\<lambda>c c'. rbind (credential_reference_check c) (\<lambda>_. Inr c) = Inr c') xs ys \<Longrightarrow> ys = xs" for xs ys
    by (induction rule: list_all2_induct) (auto simp: rbind_Inr_iff)
  then show "credential_table e = Inr cs \<Longrightarrow> cs = credential_references e"
    by (simp add: credential_table_def rmap_Inr_iff)
qed

lemma credential_usable_permits:
  assumes "credential_usable cs q project now i"
  shows "\<exists>c \<in> set cs. reference_id c = i \<and> \<not> revoked c \<and> cred_provider_id c = rq_provider_id q \<and>
    role c = rq_provider_role q \<and> not_expired (cred_expires_at c) now"
  using assms
  by (auto simp: credential_usable_def lookup_credential_def credential_permits_def split: option.splits dest!: find_SomeD)

lemma dispatch_from:
  assumes "dispatch_ok x (store_db w)"
  shows "wr.from_state (in_store (record_dispatch_authorization x t now a c)) w"
  by (intro from_in_store f_record_dispatch_authorization.no_trace)
    (blast intro: rt.record_dispatch_authorization_reach assms [folded client_ok.simps(5)])

lemma authorize_attempt_dispatch_from: "wr.from_state (authorize_attempt_dispatch env co i q a c) w"
  unfolding authorize_attempt_dispatch_def require_subset_def Let_def
  by (intro world_rules wr.from_bnd dispatch_from)
    (auto simp: dispatch_ok_def envelope_of_job_def list_all_iff not_expired_def [of "deadline_at _"]
      dest!: credential_table_Inr dest: credential_usable_permits split: option.splits)

lemma evidence_from:
  assumes "evidence_ok x (store_db w)"
  shows "wr.from_state (in_store (record_evidence x t now a c)) w"
  by (intro from_in_store f_record_evidence.no_trace)
    (blast intro: rt.record_evidence_reach assms [folded client_ok.simps(6)])

lemma coordinator_record_evidence_from: "wr.from_state (coordinator_record_evidence env co ev a c) w"
  unfolding coordinator_record_evidence_def Let_def
  by (intro world_rules evidence_from) (auto simp: evidence_ok_def envelope_of_job_def)

lemma batch_from:
  assumes "list_all (\<lambda>c. legal_change c \<and> \<not> starts c) cs"
  shows "wr.from_state (in_store (transition_batch cs t now a)) w"
  by (intro from_in_store f_transition_batch.no_trace)
    (rule rt.transition_batch_reach, assumption, use assms in \<open>auto simp: list_all_iff\<close>)

lemma changes_from: "list_all (\<lambda>c. legal_change c \<and> \<not> starts c) cs \<Longrightarrow> wr.from_state (transition_changes co cs a now) w"
  unfolding transition_changes_def by (rule batch_from)

lemma single_from:
  assumes "client_ok (W_Change (mk_change table col i x y []) now) (store_db w)"
  shows "wr.from_state (transition_single co table col i x y a now) w"
  unfolding transition_single_def transition_one_def
  by (intro from_in_store f_transition_batch.no_trace)
    (erule rt.transition_one_reach, use assms in \<open>simp add: mk_change_def\<close>)

lemma event_from: "wr.from_state (in_store (record_event ev ty i p t now a c)) w"
  by (intro from_in_store f_record_event.no_trace) (rule rt.record_event_reach)

lemmas legal_simps = legal_change_def starts_def Let_def mk_change_def attempt_move_def workstream_moves_def run_moves_def job_moves_def

text \<open>The start condition read at the beginning still holds after the transitions before the last.\<close>

lemma start_bnd:
  assumes "start_ok i (store_db w)" and "wr.from_state m w"
    and "\<And>w'. start_ok i (store_db w') \<Longrightarrow> wr.from_state (f ()) w'"
  shows "wr.from_state (bnd m f) w"
proof (rule wr.from_bnd [OF assms(2)])
  fix x w' assume "m w = (Inr x, w')"
  with assms(2) have "wreach w w'" by (simp add: wr.from_state_def)
  from start_ok_stable [OF assms(1) wreach_extends [OF this]] assms(3) show "wr.from_state (f x) w'" by (cases x) simp
qed

lemma start_attempt_from: "wr.from_state (start_attempt env co i a) w"
proof -
  have "start_ok i (store_db w)"
    if "get_attempt i (store_db w) = Some att" "get_job (at_project_job_id att) (store_db w) = Some job"
      "get_run (jb_run_id job) (store_db w) = Some run"
      "envelope (rn_envelope_id run) (rn_envelope_version run) (store_db w) = Some p"
      "\<not> (allowed_providers (pl_envelope p) \<noteq> [] \<and> dispatch_authorization i (store_db w) = None)" for att job run p
    using that by (auto simp: start_ok_def envelope_of_job_def)
  then show ?thesis
    unfolding start_attempt_def
    by (intro world_rules start_bnd [of i] single_from) (simp_all add: legal_simps)
qed

lemma finish_attempt_from: "wr.from_state (finish_attempt env co i r a c) w"
  unfolding finish_attempt_def Let_def
  by (intro world_rules wr.from_bnd changes_from event_from) (simp_all add: legal_simps)

lemma settle_run_for_job_from: "wr.from_state (settle_run_for_job env co j a) w"
  unfolding settle_run_for_job_def
  by (intro world_rules changes_from) (simp_all add: legal_simps)

lemma cancel_attempt_from: "wr.from_state (cancel_attempt env co i a) w"
  unfolding cancel_attempt_def
  by (intro world_rules wr.from_bnd changes_from settle_run_for_job_from) (auto simp add: legal_simps)

lemma mark_unknown_from: "wr.from_state (mark_unknown env co i a) w"
  unfolding mark_unknown_def by (intro world_rules changes_from) (simp_all add: legal_simps)

lemma begin_reconciliation_from: "wr.from_state (begin_reconciliation env co i a) w"
  unfolding begin_reconciliation_def by (intro world_rules single_from) (simp_all add: legal_simps)

lemma reconcile_attempt_from: "wr.from_state (reconcile_attempt env co i r a c) w"
  unfolding reconcile_attempt_def
  by (cases r; simp; intro world_rules changes_from) (simp_all add: legal_simps)

lemma retry_attempt_from: "wr.from_state (retry_attempt env co i j a) w"
  unfolding retry_attempt_def by (intro world_rules create_attempt_from)

section \<open>Acceptance\<close>

lemma max_ordinal_None: "max_ordinal as = None \<longleftrightarrow> as = []"
  by (cases as) (auto split: option.splits)

lemma max_ordinal_mem: "max_ordinal as = Some a \<Longrightarrow> a \<in> set as \<and> (\<forall>b \<in> set as. at_ordinal b \<le> at_ordinal a)"
proof (induction as arbitrary: a)
  case (Cons x xs)
  then show ?case by (cases "max_ordinal xs") (fastforce simp: max_ordinal_None split: if_splits)+
qed simp

lemma snapshot_attempts_mem: "snapshot_run r d = Inr s \<Longrightarrow> a \<in> set (sn_attempts s) \<Longrightarrow> a \<in> set (attempts d)"
  by (auto simp: snapshot_run_def split: option.splits)

lemma acceptance_from:
  assumes "st = job_state_value (target_state (outcome v))" and "decision_basis v att p (store_db w)"
  shows "wr.from_state (in_store (record_acceptance v t now st a c)) w"
proof (intro from_in_store f_record_acceptance.no_trace)
  show "record_acceptance v t now st a c (store_db w) = (Inr x, d') \<Longrightarrow> rt.reach (store_db w) d'" for x d'
    using assms by (elim rt.record_acceptance_reach) auto
qed

lemma decide_from: "wr.from_state (decide env t j r b a why ids c) w"
  unfolding decide_def Let_def
  by (intro world_rules wr.from_bnd acceptance_from)
    (auto simp: decision_basis_def envelope_of_job_def dest!: max_ordinal_mem dest: snapshot_attempts_mem split: option.splits)

section \<open>Governance\<close>

lemma from_pure_session: "wr.from_state (session_require i) w"
  unfolding session_require_def by (intro world_rules)

lemma session_require_Inr:
  assumes "session_require i w = (Inr s, w')"
  shows "w' = w \<and> (\<exists>r. interaction_session i (store_db w) = Some r \<and> session_from_row r = Inr s)"
  using assms unfolding session_require_def fetch_def query_def
  by (cases "interaction_session i (store_db w)") (auto simp: bnd_def some_or_def split: sum.splits)

lemma session_create_from:
  assumes "ss_state r = ''ACTIVE''"
  shows "wr.from_state (in_store (create_interaction_session r t now a)) w"
  by (intro from_in_store f_create_interaction_session.no_trace)
    (rule rt.create_interaction_session_reach, assumption, simp add: assms)

lemma session_update_from:
  assumes "(x, y) \<in> set session_moves"
  shows "wr.from_state (in_store (update_interaction_session i x y n t now a ev)) w"
  by (intro from_in_store f_update_interaction_session.no_trace)
    (rule rt.update_interaction_session_reach, assumption, simp add: assms)

lemma open_session_from: "wr.from_state (open_session env co cur root a ws r i) w"
  unfolding open_session_def bnd_normal bnd_if
  by (intro world_rules wr.from_bnd session_create_from from_pure_session) simp_all

lemma require_active_from: "wr.from_state (require_active env i a) w"
  unfolding require_active_def by (intro world_rules wr.from_bnd from_pure_session)

lemma require_active_state: "require_active env i a w = (Inr s, w') \<Longrightarrow> sx_state s = IS_ACTIVE"
  unfolding require_active_def by (auto elim!: bnd_InrE req_InrE ret_InrE)

lemma session_transition_from:
  assumes "(interaction_state_value (sx_state s), interaction_state_value target) \<in> set session_moves"
  shows "wr.from_state (session_transition env co s target a ev) w"
  unfolding session_transition_def by (intro world_rules session_update_from assms)

lemma disconnect_from: "wr.from_state (disconnect env co i a) w"
  unfolding disconnect_def
  by (intro wr.from_bnd require_active_from session_transition_from from_pure_session)
    (simp add: require_active_state session_moves_def)

lemma reconnect_from: "wr.from_state (reconnect env co i tok a) w"
  unfolding reconnect_def
  by (intro world_rules wr.from_bnd session_transition_from from_pure_session) (simp add: session_moves_def)

lemma close_session_from: "wr.from_state (close_session env co i a) w"
  unfolding close_session_def
proof (intro world_rules wr.from_bnd session_transition_from from_pure_session)
  show "sx_state s \<noteq> IS_CLOSED \<Longrightarrow>
      (interaction_state_value (sx_state s), interaction_state_value IS_CLOSED) \<in> set session_moves" for s
    by (cases "sx_state s") (simp_all add: session_moves_def)
qed

lemma record_revision_from: "wr.from_state (record_revision env co i n a) w"
  unfolding record_revision_def
  by (intro world_rules wr.from_bnd require_active_from session_update_from from_pure_session) (simp add: session_moves_def)

lemma collect_states_from: "wr.from_state (collect_states p is) w"
proof (induction "is" arbitrary: w)
  case Nil
  then show ?case by (simp add: world_rules)
next
  case (Cons i "is")
  show ?case unfolding collect_states.simps by (intro world_rules wr.from_bnd Cons.IH)
qed

lemma collect_states_Inr:
  "collect_states p is w = (Inr bs, w') \<Longrightarrow>
     map fst bs = is \<and> (\<forall>b \<in> set bs. snd b = ''READY'' \<or> snd b = ''ACTIVE'')"
proof (induction "is" arbitrary: w bs)
  case (Cons i "is")
  then obtain st rest w1 where st: "st \<in> {WS_READY, WS_ACTIVE}" and rest: "collect_states p is w1 = (Inr rest, w')"
    and bs: "bs = (i, workstream_state_value st) # rest"
    unfolding collect_states.simps by (blast elim!: bnd_InrE req_InrE ret_InrE)
  show ?case using Cons.IH [OF rest] st bs by auto
qed (simp add: ret_def)

lemma request_from:
  assumes "client_ok (W_Request v now a) (store_db w)"
  shows "wr.from_state (in_store (create_decision_request v t now a)) w"
  by (intro from_in_store f_create_decision_request.no_trace)
    (rule rt.create_decision_request_reach, assumption, rule assms)

lemma distinct_fst_sort_key: "distinct (map fst xs) \<Longrightarrow> distinct (map fst (sort_key fst xs))"
  by (simp add: distinct_map)

lemma create_decision_from: "wr.from_state (create_decision env co p q aff a r i m) w"
  unfolding create_decision_def bnd_normal bnd_if
  by (intro world_rules wr.from_bnd collect_states_from request_from)
    (auto dest!: collect_states_Inr intro: distinct_fst_sort_key)

lemma resolve_decision_from: "wr.from_state (resolve_decision env co i r res a) w"
  unfolding resolve_decision_def
  by (intro world_rules wr.from_bnd from_in_store f_resolve_decision_request.no_trace)
    (rule rt.resolve_decision_request_reach, assumption, cases r, simp_all)

lemma validate_project_scope_from: "wr.from_state (validate_project_scope sc i p) w"
  unfolding validate_project_scope_def by (cases sc; simp; intro world_rules)

lemma set_control_from: "wr.from_state (set_control env co sc i p st why a rc) w"
  unfolding set_control_def Let_def
  by (intro world_rules wr.from_bnd from_in_store f_set_operational_control.no_trace validate_project_scope_from)
    (rule rt.set_operational_control_reach, assumption, simp)

lemma emergency_attempt_from: "wr.from_state (emergency_attempt env co i b a) w"
  unfolding emergency_attempt_def
  by (intro world_rules wr.from_bnd cancel_attempt_from mark_unknown_from begin_reconciliation_from)

section \<open>The service\<close>

lemma effective_for_attempt_from: "wr.from_state (effective_for_attempt i p) w"
  unfolding effective_for_attempt_def by (intro world_rules)

lemma assert_dispatch_allowed_from: "wr.from_state (assert_dispatch_allowed i p) w"
  unfolding assert_dispatch_allowed_def
  by (intro wr.from_bnd effective_for_attempt_from) (auto split: prod.split intro: world_rules)

lemma assert_project_job_unblocked_from: "wr.from_state (assert_project_job_unblocked j) w"
  unfolding assert_project_job_unblocked_def by (intro world_rules)

lemma snapshot_from: "wr.from_state (snapshot r) w"
  unfolding snapshot_def by (intro world_rules)

lemmas coordinator_from =
  coordinator_init_from renew_from approve_envelope_from create_workstream_from create_run_from create_project_job_from
  create_attempt_from authorize_attempt_dispatch_from coordinator_record_evidence_from start_attempt_from
  finish_attempt_from settle_run_for_job_from cancel_attempt_from mark_unknown_from begin_reconciliation_from
  reconcile_attempt_from retry_attempt_from

lemmas governance_from =
  open_session_from disconnect_from reconnect_from close_session_from record_revision_from create_decision_from
  resolve_decision_from set_control_from emergency_attempt_from

lemma bootstrap_run_from: "wr.from_state (bootstrap_run env sv e ws r j a p ac ap c) w"
  unfolding bootstrap_run_def Let_def
  by (intro world_rules wr.from_bnd coordinator_from assert_dispatch_allowed_from snapshot_from)

lemma authorize_dispatch_from: "wr.from_state (authorize_dispatch env sv i q a c) w"
  unfolding authorize_dispatch_def
  by (intro wr.from_bnd world_rules coordinator_from assert_dispatch_allowed_from)

lemma authorize_approved_run_from: "wr.from_state (authorize_approved_run env sv e v ws r j a p ac) w"
  unfolding authorize_approved_run_def Let_def
  by (intro world_rules wr.from_bnd coordinator_from snapshot_from)

lemma heartbeat_from: "wr.from_state (heartbeat env n co) w"
proof (induction n arbitrary: co w)
  case 0
  then show ?case by (simp add: world_rules)
next
  case (Suc n)
  show ?case unfolding heartbeat.simps by (intro wr.from_bnd renew_from Suc.IH)
qed

lemma service_accept_from: "wr.from_state (service_accept env sv j b a why ids c) w"
  unfolding service_accept_def
  by (intro wr.from_bnd world_rules coordinator_from decide_from assert_project_job_unblocked_from)

text \<open>
  The operations of the service and of the managers it exposes, as values. A history is a list of
  operations by services in any state, old ones with superseded tokens included.
\<close>

datatype service_op =
    Op_Start string int
  | Op_Heartbeat nat
  | Op_Bootstrap execution_envelope string string string string string actor_like "actor_principal option" "string option"
  | Op_Authorize_Dispatch string dispatch_request actor_principal "string option"
  | Op_Authorize_Run string int string string string string string actor_like
  | Op_Evidence evidence_record actor_like "string option"
  | Op_Finish string string actor_like "string option"
  | Op_Cancel string actor_like
  | Op_Accept string bool actor_like string "string list" "string option"
  | Op_Mark_Unknown string actor_like
  | Op_Begin_Reconciliation string actor_like
  | Op_Reconcile string reconciliation_outcome actor_like "string option"
  | Op_Approve_Envelope execution_envelope "actor_like option" "string option"
  | Op_Create_Workstream string string actor_like
  | Op_Create_Run string string string string int actor_like
  | Op_Create_Job string string string actor_like
  | Op_Create_Attempt string string actor_like
  | Op_Retry string string actor_like
  | Op_Start_Attempt string actor_like
  | Op_Dispatch string dispatch_request actor_principal "string option"
  | Op_Settle string actor_like
  | Op_Decide string acceptance_outcome bool actor_like string "string list" "string option"
  | Op_Open_Session "project_revision res" string actor_principal "string option" "string option" "string option"
  | Op_Disconnect string actor_principal
  | Op_Reconnect string string actor_principal
  | Op_Close string actor_principal
  | Op_Record_Revision string int actor_principal
  | Op_Create_Decision string string "string list" actor_principal "string option" "string option" materiality
  | Op_Resolve_Decision string decision_outcome string actor_principal
  | Op_Set_Control control_scope string "string option" control_state string actor_principal bool
  | Op_Emergency string bool actor_principal

definition void :: "(world, 'a) eff \<Rightarrow> (world, unit) eff" where
  "void m = bnd m (\<lambda>_. ret ())"

fun perform :: "runtime_env \<Rightarrow> service \<Rightarrow> service_op \<Rightarrow> (world, unit) eff" where
  "perform env sv (Op_Start h n) = void (service_init env h n)"
| "perform env sv (Op_Heartbeat n) = void (heartbeat env n (sv_coordinator sv))"
| "perform env sv (Op_Bootstrap e ws r j a p ac ap c) = void (bootstrap_run env sv e ws r j a p ac ap c)"
| "perform env sv (Op_Authorize_Dispatch i q a c) = void (authorize_dispatch env sv i q a c)"
| "perform env sv (Op_Authorize_Run e v ws r j a p ac) = void (authorize_approved_run env sv e v ws r j a p ac)"
| "perform env sv (Op_Evidence ev a c) = service_record_evidence env sv ev a c"
| "perform env sv (Op_Finish i r a c) = service_finish env sv i r a c"
| "perform env sv (Op_Cancel i a) = service_cancel env sv i a"
| "perform env sv (Op_Accept j b a why ids c) = void (service_accept env sv j b a why ids c)"
| "perform env sv (Op_Mark_Unknown i a) = service_mark_unknown env sv i a"
| "perform env sv (Op_Begin_Reconciliation i a) = service_begin_reconciliation env sv i a"
| "perform env sv (Op_Reconcile i r a c) = service_reconcile env sv i r a c"
| "perform env sv (Op_Approve_Envelope e a c) = approve_envelope env (sv_coordinator sv) e a c"
| "perform env sv (Op_Create_Workstream i p a) = create_workstream env (sv_coordinator sv) i p a"
| "perform env sv (Op_Create_Run i ws p e v a) = create_run env (sv_coordinator sv) i ws p e v a"
| "perform env sv (Op_Create_Job i r p a) = create_project_job env (sv_coordinator sv) i r p a"
| "perform env sv (Op_Create_Attempt i j a) = create_attempt env (sv_coordinator sv) i j a"
| "perform env sv (Op_Retry i j a) = retry_attempt env (sv_coordinator sv) i j a"
| "perform env sv (Op_Start_Attempt i a) = start_attempt env (sv_coordinator sv) i a"
| "perform env sv (Op_Dispatch i q a c) = void (authorize_attempt_dispatch env (sv_coordinator sv) i q a c)"
| "perform env sv (Op_Settle j a) = settle_run_for_job env (sv_coordinator sv) j a"
| "perform env sv (Op_Decide j r b a why ids c) = void (decide env (sv_acceptance_token sv) j r b a why ids c)"
| "perform env sv (Op_Open_Session cur root a ws r i) = void (open_session env (sv_coordinator sv) (\<lambda>_. cur) root a ws r i)"
| "perform env sv (Op_Disconnect i a) = void (disconnect env (sv_coordinator sv) i a)"
| "perform env sv (Op_Reconnect i tok a) = void (reconnect env (sv_coordinator sv) i tok a)"
| "perform env sv (Op_Close i a) = void (close_session env (sv_coordinator sv) i a)"
| "perform env sv (Op_Record_Revision i n a) = void (record_revision env (sv_coordinator sv) i n a)"
| "perform env sv (Op_Create_Decision p q aff a r i m) = void (create_decision env (sv_coordinator sv) p q aff a r i m)"
| "perform env sv (Op_Resolve_Decision i r res a) = void (resolve_decision env (sv_coordinator sv) i r res a)"
| "perform env sv (Op_Set_Control sc i p st why a rc) = void (set_control env (sv_coordinator sv) sc i p st why a rc)"
| "perform env sv (Op_Emergency i b a) = void (emergency_attempt env (sv_coordinator sv) i b a)"

fun run_ops :: "runtime_env \<Rightarrow> (service \<times> service_op) list \<Rightarrow> world \<Rightarrow> world" where
  "run_ops env [] w = w"
| "run_ops env ((sv, op) # ops) w = run_ops env ops (snd (perform env sv op w))"

definition new_world :: world where
  "new_world = \<lparr>store_db = empty_db, ticks = 0, draws = 0\<rparr>"

lemma void_from: "wr.from_state m w \<Longrightarrow> wr.from_state (void m) w"
  unfolding void_def by (intro wr.from_bnd world_rules)

lemma service_init_from: "wr.from_state (service_init env h n) w"
  unfolding service_init_def by (intro wr.from_bnd world_rules coordinator_from)

lemmas service_defs =
  service_record_evidence_def service_finish_def service_cancel_def service_mark_unknown_def
  service_begin_reconciliation_def service_reconcile_def

lemma perform_from: "wr.from_state (perform env sv op) w"
  by (cases op)
    (simp_all add: service_defs void_from coordinator_from governance_from decide_from bootstrap_run_from
      authorize_dispatch_from authorize_approved_run_from heartbeat_from service_accept_from service_init_from)

lemma run_ops_reach: "runtime_step\<^sup>*\<^sup>* (store_db w) (store_db (run_ops env ops w))"
proof (induction env ops w rule: run_ops.induct)
  case (2 env sv op ops w)
  have "runtime_step\<^sup>*\<^sup>* (store_db w) (store_db (snd (perform env sv op w)))"
    using perform_from [of env sv op w] by (simp add: wr.from_state_def wreach_def rt.reach_def)
  with 2 show ?case by simp
qed simp

end
