(* ===== verification/Runtime_Invariants.thy ===== *)
theory Runtime_Invariants
  imports Runtime_Steps
begin

text \<open>
  Invariants of every database the runtime produces, by rule induction over \<open>runtime_step\<close>, and the
  end-to-end properties of the service that follow for every history of operations.
\<close>

section \<open>What a step changes\<close>

definition only_workstreams :: "db \<Rightarrow> db \<Rightarrow> bool" where
  "only_workstreams d d' \<longleftrightarrow> d' = d\<lparr>workstreams := workstreams d', runtime_audit := runtime_audit d'\<rparr>"

lemma only_workstreams_refl: "only_workstreams d d"
  by (simp add: only_workstreams_def)

lemma only_workstreams_trans: "only_workstreams d d1 \<Longrightarrow> only_workstreams d1 d2 \<Longrightarrow> only_workstreams d d2"
  unfolding only_workstreams_def by (cases d; cases d1; cases d2) simp

lemma only_workstreams_tables:
  assumes "only_workstreams d d'"
  shows "envelopes d' = envelopes d" "runs d' = runs d" "project_jobs d' = project_jobs d" "attempts d' = attempts d"
    "acceptance_decisions d' = acceptance_decisions d" "dispatch_authorizations d' = dispatch_authorizations d"
    "evidence_records d' = evidence_records d" "decision_requests d' = decision_requests d"
    "interaction_sessions d' = interaction_sessions d"
  using assms by (cases d; cases d'; simp add: only_workstreams_def)+

lemma block_frame: "block_workstreams v bs now a d = (Inr u, d') \<Longrightarrow> only_workstreams d d'"
proof (induction bs arbitrary: d)
  case (Cons b bs)
  then obtain d1 where 1: "block_workstream v b now a d = (Inr (), d1)" and 2: "block_workstreams v bs now a d1 = (Inr u, d')"
    by (auto elim: eff_elims)
  from 1 have "only_workstreams d d1"
    by (cases b) (auto simp: only_workstreams_def block_workstream_def Let_def log_audit_def elim!: eff_elims)
  from this Cons.IH [OF 2] show ?case by (rule only_workstreams_trans)
qed (auto simp: only_workstreams_refl elim: eff_elims)

lemma resume_frame: "resume_workstreams i bs now a d = (Inr u, d') \<Longrightarrow> only_workstreams d d'"
proof (induction bs arbitrary: d)
  case (Cons b bs)
  then obtain d1 where 1: "resume_workstream i b now a d = (Inr (), d1)" and 2: "resume_workstreams i bs now a d1 = (Inr u, d')"
    by (auto elim: eff_elims)
  from 1 have "only_workstreams d d1"
    by (cases b) (auto simp: only_workstreams_def resume_workstream_def Let_def log_audit_def elim!: eff_elims)
  from this Cons.IH [OF 2] show ?case by (rule only_workstreams_trans)
qed (auto simp: only_workstreams_refl elim: eff_elims)

definition core_same :: "db \<Rightarrow> db \<Rightarrow> bool" where
  "core_same d d' \<longleftrightarrow> envelopes d' = envelopes d \<and> workstreams d' = workstreams d \<and> runs d' = runs d \<and>
     project_jobs d' = project_jobs d \<and> attempts d' = attempts d \<and> acceptance_decisions d' = acceptance_decisions d \<and>
     dispatch_authorizations d' = dispatch_authorizations d \<and> evidence_records d' = evidence_records d \<and>
     decision_requests d' = decision_requests d"

definition resolved :: "string \<Rightarrow> string \<Rightarrow> string \<Rightarrow> int \<Rightarrow> actor_like \<Rightarrow> request_row \<Rightarrow> request_row" where
  "resolved i x y now a r = (if dr_id r = i \<and> dr_state r = ''OPEN'' then
     r\<lparr>dr_state := ''RESOLVED'', dr_outcome := Some x, dr_resolution := Some y,
       dr_resolved_by := Some (actor_id (as_principal a)), dr_resolved_at := Some now\<rparr> else r)"

definition decided :: "string \<Rightarrow> string \<Rightarrow> int \<Rightarrow> job_row \<Rightarrow> job_row" where
  "decided job st now r = (if jb_id r = job \<and> jb_state r = ''FINISHED'' then r\<lparr>jb_state := st, jb_updated_at := now\<rparr> else r)"

lemma request_result:
  assumes "write_eff (W_Request v now a) d = (Inr u, d')"
  obtains d1 where "block_workstreams v (dr_blocked_from_states v) now a d = (Inr (), d1)" "only_workstreams d d1"
    "decision_request (dr_id v) d = None" "d' = d1\<lparr>decision_requests := decision_requests d @ [v]\<rparr>"
proof -
  obtain d1 where b: "block_workstreams v (dr_blocked_from_states v) now a d = (Inr (), d1)"
    and n: "decision_request (dr_id v) d1 = None" and d': "d' = d1\<lparr>decision_requests := decision_requests d1 @ [v]\<rparr>"
    using assms by (auto elim!: eff_elims)
  have o: "only_workstreams d d1" by (rule block_frame [OF b])
  note t = only_workstreams_tables(8) [OF o]
  show thesis
  proof (rule that [OF b o])
    show "decision_request (dr_id v) d = None" using n t by (simp add: decision_request_def)
    show "d' = d1\<lparr>decision_requests := decision_requests d @ [v]\<rparr>" using d' t by simp
  qed
qed

lemma resolve_result:
  assumes "write_eff (W_Resolve i x y b now a) d = (Inr u, d')"
  obtains r d1 where "find (\<lambda>r. dr_id r = i \<and> dr_state r = ''OPEN'') (decision_requests d) = Some r"
    "b \<Longrightarrow> resume_workstreams i (dr_blocked_from_states r) now a d = (Inr (), d1)" "\<not> b \<Longrightarrow> d1 = d"
    "only_workstreams d d1" "d' = d1\<lparr>decision_requests := map (resolved i x y now a) (decision_requests d)\<rparr>"
proof -
  obtain r :: request_row and d1 where f: "find (\<lambda>r. dr_id r = i \<and> dr_state r = ''OPEN'') (decision_requests d) = Some r"
    and s: "(if b then resume_workstreams i (dr_blocked_from_states r) now a else ret ()) d = (Inr (), d1)"
    and d': "d' = d1\<lparr>decision_requests := map (resolved i x y now a) (decision_requests d1)\<rparr>"
    using assms by (auto simp: update_where_def resolved_def [abs_def] elim!: eff_elims)
  have o: "only_workstreams d d1"
    using s by (auto simp: only_workstreams_refl split: if_splits intro: resume_frame)
  show thesis
  proof (rule that [OF f _ _ o])
    show "resume_workstreams i (dr_blocked_from_states r) now a d = (Inr (), d1)" if b using s that by simp
    show "d1 = d" if "\<not> b" using s that by simp
    show "d' = d1\<lparr>decision_requests := map (resolved i x y now a) (decision_requests d)\<rparr>"
      using d' only_workstreams_tables(8) [OF o] by simp
  qed
qed

lemma acceptance_result:
  assumes "write_eff (W_Acceptance v st now) d = (Inr u, d')"
  shows "get_job (dec_project_job_id v) d \<noteq> None \<and>
    rowcount (\<lambda>r. jb_id r = dec_project_job_id v \<and> jb_state r = ''FINISHED'') (project_jobs d) = 1 \<and>
    d' = d\<lparr>acceptance_decisions := acceptance_decisions d @ [acceptance_row_of v],
           project_jobs := map (decided (dec_project_job_id v) st now) (project_jobs d)\<rparr>"
  using assms
  by (auto simp: insert_acceptance_def set_job_state_def acceptance_row_of_def update_where_def decided_def [abs_def]
      elim!: eff_elims)

text \<open>Writes that touch none of the tables of the execution core.\<close>

fun minor :: "store_write \<Rightarrow> bool" where
  "minor (W_Envelope r) \<longleftrightarrow> False"
| "minor (W_Row nr) \<longleftrightarrow> False"
| "minor (W_Change c n) \<longleftrightarrow> False"
| "minor (W_Acceptance v st n) \<longleftrightarrow> False"
| "minor (W_Dispatch a) \<longleftrightarrow> False"
| "minor (W_Evidence r) \<longleftrightarrow> False"
| "minor (W_Request v n a) \<longleftrightarrow> False"
| "minor (W_Resolve i x y b n a) \<longleftrightarrow> False"
| "minor _ \<longleftrightarrow> True"

lemma minor_result: "write_eff w d = (Inr u, d') \<Longrightarrow> minor w \<Longrightarrow> core_same d d'"
  by (induction w rule: minor.induct) (auto simp: core_same_def log_audit_def upsert_control_def elim!: eff_elims)

lemma runtime_stepE:
  assumes "runtime_step d d'"
  obtains (same) "core_same d d'"
  | (envelope) r where "find_envelope (er_envelope_id r) (er_version r) d = None" "client_ok (W_Envelope r) d"
      "d' = d\<lparr>envelopes := envelopes d @ [r]\<rparr>"
  | (row) nr where "row_ok nr d" "new_row_ok nr d" "d' = add_row nr d"
  | (change) c now where "supported c" "legal_change c" "change_count c d = 1" "d' = change_rows c now d"
      "starts c \<Longrightarrow> start_ok (ch_identifier c) d"
  | (accept) v now att p where "decision_basis v att p d"
      "rowcount (\<lambda>r. jb_id r = dec_project_job_id v \<and> jb_state r = ''FINISHED'') (project_jobs d) = 1"
      "d' = d\<lparr>acceptance_decisions := acceptance_decisions d @ [acceptance_row_of v],
         project_jobs := map (decided (dec_project_job_id v) (job_state_value (target_state (outcome v))) now) (project_jobs d)\<rparr>"
  | (dispatch) a where "dispatch_ok a d" "dsp_attempt_id a \<notin> dsp_attempt_id ` set (dispatch_authorizations d)"
      "d' = d\<lparr>dispatch_authorizations := dispatch_authorizations d @ [a]\<rparr>"
  | (evidence) r where "evidence_ok r d" "evidence_id r \<notin> evidence_id ` set (evidence_records d)"
      "d' = d\<lparr>evidence_records := evidence_records d @ [r]\<rparr>"
  | (request) v now a d1 where "client_ok (W_Request v now a) d" "decision_request (dr_id v) d = None"
      "block_workstreams v (dr_blocked_from_states v) now a d = (Inr (), d1)" "only_workstreams d d1"
      "d' = d1\<lparr>decision_requests := decision_requests d @ [v]\<rparr>"
  | (resolve) i x y b now a r d1 where "b = (x = ''APPROVE'')"
      "find (\<lambda>r. dr_id r = i \<and> dr_state r = ''OPEN'') (decision_requests d) = Some r"
      "b \<Longrightarrow> resume_workstreams i (dr_blocked_from_states r) now a d = (Inr (), d1)" "\<not> b \<Longrightarrow> d1 = d"
      "only_workstreams d d1" "d' = d1\<lparr>decision_requests := map (resolved i x y now a) (decision_requests d)\<rparr>"
proof -
  from assms obtain w where c: "client_ok w d" and s: "write_eff w d = (Inr (), d')" by (auto elim: step_byE)
  show thesis
  proof (cases w)
    case (W_Envelope r)
    with c s show ?thesis by (intro envelope) (auto simp: insert_envelope_def elim!: eff_elims)
  next
    case (W_Row nr)
    with c s show ?thesis by (intro row) (auto simp: insert_row_def elim!: eff_elims)
  next
    case (W_Change ch now)
    with c s show ?thesis by (intro change) (auto simp: supported_def elim!: eff_elims)
  next
    case (W_Acceptance v st now)
    with c obtain att p where "decision_basis v att p d" "st = job_state_value (target_state (outcome v))" by auto
    then show ?thesis using acceptance_result [OF s [unfolded W_Acceptance]] by (intro accept) auto
  next
    case (W_Dispatch a)
    with c s show ?thesis by (intro dispatch) (auto simp: insert_dispatch_def elim!: eff_elims)
  next
    case (W_Evidence r)
    with c s show ?thesis by (intro evidence) (auto simp: insert_evidence_def elim!: eff_elims)
  next
    case (W_Request v now a)
    with c show ?thesis using request_result [OF s [unfolded W_Request]] request by metis
  next
    case (W_Resolve i x y b now a)
    with c have b: "b = (x = ''APPROVE'')" by simp
    from resolve_result [OF s [unfolded W_Resolve]] obtain r d1 where
      "find (\<lambda>r. dr_id r = i \<and> dr_state r = ''OPEN'') (decision_requests d) = Some r"
      "b \<Longrightarrow> resume_workstreams i (dr_blocked_from_states r) now a d = (Inr (), d1)" "\<not> b \<Longrightarrow> d1 = d"
      "only_workstreams d d1" "d' = d1\<lparr>decision_requests := map (resolved i x y now a) (decision_requests d)\<rparr>"
      by blast
    with b show ?thesis by (rule resolve)
  qed (rule same, rule minor_result [OF s], simp)+
qed

section \<open>Attempts\<close>

text \<open>One legal move of an Attempt row.\<close>

inductive move_row :: "attempt_row \<Rightarrow> attempt_row \<Rightarrow> bool" where
  move: "attempt_move (at_state a) y us \<Longrightarrow> move_row a (fold set_column us (a\<lparr>at_state := y, at_updated_at := now\<rparr>))"

inductive_cases move_rowE: "move_row a b"

text \<open>Every Attempt of the first database is in the second, along legal moves.\<close>

definition follows :: "db \<Rightarrow> db \<Rightarrow> bool" where
  "follows d d' \<longleftrightarrow> (\<forall>i a. get_attempt i d = Some a \<longrightarrow> (\<exists>b. get_attempt i d' = Some b \<and> move_row\<^sup>*\<^sup>* a b))"

lemma attempts_changed:
  "attempts (change_rows c now d) =
     (if ch_table c \<in> {''workstreams'', ''runs'', ''project_jobs''} then attempts d
      else update_where (\<lambda>r. at_id r = ch_identifier c \<and> at_state r = ch_expected_state c) (set_attempt c now) (attempts d))"
  by (auto simp: change_rows_def Let_def)

lemma legal_attempt_change:
  assumes "legal_change c" and "ch_table c \<notin> {''workstreams'', ''runs'', ''project_jobs''}" and "at_state a = ch_expected_state c"
  shows "move_row a (set_attempt c now a)"
  using assms unfolding set_attempt_def legal_change_def Let_def by (auto intro!: move)

lemma follows_same: "attempts d' = attempts d \<Longrightarrow> follows d d'"
  by (auto simp: follows_def get_attempt_def)

lemma follows_append: "attempts d' = attempts d @ [r] \<Longrightarrow> follows d d'"
  by (auto simp: follows_def get_attempt_def find_append)

lemma follows_change:
  assumes "legal_change c"
  shows "follows d (change_rows c now d)"
proof (cases "ch_table c \<in> {''workstreams'', ''runs'', ''project_jobs''}")
  case True
  then show ?thesis by (intro follows_same) (auto simp: attempts_changed)
next
  case False
  have "get_attempt i (change_rows c now d) =
      map_option (\<lambda>r. if at_id r = ch_identifier c \<and> at_state r = ch_expected_state c then set_attempt c now r else r)
        (get_attempt i d)" for i
    using False by (simp add: get_attempt_def attempts_changed find_update_where)
  then show ?thesis
    using legal_attempt_change [OF assms False] by (auto simp: follows_def)
qed

lemma add_row_tables:
  "attempts (add_row nr d) = (case nr of New_Attempt r \<Rightarrow> attempts d @ [r] | _ \<Rightarrow> attempts d)"
  "project_jobs (add_row nr d) = (case nr of New_Job r \<Rightarrow> project_jobs d @ [r] | _ \<Rightarrow> project_jobs d)"
  "workstreams (add_row nr d) = (case nr of New_Workstream r \<Rightarrow> workstreams d @ [r] | _ \<Rightarrow> workstreams d)"
  "envelopes (add_row nr d) = envelopes d" "acceptance_decisions (add_row nr d) = acceptance_decisions d"
  "dispatch_authorizations (add_row nr d) = dispatch_authorizations d" "evidence_records (add_row nr d) = evidence_records d"
  "decision_requests (add_row nr d) = decision_requests d"
  by (cases nr; simp)+

lemma step_follows: "runtime_step d d' \<Longrightarrow> follows d d'"
proof (erule runtime_stepE)
  show "follows d d'" if "d' = add_row nr d" for nr
    using that by (cases nr) (auto intro: follows_same follows_append)
qed (auto intro: follows_same follows_change simp: core_same_def only_workstreams_tables)

interpretation follow: step_preorder follows runtime_step
proof unfold_locales
  show "follows d d" for d by (simp add: follows_def)
  show "follows d d' \<Longrightarrow> follows d' d'' \<Longrightarrow> follows d d''" for d d' d''
    unfolding follows_def by (meson rtranclp_trans)
qed (rule step_follows)

text \<open>State, claim and reconciliation outcome of an Attempt fit together.\<close>

definition attempt_ok :: "attempt_row \<Rightarrow> bool" where
  "attempt_ok a \<longleftrightarrow>
     (at_state a \<in> {''PENDING'', ''RUNNING'', ''CANCELLED'', ''UNKNOWN'', ''NEEDS_RECONCILIATION''} \<and>
        at_result_claim a = None \<and> at_reconciliation_outcome a = None) \<or>
     (at_state a = ''FINISHED'' \<and> at_result_claim a \<noteq> None \<and>
        at_reconciliation_outcome a \<in> {None, Some ''RECOVERED_FINISHED''}) \<or>
     (at_state a = ''RECONCILED_RETRYABLE'' \<and> at_result_claim a = None \<and> at_reconciliation_outcome a = Some ''SAFE_TO_RETRY'')"

lemma move_row_ok:
  assumes "move_row a b" and "attempt_ok a"
  shows "attempt_ok b"
proof -
  obtain y us now where m: "attempt_move (at_state a) y us" and b: "b = fold set_column us (a\<lparr>at_state := y, at_updated_at := now\<rparr>)"
    using assms(1) by (auto elim: move_rowE)
  show ?thesis
    using m unfolding attempt_move_def b
    by (elim disjE conjE exE) (use assms(2) in \<open>simp_all add: attempt_ok_def\<close>)
qed

lemma move_row_finished: "move_row a b \<Longrightarrow> at_state a \<notin> {''FINISHED'', ''CANCELLED'', ''RECONCILED_RETRYABLE''}"
  by (erule move_rowE) (auto simp: attempt_move_def)

lemma changed_attempt:
  assumes "legal_change c" and "a' \<in> set (attempts (change_rows c now d))"
  shows "\<exists>a \<in> set (attempts d). a' = a \<or> move_row a a'"
proof (cases "ch_table c \<in> {''workstreams'', ''runs'', ''project_jobs''}")
  case True
  with assms(2) show ?thesis by (auto simp: attempts_changed)
next
  case False
  with assms(2) obtain a where "a \<in> set (attempts d)"
    "a' = (if at_id a = ch_identifier c \<and> at_state a = ch_expected_state c then set_attempt c now a else a)"
    by (auto simp: attempts_changed set_update_where)
  then show ?thesis using legal_attempt_change [OF assms(1) False, of a now] by (auto split: if_splits)
qed

text \<open>Every Attempt row after a step is an old row, an old row moved, or a new pending row within the limit.\<close>

lemma attempt_origin:
  assumes "runtime_step d d'" and "a' \<in> set (attempts d')"
  shows "(\<exists>a \<in> set (attempts d). a' = a \<or> move_row a a') \<or> new_row_ok (New_Attempt a') d"
  using assms(1)
proof (cases rule: runtime_stepE)
  case (row nr)
  with assms(2) show ?thesis by (cases nr) auto
next
  case (change c now)
  with assms(2) changed_attempt show ?thesis by blast
qed (use assms(2) in \<open>auto simp: core_same_def only_workstreams_tables\<close>)

lemma new_attempt_ok: "new_row_ok (New_Attempt a) d \<Longrightarrow> attempt_ok a"
  by (simp add: new_row_ok_def attempt_ok_def)

definition attempts_ok :: "db \<Rightarrow> bool" where
  "attempts_ok d \<longleftrightarrow> (\<forall>a \<in> set (attempts d). attempt_ok a)"

lemma attempts_ok_step:
  assumes "runtime_step d d'" and "attempts_ok d"
  shows "attempts_ok d'"
  unfolding attempts_ok_def
proof
  fix a' assume "a' \<in> set (attempts d')"
  from attempt_origin [OF assms(1) this] show "attempt_ok a'"
    using assms(2) move_row_ok new_attempt_ok by (auto simp: attempts_ok_def)
qed

definition limit_ok :: "db \<Rightarrow> bool" where
  "limit_ok d \<longleftrightarrow> (\<forall>a \<in> set (attempts d). 1 \<le> at_ordinal a \<and>
     (\<exists>p. envelope_of_job (at_project_job_id a) d = Some p \<and> at_ordinal a \<le> max_attempts (pl_envelope p)))"

lemma move_row_ident: "move_row a b \<Longrightarrow> at_ident b = at_ident a"
  by (erule move_rowE) (simp, simp add: at_ident_def)

lemma move_row_key: "move_row a b \<Longrightarrow> at_id b = at_id a \<and> at_project_job_id b = at_project_job_id a \<and> at_ordinal b = at_ordinal a"
  using move_row_ident [of a b] by (simp add: at_ident_def)

lemma limit_ok_step:
  assumes "runtime_step d d'" and "limit_ok d"
  shows "limit_ok d'"
  unfolding limit_ok_def
proof
  fix a' assume "a' \<in> set (attempts d')"
  from attempt_origin [OF assms(1) this]
  have "1 \<le> at_ordinal a' \<and> (\<exists>p. envelope_of_job (at_project_job_id a') d = Some p \<and> at_ordinal a' \<le> max_attempts (pl_envelope p))"
    using assms(2) by (auto simp: limit_ok_def new_row_ok_def dest: move_row_key)
  then show "1 \<le> at_ordinal a' \<and> (\<exists>p. envelope_of_job (at_project_job_id a') d' = Some p \<and> at_ordinal a' \<le> max_attempts (pl_envelope p))"
    using envelope_of_job_stable [OF step_extends [OF assms(1)]] by blast
qed

lemma attempts_bounded:
  assumes "keys_ok d" and "limit_ok d" and "envelope_of_job j d = Some p"
  shows "int (length (filter (\<lambda>a. at_project_job_id a = j) (attempts d))) \<le> max_attempts (pl_envelope p) \<or>
    filter (\<lambda>a. at_project_job_id a = j) (attempts d) = []"
proof -
  let ?as = "filter (\<lambda>a. at_project_job_id a = j) (attempts d)"
  have "distinct (map (\<lambda>a. (at_project_job_id a, at_ordinal a)) ?as)"
    using assms(1) by (simp add: keys_ok_def distinct_map_filter)
  then have dist: "distinct (map at_ordinal ?as)"
    by (auto simp: distinct_map inj_on_def)
  have sub: "at_ordinal ` set ?as \<subseteq> {1 .. max_attempts (pl_envelope p)}"
    using assms(2,3) by (auto simp: limit_ok_def)
  have "length ?as = card (at_ordinal ` set ?as)"
    using dist by (metis distinct_card length_map list.set_map)
  also have "\<dots> \<le> card {1 .. max_attempts (pl_envelope p)}"
    by (rule card_mono [OF _ sub]) simp
  finally have "length ?as \<le> nat (max_attempts (pl_envelope p))" by simp
  then show ?thesis by (cases "0 \<le> max_attempts (pl_envelope p)") (auto simp: le_nat_iff)
qed

text \<open>Every Attempt that has started was allowed to.\<close>

definition started_ok :: "db \<Rightarrow> bool" where
  "started_ok d \<longleftrightarrow> (\<forall>a \<in> set (attempts d). at_state a \<in> {''PENDING'', ''CANCELLED''} \<or> start_ok (at_id a) d)"

lemma move_row_pending: "move_row a b \<Longrightarrow> at_state a = ''PENDING'' \<Longrightarrow> at_state b \<in> {''RUNNING'', ''CANCELLED''}"
  by (erule move_rowE) (auto simp: attempt_move_def)

lemma changed_start:
  assumes "supported c" and "legal_change c" and "a \<in> set (attempts d)" and "at_state a = ''PENDING''"
    and "a' \<in> set (attempts (change_rows c now d))" and "at_id a' = at_id a" and "at_state a' = ''RUNNING''"
    and "distinct (map at_id (attempts d))"
  shows "starts c \<and> ch_identifier c = at_id a"
proof -
  let ?hit = "\<lambda>r. at_id r = ch_identifier c \<and> at_state r = ch_expected_state c"
  have "\<exists>b \<in> set (attempts d). at_id b = at_id a' \<and> (a' = b \<or> (?hit b \<and> ch_table c = ''attempts'' \<and> a' = set_attempt c now b))"
    using assms(1,5) supported_table [OF assms(1)]
    by (auto simp: attempts_changed set_update_where tables_def split: if_splits)
  then obtain b where b: "b \<in> set (attempts d)" "at_id b = at_id a'"
    "a' = b \<or> (?hit b \<and> ch_table c = ''attempts'' \<and> a' = set_attempt c now b)" by blast
  have "b = a" using b assms(3,6,8) by (auto simp: distinct_map inj_on_def)
  with b(3) assms(4,7) have "?hit a" "ch_table c = ''attempts''" "a' = set_attempt c now a" by auto
  moreover from this have "ch_target_state c = ''RUNNING''" using assms(7) by simp
  ultimately show ?thesis by (simp add: starts_def)
qed

lemma started_ok_step:
  assumes "runtime_step d d'" and "started_ok d" and "keys_ok d"
  shows "started_ok d'"
  unfolding started_ok_def
proof
  note stable = start_ok_stable [OF _ step_extends [OF assms(1)]]
  fix a' assume a': "a' \<in> set (attempts d')"
  consider (old) a where "a \<in> set (attempts d)" "a' = a \<or> move_row a a'" | (new) "at_state a' = ''PENDING''"
    using attempt_origin [OF assms(1) a'] by (auto simp: new_row_ok_def)
  then show "at_state a' \<in> {''PENDING'', ''CANCELLED''} \<or> start_ok (at_id a') d'"
  proof cases
    case old
    then have ids: "at_id a' = at_id a" using move_row_key by blast
    show ?thesis
    proof (cases "at_state a \<in> {''PENDING'', ''CANCELLED''}")
      case False
      with old(1) assms(2) have "start_ok (at_id a) d" by (auto simp: started_ok_def)
      with stable ids show ?thesis by simp
    next
      case True
      show ?thesis
      proof (rule ccontr)
        assume no: "\<not> ?thesis"
        with old(2) True have "move_row a a'" by auto
        with True no move_row_pending [of a a'] move_row_finished [of a a'] have st: "at_state a = ''PENDING''" "at_state a' = ''RUNNING''" by auto
        have dist: "distinct (map at_id (attempts d))" using assms(3) by (simp add: keys_ok_def)
        have gone: "a' \<notin> set (attempts d)"
          using old(1) ids st dist by (auto simp: distinct_map inj_on_def)
        from assms(1) show False
        proof (cases rule: runtime_stepE)
          case (change c now)
          with changed_start [OF change(1,2) old(1) st(1) _ ids st(2) dist, of now] a' have "starts c" "ch_identifier c = at_id a" by auto
          with change(5) stable ids no show False by simp
        next
          case (row nr)
          with a' gone st(2) show False by (cases nr) (auto simp: new_row_ok_def)
        qed (use a' gone in \<open>auto simp: core_same_def only_workstreams_tables\<close>)
      qed
    qed
  qed simp
qed

section \<open>Dispatch and evidence\<close>

text \<open>What stays true of a dispatch authorization once its Attempt has moved on.\<close>

definition dispatch_within :: "dispatch_authorization \<Rightarrow> db \<Rightarrow> bool" where
  "dispatch_within a d \<longleftrightarrow> (\<exists>att p.
     get_attempt (dsp_attempt_id a) d = Some att \<and>
     envelope_of_job (at_project_job_id att) d = Some p \<and> dsp_envelope_fingerprint a = pl_fingerprint p \<and>
     dsp_provider_id a \<in> set (allowed_providers (pl_envelope p)) \<and>
     provider_role a \<in> set (allowed_provider_roles (pl_envelope p)) \<and>
     set (requested_capabilities a) \<subseteq> set (allowed_capabilities (pl_envelope p)) \<and>
     set (dsp_filesystem_permissions a) \<subseteq> set (filesystem_permissions (pl_envelope p)) \<and>
     set (dsp_network_permissions a) \<subseteq> set (network_permissions (pl_envelope p)) \<and>
     set (dsp_tool_permissions a) \<subseteq> set (tool_permissions (pl_envelope p)) \<and>
     not_expired (deadline_at (pl_envelope p)) (authorized_at a) \<and>
     (\<forall>i \<in> set (credential_reference_ids a). \<exists>c \<in> set (credential_references (pl_envelope p)).
        reference_id c = i \<and> \<not> revoked c \<and> cred_provider_id c = dsp_provider_id a \<and> role c = provider_role a \<and>
        not_expired (cred_expires_at c) (authorized_at a)))"

lemma dispatch_ok_within: "dispatch_ok a d \<Longrightarrow> dispatch_within a d"
  unfolding dispatch_ok_def dispatch_within_def by blast

lemma dispatch_within_stable:
  assumes "dispatch_within a d" and "extends d d'"
  shows "dispatch_within a d'"
proof -
  from assms(1) obtain att p where att: "get_attempt (dsp_attempt_id a) d = Some att"
    and p: "envelope_of_job (at_project_job_id att) d = Some p"
    by (auto simp: dispatch_within_def)
  obtain att' where "get_attempt (dsp_attempt_id a) d' = Some att'" "at_ident att' = at_ident att"
    using get_attempt_stable [OF assms(2) att] by blast
  with assms(1) att p envelope_of_job_stable [OF assms(2) p] show ?thesis
    by (simp add: dispatch_within_def at_ident_def)
qed

lemma step_dispatches:
  assumes "runtime_step d d'"
  shows "dispatch_authorizations d' = dispatch_authorizations d \<or>
    (\<exists>a. dispatch_ok a d \<and> dispatch_authorizations d' = dispatch_authorizations d @ [a])"
  using assms by (cases rule: runtime_stepE) (auto simp: core_same_def only_workstreams_tables add_row_tables change_rows_def Let_def)

definition dispatches_ok :: "db \<Rightarrow> bool" where
  "dispatches_ok d \<longleftrightarrow> (\<forall>a \<in> set (dispatch_authorizations d). dispatch_within a d)"

lemma dispatches_ok_step:
  assumes "runtime_step d d'" and "dispatches_ok d"
  shows "dispatches_ok d'"
  unfolding dispatches_ok_def
proof
  fix a assume "a \<in> set (dispatch_authorizations d')"
  with step_dispatches [OF assms(1)] have "a \<in> set (dispatch_authorizations d) \<or> dispatch_ok a d" by auto
  then have "dispatch_within a d" using assms(2) dispatch_ok_within by (auto simp: dispatches_ok_def)
  then show "dispatch_within a d'" using step_extends [OF assms(1)] by (rule dispatch_within_stable)
qed

end
