(* ===== verification/Runtime_Decisions.thy ===== *)
theory Runtime_Decisions
  imports Runtime_Invariants
begin

text \<open>
  Invariants of decisions: what an acceptance decision rests on, that a ProjectJob is decided at most once, and
  that an open decision request keeps its Workstreams blocked until it is resolved.
\<close>

section \<open>Acceptance decisions\<close>

lemma evidence_mem: "r \<in> set (evidence ids d) \<Longrightarrow> r \<in> set (evidence_records d)"
  by (auto simp: evidence_def List.map_filter_def dest: find_SomeD split: option.splits)

lemma validate_evidence_covers:
  assumes "validate_evidence rs ids job att p" and "g \<in> set (required_evidence (pl_envelope p))"
  shows "\<exists>r \<in> set rs. evidence_bound job att p r \<and> gate r = g"
  using assms by (auto simp: validate_evidence_def list_ex_iff split: if_splits)

text \<open>What every stored decision rests on, for ever after.\<close>

definition justified :: "acceptance_row \<Rightarrow> attempt_row \<Rightarrow> env_payload \<Rightarrow> db \<Rightarrow> bool" where
  "justified c att p d \<longleftrightarrow>
     att \<in> set (attempts d) \<and> at_project_job_id att = ac_project_job_id c \<and> at_state att = ''FINISHED'' \<and>
     envelope_of_job (ac_project_job_id c) d = Some p \<and> ac_envelope_fingerprint c = Some (pl_fingerprint p) \<and>
     (\<forall>dsp \<in> set (dispatch_authorizations d). dsp_attempt_id dsp = at_id att \<longrightarrow> dsp_actor_id dsp \<noteq> ac_actor_id c) \<and>
     (ac_outcome c = ''ACCEPT'' \<longrightarrow> ac_evidence_valid c \<and>
       (require_durable_evidence (pl_envelope p) \<longrightarrow>
         (\<forall>g \<in> set (required_evidence (pl_envelope p)). \<exists>r \<in> set (evidence_records d).
            evidence_bound (ac_project_job_id c) (at_id att) p r \<and> gate r = g)))"

lemma accept_outcome: "acceptance_outcome_value r = ''ACCEPT'' \<longleftrightarrow> r = ACCEPT"
  by (cases r) simp_all

lemma decision_basis_justified:
  assumes "decision_basis v att p d" and "keys_ok d"
  shows "justified (acceptance_row_of v) att p d"
proof -
  have "dsp_actor_id dsp \<noteq> dec_actor_id v"
    if "dsp \<in> set (dispatch_authorizations d)" "dsp_attempt_id dsp = at_id att" for dsp
  proof -
    have "dispatch_authorization (at_id att) d = Some dsp"
      using that assms(2) find_distinct_key [of dsp_attempt_id "dispatch_authorizations d" dsp]
      by (simp add: dispatch_authorization_def keys_ok_def)
    with assms(1) show ?thesis by (simp add: decision_basis_def)
  qed
  then show ?thesis
    using assms(1) validate_evidence_covers evidence_mem
    by (simp add: justified_def decision_basis_def acceptance_row_of_def accept_outcome) blast
qed

lemma finished_kept:
  assumes "runtime_step d d'" and "a \<in> set (attempts d)" and "at_state a = ''FINISHED''"
  shows "a \<in> set (attempts d')"
  using assms(1)
proof (cases rule: runtime_stepE)
  case (row nr)
  with assms(2) show ?thesis by (cases nr) auto
next
  case (change c now)
  show ?thesis
  proof (cases "ch_table c \<in> {''workstreams'', ''runs'', ''project_jobs''}")
    case True
    with change(4) assms(2) show ?thesis by (auto simp: attempts_changed)
  next
    case False
    have "ch_expected_state c \<noteq> ''FINISHED''"
      using legal_attempt_change [OF change(2) False, of a now] move_row_finished assms(3) by auto
    then have "\<not> (at_id a = ch_identifier c \<and> at_state a = ch_expected_state c)" using assms(3) by simp
    with False assms(2) show ?thesis unfolding change(4) by (auto simp: attempts_changed set_update_where image_iff)
  qed
qed (use assms(2) in \<open>auto simp: core_same_def only_workstreams_tables\<close>)

lemma no_new_dispatch:
  assumes "runtime_step d d'" and "keys_ok d" and "a \<in> set (attempts d)" and "at_state a = ''FINISHED''"
    and "dsp \<in> set (dispatch_authorizations d')" and "dsp_attempt_id dsp = at_id a"
  shows "dsp \<in> set (dispatch_authorizations d)"
proof (rule ccontr)
  assume "dsp \<notin> set (dispatch_authorizations d)"
  with step_dispatches [OF assms(1)] assms(5) have "dispatch_ok dsp d" by auto
  then obtain b where b: "get_attempt (at_id a) d = Some b" "at_state b = ''PENDING''"
    by (auto simp: dispatch_ok_def assms(6))
  have "get_attempt (at_id a) d = Some a"
    using assms(2,3) find_distinct_key [of at_id "attempts d" a] by (simp add: get_attempt_def keys_ok_def)
  with b assms(4) show False by simp
qed

lemma step_evidence: "runtime_step d d' \<Longrightarrow> set (evidence_records d) \<subseteq> set (evidence_records d')"
  using step_extends [of d d'] by (auto simp: extends_def prefix_def)

lemma justified_step:
  assumes "runtime_step d d'" and "keys_ok d" and "justified c att p d"
  shows "justified c att p d'"
proof -
  note ext = step_extends [OF assms(1)]
  have att: "att \<in> set (attempts d)" "at_state att = ''FINISHED''" using assms(3) by (auto simp: justified_def)
  have p: "envelope_of_job (ac_project_job_id c) d' = Some p"
    using envelope_of_job_stable [OF ext] assms(3) by (simp add: justified_def)
  have dsp: "dsp_actor_id dsp \<noteq> ac_actor_id c"
    if "dsp \<in> set (dispatch_authorizations d')" "dsp_attempt_id dsp = at_id att" for dsp
    using no_new_dispatch [OF assms(1,2) att that] that assms(3) by (simp add: justified_def)
  have ev: "ac_outcome c = ''ACCEPT'' \<longrightarrow> ac_evidence_valid c \<and> (require_durable_evidence (pl_envelope p) \<longrightarrow>
      (\<forall>g \<in> set (required_evidence (pl_envelope p)). \<exists>r \<in> set (evidence_records d').
         evidence_bound (ac_project_job_id c) (at_id att) p r \<and> gate r = g))"
    using assms(3) step_evidence [OF assms(1)] unfolding justified_def by blast
  show ?thesis
    using assms(3) finished_kept [OF assms(1) att] p dsp ev unfolding justified_def by simp
qed

lemma step_decisions:
  assumes "runtime_step d d'"
  shows "acceptance_decisions d' = acceptance_decisions d \<or>
    (\<exists>v att p. decision_basis v att p d \<and> acceptance_decisions d' = acceptance_decisions d @ [acceptance_row_of v] \<and>
       rowcount (\<lambda>r. jb_id r = dec_project_job_id v \<and> jb_state r = ''FINISHED'') (project_jobs d) = 1)"
  using assms
  by (cases rule: runtime_stepE)
    (auto simp: core_same_def only_workstreams_tables add_row_tables change_rows_def Let_def)

definition decisions_ok :: "db \<Rightarrow> bool" where
  "decisions_ok d \<longleftrightarrow> (\<forall>c \<in> set (acceptance_decisions d). \<exists>att p. justified c att p d)"

lemma decisions_ok_step:
  assumes "runtime_step d d'" and "keys_ok d" and "decisions_ok d"
  shows "decisions_ok d'"
  unfolding decisions_ok_def
proof
  fix c assume "c \<in> set (acceptance_decisions d')"
  with step_decisions [OF assms(1)] have "c \<in> set (acceptance_decisions d) \<or>
      (\<exists>v att p. decision_basis v att p d \<and> c = acceptance_row_of v)" by auto blast
  then have "\<exists>att p. justified c att p d"
    using assms(2,3) decision_basis_justified unfolding decisions_ok_def by blast
  then show "\<exists>att p. justified c att p d'" using justified_step [OF assms(1,2)] by blast
qed

section \<open>A ProjectJob is decided once\<close>

definition settled_states :: "string list" where
  "settled_states = [''ACCEPTED'', ''REJECTED'', ''REWORK'', ''REQUIRE_APPROVAL'', ''PROMOTION_CONFLICT'', ''CANCELLED'']"

text \<open>How one step changes the state of a ProjectJob row.\<close>

definition job_step :: "db \<Rightarrow> job_row \<Rightarrow> job_row \<Rightarrow> bool" where
  "job_step d' j j' \<longleftrightarrow> jb_id j' = jb_id j \<and>
     (jb_state j' = jb_state j \<or> (jb_state j, jb_state j') \<in> set job_moves \<or> jb_state j' = ''CANCELLED'' \<or>
      (jb_state j = ''FINISHED'' \<and> (\<exists>c \<in> set (acceptance_decisions d'). ac_project_job_id c = jb_id j \<and>
         (\<exists>v. c = acceptance_row_of v \<and> jb_state j' = job_state_value (target_state (outcome v))))))"

lemma changed_job:
  assumes "legal_change c" and "j' \<in> set (project_jobs (change_rows c now d))"
  shows "\<exists>j \<in> set (project_jobs d). job_step d' j j'"
proof -
  obtain j where j: "j \<in> set (project_jobs d)" "j' = j \<or> (ch_table c = ''project_jobs'' \<and> jb_state j = ch_expected_state c \<and>
      j' = j\<lparr>jb_state := ch_target_state c, jb_updated_at := now\<rparr>)"
    using assms(2) by (auto simp: change_rows_def Let_def set_update_where split: if_splits)
  then have "job_step d' j j'"
    using assms(1) by (auto simp: job_step_def legal_change_def Let_def)
  with j show ?thesis by blast
qed

lemma job_origin:
  assumes "runtime_step d d'" and "j' \<in> set (project_jobs d')"
  shows "(\<exists>j \<in> set (project_jobs d). job_step d' j j') \<or> (jb_state j' = ''PENDING'' \<and> jb_id j' \<notin> jb_id ` set (project_jobs d))"
  using assms(1)
proof (cases rule: runtime_stepE)
  case (row nr)
  with assms(2) show ?thesis
    by (cases nr) (auto simp: new_row_ok_def get_job_None job_step_def image_iff)
next
  case (change c now)
  with assms(2) changed_job show ?thesis by blast
next
  case (accept v now att p)
  then obtain j where j: "j \<in> set (project_jobs d)"
    "j' = decided (dec_project_job_id v) (job_state_value (target_state (outcome v))) now j"
    using assms(2) by auto
  moreover have "job_step d' j j'"
    unfolding j(2) job_step_def decided_def accept(3) by (auto simp: acceptance_row_of_def)
  ultimately show ?thesis by blast
qed (use assms(2) in \<open>auto simp: core_same_def only_workstreams_tables job_step_def\<close>)

definition decided_jobs :: "db \<Rightarrow> string set" where
  "decided_jobs d = ac_project_job_id ` set (acceptance_decisions d)"

definition decided_once :: "db \<Rightarrow> bool" where
  "decided_once d \<longleftrightarrow> distinct (map ac_project_job_id (acceptance_decisions d)) \<and>
     (\<forall>j \<in> set (project_jobs d). (jb_id j \<in> decided_jobs d \<longrightarrow> jb_state j \<in> set settled_states) \<and>
       (jb_state j \<in> {''ACCEPTED'', ''PROMOTION_CONFLICT''} \<longrightarrow>
         (\<exists>c \<in> set (acceptance_decisions d). ac_project_job_id c = jb_id j \<and> ac_outcome c = ''ACCEPT'')))"

lemma settled_target: "job_state_value (target_state r) \<in> set settled_states"
  by (cases r) (simp_all add: settled_states_def)

lemma settled_moves: "x \<in> set settled_states \<Longrightarrow> (x, y) \<in> set job_moves \<Longrightarrow> x = ''ACCEPTED'' \<and> y = ''PROMOTION_CONFLICT''"
  by (auto simp: settled_states_def job_moves_def)

lemma accepted_target: "job_state_value (target_state r) \<in> {''ACCEPTED'', ''PROMOTION_CONFLICT''} \<longleftrightarrow> r = ACCEPT"
  by (cases r) simp_all

lemma decided_once_accept:
  assumes "decided_once d" and "keys_ok d"
    and one: "rowcount (\<lambda>r. jb_id r = dec_project_job_id v \<and> jb_state r = ''FINISHED'') (project_jobs d) = 1"
    and d': "d' = d\<lparr>acceptance_decisions := acceptance_decisions d @ [acceptance_row_of v],
         project_jobs := map (decided (dec_project_job_id v) (job_state_value (target_state (outcome v))) now) (project_jobs d)\<rparr>"
  shows "decided_once d'"
proof -
  let ?i = "dec_project_job_id v" and ?st = "job_state_value (target_state (outcome v))"
  obtain r where r: "r \<in> set (project_jobs d)" "jb_id r = ?i" "jb_state r = ''FINISHED''"
    using rowcount_one [OF one] by blast
  have new: "?i \<notin> decided_jobs d"
    using assms(1) r by (auto simp: decided_once_def settled_states_def)
  have unique: "j = r" if "j \<in> set (project_jobs d)" "jb_id j = ?i" for j
    using assms(2) r that by (auto simp: keys_ok_def distinct_map inj_on_def)
  have jobs: "project_jobs d' = map (decided ?i ?st now) (project_jobs d)"
    and decs: "acceptance_decisions d' = acceptance_decisions d @ [acceptance_row_of v]"
    by (simp_all add: d')
  have ids: "decided_jobs d' = insert ?i (decided_jobs d)"
    by (auto simp: decided_jobs_def decs acceptance_row_of_def)
  show ?thesis
    unfolding decided_once_def
  proof (intro conjI ballI)
    show "distinct (map ac_project_job_id (acceptance_decisions d'))"
      using assms(1) new by (auto simp: decided_once_def decs decided_jobs_def acceptance_row_of_def)
  next
    fix j' assume "j' \<in> set (project_jobs d')"
    then obtain j where j: "j \<in> set (project_jobs d)" "j' = decided ?i ?st now j" by (auto simp: jobs)
    have old: "jb_id j \<in> decided_jobs d \<longrightarrow> jb_state j \<in> set settled_states"
      "jb_state j \<in> {''ACCEPTED'', ''PROMOTION_CONFLICT''} \<longrightarrow>
         (\<exists>c \<in> set (acceptance_decisions d). ac_project_job_id c = jb_id j \<and> ac_outcome c = ''ACCEPT'')"
      using assms(1) j(1) by (auto simp: decided_once_def)
    show "jb_id j' \<in> decided_jobs d' \<longrightarrow> jb_state j' \<in> set settled_states"
    proof (cases "jb_id j = ?i")
      case True
      then show ?thesis using unique [OF j(1) True] r by (simp add: j(2) decided_def settled_target)
    next
      case False
      then show ?thesis using old(1) by (simp add: j(2) decided_def ids)
    qed
    show "jb_state j' \<in> {''ACCEPTED'', ''PROMOTION_CONFLICT''} \<longrightarrow>
        (\<exists>c \<in> set (acceptance_decisions d'). ac_project_job_id c = jb_id j' \<and> ac_outcome c = ''ACCEPT'')"
    proof (cases "jb_id j = ?i \<and> jb_state j = ''FINISHED''")
      case True
      then show ?thesis
        using accepted_target [of "outcome v"] by (auto simp: j(2) decided_def decs acceptance_row_of_def)
    next
      case False
      then have "j' = j" by (auto simp add: j(2) decided_def)
      with old(2) show ?thesis by (auto simp: decs)
    qed
  qed
qed

lemma decided_once_other:
  assumes "runtime_step d d'" and "decided_once d" and "refs_ok d" and same: "acceptance_decisions d' = acceptance_decisions d"
  shows "decided_once d'"
  unfolding decided_once_def
proof (intro conjI ballI)
  show "distinct (map ac_project_job_id (acceptance_decisions d'))"
    using assms(2) by (simp add: decided_once_def same)
next
  fix j' assume "j' \<in> set (project_jobs d')"
  have sub: "decided_jobs d' = decided_jobs d" by (simp add: decided_jobs_def same)
  have known: "decided_jobs d \<subseteq> jb_id ` set (project_jobs d)"
    using assms(3) by (auto simp: refs_ok_def decided_jobs_def)
  from job_origin [OF assms(1) \<open>j' \<in> set (project_jobs d')\<close>]
  have "(jb_id j' \<in> decided_jobs d' \<longrightarrow> jb_state j' \<in> set settled_states) \<and>
      (jb_state j' \<in> {''ACCEPTED'', ''PROMOTION_CONFLICT''} \<longrightarrow>
        (\<exists>c \<in> set (acceptance_decisions d'). ac_project_job_id c = jb_id j' \<and> ac_outcome c = ''ACCEPT''))"
  proof
    assume "jb_state j' = ''PENDING'' \<and> jb_id j' \<notin> jb_id ` set (project_jobs d)"
    with known show ?thesis by (auto simp: sub)
  next
    assume "\<exists>j \<in> set (project_jobs d). job_step d' j j'"
    then obtain j where j: "j \<in> set (project_jobs d)" and s: "job_step d' j j'" by blast
    have old: "jb_id j \<in> decided_jobs d \<Longrightarrow> jb_state j \<in> set settled_states"
      "jb_state j \<in> {''ACCEPTED'', ''PROMOTION_CONFLICT''} \<Longrightarrow>
         \<exists>c \<in> set (acceptance_decisions d). ac_project_job_id c = jb_id j \<and> ac_outcome c = ''ACCEPT''"
      using assms(2) j by (auto simp: decided_once_def)
    have undecided: "jb_state j \<noteq> ''FINISHED''" if "jb_id j \<in> decided_jobs d"
      using old(1) [OF that] by (auto simp: settled_states_def)
    from s have id: "jb_id j' = jb_id j" by (simp add: job_step_def)
    from s consider "jb_state j' = jb_state j" | "(jb_state j, jb_state j') \<in> set job_moves" | "jb_state j' = ''CANCELLED''"
      | "jb_state j = ''FINISHED''" "jb_id j \<in> decided_jobs d"
      unfolding job_step_def same decided_jobs_def by (metis imageI)
    then show ?thesis
    proof cases
      case 1
      then show ?thesis using old by (simp add: id sub same)
    next
      case 2
      have "jb_state j = ''ACCEPTED''" if "jb_state j' \<in> {''ACCEPTED'', ''PROMOTION_CONFLICT''}"
        using 2 that by (auto simp: job_moves_def)
      moreover have "jb_state j' \<in> set settled_states" if "jb_id j' \<in> decided_jobs d'"
        using settled_moves [OF old(1) 2] that by (simp add: id sub settled_states_def)
      ultimately show ?thesis using old(2) by (simp add: id same)
    next
      case 3
      then show ?thesis by (simp add: settled_states_def)
    next
      case 4
      then show ?thesis using undecided by blast
    qed
  qed
  then show "jb_id j' \<in> decided_jobs d' \<longrightarrow> jb_state j' \<in> set settled_states"
    and "jb_state j' \<in> {''ACCEPTED'', ''PROMOTION_CONFLICT''} \<longrightarrow>
        (\<exists>c \<in> set (acceptance_decisions d'). ac_project_job_id c = jb_id j' \<and> ac_outcome c = ''ACCEPT'')" by blast+
qed

lemma step_acceptance:
  assumes "runtime_step d d'"
  shows "acceptance_decisions d' = acceptance_decisions d \<or>
    (\<exists>v now. rowcount (\<lambda>r. jb_id r = dec_project_job_id v \<and> jb_state r = ''FINISHED'') (project_jobs d) = 1 \<and>
      d' = d\<lparr>acceptance_decisions := acceptance_decisions d @ [acceptance_row_of v],
         project_jobs := map (decided (dec_project_job_id v) (job_state_value (target_state (outcome v))) now) (project_jobs d)\<rparr>)"
  using assms
proof (cases rule: runtime_stepE)
  case (accept v now att p)
  then show ?thesis by blast
qed (auto simp: core_same_def only_workstreams_tables add_row_tables change_rows_def Let_def)

lemma decided_once_step:
  assumes "runtime_step d d'" and "decided_once d" and "keys_ok d" and "refs_ok d"
  shows "decided_once d'"
  using step_acceptance [OF assms(1)]
proof (elim disjE exE conjE)
  fix v now
  assume "rowcount (\<lambda>r. jb_id r = dec_project_job_id v \<and> jb_state r = ''FINISHED'') (project_jobs d) = 1"
    "d' = d\<lparr>acceptance_decisions := acceptance_decisions d @ [acceptance_row_of v],
         project_jobs := map (decided (dec_project_job_id v) (job_state_value (target_state (outcome v))) now) (project_jobs d)\<rparr>"
  then show ?thesis by (rule decided_once_accept [OF assms(2,3)])
qed (rule decided_once_other [OF assms(1,2,4)])

section \<open>Decision requests\<close>

abbreviation ws_now :: "string \<Rightarrow> db \<Rightarrow> string option" where
  "ws_now i d \<equiv> row_state ''workstreams'' i d"

lemma ws_now_get: "ws_now i d = map_option ws_state (get_workstream i d)"
  by (simp add: row_state_def)

text \<open>The effect of blocking and of resuming a list of Workstreams.\<close>

lemma block_one:
  assumes "block_workstream v (i, x) now a d = (Inr u, d')" and "keys_ok d"
  shows "keys_ok d'" and "ws_now i d = Some x" and "ws_now k d' = (if k = i then Some ''BLOCKED'' else ws_now k d)"
proof -
  let ?hit = "\<lambda>r. ws_id r = i \<and> ws_project_id r = dr_project_id v \<and> ws_state r = x"
  let ?f = "\<lambda>r. r\<lparr>ws_state := ''BLOCKED'', ws_updated_at := now\<rparr>"
  obtain au where one: "rowcount ?hit (workstreams d) = 1"
    and d': "d' = d\<lparr>workstreams := update_where ?hit ?f (workstreams d), runtime_audit := au\<rparr>"
    using assms(1) by (auto simp: block_workstream_def Let_def log_audit_def elim!: eff_elims)
  obtain r where r: "r \<in> set (workstreams d)" "?hit r" using rowcount_one [OF one] by blast
  have dist: "distinct (map ws_id (workstreams d))" using assms(2) by (simp add: keys_ok_def)
  have g: "get_workstream i d = Some r"
    using r find_distinct_key [OF dist, of r] by (simp add: get_workstream_def)
  then show "ws_now i d = Some x" using r by (simp add: ws_now_get)
  show "keys_ok d'" using assms(2) by (simp add: d' keys_ok_def map_update_where)
  have "get_workstream k d' = map_option (\<lambda>r. if ?hit r then ?f r else r) (get_workstream k d)"
    by (simp add: get_workstream_def d' find_update_where)
  then show "ws_now k d' = (if k = i then Some ''BLOCKED'' else ws_now k d)"
    using g r by (cases "get_workstream k d")
      (auto simp: ws_now_get get_workstream_def dest: find_SomeD)
qed

lemma block_effect:
  assumes "block_workstreams v bs now a d = (Inr u, d')" and "keys_ok d" and "distinct (map fst bs)"
  shows "keys_ok d' \<and> (\<forall>(i, x) \<in> set bs. ws_now i d = Some x) \<and>
    (\<forall>k. ws_now k d' = (if k \<in> fst ` set bs then Some ''BLOCKED'' else ws_now k d))"
  using assms
proof (induction bs arbitrary: d)
  case (Cons b bs)
  obtain i x where b: "b = (i, x)" by (cases b)
  from Cons.prems(1) obtain d1 where 1: "block_workstream v (i, x) now a d = (Inr (), d1)"
    and 2: "block_workstreams v bs now a d1 = (Inr u, d')"
    by (auto simp: b elim: eff_elims)
  note e = block_one [OF 1 Cons.prems(2)]
  have IH: "keys_ok d'" "\<forall>(i, x) \<in> set bs. ws_now i d1 = Some x"
    "\<forall>k. ws_now k d' = (if k \<in> fst ` set bs then Some ''BLOCKED'' else ws_now k d1)"
    using Cons.IH [OF 2 e(1)] Cons.prems(3) by auto
  have "ws_now k d = Some z" if "(k, z) \<in> set bs" for k z
  proof -
    have "k \<noteq> i" using that Cons.prems(3) b by (force simp: image_iff)
    then show ?thesis using IH(2) that e(3) [of k] by auto
  qed
  with IH e show ?case by (auto simp: b)
qed (auto elim: eff_elims)

lemma resume_one:
  assumes "keys_ok d" and "ws_now i d = Some ''BLOCKED''"
  shows "\<exists>d'. resume_workstream q (i, x) now a d = (Inr (), d') \<and> keys_ok d' \<and>
    (\<forall>k. ws_now k d' = (if k = i then Some x else ws_now k d))"
proof -
  let ?hit = "\<lambda>r. ws_id r = i \<and> ws_state r = ''BLOCKED''"
  let ?f = "\<lambda>r. r\<lparr>ws_state := x, ws_updated_at := now\<rparr>"
  have one: "rowcount ?hit (workstreams d) = 1"
    using assms rowcount_find [of ws_id "workstreams d" i ws_state "''BLOCKED''"]
    by (simp add: keys_ok_def ws_now_get get_workstream_def)
  obtain au where d': "resume_workstream q (i, x) now a d =
      (Inr (), d\<lparr>workstreams := update_where ?hit ?f (workstreams d), runtime_audit := au\<rparr>)" (is "_ = (Inr (), ?d')")
    using one by (auto simp: resume_workstream_def Let_def log_audit_def bnd_def)
  have "keys_ok ?d'" using assms(1) by (simp add: keys_ok_def map_update_where)
  moreover have "ws_now k ?d' = (if k = i then Some x else ws_now k d)" for k
    using assms(2) state_update_where [of ws_id ?f ws_state x k i "''BLOCKED''" "workstreams d"]
    by (auto simp: ws_now_get get_workstream_def)
  ultimately show ?thesis using d' by blast
qed

lemma resume_effect:
  assumes "keys_ok d" and "distinct (map fst bs)" and "\<forall>b \<in> set bs. ws_now (fst b) d = Some ''BLOCKED''"
  shows "\<exists>d'. resume_workstreams q bs now a d = (Inr (), d') \<and> keys_ok d' \<and>
    (\<forall>k. ws_now k d' = (case map_of bs k of Some x \<Rightarrow> Some x | None \<Rightarrow> ws_now k d))"
  using assms
proof (induction bs arbitrary: d)
  case (Cons b bs)
  obtain i x where b: "b = (i, x)" by (cases b)
  obtain d1 where 1: "resume_workstream q (i, x) now a d = (Inr (), d1)" "keys_ok d1"
    "\<forall>k. ws_now k d1 = (if k = i then Some x else ws_now k d)"
    using resume_one [OF Cons.prems(1), of i q x now a] Cons.prems(3) b by auto
  have "\<forall>b \<in> set bs. ws_now (fst b) d1 = Some ''BLOCKED''"
    using Cons.prems(2,3) 1(3) b by force
  with Cons.IH [OF 1(2)] Cons.prems(2) obtain d' where 2: "resume_workstreams q bs now a d1 = (Inr (), d')" "keys_ok d'"
    "\<forall>k. ws_now k d' = (case map_of bs k of Some y \<Rightarrow> Some y | None \<Rightarrow> ws_now k d1)" by auto
  have "map_of bs i = None" using Cons.prems(2) b by (auto simp: map_of_eq_None_iff)
  then have "ws_now k d' = (case map_of (b # bs) k of Some y \<Rightarrow> Some y | None \<Rightarrow> ws_now k d)" for k
    using 2(3) 1(3) by (cases "map_of bs k") (auto simp: b)
  moreover have "resume_workstreams q (b # bs) now a d = (Inr (), d')"
    using 1(1) 2(1) by (simp add: b)
  ultimately show ?case using 2(2) by blast
qed simp

text \<open>Open requests block exactly their own Workstreams, and no two of them share one.\<close>

definition requests_ok :: "db \<Rightarrow> bool" where
  "requests_ok d \<longleftrightarrow>
     (\<forall>q \<in> set (decision_requests d). dr_state q = ''OPEN'' \<longrightarrow> distinct (map fst (dr_blocked_from_states q)) \<and>
        (\<forall>b \<in> set (dr_blocked_from_states q). ws_now (fst b) d = Some ''BLOCKED'')) \<and>
     (\<forall>q \<in> set (decision_requests d). \<forall>q' \<in> set (decision_requests d).
        dr_state q = ''OPEN'' \<longrightarrow> dr_state q' = ''OPEN'' \<longrightarrow> dr_id q \<noteq> dr_id q' \<longrightarrow>
        fst ` set (dr_blocked_from_states q) \<inter> fst ` set (dr_blocked_from_states q') = {})"

lemma requests_kept:
  assumes "requests_ok d" and "decision_requests d' = decision_requests d"
    and "\<And>i. ws_now i d = Some ''BLOCKED'' \<Longrightarrow> ws_now i d' = Some ''BLOCKED''"
  shows "requests_ok d'"
  using assms unfolding requests_ok_def by simp

lemma ws_now_cong: "workstreams d' = workstreams d \<Longrightarrow> ws_now i d' = ws_now i d"
  by (simp add: ws_now_get get_workstream_def)

lemma requests_ok_request:
  assumes "requests_ok d" and "keys_ok d" and "client_ok (W_Request v now a) d" and "decision_request (dr_id v) d = None"
    and block: "block_workstreams v (dr_blocked_from_states v) now a d = (Inr (), d1)"
    and d': "d' = d1\<lparr>decision_requests := decision_requests d @ [v]\<rparr>"
  shows "requests_ok d'"
proof -
  let ?ids = "\<lambda>q. fst ` set (dr_blocked_from_states q)"
  have dist: "distinct (map fst (dr_blocked_from_states v))" using assms(3) by simp
  note e = block_effect [OF block assms(2) dist]
  have now: "ws_now k d' = (if k \<in> ?ids v then Some ''BLOCKED'' else ws_now k d)" for k
    using e ws_now_cong [of d' d1 k] by (simp add: d')
  have fresh: "?ids q \<inter> ?ids v = {}" if "q \<in> set (decision_requests d)" "dr_state q = ''OPEN''" for q
  proof -
    have "ws_now i d = Some ''BLOCKED''" if "i \<in> ?ids q" for i
      using assms(1) \<open>q \<in> _\<close> \<open>dr_state q = _\<close> that by (auto simp: requests_ok_def)
    moreover have "ws_now i d \<noteq> Some ''BLOCKED''" if "i \<in> ?ids v" for i
      using that e assms(3) by fastforce
    ultimately show ?thesis by blast
  qed
  have old: "distinct (map fst (dr_blocked_from_states q)) \<and> (\<forall>b \<in> set (dr_blocked_from_states q). ws_now (fst b) d' = Some ''BLOCKED'')"
    if "q \<in> set (decision_requests d)" "dr_state q = ''OPEN''" for q
    using assms(1) that by (auto simp: requests_ok_def now)
  have new: "\<forall>b \<in> set (dr_blocked_from_states v). ws_now (fst b) d' = Some ''BLOCKED''" by (simp add: now)
  have reqs: "decision_requests d' = decision_requests d @ [v]" by (simp add: d')
  show ?thesis
    unfolding requests_ok_def reqs
  proof (intro conjI ballI impI, goal_cases)
    case (3 q q')
    have "?ids q \<inter> ?ids q' = {}" if "q \<in> set (decision_requests d)" "q' \<in> set (decision_requests d)"
      using assms(1) 3(3-5) that unfolding requests_ok_def by blast
    moreover have "q \<in> set (decision_requests d) \<or> q = v" "q' \<in> set (decision_requests d) \<or> q' = v" using 3 by auto
    ultimately show ?case using 3(3-5) fresh [of q] fresh [of q'] by blast
  qed (use old dist new in auto)
qed

lemma resolved_open: "dr_state (resolved i x y now a q) = ''OPEN'' \<longleftrightarrow> dr_state q = ''OPEN'' \<and> dr_id q \<noteq> i"
  and resolved_fields [simp]: "dr_id (resolved i x y now a q) = dr_id q"
    "dr_blocked_from_states (resolved i x y now a q) = dr_blocked_from_states q"
  by (auto simp: resolved_def)

lemma requests_ok_resolve:
  assumes "requests_ok d" and "keys_ok d"
    and found: "find (\<lambda>r. dr_id r = i \<and> dr_state r = ''OPEN'') (decision_requests d) = Some r"
    and resume: "b \<Longrightarrow> resume_workstreams i (dr_blocked_from_states r) now a d = (Inr (), d1)" and "\<not> b \<Longrightarrow> d1 = d"
    and d': "d' = d1\<lparr>decision_requests := map (resolved i x y now a) (decision_requests d)\<rparr>"
  shows "requests_ok d'"
proof -
  let ?ids = "\<lambda>q. fst ` set (dr_blocked_from_states q)"
  have r: "r \<in> set (decision_requests d)" "dr_id r = i" "dr_state r = ''OPEN''" using find_SomeD [OF found] by auto
  have rb: "distinct (map fst (dr_blocked_from_states r))" "\<forall>b \<in> set (dr_blocked_from_states r). ws_now (fst b) d = Some ''BLOCKED''"
    using assms(1) r by (auto simp: requests_ok_def)
  have now: "ws_now k d' = ws_now k d" if "k \<notin> ?ids r" for k
  proof (cases b)
    case True
    obtain d2 where "resume_workstreams i (dr_blocked_from_states r) now a d = (Inr (), d2)"
      "\<forall>k. ws_now k d2 = (case map_of (dr_blocked_from_states r) k of Some x \<Rightarrow> Some x | None \<Rightarrow> ws_now k d)"
      using resume_effect [OF assms(2) rb, of i now a] by blast
    with resume [OF True] have "ws_now k d1 = ws_now k d" using that by (auto simp: map_of_eq_None_iff split: option.splits)
    then show ?thesis using ws_now_cong [of d' d1 k] by (simp add: d')
  next
    case False
    with assms(5) show ?thesis using ws_now_cong [of d' d1 k] by (simp add: d')
  qed
  have apart: "?ids q \<inter> ?ids r = {}" if "q \<in> set (decision_requests d)" "dr_state q = ''OPEN''" "dr_id q \<noteq> i" for q
    using assms(1) r that by (auto simp: requests_ok_def)
  have keep: "distinct (map fst (dr_blocked_from_states q)) \<and> (\<forall>b \<in> set (dr_blocked_from_states q). ws_now (fst b) d' = Some ''BLOCKED'')"
    if q: "q \<in> set (decision_requests d)" "dr_state q = ''OPEN''" "dr_id q \<noteq> i" for q
  proof -
    have "ws_now (fst b) d' = Some ''BLOCKED''" if "b \<in> set (dr_blocked_from_states q)" for b
    proof -
      have "fst b \<notin> ?ids r" using apart [OF q] that by auto
      then show ?thesis using now assms(1) q that by (simp add: requests_ok_def)
    qed
    then show ?thesis using assms(1) q by (auto simp: requests_ok_def)
  qed
  have reqs: "decision_requests d' = map (resolved i x y now a) (decision_requests d)" by (simp add: d')
  show ?thesis
    unfolding requests_ok_def reqs
    using keep assms(1) by (auto simp: resolved_open requests_ok_def [of d])
qed

lemma blocked_change:
  assumes "supported c" and "legal_change c" and "ws_now i d = Some ''BLOCKED''"
  shows "ws_now i (change_rows c now d) = Some ''BLOCKED''"
proof -
  have "\<not> ((''workstreams'', i) = change_key c \<and> ws_now i d = Some (ch_expected_state c))"
    using assms(2,3) by (auto simp: change_key_def legal_change_def Let_def workstream_moves_def)
  then show ?thesis
    using row_state_change_rows [of "''workstreams''" c i now d] supported_table [OF assms(1)] assms(3)
    by (auto simp add: tables_def)
qed

lemma requests_ok_step:
  assumes "runtime_step d d'" and "requests_ok d" and "keys_ok d"
  shows "requests_ok d'"
  using assms(1)
proof (cases rule: runtime_stepE)
  case (row nr)
  show ?thesis
    by (rule requests_kept [OF assms(2)])
      (use row(3) in \<open>auto simp: add_row_tables ws_now_get get_workstream_def find_append split: new_row.splits option.splits\<close>)
next
  case (change c now)
  show ?thesis
  proof (rule requests_kept [OF assms(2)])
    show "decision_requests d' = decision_requests d" by (simp add: change(4) change_rows_def Let_def)
    show "ws_now i d' = Some ''BLOCKED''" if "ws_now i d = Some ''BLOCKED''" for i
      unfolding change(4) by (rule blocked_change [OF change(1,2) that])
  qed
next
  case (request v now a d1)
  show ?thesis by (rule requests_ok_request [OF assms(2,3) request(1,2,3,5)])
next
  case (resolve i x y b now a r d1)
  show ?thesis by (rule requests_ok_resolve [OF assms(2,3) resolve(2,3,4,6)])
qed (rule requests_kept [OF assms(2)], auto simp: core_same_def ws_now_get get_workstream_def)+

section \<open>The invariant of the runtime\<close>

definition runtime_inv :: "db \<Rightarrow> bool" where
  "runtime_inv d \<longleftrightarrow> keys_ok d \<and> refs_ok d \<and> audit_ok d \<and> attempts_ok d \<and> limit_ok d \<and> started_ok d \<and> dispatches_ok d \<and> decisions_ok d \<and>
     decided_once d \<and> requests_ok d"

interpretation runtime: invariant_system runtime_step runtime_inv
proof unfold_locales
  fix d d' assume i: "runtime_inv d" and s: "runtime_step d d'"
  have "keys_ok d'" "refs_ok d'" "audit_ok d'"
    using i keys.step_R [OF s] refs.step_R [OF s] aud.step_R [OF s] by (auto simp: preserves_def runtime_inv_def)
  then show "runtime_inv d'"
    using i attempts_ok_step [OF s] limit_ok_step [OF s] started_ok_step [OF s] dispatches_ok_step [OF s] decisions_ok_step [OF s]
      decided_once_step [OF s] requests_ok_step [OF s] by (simp add: runtime_inv_def)
qed

lemma runtime_inv_empty: "runtime_inv empty_db"
  by (simp add: runtime_inv_def empty_db_def keys_ok_def refs_ok_def audit_ok_def attempts_ok_def limit_ok_def started_ok_def dispatches_ok_def
      decisions_ok_def decided_once_def decided_jobs_def requests_ok_def)

lemma runtime_inv_ops: "runtime_inv (store_db w) \<Longrightarrow> runtime_inv (store_db (run_ops env ops w))"
  by (rule runtime.reach_inv [OF run_ops_reach])

lemma runtime_inv_new: "runtime_inv (store_db (run_ops env ops new_world))"
  by (rule runtime_inv_ops) (simp add: new_world_def runtime_inv_empty)

end
