(* ===== verification/Demo_Run.thy ===== *)
theory Demo_Run
  imports Runtime_Decisions
begin

text \<open>
  A concrete history of the service, for the witnesses of the end-to-end properties: a Run under an Envelope that names
  a provider is bootstrapped, dispatched, finished, evidenced and accepted. It is evaluated in the kernel; what
  the audit entries say is left symbolic there.
\<close>

section \<open>Evaluation with a symbolic audit trail\<close>

definition audited :: "string \<Rightarrow> actor_like \<Rightarrow> string \<Rightarrow> string \<Rightarrow> int \<Rightarrow> (string \<times> json) list \<Rightarrow> string option \<Rightarrow>
    audit_row list \<Rightarrow> audit_row list" where
  [code del]: "audited ev a ty i t p c au = au @ [audit_entry ev a ty i t p c (empty_db\<lparr>runtime_audit := au\<rparr>)]"

lemma log_audit_audited [code]:
  "log_audit ev a ty i t p c = modify (\<lambda>d. d\<lparr>runtime_audit := audited ev a ty i t p c (runtime_audit d)\<rparr>)"
  by (simp add: log_audit_def audited_def audit_entry_def)

section \<open>The history\<close>

definition demo_env :: runtime_env where
  "demo_env = \<lparr>clock_reading = (\<lambda>_. 50), uuid_text = (\<lambda>n. replicate n CHR ''u''), sha_json = (\<lambda>_. ''f''),
     token_text = (\<lambda>_. ''tok''), sha_text = (\<lambda>s. s)\<rparr>"

definition demo_service :: service where
  "demo_service = (let t = \<lparr>holder_id = ''svc'', generation = 1, expires_at = 110\<rparr> in
     \<lparr>sv_coordinator = \<lparr>co_holder_id = ''svc'', co_lease_seconds = 60, co_token = t\<rparr>, sv_acceptance_token = t\<rparr>)"

definition demo_user :: actor_principal where
  "demo_user = \<lparr>actor_id = ''ana'', actor_type = AT_USER, authenticated = True, authentication_method = ''os'',
     direct_permissions = [''*''], delegation = None\<rparr>"

definition demo_agent :: actor_principal where
  "demo_agent = \<lparr>actor_id = ''svc'', actor_type = AT_ARTIFEX_SERVICE, authenticated = True, authentication_method = ''os'',
     direct_permissions = [''*''], delegation = None\<rparr>"

definition demo_envelope :: execution_envelope where
  "demo_envelope = sample_envelope\<lparr>allowed_providers := [''codex''], allowed_provider_roles := [''writer'']\<rparr>"

definition demo_evidence :: evidence_record where
  "demo_evidence = \<lparr>evidence_id = ''e1'', ev_project_job_id = ''j'', ev_attempt_id = ''a'', gate = ''unit'', passed = True,
     ev_envelope_fingerprint = ''f'', ev_baseline_revision = 1, artifact_ref = ''log'', artifact_digest = ''d'',
     ev_actor_id = ''qa'', recorded_at = 50\<rparr>"

definition demo_dispatch :: dispatch_request where
  "demo_dispatch = \<lparr>rq_provider_id = ''codex'', rq_provider_role = ''writer'', rq_capabilities = [''code''],
     rq_filesystem = [''READ''], rq_network = [], rq_tools = [], rq_credentials = []\<rparr>"

definition start_ops :: "service_op list" where
  "start_ops = [Op_Start ''svc'' 60,
     Op_Bootstrap demo_envelope ''w'' ''r'' ''j'' ''a'' ''build'' (Actor_String ''svc'') (Some demo_user) None,
     Op_Authorize_Dispatch ''a'' demo_dispatch demo_agent None]"

definition accept_ops :: "service_op list" where
  "accept_ops = [Op_Finish ''a'' ''done'' (Principal demo_agent) None, Op_Evidence demo_evidence (Actor_String ''qa'') None,
     Op_Accept ''j'' True (Principal demo_user) ''ok'' [''e1''] None]"

definition demo_world :: "service_op list \<Rightarrow> world" where
  "demo_world ops = run_ops demo_env (map (Pair demo_service) ops) new_world"

lemma demo_started:
  "let d = store_db (demo_world start_ops) in
   (map at_state (attempts d), map jb_state (project_jobs d), map rn_state (runs d), map ws_state (workstreams d),
    map dsp_actor_id (dispatch_authorizations d)) =
   ([''RUNNING''], [''RUNNING''], [''RUNNING''], [''ACTIVE''], [''svc''])"
  by code_simp

lemma demo_accepted:
  "let d = store_db (demo_world (start_ops @ accept_ops)) in
   (map at_state (attempts d), map jb_state (project_jobs d), map rn_state (runs d), map ws_state (workstreams d),
    map ac_outcome (acceptance_decisions d)) =
   ([''FINISHED''], [''ACCEPTED''], [''COMPLETED''], [''COMPLETE''], [''ACCEPT''])"
  by code_simp

end
