(* ===== verification/Json_Values.thy ===== *)
theory Json_Values
  imports Runtime_Models
begin

text \<open>
  How the decoders of the Project store read JSON values: item access, the coercions \<open>str\<close>, \<open>int\<close>, \<open>bool\<close> and
  \<open>float\<close> of Python on decoded values, and the helpers at the end of \<open>src/artifex/project/model.py\<close>.

  The text of a floating-point number and its parsing are parameters (\<open>py_float\<close>); everything else is defined.
\<close>

section \<open>Items\<close>

type_synonym obj = "(string \<times> json) list"

text \<open>\<open>value[key]\<close> and \<open>value.get(key, default)\<close>\<close>

definition item :: "obj \<Rightarrow> string \<Rightarrow> json res" where
  "item v k = (case map_of v k of None \<Rightarrow> Inl KeyError | Some j \<Rightarrow> Inr j)"

definition item_or :: "obj \<Rightarrow> string \<Rightarrow> json \<Rightarrow> json" where
  "item_or v k d = (case map_of v k of None \<Rightarrow> d | Some j \<Rightarrow> j)"

section \<open>Helpers of the decoders\<close>

fun mapping_of :: "json \<Rightarrow> obj res" where
  "mapping_of (JObj kvs) = Inr kvs"
| "mapping_of _ = Inl ValueError"

fun mapping_sequence :: "json \<Rightarrow> obj list res" where
  "mapping_sequence (JArr xs) = rmap mapping_of xs"
| "mapping_sequence _ = Inl ValueError"

fun only_string :: "json \<Rightarrow> string res" where
  "only_string (JStr s) = Inr s"
| "only_string _ = Inl ValueError"

fun string_sequence :: "json \<Rightarrow> string list res" where
  "string_sequence (JArr xs) = rmap only_string xs"
| "string_sequence _ = Inl ValueError"

fun optional_string :: "json \<Rightarrow> string option res" where
  "optional_string JNull = Inr None"
| "optional_string (JStr s) = Inr (Some s)"
| "optional_string _ = Inl ValueError"

fun optional_bool :: "json \<Rightarrow> bool option res" where
  "optional_bool JNull = Inr None"
| "optional_bool (JBool b) = Inr (Some b)"
| "optional_bool _ = Inl ValueError"

section \<open>Coercions of Python\<close>

record py_float =
  float_text :: "int \<Rightarrow> int \<Rightarrow> string"
  float_parse :: "string \<Rightarrow> (int \<times> int) option"

fun nat_text :: "nat \<Rightarrow> string" where
  "nat_text n = (if n < 10 then [char_of (48 + n)] else nat_text (n div 10) @ [char_of (48 + n mod 10)])"

definition int_text :: "int \<Rightarrow> string" where
  "int_text i = (if i < 0 then CHR ''-'' # nat_text (nat (- i)) else nat_text (nat i))"

text \<open>\<open>repr\<close> of a string: single quotes unless it contains them and no double ones.\<close>

definition repr_char :: "char \<Rightarrow> char \<Rightarrow> string" where
  "repr_char q c = (let n = ccode c in
     if c = q \<or> n = 92 then [CHR 0x5C, c]
     else if n = 9 then [CHR 0x5C, CHR ''t'']
     else if n = 10 then [CHR 0x5C, CHR ''n'']
     else if n = 13 then [CHR 0x5C, CHR ''r'']
     else if n < 32 \<or> (127 \<le> n \<and> n \<le> 160) \<or> n = 173
       then [CHR 0x5C, CHR ''x'', hex_char (n div 16), hex_char (n mod 16)]
     else [c])"

definition repr_string :: "string \<Rightarrow> string" where
  "repr_string s = (let q = (if CHR 0x27 \<in> set s \<and> CHR 0x22 \<notin> set s then CHR 0x22 else CHR 0x27) in
     q # concat (map (repr_char q) s) @ [q])"

fun py_repr :: "py_float \<Rightarrow> json \<Rightarrow> string" where
  "py_repr py JNull = ''None''"
| "py_repr py (JBool b) = (if b then ''True'' else ''False'')"
| "py_repr py (JInt i) = int_text i"
| "py_repr py (JFloat m e) = float_text py m e"
| "py_repr py (JStr s) = repr_string s"
| "py_repr py (JArr xs) = ''['' @ comma_join (map (py_repr py) xs) @ '']''"
| "py_repr py (JObj kvs) = ''{'' @ comma_join (map (\<lambda>(k, v). repr_string k @ '': '' @ py_repr py v) kvs) @ ''}''"

fun py_str :: "py_float \<Rightarrow> json \<Rightarrow> string" where
  "py_str py (JStr s) = s"
| "py_str py j = py_repr py j"

text \<open>
  \<open>int\<close> of text: surrounding whitespace, a sign, and digits that single underscores may separate.
\<close>

definition int_digits :: "string \<Rightarrow> int" where
  "int_digits s = foldl (\<lambda>n c. 10 * n + int (ccode c - 48)) 0 s"

definition parse_digits :: "string \<Rightarrow> int res" where
  "parse_digits s = (let groups = split_on CHR ''_'' s in
     if list_all (\<lambda>g. g \<noteq> [] \<and> list_all is_digit g) groups then Inr (int_digits (concat groups)) else Inl ValueError)"

fun parse_signed :: "string \<Rightarrow> int res" where
  "parse_signed [] = Inl ValueError"
| "parse_signed (c # s) =
     (if c = CHR ''-'' then rbind (parse_digits s) (\<lambda>n. Inr (- n))
      else if c = CHR ''+'' then parse_digits s
      else parse_digits (c # s))"

text \<open>A floating-point number is truncated towards zero.\<close>

definition float_int :: "int \<Rightarrow> int \<Rightarrow> int" where
  "float_int m e = (if 0 \<le> e then m * 2 ^ nat e else sgn m * (\<bar>m\<bar> div 2 ^ nat (- e)))"

fun py_int :: "json \<Rightarrow> int res" where
  "py_int (JInt i) = Inr i"
| "py_int (JBool b) = Inr (if b then 1 else 0)"
| "py_int (JFloat m e) = Inr (float_int m e)"
| "py_int (JStr s) = parse_signed (strip s)"
| "py_int _ = Inl TypeError"

fun py_bool :: "json \<Rightarrow> bool" where
  "py_bool JNull \<longleftrightarrow> False"
| "py_bool (JBool b) \<longleftrightarrow> b"
| "py_bool (JInt i) \<longleftrightarrow> i \<noteq> 0"
| "py_bool (JFloat m e) \<longleftrightarrow> m \<noteq> 0"
| "py_bool (JStr s) \<longleftrightarrow> s \<noteq> []"
| "py_bool (JArr xs) \<longleftrightarrow> xs \<noteq> []"
| "py_bool (JObj kvs) \<longleftrightarrow> kvs \<noteq> []"

text \<open>
  \<open>float\<close>. Integers are kept exact: those a double cannot hold are outside every range the callers accept.
\<close>

fun to_float :: "py_float \<Rightarrow> json \<Rightarrow> (int \<times> int) res" where
  "to_float py (JFloat m e) = Inr (m, e)"
| "to_float py (JInt i) = Inr (i, 0)"
| "to_float py (JBool b) = Inr (if b then 1 else 0, 0)"
| "to_float py (JStr s) = (case float_parse py s of None \<Rightarrow> Inl ValueError | Some f \<Rightarrow> Inr f)"
| "to_float py _ = Inl TypeError"

definition unit_interval :: "int \<times> int \<Rightarrow> bool" where
  "unit_interval = (\<lambda>(m, e). 0 \<le> m \<and> (if 0 \<le> e then m * 2 ^ nat e \<le> 1 else m \<le> 2 ^ nat (- e)))"

text \<open>\<open>str(value) if value is not None else None\<close>\<close>

definition str_or_none :: "py_float \<Rightarrow> json \<Rightarrow> string option" where
  "str_or_none py j = (if j = JNull then None else Some (py_str py j))"

section \<open>What the encoders write is read back\<close>

lemma item_Cons [simp]: "item ((k, j) # v) k' = (if k = k' then Inr j else item v k')"
  by (simp add: item_def)

lemma item_or_Cons [simp]: "item_or ((k, j) # v) k' d = (if k = k' then j else item_or v k' d)"
  by (simp add: item_or_def)

lemma item_or_Nil [simp]: "item_or [] k d = d"
  by (simp add: item_or_def)

lemma rmap_map: "rmap f (map g xs) = rmap (\<lambda>x. f (g x)) xs"
  by (induction xs) simp_all

lemma rmap_Inr_all: "(\<And>x. x \<in> set xs \<Longrightarrow> f x = Inr (g x)) \<Longrightarrow> rmap f xs = Inr (map g xs)"
  by (induction xs) simp_all

lemma string_sequence_jstrs [simp]: "string_sequence (jstrs xs) = Inr xs"
  by (simp add: jstrs_def rmap_map rmap_Inr_all [where g = "\<lambda>x. x"])

lemma rmap_objs [simp]: "rmap mapping_of (map (\<lambda>x. JObj (f x)) xs) = Inr (map f xs)"
  by (simp add: rmap_map rmap_Inr_all [where g = f])

lemma jopt_simps [simp]: "jopt f None = JNull" "jopt f (Some x) = f x"
  by (simp_all add: jopt_def)

lemma optional_string_jopt [simp]: "optional_string (jopt JStr x) = Inr x"
  by (cases x) (simp_all add: jopt_def)

lemma optional_bool_jopt [simp]: "optional_bool (jopt JBool x) = Inr x"
  by (cases x) (simp_all add: jopt_def)

lemma str_or_none_jopt [simp]: "str_or_none py (jopt JStr x) = x"
  by (cases x) (simp_all add: jopt_def str_or_none_def)

end
