(* ===== verification/Project_Paths.thy ===== *)
theory Project_Paths
  imports Json_Values
begin

text \<open>
  Models \<open>src/artifex/project/paths.py\<close>: the canonical form of repository paths, portable across hosts. That a
  path stays below the Project root once symbolic links are resolved is a fact of the file system, a parameter of
  the store that uses it.
\<close>

section \<open>Definitions\<close>

definition windows_forbidden :: "char list" where
  "windows_forbidden = ''<>:|?*'' @ [CHR 0x22]"

definition windows_reserved :: "string list" where
  "windows_reserved = [''CON'', ''PRN'', ''AUX'', ''NUL''] @
     map (\<lambda>n. ''COM'' @ nat_text n) [1..<10] @ map (\<lambda>n. ''LPT'' @ nat_text n) [1..<10]"

text \<open>\<open>^[A-Za-z]:\<close>\<close>

fun windows_drive :: "string \<Rightarrow> bool" where
  "windows_drive (c # d # _) \<longleftrightarrow> (is_upper c \<or> is_lower c) \<and> d = CHR '':''"
| "windows_drive _ \<longleftrightarrow> False"

definition portable_part :: "string \<Rightarrow> bool" where
  "portable_part part \<longleftrightarrow>
     \<not> (suffix '' '' part \<or> suffix ''.'' part \<or> list_ex (\<lambda>c. c \<in> set windows_forbidden \<or> ccode c < 32) part) \<and>
     upper (takeWhile (\<lambda>c. c \<noteq> CHR ''.'') part) \<notin> set windows_reserved"

definition normalize_relative_path :: "string \<Rightarrow> string res" where
  "normalize_relative_path path =
     (if path = [] \<or> list_ex (\<lambda>c. ccode c = 0) path then Inl UnsafePathError
      else let portable = to_slashes path in
      if prefix ''/'' portable \<or> windows_drive portable then Inl UnsafePathError
      else let parts = split_on CHR ''/'' portable in
      if list_ex (\<lambda>part. part \<in> {[], ''.'', ''..''}) parts then Inl UnsafePathError
      else if \<not> list_all portable_part parts then Inl UnsafePathError
      else Inr (as_posix parts))"

section \<open>Canonical paths\<close>

lemma join_split: "join_with d (split_on d s) = s"
proof (induction s)
  case (Cons c cs)
  obtain w ws where "split_on d cs = w # ws" using split_on_not_Nil [of d cs] by (auto simp: neq_Nil_conv simp del: split_on_not_Nil)
  with Cons show ?case by (cases ws) auto
qed simp

lemma to_slashes_idem: "to_slashes (to_slashes s) = to_slashes s"
  by (simp add: to_slashes_def ccode_def)

lemma to_slashes_no_backslash: "CHR 0x5C \<notin> set (to_slashes s)"
  by (auto simp: to_slashes_def ccode_def)

lemma to_slashes_Nil: "to_slashes s = [] \<longleftrightarrow> s = []"
  by (simp add: to_slashes_def)

lemma to_slashes_nul: "list_ex (\<lambda>c. ccode c = 0) (to_slashes s) \<longleftrightarrow> list_ex (\<lambda>c. ccode c = 0) s"
  by (induction s) (auto simp: to_slashes_def ccode_def)

lemma normalize_Inr:
  assumes "normalize_relative_path p = Inr n"
  shows "n = to_slashes p" and "n \<noteq> []" and "\<not> prefix ''/'' n" and "\<not> windows_drive n"
    and "list_all (\<lambda>part. part \<notin> {[], ''.'', ''..''} \<and> portable_part part) (split_on CHR ''/'' n)"
proof -
  let ?parts = "split_on CHR ''/'' (to_slashes p)"
  from assms have p: "p \<noteq> []" "\<not> prefix ''/'' (to_slashes p)" "\<not> windows_drive (to_slashes p)"
    "\<not> list_ex (\<lambda>part. part \<in> {[], ''.'', ''..''}) ?parts" "list_all portable_part ?parts" "n = as_posix ?parts"
    by (auto simp: normalize_relative_path_def Let_def split: if_splits)
  have "as_posix ?parts = to_slashes p" by (simp add: as_posix_def join_split)
  with p show "n = to_slashes p" by simp
  with p show "n \<noteq> []" "\<not> prefix ''/'' n" "\<not> windows_drive n"
    "list_all (\<lambda>part. part \<notin> {[], ''.'', ''..''} \<and> portable_part part) (split_on CHR ''/'' n)"
    by (auto simp: to_slashes_Nil list_ex_iff list_all_iff)
qed

lemma normalize_idem:
  assumes "normalize_relative_path p = Inr n"
  shows "normalize_relative_path n = Inr n"
proof -
  have n: "n = to_slashes p" by (rule normalize_Inr(1) [OF assms])
  have "normalize_relative_path (to_slashes p) = normalize_relative_path p"
    by (simp add: normalize_relative_path_def to_slashes_idem to_slashes_nul to_slashes_Nil)
  with assms n show ?thesis by simp
qed

lemma normalize_err: "normalize_relative_path p = Inl e \<Longrightarrow> e = UnsafePathError"
  by (auto simp: normalize_relative_path_def Let_def split: if_splits)

text \<open>
  Repository paths have one canonical spelling: an accepted path is returned with forward slashes and nothing else
  changed, is its own canonical form, is relative, and has no empty, current-directory or parent component and no component
  that a supported host would refuse or interpret; every other path is refused with the same error.
\<close>

theorem normalize_canonical:
  "(case normalize_relative_path p of
      Inl e \<Rightarrow> e = UnsafePathError
    | Inr n \<Rightarrow> n = to_slashes p \<and> normalize_relative_path n = Inr n \<and> CHR 0x5C \<notin> set n \<and> \<not> prefix ''/'' n \<and> \<not> windows_drive n \<and>
        list_all (\<lambda>part. part \<notin> {[], ''.'', ''..''} \<and> portable_part part) (split_on CHR ''/'' n))"
  using normalize_Inr [of p] normalize_idem [of p] normalize_err [of p] to_slashes_no_backslash [of p]
  by (cases "normalize_relative_path p") auto

end
