(* ===== verification/Project_Model.thy ===== *)
theory Project_Model
  imports Project_Paths
begin

text \<open>
  Models \<open>src/artifex/project/model.py\<close> and the Git state of \<open>src/artifex/project/git.py\<close>: the typed Project Model with
  the checks of its constructors, its JSON form and its decoder, in the order in which the code evaluates them. A stable
  identifier is the text that \<open>StableId\<close> normalises. A confidence is a floating-point number.
\<close>

section \<open>Enumerations\<close>

datatype project_lifecycle = GREENFIELD | BROWNFIELD

fun project_lifecycle_value :: "project_lifecycle \<Rightarrow> string" where
  "project_lifecycle_value GREENFIELD = ''greenfield''"
| "project_lifecycle_value BROWNFIELD = ''brownfield''"

definition to_project_lifecycle :: "string \<Rightarrow> project_lifecycle res" where
  "to_project_lifecycle = member_of project_lifecycle_value [GREENFIELD, BROWNFIELD]"

lemma to_project_lifecycle_value [simp]: "to_project_lifecycle (project_lifecycle_value x) = Inr x"
  by (cases x) (simp_all add: to_project_lifecycle_def member_of_def)

datatype workflow_depth = WD_QUICK | WD_STANDARD | WD_DEEP

fun workflow_depth_value :: "workflow_depth \<Rightarrow> string" where
  "workflow_depth_value WD_QUICK = ''QUICK''"
| "workflow_depth_value WD_STANDARD = ''STANDARD''"
| "workflow_depth_value WD_DEEP = ''DEEP''"

definition to_workflow_depth :: "string \<Rightarrow> workflow_depth res" where
  "to_workflow_depth = member_of workflow_depth_value [WD_QUICK, WD_STANDARD, WD_DEEP]"

lemma to_workflow_depth_value [simp]: "to_workflow_depth (workflow_depth_value x) = Inr x"
  by (cases x) (simp_all add: to_workflow_depth_def member_of_def)

datatype artifact_status = AS_DRAFT | AS_REVIEW | AS_ACCEPTED | AS_STALE | AS_SUPERSEDED

fun artifact_status_value :: "artifact_status \<Rightarrow> string" where
  "artifact_status_value AS_DRAFT = ''DRAFT''"
| "artifact_status_value AS_REVIEW = ''REVIEW''"
| "artifact_status_value AS_ACCEPTED = ''ACCEPTED''"
| "artifact_status_value AS_STALE = ''STALE''"
| "artifact_status_value AS_SUPERSEDED = ''SUPERSEDED''"

definition to_artifact_status :: "string \<Rightarrow> artifact_status res" where
  "to_artifact_status = member_of artifact_status_value [AS_DRAFT, AS_REVIEW, AS_ACCEPTED, AS_STALE, AS_SUPERSEDED]"

lemma to_artifact_status_value [simp]: "to_artifact_status (artifact_status_value x) = Inr x"
  by (cases x) (simp_all add: to_artifact_status_def member_of_def)

datatype entity_kind = EK_REQUIREMENT | EK_ASSUMPTION | EK_CONSTRAINT | EK_CAPABILITY | EK_INTERFACE | EK_INVARIANT | EK_MILESTONE | EK_TASK

fun entity_kind_value :: "entity_kind \<Rightarrow> string" where
  "entity_kind_value EK_REQUIREMENT = ''requirement''"
| "entity_kind_value EK_ASSUMPTION = ''assumption''"
| "entity_kind_value EK_CONSTRAINT = ''constraint''"
| "entity_kind_value EK_CAPABILITY = ''capability''"
| "entity_kind_value EK_INTERFACE = ''interface''"
| "entity_kind_value EK_INVARIANT = ''invariant''"
| "entity_kind_value EK_MILESTONE = ''milestone''"
| "entity_kind_value EK_TASK = ''task''"

definition to_entity_kind :: "string \<Rightarrow> entity_kind res" where
  "to_entity_kind = member_of entity_kind_value [EK_REQUIREMENT, EK_ASSUMPTION, EK_CONSTRAINT, EK_CAPABILITY, EK_INTERFACE, EK_INVARIANT, EK_MILESTONE, EK_TASK]"

lemma to_entity_kind_value [simp]: "to_entity_kind (entity_kind_value x) = Inr x"
  by (cases x) (simp_all add: to_entity_kind_def member_of_def)

datatype lifecycle_stage = LS_IDEA | LS_EXPLORATION | LS_RESEARCH | LS_DEFINITION | LS_ARCHITECTURE | LS_REQUIREMENTS_ADRS | LS_PLAN | LS_ENVELOPE_PROPOSED | LS_APPROVED_PLAN

fun lifecycle_stage_value :: "lifecycle_stage \<Rightarrow> string" where
  "lifecycle_stage_value LS_IDEA = ''IDEA''"
| "lifecycle_stage_value LS_EXPLORATION = ''EXPLORATION''"
| "lifecycle_stage_value LS_RESEARCH = ''RESEARCH''"
| "lifecycle_stage_value LS_DEFINITION = ''DEFINITION''"
| "lifecycle_stage_value LS_ARCHITECTURE = ''ARCHITECTURE''"
| "lifecycle_stage_value LS_REQUIREMENTS_ADRS = ''REQUIREMENTS_ADRS''"
| "lifecycle_stage_value LS_PLAN = ''PLAN''"
| "lifecycle_stage_value LS_ENVELOPE_PROPOSED = ''ENVELOPE_PROPOSED''"
| "lifecycle_stage_value LS_APPROVED_PLAN = ''APPROVED_PLAN''"

definition to_lifecycle_stage :: "string \<Rightarrow> lifecycle_stage res" where
  "to_lifecycle_stage = member_of lifecycle_stage_value [LS_IDEA, LS_EXPLORATION, LS_RESEARCH, LS_DEFINITION, LS_ARCHITECTURE, LS_REQUIREMENTS_ADRS, LS_PLAN, LS_ENVELOPE_PROPOSED, LS_APPROVED_PLAN]"

lemma to_lifecycle_stage_value [simp]: "to_lifecycle_stage (lifecycle_stage_value x) = Inr x"
  by (cases x) (simp_all add: to_lifecycle_stage_def member_of_def)

text \<open>The position in \<open>_LIFECYCLE_ORDER\<close>.\<close>

fun stage_index :: "lifecycle_stage \<Rightarrow> int" where
  "stage_index LS_IDEA = 0"
| "stage_index LS_EXPLORATION = 1"
| "stage_index LS_RESEARCH = 2"
| "stage_index LS_DEFINITION = 3"
| "stage_index LS_ARCHITECTURE = 4"
| "stage_index LS_REQUIREMENTS_ADRS = 5"
| "stage_index LS_PLAN = 6"
| "stage_index LS_ENVELOPE_PROPOSED = 7"
| "stage_index LS_APPROVED_PLAN = 8"

definition require_value :: "bool \<Rightarrow> unit res" where
  "require_value c = ensure c ValueError"

lemma require_value_Inr [simp]: "require_value c = Inr u \<longleftrightarrow> c"
  by (simp add: require_value_def)

definition sha256_hex :: "string \<Rightarrow> bool" where
  "sha256_hex s \<longleftrightarrow> length s = 64 \<and> list_all (\<lambda>c. c \<in> set ''0123456789abcdef'') s"

section \<open>Lifecycle\<close>

record lifecycle_contribution =
  lc_stage :: lifecycle_stage
  lc_summary :: string
  lc_actor_id :: string
  lc_session_id :: string
  lc_evidence_refs :: "string list"
  lc_decision_refs :: "string list"

definition lifecycle_contribution_init :: "lifecycle_contribution \<Rightarrow> lifecycle_contribution res" where
  "lifecycle_contribution_init r =
     rbind (require_value (list_all (\<lambda>s. \<not> blank s) [lc_summary r, lc_actor_id r, lc_session_id r])) (\<lambda>_.
     rbind (require_value (\<not> list_ex blank (lc_evidence_refs r @ lc_decision_refs r))) (\<lambda>_.
     Inr r))"

definition lifecycle_contribution_to_dict :: "lifecycle_contribution \<Rightarrow> obj" where
  "lifecycle_contribution_to_dict r =
     [(''stage'', JStr (lifecycle_stage_value (lc_stage r))),
      (''summary'', JStr (lc_summary r)),
      (''actor_id'', JStr (lc_actor_id r)),
      (''session_id'', JStr (lc_session_id r)),
      (''evidence_refs'', jstrs (lc_evidence_refs r)),
      (''decision_refs'', jstrs (lc_decision_refs r))]"

definition lifecycle_contribution_from_dict :: "py_float \<Rightarrow> obj \<Rightarrow> lifecycle_contribution res" where
  "lifecycle_contribution_from_dict py v =
     rbind (rbind (item v ''stage'') (\<lambda>j. to_lifecycle_stage (py_str py j))) (\<lambda>x0.
     rbind (rbind (item v ''summary'') (\<lambda>j. Inr (py_str py j))) (\<lambda>x1.
     rbind (rbind (item v ''actor_id'') (\<lambda>j. Inr (py_str py j))) (\<lambda>x2.
     rbind (rbind (item v ''session_id'') (\<lambda>j. Inr (py_str py j))) (\<lambda>x3.
     rbind (string_sequence (item_or v ''evidence_refs'' (JArr []))) (\<lambda>x4.
     rbind (string_sequence (item_or v ''decision_refs'' (JArr []))) (\<lambda>x5.
     lifecycle_contribution_init \<lparr>lc_stage = x0, lc_summary = x1, lc_actor_id = x2, lc_session_id = x3, lc_evidence_refs = x4, lc_decision_refs = x5\<rparr>))))))"

definition lifecycle_contribution_ok :: "lifecycle_contribution \<Rightarrow> bool" where
  "lifecycle_contribution_ok r \<longleftrightarrow> lifecycle_contribution_init r = Inr r"

lemma lifecycle_contribution_init_Inr: "lifecycle_contribution_init r = Inr r' \<Longrightarrow> r' = r \<and> lifecycle_contribution_ok r'"
  by (auto simp: lifecycle_contribution_init_def lifecycle_contribution_ok_def rbind_Inr_iff)

lemma lifecycle_contribution_decoded: "lifecycle_contribution_from_dict py v = Inr r \<Longrightarrow> lifecycle_contribution_ok r"
  unfolding lifecycle_contribution_from_dict_def rbind_Inr_iff by (elim exE conjE) (drule lifecycle_contribution_init_Inr, erule conjE, assumption)

lemma lifecycle_contribution_roundtrip: "lifecycle_contribution_ok r \<Longrightarrow> lifecycle_contribution_from_dict py (lifecycle_contribution_to_dict r) = Inr r"
  by (cases r) (simp add: lifecycle_contribution_ok_def lifecycle_contribution_from_dict_def lifecycle_contribution_to_dict_def)

record governance_state =
  gs_stage :: lifecycle_stage
  gs_contributions :: "lifecycle_contribution list"

fun monotonic :: "int \<Rightarrow> lifecycle_contribution list \<Rightarrow> bool" where
  "monotonic previous [] \<longleftrightarrow> True"
| "monotonic previous (c # cs) \<longleftrightarrow> \<not> stage_index (lc_stage c) < previous \<and> monotonic (stage_index (lc_stage c)) cs"

definition governance_state_init :: "governance_state \<Rightarrow> governance_state res" where
  "governance_state_init r =
     rbind (require_value (monotonic (- 1) (gs_contributions r))) (\<lambda>_.
     rbind (require_value (\<not> (gs_contributions r \<noteq> [] \<and> lc_stage (last (gs_contributions r)) \<noteq> gs_stage r))) (\<lambda>_.
     Inr r))"

definition default_governance :: governance_state where
  "default_governance = \<lparr>gs_stage = LS_IDEA, gs_contributions = []\<rparr>"

definition advance :: "governance_state \<Rightarrow> lifecycle_contribution \<Rightarrow> governance_state res" where
  "advance s c =
     rbind (require_value (\<not> stage_index (lc_stage c) \<noteq> stage_index (gs_stage s) + 1)) (\<lambda>_.
     governance_state_init \<lparr>gs_stage = lc_stage c, gs_contributions = gs_contributions s @ [c]\<rparr>)"

definition governance_state_to_dict :: "governance_state \<Rightarrow> obj" where
  "governance_state_to_dict r =
     [(''stage'', JStr (lifecycle_stage_value (gs_stage r))),
      (''contributions'', JArr (map (\<lambda>x. JObj (lifecycle_contribution_to_dict x)) (gs_contributions r)))]"

definition governance_state_from_dict :: "py_float \<Rightarrow> obj \<Rightarrow> governance_state res" where
  "governance_state_from_dict py v =
     rbind (mapping_sequence (item_or v ''contributions'' (JArr []))) (\<lambda>contributions.
     rbind (to_lifecycle_stage (py_str py (item_or v ''stage'' (JStr (lifecycle_stage_value LS_IDEA))))) (\<lambda>stage.
     rbind (rmap (lifecycle_contribution_from_dict py) contributions) (\<lambda>cs.
     governance_state_init \<lparr>gs_stage = stage, gs_contributions = cs\<rparr>)))"

definition governance_state_ok :: "governance_state \<Rightarrow> bool" where
  "governance_state_ok r \<longleftrightarrow> governance_state_init r = Inr r \<and> list_all lifecycle_contribution_ok (gs_contributions r)"

lemma rmap_decoded: "rmap f xs = Inr ys \<Longrightarrow> (\<And>x y. f x = Inr y \<Longrightarrow> P y) \<Longrightarrow> list_all P ys"
  by (induction xs arbitrary: ys) (auto simp: rbind_Inr_iff)

lemma rmap_roundtrip: "list_all P xs \<Longrightarrow> (\<And>x. P x \<Longrightarrow> f (g x) = Inr x) \<Longrightarrow> rmap f (map g xs) = Inr xs"
  by (induction xs) simp_all

lemma governance_state_decoded: "governance_state_from_dict py v = Inr r \<Longrightarrow> governance_state_ok r"
  by (auto simp: governance_state_from_dict_def governance_state_init_def governance_state_ok_def rbind_Inr_iff
      intro: lifecycle_contribution_decoded elim!: rmap_decoded)

lemma governance_state_roundtrip: "governance_state_ok r \<Longrightarrow> governance_state_from_dict py (governance_state_to_dict r) = Inr r"
  by (cases r) (simp add: governance_state_ok_def governance_state_from_dict_def governance_state_to_dict_def
      rmap_roundtrip [of lifecycle_contribution_ok _ "lifecycle_contribution_from_dict py" lifecycle_contribution_to_dict] lifecycle_contribution_roundtrip)

section \<open>Adopted knowledge and research\<close>

record adoption_provenance =
  kp_source :: string
  kp_observed_at :: string
  kp_artifact :: "string option"
  kp_commit :: "string option"
  kp_integration :: "string option"
  kp_evidence_ids :: "string list"

definition adoption_provenance_init :: "adoption_provenance \<Rightarrow> adoption_provenance res" where
  "adoption_provenance_init r =
     rbind (require_value (\<not> (blank (kp_source r) \<or> blank (kp_observed_at r)))) (\<lambda>_.
     rbind (require_value (list_ex (\<lambda>x. x \<noteq> None \<and> x \<noteq> Some []) [kp_artifact r, kp_commit r, kp_integration r] \<or>
       kp_evidence_ids r \<noteq> [])) (\<lambda>_.
     Inr r))"

definition adoption_provenance_to_dict :: "adoption_provenance \<Rightarrow> obj" where
  "adoption_provenance_to_dict r =
     [(''source'', JStr (kp_source r)),
      (''observed_at'', JStr (kp_observed_at r)),
      (''artifact'', jopt JStr (kp_artifact r)),
      (''commit'', jopt JStr (kp_commit r)),
      (''integration'', jopt JStr (kp_integration r)),
      (''evidence_ids'', jstrs (kp_evidence_ids r))]"

definition adoption_provenance_from_dict :: "py_float \<Rightarrow> obj \<Rightarrow> adoption_provenance res" where
  "adoption_provenance_from_dict py v =
     rbind (rbind (item v ''source'') (\<lambda>j. Inr (py_str py j))) (\<lambda>x0.
     rbind (rbind (item v ''observed_at'') (\<lambda>j. Inr (py_str py j))) (\<lambda>x1.
     rbind (optional_string (item_or v ''artifact'' JNull)) (\<lambda>x2.
     rbind (optional_string (item_or v ''commit'' JNull)) (\<lambda>x3.
     rbind (optional_string (item_or v ''integration'' JNull)) (\<lambda>x4.
     rbind (string_sequence (item_or v ''evidence_ids'' (JArr []))) (\<lambda>x5.
     adoption_provenance_init \<lparr>kp_source = x0, kp_observed_at = x1, kp_artifact = x2, kp_commit = x3, kp_integration = x4, kp_evidence_ids = x5\<rparr>))))))"

definition adoption_provenance_ok :: "adoption_provenance \<Rightarrow> bool" where
  "adoption_provenance_ok r \<longleftrightarrow> adoption_provenance_init r = Inr r"

lemma adoption_provenance_init_Inr: "adoption_provenance_init r = Inr r' \<Longrightarrow> r' = r \<and> adoption_provenance_ok r'"
  by (auto simp: adoption_provenance_init_def adoption_provenance_ok_def rbind_Inr_iff)

lemma adoption_provenance_decoded: "adoption_provenance_from_dict py v = Inr r \<Longrightarrow> adoption_provenance_ok r"
  unfolding adoption_provenance_from_dict_def rbind_Inr_iff by (elim exE conjE) (drule adoption_provenance_init_Inr, erule conjE, assumption)

lemma adoption_provenance_roundtrip: "adoption_provenance_ok r \<Longrightarrow> adoption_provenance_from_dict py (adoption_provenance_to_dict r) = Inr r"
  by (cases r) (simp add: adoption_provenance_ok_def adoption_provenance_from_dict_def adoption_provenance_to_dict_def)

record knowledge_adoption =
  ka_organizational_knowledge_id :: string
  ka_recommendation_id :: string
  ka_statement :: string
  ka_source_project_id :: string
  ka_source_project_revision :: int
  ka_source_project_fingerprint :: string
  ka_source_lesson_id :: string
  ka_provenance :: "adoption_provenance list"
  ka_confidence :: "int \<times> int"
  ka_applicable_project_ids :: "string list"
  ka_applicability_tags :: "string list"
  ka_applicability_domains :: "string list"
  ka_fresh_until :: string
  ka_record_digest :: string
  ka_evidence_digests :: "string list"
  ka_validator_id :: string
  ka_promotion_actor_id :: string
  ka_promotion_policy :: string
  ka_promotion_decision :: string
  ka_adopted_by :: string
  ka_adopted_at :: string

definition knowledge_adoption_init :: "knowledge_adoption \<Rightarrow> knowledge_adoption res" where
  "knowledge_adoption_init r =
     rbind (require_value (list_all (\<lambda>s. \<not> blank s)
       [ka_organizational_knowledge_id r, ka_recommendation_id r, ka_statement r, ka_source_project_id r, ka_source_project_fingerprint r, ka_source_lesson_id r, ka_fresh_until r, ka_validator_id r, ka_promotion_actor_id r, ka_promotion_policy r, ka_promotion_decision r, ka_adopted_by r, ka_adopted_at r])) (\<lambda>_.
     rbind (require_value (ka_provenance r \<noteq> [])) (\<lambda>_.
     rbind (require_value (unit_interval (ka_confidence r))) (\<lambda>_.
     rbind (require_value (\<not> ka_source_project_revision r < 1)) (\<lambda>_.
     rbind (require_value (sha256_hex (ka_source_project_fingerprint r))) (\<lambda>_.
     rbind (require_value (sha256_hex (ka_record_digest r))) (\<lambda>_.
     rbind (require_value (ka_evidence_digests r \<noteq> [] \<and> list_all sha256_hex (ka_evidence_digests r))) (\<lambda>_.
     Inr r)))))))"

definition knowledge_adoption_to_dict :: "knowledge_adoption \<Rightarrow> obj" where
  "knowledge_adoption_to_dict r =
     [(''organizational_knowledge_id'', JStr (ka_organizational_knowledge_id r)),
      (''recommendation_id'', JStr (ka_recommendation_id r)),
      (''statement'', JStr (ka_statement r)),
      (''source_project_id'', JStr (ka_source_project_id r)),
      (''source_project_revision'', JInt (ka_source_project_revision r)),
      (''source_project_fingerprint'', JStr (ka_source_project_fingerprint r)),
      (''source_lesson_id'', JStr (ka_source_lesson_id r)),
      (''provenance'', JArr (map (\<lambda>x. JObj (adoption_provenance_to_dict x)) (ka_provenance r))),
      (''confidence'', (case ka_confidence r of (m, e) \<Rightarrow> JFloat m e)),
      (''applicable_project_ids'', jstrs (ka_applicable_project_ids r)),
      (''applicability_tags'', jstrs (ka_applicability_tags r)),
      (''applicability_domains'', jstrs (ka_applicability_domains r)),
      (''fresh_until'', JStr (ka_fresh_until r)),
      (''record_digest'', JStr (ka_record_digest r)),
      (''evidence_digests'', jstrs (ka_evidence_digests r)),
      (''validator_id'', JStr (ka_validator_id r)),
      (''promotion_actor_id'', JStr (ka_promotion_actor_id r)),
      (''promotion_policy'', JStr (ka_promotion_policy r)),
      (''promotion_decision'', JStr (ka_promotion_decision r)),
      (''adopted_by'', JStr (ka_adopted_by r)),
      (''adopted_at'', JStr (ka_adopted_at r))]"

definition knowledge_adoption_from_dict :: "py_float \<Rightarrow> obj \<Rightarrow> knowledge_adoption res" where
  "knowledge_adoption_from_dict py v =
     rbind (rbind (item v ''organizational_knowledge_id'') (\<lambda>j. Inr (py_str py j))) (\<lambda>x0.
     rbind (rbind (item v ''recommendation_id'') (\<lambda>j. Inr (py_str py j))) (\<lambda>x1.
     rbind (rbind (item v ''statement'') (\<lambda>j. Inr (py_str py j))) (\<lambda>x2.
     rbind (rbind (item v ''source_project_id'') (\<lambda>j. Inr (py_str py j))) (\<lambda>x3.
     rbind (rbind (item v ''source_project_revision'') py_int) (\<lambda>x4.
     rbind (rbind (item v ''source_project_fingerprint'') (\<lambda>j. Inr (py_str py j))) (\<lambda>x5.
     rbind (rbind (item v ''source_lesson_id'') (\<lambda>j. Inr (py_str py j))) (\<lambda>x6.
     rbind (rbind (mapping_sequence (item_or v ''provenance'' (JArr []))) (rmap (adoption_provenance_from_dict py))) (\<lambda>x7.
     rbind (rbind (item v ''confidence'') (to_float py)) (\<lambda>x8.
     rbind (string_sequence (item_or v ''applicable_project_ids'' (JArr []))) (\<lambda>x9.
     rbind (string_sequence (item_or v ''applicability_tags'' (JArr []))) (\<lambda>x10.
     rbind (string_sequence (item_or v ''applicability_domains'' (JArr []))) (\<lambda>x11.
     rbind (rbind (item v ''fresh_until'') (\<lambda>j. Inr (py_str py j))) (\<lambda>x12.
     rbind (rbind (item v ''record_digest'') (\<lambda>j. Inr (py_str py j))) (\<lambda>x13.
     rbind (string_sequence (item_or v ''evidence_digests'' (JArr []))) (\<lambda>x14.
     rbind (rbind (item v ''validator_id'') (\<lambda>j. Inr (py_str py j))) (\<lambda>x15.
     rbind (rbind (item v ''promotion_actor_id'') (\<lambda>j. Inr (py_str py j))) (\<lambda>x16.
     rbind (rbind (item v ''promotion_policy'') (\<lambda>j. Inr (py_str py j))) (\<lambda>x17.
     rbind (rbind (item v ''promotion_decision'') (\<lambda>j. Inr (py_str py j))) (\<lambda>x18.
     rbind (rbind (item v ''adopted_by'') (\<lambda>j. Inr (py_str py j))) (\<lambda>x19.
     rbind (rbind (item v ''adopted_at'') (\<lambda>j. Inr (py_str py j))) (\<lambda>x20.
     knowledge_adoption_init \<lparr>ka_organizational_knowledge_id = x0, ka_recommendation_id = x1, ka_statement = x2, ka_source_project_id = x3, ka_source_project_revision = x4, ka_source_project_fingerprint = x5, ka_source_lesson_id = x6, ka_provenance = x7, ka_confidence = x8, ka_applicable_project_ids = x9, ka_applicability_tags = x10, ka_applicability_domains = x11, ka_fresh_until = x12, ka_record_digest = x13, ka_evidence_digests = x14, ka_validator_id = x15, ka_promotion_actor_id = x16, ka_promotion_policy = x17, ka_promotion_decision = x18, ka_adopted_by = x19, ka_adopted_at = x20\<rparr>)))))))))))))))))))))"

definition knowledge_adoption_ok :: "knowledge_adoption \<Rightarrow> bool" where
  "knowledge_adoption_ok r \<longleftrightarrow> knowledge_adoption_init r = Inr r \<and> list_all adoption_provenance_ok (ka_provenance r)"

lemma knowledge_adoption_init_Inr: "knowledge_adoption_init r = Inr r' \<Longrightarrow> r' = r \<and> knowledge_adoption_init r' = Inr r'"
  by (auto simp: knowledge_adoption_init_def rbind_Inr_iff)

lemma knowledge_adoption_decoded:
  assumes "knowledge_adoption_from_dict py v = Inr r"
  shows "knowledge_adoption_ok r"
proof -
  from assms obtain k ps prov where k: "knowledge_adoption_init k = Inr r" "ka_provenance k = prov"
    "rmap (adoption_provenance_from_dict py) ps = Inr prov"
    unfolding knowledge_adoption_from_dict_def
    by (elim rbind_InrE) (rule that, assumption, simp only: knowledge_adoption.select_convs, assumption)
  then show ?thesis
    using knowledge_adoption_init_Inr [OF k(1)]
    by (auto simp: knowledge_adoption_ok_def intro: adoption_provenance_decoded elim!: rmap_decoded)
qed

lemma knowledge_adoption_roundtrip: "knowledge_adoption_ok r \<Longrightarrow> knowledge_adoption_from_dict py (knowledge_adoption_to_dict r) = Inr r"
  by (cases r) (simp add: knowledge_adoption_ok_def knowledge_adoption_from_dict_def knowledge_adoption_to_dict_def split_def
      rmap_roundtrip [of adoption_provenance_ok _ "adoption_provenance_from_dict py" adoption_provenance_to_dict] adoption_provenance_roundtrip)

record research_adoption =
  ra_provider_id :: string
  ra_provider_role :: string
  ra_provider_instance_id :: string
  ra_provider_version :: string
  ra_certification_receipt_id :: string
  ra_request_id :: string
  ra_bundle_id :: string
  ra_request_sha256 :: string
  ra_bundle_sha256 :: string
  ra_report_sha256 :: string
  ra_source_manifest_sha256 :: string
  ra_findings :: "string list"
  ra_source_uris :: "string list"
  ra_proposed_by :: string
  ra_proposed_at :: string

definition research_adoption_init :: "research_adoption \<Rightarrow> research_adoption res" where
  "research_adoption_init r =
     rbind (require_value (list_all (\<lambda>s. \<not> blank s)
       [ra_provider_id r, ra_provider_role r, ra_provider_instance_id r, ra_provider_version r, ra_certification_receipt_id r, ra_request_id r, ra_bundle_id r, ra_proposed_by r, ra_proposed_at r])) (\<lambda>_.
     rbind (require_value (\<not> (ra_provider_id r \<noteq> ''pandora'' \<or> ra_provider_role r \<noteq> ''RESEARCH''))) (\<lambda>_.
     rbind (require_value (list_all sha256_hex
       [ra_certification_receipt_id r, ra_request_sha256 r, ra_bundle_sha256 r, ra_report_sha256 r, ra_source_manifest_sha256 r])) (\<lambda>_.
     rbind (require_value (ra_findings r \<noteq> [] \<and> list_all (\<lambda>s. \<not> blank s) (ra_findings r))) (\<lambda>_.
     rbind (require_value (ra_source_uris r \<noteq> [] \<and> list_all (\<lambda>s. \<not> blank s) (ra_source_uris r))) (\<lambda>_.
     Inr r)))))"

definition research_adoption_to_dict :: "research_adoption \<Rightarrow> obj" where
  "research_adoption_to_dict r =
     [(''provider_id'', JStr (ra_provider_id r)),
      (''provider_role'', JStr (ra_provider_role r)),
      (''provider_instance_id'', JStr (ra_provider_instance_id r)),
      (''provider_version'', JStr (ra_provider_version r)),
      (''certification_receipt_id'', JStr (ra_certification_receipt_id r)),
      (''request_id'', JStr (ra_request_id r)),
      (''bundle_id'', JStr (ra_bundle_id r)),
      (''request_sha256'', JStr (ra_request_sha256 r)),
      (''bundle_sha256'', JStr (ra_bundle_sha256 r)),
      (''report_sha256'', JStr (ra_report_sha256 r)),
      (''source_manifest_sha256'', JStr (ra_source_manifest_sha256 r)),
      (''findings'', jstrs (ra_findings r)),
      (''source_uris'', jstrs (ra_source_uris r)),
      (''proposed_by'', JStr (ra_proposed_by r)),
      (''proposed_at'', JStr (ra_proposed_at r)),
      (''authority'', JStr ''PROJECT_AUTHORITY'')]"

definition research_adoption_from_dict :: "py_float \<Rightarrow> obj \<Rightarrow> research_adoption res" where
  "research_adoption_from_dict py v =
     rbind (require_value (item_or v ''authority'' (JStr ''PROJECT_AUTHORITY'') = JStr ''PROJECT_AUTHORITY'')) (\<lambda>_.
     rbind (rbind (item v ''provider_id'') (\<lambda>j. Inr (py_str py j))) (\<lambda>x0.
     rbind (rbind (item v ''provider_role'') (\<lambda>j. Inr (py_str py j))) (\<lambda>x1.
     rbind (rbind (item v ''provider_instance_id'') (\<lambda>j. Inr (py_str py j))) (\<lambda>x2.
     rbind (rbind (item v ''provider_version'') (\<lambda>j. Inr (py_str py j))) (\<lambda>x3.
     rbind (rbind (item v ''certification_receipt_id'') (\<lambda>j. Inr (py_str py j))) (\<lambda>x4.
     rbind (rbind (item v ''request_id'') (\<lambda>j. Inr (py_str py j))) (\<lambda>x5.
     rbind (rbind (item v ''bundle_id'') (\<lambda>j. Inr (py_str py j))) (\<lambda>x6.
     rbind (rbind (item v ''request_sha256'') (\<lambda>j. Inr (py_str py j))) (\<lambda>x7.
     rbind (rbind (item v ''bundle_sha256'') (\<lambda>j. Inr (py_str py j))) (\<lambda>x8.
     rbind (rbind (item v ''report_sha256'') (\<lambda>j. Inr (py_str py j))) (\<lambda>x9.
     rbind (rbind (item v ''source_manifest_sha256'') (\<lambda>j. Inr (py_str py j))) (\<lambda>x10.
     rbind (string_sequence (item_or v ''findings'' (JArr []))) (\<lambda>x11.
     rbind (string_sequence (item_or v ''source_uris'' (JArr []))) (\<lambda>x12.
     rbind (rbind (item v ''proposed_by'') (\<lambda>j. Inr (py_str py j))) (\<lambda>x13.
     rbind (rbind (item v ''proposed_at'') (\<lambda>j. Inr (py_str py j))) (\<lambda>x14.
     research_adoption_init \<lparr>ra_provider_id = x0, ra_provider_role = x1, ra_provider_instance_id = x2, ra_provider_version = x3, ra_certification_receipt_id = x4, ra_request_id = x5, ra_bundle_id = x6, ra_request_sha256 = x7, ra_bundle_sha256 = x8, ra_report_sha256 = x9, ra_source_manifest_sha256 = x10, ra_findings = x11, ra_source_uris = x12, ra_proposed_by = x13, ra_proposed_at = x14\<rparr>))))))))))))))))"

definition research_adoption_ok :: "research_adoption \<Rightarrow> bool" where
  "research_adoption_ok r \<longleftrightarrow> research_adoption_init r = Inr r"

lemma research_adoption_init_Inr: "research_adoption_init r = Inr r' \<Longrightarrow> r' = r \<and> research_adoption_ok r'"
  by (auto simp: research_adoption_init_def research_adoption_ok_def rbind_Inr_iff)

lemma research_adoption_decoded: "research_adoption_from_dict py v = Inr r \<Longrightarrow> research_adoption_ok r"
  unfolding research_adoption_from_dict_def rbind_Inr_iff by (elim exE conjE) (drule research_adoption_init_Inr, erule conjE, assumption)

lemma research_adoption_roundtrip: "research_adoption_ok r \<Longrightarrow> research_adoption_from_dict py (research_adoption_to_dict r) = Inr r"
  by (cases r) (simp add: research_adoption_ok_def research_adoption_from_dict_def research_adoption_to_dict_def require_value_def)

section \<open>Artifacts and entities\<close>

record provenance =
  pr_path :: string
  pr_commit :: "string option"
  pr_source :: string

definition provenance_init :: "provenance \<Rightarrow> provenance res" where
  "provenance_init r = rbind (normalize_relative_path (pr_path r)) (\<lambda>n. Inr (r\<lparr>pr_path := n\<rparr>))"

definition provenance_to_dict :: "provenance \<Rightarrow> obj" where
  "provenance_to_dict r =
     [(''path'', JStr (pr_path r)),
      (''commit'', jopt JStr (pr_commit r)),
      (''source'', JStr (pr_source r))]"

definition provenance_ok :: "provenance \<Rightarrow> bool" where
  "provenance_ok r \<longleftrightarrow> provenance_init r = Inr r"

record artifact =
  ar_id :: string
  ar_type :: string
  ar_path :: string
  ar_status :: artifact_status
  ar_fingerprint :: string
  ar_depends_on :: "string list"
  ar_provenance :: "provenance option"
  ar_metadata :: obj

definition artifact_init :: "artifact \<Rightarrow> artifact res" where
  "artifact_init r =
     rbind (normalize_relative_path (ar_path r)) (\<lambda>n.
     rbind (require_value (\<not> blank (ar_type r))) (\<lambda>_.
     rbind (require_value (sha256_hex (ar_fingerprint r))) (\<lambda>_.
     rbind (require_value (ar_id r \<notin> set (ar_depends_on r))) (\<lambda>_.
     rbind (require_value (distinct (ar_depends_on r))) (\<lambda>_.
     Inr (r\<lparr>ar_path := n\<rparr>))))))"

definition artifact_to_dict :: "artifact \<Rightarrow> obj" where
  "artifact_to_dict r =
     [(''id'', JStr (ar_id r)),
      (''type'', JStr (ar_type r)),
      (''path'', JStr (ar_path r)),
      (''status'', JStr (artifact_status_value (ar_status r))),
      (''fingerprint'', JStr (ar_fingerprint r)),
      (''depends_on'', jstrs (ar_depends_on r)),
      (''provenance'', jopt (\<lambda>p. JObj (provenance_to_dict p)) (ar_provenance r)),
      (''metadata'', JObj (ar_metadata r))]"

definition provenance_from :: "py_float \<Rightarrow> json \<Rightarrow> provenance option res" where
  "provenance_from py j = (case j of
     JObj v \<Rightarrow>
       rbind (rbind (item v ''path'') (\<lambda>j. Inr (py_str py j))) (\<lambda>path.
       rbind (optional_string (item_or v ''commit'' JNull)) (\<lambda>commit.
       rbind (provenance_init \<lparr>pr_path = path, pr_commit = commit, pr_source = py_str py (item_or v ''source'' (JStr ''repository''))\<rparr>)
         (\<lambda>p. Inr (Some p))))
   | _ \<Rightarrow> Inr None)"

definition artifact_from_dict :: "py_float \<Rightarrow> obj \<Rightarrow> artifact res" where
  "artifact_from_dict py v =
     rbind (provenance_from py (item_or v ''provenance'' JNull)) (\<lambda>p.
     rbind (string_sequence (item_or v ''depends_on'' (JArr []))) (\<lambda>dependencies.
     rbind (mapping_of (item_or v ''metadata'' (JObj []))) (\<lambda>metadata.
     rbind (rbind (item v ''id'') (\<lambda>j. stable_id (py_str py j))) (\<lambda>i.
     rbind (rbind (item v ''type'') (\<lambda>j. Inr (py_str py j))) (\<lambda>ty.
     rbind (rbind (item v ''path'') (\<lambda>j. Inr (py_str py j))) (\<lambda>path.
     rbind (rbind (item v ''status'') (\<lambda>j. to_artifact_status (py_str py j))) (\<lambda>status.
     rbind (rbind (item v ''fingerprint'') (\<lambda>j. Inr (py_str py j))) (\<lambda>fp.
     rbind (rmap stable_id dependencies) (\<lambda>deps.
     artifact_init \<lparr>ar_id = i, ar_type = ty, ar_path = path, ar_status = status, ar_fingerprint = fp, ar_depends_on = deps,
       ar_provenance = p, ar_metadata = metadata\<rparr>)))))))))"

definition stable_text :: "string \<Rightarrow> bool" where
  "stable_text i \<longleftrightarrow> stable_id i = Inr i"

lemma stable_textI: "stable_id s = Inr i \<Longrightarrow> stable_text i"
  unfolding stable_text_def by (rule stable_id_text)

definition artifact_ok :: "artifact \<Rightarrow> bool" where
  "artifact_ok r \<longleftrightarrow> artifact_init r = Inr r \<and> stable_text (ar_id r) \<and> list_all stable_text (ar_depends_on r) \<and>
     (case ar_provenance r of None \<Rightarrow> True | Some p \<Rightarrow> provenance_ok p)"

lemma provenance_init_ok: "provenance_init r = Inr r' \<Longrightarrow> provenance_ok r'"
  by (auto simp: provenance_init_def provenance_ok_def rbind_Inr_iff dest: normalize_idem)

lemma artifact_init_ok: "artifact_init r = Inr r' \<Longrightarrow> artifact_init r' = Inr r' \<and> (\<exists>n. r' = r\<lparr>ar_path := n\<rparr>)"
  by (auto simp: artifact_init_def rbind_Inr_iff dest: normalize_idem)

lemma provenance_from_ok: "provenance_from py j = Inr (Some p) \<Longrightarrow> provenance_ok p"
  by (auto simp: provenance_from_def rbind_Inr_iff split: json.splits intro: provenance_init_ok)

lemma artifact_decoded: "artifact_from_dict py v = Inr r \<Longrightarrow> artifact_ok r"
  unfolding artifact_from_dict_def rbind_Inr_iff
  by (elim exE conjE, drule artifact_init_ok)
    (auto simp: artifact_ok_def intro: stable_textI provenance_from_ok elim!: rmap_decoded split: option.splits)

lemma provenance_from_roundtrip:
  "(case p of None \<Rightarrow> True | Some q \<Rightarrow> provenance_ok q) \<Longrightarrow> provenance_from py (jopt (\<lambda>p. JObj (provenance_to_dict p)) p) = Inr p"
proof (induction p)
  case (Some q)
  then show ?case by (cases q) (simp add: provenance_from_def provenance_to_dict_def provenance_ok_def)
qed (simp add: provenance_from_def)

lemma stable_rmap: "list_all stable_text xs \<Longrightarrow> rmap stable_id xs = Inr xs"
  by (induction xs) (simp_all add: stable_text_def)

lemma artifact_roundtrip: "artifact_ok r \<Longrightarrow> artifact_from_dict py (artifact_to_dict r) = Inr r"
  by (cases r) (simp add: artifact_ok_def artifact_from_dict_def artifact_to_dict_def provenance_from_roundtrip stable_rmap stable_text_def)

record structured_entity =
  en_id :: string
  en_kind :: entity_kind
  en_title :: string
  en_statement :: string
  en_artifact_id :: string
  en_depends_on :: "string list"

definition structured_entity_init :: "structured_entity \<Rightarrow> structured_entity res" where
  "structured_entity_init r =
     rbind (require_value (\<not> (blank (en_title r) \<or> blank (en_statement r)))) (\<lambda>_.
     rbind (require_value (distinct (en_depends_on r))) (\<lambda>_.
     Inr r))"

definition structured_entity_to_dict :: "structured_entity \<Rightarrow> obj" where
  "structured_entity_to_dict r =
     [(''id'', JStr (en_id r)),
      (''kind'', JStr (entity_kind_value (en_kind r))),
      (''title'', JStr (en_title r)),
      (''statement'', JStr (en_statement r)),
      (''artifact_id'', JStr (en_artifact_id r)),
      (''depends_on'', jstrs (en_depends_on r))]"

definition structured_entity_from_dict :: "py_float \<Rightarrow> obj \<Rightarrow> structured_entity res" where
  "structured_entity_from_dict py v =
     rbind (string_sequence (item_or v ''depends_on'' (JArr []))) (\<lambda>dependencies.
     rbind (rbind (item v ''id'') (\<lambda>j. stable_id (py_str py j))) (\<lambda>i.
     rbind (rbind (item v ''kind'') (\<lambda>j. to_entity_kind (py_str py j))) (\<lambda>kind.
     rbind (rbind (item v ''title'') (\<lambda>j. Inr (py_str py j))) (\<lambda>title.
     rbind (rbind (item v ''statement'') (\<lambda>j. Inr (py_str py j))) (\<lambda>statement.
     rbind (rbind (item v ''artifact_id'') (\<lambda>j. stable_id (py_str py j))) (\<lambda>art.
     rbind (rmap stable_id dependencies) (\<lambda>deps.
     structured_entity_init \<lparr>en_id = i, en_kind = kind, en_title = title, en_statement = statement, en_artifact_id = art,
       en_depends_on = deps\<rparr>)))))))"

definition structured_entity_ok :: "structured_entity \<Rightarrow> bool" where
  "structured_entity_ok r \<longleftrightarrow> structured_entity_init r = Inr r \<and> stable_text (en_id r) \<and> stable_text (en_artifact_id r) \<and>
     list_all stable_text (en_depends_on r)"

lemma structured_entity_decoded: "structured_entity_from_dict py v = Inr r \<Longrightarrow> structured_entity_ok r"
  by (auto simp: structured_entity_from_dict_def structured_entity_init_def structured_entity_ok_def rbind_Inr_iff
      intro: stable_textI elim!: rmap_decoded)

lemma structured_entity_roundtrip: "structured_entity_ok r \<Longrightarrow> structured_entity_from_dict py (structured_entity_to_dict r) = Inr r"
  by (cases r) (simp add: structured_entity_ok_def structured_entity_from_dict_def structured_entity_to_dict_def stable_rmap stable_text_def)

section \<open>The Project Model\<close>

record git_remote =
  gr_name :: string
  gr_url :: string

record git_state =
  gt_initialized :: bool
  gt_branch :: "string option"
  gt_baseline_commit :: "string option"
  gt_current_commit :: "string option"
  gt_dirty :: "bool option"
  gt_remotes :: "git_remote list"

definition git_state_to_dict :: "git_state \<Rightarrow> obj" where
  "git_state_to_dict g =
     [(''initialized'', JBool (gt_initialized g)),
      (''branch'', jopt JStr (gt_branch g)),
      (''baseline_commit'', jopt JStr (gt_baseline_commit g)),
      (''current_commit'', jopt JStr (gt_current_commit g)),
      (''dirty'', jopt JBool (gt_dirty g)),
      (''remote_status'', JStr (if gt_remotes g \<noteq> [] then ''CONFIGURED'' else ''NONE'')),
      (''remotes'', JArr (map (\<lambda>r. JObj [(''name'', JStr (gr_name r)), (''url'', JStr (gr_url r))]) (gt_remotes g)))]"

text \<open>\<open>GitState.enforce(REQUIRE_CLEAN)\<close>\<close>

definition enforce_clean :: "git_state \<Rightarrow> unit res" where
  "enforce_clean g = ensure (gt_dirty g = Some False) GitCommandError"

record project_info =
  pi_id :: string
  pi_name :: string
  pi_description :: string
  pi_lifecycle :: project_lifecycle
  pi_workflow_depth :: workflow_depth

definition project_info_init :: "project_info \<Rightarrow> project_info res" where
  "project_info_init r = rbind (require_value (\<not> (blank (pi_id r) \<or> blank (pi_name r)))) (\<lambda>_. Inr r)"

definition project_info_to_dict :: "project_info \<Rightarrow> obj" where
  "project_info_to_dict r =
     [(''id'', JStr (pi_id r)), (''name'', JStr (pi_name r)), (''description'', JStr (pi_description r)),
      (''lifecycle'', JStr (project_lifecycle_value (pi_lifecycle r))),
      (''workflow_depth'', JStr (workflow_depth_value (pi_workflow_depth r)))]"

record project_model =
  pm_project :: project_info
  pm_git :: git_state
  pm_artifacts :: "artifact list"
  pm_entities :: "structured_entity list"
  pm_governance :: governance_state
  pm_knowledge_adoptions :: "knowledge_adoption list"
  pm_research_adoptions :: "research_adoption list"
  pm_schema_version :: string

definition schema_version :: string where
  "schema_version = ''1.0''"

definition project_model_init :: "project_model \<Rightarrow> project_model res" where
  "project_model_init m =
     rbind (require_value (pm_schema_version m = schema_version)) (\<lambda>_.
     rbind (require_value (distinct (map ar_id (pm_artifacts m)))) (\<lambda>_.
     rbind (require_value (distinct (map ar_path (pm_artifacts m)))) (\<lambda>_.
     rbind (require_value (distinct (map en_id (pm_entities m)))) (\<lambda>_.
     rbind (require_value (list_all (\<lambda>e. en_artifact_id e \<in> set (map ar_id (pm_artifacts m))) (pm_entities m))) (\<lambda>_.
     rbind (require_value (distinct (map ka_organizational_knowledge_id (pm_knowledge_adoptions m)))) (\<lambda>_.
     rbind (require_value (distinct (map ra_bundle_id (pm_research_adoptions m)))) (\<lambda>_.
     Inr m)))))))"

definition project_model_to_dict :: "project_model \<Rightarrow> obj" where
  "project_model_to_dict m =
     [(''schema_version'', JStr (pm_schema_version m)),
      (''project'', JObj (project_info_to_dict (pm_project m))),
      (''git'', JObj (git_state_to_dict (pm_git m))),
      (''artifacts'', JArr (map (\<lambda>x. JObj (artifact_to_dict x)) (pm_artifacts m))),
      (''entities'', JArr (map (\<lambda>x. JObj (structured_entity_to_dict x)) (pm_entities m)))] @
     (if pm_governance m \<noteq> default_governance then [(''governance'', JObj (governance_state_to_dict (pm_governance m)))] else []) @
     (if pm_knowledge_adoptions m \<noteq> []
      then [(''knowledge_adoptions'', JArr (map (\<lambda>x. JObj (knowledge_adoption_to_dict x)) (pm_knowledge_adoptions m)))] else []) @
     (if pm_research_adoptions m \<noteq> []
      then [(''research_adoptions'', JArr (map (\<lambda>x. JObj (research_adoption_to_dict x)) (pm_research_adoptions m)))] else [])"

definition project_info_from_dict :: "py_float \<Rightarrow> obj \<Rightarrow> project_info res" where
  "project_info_from_dict py v =
     rbind (rbind (item v ''id'') (\<lambda>j. Inr (py_str py j))) (\<lambda>i.
     rbind (rbind (item v ''name'') (\<lambda>j. Inr (py_str py j))) (\<lambda>name.
     let description = py_str py (item_or v ''description'' (JStr [])) in
     rbind (rbind (item v ''lifecycle'') (\<lambda>j. to_project_lifecycle (py_str py j))) (\<lambda>lifecycle.
     rbind (to_workflow_depth (py_str py (item_or v ''workflow_depth'' (JStr ''STANDARD'')))) (\<lambda>depth.
     project_info_init \<lparr>pi_id = i, pi_name = name, pi_description = description, pi_lifecycle = lifecycle,
       pi_workflow_depth = depth\<rparr>))))"

definition git_remote_from_dict :: "py_float \<Rightarrow> obj \<Rightarrow> git_remote res" where
  "git_remote_from_dict py v =
     rbind (rbind (item v ''name'') (\<lambda>j. Inr (py_str py j))) (\<lambda>name.
     rbind (rbind (item v ''url'') (\<lambda>j. Inr (py_str py j))) (\<lambda>url.
     Inr \<lparr>gr_name = name, gr_url = url\<rparr>))"

definition git_state_from_dict :: "py_float \<Rightarrow> obj \<Rightarrow> obj list \<Rightarrow> git_state res" where
  "git_state_from_dict py v remote_values =
     rbind (rbind (item v ''initialized'') (\<lambda>j. Inr (py_bool j))) (\<lambda>initialized.
     rbind (optional_string (item_or v ''branch'' JNull)) (\<lambda>branch.
     rbind (optional_string (item_or v ''baseline_commit'' JNull)) (\<lambda>baseline.
     rbind (optional_string (item_or v ''current_commit'' JNull)) (\<lambda>current.
     rbind (optional_bool (item_or v ''dirty'' JNull)) (\<lambda>dirty.
     rbind (rmap (git_remote_from_dict py) remote_values) (\<lambda>remotes.
     Inr \<lparr>gt_initialized = initialized, gt_branch = branch, gt_baseline_commit = baseline, gt_current_commit = current,
        gt_dirty = dirty, gt_remotes = remotes\<rparr>))))))"

definition project_model_from_dict :: "py_float \<Rightarrow> obj \<Rightarrow> project_model res" where
  "project_model_from_dict py v =
     rbind (mapping_of (item_or v ''project'' JNull)) (\<lambda>project_value.
     rbind (mapping_of (item_or v ''git'' JNull)) (\<lambda>git_value.
     rbind (mapping_sequence (item_or v ''artifacts'' (JArr []))) (\<lambda>artifact_values.
     rbind (mapping_sequence (item_or v ''entities'' (JArr []))) (\<lambda>entity_values.
     rbind (mapping_of (item_or v ''governance'' (JObj []))) (\<lambda>governance_value.
     rbind (mapping_sequence (item_or v ''knowledge_adoptions'' (JArr []))) (\<lambda>adoption_values.
     rbind (mapping_sequence (item_or v ''research_adoptions'' (JArr []))) (\<lambda>research_values.
     rbind (mapping_sequence (item_or git_value ''remotes'' (JArr []))) (\<lambda>remote_values.
     rbind (project_info_from_dict py project_value) (\<lambda>project.
     rbind (git_state_from_dict py git_value remote_values) (\<lambda>git.
     rbind (rmap (artifact_from_dict py) artifact_values) (\<lambda>artifacts.
     rbind (rmap (structured_entity_from_dict py) entity_values) (\<lambda>entities.
     rbind (governance_state_from_dict py governance_value) (\<lambda>governance.
     rbind (rmap (knowledge_adoption_from_dict py) adoption_values) (\<lambda>adoptions.
     rbind (rmap (research_adoption_from_dict py) research_values) (\<lambda>research.
     project_model_init \<lparr>pm_project = project, pm_git = git, pm_artifacts = artifacts, pm_entities = entities,
       pm_governance = governance, pm_knowledge_adoptions = adoptions, pm_research_adoptions = research,
       pm_schema_version = py_str py (item_or v ''schema_version'' (JStr schema_version))\<rparr>)))))))))))))))"

text \<open>A model all of whose parts went through their constructors.\<close>

definition project_model_ok :: "project_model \<Rightarrow> bool" where
  "project_model_ok m \<longleftrightarrow> project_model_init m = Inr m \<and> project_info_init (pm_project m) = Inr (pm_project m) \<and>
     list_all artifact_ok (pm_artifacts m) \<and> list_all structured_entity_ok (pm_entities m) \<and> governance_state_ok (pm_governance m) \<and>
     list_all knowledge_adoption_ok (pm_knowledge_adoptions m) \<and> list_all research_adoption_ok (pm_research_adoptions m)"

section \<open>The decoder\<close>

lemma project_model_init_Inr: "project_model_init m = Inr m' \<Longrightarrow> m' = m \<and> project_model_init m' = Inr m'"
  by (auto simp: project_model_init_def rbind_Inr_iff)

lemma project_info_decoded: "project_info_from_dict py v = Inr p \<Longrightarrow> project_info_init p = Inr p"
  by (auto simp: project_info_from_dict_def project_info_init_def rbind_Inr_iff Let_def)

lemma project_info_roundtrip: "project_info_init p = Inr p \<Longrightarrow> project_info_from_dict py (project_info_to_dict p) = Inr p"
  by (cases p) (simp add: project_info_from_dict_def project_info_to_dict_def Let_def)

lemma git_state_roundtrip:
  "git_state_from_dict py (git_state_to_dict g) (map (\<lambda>r. [(''name'', JStr (gr_name r)), (''url'', JStr (gr_url r))]) (gt_remotes g)) = Inr g"
  by (cases g) (simp add: git_state_from_dict_def git_state_to_dict_def git_remote_from_dict_def rmap_map rmap_Inr_all [where g = "\<lambda>r. r"])

lemma governance_default: "governance_state_from_dict py [] = Inr default_governance"
  by (simp add: governance_state_from_dict_def governance_state_init_def default_governance_def require_value_def
      to_lifecycle_stage_def member_of_def)

text \<open>Decoding accepts only models that every constructor accepts.\<close>

lemma project_model_decoded:
  assumes "project_model_from_dict py v = Inr m"
  shows "project_model_ok m"
proof -
  from assms obtain pv av ev gv kv rv where
    "project_info_from_dict py pv = Inr (pm_project m)" "rmap (artifact_from_dict py) av = Inr (pm_artifacts m)"
    "rmap (structured_entity_from_dict py) ev = Inr (pm_entities m)" "governance_state_from_dict py gv = Inr (pm_governance m)"
    "rmap (knowledge_adoption_from_dict py) kv = Inr (pm_knowledge_adoptions m)"
    "rmap (research_adoption_from_dict py) rv = Inr (pm_research_adoptions m)" "project_model_init m = Inr m"
    unfolding project_model_from_dict_def rbind_Inr_iff
    by (elim exE conjE) (frule project_model_init_Inr, elim conjE, hypsubst, rule that,
      (simp only: project_model.select_convs, assumption?)+)
  then show ?thesis
    unfolding project_model_ok_def
    by (intro conjI) (auto intro: project_info_decoded artifact_decoded structured_entity_decoded governance_state_decoded
        knowledge_adoption_decoded research_adoption_decoded elim!: rmap_decoded)
qed

lemma optional_part:
  "item_or ((if c then [(k, x)] else []) @ v) k' d = (if c \<and> k = k' then x else item_or v k' d)"
  by simp

lemma project_model_roundtrip:
  assumes "project_model_ok m"
  shows "project_model_from_dict py (project_model_to_dict m) = Inr m"
proof -
  let ?v = "project_model_to_dict m"
  note parts = project_model_to_dict_def optional_part item_or_Nil append_Cons append_Nil item_or_Cons
  have lists: "rmap (artifact_from_dict py) (map artifact_to_dict (pm_artifacts m)) = Inr (pm_artifacts m)"
    "rmap (structured_entity_from_dict py) (map structured_entity_to_dict (pm_entities m)) = Inr (pm_entities m)"
    "rmap (knowledge_adoption_from_dict py) (map knowledge_adoption_to_dict (pm_knowledge_adoptions m)) = Inr (pm_knowledge_adoptions m)"
    "rmap (research_adoption_from_dict py) (map research_adoption_to_dict (pm_research_adoptions m)) = Inr (pm_research_adoptions m)"
    using assms unfolding project_model_ok_def
    by (auto intro: rmap_roundtrip artifact_roundtrip structured_entity_roundtrip knowledge_adoption_roundtrip research_adoption_roundtrip)
  have "item_or ?v ''project'' JNull = JObj (project_info_to_dict (pm_project m))"
    "item_or ?v ''git'' JNull = JObj (git_state_to_dict (pm_git m))"
    "mapping_sequence (item_or ?v ''artifacts'' (JArr [])) = Inr (map artifact_to_dict (pm_artifacts m))"
    "mapping_sequence (item_or ?v ''entities'' (JArr [])) = Inr (map structured_entity_to_dict (pm_entities m))"
    "mapping_sequence (item_or ?v ''knowledge_adoptions'' (JArr [])) = Inr (map knowledge_adoption_to_dict (pm_knowledge_adoptions m))"
    "mapping_sequence (item_or ?v ''research_adoptions'' (JArr [])) = Inr (map research_adoption_to_dict (pm_research_adoptions m))"
    "item_or ?v ''schema_version'' (JStr schema_version) = JStr (pm_schema_version m)"
    by (simp_all add: parts)
  moreover have "rbind (mapping_of (item_or ?v ''governance'' (JObj []))) (governance_state_from_dict py) = Inr (pm_governance m)"
    using assms by (simp add: parts governance_default governance_state_roundtrip project_model_ok_def)
  moreover have "mapping_sequence (item_or (git_state_to_dict (pm_git m)) ''remotes'' (JArr [])) =
      Inr (map (\<lambda>r. [(''name'', JStr (gr_name r)), (''url'', JStr (gr_url r))]) (gt_remotes (pm_git m)))"
    by (simp add: git_state_to_dict_def)
  moreover have "project_model_init \<lparr>pm_project = pm_project m, pm_git = pm_git m, pm_artifacts = pm_artifacts m,
      pm_entities = pm_entities m, pm_governance = pm_governance m, pm_knowledge_adoptions = pm_knowledge_adoptions m,
      pm_research_adoptions = pm_research_adoptions m, pm_schema_version = pm_schema_version m\<rparr> = Inr m" (is "project_model_init ?m = _")
  proof -
    have "?m = m" by simp
    with assms show ?thesis unfolding project_model_ok_def by metis
  qed
  ultimately show ?thesis
    using assms unfolding project_model_from_dict_def
    by (auto simp: rbind_Inr_iff lists git_state_roundtrip project_info_roundtrip project_model_ok_def)
qed

text \<open>
  C37. The Project Model survives storage: the decoder accepts only models that satisfy the checks of every constructor, down to the
  last nested record, and decoding the JSON form of a decoded model gives exactly that model back.
\<close>

theorem model_json_roundtrip:
  assumes "project_model_from_dict py v = Inr m"
  shows "project_model_ok m \<and> project_model_from_dict py (project_model_to_dict m) = Inr m"
  using project_model_decoded [OF assms] project_model_roundtrip by blast

definition no_floats :: py_float where
  "no_floats = \<lparr>float_text = (\<lambda>_ _. []), float_parse = (\<lambda>_. None)\<rparr>"

definition sample_info :: obj where
  "sample_info = [(''id'', JStr ''P''), (''name'', JStr ''Demo''), (''lifecycle'', JStr ''greenfield'')]"

definition sample_git :: obj where
  "sample_git = [(''initialized'', JBool True), (''branch'', JStr ''main''),
     (''remotes'', JArr [JObj [(''name'', JStr ''origin''), (''url'', JStr ''u'')]])]"

definition sample_artifact :: obj where
  "sample_artifact = [(''id'', JStr ''req-f-001''), (''type'', JStr ''REQUIREMENT''), (''path'', JStr [CHR ''d'', CHR 0x5C, CHR ''r'']),
     (''status'', JStr ''DRAFT''), (''fingerprint'', JStr (replicate 64 CHR ''a''))]"

definition sample_document :: obj where
  "sample_document = [(''project'', JObj sample_info), (''git'', JObj sample_git), (''artifacts'', JArr [JObj sample_artifact])]"

lemma sample_document_ok:
  "case project_model_from_dict no_floats sample_document of Inl e \<Rightarrow> False
   | Inr m \<Rightarrow> map ar_id (pm_artifacts m) = [''REQ-F-001''] \<and> map ar_path (pm_artifacts m) = [''d/r''] \<and> gt_dirty (pm_git m) = None"
  by code_simp

theorem model_json_roundtrip_witness:
  "\<exists>m. project_model_from_dict no_floats sample_document = Inr m \<and> map ar_path (pm_artifacts m) = [''d/r''] \<and>
     project_model_from_dict no_floats (project_model_to_dict m) = Inr m"
proof (cases "project_model_from_dict no_floats sample_document")
  case (Inl e)
  with sample_document_ok show ?thesis by (simp only: sum.case)
next
  case (Inr m)
  have p: "map ar_path (pm_artifacts m) = [''d/r'']" using sample_document_ok unfolding Inr sum.case by (elim conjE)
  show ?thesis by (intro exI conjI, rule Inr, rule p, rule conjunct2 [OF model_json_roundtrip [OF Inr]])
qed

section \<open>The Project lifecycle\<close>

fun advance_all :: "governance_state \<Rightarrow> lifecycle_contribution list \<Rightarrow> governance_state res" where
  "advance_all s [] = Inr s"
| "advance_all s (c # cs) = rbind (advance s c) (\<lambda>s'. advance_all s' cs)"

lemma stage_index_bounds: "0 \<le> stage_index x \<and> stage_index x \<le> 8"
  by (cases x) simp_all

lemma monotonic_append:
  "monotonic p (cs @ [c]) \<longleftrightarrow> monotonic p cs \<and> (if cs = [] then p \<le> stage_index (lc_stage c)
     else stage_index (lc_stage (last cs)) \<le> stage_index (lc_stage c))"
  by (induction p cs rule: monotonic.induct) auto

lemma advance_Inr:
  assumes "governance_state_init s = Inr s"
  shows "advance s c = Inr s' \<longleftrightarrow> stage_index (lc_stage c) = stage_index (gs_stage s) + 1 \<and>
     s' = \<lparr>gs_stage = lc_stage c, gs_contributions = gs_contributions s @ [c]\<rparr>"
  using assms stage_index_bounds [of "lc_stage c"]
  by (auto simp: advance_def governance_state_init_def rbind_Inr_iff monotonic_append)

lemma advance_init: "advance s c = Inr s' \<Longrightarrow> governance_state_init s' = Inr s'"
  by (auto simp: advance_def governance_state_init_def rbind_Inr_iff)

lemma advance_all_Inr:
  assumes "governance_state_init s = Inr s"
  shows "advance_all s cs = Inr s' \<longleftrightarrow>
     map (\<lambda>c. stage_index (lc_stage c)) cs = [stage_index (gs_stage s) + 1 .. stage_index (gs_stage s) + int (length cs)] \<and>
     gs_contributions s' = gs_contributions s @ cs \<and> gs_stage s' = (if cs = [] then gs_stage s else lc_stage (last cs))"
  using assms
proof (induction cs arbitrary: s)
  case Nil
  show ?case by (cases s; cases s') auto
next
  case (Cons c cs)
  let ?s = "\<lparr>gs_stage = lc_stage c, gs_contributions = gs_contributions s @ [c]\<rparr>"
  let ?k = "stage_index (gs_stage s)"
  have up: "[?k + 1 .. ?k + int (length (c # cs))] = (?k + 1) # [?k + 2 .. ?k + 1 + int (length cs)]"
    by (simp add: upto_rec1 algebra_simps)
  show ?case
  proof (cases "stage_index (lc_stage c) = ?k + 1")
    case True
    then have a: "advance s c = Inr ?s" using advance_Inr [OF Cons.prems] by simp
    then have "governance_state_init ?s = Inr ?s" by (rule advance_init)
    from Cons.IH [OF this] show ?thesis using True a up by (auto simp: algebra_simps)
  next
    case False
    then have "advance_all s (c # cs) \<noteq> Inr s'" using advance_Inr [OF Cons.prems] by (auto simp: rbind_Inr_iff)
    with False up show ?thesis by simp
  qed
qed

text \<open>
  The lifecycle of a Project goes through its stages in order without skipping or repeating one: from a new Project a sequence of
  contributions is accepted exactly when it covers the stages after IDEA one by one, and then the Project is in the stage
  of the last one and remembers exactly these contributions. So at most eight are ever accepted.
\<close>

theorem lifecycle_in_order:
  "((\<exists>s. advance_all default_governance cs = Inr s) \<longleftrightarrow> map (\<lambda>c. stage_index (lc_stage c)) cs = [1 .. int (length cs)]) \<and>
   (case advance_all default_governance cs of Inl _ \<Rightarrow> True
    | Inr s \<Rightarrow> gs_contributions s = cs \<and> stage_index (gs_stage s) = int (length cs) \<and> length cs \<le> 8)"
proof -
  have d: "governance_state_init default_governance = Inr default_governance" "stage_index (gs_stage default_governance) = 0"
    "gs_contributions default_governance = []" "gs_stage default_governance = LS_IDEA"
    by (simp_all add: governance_state_init_def default_governance_def require_value_def)
  note all = advance_all_Inr [OF d(1), of cs, unfolded d(2-4)]
  have ex: "\<exists>s :: governance_state. gs_contributions s = cs \<and> gs_stage s = st" for st
    by (rule exI [of _ "\<lparr>gs_stage = st, gs_contributions = cs\<rparr>"]) simp
  have len: "stage_index (gs_stage s) = int (length cs) \<and> length cs \<le> 8" if s: "advance_all default_governance cs = Inr s" for s
  proof (cases "cs = []")
    case True
    then show ?thesis using s all [of s] by simp
  next
    case False
    have m: "map (\<lambda>c. stage_index (lc_stage c)) cs = [1 .. int (length cs)]" using s all [of s] by simp
    have "stage_index (lc_stage (last cs)) = last [1 .. int (length cs)]"
      unfolding m [symmetric] using False by (simp add: last_map)
    also have "1 \<le> int (length cs)" using False by (cases cs) auto
    then have "last [1 .. int (length cs)] = int (length cs)" by (simp add: upto_rec2)
    finally show ?thesis using s all [of s] False stage_index_bounds [of "lc_stage (last cs)"] by simp
  qed
  show ?thesis
  proof
    show "(\<exists>s. advance_all default_governance cs = Inr s) \<longleftrightarrow> map (\<lambda>c. stage_index (lc_stage c)) cs = [1 .. int (length cs)]"
      using all ex by auto
    show "case advance_all default_governance cs of Inl _ \<Rightarrow> True
        | Inr s \<Rightarrow> gs_contributions s = cs \<and> stage_index (gs_stage s) = int (length cs) \<and> length cs \<le> 8"
    proof (cases "advance_all default_governance cs")
      case (Inr s)
      from all [of s] Inr have "gs_contributions s = cs" by simp
      with len [OF Inr] Inr show ?thesis by simp
    qed simp
  qed
qed

end
