(* ===== verification/Project_Store.thy ===== *)
theory Project_Store
  imports Project_Model "HOL-Library.List_Lexorder" "HOL-Library.Char_ord"
begin

text \<open>
  Models the files of a Project: \<open>src/artifex/project/store.py\<close> (the file store), \<open>src/artifex/project/audit.py\<close> (the
  append-only audit history) and the loading and saving of the Project Model in \<open>src/artifex/project/repository.py\<close>.

  A file is kept decoded: the JSON document it holds, or \<open>Undecodable\<close>; a document that was written is read back as
  it is. Directories are implicit, and failures of the operating system (a full disk, permissions) are not modelled. Where
  symbolic links lead, the clock, UUIDs and SHA-256 are parameters of a \<open>project_env\<close>. A write replaces a file in one step, as
  the rename at the end of \<open>write_atomic\<close> does.
\<close>

section \<open>State\<close>

datatype file_content = Document json | Undecodable

text \<open>A line of the audit history; the last one may lack its newline.\<close>

datatype audit_line = Line file_content | Truncated_Line

record project_env =
  pe_now :: "nat \<Rightarrow> string"
  pe_uuid :: "nat \<Rightarrow> string"
  pe_sha :: "json \<Rightarrow> string"
  pe_float :: py_float
  pe_resolve :: "string \<Rightarrow> string option"

record project_state =
  pj_files :: "(string \<times> file_content) list"
  pj_audit :: "audit_line list option"
  pj_ticks :: nat
  pj_draws :: nat

definition now_text :: "project_env \<Rightarrow> (project_state, string) eff" where
  "now_text env = (\<lambda>s. (Inr (pe_now env (pj_ticks s)), s\<lparr>pj_ticks := Suc (pj_ticks s)\<rparr>))"

definition new_uuid :: "project_env \<Rightarrow> (project_state, string) eff" where
  "new_uuid env = (\<lambda>s. (Inr (pe_uuid env (pj_draws s)), s\<lparr>pj_draws := Suc (pj_draws s)\<rparr>))"

section \<open>The file store\<close>

text \<open>
  \<open>resolve_inside\<close>: the file a path names, relative to the root, once symbolic links are followed. \<open>pe_resolve\<close> follows them
  from a canonical name and is \<open>None\<close> where they lead out of the root.
\<close>

definition resolve_inside :: "project_env \<Rightarrow> string \<Rightarrow> string res" where
  "resolve_inside env path =
     rbind (normalize_relative_path path) (\<lambda>n.
     case pe_resolve env n of None \<Rightarrow> Inl UnsafePathError | Some target \<Rightarrow> Inr target)"

definition read_file :: "project_env \<Rightarrow> string \<Rightarrow> (project_state, file_content) eff" where
  "read_file env path =
     bnd (lift (resolve_inside env path)) (\<lambda>target.
     bnd (gets (\<lambda>s. map_of (pj_files s) target)) (\<lambda>f.
     some_or ArtifactNotFoundError f))"

definition write_atomic :: "project_env \<Rightarrow> string \<Rightarrow> json \<Rightarrow> (project_state, unit) eff" where
  "write_atomic env path content =
     bnd (lift (resolve_inside env path)) (\<lambda>target.
     modify (\<lambda>s. s\<lparr>pj_files := AList.update target (Document content) (pj_files s)\<rparr>))"

definition file_exists :: "project_env \<Rightarrow> string \<Rightarrow> (project_state, bool) eff" where
  "file_exists env path =
     bnd (lift (resolve_inside env path)) (\<lambda>target.
     gets (\<lambda>s. map_of (pj_files s) target \<noteq> None))"

text \<open>The listing refuses, as a whole, a Project that holds a file whose name is not portable.\<close>

definition iter_files :: "project_state \<Rightarrow> string list res" where
  "iter_files s = rbind (rmap normalize_relative_path
       (filter (\<lambda>p. \<not> (p = ''.git'' \<or> prefix ''.git/'' p)) (map fst (pj_files s)))) (\<lambda>names.
     Inr (sort names))"

text \<open>\<open>json.loads\<close> of a file's content\<close>

fun loads :: "file_content \<Rightarrow> json res" where
  "loads (Document j) = Inr j"
| "loads Undecodable = Inl ValueError"

text \<open>\<open>except (JSONDecodeError, KeyError, TypeError, ValueError)\<close> that raises \<open>ArtifactCorruptError\<close>\<close>

definition decode_errors :: "err list" where
  "decode_errors = [ValueError, KeyError, TypeError, UnsafePathError, ArtifactCorruptError, DuplicateArtifactError,
     InvalidTransitionError]"

definition as_corrupt :: "('s, 'a) eff \<Rightarrow> ('s, 'a) eff" where
  "as_corrupt m = (\<lambda>s. case m s of (Inl e, s') \<Rightarrow> (Inl (if e \<in> set decode_errors then ArtifactCorruptError else e), s')
     | (Inr x, s') \<Rightarrow> (Inr x, s'))"

section \<open>The audit history\<close>

record audit_event =
  ae_event_type :: string
  ae_actor :: string
  ae_payload :: obj
  ae_commit :: "string option"
  ae_occurred_at :: string
  ae_event_id :: string

definition audit_event_init :: "audit_event \<Rightarrow> audit_event res" where
  "audit_event_init e = rbind (require_value (\<not> (blank (ae_event_type e) \<or> blank (ae_actor e)))) (\<lambda>_. Inr e)"

definition audit_event_to_dict :: "audit_event \<Rightarrow> obj" where
  "audit_event_to_dict e =
     [(''event_id'', JStr (ae_event_id e)), (''event_type'', JStr (ae_event_type e)), (''occurred_at'', JStr (ae_occurred_at e)),
      (''actor'', JStr (ae_actor e)), (''commit'', jopt JStr (ae_commit e)), (''payload'', JObj (ae_payload e))]"

definition audit_event_from_dict :: "py_float \<Rightarrow> obj \<Rightarrow> audit_event res" where
  "audit_event_from_dict py v =
     rbind (mapping_of (item_or v ''payload'' (JObj []))) (\<lambda>payload.
     rbind (rbind (item v ''event_id'') (\<lambda>j. Inr (py_str py j))) (\<lambda>i.
     rbind (rbind (item v ''event_type'') (\<lambda>j. Inr (py_str py j))) (\<lambda>ty.
     rbind (rbind (item v ''occurred_at'') (\<lambda>j. Inr (py_str py j))) (\<lambda>at_text.
     rbind (rbind (item v ''actor'') (\<lambda>j. Inr (py_str py j))) (\<lambda>actor.
     audit_event_init \<lparr>ae_event_type = ty, ae_actor = actor, ae_payload = payload,
       ae_commit = str_or_none py (item_or v ''commit'' JNull), ae_occurred_at = at_text, ae_event_id = i\<rparr>)))))"

text \<open>\<open>AuditEvent(event_type, actor, payload, commit)\<close>, with the defaults of its time and identifier\<close>

definition new_event :: "project_env \<Rightarrow> string \<Rightarrow> string \<Rightarrow> obj \<Rightarrow> string option \<Rightarrow> (project_state, audit_event) eff" where
  "new_event env ty actor payload commit =
     bnd (now_text env) (\<lambda>now.
     bnd (new_uuid env) (\<lambda>i.
     lift (audit_event_init \<lparr>ae_event_type = ty, ae_actor = actor, ae_payload = payload, ae_commit = commit,
       ae_occurred_at = now, ae_event_id = i\<rparr>)))"

fun read_line :: "py_float \<Rightarrow> audit_line \<Rightarrow> audit_event res" where
  "read_line py Truncated_Line = Inl ArtifactCorruptError"
| "read_line py (Line c) = rbind (loads c) (\<lambda>j. rbind (mapping_of j) (audit_event_from_dict py))"

definition read_all :: "project_env \<Rightarrow> (project_state, audit_event list) eff" where
  "read_all env =
     bnd (gets pj_audit) (\<lambda>audit.
     case audit of None \<Rightarrow> ret []
     | Some lines \<Rightarrow> as_corrupt (lift (rmap (read_line (pe_float env)) lines)))"

definition append_event :: "project_env \<Rightarrow> audit_event \<Rightarrow> (project_state, unit) eff" where
  "append_event env e =
     bnd (read_all env) (\<lambda>_.
     modify (\<lambda>s. s\<lparr>pj_audit := Some ((case pj_audit s of None \<Rightarrow> [] | Some ls \<Rightarrow> ls) @
       [Line (Document (JObj (audit_event_to_dict e)))])\<rparr>))"

section \<open>The stored Project Model\<close>

definition model_path :: string where
  "model_path = ''.artifex/project-model.json''"

definition load_model :: "project_env \<Rightarrow> (project_state, project_model) eff" where
  "load_model env = as_corrupt (
     bnd (read_file env model_path) (\<lambda>f.
     lift (rbind (loads f) (\<lambda>j. rbind (mapping_of j) (project_model_from_dict (pe_float env))))))"

definition save_model :: "project_env \<Rightarrow> project_model \<Rightarrow> (project_state, unit) eff" where
  "save_model env m =
     (let v = project_model_to_dict m in
     bnd (lift (project_model_from_dict (pe_float env) v)) (\<lambda>_.
     write_atomic env model_path (JObj v)))"

text \<open>\<open>model_fingerprint\<close>: SHA-256 of the canonical JSON text of the model\<close>

definition model_fingerprint :: "project_env \<Rightarrow> project_model \<Rightarrow> string" where
  "model_fingerprint env m = pe_sha env (JObj (project_model_to_dict m))"

section \<open>Laws of the store\<close>

lemma audit_event_roundtrip:
  "audit_event_init e = Inr e \<Longrightarrow> audit_event_from_dict py (audit_event_to_dict e) = Inr e"
  by (cases e) (simp add: audit_event_from_dict_def audit_event_to_dict_def)

lemma new_event_ok:
  "new_event env ty a p c s = (r, s') \<Longrightarrow>
     s' = s\<lparr>pj_ticks := Suc (pj_ticks s), pj_draws := Suc (pj_draws s)\<rparr> \<and>
     (if blank ty \<or> blank a then r = Inl ValueError
      else (\<exists>e. r = Inr e \<and> audit_event_init e = Inr e \<and> ae_event_type e = ty \<and> ae_actor e = a \<and> ae_payload e = p))"
  by (auto simp: new_event_def now_text_def new_uuid_def bnd_def audit_event_init_def require_value_def)

definition audit_readable :: "project_env \<Rightarrow> project_state \<Rightarrow> bool" where
  "audit_readable env s \<longleftrightarrow> (case pj_audit s of None \<Rightarrow> True | Some ls \<Rightarrow> \<exists>es. rmap (read_line (pe_float env)) ls = Inr es)"

lemma read_all_run: "read_all env s = (if audit_readable env s
    then (Inr (case pj_audit s of None \<Rightarrow> [] | Some ls \<Rightarrow> projr (rmap (read_line (pe_float env)) ls)), s)
    else (Inl ArtifactCorruptError, s))"
proof (cases "pj_audit s")
  case (Some ls)
  have "e \<in> set decode_errors" if "rmap (read_line py) ls = Inl e" for e py
    using that
  proof (induction ls)
    case (Cons l ls)
    have "e \<in> set decode_errors" if "read_line py l = Inl e"
      using that
      by (induction py l rule: read_line.induct)
        (auto simp: decode_errors_def rbind_def audit_event_from_dict_def audit_event_init_def require_value_def item_def ensure_def
          elim!: loads.elims mapping_of.elims split: sum.splits option.splits if_splits)
    with Cons show ?case by (auto simp: rbind_def split: sum.splits)
  qed simp
  with Some show ?thesis
    by (cases "rmap (read_line (pe_float env)) ls") (auto simp: read_all_def audit_readable_def as_corrupt_def)
qed (simp add: read_all_def audit_readable_def)

lemma append_event_run:
  assumes "audit_readable env s" and "audit_event_init e = Inr e"
  shows "\<exists>ls. append_event env e s = (Inr (), s\<lparr>pj_audit := Some ls\<rparr>) \<and> audit_readable env (s\<lparr>pj_audit := Some ls\<rparr>) \<and>
    prefix (case pj_audit s of None \<Rightarrow> [] | Some l \<Rightarrow> l) ls"
proof -
  have app: "rmap f (xs @ [x]) = Inr (ys @ [y])" if "rmap f xs = Inr ys" "f x = Inr y" for f :: "audit_line \<Rightarrow> audit_event res" and xs x ys y
    using that by (induction xs arbitrary: ys) (auto simp: rbind_Inr_iff)
  have e: "read_line (pe_float env) (Line (Document (JObj (audit_event_to_dict e)))) = Inr e"
    using audit_event_roundtrip [OF assms(2)] by simp
  show ?thesis
    using assms(1) app [where f = "read_line (pe_float env)", OF _ e] e
    by (cases "pj_audit s") (auto simp: append_event_def read_all_run audit_readable_def)
qed

end
