(* ===== verification/Project_Authority.thy ===== *)
theory Project_Authority
  imports Project_Store
begin

text \<open>
  Models \<open>src/artifex/project/authority.py\<close>: semantic proposals, the chain of accepted revisions, and their acceptance
  with optimistic revision checks. An operation is the sequence of reads and writes of the source; a raise after a write
  keeps what was written.
\<close>

section \<open>Proposals and revisions\<close>

record semantic_proposal =
  sp_id :: string
  sp_project_id :: string
  sp_expected_revision :: int
  sp_model :: project_model
  sp_actor :: string
  sp_source :: string
  sp_created_at :: string

definition semantic_proposal_init :: "semantic_proposal \<Rightarrow> semantic_proposal res" where
  "semantic_proposal_init p =
     rbind (require_value (\<not> (blank (sp_id p) \<or> blank (sp_actor p) \<or> blank (sp_source p)))) (\<lambda>_.
     rbind (require_value (\<not> sp_expected_revision p < 1)) (\<lambda>_.
     rbind (require_value (\<not> pi_id (pm_project (sp_model p)) \<noteq> sp_project_id p)) (\<lambda>_.
     Inr p)))"

definition semantic_proposal_to_dict :: "project_env \<Rightarrow> semantic_proposal \<Rightarrow> obj" where
  "semantic_proposal_to_dict env p =
     [(''schema_version'', JStr ''1.0''), (''kind'', JStr ''SEMANTIC_PROPOSAL''), (''id'', JStr (sp_id p)),
      (''project_id'', JStr (sp_project_id p)), (''expected_revision'', JInt (sp_expected_revision p)),
      (''model_fingerprint'', JStr (model_fingerprint env (sp_model p))), (''model'', JObj (project_model_to_dict (sp_model p))),
      (''actor'', JStr (sp_actor p)), (''source'', JStr (sp_source p)), (''created_at'', JStr (sp_created_at p)),
      (''status'', JStr ''PROPOSED'')]"

definition semantic_proposal_from_dict :: "project_env \<Rightarrow> obj \<Rightarrow> semantic_proposal res" where
  "semantic_proposal_from_dict env v =
     (let py = pe_float env in
     rbind (mapping_of (item_or v ''model'' JNull)) (\<lambda>model_value.
     rbind (project_model_from_dict py model_value) (\<lambda>m.
     rbind (rbind (item v ''id'') (\<lambda>j. Inr (py_str py j))) (\<lambda>i.
     rbind (rbind (item v ''project_id'') (\<lambda>j. Inr (py_str py j))) (\<lambda>project.
     rbind (rbind (item v ''expected_revision'') py_int) (\<lambda>expected.
     rbind (rbind (item v ''actor'') (\<lambda>j. Inr (py_str py j))) (\<lambda>actor.
     rbind (rbind (item v ''source'') (\<lambda>j. Inr (py_str py j))) (\<lambda>source.
     rbind (rbind (item v ''created_at'') (\<lambda>j. Inr (py_str py j))) (\<lambda>created.
     rbind (semantic_proposal_init \<lparr>sp_id = i, sp_project_id = project, sp_expected_revision = expected, sp_model = m,
       sp_actor = actor, sp_source = source, sp_created_at = created\<rparr>) (\<lambda>p.
     rbind (require_value (\<not> item_or v ''model_fingerprint'' JNull \<noteq> JStr (model_fingerprint env m))) (\<lambda>_.
     Inr p)))))))))))"

record semantic_revision =
  sr_number :: int
  sr_project_id :: string
  sr_fingerprint :: string
  sr_parent_fingerprint :: "string option"
  sr_proposal_id :: string
  sr_actor :: string
  sr_accepted_at :: string
  sr_model :: project_model

definition semantic_revision_init :: "project_env \<Rightarrow> semantic_revision \<Rightarrow> semantic_revision res" where
  "semantic_revision_init env r =
     rbind (require_value (\<not> sr_number r < 1)) (\<lambda>_.
     rbind (require_value (\<not> pi_id (pm_project (sr_model r)) \<noteq> sr_project_id r)) (\<lambda>_.
     rbind (require_value (\<not> sr_fingerprint r \<noteq> model_fingerprint env (sr_model r))) (\<lambda>_.
     Inr r)))"

definition semantic_revision_to_dict :: "semantic_revision \<Rightarrow> obj" where
  "semantic_revision_to_dict r =
     [(''schema_version'', JStr ''1.0''), (''kind'', JStr ''ACCEPTED_SEMANTIC_REVISION''), (''revision'', JInt (sr_number r)),
      (''project_id'', JStr (sr_project_id r)), (''fingerprint'', JStr (sr_fingerprint r)),
      (''parent_fingerprint'', jopt JStr (sr_parent_fingerprint r)), (''proposal_id'', JStr (sr_proposal_id r)),
      (''actor'', JStr (sr_actor r)), (''accepted_at'', JStr (sr_accepted_at r)),
      (''model'', JObj (project_model_to_dict (sr_model r)))]"

definition semantic_revision_from_dict :: "project_env \<Rightarrow> obj \<Rightarrow> semantic_revision res" where
  "semantic_revision_from_dict env v =
     (let py = pe_float env in
     rbind (mapping_of (item_or v ''model'' JNull)) (\<lambda>model_value.
     rbind (project_model_from_dict py model_value) (\<lambda>m.
     let parent = item_or v ''parent_fingerprint'' JNull in
     rbind (rbind (item v ''revision'') py_int) (\<lambda>number.
     rbind (rbind (item v ''project_id'') (\<lambda>j. Inr (py_str py j))) (\<lambda>project.
     rbind (rbind (item v ''fingerprint'') (\<lambda>j. Inr (py_str py j))) (\<lambda>fp.
     rbind (rbind (item v ''proposal_id'') (\<lambda>j. Inr (py_str py j))) (\<lambda>proposal.
     rbind (rbind (item v ''actor'') (\<lambda>j. Inr (py_str py j))) (\<lambda>actor.
     rbind (rbind (item v ''accepted_at'') (\<lambda>j. Inr (py_str py j))) (\<lambda>accepted.
     semantic_revision_init env \<lparr>sr_number = number, sr_project_id = project, sr_fingerprint = fp,
       sr_parent_fingerprint = str_or_none py parent, sr_proposal_id = proposal, sr_actor = actor, sr_accepted_at = accepted,
       sr_model = m\<rparr>)))))))))"

section \<open>Paths\<close>

definition revision_directory :: string where
  "revision_directory = ''.artifex/semantic-revisions''"

definition proposal_directory :: string where
  "proposal_directory = ''.artifex/semantic-proposals''"

definition revision_paths :: "project_state \<Rightarrow> string list res" where
  "revision_paths s = rbind (iter_files s) (\<lambda>names.
     Inr (filter (\<lambda>p. prefix (revision_directory @ ''/'') p \<and> suffix ''.json'' p) names))"

text \<open>\<open>self._revision_paths()\<close> in the running operation\<close>

definition list_revisions :: "(project_state, string list) eff" where
  "list_revisions = (\<lambda>s. (revision_paths s, s))"

text \<open>\<open>f"{number:020d}"\<close> for a positive number\<close>

definition padded :: "int \<Rightarrow> string" where
  "padded n = (let t = nat_text (nat n) in replicate (20 - length t) CHR ''0'' @ t)"

definition revision_path :: "int \<Rightarrow> string" where
  "revision_path n = revision_directory @ ''/'' @ padded n @ ''.json''"

definition proposal_char :: "char \<Rightarrow> bool" where
  "proposal_char c \<longleftrightarrow> is_lower c \<or> is_upper c \<or> is_digit c \<or> c = CHR ''-'' \<or> c = CHR ''_''"

definition proposal_path :: "string \<Rightarrow> string res" where
  "proposal_path i = rbind (require_value (i \<noteq> [] \<and> list_all proposal_char i)) (\<lambda>_.
     Inr (proposal_directory @ ''/'' @ i @ ''.json''))"

section \<open>Operations\<close>

definition read_revision :: "project_env \<Rightarrow> string \<Rightarrow> (project_state, semantic_revision) eff" where
  "read_revision env path = as_corrupt (
     bnd (read_file env path) (\<lambda>f.
     lift (rbind (loads f) (\<lambda>j. rbind (mapping_of j) (semantic_revision_from_dict env)))))"

definition read_proposal :: "project_env \<Rightarrow> string \<Rightarrow> (project_state, semantic_proposal) eff" where
  "read_proposal env path = as_corrupt (
     bnd (read_file env path) (\<lambda>f.
     lift (rbind (loads f) (\<lambda>j. rbind (mapping_of j) (semantic_proposal_from_dict env)))))"

definition write_revision :: "project_env \<Rightarrow> semantic_revision \<Rightarrow> (project_state, unit) eff" where
  "write_revision env r =
     (let path = revision_path (sr_number r) in
     bnd (file_exists env path) (\<lambda>present.
     bnd (req (\<not> present) SemanticConflictError) (\<lambda>_.
     write_atomic env path (JObj (semantic_revision_to_dict r)))))"

fun read_revisions :: "project_env \<Rightarrow> string list \<Rightarrow> (project_state, semantic_revision list) eff" where
  "read_revisions env [] = ret []"
| "read_revisions env (p # ps) =
     bnd (read_revision env p) (\<lambda>r. bnd (read_revisions env ps) (\<lambda>rs. ret (r # rs)))"

text \<open>The checks of \<open>current\<close> on the revisions from position \<open>expected\<close> on, after the given parent.\<close>

fun chain_errors :: "int \<Rightarrow> string option \<Rightarrow> semantic_revision list \<Rightarrow> unit res" where
  "chain_errors expected parent [] = Inr ()"
| "chain_errors expected parent (r # rs) =
     rbind (ensure (\<not> sr_number r \<noteq> expected) ArtifactCorruptError) (\<lambda>_.
     rbind (ensure (\<not> (expected = 1 \<and> sr_parent_fingerprint r \<noteq> None)) ArtifactCorruptError) (\<lambda>_.
     rbind (ensure (\<not> (expected > 1 \<and> sr_parent_fingerprint r \<noteq> parent)) ArtifactCorruptError) (\<lambda>_.
     chain_errors (expected + 1) (Some (sr_fingerprint r)) rs)))"

definition current :: "project_env \<Rightarrow> (project_state, semantic_revision) eff" where
  "current env =
     bnd list_revisions (\<lambda>paths.
     bnd (req (paths \<noteq> []) ArtifactNotFoundError) (\<lambda>_.
     bnd (read_revisions env paths) (\<lambda>revisions.
     bnd (lift (chain_errors 1 None revisions)) (\<lambda>_.
     ret (last revisions)))))"

text \<open>\<open>value or _now()\<close>\<close>

definition or_now :: "project_env \<Rightarrow> string option \<Rightarrow> (project_state, string) eff" where
  "or_now env v = (case v of Some t \<Rightarrow> if t \<noteq> [] then ret t else now_text env | None \<Rightarrow> now_text env)"

definition bootstrap :: "project_env \<Rightarrow> string \<Rightarrow> string \<Rightarrow> string option \<Rightarrow> (project_state, unit) eff" where
  "bootstrap env actor source accepted_at =
     bnd list_revisions (\<lambda>paths.
     if paths \<noteq> [] then ret ()
     else
       bnd (load_model env) (\<lambda>m.
       bnd (or_now env accepted_at) (\<lambda>accepted.
       bnd (lift (semantic_revision_init env \<lparr>sr_number = 1, sr_project_id = pi_id (pm_project m),
         sr_fingerprint = model_fingerprint env m, sr_parent_fingerprint = None, sr_proposal_id = source, sr_actor = actor,
         sr_accepted_at = accepted, sr_model = m\<rparr>)) (\<lambda>revision.
       bnd (read_all env) (\<lambda>_.
       bnd (write_revision env revision) (\<lambda>_.
       bnd (new_event env ''SEMANTIC_REVISION_ACCEPTED'' actor
         [(''revision'', JInt 1), (''fingerprint'', JStr (sr_fingerprint revision)), (''proposal_id'', JStr source),
          (''source'', JStr source)] None) (\<lambda>e.
       append_event env e)))))))"

definition propose :: "project_env \<Rightarrow> project_model \<Rightarrow> int \<Rightarrow> string \<Rightarrow> string \<Rightarrow> string option \<Rightarrow> string option \<Rightarrow>
    (project_state, semantic_proposal) eff" where
  "propose env m expected actor source proposal_id created_at =
     bnd (current env) (\<lambda>cur.
     bnd (req (\<not> pi_id (pm_project m) \<noteq> sr_project_id cur) ValueError) (\<lambda>_.
     bnd (if proposal_id \<noteq> None \<and> proposal_id \<noteq> Some [] then ret (the proposal_id)
          else bnd (new_uuid env) (\<lambda>u. ret (''proposal-'' @ u))) (\<lambda>i.
     bnd (or_now env created_at) (\<lambda>created.
     bnd (lift (semantic_proposal_init \<lparr>sp_id = i, sp_project_id = sr_project_id cur, sp_expected_revision = expected, sp_model = m,
       sp_actor = actor, sp_source = source, sp_created_at = created\<rparr>)) (\<lambda>proposal.
     bnd (lift (proposal_path (sp_id proposal))) (\<lambda>path.
     bnd (file_exists env path) (\<lambda>present.
     bnd (req (\<not> present) FileExistsError) (\<lambda>_.
     bnd (write_atomic env path (JObj (semantic_proposal_to_dict env proposal))) (\<lambda>_.
     bnd (new_event env ''SEMANTIC_PROPOSAL_CREATED'' actor
       [(''proposal_id'', JStr (sp_id proposal)), (''expected_revision'', JInt expected), (''source'', JStr source)] None) (\<lambda>e.
     bnd (append_event env e) (\<lambda>_.
     ret proposal)))))))))))"

definition observe_external_mutation :: "project_env \<Rightarrow> string \<Rightarrow> (project_state, semantic_proposal option) eff" where
  "observe_external_mutation env actor =
     bnd (current env) (\<lambda>cur.
     bnd (load_model env) (\<lambda>observed.
     if model_fingerprint env observed = sr_fingerprint cur then ret None
     else bnd (propose env observed (sr_number cur) actor ''EXTERNAL_REPOSITORY_MUTATION'' None None) (\<lambda>p. ret (Some p))))"

definition accept :: "project_env \<Rightarrow> string \<Rightarrow> int \<Rightarrow> string \<Rightarrow> string option \<Rightarrow> (project_state, semantic_revision) eff" where
  "accept env proposal_id expected actor accepted_at =
     bnd (current env) (\<lambda>cur.
     bnd (lift (proposal_path proposal_id)) (\<lambda>path.
     bnd (read_proposal env path) (\<lambda>proposal.
     bnd (req (\<not> (expected \<noteq> sr_number cur \<or> sp_expected_revision proposal \<noteq> sr_number cur)) SemanticConflictError) (\<lambda>_.
     bnd (req (\<not> sp_project_id proposal \<noteq> sr_project_id cur) ValueError) (\<lambda>_.
     bnd (load_model env) (\<lambda>materialized.
     let proposal_fingerprint = model_fingerprint env (sp_model proposal) in
     bnd (if model_fingerprint env materialized \<notin> {sr_fingerprint cur, proposal_fingerprint}
          then bnd (observe_external_mutation env ''external'') (\<lambda>_. raise ExternalMutationError)
          else ret ()) (\<lambda>_.
     bnd (or_now env accepted_at) (\<lambda>accepted.
     bnd (lift (semantic_revision_init env \<lparr>sr_number = sr_number cur + 1, sr_project_id = sr_project_id cur,
       sr_fingerprint = proposal_fingerprint, sr_parent_fingerprint = Some (sr_fingerprint cur), sr_proposal_id = sp_id proposal,
       sr_actor = actor, sr_accepted_at = accepted, sr_model = sp_model proposal\<rparr>)) (\<lambda>revision.
     bnd (read_all env) (\<lambda>_.
     bnd (save_model env (sp_model proposal)) (\<lambda>_.
     bnd (write_revision env revision) (\<lambda>_.
     bnd (new_event env ''SEMANTIC_REVISION_ACCEPTED'' actor
       [(''revision'', JInt (sr_number revision)), (''fingerprint'', JStr (sr_fingerprint revision)),
        (''proposal_id'', JStr (sp_id proposal))] None) (\<lambda>e.
     bnd (append_event env e) (\<lambda>_.
     ret revision))))))))))))))"

end
