(* ===== verification/Workspace.thy ===== *)
theory Workspace
  imports Managed_Service Project_Authority
begin

text \<open>
  Models \<open>src/artifex/runtime/workspace.py\<close> and the operations of \<open>src/artifex/runtime/service.py\<close> that use it: isolated
  Execution Workspaces and the promotion of an accepted result into the Project. Here the runtime database and the Projects of a host
  meet: a workspace is created from a Project under an Envelope, and promotion proposes and accepts a revision of that Project.

  Git, symbolic links and directories of the host are parameters of a \<open>host_env\<close>. Absolute paths are lists of components; the
  directories below the workspace root that exist are part of the state, their contents are not.
\<close>

section \<open>The host\<close>

text \<open>
  \<open>he_resolve\<close> is \<open>Path(text).expanduser().resolve()\<close>. \<open>he_git n args\<close> is the standard output of the \<open>n\<close>-th run of git, \<open>None\<close> when it
  fails; \<open>he_partial n\<close> tells whether a run that failed has left its target directory. \<open>he_escaping n path\<close> tells whether the
  directory then holds a symbolic link that leads out of it.
\<close>

record host_env =
  he_runtime :: runtime_env
  he_project :: "string list \<Rightarrow> project_env"
  he_resolve :: "string \<Rightarrow> string list"
  he_git :: "nat \<Rightarrow> string list \<Rightarrow> string option"
  he_partial :: "nat \<Rightarrow> bool"
  he_escaping :: "nat \<Rightarrow> string list \<Rightarrow> bool"

record host =
  ho_runtime :: world
  ho_projects :: "(string list \<times> project_state) list"
  ho_trees :: "string list list"
  ho_runs :: nat

definition on_runtime :: "(world, 'a) eff \<Rightarrow> (host, 'a) eff" where
  "on_runtime m = (\<lambda>h. case m (ho_runtime h) of (r, w) \<Rightarrow> (r, h\<lparr>ho_runtime := w\<rparr>))"

text \<open>An operation of \<open>ProjectAuthority(root)\<close>, whose constructor refuses a root that does not exist.\<close>

definition on_project :: "host_env \<Rightarrow> string list \<Rightarrow> (project_env \<Rightarrow> (project_state, 'a) eff) \<Rightarrow> (host, 'a) eff" where
  "on_project env root m = (\<lambda>h. case map_of (ho_projects h) root of
     None \<Rightarrow> (Inl ArtifactNotFoundError, h)
   | Some s \<Rightarrow> (case m (he_project env root) s of (r, s') \<Rightarrow> (r, h\<lparr>ho_projects := AList.update root s' (ho_projects h)\<rparr>)))"

definition path_text :: "string list \<Rightarrow> string" where
  "path_text p = CHR ''/'' # join_with CHR ''/'' p"

definition join_path :: "string list \<Rightarrow> string \<Rightarrow> string" where
  "join_path root rel = (if prefix ''/'' rel then rel else path_text root @ ''/'' @ rel)"

definition add_tree :: "string list \<Rightarrow> (host, unit) eff" where
  "add_tree target = modify (\<lambda>h. h\<lparr>ho_trees := target # ho_trees h\<rparr>)"

definition remove_tree :: "string list \<Rightarrow> (host, unit) eff" where
  "remove_tree target = modify (\<lambda>h. h\<lparr>ho_trees := filter (\<lambda>p. p \<noteq> target) (ho_trees h)\<rparr>)"

definition git_run :: "host_env \<Rightarrow> string list \<Rightarrow> (host, string option) eff" where
  "git_run env args = (\<lambda>h. (Inr (he_git env (ho_runs h) args), h\<lparr>ho_runs := Suc (ho_runs h)\<rparr>))"

definition git_root :: "host_env \<Rightarrow> string list \<Rightarrow> (host, string list option) eff" where
  "git_root env path =
     bnd (git_run env [''-C'', path_text path, ''rev-parse'', ''--show-toplevel'']) (\<lambda>out.
     ret (map_option (\<lambda>text. he_resolve env (strip text)) out))"

definition git_output :: "host_env \<Rightarrow> string list \<Rightarrow> string list \<Rightarrow> (host, string) eff" where
  "git_output env path args =
     bnd (git_run env (''-C'' # path_text path # args)) (\<lambda>out.
     bnd (some_or CalledProcessError out) (\<lambda>text.
     ret (strip text)))"

text \<open>\<open>subprocess.run(..., check=True)\<close> of a git command that creates the target\<close>

definition git_create :: "host_env \<Rightarrow> string list \<Rightarrow> string list \<Rightarrow> (host, unit) eff" where
  "git_create env target args =
     bnd (gets ho_runs) (\<lambda>n.
     bnd (git_run env args) (\<lambda>out.
     bnd (if out \<noteq> None \<or> he_partial env n then add_tree target else ret ()) (\<lambda>_.
     req (out \<noteq> None) CalledProcessError)))"

text \<open>\<open>shutil.copytree\<close>, which refuses an existing target\<close>

definition copy_tree :: "string list \<Rightarrow> (host, unit) eff" where
  "copy_tree target =
     bnd (check (\<lambda>h. target \<notin> set (ho_trees h)) FileExistsError) (\<lambda>_. add_tree target)"

definition assert_no_symlink_escape :: "host_env \<Rightarrow> string list \<Rightarrow> (host, unit) eff" where
  "assert_no_symlink_escape env target = check (\<lambda>h. \<not> he_escaping env (ho_runs h) target) RuntimeAuthorizationError"

section \<open>Creation\<close>

record workspace_manager =
  wm_token :: fence_token
  wm_root :: "string list"

text \<open>\<open>[A-Za-z0-9][A-Za-z0-9._-]{0,127}\<close>\<close>

definition ident_char :: "char \<Rightarrow> bool" where
  "ident_char c \<longleftrightarrow> is_upper c \<or> is_lower c \<or> is_digit c"

fun safe_workspace_id :: "string \<Rightarrow> bool" where
  "safe_workspace_id [] \<longleftrightarrow> False"
| "safe_workspace_id (c # cs) \<longleftrightarrow> ident_char c \<and> list_all (\<lambda>d. ident_char d \<or> d \<in> {CHR ''.'', CHR ''_'', CHR ''-''}) cs \<and> length cs \<le> 127"

text \<open>The local variables of the \<open>try\<close> block\<close>

record making =
  mk_host :: host
  mk_git_created :: bool
  mk_clone_created :: bool

definition on_host :: "(host, 'a) eff \<Rightarrow> (making, 'a) eff" where
  "on_host m = (\<lambda>k. case m (mk_host k) of (r, h) \<Rightarrow> (r, k\<lparr>mk_host := h\<rparr>))"

definition head_or_copy :: "host_env \<Rightarrow> execution_envelope \<Rightarrow> string list \<Rightarrow> string list \<Rightarrow> (host, string) eff" where
  "head_or_copy env e source target =
     (\<lambda>h. case git_output env source [''rev-parse'', ''HEAD''] h of
        (Inr head, h') \<Rightarrow> (Inr head, h')
      | (Inl err, h') \<Rightarrow>
          bnd (req (\<not> allowed_providers e \<noteq> []) RuntimeAuthorizationError) (\<lambda>_.
          bnd (copy_tree target) (\<lambda>_.
          ret [])) h')"

definition build_tree :: "host_env \<Rightarrow> execution_envelope \<Rightarrow> string list \<Rightarrow> string list \<Rightarrow> (making, unit) eff" where
  "build_tree env e source target =
     bnd (on_host (git_root env source)) (\<lambda>root.
     bnd (if root = Some source
          then
            bnd (on_host (head_or_copy env e source target)) (\<lambda>head.
            bnd (req (\<not> (head \<noteq> [] \<and> baseline_commit e \<noteq> None \<and> Some head \<noteq> baseline_commit e)) RuntimeAuthorizationError) (\<lambda>_.
            bnd (if head \<noteq> [] \<and> allowed_providers e \<noteq> []
                 then bnd (on_host (git_output env source [''status'', ''--porcelain''])) (\<lambda>changes. req (changes = []) RuntimeAuthorizationError)
                 else ret ()) (\<lambda>_.
            if head \<noteq> []
            then if allowed_providers e \<noteq> []
              then
                bnd (on_host (git_create env target [''clone'', ''--no-local'', ''--no-checkout'', ''--quiet'', path_text source, path_text target])) (\<lambda>_.
                bnd (modify (\<lambda>k. k\<lparr>mk_clone_created := True\<rparr>)) (\<lambda>_.
                bnd (on_host (git_output env target [''checkout'', ''--detach'', ''--quiet'', head])) (\<lambda>_.
                ret ())))
              else
                bnd (on_host (git_create env target
                  [''-C'', path_text source, ''worktree'', ''add'', ''--detach'', path_text target, head])) (\<lambda>_.
                modify (\<lambda>k. k\<lparr>mk_git_created := True\<rparr>))
            else ret ())))
          else on_host (copy_tree target)) (\<lambda>_.
     on_host (assert_no_symlink_escape env target)))"

text \<open>The handler of the \<open>try\<close> block; \<open>git worktree remove\<close> runs without a check of its exit code.\<close>

definition discard_tree :: "host_env \<Rightarrow> string list \<Rightarrow> string list \<Rightarrow> bool \<Rightarrow> bool \<Rightarrow> (host, unit) eff" where
  "discard_tree env source target git_created clone_created =
     (if git_created
      then bnd (git_run env [''-C'', path_text source, ''worktree'', ''remove'', ''--force'', path_text target]) (\<lambda>out.
        if out \<noteq> None then remove_tree target else ret ())
      else bnd (gets (\<lambda>h. target \<in> set (ho_trees h))) (\<lambda>present.
        if clone_created \<or> present then remove_tree target else ret ()))"

definition make_tree :: "host_env \<Rightarrow> execution_envelope \<Rightarrow> string list \<Rightarrow> string list \<Rightarrow> (host, unit) eff" where
  "make_tree env e source target =
     (\<lambda>h. case build_tree env e source target \<lparr>mk_host = h, mk_git_created = False, mk_clone_created = False\<rparr> of
        (Inr _, k) \<Rightarrow> (Inr (), mk_host k)
      | (Inl err, k) \<Rightarrow> bnd (discard_tree env source target (mk_git_created k) (mk_clone_created k)) (\<lambda>_. raise err) (mk_host k))"

definition create_workspace_tree :: "host_env \<Rightarrow> workspace_manager \<Rightarrow> string \<Rightarrow> string \<Rightarrow> string \<Rightarrow> int \<Rightarrow> actor_like \<Rightarrow>
    (host, string list) eff" where
  "create_workspace_tree env wm workspace_id attempt_id project_root baseline actor =
     bnd (req (safe_workspace_id workspace_id) RuntimeAuthorizationError) (\<lambda>_.
     let source = he_resolve env project_root; target = he_resolve env (join_path (wm_root wm) workspace_id) in
     bnd (req (\<not> butlast target \<noteq> wm_root wm) RuntimeAuthorizationError) (\<lambda>_.
     bnd (check (\<lambda>h. target \<notin> set (ho_trees h)) FileExistsError) (\<lambda>_.
     bnd (on_runtime (fetch RuntimeTransitionError (get_attempt attempt_id))) (\<lambda>attempt.
     bnd (on_runtime (fetch RuntimeTransitionError (get_job (at_project_job_id attempt)))) (\<lambda>job.
     bnd (on_runtime (fetch RuntimeTransitionError (get_run (jb_run_id job)))) (\<lambda>run.
     bnd (on_runtime (fetch RuntimeTransitionError (envelope (rn_envelope_id run) (rn_envelope_version run)))) (\<lambda>p.
     let e = pl_envelope p in
     bnd (req (\<not> baseline \<noteq> baseline_revision e) RuntimeAuthorizationError) (\<lambda>_.
     bnd (on_project env source current) (\<lambda>cur.
     bnd (req (\<not> sr_project_id cur \<noteq> rn_project_id run) RuntimeAuthorizationError) (\<lambda>_.
     bnd (req (\<not> sr_number cur \<noteq> baseline) RuntimeAuthorizationError) (\<lambda>_.
     bnd (req (\<not> (baseline_fingerprint e \<noteq> None \<and> Some (sr_fingerprint cur) \<noteq> baseline_fingerprint e)) RuntimeAuthorizationError) (\<lambda>_.
     let principal = as_principal actor in
     bnd (on_runtime (clock (he_runtime env))) (\<lambda>now1.
     bnd (lift (require principal ''workspace:create'' (sr_project_id cur) now1)) (\<lambda>_.
     bnd (make_tree env e source target) (\<lambda>_.
     bnd (on_runtime (clock (he_runtime env))) (\<lambda>now.
     bnd (on_runtime (in_store (insert_values
       (New_Workspace \<lparr>wk_id = workspace_id, wk_attempt_id = attempt_id, wk_project_root = path_text source,
          wk_workspace_root = path_text target, wk_baseline_revision = baseline, wk_state = ''ACTIVE'', wk_created_at = now\<rparr>)
       (wm_token wm) now (Principal principal) ''WORKSPACE_CREATED''))) (\<lambda>_.
     ret target)))))))))))))))))"

section \<open>Use\<close>

text \<open>\<open>candidate.relative_to(root).as_posix()\<close>\<close>

fun relative_to :: "string list \<Rightarrow> string list \<Rightarrow> string list option" where
  "relative_to [] p = Some p"
| "relative_to (c # cs) [] = None"
| "relative_to (c # cs) (d # ds) = (if c = d then relative_to cs ds else None)"

definition run_for_workspace :: "workspace_row \<Rightarrow> (world, run_row) eff" where
  "run_for_workspace ws =
     bnd (fetch RuntimeTransitionError (get_attempt (wk_attempt_id ws))) (\<lambda>attempt.
     bnd (fetch RuntimeTransitionError (get_job (at_project_job_id attempt))) (\<lambda>job.
     fetch RuntimeTransitionError (get_run (jb_run_id job))))"

text \<open>\<open>workspace is None or workspace["state"] != "ACTIVE"\<close>\<close>

definition active_workspace :: "string \<Rightarrow> (world, workspace_row) eff" where
  "active_workspace workspace_id =
     bnd (fetch RuntimeTransitionError (get_workspace workspace_id)) (\<lambda>ws.
     bnd (req (\<not> wk_state ws \<noteq> ''ACTIVE'') RuntimeTransitionError) (\<lambda>_.
     ret ws))"

definition assert_allowed_path :: "host_env \<Rightarrow> string \<Rightarrow> string \<Rightarrow> string \<Rightarrow> actor_like \<Rightarrow> (host, string list) eff" where
  "assert_allowed_path env workspace_id relative_path permission actor =
     bnd (on_runtime (active_workspace workspace_id)) (\<lambda>ws.
     let root = he_resolve env (wk_workspace_root ws);
         candidate = he_resolve env (join_path root relative_path) in
     bnd (some_or RuntimeAuthorizationError (relative_to root candidate)) (\<lambda>rel.
     let relative = as_posix rel in
     bnd (on_runtime (query (envelope_for_attempt (wk_attempt_id ws)))) (\<lambda>found.
     bnd (lift found) (\<lambda>p.
     let e = pl_envelope p in
     bnd (req (permission \<in> set (filesystem_permissions e)) RuntimeAuthorizationError) (\<lambda>_.
     let owners = map (\<lambda>v. remove_prefix ''./'' (to_slashes v)) (allowed_paths e) in
     bnd (req (list_ex (\<lambda>owner. owns_path owner relative) owners) RuntimeAuthorizationError) (\<lambda>_.
     let principal = as_principal actor in
     bnd (on_runtime (run_for_workspace ws)) (\<lambda>run.
     bnd (on_runtime (clock (he_runtime env))) (\<lambda>now.
     bnd (lift (require principal ''workspace:access'' (rn_project_id run) now)) (\<lambda>_.
     ret candidate)))))))))"

section \<open>Promotion\<close>

definition promote :: "host_env \<Rightarrow> workspace_manager \<Rightarrow> string \<Rightarrow> project_model \<Rightarrow> acceptance_decision \<Rightarrow> actor_like \<Rightarrow> (host, int) eff" where
  "promote env wm workspace_id m decision actor =
     bnd (on_runtime (active_workspace workspace_id)) (\<lambda>ws.
     bnd (on_runtime (fetch RuntimeTransitionError (get_attempt (wk_attempt_id ws)))) (\<lambda>attempt.
     let job_id = at_project_job_id attempt in
     bnd (req (\<not> (dec_project_job_id decision \<noteq> job_id \<or> outcome decision \<noteq> ACCEPT)) RuntimeTransitionError) (\<lambda>_.
     bnd (on_runtime (fetch RuntimeAuthorizationError (acceptance job_id))) (\<lambda>stored_row.
     bnd (req (\<not> ac_decision_id stored_row \<noteq> decision_id decision) RuntimeAuthorizationError) (\<lambda>_.
     bnd (on_runtime (fetch RuntimeTransitionError (get_job job_id))) (\<lambda>job.
     bnd (req (\<not> jb_state job \<noteq> job_state_value JOB_ACCEPTED) RuntimeTransitionError) (\<lambda>_.
     bnd (on_runtime (run_for_workspace ws)) (\<lambda>run.
     bnd (on_runtime (fetch RuntimeAuthorizationError (envelope (rn_envelope_id run) (rn_envelope_version run)))) (\<lambda>p.
     bnd (req (dec_envelope_fingerprint decision \<in> {None, Some (pl_fingerprint p)}) RuntimeAuthorizationError) (\<lambda>_.
     let principal = as_principal actor in
     bnd (on_runtime (clock (he_runtime env))) (\<lambda>now1.
     bnd (lift (require principal ''project:promote'' (rn_project_id run) now1)) (\<lambda>_.
     bnd (on_runtime (query (dispatch_authorization (wk_attempt_id ws)))) (\<lambda>dispatch.
     bnd (req (case dispatch of None \<Rightarrow> True | Some dsp \<Rightarrow> dsp_actor_id dsp \<noteq> actor_id principal) RuntimeAuthorizationError) (\<lambda>_.
     let root = he_resolve env (wk_project_root ws) in
     bnd (on_project env root current) (\<lambda>cur.
     bnd (on_runtime (clock (he_runtime env))) (\<lambda>now.
     let baseline = wk_baseline_revision ws in
     bnd (if sr_number cur \<noteq> baseline
          then
            bnd (on_runtime (in_store (set_workspace_state workspace_id ''ACTIVE'' ''PROMOTION_CONFLICT'' (wm_token wm) now (Principal principal)))) (\<lambda>_.
            bnd (on_runtime (in_store (transition_one ''project_jobs'' ''project_job_id'' job_id (job_state_value JOB_ACCEPTED)
              (job_state_value JOB_PROMOTION_CONFLICT) (wm_token wm) now (Principal principal) []))) (\<lambda>_.
            raise PromotionConflictError))
          else ret ()) (\<lambda>_.
     bnd (on_project env root (\<lambda>pe. propose pe m baseline (actor_id principal) ''EXECUTION_WORKSPACE_PROMOTION'' None None)) (\<lambda>proposal.
     bnd (on_project env root (\<lambda>pe. accept pe (sp_id proposal) baseline (actor_id principal) None)) (\<lambda>revision.
     bnd (on_runtime (in_store (set_workspace_state workspace_id ''ACTIVE'' ''PROMOTED'' (wm_token wm) now (Principal principal)))) (\<lambda>_.
     bnd (on_runtime (in_store (record_event ''WORKSPACE_PROMOTED'' ''workspaces'' workspace_id
       [(''project_job_id'', JStr job_id), (''baseline_revision'', JInt baseline), (''promoted_revision'', JInt (sr_number revision)),
        (''proposal_id'', JStr (sp_id proposal))] (wm_token wm) now (Principal principal) None))) (\<lambda>_.
     ret (sr_number revision))))))))))))))))))))))"

section \<open>The service\<close>

record managed_runtime =
  mr_service :: service
  mr_workspaces :: workspace_manager

text \<open>The part of \<open>ManagedRuntimeService.__init__\<close> that builds the workspace manager; the managed root is created if it is missing.\<close>

definition managed_init :: "host_env \<Rightarrow> string \<Rightarrow> string \<Rightarrow> string option \<Rightarrow> int \<Rightarrow> (host, managed_runtime) eff" where
  "managed_init env store_path service_id workspace_root lease_seconds =
     bnd (on_runtime (service_init (he_runtime env) service_id lease_seconds)) (\<lambda>sv.
     let root = (case workspace_root of Some r \<Rightarrow> r | None \<Rightarrow> path_text (butlast (he_resolve env store_path) @ [''workspaces''])) in
     ret \<lparr>mr_service = sv, mr_workspaces = \<lparr>wm_token = co_token (sv_coordinator sv), wm_root = he_resolve env root\<rparr>\<rparr>)"

definition create_workspace :: "host_env \<Rightarrow> managed_runtime \<Rightarrow> string \<Rightarrow> string \<Rightarrow> string \<Rightarrow> int \<Rightarrow> actor_like \<Rightarrow> (host, string list) eff" where
  "create_workspace env mr workspace_id attempt_id project_root baseline actor =
     create_workspace_tree env (mr_workspaces mr) workspace_id attempt_id project_root baseline actor"

definition promote_workspace :: "host_env \<Rightarrow> managed_runtime \<Rightarrow> string \<Rightarrow> project_model \<Rightarrow> acceptance_decision \<Rightarrow> actor_like \<Rightarrow> (host, int) eff" where
  "promote_workspace env mr workspace_id m decision actor =
     bnd (on_runtime (assert_project_job_unblocked (dec_project_job_id decision))) (\<lambda>_.
     promote env (mr_workspaces mr) workspace_id m decision actor)"

definition promote_accepted_workspace :: "host_env \<Rightarrow> managed_runtime \<Rightarrow> string \<Rightarrow> project_model \<Rightarrow> string \<Rightarrow> actor_like \<Rightarrow> (host, int) eff" where
  "promote_accepted_workspace env mr workspace_id m project_job_id actor =
     bnd (on_runtime (stored_decision project_job_id)) (\<lambda>decision.
     promote_workspace env mr workspace_id m decision actor)"

end
