(* ===== verification/Authority_Laws.thy ===== *)
theory Authority_Laws
  imports Project_Authority "HOL-Library.Multiset"
begin

text \<open>
  Laws of the revision store: the zero-padded file names sort like the numbers they spell, repository paths below
  \<open>.artifex\<close> are canonical, what was written is read back, and the chain of revisions as an abstract list.
\<close>

section \<open>Zero-padded numbers sort numerically\<close>

fun fixed_digits :: "nat \<Rightarrow> nat \<Rightarrow> string" where
  "fixed_digits 0 n = []"
| "fixed_digits (Suc k) n = fixed_digits k (n div 10) @ [char_of (48 + n mod 10)]"

lemma length_digits [simp]: "length (fixed_digits k n) = k"
  by (induction k arbitrary: n) auto

lemma char_zero: "char_of (48 :: nat) = CHR ''0''"
  by code_simp

lemma digits_0: "fixed_digits k 0 = replicate k CHR ''0''"
  by (induction k) (simp_all add: replicate_append_same char_zero)

lemma append_less_right: "length u = length v \<Longrightarrow> u < v \<Longrightarrow> u @ w < v @ (x :: string)"
  by (induction u v rule: list_induct2) auto

lemma append_less_left [simp]: "u @ v < u @ (w :: string) \<longleftrightarrow> v < w"
  by (induction u) auto

lemma digit_less: "a < b \<Longrightarrow> b < 10 \<Longrightarrow> char_of (48 + a :: nat) < (char_of (48 + b) :: char)"
  by (simp add: less_char_def)

lemma digits_less: "a < b \<Longrightarrow> b < 10 ^ k \<Longrightarrow> fixed_digits k a < fixed_digits k b"
proof (induction k arbitrary: a b)
  case (Suc k)
  show ?case
  proof (cases "a div 10 < b div 10")
    case True
    with Suc show ?thesis by (auto intro!: append_less_right simp: less_mult_imp_div_less mult.commute)
  next
    case False
    with Suc.prems have eq: "a div 10 = b div 10" by (meson div_le_mono less_imp_le_nat nat_less_le)
    have "a mod 10 < b mod 10"
      using Suc.prems(1) eq by (metis mult_div_mod_eq nat_add_left_cancel_less)
    with eq show ?thesis by (simp add: digit_less)
  qed
qed simp

lemma nat_text_digits:
  "n < 10 ^ k \<Longrightarrow> 0 < k \<Longrightarrow> length (nat_text n) \<le> k \<and> replicate (k - length (nat_text n)) CHR ''0'' @ nat_text n = fixed_digits k n"
proof (induction n arbitrary: k rule: nat_text.induct)
  case (1 n)
  obtain k' where k: "k = Suc k'" using 1(3) by (cases k) auto
  show ?case
  proof (cases "n < 10")
    case True
    with k show ?thesis by (subst (1 2 3) nat_text.simps) (simp add: digits_0)
  next
    case False
    have q: "n div 10 < 10 ^ k'" using 1(2) k by (simp add: less_mult_imp_div_less mult.commute)
    have k': "0 < k'" using q False by (cases k') auto
    note IH = 1(1) [OF False q k']
    have t: "nat_text n = nat_text (n div 10) @ [char_of (48 + n mod 10)]"
      using False by (subst nat_text.simps) simp
    from IH have r: "replicate (k' - length (nat_text (n div 10))) CHR ''0'' @ nat_text (n div 10) = fixed_digits k' (n div 10)" by blast
    show ?thesis
      using IH unfolding t k by (simp only: length_append list.size fixed_digits.simps append_assoc [symmetric] diff_Suc_Suc One_nat_def add_Suc_right add_0_right r) simp
  qed
qed

definition revision_limit :: nat where
  "revision_limit = 10 ^ 20"

lemma padded_digits: "n < revision_limit \<Longrightarrow> padded (int n) = fixed_digits 20 n"
  using nat_text_digits [of n 20] by (simp add: padded_def revision_limit_def del: nat_text.simps power_numeral)

lemma revision_path_less:
  "a < b \<Longrightarrow> b < revision_limit \<Longrightarrow> revision_path (int a) < revision_path (int b)"
  by (simp add: revision_path_def padded_digits append_less_right digits_less revision_limit_def del: power_numeral)

section \<open>Paths below the control directory\<close>

text \<open>No symbolic link below \<open>.artifex\<close>: the only assumption on \<open>pe_resolve\<close>.\<close>

definition plain_layout :: "project_env \<Rightarrow> bool" where
  "plain_layout env \<longleftrightarrow> (\<forall>p. prefix ''.artifex/'' p \<longrightarrow> pe_resolve env p = Some p)"

lemma ccode_backslash [simp]: "ccode c = 92 \<longleftrightarrow> c = CHR 0x5C"
proof -
  have "ccode (CHR 0x5C) = 92" by code_simp
  then show ?thesis unfolding ccode_def by (metis of_char_eq_iff)
qed

lemma to_slashes_idI: "CHR 0x5C \<notin> set p \<Longrightarrow> to_slashes p = p"
  unfolding to_slashes_def by (rule map_idI) auto

lemma resolve_control:
  assumes "plain_layout env" and "prefix ''.artifex/'' p" and "CHR 0x5C \<notin> set p"
  shows "resolve_inside env p = (case normalize_relative_path p of Inl e \<Rightarrow> Inl e | Inr n \<Rightarrow> Inr p)"
  using assms(1,2) normalize_Inr(1) [of p] to_slashes_idI [OF assms(3)] unfolding resolve_inside_def plain_layout_def
  by (cases "normalize_relative_path p") auto

lemma normalize_model_path [simp]: "normalize_relative_path model_path = Inr model_path"
  by code_simp

lemma resolve_model_path [simp]: "plain_layout env \<Longrightarrow> resolve_inside env model_path = Inr model_path"
  by (subst resolve_control) (auto simp: model_path_def normalize_model_path [unfolded model_path_def])

lemma length_upper: "length s \<le> length (upper s)"
  by (induction s) (auto simp: upper_def upper_char_def Let_def)

lemma reserved_short: "w \<in> set windows_reserved \<Longrightarrow> length w < 5"
proof -
  have "list_all (\<lambda>w. length w < 5) windows_reserved" by code_simp
  then show "w \<in> set windows_reserved \<Longrightarrow> length w < 5" by (simp add: list_all_iff)
qed

lemma nat_text_chars: "\<forall>c \<in> set (nat_text m). 48 \<le> ccode c \<and> ccode c \<le> 57"
proof (induction m rule: nat_text.induct)
  case (1 m)
  show ?case
  proof (cases "m < 10")
    case True
    then show ?thesis by (subst nat_text.simps) (simp add: ccode_def)
  next
    case False
    moreover have "ccode (char_of (48 + m mod 10)) = 48 + m mod 10" by (simp add: ccode_def)
    moreover have "m mod 10 < 10" by simp
    ultimately show ?thesis using 1 by (subst nat_text.simps) (simp del: nat_text.simps)
  qed
qed

lemma padded_chars: "c \<in> set (padded n) \<Longrightarrow> 48 \<le> ccode c \<and> ccode c \<le> 57"
  using nat_text_chars [of "nat n"] by (auto simp: padded_def Let_def ccode_def simp del: nat_text.simps)

lemma length_padded: "20 \<le> length (padded n)"
  by (simp add: padded_def Let_def del: nat_text.simps)

lemma padded_proposal_char: "list_all proposal_char (padded n)"
  using padded_chars [of _ n] by (auto simp: list_all_iff proposal_char_def is_digit_def)

text \<open>File names made of letters, digits, hyphens and underscores are portable when they are longer than a reserved device name.\<close>

lemma proposal_char_codes:
  assumes "proposal_char c"
  shows "c \<noteq> CHR ''.'' \<and> c \<noteq> CHR ''/'' \<and> c \<noteq> CHR 0x5C \<and> 32 \<le> ccode c \<and> c \<notin> set windows_forbidden"
  using assms by (auto simp: proposal_char_def is_digit_def is_lower_def is_upper_def ccode_def windows_forbidden_def)

lemma portable_named:
  assumes "list_all proposal_char w" and "4 < length w"
  shows "portable_part (w @ ''.json'')"
proof -
  have c: "c \<noteq> CHR ''.'' \<and> 32 \<le> ccode c \<and> c \<notin> set windows_forbidden" if "c \<in> set w" for c
    using assms(1) that proposal_char_codes by (auto simp: list_all_iff)
  have "takeWhile (\<lambda>c. c \<noteq> CHR ''.'') (w @ ''.json'') = w"
    by (simp add: takeWhile_append2 c)
  moreover have "upper w \<notin> set windows_reserved"
    using reserved_short [of "upper w"] length_upper [of w] assms(2) by auto
  moreover have "\<not> list_ex (\<lambda>c. c \<in> set windows_forbidden \<or> ccode c < 32) ''.json''" by code_simp
  ultimately show ?thesis
    using c unfolding portable_part_def list_ex_append by (fastforce simp: list_ex_iff suffix_def)
qed

lemma normalize_named:
  assumes w: "list_all proposal_char w" "4 < length w" and d: "d \<in> {''semantic-revisions'', ''semantic-proposals'', ''changesets''}"
  shows "normalize_relative_path (''.artifex/'' @ d @ ''/'' @ w @ ''.json'') = Inr (''.artifex/'' @ d @ ''/'' @ w @ ''.json'')"
    (is "normalize_relative_path ?p = _")
proof -
  let ?parts = "[''.artifex'', d, w @ ''.json'']"
  have "c \<noteq> CHR ''/'' \<and> c \<noteq> CHR 0x5C \<and> ccode c \<noteq> 0" if "c \<in> set w" for c
    using w(1) that proposal_char_codes by (fastforce simp: list_all_iff)
  then have c: "CHR ''/'' \<notin> set w" "CHR 0x5C \<notin> set w" "\<not> list_ex (\<lambda>c. ccode c = 0) w" by (auto simp: list_ex_iff)
  have dc: "CHR ''/'' \<notin> set d \<and> CHR 0x5C \<notin> set d \<and> \<not> list_ex (\<lambda>c. ccode c = 0) d \<and> portable_part d \<and> d \<notin> {[], ''.'', ''..''}"
  proof -
    have "list_all (\<lambda>d. CHR ''/'' \<notin> set d \<and> CHR 0x5C \<notin> set d \<and> \<not> list_ex (\<lambda>c. ccode c = 0) d \<and> portable_part d \<and> d \<notin> {[], ''.'', ''..''})
      [''semantic-revisions'', ''semantic-proposals'', ''changesets'']" by code_simp
    with d show ?thesis by (auto simp: list_all_iff)
  qed
  have j: "join_with CHR ''/'' ?parts = ?p" by simp
  have "split_on CHR ''/'' (join_with CHR ''/'' ?parts) = ?parts"
    by (rule split_join) (use dc c in auto)
  then have sp: "split_on CHR ''/'' ?p = ?parts" by (simp only: j)
  have sl: "to_slashes ?p = ?p" by (rule to_slashes_idI) (use dc c in auto)
  have nul: "\<not> list_ex (\<lambda>c. ccode c = 0) ?p"
    using dc c by (auto simp: list_ex_iff ccode_def)
  have port: "portable_part ''.artifex''" by code_simp
  have ok: "\<not> list_ex (\<lambda>part. part \<in> {[], ''.'', ''..''}) ?parts" "list_all portable_part ?parts"
    using dc portable_named [OF w] port by (auto simp: append_eq_Cons_conv)
  have start: "\<not> prefix ''/'' ?p" "\<not> windows_drive ?p" "?p \<noteq> []" by auto
  show ?thesis
    unfolding normalize_relative_path_def Let_def sl sp as_posix_def j using nul ok start by auto
qed

lemma normalize_revision_path [simp]: "normalize_relative_path (revision_path n) = Inr (revision_path n)"
  using normalize_named [OF padded_proposal_char, of n "''semantic-revisions''"] length_padded [of n]
  by (simp add: revision_path_def revision_directory_def)

lemma resolve_revision_path [simp]:
  assumes "plain_layout env"
  shows "resolve_inside env (revision_path n) = Inr (revision_path n)"
proof -
  have "CHR 0x5C \<notin> set (revision_path n)"
    using padded_chars [of "CHR 0x5C" n] by (auto simp: revision_path_def revision_directory_def ccode_def)
  moreover have "prefix ''.artifex/'' (revision_path n)" by (simp add: revision_path_def revision_directory_def)
  ultimately show ?thesis using resolve_control [OF assms] by simp
qed

section \<open>The listing\<close>

definition revision_name :: "string \<Rightarrow> bool" where
  "revision_name p \<longleftrightarrow> prefix (revision_directory @ ''/'') p \<and> suffix ''.json'' p"

lemma revision_name_path [simp]: "revision_name (revision_path n)"
  by (simp add: revision_name_def revision_path_def suffix_def)

lemma revision_paths_alt:
  "revision_paths s = rbind (rmap normalize_relative_path
     (filter (\<lambda>p. \<not> (p = ''.git'' \<or> prefix ''.git/'' p)) (map fst (pj_files s)))) (\<lambda>ns. Inr (sort (filter revision_name ns)))"
  by (cases "rmap normalize_relative_path (filter (\<lambda>p. \<not> (p = ''.git'' \<or> prefix ''.git/'' p)) (map fst (pj_files s)))")
    (simp_all add: revision_paths_def iter_files_def filter_sort revision_name_def [abs_def])

lemma revision_paths_keep:
  assumes "normalize_relative_path q = Inr q" and "\<not> revision_name q \<or> map_of (pj_files s) q \<noteq> None"
  shows "revision_paths (s\<lparr>pj_files := AList.update q c (pj_files s)\<rparr>) = revision_paths s"
proof (cases "q \<in> fst ` set (pj_files s)")
  case True
  then show ?thesis by (simp add: revision_paths_alt AList.update_keys)
next
  case False
  with assms(2) have "\<not> revision_name q" by (simp add: map_of_eq_None_iff)
  then show ?thesis
    using False assms(1)
    by (cases "rmap normalize_relative_path (filter (\<lambda>p. \<not> (p = ''.git'' \<or> prefix ''.git/'' p)) (map fst (pj_files s)))")
      (simp_all add: revision_paths_alt AList.update_keys rmap_snoc)
qed

lemma revision_paths_add:
  assumes "revision_paths s = Inr ps" and "map_of (pj_files s) (revision_path n) = None"
    and "\<And>p. p \<in> set ps \<Longrightarrow> p \<le> revision_path n"
  shows "revision_paths (s\<lparr>pj_files := AList.update (revision_path n) c (pj_files s)\<rparr>) = Inr (ps @ [revision_path n])"
proof -
  let ?q = "revision_path n" and ?names = "filter (\<lambda>p. \<not> (p = ''.git'' \<or> prefix ''.git/'' p)) (map fst (pj_files s))"
  obtain ns where ns: "rmap normalize_relative_path ?names = Inr ns" and ps: "ps = sort (filter revision_name ns)"
    using assms(1) unfolding revision_paths_alt by (auto elim: rbind_InrE)
  have git: "\<not> (?q = ''.git'' \<or> prefix ''.git/'' ?q)" by (simp add: revision_path_def revision_directory_def)
  have new: "?q \<notin> fst ` set (pj_files s)" using assms(2) by (simp add: map_of_eq_None_iff)
  have "revision_paths (s\<lparr>pj_files := AList.update ?q c (pj_files s)\<rparr>) = Inr (sort (filter revision_name ns @ [?q]))"
    using new git ns by (simp add: revision_paths_alt AList.update_keys rmap_snoc)
  also have "sort (filter revision_name ns @ [?q]) = ps @ [?q]"
    using assms(3) by (intro properties_for_sort) (auto simp: ps sorted_append)
  finally show ?thesis .
qed

section \<open>Reading and writing\<close>

lemma read_file_run: "read_file env p s = (rbind (resolve_inside env p) (\<lambda>t. case map_of (pj_files s) t of
    None \<Rightarrow> Inl ArtifactNotFoundError | Some f \<Rightarrow> Inr f), s)"
  by (cases "resolve_inside env p"; cases "map_of (pj_files s) (projr (resolve_inside env p))") (simp_all add: read_file_def)

lemma as_corrupt_run: "m s = (r, t) \<Longrightarrow> as_corrupt m s =
    ((case r of Inl e \<Rightarrow> Inl (if e \<in> set decode_errors then ArtifactCorruptError else e) | Inr x \<Rightarrow> Inr x), t)"
  by (cases r) (simp_all add: as_corrupt_def)

text \<open>A decoder applied to the document stored under a path, without a change of the state.\<close>

definition stored :: "project_env \<Rightarrow> (obj \<Rightarrow> 'a res) \<Rightarrow> string \<Rightarrow> project_state \<Rightarrow> 'a res" where
  "stored env dec p s = fst (as_corrupt (bnd (read_file env p) (\<lambda>f. lift (rbind (loads f) (\<lambda>j. rbind (mapping_of j) dec)))) s)"

lemma stored_run: "as_corrupt (bnd (read_file env p) (\<lambda>f. lift (rbind (loads f) (\<lambda>j. rbind (mapping_of j) dec)))) s =
    (stored env dec p s, s)"
proof -
  have "snd (bnd (read_file env p) (\<lambda>f. lift (rbind (loads f) (\<lambda>j. rbind (mapping_of j) dec))) s) = s"
    by (cases "fst (read_file env p s)") (auto simp: bnd_def read_file_run split: sum.splits)
  then show ?thesis
    unfolding stored_def by (auto simp: as_corrupt_def split: prod.splits sum.splits)
qed

lemmas load_model_run = stored_run [of env model_path "project_model_from_dict (pe_float env)" for env, folded load_model_def]
lemmas read_revision_run = stored_run [of env p "semantic_revision_from_dict env" for env p, folded read_revision_def]
lemmas read_proposal_run = stored_run [of env p "semantic_proposal_from_dict env" for env p, folded read_proposal_def]

lemma stored_cong:
  assumes "\<And>q. resolve_inside env p = Inr q \<Longrightarrow> map_of (pj_files t) q = map_of (pj_files s) q"
  shows "stored env dec p t = stored env dec p s"
  using assms by (cases "resolve_inside env p") (auto simp: stored_def as_corrupt_def read_file_run bnd_def split: sum.splits prod.splits)

lemma stored_document:
  assumes "resolve_inside env p = Inr q" and "map_of (pj_files s) q = Some (Document (JObj v))" and "dec v = Inr x"
  shows "stored env dec p s = Inr x"
  using assms by (simp add: stored_def as_corrupt_def read_file_run)

lemma stored_InrE:
  assumes "stored env dec p s = Inr x"
  obtains q v where "resolve_inside env p = Inr q" and "map_of (pj_files s) q = Some (Document (JObj v))" and "dec v = Inr x"
proof -
  obtain q where q: "resolve_inside env p = Inr q"
    using assms by (cases "resolve_inside env p") (simp_all add: stored_def as_corrupt_def read_file_run)
  moreover obtain f where f: "map_of (pj_files s) q = Some f"
    using assms q by (cases "map_of (pj_files s) q") (simp_all add: stored_def as_corrupt_def read_file_run)
  moreover have "rbind (loads f) (\<lambda>j. rbind (mapping_of j) dec) = Inr x"
    using assms q f by (auto simp: stored_def as_corrupt_def read_file_run split: sum.splits)
  then obtain v where "f = Document (JObj v)" "dec v = Inr x"
    by (auto elim!: rbind_InrE loads.elims mapping_of.elims)
  ultimately show ?thesis using that by blast
qed

lemma write_atomic_run: "resolve_inside env p = Inr q \<Longrightarrow>
    write_atomic env p j s = (Inr (), s\<lparr>pj_files := AList.update q (Document j) (pj_files s)\<rparr>)"
  by (simp add: write_atomic_def)

lemma file_exists_run: "resolve_inside env p = Inr q \<Longrightarrow> file_exists env p s = (Inr (map_of (pj_files s) q \<noteq> None), s)"
  by (simp add: file_exists_def)

section \<open>Stored proposals and revisions\<close>

lemma semantic_revision_init_Inr:
  "semantic_revision_init env r = Inr r' \<longleftrightarrow> r' = r \<and> 1 \<le> sr_number r \<and> pi_id (pm_project (sr_model r)) = sr_project_id r \<and>
     sr_fingerprint r = model_fingerprint env (sr_model r)"
  by (auto simp: semantic_revision_init_def rbind_Inr_iff)

lemma semantic_revision_roundtrip:
  assumes "semantic_revision_init env r = Inr r" and "project_model_ok (sr_model r)"
  shows "semantic_revision_from_dict env (semantic_revision_to_dict r) = Inr r"
  using assms project_model_roundtrip [OF assms(2)]
  by (cases r) (simp add: semantic_revision_from_dict_def semantic_revision_to_dict_def Let_def)

lemma semantic_revision_decoded:
  assumes "semantic_revision_from_dict env v = Inr r"
  shows "semantic_revision_init env r = Inr r \<and> project_model_ok (sr_model r)"
  using assms unfolding semantic_revision_from_dict_def Let_def
  by (auto elim!: rbind_InrE simp: semantic_revision_init_Inr dest: project_model_decoded)

lemma semantic_proposal_init_Inr:
  "semantic_proposal_init p = Inr p' \<longleftrightarrow> p' = p \<and> \<not> blank (sp_id p) \<and> \<not> blank (sp_actor p) \<and> \<not> blank (sp_source p) \<and>
     1 \<le> sp_expected_revision p \<and> pi_id (pm_project (sp_model p)) = sp_project_id p"
  by (auto simp: semantic_proposal_init_def rbind_Inr_iff)

lemma semantic_proposal_roundtrip:
  assumes "semantic_proposal_init p = Inr p" and "project_model_ok (sp_model p)"
  shows "semantic_proposal_from_dict env (semantic_proposal_to_dict env p) = Inr p"
  using assms project_model_roundtrip [OF assms(2)]
  by (cases p) (simp add: semantic_proposal_from_dict_def semantic_proposal_to_dict_def Let_def require_value_def)

lemma semantic_proposal_decoded:
  assumes "semantic_proposal_from_dict env v = Inr p"
  shows "semantic_proposal_init p = Inr p \<and> project_model_ok (sp_model p)"
  using assms unfolding semantic_proposal_from_dict_def Let_def
  by (auto elim!: rbind_InrE simp: semantic_proposal_init_Inr dest: project_model_decoded)

section \<open>The chain as a list\<close>

definition chain_names :: "nat \<Rightarrow> string list" where
  "chain_names n = map (\<lambda>i. revision_path (int i)) [1..<Suc n]"

lemma chain_names_Suc: "chain_names (Suc n) = chain_names n @ [revision_path (int (Suc n))]"
  by (simp add: chain_names_def)

lemma chain_names_Nil [simp]: "chain_names n = [] \<longleftrightarrow> n = 0"
  by (simp add: chain_names_def)

text \<open>
  The revision files are named after the positions of their revisions and hold, in order, a chain that \<open>current\<close> accepts.
\<close>

definition chain :: "project_env \<Rightarrow> project_state \<Rightarrow> semantic_revision list \<Rightarrow> bool" where
  "chain env s rs \<longleftrightarrow> length rs < revision_limit \<and> revision_paths s = Inr (chain_names (length rs)) \<and>
     rmap (\<lambda>p. stored env (semantic_revision_from_dict env) p s) (chain_names (length rs)) = Inr rs \<and>
     chain_errors 1 None rs = Inr ()"

lemma read_revisions_run:
  "read_revisions env ps s = (rmap (\<lambda>p. stored env (semantic_revision_from_dict env) p s) ps, s)"
  by (induction ps) (auto simp: bnd_def read_revision_run rbind_def split: sum.splits)

lemma chain_errors_snoc: "chain_errors k parent (rs @ [r]) = Inr () \<longleftrightarrow> chain_errors k parent rs = Inr () \<and>
    sr_number r = k + int (length rs) \<and> (k + int (length rs) = 1 \<longrightarrow> sr_parent_fingerprint r = None) \<and>
    (k + int (length rs) > 1 \<longrightarrow> sr_parent_fingerprint r = (if rs = [] then parent else Some (sr_fingerprint (last rs))))"
  by (induction k parent rs rule: chain_errors.induct) (auto simp: rbind_Inr_iff)

lemma chain_number:
  assumes "chain env s (rs @ [r])"
  shows "sr_number r = int (Suc (length rs))"
  using assms by (simp add: chain_def chain_errors_snoc)

lemma current_run:
  assumes "chain env s (rs @ [r])"
  shows "current env s = (Inr r, s)"
  using assms by (simp add: current_def list_revisions_def chain_def read_revisions_run)

lemma chain_unique: "chain env s rs \<Longrightarrow> chain env s rs' \<Longrightarrow> rs = rs'"
proof -
  have len: "n = m" if "chain_names n = chain_names m" for n m using arg_cong [OF that, of length] by (simp add: chain_names_def del: upt_Suc)
  show "chain env s rs \<Longrightarrow> chain env s rs' \<Longrightarrow> rs = rs'"
    unfolding chain_def using len by (metis Inr_inject)
qed

text \<open>Writes outside the revision directory leave the chain alone.\<close>

lemma chain_frame:
  assumes "plain_layout env" and "revision_paths t = revision_paths s"
    and "\<And>n. map_of (pj_files t) (revision_path n) = map_of (pj_files s) (revision_path n)"
  shows "chain env t rs \<longleftrightarrow> chain env s rs"
proof -
  have "stored env dec p t = stored env dec p s" if "p \<in> set (chain_names n)" for dec :: "obj \<Rightarrow> semantic_revision res" and p n
    using that assms(1,3) by (intro stored_cong) (auto simp: chain_names_def)
  then have "rmap (\<lambda>p. stored env dec p t) (chain_names n) = rmap (\<lambda>p. stored env dec p s) (chain_names n)"
    for dec :: "obj \<Rightarrow> semantic_revision res" and n by (rule rmap_cong)
  then show ?thesis by (simp add: chain_def assms(2))
qed

lemma chain_update:
  assumes "plain_layout env" and "normalize_relative_path q = Inr q" and "\<not> revision_name q"
  shows "chain env (s\<lparr>pj_files := AList.update q c (pj_files s)\<rparr>) rs \<longleftrightarrow> chain env s rs"
proof (rule chain_frame [OF assms(1)])
  show "revision_paths (s\<lparr>pj_files := AList.update q c (pj_files s)\<rparr>) = revision_paths s"
    using assms by (intro revision_paths_keep) auto
  show "map_of (pj_files (s\<lparr>pj_files := AList.update q c (pj_files s)\<rparr>)) (revision_path n) = map_of (pj_files s) (revision_path n)" for n
    using assms(3) revision_name_path [of n] by (auto simp: AList.update_conv')
qed

lemma stored_files: "pj_files t = pj_files s \<Longrightarrow> stored env dec p t = stored env dec p s"
  by (rule stored_cong) simp

lemma chain_files:
  assumes "pj_files t = pj_files s"
  shows "chain env t rs \<longleftrightarrow> chain env s rs"
proof -
  have "(\<lambda>p. stored env dec p t) = (\<lambda>p. stored env dec p s)" for dec :: "obj \<Rightarrow> semantic_revision res"
    by (rule ext) (rule stored_files [OF assms])
  moreover have "revision_paths t = revision_paths s" by (simp only: revision_paths_alt assms)
  ultimately show ?thesis by (simp only: chain_def)
qed

text \<open>Publishing the next revision extends the list.\<close>

lemma chain_names_below:
  assumes "p \<in> set (chain_names n)" and "Suc n < revision_limit"
  shows "p < revision_path (int (Suc n))"
  using assms by (auto simp: chain_names_def simp del: upt_Suc of_nat_Suc intro!: revision_path_less)

lemma chain_fresh:
  assumes "chain env s rs" and "Suc (length rs) < revision_limit"
  shows "map_of (pj_files s) (revision_path (int (Suc (length rs)))) = None"
proof (rule ccontr)
  let ?q = "revision_path (int (Suc (length rs)))"
  let ?names = "filter (\<lambda>p. \<not> (p = ''.git'' \<or> prefix ''.git/'' p)) (map fst (pj_files s))"
  assume "map_of (pj_files s) ?q \<noteq> None"
  then have "?q \<in> fst ` set (pj_files s)" by (metis map_of_eq_None_iff)
  moreover have "\<not> (?q = ''.git'' \<or> prefix ''.git/'' ?q)" by (simp add: revision_path_def revision_directory_def)
  ultimately have "?q \<in> set ?names" by auto
  moreover obtain ns where ns: "rmap normalize_relative_path ?names = Inr ns" "chain_names (length rs) = sort (filter revision_name ns)"
    using assms(1) unfolding chain_def revision_paths_alt by (auto elim: rbind_InrE)
  moreover have "y \<in> set ys" if "rmap f xs = Inr ys" "x \<in> set xs" "f x = Inr y" for f :: "string \<Rightarrow> string res" and xs ys x y
    using that by (induction xs arbitrary: ys) (auto simp: rbind_Inr_iff)
  ultimately have "?q \<in> set (chain_names (length rs))" by (simp add: normalize_revision_path revision_name_path del: of_nat_Suc)
  with chain_names_below [OF _ assms(2)] show False by blast
qed

lemma chain_add:
  assumes "plain_layout env" and "chain env s rs" and "Suc (length rs) < revision_limit"
    and "semantic_revision_init env r = Inr r" and "project_model_ok (sr_model r)" and "sr_number r = int (Suc (length rs))"
    and "sr_parent_fingerprint r = (if rs = [] then None else Some (sr_fingerprint (last rs)))"
  shows "chain env (s\<lparr>pj_files := AList.update (revision_path (sr_number r)) (Document (JObj (semantic_revision_to_dict r))) (pj_files s)\<rparr>)
    (rs @ [r])" (is "chain env ?t _")
proof -
  let ?q = "revision_path (int (Suc (length rs)))" and ?dec = "semantic_revision_from_dict env"
  have paths: "revision_paths ?t = Inr (chain_names (Suc (length rs)))"
    unfolding assms(6) chain_names_Suc
    using assms(2) chain_names_below [OF _ assms(3)] chain_fresh [OF assms(2,3)]
    by (intro revision_paths_add) (auto simp: chain_def order.order_iff_strict)
  have old: "stored env ?dec p ?t = stored env ?dec p s" if p: "p \<in> set (chain_names (length rs))" for p
  proof (rule stored_cong)
    fix q assume "resolve_inside env p = Inr q"
    moreover have "resolve_inside env p = Inr p" using p assms(1) by (auto simp: chain_names_def)
    ultimately show "map_of (pj_files ?t) q = map_of (pj_files s) q"
      using chain_names_below [OF p assms(3)] unfolding assms(6) by (auto simp: AList.update_conv' simp del: of_nat_Suc)
  qed
  have new: "stored env ?dec ?q ?t = Inr r"
    using assms(1) semantic_revision_roundtrip [OF assms(4,5)]
    by (intro stored_document [where q = ?q]) (simp_all add: assms(6) AList.update_conv' del: of_nat_Suc)
  have "rmap (\<lambda>p. stored env ?dec p ?t) (chain_names (length rs)) = Inr rs"
    using assms(2) rmap_cong [where xs = "chain_names (length rs)", OF old] by (simp add: chain_def)
  then have "rmap (\<lambda>p. stored env ?dec p ?t) (chain_names (Suc (length rs))) = Inr (rs @ [r])"
    using new by (simp add: chain_names_Suc rmap_snoc del: of_nat_Suc)
  with paths show ?thesis
    using assms(2,3,6,7) by (auto simp: chain_def chain_errors_snoc)
qed

section \<open>The operations on a valid chain\<close>

text \<open>The end of \<open>accept\<close>: the part that writes.\<close>

definition next_revision :: "project_env \<Rightarrow> semantic_revision \<Rightarrow> semantic_proposal \<Rightarrow> string \<Rightarrow> string \<Rightarrow> semantic_revision" where
  "next_revision env cur p actor accepted = \<lparr>sr_number = sr_number cur + 1, sr_project_id = sr_project_id cur,
     sr_fingerprint = model_fingerprint env (sp_model p), sr_parent_fingerprint = Some (sr_fingerprint cur),
     sr_proposal_id = sp_id p, sr_actor = actor, sr_accepted_at = accepted, sr_model = sp_model p\<rparr>"

lemma next_revision_sel [simp]:
  "sr_number (next_revision env cur p actor accepted) = sr_number cur + 1"
  "sr_project_id (next_revision env cur p actor accepted) = sr_project_id cur"
  "sr_fingerprint (next_revision env cur p actor accepted) = model_fingerprint env (sp_model p)"
  "sr_parent_fingerprint (next_revision env cur p actor accepted) = Some (sr_fingerprint cur)"
  "sr_proposal_id (next_revision env cur p actor accepted) = sp_id p"
  "sr_actor (next_revision env cur p actor accepted) = actor"
  "sr_accepted_at (next_revision env cur p actor accepted) = accepted"
  "sr_model (next_revision env cur p actor accepted) = sp_model p"
  by (simp_all add: next_revision_def)

definition publish :: "project_env \<Rightarrow> semantic_revision \<Rightarrow> semantic_proposal \<Rightarrow> string \<Rightarrow> string option \<Rightarrow>
    (project_state, semantic_revision) eff" where
  "publish env cur proposal actor accepted_at =
     bnd (or_now env accepted_at) (\<lambda>accepted.
     bnd (lift (semantic_revision_init env (next_revision env cur proposal actor accepted))) (\<lambda>revision.
     bnd (read_all env) (\<lambda>_.
     bnd (save_model env (sp_model proposal)) (\<lambda>_.
     bnd (write_revision env revision) (\<lambda>_.
     bnd (new_event env ''SEMANTIC_REVISION_ACCEPTED'' actor
       [(''revision'', JInt (sr_number revision)), (''fingerprint'', JStr (sr_fingerprint revision)),
        (''proposal_id'', JStr (sp_id proposal))] None) (\<lambda>e.
     bnd (append_event env e) (\<lambda>_.
     ret revision)))))))"

definition proposal_at :: "project_env \<Rightarrow> string \<Rightarrow> project_state \<Rightarrow> semantic_proposal res" where
  "proposal_at env i s = rbind (proposal_path i) (\<lambda>path. stored env (semantic_proposal_from_dict env) path s)"

definition model_at :: "project_env \<Rightarrow> project_state \<Rightarrow> project_model res" where
  "model_at env s = stored env (project_model_from_dict (pe_float env)) model_path s"

lemma load_model_at: "load_model env s = (model_at env s, s)"
  by (simp add: load_model_run model_at_def)

lemma proposal_at_ok: "proposal_at env i s = Inr p \<Longrightarrow> semantic_proposal_init p = Inr p \<and> project_model_ok (sp_model p)"
  unfolding proposal_at_def by (auto elim!: rbind_InrE stored_InrE dest: semantic_proposal_decoded)

lemma model_at_ok: "model_at env s = Inr m \<Longrightarrow> project_model_ok m"
  unfolding model_at_def by (auto elim!: stored_InrE dest: project_model_decoded)

lemma accept_run:
  assumes "chain env s (rs @ [cur])"
  shows "accept env i expected actor acc s = (case proposal_at env i s of
      Inl e \<Rightarrow> (Inl e, s)
    | Inr p \<Rightarrow>
        if expected \<noteq> sr_number cur \<or> sp_expected_revision p \<noteq> sr_number cur then (Inl SemanticConflictError, s)
        else if sp_project_id p \<noteq> sr_project_id cur then (Inl ValueError, s)
        else (case model_at env s of
          Inl e \<Rightarrow> (Inl e, s)
        | Inr m \<Rightarrow>
            if model_fingerprint env m \<notin> {sr_fingerprint cur, model_fingerprint env (sp_model p)}
            then (case observe_external_mutation env ''external'' s of (r, t) \<Rightarrow>
              (Inl (case r of Inl e \<Rightarrow> e | Inr _ \<Rightarrow> ExternalMutationError), t))
            else publish env cur p actor acc s))"
  using current_run [OF assms] unfolding accept_def proposal_at_def
  by (cases "proposal_path i"; cases "stored env (semantic_proposal_from_dict env) (projr (proposal_path i)) s"; cases "model_at env s";
      cases "observe_external_mutation env ''external'' s"; cases "fst (observe_external_mutation env ''external'' s)")
    (simp_all add: read_proposal_run load_model_at publish_def next_revision_def Let_def ensure_def)

text \<open>The lines of the audit history, an absent file being empty.\<close>

definition audit_lines :: "project_state \<Rightarrow> audit_line list" where
  "audit_lines s = (case pj_audit s of None \<Rightarrow> [] | Some ls \<Rightarrow> ls)"

definition event_line :: "audit_event \<Rightarrow> audit_line" where
  "event_line e = Line (Document (JObj (audit_event_to_dict e)))"

lemma or_now_run: "\<exists>x n. or_now env v s = (Inr x, s\<lparr>pj_ticks := n\<rparr>) \<and> (\<forall>t. v = Some t \<longrightarrow> t \<noteq> [] \<longrightarrow> x = t)"
proof -
  have "\<exists>n. s = s\<lparr>pj_ticks := n\<rparr>" by (rule exI [of _ "pj_ticks s"]) simp
  then show ?thesis by (auto simp: or_now_def now_text_def split: option.splits)
qed

lemma record_event:
  assumes "\<not> blank ty"
  shows "\<exists>r t. bnd (new_event env ty actor payload None) (append_event env) s = (r, t) \<and> pj_files t = pj_files s \<and>
    (if blank actor then r = Inl ValueError \<and> pj_audit t = pj_audit s
     else if \<not> audit_readable env s then r = Inl ArtifactCorruptError \<and> pj_audit t = pj_audit s
     else r = Inr () \<and> (\<exists>e. ae_event_type e = ty \<and> ae_actor e = actor \<and> ae_payload e = payload \<and>
       pj_audit t = Some (audit_lines s @ [event_line e])) \<and> audit_readable env t)"
proof -
  obtain r t where n: "new_event env ty actor payload None s = (r, t)" by (cases "new_event env ty actor payload None s")
  note t = new_event_ok [OF n]
  have rd: "audit_readable env t \<longleftrightarrow> audit_readable env s" using t by (simp add: audit_readable_def)
  show ?thesis
  proof (cases "blank actor \<or> \<not> audit_readable env s")
    case True
    then show ?thesis
      using n t assms rd by (cases r) (auto simp: append_event_def read_all_run split: if_splits)
  next
    case False
    with t assms obtain e where e: "r = Inr e" "audit_event_init e = Inr e" "ae_event_type e = ty" "ae_actor e = actor" "ae_payload e = payload"
      by auto
    obtain ls where "append_event env e t = (Inr (), t\<lparr>pj_audit := Some ls\<rparr>)" "audit_readable env (t\<lparr>pj_audit := Some ls\<rparr>)"
      using append_event_run [OF _ e(2), of env t] False rd by auto
    moreover from this(1) have "ls = audit_lines s @ [event_line e]"
      using False rd t by (auto simp: append_event_def read_all_run audit_lines_def event_line_def dest!: arg_cong [of _ _ pj_audit] split: if_splits)
    ultimately show ?thesis using n t e False by (simp, blast)
  qed
qed

lemma save_model_run:
  assumes "plain_layout env" and "project_model_ok m"
  shows "save_model env m s =
    (Inr (), s\<lparr>pj_files := AList.update model_path (Document (JObj (project_model_to_dict m))) (pj_files s)\<rparr>)"
  using assms by (simp add: save_model_def Let_def project_model_roundtrip write_atomic_def)

lemma write_revision_run:
  assumes "plain_layout env" and "map_of (pj_files s) (revision_path (sr_number r)) = None"
  shows "write_revision env r s = (Inr (), s\<lparr>pj_files :=
    AList.update (revision_path (sr_number r)) (Document (JObj (semantic_revision_to_dict r))) (pj_files s)\<rparr>)"
  using assms(2) resolve_revision_path [OF assms(1)] by (simp add: write_revision_def Let_def file_exists_def write_atomic_def bnd_def gets_def)

text \<open>The files after an acceptance\<close>

definition published :: "semantic_revision \<Rightarrow> (string \<times> file_content) list \<Rightarrow> (string \<times> file_content) list" where
  "published r files = AList.update (revision_path (sr_number r)) (Document (JObj (semantic_revision_to_dict r)))
     (AList.update model_path (Document (JObj (project_model_to_dict (sr_model r)))) files)"

lemma model_path_not_revision [simp]: "\<not> revision_name model_path" "model_path \<noteq> revision_path n" "revision_path n \<noteq> model_path"
proof -
  show *: "\<not> revision_name model_path" by code_simp
  then show "model_path \<noteq> revision_path n" "revision_path n \<noteq> model_path" using revision_name_path [of n] by metis+
qed

lemma publish_run:
  assumes env: "plain_layout env" and c: "chain env s (rs @ [cur])" and lim: "Suc (Suc (length rs)) < revision_limit"
    and p: "semantic_proposal_init p = Inr p" "project_model_ok (sp_model p)" "sp_project_id p = sr_project_id cur"
  obtains r t accepted where "publish env cur p actor acc s = (r, t)"
    and "\<forall>x. acc = Some x \<longrightarrow> x \<noteq> [] \<longrightarrow> accepted = x"
    and "\<not> audit_readable env s \<Longrightarrow> r = Inl ArtifactCorruptError \<and> pj_files t = pj_files s \<and> pj_audit t = pj_audit s"
    and "audit_readable env s \<Longrightarrow> pj_files t = published (next_revision env cur p actor accepted) (pj_files s) \<and>
       (if blank actor then r = Inl ValueError \<and> pj_audit t = pj_audit s
        else r = Inr (next_revision env cur p actor accepted) \<and> (\<exists>e. ae_event_type e = ''SEMANTIC_REVISION_ACCEPTED'' \<and> ae_actor e = actor \<and>
          ae_payload e = [(''revision'', JInt (sr_number cur + 1)), (''fingerprint'', JStr (model_fingerprint env (sp_model p))),
            (''proposal_id'', JStr (sp_id p))] \<and> pj_audit t = Some (audit_lines s @ [event_line e])))"
proof -
  obtain accepted n where now: "or_now env acc s = (Inr accepted, s\<lparr>pj_ticks := n\<rparr>)" "\<forall>x. acc = Some x \<longrightarrow> x \<noteq> [] \<longrightarrow> accepted = x"
    using or_now_run [of env acc s] by (elim exE conjE) (rule that)
  let ?rev = "next_revision env cur p actor accepted"
  define s1 where "s1 = s\<lparr>pj_ticks := n\<rparr>"
  define s2 where "s2 = s1\<lparr>pj_files := AList.update model_path (Document (JObj (project_model_to_dict (sp_model p)))) (pj_files s1)\<rparr>"
  define s3 where "s3 = s2\<lparr>pj_files := published ?rev (pj_files s)\<rparr>"
  have num: "sr_number ?rev = int (Suc (Suc (length rs)))" using chain_number [OF c] by simp
  have init: "semantic_revision_init env ?rev = Inr ?rev"
    using p chain_number [OF c] unfolding semantic_proposal_init_Inr semantic_revision_init_Inr by auto
  have rd: "audit_readable env s1 = audit_readable env s" "audit_readable env s3 = audit_readable env s"
    "pj_audit s3 = pj_audit s" "audit_lines s3 = audit_lines s" "pj_files s3 = published ?rev (pj_files s)"
    by (simp_all add: s1_def s2_def s3_def audit_readable_def audit_lines_def)
  have save: "save_model env (sp_model p) s1 = (Inr (), s2)"
    using save_model_run [OF env p(2)] by (simp add: s2_def)
  have wr: "write_revision env ?rev s2 = (Inr (), s3)"
  proof -
    have "map_of (pj_files s2) (revision_path (sr_number ?rev)) = None"
      using chain_fresh [OF c] lim num by (simp add: s2_def s1_def AList.update_conv' del: of_nat_Suc)
    moreover have "sr_model ?rev = sp_model p" by simp
    ultimately show ?thesis
      using write_revision_run [OF env, of s2 ?rev] by (simp add: s3_def s2_def s1_def published_def)
  qed
  define ev where "ev = bnd (new_event env ''SEMANTIC_REVISION_ACCEPTED'' actor
    [(''revision'', JInt (sr_number cur + 1)), (''fingerprint'', JStr (model_fingerprint env (sp_model p))), (''proposal_id'', JStr (sp_id p))] None) (append_event env)"
  have pub: "publish env cur p actor acc s = bnd (read_all env) (\<lambda>_. bnd (save_model env (sp_model p)) (\<lambda>_.
      bnd (write_revision env ?rev) (\<lambda>_. bnd ev (\<lambda>_. ret ?rev)))) s1"
    using now(1) init unfolding publish_def by (simp add: s1_def [symmetric] ev_def bnd_assoc)
  obtain r t where e: "ev s3 = (r, t)" by (cases "ev s3")
  have blank: "\<not> blank ''SEMANTIC_REVISION_ACCEPTED''" by code_simp
  note et = record_event [OF blank, of env actor "[(''revision'', JInt (sr_number cur + 1)), (''fingerprint'', JStr (model_fingerprint env (sp_model p))),
    (''proposal_id'', JStr (sp_id p))]" s3, folded ev_def, unfolded e rd]
  show ?thesis
  proof (cases "audit_readable env s")
    case False
    then have "publish env cur p actor acc s = (Inl ArtifactCorruptError, s1)" by (simp add: pub read_all_run rd)
    then show ?thesis using False that now(2) by (simp add: s1_def)
  next
    case True
    then have "publish env cur p actor acc s = bnd ev (\<lambda>_. ret ?rev) s3" by (simp add: pub read_all_run rd save wr)
    also have "\<dots> = (case r of Inl e \<Rightarrow> Inl e | Inr _ \<Rightarrow> Inr ?rev, t)" using e by (cases r) simp_all
    finally show ?thesis
      using True et now(2) by (intro that) (auto split: if_splits)
  qed
qed

section \<open>Proposing\<close>

lemma proposal_path_facts:
  assumes "proposal_path i = Inr path"
  shows "prefix ''.artifex/'' path" and "CHR 0x5C \<notin> set path" and "\<not> revision_name path" and "path \<noteq> model_path"
    and "path = proposal_directory @ ''/'' @ i @ ''.json''"
proof -
  have path: "path = proposal_directory @ ''/'' @ i @ ''.json''" and chars: "list_all proposal_char i"
    using assms by (auto simp: proposal_path_def rbind_Inr_iff)
  have "\<not> proposal_char (CHR 0x5C)" by code_simp
  with chars show "CHR 0x5C \<notin> set path" unfolding path by (auto simp: proposal_directory_def list_all_iff)
  show "prefix ''.artifex/'' path" "\<not> revision_name path" "path \<noteq> model_path"
    by (simp_all add: path proposal_directory_def revision_name_def revision_directory_def model_path_def)
  show "path = proposal_directory @ ''/'' @ i @ ''.json''" by (rule path)
qed

lemma proposal_path_resolve:
  assumes "plain_layout env" and "proposal_path i = Inr path" and "resolve_inside env path = Inr q"
  shows "q = path" and "normalize_relative_path path = Inr path"
proof -
  have "\<exists>n. normalize_relative_path path = Inr n" and q: "q = path"
    using assms(3) resolve_control [OF assms(1) proposal_path_facts(1,2) [OF assms(2)]]
    by (auto split: sum.splits)
  then show "normalize_relative_path path = Inr path"
    using normalize_Inr(1) [of path] to_slashes_idI [OF proposal_path_facts(2) [OF assms(2)]] by auto
  show "q = path" by (rule q)
qed

text \<open>The end of \<open>propose\<close>: the proposal gets its file and its audit event.\<close>

definition file_proposal :: "project_env \<Rightarrow> semantic_proposal \<Rightarrow> (project_state, semantic_proposal) eff" where
  "file_proposal env p =
     bnd (lift (semantic_proposal_init p)) (\<lambda>proposal.
     bnd (lift (proposal_path (sp_id proposal))) (\<lambda>path.
     bnd (file_exists env path) (\<lambda>present.
     bnd (req (\<not> present) FileExistsError) (\<lambda>_.
     bnd (write_atomic env path (JObj (semantic_proposal_to_dict env proposal))) (\<lambda>_.
     bnd (bnd (new_event env ''SEMANTIC_PROPOSAL_CREATED'' (sp_actor p)
       [(''proposal_id'', JStr (sp_id proposal)), (''expected_revision'', JInt (sp_expected_revision p)), (''source'', JStr (sp_source p))]
       None) (append_event env)) (\<lambda>_.
     ret proposal))))))"

text \<open>When a proposal can be filed, and what filing it does.\<close>

definition can_file :: "semantic_proposal \<Rightarrow> string \<Rightarrow> project_state \<Rightarrow> bool" where
  "can_file p path s \<longleftrightarrow> semantic_proposal_init p = Inr p \<and> proposal_path (sp_id p) = Inr path \<and>
     normalize_relative_path path = Inr path \<and> map_of (pj_files s) path = None"

definition proposal_filed :: "project_env \<Rightarrow> semantic_proposal \<Rightarrow> string \<Rightarrow> project_state \<Rightarrow> semantic_proposal res \<Rightarrow> project_state \<Rightarrow> bool" where
  "proposal_filed env p path s r t \<longleftrightarrow>
     pj_files t = AList.update path (Document (JObj (semantic_proposal_to_dict env p))) (pj_files s) \<and>
     (if audit_readable env s then r = Inr p \<and> (\<exists>e. ae_event_type e = ''SEMANTIC_PROPOSAL_CREATED'' \<and> ae_actor e = sp_actor p \<and>
        ae_payload e = [(''proposal_id'', JStr (sp_id p)), (''expected_revision'', JInt (sp_expected_revision p)),
          (''source'', JStr (sp_source p))] \<and> pj_audit t = Some (audit_lines s @ [event_line e])) \<and> audit_readable env t
      else r = Inl ArtifactCorruptError \<and> pj_audit t = pj_audit s)"

lemma file_proposal_ok:
  assumes env: "plain_layout env" and f: "can_file p path s"
  obtains r t where "file_proposal env p s = (r, t)" and "proposal_filed env p path s r t"
proof -
  have path: "proposal_path (sp_id p) = Inr path" "normalize_relative_path path = Inr path" and p: "semantic_proposal_init p = Inr p"
    and new: "map_of (pj_files s) path = None" using f by (simp_all add: can_file_def)
  let ?doc = "JObj (semantic_proposal_to_dict env p)"
  define s2 where "s2 = s\<lparr>pj_files := AList.update path (Document ?doc) (pj_files s)\<rparr>"
  define ev where "ev = bnd (new_event env ''SEMANTIC_PROPOSAL_CREATED'' (sp_actor p)
    [(''proposal_id'', JStr (sp_id p)), (''expected_revision'', JInt (sp_expected_revision p)), (''source'', JStr (sp_source p))] None)
    (append_event env)"
  have res: "resolve_inside env path = Inr path"
    using resolve_control [OF env proposal_path_facts(1,2) [OF path(1)]] path(2) by simp
  obtain r t where e: "ev s2 = (r, t)" by (cases "ev s2")
  have ex: "file_exists env path s = (Inr False, s)" using res new by (simp add: file_exists_def)
  have wr: "write_atomic env path ?doc s = (Inr (), s2)" using res by (simp add: write_atomic_def s2_def)
  have run: "file_proposal env p s = (case r of Inl e \<Rightarrow> Inl e | Inr _ \<Rightarrow> Inr p, t)"
    using p path(1) e unfolding file_proposal_def by (cases r) (simp_all add: bnd_run_Inr [where m = "file_exists env path", OF ex] wr ensure_def ev_def [symmetric])
  have "\<not> blank ''SEMANTIC_PROPOSAL_CREATED''" by code_simp
  note et = record_event [OF this, of env "sp_actor p" "[(''proposal_id'', JStr (sp_id p)),
    (''expected_revision'', JInt (sp_expected_revision p)), (''source'', JStr (sp_source p))]" s2, folded ev_def, unfolded e]
  have actor: "\<not> blank (sp_actor p)" using p by (metis semantic_proposal_init_Inr)
  have "audit_readable env s2 = audit_readable env s" "pj_audit s2 = pj_audit s" "audit_lines s2 = audit_lines s"
    by (simp_all add: s2_def audit_readable_def audit_lines_def)
  then show ?thesis
    using et actor run by (intro that [OF run]) (auto simp: proposal_filed_def s2_def)
qed

lemma file_proposal_refused:
  assumes env: "plain_layout env" and f: "\<And>path. \<not> can_file p path s"
  obtains e where "file_proposal env p s = (Inl e, s)"
proof (cases "semantic_proposal_init p")
  case (Inl e) then show ?thesis using that by (simp add: file_proposal_def)
next
  case p: (Inr p')
  then have [simp]: "p' = p" by (metis semantic_proposal_init_Inr)
  show ?thesis
  proof (cases "proposal_path (sp_id p)")
    case (Inl e) then show ?thesis using p that by (simp add: file_proposal_def)
  next
    case path: (Inr path)
    show ?thesis
    proof (cases "resolve_inside env path")
      case (Inl e) then show ?thesis using p path that by (simp add: file_proposal_def file_exists_def)
    next
      case (Inr q)
      note q = proposal_path_resolve [OF env path Inr]
      have "map_of (pj_files s) path \<noteq> None" using f [of path] p path q by (auto simp: can_file_def)
      then have ex: "file_exists env path s = (Inr True, s)" using Inr q by (simp add: file_exists_def)
      show ?thesis
        using p path by (intro that [of FileExistsError])
          (simp add: file_proposal_def ensure_def bnd_run_Inr [where m = "file_exists env path", OF ex])
    qed
  qed
qed

definition proposal_of :: "semantic_revision \<Rightarrow> project_model \<Rightarrow> int \<Rightarrow> string \<Rightarrow> string \<Rightarrow> string \<Rightarrow> string \<Rightarrow> semantic_proposal" where
  "proposal_of cur m expected actor source i created = \<lparr>sp_id = i, sp_project_id = sr_project_id cur, sp_expected_revision = expected,
     sp_model = m, sp_actor = actor, sp_source = source, sp_created_at = created\<rparr>"

lemma proposal_of_sel [simp]:
  "sp_id (proposal_of cur m expected actor source i created) = i"
  "sp_project_id (proposal_of cur m expected actor source i created) = sr_project_id cur"
  "sp_expected_revision (proposal_of cur m expected actor source i created) = expected"
  "sp_model (proposal_of cur m expected actor source i created) = m"
  "sp_actor (proposal_of cur m expected actor source i created) = actor"
  "sp_source (proposal_of cur m expected actor source i created) = source"
  by (simp_all add: proposal_of_def)

definition proposal_id :: "project_env \<Rightarrow> string option \<Rightarrow> project_state \<Rightarrow> string" where
  "proposal_id env pid s = (case pid of Some (c # cs) \<Rightarrow> c # cs | _ \<Rightarrow> ''proposal-'' @ pe_uuid env (pj_draws s))"

lemma propose_run:
  assumes c: "chain env s (rs @ [cur])"
  obtains s1 created where "propose env m expected actor source pid cat s =
      (if pi_id (pm_project m) \<noteq> sr_project_id cur then (Inl ValueError, s)
       else file_proposal env (proposal_of cur m expected actor source (proposal_id env pid s) created) s1)"
    and "pj_files s1 = pj_files s" and "pj_audit s1 = pj_audit s"
proof -
  let ?id = "if pid \<noteq> None \<and> pid \<noteq> Some [] then ret (the pid) else bnd (new_uuid env) (\<lambda>u. ret (''proposal-'' @ u))"
  have "\<exists>d. ?id s = (Inr (proposal_id env pid s), s\<lparr>pj_draws := d\<rparr>)"
    by (rule exI [of _ "if pid \<noteq> None \<and> pid \<noteq> Some [] then pj_draws s else Suc (pj_draws s)"])
      (auto simp: proposal_id_def new_uuid_def split: option.splits list.splits)
  then obtain d where d: "?id s = (Inr (proposal_id env pid s), s\<lparr>pj_draws := d\<rparr>)" ..
  obtain created n where now: "or_now env cat (s\<lparr>pj_draws := d\<rparr>) = (Inr created, s\<lparr>pj_draws := d, pj_ticks := n\<rparr>)"
    using or_now_run [of env cat "s\<lparr>pj_draws := d\<rparr>"] by auto
  have "propose env m expected actor source pid cat s =
      (if pi_id (pm_project m) \<noteq> sr_project_id cur then (Inl ValueError, s)
       else file_proposal env (proposal_of cur m expected actor source (proposal_id env pid s) created) (s\<lparr>pj_draws := d, pj_ticks := n\<rparr>))"
    using current_run [OF c] d now unfolding propose_def file_proposal_def
    by (simp add: ensure_def proposal_of_def bnd_assoc del: not_None_eq)
  then show ?thesis by (rule that) simp_all
qed

section \<open>What every operation keeps\<close>

text \<open>The chain, the model and the revisions stay as they are: everything except the proposals.\<close>

definition undecided :: "project_env \<Rightarrow> project_state \<Rightarrow> project_state \<Rightarrow> bool" where
  "undecided env s t \<longleftrightarrow> (\<forall>rs. chain env s rs \<longrightarrow> chain env t rs) \<and> map_of (pj_files t) model_path = map_of (pj_files s) model_path \<and>
     (\<forall>q. map_of (pj_files s) q \<noteq> None \<longrightarrow> map_of (pj_files t) q = map_of (pj_files s) q) \<and> prefix (audit_lines s) (audit_lines t)"

lemma undecided_files: "pj_files t = pj_files s \<Longrightarrow> pj_audit t = pj_audit s \<Longrightarrow> undecided env s t"
  using chain_files [of t s] by (auto simp: undecided_def audit_lines_def)

lemma filed_undecided:
  assumes "plain_layout env" and "can_file p path s" and "proposal_filed env p path s r t"
  shows "undecided env s t"
proof -
  have path: "proposal_path (sp_id p) = Inr path" "normalize_relative_path path = Inr path" "map_of (pj_files s) path = None"
    using assms(2) by (simp_all add: can_file_def)
  have files: "pj_files t = AList.update path (Document (JObj (semantic_proposal_to_dict env p))) (pj_files s)"
    using assms(3) by (simp add: proposal_filed_def)
  then have "chain env t rs \<longleftrightarrow> chain env s rs" for rs
    using chain_update [OF assms(1) path(2) proposal_path_facts(3) [OF path(1)]] chain_files
    by (metis (no_types, lifting) project_state.select_convs(1) project_state.surjective project_state.update_convs(1))
  moreover have "prefix (audit_lines s) (audit_lines t)"
    using assms(3) by (auto simp: proposal_filed_def audit_lines_def split: if_splits)
  ultimately show ?thesis
    using path(3) proposal_path_facts(4) [OF path(1)] by (auto simp: undecided_def files AList.update_conv')
qed

lemma propose_undecided:
  assumes env: "plain_layout env" and c: "chain env s (rs @ [cur])"
  shows "undecided env s (snd (propose env m expected actor source pid cat s))"
proof -
  obtain s1 created where run: "propose env m expected actor source pid cat s =
      (if pi_id (pm_project m) \<noteq> sr_project_id cur then (Inl ValueError, s)
       else file_proposal env (proposal_of cur m expected actor source (proposal_id env pid s) created) s1)"
    and s1: "pj_files s1 = pj_files s" "pj_audit s1 = pj_audit s"
    by (rule propose_run [OF c])
  let ?p = "proposal_of cur m expected actor source (proposal_id env pid s) created"
  have "undecided env s1 (snd (file_proposal env ?p s1))"
  proof (cases "\<exists>path. can_file ?p path s1")
    case True
    then obtain path where "can_file ?p path s1" ..
    then show ?thesis using filed_undecided [OF env] by (metis file_proposal_ok [OF env] snd_conv)
  next
    case False
    then show ?thesis by (metis file_proposal_refused [OF env] snd_conv undecided_files)
  qed
  then show ?thesis
    using s1 by (auto simp: run undecided_def chain_files [OF s1(1)] audit_lines_def)
qed

lemma filed_proposal_at:
  assumes "plain_layout env" and "can_file p path s" and "proposal_filed env p path s r t" and "project_model_ok (sp_model p)"
  shows "proposal_at env (sp_id p) t = Inr p"
proof -
  have path: "proposal_path (sp_id p) = Inr path" "normalize_relative_path path = Inr path" and p: "semantic_proposal_init p = Inr p"
    using assms(2) by (simp_all add: can_file_def)
  have "resolve_inside env path = Inr path" using resolve_control [OF assms(1) proposal_path_facts(1,2) [OF path(1)]] path(2) by simp
  moreover have "map_of (pj_files t) path = Some (Document (JObj (semantic_proposal_to_dict env p)))"
    using assms(3) by (simp add: proposal_filed_def AList.update_conv')
  ultimately show ?thesis
    using path(1) stored_document [of env path path t _ "semantic_proposal_from_dict env" p] semantic_proposal_roundtrip [OF p assms(4)]
    by (simp add: proposal_at_def)
qed

lemma propose_Inr:
  assumes env: "plain_layout env" and c: "chain env s (rs @ [cur])"
    and run: "propose env m expected actor source pid cat s = (Inr p, t)"
  shows "undecided env s t" and "project_model_ok m \<Longrightarrow> proposal_at env (sp_id p) t = Inr p" and "sp_model p = m"
proof -
  obtain s1 created where r: "propose env m expected actor source pid cat s =
      (if pi_id (pm_project m) \<noteq> sr_project_id cur then (Inl ValueError, s)
       else file_proposal env (proposal_of cur m expected actor source (proposal_id env pid s) created) s1)" (is "_ = (if _ then _ else file_proposal env ?p s1)")
    by (rule propose_run [OF c])
  with run have f: "file_proposal env ?p s1 = (Inr p, t)" by (simp split: if_splits)
  then obtain path where can: "can_file ?p path s1"
    using file_proposal_refused [OF env, of ?p s1] by (metis Inl_Inr_False Pair_inject)
  have filed: "proposal_filed env ?p path s1 (Inr p) t"
    using file_proposal_ok [OF env can] f by (metis Pair_inject)
  then have p: "p = ?p" by (simp add: proposal_filed_def split: if_splits)
  then show "sp_model p = m" by simp
  show "project_model_ok m \<Longrightarrow> proposal_at env (sp_id p) t = Inr p"
    using filed_proposal_at [OF env can filed] p by simp
  show "undecided env s t" using propose_undecided [OF env c, of m expected actor source pid cat] run by simp
qed

lemma propose_succeeds:
  assumes env: "plain_layout env" and c: "chain env s (rs @ [cur])" and project: "pi_id (pm_project m) = sr_project_id cur"
    and args: "1 \<le> expected" "\<not> blank actor" "\<not> blank source" and audit: "audit_readable env s"
    and uuid: "list_all proposal_char (pe_uuid env (pj_draws s))"
      "map_of (pj_files s) (proposal_directory @ ''/proposal-'' @ pe_uuid env (pj_draws s) @ ''.json'') = None"
  obtains p t where "propose env m expected actor source None None s = (Inr p, t)" and "sp_id p = ''proposal-'' @ pe_uuid env (pj_draws s)"
    and "sp_expected_revision p = expected" and "sp_project_id p = sr_project_id cur" and "audit_readable env t"
proof -
  let ?i = "''proposal-'' @ pe_uuid env (pj_draws s)"
  let ?path = "proposal_directory @ ''/'' @ ?i @ ''.json''"
  obtain s1 created where run: "propose env m expected actor source None None s =
      (if pi_id (pm_project m) \<noteq> sr_project_id cur then (Inl ValueError, s)
       else file_proposal env (proposal_of cur m expected actor source (proposal_id env None s) created) s1)"
    and s1: "pj_files s1 = pj_files s" "pj_audit s1 = pj_audit s" by (rule propose_run [OF c])
  define q where "q = proposal_of cur m expected actor source ?i created"
  have "list_all proposal_char ''proposal-''" by code_simp
  with uuid(1) have chars: "list_all proposal_char ?i" by simp
  have path: "proposal_path ?i = Inr ?path" using chars by (simp add: proposal_path_def require_value_def)
  have norm: "normalize_relative_path ?path = Inr ?path"
    using normalize_named [OF chars, of "''semantic-proposals''"] by (simp add: proposal_directory_def)
  have "\<not> blank ?i" unfolding blank_iff by (auto simp: is_space_def ccode_def)
  then have "semantic_proposal_init q = Inr q" using args project by (simp add: semantic_proposal_init_Inr q_def)
  then have filing: "can_file q ?path s1" using path norm uuid(2) s1 by (simp add: can_file_def q_def)
  have rd: "audit_readable env s1" using audit s1 by (simp add: audit_readable_def)
  show ?thesis
  proof (rule file_proposal_ok [OF env filing])
    fix r t assume "file_proposal env q s1 = (r, t)" and "proposal_filed env q ?path s1 r t"
    then show ?thesis using run project rd that [of q t] by (simp add: proposal_filed_def q_def proposal_id_def)
  qed
qed

lemma observe_run:
  assumes c: "chain env s (rs @ [cur])"
  shows "observe_external_mutation env actor s = (case model_at env s of
      Inl e \<Rightarrow> (Inl e, s)
    | Inr m \<Rightarrow> if model_fingerprint env m = sr_fingerprint cur then (Inr None, s)
        else (case propose env m (sr_number cur) actor ''EXTERNAL_REPOSITORY_MUTATION'' None None s of
          (Inl e, t) \<Rightarrow> (Inl e, t) | (Inr p, t) \<Rightarrow> (Inr (Some p), t)))"
  using current_run [OF c] unfolding observe_external_mutation_def
  by (cases "model_at env s") (auto simp: load_model_at bnd_def split: prod.splits sum.splits)

lemma observe_undecided:
  assumes "plain_layout env" and "chain env s (rs @ [cur])"
  shows "undecided env s (snd (observe_external_mutation env actor s))"
proof -
  have "undecided env s s" by (simp add: undecided_files)
  moreover have "undecided env s (snd (propose env m (sr_number cur) actor ''EXTERNAL_REPOSITORY_MUTATION'' None None s))" for m
    by (rule propose_undecided [OF assms])
  ultimately show ?thesis
    unfolding observe_run [OF assms(2)] by (auto split: sum.splits prod.splits) (metis snd_conv)+
qed

end
