(* ===== verification/Authority_Demo.thy ===== *)
theory Authority_Demo
  imports Authority_Laws
begin

text \<open>
  When an acceptance succeeds, and a small Project on which the properties of the authority are exercised: one accepted revision
  and two proposals written against it.
\<close>

section \<open>When acceptance succeeds\<close>

lemma accept_succeeds:
  assumes env: "plain_layout env" and c: "chain env s (rs @ [cur])" and lim: "Suc (Suc (length rs)) < revision_limit"
    and p: "proposal_at env i s = Inr p" "sp_expected_revision p = sr_number cur" "sp_project_id p = sr_project_id cur"
    and m: "model_at env s = Inr m" "model_fingerprint env m \<in> {sr_fingerprint cur, model_fingerprint env (sp_model p)}"
    and ok: "audit_readable env s" "\<not> blank actor"
  obtains accepted t where "accept env i (sr_number cur) actor acc s = (Inr (next_revision env cur p actor accepted), t)"
proof -
  note pok = proposal_at_ok [OF p(1)]
  have run: "accept env i (sr_number cur) actor acc s = publish env cur p actor acc s"
    unfolding accept_run [OF c] using p m by simp
  show ?thesis
    by (rule publish_run [OF env c lim conjunct1 [OF pok] conjunct2 [OF pok] p(3), of actor acc]) (use ok run that in auto)
qed

section \<open>A small Project\<close>

text \<open>A digest that tells models apart by the name of their Project.\<close>

definition demo_sha :: "json \<Rightarrow> string" where
  "demo_sha j = (case rbind (mapping_of j) (\<lambda>v. rbind (item v ''project'') (\<lambda>p. rbind (mapping_of p) (\<lambda>w. rbind (item w ''name'') only_string)))
     of Inl _ \<Rightarrow> [] | Inr n \<Rightarrow> n)"

definition demo_penv :: project_env where
  "demo_penv = \<lparr>pe_now = (\<lambda>_. ''2026-01-01T00:00:00Z''), pe_uuid = (\<lambda>_. ''7f''), pe_sha = demo_sha,
     pe_float = no_floats, pe_resolve = Some\<rparr>"

definition named_model :: "string \<Rightarrow> project_model" where
  "named_model name = \<lparr>pm_project = \<lparr>pi_id = ''P'', pi_name = name, pi_description = [], pi_lifecycle = GREENFIELD, pi_workflow_depth = WD_STANDARD\<rparr>,
     pm_git = \<lparr>gt_initialized = False, gt_branch = None, gt_baseline_commit = None, gt_current_commit = None, gt_dirty = None, gt_remotes = []\<rparr>,
     pm_artifacts = [], pm_entities = [], pm_governance = default_governance, pm_knowledge_adoptions = [], pm_research_adoptions = [],
     pm_schema_version = schema_version\<rparr>"

definition demo_revision :: semantic_revision where
  "demo_revision = \<lparr>sr_number = 1, sr_project_id = ''P'', sr_fingerprint = ''zero'', sr_parent_fingerprint = None,
     sr_proposal_id = ''PROJECT_BOOTSTRAP'', sr_actor = ''artifex'', sr_accepted_at = ''2026'', sr_model = named_model ''zero''\<rparr>"

definition demo_proposal :: "string \<Rightarrow> string \<Rightarrow> semantic_proposal" where
  "demo_proposal i name = \<lparr>sp_id = i, sp_project_id = ''P'', sp_expected_revision = 1, sp_model = named_model name, sp_actor = ''alice'',
     sp_source = ''CLIENT'', sp_created_at = ''2026''\<rparr>"

definition demo_path :: "string \<Rightarrow> string" where
  "demo_path i = proposal_directory @ ''/'' @ i @ ''.json''"

definition demo_unmanaged :: project_state where
  "demo_unmanaged = \<lparr>pj_files = [(model_path, Document (JObj (project_model_to_dict (named_model ''zero''))))], pj_audit = None, pj_ticks = 0, pj_draws = 0\<rparr>"

text \<open>The Project with its revision, the two proposals and a model of the given name.\<close>

definition put_file :: "string \<Rightarrow> obj \<Rightarrow> project_state \<Rightarrow> project_state" where
  "put_file q v s = s\<lparr>pj_files := AList.update q (Document (JObj v)) (pj_files s)\<rparr>"

definition demo_project :: "string \<Rightarrow> project_state" where
  "demo_project name = put_file model_path (project_model_to_dict (named_model name))
     (put_file (demo_path ''second'') (semantic_proposal_to_dict demo_penv (demo_proposal ''second'' ''two''))
     (put_file (demo_path ''first'') (semantic_proposal_to_dict demo_penv (demo_proposal ''first'' ''one''))
     (put_file (revision_path 1) (semantic_revision_to_dict demo_revision) demo_unmanaged)))"

lemma demo_sel [simp]:
  "sr_number demo_revision = 1" "sr_project_id demo_revision = ''P''" "sr_fingerprint demo_revision = ''zero''"
  "sp_expected_revision (demo_proposal i name) = 1" "sp_project_id (demo_proposal i name) = ''P''"
  "sp_model (demo_proposal i name) = named_model name" "pi_id (pm_project (named_model name)) = ''P''"
  by (simp_all add: demo_revision_def demo_proposal_def named_model_def)

lemma demo_layout: "plain_layout demo_penv"
  by (simp add: plain_layout_def demo_penv_def)

lemma demo_limit: "Suc (Suc (length ([] :: semantic_revision list))) < revision_limit"
  by (simp add: revision_limit_def)

lemma demo_fingerprint: "model_fingerprint demo_penv (named_model name) = name"
  by (simp add: model_fingerprint_def demo_penv_def demo_sha_def project_model_to_dict_def project_info_to_dict_def named_model_def)

lemma demo_models:
  "project_model_ok (named_model ''zero'')" "project_model_ok (named_model ''one'')" "project_model_ok (named_model ''two'')"
  "project_model_ok (named_model ''three'')"
  by code_simp+

lemma demo_unmanaged_chain: "chain demo_penv demo_unmanaged []"
proof -
  have "\<not> (model_path = ''.git'' \<or> prefix ''.git/'' model_path)" by code_simp
  then have "revision_paths demo_unmanaged = Inr []" by (simp add: revision_paths_alt demo_unmanaged_def)
  then show ?thesis by (simp add: chain_def revision_limit_def chain_names_def)
qed

lemma demo_named:
  assumes "i \<in> {''first'', ''second''}"
  shows "proposal_path i = Inr (demo_path i)" "normalize_relative_path (demo_path i) = Inr (demo_path i)"
    "resolve_inside demo_penv (demo_path i) = Inr (demo_path i)"
proof -
  have "list_all (\<lambda>i. list_all proposal_char i) [''first'', ''second'']" by code_simp
  with assms have i: "list_all proposal_char i" "4 < length i" by auto
  then show p: "proposal_path i = Inr (demo_path i)" by (cases i) (simp_all add: proposal_path_def require_value_def demo_path_def)
  show n: "normalize_relative_path (demo_path i) = Inr (demo_path i)"
    using normalize_named [OF i, of "''semantic-proposals''"] by (simp add: demo_path_def proposal_directory_def)
  show "resolve_inside demo_penv (demo_path i) = Inr (demo_path i)"
    using resolve_control [OF demo_layout proposal_path_facts(1,2) [OF p]] n by simp
qed

lemma chain_put:
  assumes "plain_layout env" and "normalize_relative_path q = Inr q" and "\<not> revision_name q"
  shows "chain env (put_file q v s) rs \<longleftrightarrow> chain env s rs"
  unfolding put_file_def by (rule chain_update [OF assms])

lemma demo_chain: "chain demo_penv (demo_project name) [demo_revision]"
proof -
  have "chain demo_penv (put_file (revision_path (sr_number demo_revision)) (semantic_revision_to_dict demo_revision) demo_unmanaged) ([] @ [demo_revision])"
    unfolding put_file_def
    by (rule chain_add [OF demo_layout demo_unmanaged_chain])
      (simp_all add: revision_limit_def semantic_revision_init_Inr demo_revision_def demo_fingerprint demo_models)
  moreover have "\<not> revision_name (demo_path i)" if "i \<in> {''first'', ''second''}" for i
    using proposal_path_facts(3) [OF demo_named(1) [OF that]] .
  ultimately show ?thesis
    unfolding demo_project_def by (simp add: chain_put [OF demo_layout] demo_named)
qed

lemma demo_proposal_at:
  assumes "i \<in> {''first'', ''second''}"
  shows "proposal_at demo_penv i (demo_project name) = Inr (demo_proposal i (if i = ''first'' then ''one'' else ''two''))" (is "_ = Inr ?p")
proof -
  have "list_all (\<lambda>w. strip w \<noteq> []) [''first'', ''second'', ''alice'', ''CLIENT'']" by code_simp
  with assms have "semantic_proposal_init ?p = Inr ?p" by (auto simp: semantic_proposal_init_Inr demo_proposal_def named_model_def)
  then have "semantic_proposal_from_dict demo_penv (semantic_proposal_to_dict demo_penv ?p) = Inr ?p"
    by (rule semantic_proposal_roundtrip) (simp add: demo_proposal_def demo_models)
  moreover have "demo_path i \<noteq> model_path" "demo_path ''first'' \<noteq> demo_path ''second''"
    by (simp_all add: demo_path_def proposal_directory_def model_path_def)
  then have "map_of (pj_files (demo_project name)) (demo_path i) = Some (Document (JObj (semantic_proposal_to_dict demo_penv ?p)))"
    using assms by (auto simp: demo_project_def put_file_def AList.update_conv')
  ultimately show ?thesis
    using demo_named [OF assms] unfolding proposal_at_def by (simp add: stored_document)
qed

lemma demo_model_at:
  assumes "project_model_ok (named_model name)"
  shows "model_at demo_penv (demo_project name) = Inr (named_model name)"
  unfolding model_at_def
  by (rule stored_document [OF resolve_model_path [OF demo_layout]])
    (simp add: demo_project_def put_file_def AList.update_conv', rule project_model_roundtrip [OF assms])

lemma demo_audit: "pj_audit (demo_project name) = None" "pj_draws (demo_project name) = 0"
  by (simp_all add: demo_project_def put_file_def demo_unmanaged_def)

lemma demo_accept:
  obtains r t where "accept demo_penv ''first'' 1 ''carol'' acc (demo_project ''zero'') = (Inr r, t)" and "sr_model r = named_model ''one''"
proof -
  have blank: "\<not> blank ''carol''" by code_simp
  have audit: "audit_readable demo_penv (demo_project ''zero'')" by (simp add: audit_readable_def demo_audit)
  have chain: "chain demo_penv (demo_project ''zero'') ([] @ [demo_revision])" by (simp add: demo_chain)
  obtain x t where "accept demo_penv ''first'' (sr_number demo_revision) ''carol'' acc (demo_project ''zero'') =
      (Inr (next_revision demo_penv demo_revision (demo_proposal ''first'' ''one'') ''carol'' x), t)"
    by (rule accept_succeeds [OF demo_layout chain demo_limit demo_proposal_at [of "''first''" "''zero''", simplified] _ _
      demo_model_at [OF demo_models(1)] _ audit blank]) (auto simp: demo_fingerprint)
  then show ?thesis by (intro that [of "next_revision demo_penv demo_revision (demo_proposal ''first'' ''one'') ''carol'' x" t]) simp_all
qed

end
