(* ===== verification/Authority_Properties.thy ===== *)
theory Authority_Properties
  imports Authority_Demo
begin

text \<open>
  The properties of the semantic authority: acceptance appends exactly one revision, concurrent proposals cannot overwrite each
  other, an interrupted acceptance can be repeated, changes made outside the authority are turned into proposals, and the
  history only grows.
\<close>

section \<open>Acceptance\<close>

lemma map_of_published: "map_of (published r files) =
    (map_of files)(model_path \<mapsto> Document (JObj (project_model_to_dict (sr_model r))),
      revision_path (sr_number r) \<mapsto> Document (JObj (semantic_revision_to_dict r)))"
  by (simp add: published_def AList.update_conv')

lemma chain_model:
  assumes "plain_layout env" and "pj_files u = AList.update model_path c (pj_files s)"
  shows "chain env u rs \<longleftrightarrow> chain env s rs"
  using chain_update [OF assms(1) normalize_model_path model_path_not_revision(1)]
    chain_files [of u "s\<lparr>pj_files := AList.update model_path c (pj_files s)\<rparr>"] assms(2) by simp

lemma proposal_at_cong:
  assumes env: "plain_layout env"
    and files: "\<And>q. q \<noteq> model_path \<Longrightarrow> \<not> revision_name q \<Longrightarrow> map_of (pj_files t) q = map_of (pj_files s) q"
  shows "proposal_at env i t = proposal_at env i s"
proof (cases "proposal_path i")
  case (Inr path)
  have "stored env dec path t = stored env dec path s" for dec :: "obj \<Rightarrow> semantic_proposal res"
    using proposal_path_facts(3,4) [OF Inr] proposal_path_resolve(1) [OF env Inr] by (intro stored_cong) (auto intro!: files)
  then show ?thesis by (simp add: proposal_at_def Inr)
qed (simp add: proposal_at_def)

lemma published_chain:
  assumes env: "plain_layout env" and c: "chain env s (rs @ [cur])" and lim: "Suc (Suc (length rs)) < revision_limit"
    and p: "semantic_proposal_init p = Inr p" "project_model_ok (sp_model p)" "sp_project_id p = sr_project_id cur"
    and t: "pj_files t = published (next_revision env cur p actor accepted) (pj_files s)"
  shows "chain env t (rs @ [cur, next_revision env cur p actor accepted])"
proof -
  let ?r = "next_revision env cur p actor accepted"
  let ?s = "s\<lparr>pj_files := AList.update model_path (Document (JObj (project_model_to_dict (sp_model p)))) (pj_files s)\<rparr>"
  have "chain env ?s (rs @ [cur])" using c chain_model [OF env, of ?s] by simp
  moreover have "semantic_revision_init env ?r = Inr ?r"
    using p chain_number [OF c] unfolding semantic_proposal_init_Inr semantic_revision_init_Inr by auto
  ultimately have "chain env (?s\<lparr>pj_files := AList.update (revision_path (sr_number ?r)) (Document (JObj (semantic_revision_to_dict ?r)))
      (pj_files ?s)\<rparr>) ((rs @ [cur]) @ [?r])" (is "chain env ?u _")
    using lim p(2) chain_number [OF c] by (intro chain_add [OF env]) auto
  moreover have "pj_files t = pj_files ?u" by (simp add: t published_def)
  ultimately show ?thesis using chain_files [of t ?u] by simp
qed

lemma accept_cases:
  assumes env: "plain_layout env" and c: "chain env s (rs @ [cur])" and lim: "Suc (Suc (length rs)) < revision_limit"
    and a: "accept env i expected actor acc s = (r, t)"
  obtains (refused) e where "r = Inl e" and "undecided env s t"
  | (adopted) p m accepted where "proposal_at env i s = Inr p" and "expected = sr_number cur" and "sp_expected_revision p = sr_number cur"
      and "sp_project_id p = sr_project_id cur" and "model_at env s = Inr m"
      and "model_fingerprint env m \<in> {sr_fingerprint cur, model_fingerprint env (sp_model p)}"
      and "publish env cur p actor acc s = (r, t)" and "audit_readable env s"
      and "pj_files t = published (next_revision env cur p actor accepted) (pj_files s)"
      and "\<forall>x. acc = Some x \<longrightarrow> x \<noteq> [] \<longrightarrow> accepted = x"
      and "if blank actor then r = Inl ValueError \<and> pj_audit t = pj_audit s
        else r = Inr (next_revision env cur p actor accepted) \<and> (\<exists>e. ae_event_type e = ''SEMANTIC_REVISION_ACCEPTED'' \<and> ae_actor e = actor \<and>
          ae_payload e = [(''revision'', JInt (sr_number cur + 1)), (''fingerprint'', JStr (model_fingerprint env (sp_model p))),
            (''proposal_id'', JStr (sp_id p))] \<and> pj_audit t = Some (audit_lines s @ [event_line e]))"
proof -
  have same: "undecided env s s" by (simp add: undecided_files)
  have ext: "undecided env s u" if "observe_external_mutation env ''external'' s = (x, u)" for x u
    using observe_undecided [OF env c, of "''external''"] that by simp
  consider (stop) e where "r = Inl e" "undecided env s t"
    | (go) p m where "proposal_at env i s = Inr p" "expected = sr_number cur" "sp_expected_revision p = sr_number cur"
        "sp_project_id p = sr_project_id cur" "model_at env s = Inr m"
        "model_fingerprint env m \<in> {sr_fingerprint cur, model_fingerprint env (sp_model p)}" "publish env cur p actor acc s = (r, t)"
    using a same ext unfolding accept_run [OF c] by (auto split: sum.splits if_splits prod.splits)
  then show ?thesis
  proof cases
    case stop
    then show ?thesis by (rule refused)
  next
    case (go p m)
    note ok = proposal_at_ok [OF go(1)]
    show ?thesis
    proof (rule publish_run [OF env c lim conjunct1 [OF ok] conjunct2 [OF ok] go(4), of actor acc])
      fix r' t' accepted
      assume run: "publish env cur p actor acc s = (r', t')" and acc: "\<forall>x. acc = Some x \<longrightarrow> x \<noteq> [] \<longrightarrow> accepted = x"
        and no: "\<not> audit_readable env s \<Longrightarrow> r' = Inl ArtifactCorruptError \<and> pj_files t' = pj_files s \<and> pj_audit t' = pj_audit s"
        and yes: "audit_readable env s \<Longrightarrow> pj_files t' = published (next_revision env cur p actor accepted) (pj_files s) \<and>
          (if blank actor then r' = Inl ValueError \<and> pj_audit t' = pj_audit s
           else r' = Inr (next_revision env cur p actor accepted) \<and> (\<exists>e. ae_event_type e = ''SEMANTIC_REVISION_ACCEPTED'' \<and> ae_actor e = actor \<and>
             ae_payload e = [(''revision'', JInt (sr_number cur + 1)), (''fingerprint'', JStr (model_fingerprint env (sp_model p))),
               (''proposal_id'', JStr (sp_id p))] \<and> pj_audit t' = Some (audit_lines s @ [event_line e])))"
      have eq: "r' = r" "t' = t" using run go(7) by simp_all
      show ?thesis
      proof (cases "audit_readable env s")
        case False
        then show ?thesis using no eq by (intro refused [of ArtifactCorruptError]) (auto intro: undecided_files)
      next
        case True
        then show ?thesis using yes [OF True] acc eq by (intro adopted [OF go True]) auto
      qed
    qed
  qed
qed

lemma accept_Inr:
  assumes env: "plain_layout env" and c: "chain env s (rs @ [cur])" and lim: "Suc (Suc (length rs)) < revision_limit"
    and a: "accept env i expected actor acc s = (Inr r, t)"
  shows "chain env t ((rs @ [cur]) @ [r])" and "sr_number r = sr_number cur + 1"
    and "q \<noteq> model_path \<Longrightarrow> q \<noteq> revision_path (sr_number r) \<Longrightarrow> map_of (pj_files t) q = map_of (pj_files s) q"
    and "proposal_at env i s = Inr p \<Longrightarrow> sr_model r = sp_model p" and "sr_actor r = actor"
proof -
  have "\<exists>p accepted. r = next_revision env cur p actor accepted \<and> chain env t (rs @ [cur, r]) \<and> pj_files t = published r (pj_files s) \<and>
      proposal_at env i s = Inr p"
    using env c lim a
  proof (cases rule: accept_cases)
    case (adopted p m accepted)
    then have "r = next_revision env cur p actor accepted" by (simp split: if_splits)
    moreover have "chain env t (rs @ [cur, next_revision env cur p actor accepted])"
      using published_chain [OF env c lim _ _ adopted(4) adopted(9)] proposal_at_ok [OF adopted(1)] by blast
    ultimately show ?thesis using adopted(1,9) by blast
  qed simp
  then show "chain env t ((rs @ [cur]) @ [r])" "sr_number r = sr_number cur + 1"
    "q \<noteq> model_path \<Longrightarrow> q \<noteq> revision_path (sr_number r) \<Longrightarrow> map_of (pj_files t) q = map_of (pj_files s) q"
    "proposal_at env i s = Inr p \<Longrightarrow> sr_model r = sp_model p" "sr_actor r = actor"
    by (auto simp: map_of_published)
qed

text \<open>
  C9. Acceptance appends exactly one revision. When the semantic authority accepts a proposal, the proposal had been written against the
  revision that was current, and that revision is the parent of the new one; the new revision holds the proposed model under the next
  number and is what the authority reads as current; the stored Project Model is that model; the history gains one event that
  names revision, fingerprint and proposal; and no other file changes, so every earlier revision is intact.
\<close>

theorem accept_appends_revision:
  assumes env: "plain_layout env" and c: "chain env s (rs @ [cur])" and lim: "Suc (Suc (length rs)) < revision_limit"
    and a: "accept env i expected actor acc s = (Inr r, t)"
  shows "expected = sr_number cur \<and> sr_number r = sr_number cur + 1 \<and> sr_parent_fingerprint r = Some (sr_fingerprint cur) \<and>
    (\<exists>p. proposal_at env i s = Inr p \<and> sp_expected_revision p = sr_number cur \<and> sr_model r = sp_model p) \<and>
    chain env t (rs @ [cur, r]) \<and> current env t = (Inr r, t) \<and> load_model env t = (Inr (sr_model r), t) \<and>
    (\<exists>e. audit_lines t = audit_lines s @ [event_line e] \<and> ae_actor e = actor \<and>
       item (ae_payload e) ''revision'' = Inr (JInt (sr_number r)) \<and> item (ae_payload e) ''fingerprint'' = Inr (JStr (sr_fingerprint r))) \<and>
    (\<forall>q. q \<noteq> model_path \<longrightarrow> q \<noteq> revision_path (sr_number r) \<longrightarrow> map_of (pj_files t) q = map_of (pj_files s) q)"
  using env c lim a
proof (cases rule: accept_cases)
  case (adopted p m accepted)
  let ?r = "next_revision env cur p actor accepted"
  have r: "r = ?r" and audit: "\<exists>e. ae_event_type e = ''SEMANTIC_REVISION_ACCEPTED'' \<and> ae_actor e = actor \<and>
      ae_payload e = [(''revision'', JInt (sr_number cur + 1)), (''fingerprint'', JStr (model_fingerprint env (sp_model p))),
        (''proposal_id'', JStr (sp_id p))] \<and> pj_audit t = Some (audit_lines s @ [event_line e])"
    using adopted(11) by (simp_all split: if_splits)
  note ok = proposal_at_ok [OF adopted(1)]
  have ch: "chain env t (rs @ [cur, ?r])"
    using published_chain [OF env c lim _ _ adopted(4) adopted(9)] ok by blast
  have "current env t = (Inr ?r, t)" using current_run [of env t "rs @ [cur]" ?r] ch by simp
  moreover have "load_model env t = (Inr (sp_model p), t)"
    unfolding load_model_at model_at_def using env project_model_roundtrip [OF conjunct2 [OF ok]]
    by (simp, intro stored_document [where q = model_path]) (simp_all add: adopted(9) map_of_published)
  moreover have "\<exists>e. audit_lines t = audit_lines s @ [event_line e] \<and> ae_actor e = actor \<and>
       item (ae_payload e) ''revision'' = Inr (JInt (sr_number r)) \<and> item (ae_payload e) ''fingerprint'' = Inr (JStr (sr_fingerprint r))"
    using audit by (auto simp: audit_lines_def r)
  moreover have "map_of (pj_files t) q = map_of (pj_files s) q" if "q \<noteq> model_path" "q \<noteq> revision_path (sr_number r)" for q
    using that by (simp add: adopted(9) map_of_published r)
  ultimately show ?thesis using adopted(1-4) ch by (auto simp: r)
qed simp

theorem accept_appends_revision_witness:
  "\<exists>r t. accept demo_penv ''first'' 1 ''carol'' None (demo_project ''zero'') = (Inr r, t) \<and> chain demo_penv t [demo_revision, r] \<and>
     sr_parent_fingerprint r = Some ''zero'' \<and> load_model demo_penv t = (Inr (named_model ''one''), t)"
proof (rule demo_accept)
  fix r t assume a: "accept demo_penv ''first'' 1 ''carol'' None (demo_project ''zero'') = (Inr r, t)" and m: "sr_model r = named_model ''one''"
  have c: "chain demo_penv (demo_project ''zero'') ([] @ [demo_revision])" by (simp add: demo_chain)
  note h = accept_appends_revision [OF demo_layout c demo_limit a]
  have "chain demo_penv t [demo_revision, r]" "sr_parent_fingerprint r = Some ''zero''" "load_model demo_penv t = (Inr (named_model ''one''), t)"
    using h m by (simp_all add: demo_revision_def)
  with a show ?thesis by blast
qed

text \<open>
  No lost update. Once a proposal has been accepted, every other proposal that was written against the same revision is refused as a
  conflict, whatever revision its client claims to expect, and the refusal changes nothing.
\<close>

theorem concurrent_proposal_conflicts:
  assumes env: "plain_layout env" and c: "chain env s (rs @ [cur])" and lim: "Suc (Suc (length rs)) < revision_limit"
    and a: "accept env i expected actor acc s = (Inr r, t)"
    and other: "proposal_at env j s = Inr q" and same: "sp_expected_revision q = sr_number cur"
  shows "accept env j expected' actor' acc' t = (Inl SemanticConflictError, t)"
proof -
  note accepted = accept_Inr [OF env c lim a]
  have "proposal_at env j t = proposal_at env j s"
    using accepted(3) revision_name_path by (intro proposal_at_cong [OF env]) metis
  with other same accepted(2) show ?thesis unfolding accept_run [OF accepted(1)] by simp
qed

theorem concurrent_proposal_conflicts_witness:
  "\<exists>r t. accept demo_penv ''first'' 1 ''carol'' None (demo_project ''zero'') = (Inr r, t) \<and>
     accept demo_penv ''second'' 1 ''dave'' None t = (Inl SemanticConflictError, t)"
proof (rule demo_accept)
  fix r t assume a: "accept demo_penv ''first'' 1 ''carol'' None (demo_project ''zero'') = (Inr r, t)"
  have c: "chain demo_penv (demo_project ''zero'') ([] @ [demo_revision])" by (simp add: demo_chain)
  have q: "proposal_at demo_penv ''second'' (demo_project ''zero'') = Inr (demo_proposal ''second'' ''two'')"
    using demo_proposal_at [of "''second''"] by simp
  have "accept demo_penv ''second'' 1 ''dave'' None t = (Inl SemanticConflictError, t)"
    by (rule concurrent_proposal_conflicts [OF demo_layout c demo_limit a q]) (simp add: demo_proposal_def demo_revision_def)
  with a show ?thesis by blast
qed

section \<open>Interrupted acceptance\<close>

lemma update_update: "AList.update k v (AList.update k v' xs) = AList.update k v xs"
  by (induction xs) auto

lemma published_again: "published r (AList.update model_path (Document (JObj (project_model_to_dict (sr_model r)))) files) = published r files"
  by (simp add: published_def update_update)

text \<open>
  C26. Acceptance can be interrupted. Acceptance stores the model first and publishes the revision afterwards. If the process stops between the
  two writes, the authority still reads the old revision as current, and the same acceptance, repeated later, succeeds and leaves exactly the
  files and the revision chain that an uninterrupted acceptance at that time would have left.
\<close>

theorem interrupted_accept_resumes:
  assumes env: "plain_layout env" and c: "chain env s (rs @ [cur])" and lim: "Suc (Suc (length rs)) < revision_limit"
    and a: "accept env i expected actor acc s = (Inr r, t)"
    and stopped: "u = s\<lparr>pj_files := AList.update model_path (Document (JObj (project_model_to_dict (sr_model r)))) (pj_files s),
      pj_ticks := ticks, pj_draws := draws\<rparr>"
  shows "current env u = (Inr cur, u) \<and>
    (\<exists>r' t'. accept env i expected actor acc u = (Inr r', t') \<and> r' = r\<lparr>sr_accepted_at := sr_accepted_at r'\<rparr> \<and>
      chain env t' (rs @ [cur, r']) \<and> pj_files t' = published r' (pj_files s))"
  using env c lim a
proof (cases rule: accept_cases)
  case (adopted p m accepted)
  let ?dict = "JObj (project_model_to_dict (sp_model p))"
  have r: "r = next_revision env cur p actor accepted" and b: "\<not> blank actor" using adopted(11) by (simp_all split: if_splits)
  note ok = proposal_at_ok [OF adopted(1)]
  have files: "pj_files u = AList.update model_path (Document ?dict) (pj_files s)" and rd: "audit_readable env u"
    using adopted(8) by (simp_all add: stopped r audit_readable_def)
  have cu: "chain env u (rs @ [cur])"
    using c chain_model [OF env files] by simp
  have pu: "proposal_at env i u = Inr p"
    using proposal_at_cong [OF env, of u s i] adopted(1) by (simp add: files AList.update_conv')
  have mu: "model_at env u = Inr (sp_model p)"
    unfolding model_at_def using env project_model_roundtrip [OF conjunct2 [OF ok]]
    by (intro stored_document [where q = model_path]) (simp_all add: files AList.update_conv')
  have run: "accept env i expected actor acc u = publish env cur p actor acc u"
    unfolding accept_run [OF cu] using pu mu adopted by simp
  show ?thesis
  proof (rule publish_run [OF env cu lim conjunct1 [OF ok] conjunct2 [OF ok] adopted(4), of actor acc])
    fix r' t' accepted'
    let ?r = "next_revision env cur p actor accepted'"
    assume run': "publish env cur p actor acc u = (r', t')"
      and "audit_readable env u \<Longrightarrow> pj_files t' = published ?r (pj_files u) \<and>
        (if blank actor then r' = Inl ValueError \<and> pj_audit t' = pj_audit u
         else r' = Inr ?r \<and> (\<exists>e. ae_event_type e = ''SEMANTIC_REVISION_ACCEPTED'' \<and> ae_actor e = actor \<and>
           ae_payload e = [(''revision'', JInt (sr_number cur + 1)), (''fingerprint'', JStr (model_fingerprint env (sp_model p))),
             (''proposal_id'', JStr (sp_id p))] \<and> pj_audit t' = Some (audit_lines u @ [event_line e])))"
    with rd b have t': "pj_files t' = published ?r (pj_files u)" "r' = Inr ?r" by simp_all
    have "chain env t' (rs @ [cur, ?r])" using published_chain [OF env cu lim _ _ adopted(4) t'(1)] ok by blast
    moreover have "pj_files t' = published ?r (pj_files s)" using published_again [of ?r "pj_files s"] t'(1) by (simp add: files)
    moreover have "?r = r\<lparr>sr_accepted_at := sr_accepted_at ?r\<rparr>" by (simp add: r next_revision_def)
    moreover have "accept env i expected actor acc u = (Inr ?r, t')" using run run' t'(2) by simp
    ultimately show ?thesis by (intro conjI exI [of _ ?r] exI [of _ t'] current_run [OF cu])
  qed
qed simp

theorem interrupted_accept_resumes_witness:
  "\<exists>r t. accept demo_penv ''first'' 1 ''carol'' None (demo_project ''one'') = (Inr r, t) \<and> sr_model r = named_model ''one''"
proof (rule demo_accept)
  fix r t assume a: "accept demo_penv ''first'' 1 ''carol'' None (demo_project ''zero'') = (Inr r, t)" and m: "sr_model r = named_model ''one''"
  let ?u = "demo_project ''zero''\<lparr>pj_files := AList.update model_path (Document (JObj (project_model_to_dict (sr_model r))))
    (pj_files (demo_project ''zero'')), pj_ticks := 0, pj_draws := 0\<rparr>"
  have c: "chain demo_penv (demo_project ''zero'') ([] @ [demo_revision])" by (simp add: demo_chain)
  have u: "?u = demo_project ''one''"
    by (simp add: demo_project_def put_file_def demo_unmanaged_def m update_update)
  from interrupted_accept_resumes [OF demo_layout c demo_limit a refl, of 0 0] obtain r' t'
    where "accept demo_penv ''first'' 1 ''carol'' None ?u = (Inr r', t')" "r' = r\<lparr>sr_accepted_at := sr_accepted_at r'\<rparr>" by blast
  then show ?thesis unfolding u using m by (metis semantic_revision.select_convs(8) semantic_revision.surjective semantic_revision.update_convs(7))
qed

section \<open>Changes made outside the authority\<close>

text \<open>
  C27. External changes are never accepted by accident. If the stored Project Model is neither the current revision nor the proposal that is
  being accepted, acceptance fails and the revision chain and the stored model stay as they are. When the change left the Project's identifier alone, the
  audit log is readable and the name drawn for the new proposal is a proper one that no file has, it fails with \<open>ExternalMutationError\<close> and the
  observed model is filed as a proposal against the current revision, ready to be decided on its own. A change of the Project's identifier
  ends in \<open>ValueError\<close> with nothing filed.
\<close>

theorem external_mutation_proposed:
  assumes env: "plain_layout env" and c: "chain env s (rs @ [cur])"
    and p: "proposal_at env i s = Inr p" "expected = sr_number cur" "sp_expected_revision p = sr_number cur" "sp_project_id p = sr_project_id cur"
    and m: "model_at env s = Inr m" "model_fingerprint env m \<notin> {sr_fingerprint cur, model_fingerprint env (sp_model p)}"
  shows "\<exists>e t. accept env i expected actor acc s = (Inl e, t) \<and> chain env t (rs @ [cur]) \<and> load_model env t = (Inr m, t) \<and>
    (if pi_id (pm_project m) \<noteq> sr_project_id cur then e = ValueError \<and> t = s
     else audit_readable env s \<and> list_all proposal_char (pe_uuid env (pj_draws s)) \<and>
         map_of (pj_files s) (proposal_directory @ ''/proposal-'' @ pe_uuid env (pj_draws s) @ ''.json'') = None \<longrightarrow>
       e = ExternalMutationError \<and> (\<exists>q. proposal_at env (''proposal-'' @ pe_uuid env (pj_draws s)) t = Inr q \<and> sp_model q = m \<and>
         sp_expected_revision q = sr_number cur))"
proof -
  let ?observe = "observe_external_mutation env ''external'' s"
  define t where "t = snd ?observe"
  have kept: "undecided env s t" unfolding t_def by (rule observe_undecided [OF env c])
  have chain: "chain env t (rs @ [cur])" using kept c by (simp add: undecided_def)
  have model: "load_model env t = (Inr m, t)"
  proof -
    have "map_of (pj_files t) model_path = map_of (pj_files s) model_path" using kept by (simp add: undecided_def)
    then have "model_at env t = model_at env s" unfolding model_at_def using env by (intro stored_cong) auto
    with m(1) show ?thesis by (simp add: load_model_at)
  qed
  obtain e where run: "accept env i expected actor acc s = (Inl e, t)" "\<And>x. fst ?observe = Inr x \<Longrightarrow> e = ExternalMutationError"
      "\<And>x. fst ?observe = Inl x \<Longrightarrow> e = x"
    unfolding accept_run [OF c] t_def using p m by (cases ?observe; cases "fst ?observe") auto
  have observed: "?observe = (case propose env m (sr_number cur) ''external'' ''EXTERNAL_REPOSITORY_MUTATION'' None None s of
      (Inl e, t) \<Rightarrow> (Inl e, t) | (Inr p, t) \<Rightarrow> (Inr (Some p), t))"
    using m by (simp add: observe_run [OF c])
  have "e = ValueError \<and> t = s" if "pi_id (pm_project m) \<noteq> sr_project_id cur"
  proof -
    have "propose env m (sr_number cur) ''external'' ''EXTERNAL_REPOSITORY_MUTATION'' None None s = (Inl ValueError, s)"
      using that propose_run [OF c] by metis
    then show ?thesis using run(3) observed by (simp add: t_def)
  qed
  moreover have "e = ExternalMutationError \<and> (\<exists>q. proposal_at env (''proposal-'' @ pe_uuid env (pj_draws s)) t = Inr q \<and> sp_model q = m \<and>
      sp_expected_revision q = sr_number cur)"
    if project: "pi_id (pm_project m) = sr_project_id cur" and audit: "audit_readable env s" and uuid: "list_all proposal_char (pe_uuid env (pj_draws s))"
      "map_of (pj_files s) (proposal_directory @ ''/proposal-'' @ pe_uuid env (pj_draws s) @ ''.json'') = None"
  proof -
    have words: "\<not> blank ''external''" "\<not> blank ''EXTERNAL_REPOSITORY_MUTATION''" by code_simp+
    have one: "1 \<le> sr_number cur" using chain_number [OF c] by simp
    obtain q t' where q: "propose env m (sr_number cur) ''external'' ''EXTERNAL_REPOSITORY_MUTATION'' None None s = (Inr q, t')"
      "sp_id q = ''proposal-'' @ pe_uuid env (pj_draws s)" "sp_expected_revision q = sr_number cur"
      by (rule propose_succeeds [OF env c project one words audit uuid])
    note filed = propose_Inr [OF env c q(1)]
    have "t' = t" "e = ExternalMutationError" using observed q(1) run(2) by (simp_all add: t_def)
    moreover have "proposal_at env (sp_id q) t' = Inr q" by (rule filed(2)) (rule model_at_ok [OF m(1)])
    ultimately show ?thesis using q filed(3) by metis
  qed
  ultimately show ?thesis using run(1) chain model by auto
qed

theorem external_mutation_proposed_witness:
  "\<exists>t q. accept demo_penv ''first'' 1 ''carol'' None (demo_project ''three'') = (Inl ExternalMutationError, t) \<and>
     chain demo_penv t [demo_revision] \<and> proposal_at demo_penv ''proposal-7f'' t = Inr q \<and> sp_model q = named_model ''three''"
proof -
  have c: "chain demo_penv (demo_project ''three'') ([] @ [demo_revision])" by (simp add: demo_chain)
  have p: "proposal_at demo_penv ''first'' (demo_project ''three'') = Inr (demo_proposal ''first'' ''one'')"
    using demo_proposal_at [of "''first''"] by simp
  have uuid: "pe_uuid demo_penv (pj_draws (demo_project ''three'')) = ''7f''" by (simp add: demo_penv_def)
  have chars: "list_all proposal_char ''7f''" by code_simp
  have new: "map_of (pj_files (demo_project ''three'')) (proposal_directory @ ''/proposal-7f.json'') = None"
    by (simp add: demo_project_def put_file_def demo_unmanaged_def AList.update_conv' demo_path_def proposal_directory_def
      model_path_def revision_path_def revision_directory_def)
  have project: "pi_id (pm_project (named_model ''three'')) = sr_project_id demo_revision" by (simp add: named_model_def demo_revision_def)
  from external_mutation_proposed [OF demo_layout c p _ _ _ demo_model_at [OF demo_models(4)], of 1 "''carol''" None]
  show ?thesis
    unfolding uuid using chars new
    by (simp add: demo_fingerprint audit_readable_def demo_audit project) blast
qed

section \<open>The history only grows\<close>

lemma current_empty: "chain env s [] \<Longrightarrow> current env s = (Inl ArtifactNotFoundError, s)"
  by (simp add: current_def list_revisions_def chain_def ensure_def)

lemma bootstrap_run:
  assumes env: "plain_layout env" and c: "chain env s rs" and lim: "Suc (length rs) < revision_limit"
  shows "chain env (snd (bootstrap env actor source acc s)) rs \<or> rs = [] \<and> (\<exists>r. chain env (snd (bootstrap env actor source acc s)) [r])"
proof (cases "rs = []")
  case False
  then show ?thesis using c by (simp add: bootstrap_def list_revisions_def chain_def)
next
  case True
  have start: "bootstrap env actor source acc s = bnd (load_model env) (\<lambda>m.
       bnd (or_now env acc) (\<lambda>accepted.
       bnd (lift (semantic_revision_init env \<lparr>sr_number = 1, sr_project_id = pi_id (pm_project m),
         sr_fingerprint = model_fingerprint env m, sr_parent_fingerprint = None, sr_proposal_id = source, sr_actor = actor,
         sr_accepted_at = accepted, sr_model = m\<rparr>)) (\<lambda>revision.
       bnd (read_all env) (\<lambda>_.
       bnd (write_revision env revision) (\<lambda>_.
       bnd (new_event env ''SEMANTIC_REVISION_ACCEPTED'' actor
         [(''revision'', JInt 1), (''fingerprint'', JStr (sr_fingerprint revision)), (''proposal_id'', JStr source),
          (''source'', JStr source)] None) (append_event env)))))) s"
    using c True by (simp add: bootstrap_def list_revisions_def chain_def)
  show ?thesis
  proof (cases "model_at env s")
    case (Inl e)
    then show ?thesis using c by (simp add: start load_model_at)
  next
    case (Inr m)
    obtain accepted n where now: "or_now env acc s = (Inr accepted, s\<lparr>pj_ticks := n\<rparr>)"
      using or_now_run [of env acc s] by blast
    define r where "r = \<lparr>sr_number = 1, sr_project_id = pi_id (pm_project m),
      sr_fingerprint = model_fingerprint env m, sr_parent_fingerprint = None, sr_proposal_id = source, sr_actor = actor,
      sr_accepted_at = accepted, sr_model = m\<rparr>"
    define s1 where "s1 = s\<lparr>pj_ticks := n\<rparr>"
    have c1: "chain env s1 []" using c True chain_files [of s1 s] by (simp add: s1_def)
    have init: "semantic_revision_init env r = Inr r" by (simp add: semantic_revision_init_Inr r_def)
    have num: "sr_number r = int (Suc (length ([] :: semantic_revision list)))" by (simp add: r_def)
    define s2 where "s2 = s1\<lparr>pj_files := AList.update (revision_path (sr_number r)) (Document (JObj (semantic_revision_to_dict r))) (pj_files s1)\<rparr>"
    have wr: "write_revision env r s1 = (Inr (), s2)"
      using write_revision_run [OF env, of s1 r] chain_fresh [OF c1] num lim True by (simp add: s2_def)
    have c2: "chain env s2 [r]"
      using chain_add [OF env c1 _ init _ num] model_at_ok [OF Inr] lim True by (simp add: s2_def r_def)
    define ev where "ev = bnd (new_event env ''SEMANTIC_REVISION_ACCEPTED'' actor
         [(''revision'', JInt 1), (''fingerprint'', JStr (sr_fingerprint r)), (''proposal_id'', JStr source),
          (''source'', JStr source)] None) (append_event env)"
    have run: "bootstrap env actor source acc s = (if audit_readable env s1 then ev s2 else (Inl ArtifactCorruptError, s1))"
      using Inr now init wr unfolding start
      by (simp add: load_model_at r_def [symmetric] s1_def [symmetric] read_all_run ev_def)
    have "\<not> blank ''SEMANTIC_REVISION_ACCEPTED''" by code_simp
    note record_event [OF this, of env actor "[(''revision'', JInt 1), (''fingerprint'', JStr (sr_fingerprint r)),
      (''proposal_id'', JStr source), (''source'', JStr source)]" s2, folded ev_def]
    then have "pj_files (snd (ev s2)) = pj_files s2" by auto
    from chain_files [OF this] c2 c1 True show ?thesis by (auto simp: run)
  qed
qed

text \<open>A sequence of calls of the authority, each of which may succeed or raise.\<close>

datatype authority_call =
  Bootstrap string string "string option"
| Propose project_model int string string "string option" "string option"
| Observe string
| Accept string int string "string option"

fun authority_run :: "project_env \<Rightarrow> authority_call \<Rightarrow> project_state \<Rightarrow> project_state" where
  "authority_run env (Bootstrap actor source acc) s = snd (bootstrap env actor source acc s)"
| "authority_run env (Propose m expected actor source pid cat) s = snd (propose env m expected actor source pid cat s)"
| "authority_run env (Observe actor) s = snd (observe_external_mutation env actor s)"
| "authority_run env (Accept i expected actor acc) s = snd (accept env i expected actor acc s)"

lemma authority_run_extends:
  assumes env: "plain_layout env" and c: "chain env s rs" and lim: "Suc (length rs) < revision_limit"
  shows "\<exists>new. chain env (authority_run env call s) (rs @ new) \<and> length new \<le> 1"
proof (cases rs rule: rev_cases)
  case Nil
  have same: "chain env s (rs @ [])" using c by simp
  have "authority_run env call s = s \<or> (\<exists>a b d. call = Bootstrap a b d)"
    using current_empty c Nil
    by (cases call) (simp_all add: propose_def observe_external_mutation_def accept_def)
  then show ?thesis
    using same bootstrap_run [OF env c lim] Nil by (metis append.simps(1) append_Nil2 authority_run.simps(1) le_refl length_Cons list.size(3) One_nat_def zero_le_one)
next
  case (snoc rs' cur)
  have lim': "Suc (Suc (length rs')) < revision_limit" using lim snoc by simp
  have cur: "chain env s (rs' @ [cur])" using c snoc by simp
  show ?thesis
  proof (cases call)
    case (Accept i expected actor acc)
    obtain r t where a: "accept env i expected actor acc s = (r, t)" by (cases "accept env i expected actor acc s")
    from env cur lim' a show ?thesis
    proof (cases rule: accept_cases)
      case (refused e)
      then show ?thesis using c Accept a by (intro exI [of _ "[]"]) (simp add: undecided_def)
    next
      case (adopted p m accepted)
      have "chain env t (rs' @ [cur, next_revision env cur p actor accepted])"
        using published_chain [OF env cur lim' _ _ adopted(4) adopted(9)] proposal_at_ok [OF adopted(1)] by blast
      then show ?thesis using Accept a snoc by (intro exI [of _ "[next_revision env cur p actor accepted]"]) simp
    qed
  qed (use bootstrap_run [OF env c lim] snoc c propose_undecided [OF env cur] observe_undecided [OF env cur] in
      \<open>auto simp: undecided_def intro!: exI [of _ "[]"]\<close>)
qed

text \<open>A log to which every call appends at most one entry, up to a limit.\<close>

locale append_only =
  fixes holds :: "'s \<Rightarrow> 'r list \<Rightarrow> bool" and run :: "'c \<Rightarrow> 's \<Rightarrow> 's" and limit :: nat
  assumes run_extends: "holds s rs \<Longrightarrow> Suc (length rs) < limit \<Longrightarrow> \<exists>new. holds (run call s) (rs @ new) \<and> length new \<le> 1"
begin

lemma fold_extends:
  "holds s rs \<Longrightarrow> length rs + length calls < limit \<Longrightarrow> \<exists>new. holds (fold run calls s) (rs @ new) \<and> length new \<le> length calls"
proof (induction calls arbitrary: s rs)
  case (Cons call calls)
  then obtain new where new: "holds (run call s) (rs @ new)" "length new \<le> 1"
    using run_extends [OF Cons.prems(1), of call] by auto
  then obtain new' where "holds (fold run calls (run call s)) ((rs @ new) @ new')" "length new' \<le> length calls"
    using Cons.IH [OF new(1)] Cons.prems(2) by auto
  then show ?case using new by (intro exI [of _ "new @ new'"]) simp
qed auto

end

interpretation authority_log: append_only "\<lambda>s rs. plain_layout env \<and> chain env s rs" "authority_run env" revision_limit for env
  by unfold_locales (use authority_run_extends in blast)

text \<open>
  C25. The history of accepted revisions only grows. Over any sequence of calls of the authority, whether they succeed or raise, the revisions that
  were accepted before remain, in order and unchanged, the chain stays valid, and every call adds at most one revision.
\<close>

theorem accepted_history_append_only:
  assumes "plain_layout env" and "chain env s rs" and "length rs + length calls < revision_limit"
  shows "\<exists>new. chain env (fold (authority_run env) calls s) (rs @ new) \<and> length new \<le> length calls"
  using authority_log.fold_extends [of env s rs calls] assms by blast

theorem accepted_history_append_only_witness:
  "\<exists>new. chain demo_penv (fold (authority_run demo_penv) [Accept ''first'' 1 ''carol'' None, Observe ''external''] (demo_project ''zero''))
     (demo_revision # new)"
  using accepted_history_append_only [OF demo_layout demo_chain [of "''zero''"],
    of "[Accept ''first'' 1 ''carol'' None, Observe ''external'']"] by (auto simp: revision_limit_def)

section \<open>An acceptance that leaves no trace\<close>

text \<open>
  C38. Acceptance with a blank actor. Neither the proposal nor the revision checks the accepting actor, so an acceptance by a blank actor publishes
  the revision and the model and only then fails, with \<open>ValueError\<close>, when the audit event is built: the revision is current although the
  caller saw an error, and the history has no event for it.
\<close>

theorem blank_actor_accepts_unaudited:
  assumes env: "plain_layout env" and c: "chain env s (rs @ [cur])" and lim: "Suc (Suc (length rs)) < revision_limit"
    and a: "accept env i expected actor acc s = (Inr r, t)" and b: "blank actor'"
  shows "\<exists>t' r'. accept env i expected actor' acc s = (Inl ValueError, t') \<and> chain env t' (rs @ [cur, r']) \<and> sr_model r' = sr_model r \<and>
    sr_actor r' = actor' \<and> audit_lines t' = audit_lines s"
  using env c lim a
proof (cases rule: accept_cases)
  case (adopted p m accepted)
  have r: "r = next_revision env cur p actor accepted" using adopted(11) by (simp split: if_splits)
  note ok = proposal_at_ok [OF adopted(1)]
  have run: "accept env i expected actor' acc s = publish env cur p actor' acc s"
    unfolding accept_run [OF c] using adopted by simp
  show ?thesis
  proof (rule publish_run [OF env c lim conjunct1 [OF ok] conjunct2 [OF ok] adopted(4), of actor' acc])
    fix r' t' accepted'
    let ?r = "next_revision env cur p actor' accepted'"
    assume run': "publish env cur p actor' acc s = (r', t')"
      and "audit_readable env s \<Longrightarrow> pj_files t' = published ?r (pj_files s) \<and>
        (if blank actor' then r' = Inl ValueError \<and> pj_audit t' = pj_audit s
         else r' = Inr ?r \<and> (\<exists>e. ae_event_type e = ''SEMANTIC_REVISION_ACCEPTED'' \<and> ae_actor e = actor' \<and>
           ae_payload e = [(''revision'', JInt (sr_number cur + 1)), (''fingerprint'', JStr (model_fingerprint env (sp_model p))),
             (''proposal_id'', JStr (sp_id p))] \<and> pj_audit t' = Some (audit_lines s @ [event_line e])))"
    with adopted(8) b have t': "pj_files t' = published ?r (pj_files s)" "r' = Inl ValueError" "pj_audit t' = pj_audit s" by simp_all
    have "chain env t' (rs @ [cur, ?r])" using published_chain [OF env c lim _ _ adopted(4) t'(1)] ok by blast
    then show ?thesis using run run' t' r by (intro exI [of _ t'] exI [of _ ?r]) (simp add: audit_lines_def)
  qed
qed simp

theorem blank_actor_accepts_unaudited_witness:
  "\<exists>t r. accept demo_penv ''first'' 1 [] None (demo_project ''zero'') = (Inl ValueError, t) \<and> chain demo_penv t [demo_revision, r] \<and>
     audit_lines t = []"
proof (rule demo_accept)
  fix r t assume a: "accept demo_penv ''first'' 1 ''carol'' None (demo_project ''zero'') = (Inr r, t)"
  have c: "chain demo_penv (demo_project ''zero'') ([] @ [demo_revision])" by (simp add: demo_chain)
  have b: "blank []" by (simp add: strip_def)
  have "audit_lines (demo_project ''zero'') = []" by (simp add: audit_lines_def demo_audit)
  with blank_actor_accepts_unaudited [OF demo_layout c demo_limit a b] show ?thesis by auto
qed

end
