(* ===== verification/Host_Steps.thy ===== *)
theory Host_Steps
  imports Runtime_Decisions Workspace Authority_Properties
begin

text \<open>
  Histories of a host: operations of the managed services, workspaces and promotions, and calls of the Project authority by other
  clients, in any order. Workspace operations, too, move the runtime database only along the steps of the abstract
  specification, so its invariants hold on every such history.
\<close>

section \<open>Workspace operations move along runtime steps\<close>

definition hreach :: "host \<Rightarrow> host \<Rightarrow> bool" where
  "hreach h h' \<longleftrightarrow> wreach (ho_runtime h) (ho_runtime h')"

interpretation hr: state_preorder hreach
  by unfold_locales (auto simp: hreach_def intro: wr.R_refl wr.R_trans)

text \<open>Operations on directories and git\<close>

definition apart :: "host \<Rightarrow> host \<Rightarrow> bool" where
  "apart h h' \<longleftrightarrow> ho_runtime h' = ho_runtime h \<and> ho_projects h' = ho_projects h"

interpretation ap: state_preorder apart
  by unfold_locales (simp_all add: apart_def)

lemma apart_git_run: "keeps apart (git_run env args)"
  by (simp add: keeps_def apart_def git_run_def)

lemma apart_trees: "keeps apart (add_tree t)" "keeps apart (remove_tree t)"
  by (simp_all add: keeps_def apart_def add_tree_def remove_tree_def)

lemmas ap_rules = ap.keeps_basic apart_git_run apart_trees

lemma apart_git: "keeps apart (git_root env p)" "keeps apart (git_output env p args)" "keeps apart (git_create env t args)"
  "keeps apart (copy_tree t)" "keeps apart (assert_no_symlink_escape env t)" "keeps apart (discard_tree env s t b c)"
  unfolding git_root_def git_output_def git_create_def copy_tree_def assert_no_symlink_escape_def discard_tree_def
  by (intro ap_rules)+

lemma apart_head_or_copy: "keeps apart (head_or_copy env e s t)"
proof -
  have h: "keeps apart (bnd (req c x) (\<lambda>_. bnd (copy_tree t) (\<lambda>_. ret ([] :: string))))" for c x
    by (intro ap_rules apart_git)
  have "apart u (snd (head_or_copy env e s t u))" for u
  proof -
    obtain r u' where o: "git_output env s [''rev-parse'', ''HEAD''] u = (r, u')" by (cases "git_output env s [''rev-parse'', ''HEAD''] u")
    have u: "apart u u'" using apart_git(2) [of env s "[''rev-parse'', ''HEAD'']"] o by (metis keeps_def snd_conv)
    show ?thesis
    proof (cases r)
      case (Inl x)
      then show ?thesis using o u h [of "\<not> allowed_providers e \<noteq> []" RuntimeAuthorizationError] ap.R_trans
        by (simp add: head_or_copy_def keeps_def)
    next
      case (Inr x)
      then show ?thesis using o u by (simp add: head_or_copy_def)
    qed
  qed
  then show ?thesis by (simp add: keeps_def)
qed

definition apart_making :: "making \<Rightarrow> making \<Rightarrow> bool" where
  "apart_making k k' \<longleftrightarrow> apart (mk_host k) (mk_host k')"

interpretation am: state_preorder apart_making
  by unfold_locales (auto simp: apart_making_def intro: ap.R_refl ap.R_trans)

lemma am_on_host: "keeps apart m \<Longrightarrow> keeps apart_making (on_host m)"
  by (simp add: keeps_def apart_making_def on_host_def split: prod.splits) (metis snd_conv)

lemma am_flags: "keeps apart_making (modify (\<lambda>k. k\<lparr>mk_clone_created := b\<rparr>))" "keeps apart_making (modify (\<lambda>k. k\<lparr>mk_git_created := b\<rparr>))"
  by (simp_all add: keeps_def apart_making_def ap.R_refl)

lemma apart_build_tree: "keeps apart_making (build_tree env e s t)"
  unfolding build_tree_def
  by (intro am.keeps_basic am_on_host am_flags apart_git apart_head_or_copy)

lemma apart_make_tree: "keeps apart (make_tree env e s t)"
proof -
  have "apart h (snd (make_tree env e s t h))" for h
  proof -
    let ?k = "\<lparr>mk_host = h, mk_git_created = False, mk_clone_created = False\<rparr>"
    obtain r k where b: "build_tree env e s t ?k = (r, k)" by (cases "build_tree env e s t ?k")
    have k: "apart h (mk_host k)"
      using apart_build_tree [of env e s t] b unfolding keeps_def apart_making_def by (metis making.select_convs(1) snd_conv)
    have d: "keeps apart (bnd (discard_tree env s t g c) (\<lambda>_. raise x))" for g c x
      by (intro ap_rules apart_git)
    show ?thesis
    proof (cases r)
      case (Inl x)
      then show ?thesis using b k d ap.R_trans by (simp add: make_tree_def keeps_def) blast
    qed (use b k in \<open>simp add: make_tree_def\<close>)
  qed
  then show ?thesis by (simp add: keeps_def)
qed

lemma hr_apart: "keeps apart m \<Longrightarrow> keeps hreach m"
  by (simp add: keeps_def apart_def hreach_def) (metis wr.R_refl)

lemma hr_runtime: "(\<And>w. wr.from_state m w) \<Longrightarrow> keeps hreach (on_runtime m)"
  by (auto simp: keeps_def hreach_def on_runtime_def wr.from_state_def split: prod.splits) (metis snd_conv)

lemma hr_project: "keeps hreach (on_project env root m)"
  by (simp add: keeps_def hreach_def on_project_def wr.R_refl split: option.splits prod.splits)

lemma workspace_from: "y \<in> {''PROMOTED'', ''PROMOTION_CONFLICT''} \<Longrightarrow> wr.from_state (in_store (set_workspace_state i ''ACTIVE'' y t now a)) w"
  by (intro from_in_store f_set_workspace_state.no_trace) (rule rt.set_workspace_state_reach, assumption, simp)

lemma conflict_from:
  "wr.from_state (in_store (transition_one ''project_jobs'' ''project_job_id'' j (job_state_value JOB_ACCEPTED)
     (job_state_value JOB_PROMOTION_CONFLICT) t now a [])) w"
  unfolding transition_one_def
  by (intro from_in_store f_transition_batch.no_trace)
    (erule rt.transition_one_reach, simp add: legal_simps)

lemma new_workspace_from:
  "wk_state r = ''ACTIVE'' \<Longrightarrow> wr.from_state (in_store (insert_values (New_Workspace r) t now a ev)) w"
  by (rule insert_from) (simp add: new_row_ok_def)

lemma run_for_workspace_from: "wr.from_state (run_for_workspace ws) w" "wr.from_state (active_workspace i) w"
  unfolding run_for_workspace_def active_workspace_def by (intro world_rules)+

lemma query_from: "wr.from_state (query f) w"
  by (simp add: query_def wr.from_state_def wr.R_refl)

lemma stored_decision_from: "wr.from_state (stored_decision j) w"
  unfolding stored_decision_def by (intro world_rules)

lemmas host_rules = hr.keeps_basic hr_project hr_runtime run_for_workspace_from query_from from_fetch from_clock
  hr_apart [OF apart_make_tree]

lemma create_workspace_tree_keeps: "keeps hreach (create_workspace_tree env wm i a root b ac)"
  unfolding create_workspace_tree_def Let_def by (intro host_rules new_workspace_from) simp

lemma promote_keeps: "keeps hreach (promote env wm i m dec ac)"
  unfolding promote_def Let_def by (intro host_rules workspace_from conflict_from event_from) simp_all

lemma assert_allowed_path_keeps: "keeps hreach (assert_allowed_path env i rel perm ac)"
  unfolding assert_allowed_path_def Let_def by (intro host_rules)

lemma promote_workspace_keeps: "keeps hreach (promote_workspace env mr i m dec ac)"
  unfolding promote_workspace_def by (intro host_rules promote_keeps assert_project_job_unblocked_from)

lemma promote_accepted_keeps: "keeps hreach (promote_accepted_workspace env mr i m j ac)"
  unfolding promote_accepted_workspace_def by (intro host_rules promote_workspace_keeps stored_decision_from)

lemma managed_init_keeps: "keeps hreach (managed_init env p i r n)"
  unfolding managed_init_def Let_def by (intro host_rules service_init_from)

section \<open>Histories\<close>

datatype host_op =
    Service_Op service_op
  | Managed_Init string string "string option" int
  | Create_Workspace string string string int actor_like
  | Allowed_Path string string string actor_like
  | Promote_Workspace string project_model acceptance_decision actor_like
  | Promote_Accepted string project_model string actor_like
  | Project_Call "string list" authority_call

definition finally_unit :: "(host, 'a) eff \<Rightarrow> (host, unit) eff" where
  "finally_unit m = bnd m (\<lambda>_. ret ())"

fun perform_host :: "host_env \<Rightarrow> managed_runtime \<Rightarrow> host_op \<Rightarrow> (host, unit) eff" where
  "perform_host env mr (Service_Op op) = on_runtime (perform (he_runtime env) (mr_service mr) op)"
| "perform_host env mr (Managed_Init p i r n) = finally_unit (managed_init env p i r n)"
| "perform_host env mr (Create_Workspace i a root b ac) = finally_unit (create_workspace env mr i a root b ac)"
| "perform_host env mr (Allowed_Path i rel perm ac) = finally_unit (assert_allowed_path env i rel perm ac)"
| "perform_host env mr (Promote_Workspace i m dec ac) = finally_unit (promote_workspace env mr i m dec ac)"
| "perform_host env mr (Promote_Accepted i m j ac) = finally_unit (promote_accepted_workspace env mr i m j ac)"
| "perform_host env mr (Project_Call root c) = on_project env root (\<lambda>pe. modify (authority_run pe c))"

fun run_host :: "host_env \<Rightarrow> (managed_runtime \<times> host_op) list \<Rightarrow> host \<Rightarrow> host" where
  "run_host env [] h = h"
| "run_host env ((mr, op) # ops) h = run_host env ops (snd (perform_host env mr op h))"

definition new_host :: "(string list \<times> project_state) list \<Rightarrow> host" where
  "new_host projects = \<lparr>ho_runtime = new_world, ho_projects = projects, ho_trees = [], ho_runs = 0\<rparr>"

lemma perform_host_keeps: "keeps hreach (perform_host env mr op)"
  by (cases op)
    (auto simp: finally_unit_def create_workspace_def
      intro!: host_rules perform_from create_workspace_tree_keeps assert_allowed_path_keeps promote_workspace_keeps promote_accepted_keeps
        managed_init_keeps)

lemma run_host_reach: "runtime_step\<^sup>*\<^sup>* (store_db (ho_runtime h)) (store_db (ho_runtime (run_host env ops h)))"
proof (induction env ops h rule: run_host.induct)
  case (2 env mr op ops h)
  have "hreach h (snd (perform_host env mr op h))"
    using perform_host_keeps [of env mr op] by (simp add: keeps_def)
  with 2 show ?case by (simp add: hreach_def wreach_def rt.reach_def)
qed simp

lemma runtime_inv_host: "runtime_inv (store_db (ho_runtime (run_host env ops (new_host projects))))"
  by (rule runtime.reach_inv [OF run_host_reach]) (simp add: new_host_def new_world_def runtime_inv_empty)

text \<open>A history of service operations alone runs as it does without the host.\<close>

lemma run_host_service:
  "ho_runtime (run_host env (map (\<lambda>op. (mr, Service_Op op)) ops) h) =
    run_ops (he_runtime env) (map (Pair (mr_service mr)) ops) (ho_runtime h)"
  by (induction ops arbitrary: h) (auto simp: on_runtime_def split: prod.splits)

end
