(* ===== verification/Runtime_Properties.thy ===== *)
theory Runtime_Properties
  imports Demo_Run Host_Steps
begin

text \<open>
  Properties of the execution core over every history of a host, workspace operations and direct use of the Project authority included: each
  operation refines the abstract step relation, and what that gives for Attempts, dispatch and acceptance.
\<close>

abbreviation served :: "host_env \<Rightarrow> (string list \<times> project_state) list \<Rightarrow> (managed_runtime \<times> host_op) list \<Rightarrow> db" where
  "served env projects ops \<equiv> store_db (ho_runtime (run_host env ops (new_host projects)))"

text \<open>The demonstration history on a host without Projects\<close>

definition demo_host_env :: host_env where
  "demo_host_env = \<lparr>he_runtime = demo_env, he_project = (\<lambda>_. demo_penv), he_resolve = path_parts, he_git = (\<lambda>_ _. None), he_partial = (\<lambda>_. False),
     he_escaping = (\<lambda>_ _. False)\<rparr>"

definition demo_managed :: managed_runtime where
  "demo_managed = \<lparr>mr_service = demo_service, mr_workspaces = \<lparr>wm_token = sv_acceptance_token demo_service, wm_root = [''ws'']\<rparr>\<rparr>"

definition demo_history :: "(managed_runtime \<times> host_op) list" where
  "demo_history = map (\<lambda>op. (demo_managed, Service_Op op)) (start_ops @ accept_ops)"

lemma demo_served: "served demo_host_env projects demo_history = store_db (demo_world (start_ops @ accept_ops))"
  unfolding demo_history_def run_host_service by (simp add: demo_host_env_def demo_managed_def demo_world_def new_host_def)

section \<open>Refinement\<close>

text \<open>
  C6. The service refines the abstract specification: whatever operation it performs, with whatever arguments, token and
  clock, and whether the operation returns or raises part-way, the database moves along steps of the
  specification only.
\<close>

theorem service_refines_steps:
  "runtime_step\<^sup>*\<^sup>* (store_db (ho_runtime h)) (store_db (ho_runtime (snd (perform_host env mr op h))))"
  using run_host_reach [of h env "[(mr, op)]"] by simp

section \<open>Attempts\<close>

text \<open>
  C7. The Attempt limit of an Envelope holds on every history: a ProjectJob never has more Attempts than the Envelope of
  its Run allows, and none without such an Envelope.
\<close>

theorem attempts_within_limit:
  "case envelope_of_job j (served env projects ops) of
     None \<Rightarrow> filter (\<lambda>a. at_project_job_id a = j) (attempts (served env projects ops)) = []
   | Some p \<Rightarrow> length (filter (\<lambda>a. at_project_job_id a = j) (attempts (served env projects ops))) \<le> nat (max_attempts (pl_envelope p))"
proof -
  have inv: "keys_ok (served env projects ops)" "limit_ok (served env projects ops)"
    using runtime_inv_host [of env ops projects] by (simp_all add: runtime_inv_def)
  show ?thesis
  proof (cases "envelope_of_job j (served env projects ops)")
    case None
    with inv(2) show ?thesis by (force simp: limit_ok_def filter_empty_conv)
  next
    case (Some p)
    with attempts_bounded [OF inv Some] show ?thesis by auto
  qed
qed

lemma moves_closed:
  assumes "move_row\<^sup>*\<^sup>* a b" and "Q a" and "\<And>x y. Q x \<Longrightarrow> move_row x y \<Longrightarrow> Q y"
  shows "Q b"
  using assms by (induction rule: rtranclp_induct) blast+

text \<open>Where an Attempt of unknown outcome can be: still unknown, in reconciliation, or reconciled with a recorded outcome.\<close>

definition unknown_from :: "attempt_row \<Rightarrow> bool" where
  "unknown_from b \<longleftrightarrow> at_state b \<in> {''UNKNOWN'', ''NEEDS_RECONCILIATION''} \<or>
     (at_state b = ''FINISHED'' \<and> at_reconciliation_outcome b = Some ''RECOVERED_FINISHED'') \<or>
     (at_state b = ''RECONCILED_RETRYABLE'' \<and> at_reconciliation_outcome b = Some ''SAFE_TO_RETRY'')"

lemma unknown_from_move:
  assumes "unknown_from a" and "move_row a b"
  shows "unknown_from b"
proof -
  obtain y us now where m: "attempt_move (at_state a) y us" and b: "b = fold set_column us (a\<lparr>at_state := y, at_updated_at := now\<rparr>)"
    using assms(2) by (auto elim: move_rowE)
  show ?thesis
    using m unfolding attempt_move_def b
    by (elim disjE conjE exE) (use assms(1) in \<open>simp_all add: unknown_from_def\<close>)
qed

text \<open>
  C3. An Attempt is never lost or rebound; a finished, cancelled or retryable one never changes again, whatever
  is asked of the service; and one whose outcome is unknown is never restarted, cancelled or simply finished:
  it leaves that state through reconciliation only, with the outcome recorded.
\<close>

theorem attempt_lifecycle:
  assumes "get_attempt i (store_db (ho_runtime h)) = Some a"
  shows "\<exists>b. get_attempt i (store_db (ho_runtime (run_host env ops h))) = Some b \<and> at_ident b = at_ident a \<and>
    (at_state a \<in> {''FINISHED'', ''CANCELLED'', ''RECONCILED_RETRYABLE''} \<longrightarrow> b = a) \<and>
    (at_state a = ''UNKNOWN'' \<longrightarrow> unknown_from b)"
proof -
  obtain b where b: "get_attempt i (store_db (ho_runtime (run_host env ops h))) = Some b" and m: "move_row\<^sup>*\<^sup>* a b"
    using follow.reach_R [OF run_host_reach [of h env ops]] assms by (auto simp: follows_def)
  have "at_ident b = at_ident a"
    by (rule moves_closed [OF m]) (auto dest: move_row_ident)
  moreover have "at_state a \<in> {''FINISHED'', ''CANCELLED'', ''RECONCILED_RETRYABLE''} \<longrightarrow> b = a"
    using m by (metis converse_rtranclpE move_row_finished)
  moreover have "at_state a = ''UNKNOWN'' \<longrightarrow> unknown_from b"
  proof
    assume "at_state a = ''UNKNOWN''"
    then have "unknown_from a" by (simp add: unknown_from_def)
    with m show "unknown_from b" by (rule moves_closed) (rule unknown_from_move)
  qed
  ultimately show ?thesis using b by blast
qed

text \<open>A host on which the only Attempt has an unknown outcome; cancelling it is tried.\<close>

definition lost_host :: host where
  "lost_host = (new_host [])\<lparr>ho_runtime := \<lparr>store_db = demo_db\<lparr>attempts := map (\<lambda>a. a\<lparr>at_state := ''UNKNOWN''\<rparr>) (attempts demo_db)\<rparr>,
     ticks = 0, draws = 0\<rparr>\<rparr>"

theorem attempt_lifecycle_witness:
  "\<exists>b. get_attempt ''a'' (store_db (ho_runtime (run_host demo_host_env [(demo_managed, Service_Op (Op_Cancel ''a'' (Actor_String ''svc'')))] lost_host))) =
     Some b \<and> unknown_from b"
proof -
  obtain a where "get_attempt ''a'' (store_db (ho_runtime lost_host)) = Some a" "at_state a = ''UNKNOWN''"
    by (simp add: lost_host_def demo_db_def get_attempt_def)
  with attempt_lifecycle show ?thesis by blast
qed

text \<open>
  C2. Nothing runs outside its authority: on every history, an Attempt that has started belongs to a Run under an
  Envelope that names no provider, or has a dispatch authorization whose provider, role, capabilities, permissions, deadline and
  credentials are all within that Envelope.
\<close>

theorem started_under_dispatch:
  "list_all (\<lambda>a. at_state a \<in> {''PENDING'', ''CANCELLED''} \<or>
     (\<exists>p. envelope_of_job (at_project_job_id a) (served env projects ops) = Some p \<and>
        (allowed_providers (pl_envelope p) = [] \<or>
         (\<exists>x. dispatch_authorization (at_id a) (served env projects ops) = Some x \<and> dispatch_within x (served env projects ops)))))
     (attempts (served env projects ops))"
proof -
  let ?d = "served env projects ops"
  have inv: "keys_ok ?d" "started_ok ?d" "dispatches_ok ?d"
    using runtime_inv_host [of env ops projects] by (simp_all add: runtime_inv_def)
  have own: "get_attempt (at_id a) ?d = Some a" if "a \<in> set (attempts ?d)" for a
    using inv(1) that find_distinct_key [of at_id "attempts ?d" a] by (simp add: get_attempt_def keys_ok_def)
  have "dispatch_within x ?d" if "dispatch_authorization i ?d = Some x" for i x
    using inv(3) that by (auto simp: dispatches_ok_def dispatch_authorization_def dest: find_SomeD)
  with inv(2) own show ?thesis
    by (fastforce simp: list_all_iff started_ok_def start_ok_def)
qed

section \<open>Acceptance\<close>

text \<open>
  C1. Acceptance is justified: on every history, a ProjectJob that is accepted (or was, before a promotion conflict) has an
  ACCEPT decision bound to the fingerprint of its Envelope and to a finished Attempt of the job, made by someone other than
  who dispatched that Attempt, marked valid, and, when the Envelope requires durable evidence, with a passing evidence record of
  that Attempt for every required gate.
\<close>

theorem accepted_justified:
  assumes "j \<in> set (project_jobs (served env projects ops))" and "jb_state j = ''ACCEPTED'' \<or> jb_state j = ''PROMOTION_CONFLICT''"
  shows "\<exists>c att p. c \<in> set (acceptance_decisions (served env projects ops)) \<and> ac_project_job_id c = jb_id j \<and> ac_outcome c = ''ACCEPT'' \<and>
    justified c att p (served env projects ops)"
  using runtime_inv_host [of env ops projects] assms unfolding runtime_inv_def decisions_ok_def decided_once_def by blast

theorem accepted_justified_witness:
  "\<exists>c att p. c \<in> set (acceptance_decisions (served demo_host_env [] demo_history)) \<and> ac_outcome c = ''ACCEPT'' \<and>
     justified c att p (served demo_host_env [] demo_history)"
proof -
  obtain j where "j \<in> set (project_jobs (served demo_host_env [] demo_history))" "jb_state j = ''ACCEPTED''"
    using demo_accepted unfolding demo_served by (auto simp: Let_def map_eq_Cons_conv)
  with accepted_justified show ?thesis by blast
qed

text \<open>C8. A ProjectJob is decided at most once: on every history no two acceptance decisions are about the same ProjectJob.\<close>

theorem decided_at_most_once:
  "distinct (map ac_project_job_id (acceptance_decisions (served env projects ops)))"
  using runtime_inv_host [of env ops projects] by (simp add: runtime_inv_def decided_once_def)

end
