(* ===== verification/World_Laws.thy ===== *)
theory World_Laws
  imports Runtime_Decisions
begin

text \<open>
  Rules for the operations of a service process: what a successful run of a primitive says, computations that
  only read the database, and refusal, which is raising without a change of the database.
\<close>

lemma find_conj: "find P xs = Some x \<Longrightarrow> Q x \<Longrightarrow> find (\<lambda>y. P y \<and> Q y) xs = Some x"
  by (induction xs) (auto split: if_splits)

lemma run_eff_simps:
  "clock env w = (Inr (clock_reading env (ticks w)), w\<lparr>ticks := Suc (ticks w)\<rparr>)"
  "fetch e f w = (case f (store_db w) of None \<Rightarrow> (Inl e, w) | Some x \<Rightarrow> (Inr x, w))"
  "query g w = (Inr (g (store_db w)), w)"
  by (simp_all add: clock_def fetch_def query_def bnd_def split: option.splits)

lemma clock_InrE [eff_elims]:
  "clock env w = (Inr now, w') \<Longrightarrow> (now = clock_reading env (ticks w) \<Longrightarrow> w' = w\<lparr>ticks := Suc (ticks w)\<rparr> \<Longrightarrow> P) \<Longrightarrow> P"
  by (simp add: clock_def)

lemma uuid4_InrE [eff_elims]:
  "uuid4 env w = (Inr u, w') \<Longrightarrow> (u = uuid_text env (draws w) \<Longrightarrow> w' = w\<lparr>draws := Suc (draws w)\<rparr> \<Longrightarrow> P) \<Longrightarrow> P"
  by (simp add: uuid4_def)

lemma token_urlsafe_InrE [eff_elims]:
  "token_urlsafe env w = (Inr u, w') \<Longrightarrow> (u = token_text env (draws w) \<Longrightarrow> w' = w\<lparr>draws := Suc (draws w)\<rparr> \<Longrightarrow> P) \<Longrightarrow> P"
  by (simp add: token_urlsafe_def)

lemma query_InrE [eff_elims]: "query f w = (Inr x, w') \<Longrightarrow> (x = f (store_db w) \<Longrightarrow> w' = w \<Longrightarrow> P) \<Longrightarrow> P"
  unfolding query_def by (erule gets_InrE) blast

lemma fetch_InrE [eff_elims]: "fetch e f w = (Inr x, w') \<Longrightarrow> (f (store_db w) = Some x \<Longrightarrow> w' = w \<Longrightarrow> P) \<Longrightarrow> P"
  by (auto simp: fetch_def elim!: eff_elims)

lemma in_store_InrE [eff_elims]:
  "in_store m w = (Inr x, w') \<Longrightarrow> (\<And>d. m (store_db w) = (Inr x, d) \<Longrightarrow> w' = w\<lparr>store_db := d\<rparr> \<Longrightarrow> P) \<Longrightarrow> P"
  by (auto simp: in_store_def split: prod.splits)

text \<open>Computations that leave the database alone.\<close>

definition same_db :: "world \<Rightarrow> world \<Rightarrow> bool" where
  "same_db w w' \<longleftrightarrow> store_db w' = store_db w"

interpretation ro: state_preorder same_db
  by unfold_locales (simp_all add: same_db_def)

lemma ro_world: "keeps same_db (clock env)" "keeps same_db (uuid4 env)" "keeps same_db (token_urlsafe env)"
  "keeps same_db (query f)" "keeps same_db (fetch e f')"
  by (auto simp: keeps_def same_db_def clock_def uuid4_def token_urlsafe_def query_def fetch_def bnd_def some_or_def split: option.splits)

lemma ro_collect: "keeps same_db (collect_states p is)"
  by (induction "is") (auto intro!: ro.keeps_basic ro_world)

lemmas ro_rules = ro.keeps_basic ro_world ro_collect

lemma ro_Inr: "m w = (Inr x, w') \<Longrightarrow> keeps same_db m \<Longrightarrow> store_db w' = store_db w"
  by (metis keeps_def same_db_def snd_conv)

text \<open>An operation is refused when it raises and leaves the database as it was.\<close>

definition refused :: "(world, 'a) eff \<Rightarrow> world \<Rightarrow> bool" where
  "refused m w \<longleftrightarrow> (\<exists>e w'. m w = (Inl e, w') \<and> store_db w' = store_db w)"

lemma refused_bnd:
  assumes "keeps same_db m" and "\<And>x w'. m w = (Inr x, w') \<Longrightarrow> store_db w' = store_db w \<Longrightarrow> refused (f x) w'"
  shows "refused (bnd m f) w"
proof -
  obtain r w' where m: "m w = (r, w')" by (cases "m w")
  with assms(1) have s: "store_db w' = store_db w" by (metis keeps_def same_db_def snd_conv)
  show ?thesis
  proof (cases r)
    case (Inl e)
    with m s show ?thesis by (simp add: refused_def)
  next
    case (Inr x)
    with assms(2) [of x w'] m s show ?thesis by (simp add: refused_def)
  qed
qed

end
