(* ===== verification/Governance_Properties.thy ===== *)
theory Governance_Properties
  imports World_Laws Demo_Run
begin

text \<open>
  Properties of the governance managers over every history of the service: decision requests block and restore their
  Workstreams, operational controls gate dispatch, and interaction sessions stay bound to the actor that opened them.
\<close>

section \<open>Open decision requests\<close>

lemma open_request_blocked:
  assumes "requests_ok d" and "q \<in> set (decision_requests d)" and "dr_state q = ''OPEN''"
    and "ws \<in> fst ` set (dr_blocked_from_states q)"
  shows "\<exists>r. get_workstream ws d = Some r \<and> ws_state r = ''BLOCKED''"
  using assms by (fastforce simp: requests_ok_def ws_now_get)

text \<open>
  C30. A material decision stops the work it concerns: on every history, while a decision request is open, the service refuses
  to accept any ProjectJob of a Workstream it affects and to authorize a dispatch for any of its Attempts, with an
  authorization error and without a change.
\<close>

theorem open_request_blocks:
  fixes env ops
  defines "w \<equiv> run_ops env ops new_world"
  assumes "q \<in> set (decision_requests (store_db w))" and "dr_state q = ''OPEN''"
    and "get_job j (store_db w) = Some job" and "get_run (jb_run_id job) (store_db w) = Some run"
    and "rn_workstream_id run \<in> fst ` set (dr_blocked_from_states q)"
  shows "service_accept env sv j valid actor why ids c w = (Inl RuntimeAuthorizationError, w) \<and>
    (\<forall>i att. get_attempt i (store_db w) = Some att \<longrightarrow> at_project_job_id att = j \<longrightarrow>
       authorize_dispatch env sv i rq a c w = (Inl RuntimeAuthorizationError, w))"
proof -
  have "requests_ok (store_db w)" using runtime_inv_new [of env ops] by (simp add: runtime_inv_def w_def)
  from open_request_blocked [OF this assms(2,3,6)] obtain r where
    "get_workstream (rn_workstream_id run) (store_db w) = Some r" "ws_state r = ''BLOCKED''" by blast
  with assms(4,5) show ?thesis
    by (simp add: service_accept_def assert_project_job_unblocked_def authorize_dispatch_def assert_dispatch_allowed_def
        effective_for_attempt_def bnd_def run_eff_simps)
qed

definition ask :: "(world, request_row) eff" where
  "ask = create_decision demo_env (sv_coordinator demo_service) ''P'' ''Ship?'' [''w''] demo_user None (Some ''q'') STRATEGIC_MATERIAL"

definition ask_op :: service_op where
  "ask_op = Op_Create_Decision ''P'' ''Ship?'' [''w''] demo_user None (Some ''q'') STRATEGIC_MATERIAL"

lemma demo_asked:
  "let d = store_db (demo_world (start_ops @ [ask_op])) in
   (map (\<lambda>q. (dr_state q, dr_blocked_from_states q)) (decision_requests d), map ws_state (workstreams d),
    map_option (\<lambda>j. map_option rn_workstream_id (get_run (jb_run_id j) d)) (get_job ''j'' d)) =
   ([(''OPEN'', [(''w'', ''ACTIVE'')])], [''BLOCKED''], Some (Some ''w''))"
  by code_simp

theorem open_request_blocks_witness:
  "fst (service_accept demo_env demo_service ''j'' True (Principal demo_user) ''ok'' [] None (demo_world (start_ops @ [ask_op]))) =
     Inl RuntimeAuthorizationError"
proof -
  obtain q job run where "q \<in> set (decision_requests (store_db (demo_world (start_ops @ [ask_op]))))" "dr_state q = ''OPEN''"
    "get_job ''j'' (store_db (demo_world (start_ops @ [ask_op]))) = Some job"
    "get_run (jb_run_id job) (store_db (demo_world (start_ops @ [ask_op]))) = Some run"
    "rn_workstream_id run \<in> fst ` set (dr_blocked_from_states q)"
    using demo_asked by (auto simp: Let_def map_eq_Cons_conv)
  from open_request_blocks [OF this [unfolded demo_world_def]] show ?thesis by (simp add: demo_world_def)
qed

text \<open>Resolution of an open request under a live fence.\<close>

lemma resolve_store:
  assumes "keys_ok d" and "requests_ok d" and "fence_ok t now d" and "decision_request i d = Some q" and "dr_state q = ''OPEN''"
    and "fst (validate_actor a d) = Inr ()"
  shows "\<exists>d'. resolve_decision_request i x y b t now a d = (Inr (), d') \<and>
    (\<forall>k. ws_now k d' = (if b then (case map_of (dr_blocked_from_states q) k of Some s \<Rightarrow> Some s | None \<Rightarrow> ws_now k d) else ws_now k d)) \<and>
    decision_request i d' = Some (resolved i x y now a q)"
proof -
  let ?open = "\<lambda>r. dr_id r = i \<and> dr_state r = ''OPEN''"
  have q: "q \<in> set (decision_requests d)" "dr_id q = i"
    using find_SomeD [OF assms(4) [unfolded decision_request_def]] by auto
  have dist: "distinct (map dr_id (decision_requests d))" using assms(1) by (simp add: keys_ok_def)
  have one: "rowcount ?open (decision_requests d) = 1"
    using rowcount_find [OF dist, of i dr_state "''OPEN''"] assms(4,5) by (simp add: decision_request_def)
  have found: "find ?open (decision_requests d) = Some q"
    using find_conj [OF assms(4) [unfolded decision_request_def], of "\<lambda>r. dr_state r = ''OPEN''"] assms(5) by simp
  have bs: "distinct (map fst (dr_blocked_from_states q))" "\<forall>b \<in> set (dr_blocked_from_states q). ws_now (fst b) d = Some ''BLOCKED''"
    using assms(2,5) q by (auto simp: requests_ok_def)
  obtain d1 where d1: "(if b then resume_workstreams i (dr_blocked_from_states q) now a else ret ()) d = (Inr (), d1)"
    "\<forall>k. ws_now k d1 = (if b then (case map_of (dr_blocked_from_states q) k of Some s \<Rightarrow> Some s | None \<Rightarrow> ws_now k d) else ws_now k d)"
    using resume_effect [OF assms(1) bs, of i now a] by (cases b) auto
  have same: "decision_requests d1 = decision_requests d"
    using d1(1) by (cases b) (auto dest!: resume_frame simp: only_workstreams_tables)
  have v: "validate_actor a d = (Inr (), d)"
    using assms(6) by (auto simp: validate_actor_def Let_def ensure_def split: if_splits)
  have upd: "update_where ?open (\<lambda>q. q\<lparr>dr_state := ''RESOLVED'', dr_outcome := Some x, dr_resolution := Some y,
      dr_resolved_by := Some (actor_id (as_principal a)), dr_resolved_at := Some now\<rparr>) (decision_requests d) =
      map (resolved i x y now a) (decision_requests d)"
    by (simp add: update_where_def resolved_def [abs_def])
  note run_simps = resolve_decision_request_def Let_def v transaction_def assert_fence_def assms(3) found one upd log_audit_def
  have "\<exists>au. resolve_decision_request i x y b t now a d =
      (Inr (), d1\<lparr>decision_requests := map (resolved i x y now a) (decision_requests d), runtime_audit := au\<rparr>)"
  proof (cases b)
    case True
    with d1(1) have "resume_workstreams i (dr_blocked_from_states q) now a d = (Inr (), d1)" by simp
    with True show ?thesis
      by (simp add: run_simps same del: as_principal.simps) (intro exI, rule refl)
  next
    case False
    with d1(1) have "d1 = d" by simp
    then show ?thesis
      by (simp add: False run_simps del: as_principal.simps) (intro exI, rule refl)
  qed
  then obtain d2 where d2: "resolve_decision_request i x y b t now a d = (Inr (), d2)"
    "workstreams d2 = workstreams d1" "decision_requests d2 = map (resolved i x y now a) (decision_requests d)"
    by fastforce
  have "find (\<lambda>r. dr_id r = i) (map (resolved i x y now a) rs) = map_option (resolved i x y now a) (find (\<lambda>r. dr_id r = i) rs)" for rs
    by (induction rs) auto
  then have "decision_request i d2 = Some (resolved i x y now a q)"
    using assms(4) by (simp add: decision_request_def d2(3))
  moreover have "ws_now k d2 = ws_now k d1" for k by (rule ws_now_cong [OF d2(2)])
  ultimately show ?thesis using d1(2) d2(1) by auto
qed


text \<open>What a created request recorded, and what it blocked.\<close>

lemma request_reachE:
  assumes "create_decision_request v t now a d = (Inr u, d')" and "keys_ok d" and "distinct (map fst (dr_blocked_from_states v))"
  shows "(\<forall>(i, x) \<in> set (dr_blocked_from_states v). ws_now i d = Some x) \<and>
    (\<forall>k. ws_now k d' = (if k \<in> fst ` set (dr_blocked_from_states v) then Some ''BLOCKED'' else ws_now k d)) \<and>
    decision_request (dr_id v) d' = Some v"
proof -
  obtain d1 au where b: "block_workstreams v (dr_blocked_from_states v) now a d = (Inr (), d1)"
    and n: "decision_request (dr_id v) d1 = None"
    and d': "d' = d1\<lparr>decision_requests := decision_requests d1 @ [v], runtime_audit := au\<rparr>"
    using assms(1) by (auto simp: create_decision_request_def validate_actor_def Let_def assert_fence_def log_audit_def elim!: eff_elims)
  have "ws_now k d' = ws_now k d1" for k by (rule ws_now_cong) (simp add: d')
  moreover have "decision_request (dr_id v) d' = Some v"
    using n by (simp add: d' decision_request_def find_append)
  ultimately show ?thesis using block_effect [OF b assms(2,3)] by auto
qed

lemma create_decision_effect:
  assumes "create_decision env co p qn aff a r i m w = (Inr q, w')" and "keys_ok (store_db w)"
  shows "dr_state q = ''OPEN'' \<and> decision_request (dr_id q) (store_db w') = Some q \<and> fst ` set (dr_blocked_from_states q) = set aff \<and>
    (\<forall>(k, x) \<in> set (dr_blocked_from_states q). ws_now k (store_db w) = Some x) \<and>
    (\<forall>k. ws_now k (store_db w') = (if k \<in> set aff then Some ''BLOCKED'' else ws_now k (store_db w)))"
proof -
  define v where "v ident states now = \<lparr>dr_id = ident, dr_project_id = p, dr_run_id = r, dr_requested_by = actor_id a,
        dr_materiality = materiality_value m, dr_question = qn,
        dr_affected_workstreams = sort (map fst states), dr_blocked_from_states = sort_key fst states,
        dr_state = ''OPEN'', dr_outcome = None, dr_resolution = None, dr_resolved_by = None, dr_created_at = now,
        dr_resolved_at = None\<rparr>" for ident now and states :: "(string \<times> string) list"
  obtain w0 w1 w2 w3 states ident now d u where reads:
      "(case r of None \<Rightarrow> ret () | Some run_id \<Rightarrow> bnd (fetch ValueError (get_run run_id))
         (\<lambda>r. req (\<not> rn_project_id r \<noteq> p) ValueError)) w0 = (Inr u, w1)"
      "collect_states p aff w1 = (Inr states, w2)"
      "(if i \<noteq> None \<and> i \<noteq> Some [] then ret (the i) else bnd (uuid4 env) (\<lambda>u. ret (''decision-'' @ u))) w2 = (Inr ident, w3)"
    and w0: "store_db w0 = store_db w" and aff: "distinct aff"
    and c: "create_decision_request (v ident states now) (co_token co) now (Principal a) (store_db w3) = (Inr (), d)"
    and q: "decision_request ident d = Some q" and w': "store_db w' = d"
    using assms(1) unfolding create_decision_def v_def [symmetric]
    by (elim bnd_InrE req_InrE lift_InrE clock_InrE in_store_InrE fetch_InrE) simp
  have "store_db w1 = store_db w0" "store_db w2 = store_db w1" "store_db w3 = store_db w2"
    by (rule ro_Inr, rule reads, intro ro_rules)+
  then have c': "create_decision_request (v ident states now) (co_token co) now (Principal a) (store_db w) = (Inr (), d)"
    using c w0 by simp
  have bs: "dr_blocked_from_states (v ident states now) = sort_key fst states" "dr_id (v ident states now) = ident"
    "dr_state (v ident states now) = ''OPEN''" by (simp_all add: v_def)
  have states: "map fst states = aff" using collect_states_Inr [OF reads(2)] by simp
  then have ids: "fst ` set (sort_key fst states) = set aff" "distinct (map fst (sort_key fst states))"
    using aff by (auto simp: distinct_fst_sort_key simp flip: set_map)
  note e = request_reachE [OF c' assms(2), unfolded bs, OF ids(2), unfolded ids(1)]
  with q have "q = v ident states now" by simp
  with e ids(1) show ?thesis by (simp add: bs w')
qed

lemma request_stable:
  "extends d d' \<Longrightarrow> decision_request i d = Some q \<Longrightarrow> \<exists>q'. decision_request i d' = Some q' \<and> dr_ident q' = dr_ident q"
  unfolding decision_request_def extends_def
  by (rule find_ident_prefix [of dr_ident _ _ _ "\<lambda>k. fst k = i"]) (auto simp: dr_ident_def)

lemma resolve_decision_effect:
  assumes "keys_ok (store_db w)" and "requests_ok (store_db w)" and "decision_request i (store_db w) = Some q" and "dr_state q = ''OPEN''"
    and "fence_ok (co_token co) (clock_reading env (Suc (ticks w))) (store_db w)"
    and "require a ''governance:resolve-decision'' (dr_project_id q) (clock_reading env (ticks w)) = Inr ()"
    and "actor_type a = AT_USER" and "\<not> blank res"
  shows "\<exists>q' w'. resolve_decision env co i r res a w = (Inr q', w') \<and> dr_state q' = ''RESOLVED'' \<and>
    dr_outcome q' = Some (decision_outcome_value r) \<and>
    (\<forall>k. ws_now k (store_db w') = (if r = DO_APPROVE then (case map_of (dr_blocked_from_states q) k of Some s \<Rightarrow> Some s
        | None \<Rightarrow> ws_now k (store_db w)) else ws_now k (store_db w)))"
proof -
  have "fst (validate_actor (Principal a) (store_db w)) = Inr ()"
    using assms(6) by (auto simp: validate_actor_def require_def rbind_Inr_iff)
  from resolve_store [OF assms(1,2,5,3,4) this, of "decision_outcome_value r" res "r = DO_APPROVE"]
  obtain d' where d': "resolve_decision_request i (decision_outcome_value r) res (r = DO_APPROVE) (co_token co)
      (clock_reading env (Suc (ticks w))) (Principal a) (store_db w) = (Inr (), d')"
    "\<forall>k. ws_now k d' = (if r = DO_APPROVE then (case map_of (dr_blocked_from_states q) k of Some s \<Rightarrow> Some s | None \<Rightarrow> ws_now k (store_db w)) else ws_now k (store_db w))"
    "decision_request i d' = Some (resolved i (decision_outcome_value r) res (clock_reading env (Suc (ticks w))) (Principal a) q)"
    by blast
  have "dr_id q = i" using find_SomeD [OF assms(3) [unfolded decision_request_def]] by simp
  with d' assms(3,4,6-8) show ?thesis
    by (simp add: resolve_decision_def run_eff_simps in_store_def resolved_def)
qed

text \<open>
  C5. Decision requests are a round trip: a request that was created, and after whatever operations of the service is still open,
  can be approved by a user with the permission under a live fence. While it is open every affected Workstream is
  BLOCKED; approval always succeeds, returns each of them to the state it had before the request, and touches no other Workstream.
\<close>

theorem decision_roundtrip:
  assumes "runtime_inv (store_db w)" and "create_decision env co p question affected actor run request_id m w = (Inr q, w1)"
    and "w2 = run_ops env ops w1" and "decision_request (dr_id q) (store_db w2) = Some q2" and "dr_state q2 = ''OPEN''"
    and "fence_ok (co_token co2) (clock_reading env (Suc (ticks w2))) (store_db w2)"
    and "require user ''governance:resolve-decision'' (dr_project_id q) (clock_reading env (ticks w2)) = Inr ()"
    and "actor_type user = AT_USER" and "\<not> blank resolution"
  shows "\<exists>q3 w3. resolve_decision env co2 (dr_id q) DO_APPROVE resolution user w2 = (Inr q3, w3) \<and> dr_state q3 = ''RESOLVED'' \<and>
    (\<forall>k \<in> set affected. ws_now k (store_db w1) = Some ''BLOCKED'' \<and> ws_now k (store_db w2) = Some ''BLOCKED'' \<and>
       ws_now k (store_db w3) = ws_now k (store_db w)) \<and>
    (\<forall>k. k \<notin> set affected \<longrightarrow> ws_now k (store_db w3) = ws_now k (store_db w2))"
proof -
  have keys: "keys_ok (store_db w)" using assms(1) by (simp add: runtime_inv_def)
  note c = create_decision_effect [OF assms(2) keys]
  have "runtime_inv (store_db w1)"
    using create_decision_from [of env co p question affected actor run request_id m w] runtime.reach_inv assms(1,2)
    by (auto simp: wr.from_state_def wreach_def rt.reach_def)
  then have inv: "runtime_inv (store_db w2)" unfolding assms(3) by (rule runtime_inv_ops)
  have "dr_ident q2 = dr_ident q"
    using request_stable [OF ext.steps_R [OF run_ops_reach [of w1 env ops]]] c assms(3,4) by fastforce
  then have q2: "dr_blocked_from_states q2 = dr_blocked_from_states q" "dr_project_id q2 = dr_project_id q" "dr_id q2 = dr_id q"
    by (simp_all add: dr_ident_def)
  have inv2: "keys_ok (store_db w2)" "requests_ok (store_db w2)" using inv by (simp_all add: runtime_inv_def)
  have "q2 \<in> set (decision_requests (store_db w2))" using assms(4) by (auto simp: decision_request_def dest: find_SomeD)
  with inv2(2) assms(5) have blocked: "\<forall>b \<in> set (dr_blocked_from_states q). ws_now (fst b) (store_db w2) = Some ''BLOCKED''"
    and dist: "distinct (map fst (dr_blocked_from_states q))" by (auto simp: requests_ok_def q2)
  obtain q3 w3 where r: "resolve_decision env co2 (dr_id q) DO_APPROVE resolution user w2 = (Inr q3, w3)" "dr_state q3 = ''RESOLVED''"
    "\<forall>k. ws_now k (store_db w3) = (case map_of (dr_blocked_from_states q) k of Some s \<Rightarrow> Some s | None \<Rightarrow> ws_now k (store_db w2))"
    using resolve_decision_effect [OF inv2 assms(4,5,6) assms(7) [folded q2] assms(8,9), of DO_APPROVE] by (auto simp: q2)
  have old: "map_of (dr_blocked_from_states q) k = ws_now k (store_db w)" if k: "k \<in> set affected" for k
  proof -
    obtain x where "(k, x) \<in> set (dr_blocked_from_states q)" using c k by force
    with c dist show ?thesis by auto
  qed
  have none: "map_of (dr_blocked_from_states q) k = None" if "k \<notin> set affected" for k
    using c that by (simp add: map_of_eq_None_iff)
  have "ws_now k (store_db w2) = Some ''BLOCKED''" if "k \<in> set affected" for k
    using blocked c that by force
  moreover have "ws_now k (store_db w) \<noteq> None" if "k \<in> set affected" for k
    using c that by force
  ultimately have "\<forall>k \<in> set affected. ws_now k (store_db w1) = Some ''BLOCKED'' \<and> ws_now k (store_db w2) = Some ''BLOCKED'' \<and>
       ws_now k (store_db w3) = ws_now k (store_db w)"
    using r(3) c old by (auto split: option.splits)
  with r none show ?thesis by auto
qed

lemma demo_answerable:
  "case ask (demo_world start_ops) of (Inl e, _) \<Rightarrow> False
   | (Inr q, w) \<Rightarrow> (case decision_request (dr_id q) (store_db w) of None \<Rightarrow> False | Some q2 \<Rightarrow> dr_state q2 = ''OPEN'') \<and>
       fence_ok (co_token (sv_coordinator demo_service)) (clock_reading demo_env (Suc (ticks w))) (store_db w) \<and>
       require demo_user ''governance:resolve-decision'' (dr_project_id q) (clock_reading demo_env (ticks w)) = Inr ()"
  by code_simp

lemma user_ok: "actor_type demo_user = AT_USER" "strip ''yes'' \<noteq> []"
  by code_simp+

theorem decision_roundtrip_witness:
  "\<exists>q w1 q3 w3. ask (demo_world start_ops) = (Inr q, w1) \<and>
     resolve_decision demo_env (sv_coordinator demo_service) (dr_id q) DO_APPROVE ''yes'' demo_user w1 = (Inr q3, w3) \<and>
     ws_now ''w'' (store_db w1) = Some ''BLOCKED'' \<and> ws_now ''w'' (store_db w3) = ws_now ''w'' (store_db (demo_world start_ops))"
proof -
  obtain q w1 q2 where a: "ask (demo_world start_ops) = (Inr q, w1)"
    and q2: "decision_request (dr_id q) (store_db w1) = Some q2" "dr_state q2 = ''OPEN''"
    and f: "fence_ok (co_token (sv_coordinator demo_service)) (clock_reading demo_env (Suc (ticks w1))) (store_db w1)"
    and r: "require demo_user ''governance:resolve-decision'' (dr_project_id q) (clock_reading demo_env (ticks w1)) = Inr ()"
    using demo_answerable by (auto split: prod.splits sum.splits option.splits)
  have "runtime_inv (store_db (demo_world start_ops))" unfolding demo_world_def by (rule runtime_inv_new)
  from decision_roundtrip [OF this a [unfolded ask_def] _ q2 f r, of "[]" "''yes''"] a show ?thesis
    by (auto simp: user_ok)
qed

section \<open>Operational controls\<close>

lemma max_rank_running: "max_rank ss = OC_RUNNING \<longleftrightarrow> (\<forall>s \<in> set ss. s = OC_RUNNING)"
proof (induction ss rule: max_rank.induct)
  case (3 s t ts)
  have "max_rank (s # t # ts) = OC_RUNNING \<longleftrightarrow> s = OC_RUNNING \<and> max_rank (t # ts) = OC_RUNNING"
    by (cases s; cases "max_rank (t # ts)") (simp_all add: Let_def)
  with 3 show ?case by simp
qed simp_all

lemma to_control_running: "to_control_state s = Inr OC_RUNNING \<longleftrightarrow> s = ''RUNNING''"
  by (auto simp: to_control_state_def member_of_def)

lemma controls_running:
  "(\<exists>ss. rmap (\<lambda>c. to_control_state (oc_state c)) cs = Inr ss \<and> max_rank ss = OC_RUNNING) \<longleftrightarrow>
     (\<forall>c \<in> set cs. oc_state c = ''RUNNING'')"
proof -
  have "(\<exists>ss. rmap (\<lambda>c. to_control_state (oc_state c)) cs = Inr ss \<and> (\<forall>s \<in> set ss. s = OC_RUNNING)) \<longleftrightarrow>
      (\<forall>c \<in> set cs. oc_state c = ''RUNNING'')"
  proof (induction cs)
    case (Cons c cs)
    then show ?case by (cases "to_control_state (oc_state c)") (auto simp: rbind_Inr_iff to_control_running [symmetric])
  qed simp
  then show ?thesis by (simp add: max_rank_running)
qed

text \<open>
  The control gate, exactly: dispatch of an Attempt is allowed when, and only when, its Workstream is not BLOCKED and every control
  that is set for the platform, its Project, Workstream, Run and ProjectJob and for the provider is RUNNING.
\<close>

theorem dispatch_gate:
  "assert_dispatch_allowed i provider w = (Inr (), w) \<longleftrightarrow>
     (\<exists>att job run ws. get_attempt i (store_db w) = Some att \<and> get_job (at_project_job_id att) (store_db w) = Some job \<and>
        get_run (jb_run_id job) (store_db w) = Some run \<and> get_workstream (rn_workstream_id run) (store_db w) = Some ws \<and>
        ws_state ws \<noteq> ''BLOCKED'' \<and>
        list_all (\<lambda>(s, k). case operational_control s k (store_db w) of None \<Rightarrow> True | Some c \<Rightarrow> oc_state c = ''RUNNING'')
          (control_keys run job provider))"
proof -
  have m: "(\<forall>c \<in> set (List.map_filter (\<lambda>(s, k). operational_control s k d) ks). oc_state c = ''RUNNING'') \<longleftrightarrow>
      list_all (\<lambda>(s, k). case operational_control s k d of None \<Rightarrow> True | Some c \<Rightarrow> oc_state c = ''RUNNING'') ks" for d ks
    by (induction ks) (auto simp: List.map_filter_simps split: option.splits)
  show ?thesis
    unfolding m [symmetric] controls_running [symmetric]
    by (auto simp: assert_dispatch_allowed_def effective_for_attempt_def run_eff_simps bnd_def ensure_def split: option.splits sum.splits if_splits)
qed

text \<open>
  An emergency stop is sticky: for a scope under EMERGENCY_STOP every request for another state that does not say that
  reconciliation is done is refused, whoever makes it.
\<close>

theorem emergency_sticky:
  assumes "operational_control (control_scope_value scope) i (store_db w) = Some c" and "oc_state c = ''EMERGENCY_STOP''"
    and "st \<noteq> OC_EMERGENCY_STOP"
  shows "refused (set_control env co scope i project st why actor False) w"
proof -
  have scope: "keeps same_db (validate_project_scope s k p)" for s k p
    unfolding validate_project_scope_def by (cases s; simp; intro ro_rules)
  have step: "refused (bnd (query (operational_control (control_scope_value scope) i)) (\<lambda>cur.
      bnd (case cur of None \<Rightarrow> ret OC_RUNNING | Some r \<Rightarrow> lift (to_control_state (oc_state r))) (\<lambda>previous.
      bnd (req (\<not> (previous = OC_EMERGENCY_STOP \<and> st \<noteq> previous \<and> \<not> False)) RuntimeTransitionError) (m cur previous)))) t"
    if "store_db t = store_db w" for m t
    using that assms by (simp add: refused_def run_eff_simps to_control_state_def member_of_def)
  show ?thesis
    unfolding set_control_def Let_def
    by (intro refused_bnd ro_rules scope step) (simp_all add: scope split: option.split)
qed

definition stopped_world :: world where
  "stopped_world = \<lparr>store_db = empty_db\<lparr>operational_controls := [\<lparr>oc_scope_type = ''PLATFORM'', oc_scope_id = ''global'',
     oc_project_id = None, oc_state = ''EMERGENCY_STOP'', oc_reason = ''fire'', oc_generation = 1, oc_actor_id = ''ana'',
     oc_updated_at = 1\<rparr>]\<rparr>, ticks = 0, draws = 0\<rparr>"

theorem emergency_sticky_witness:
  "refused (set_control demo_env (sv_coordinator demo_service) SC_PLATFORM ''global'' None OC_RUNNING ''calm'' demo_user False) stopped_world"
  by (rule emergency_sticky, simp add: stopped_world_def operational_control_def) simp_all

section \<open>Interaction sessions\<close>

definition ss_ident :: "session_row \<Rightarrow> string \<times> string \<times> string \<times> string \<times> string" where
  "ss_ident r = (ss_id r, ss_project_id r, ss_actor_id r, ss_actor_type r, ss_reconnect_token_hash r)"

text \<open>Sessions are never lost or rebound, and a closed one never changes.\<close>

definition sessions_kept :: "db \<Rightarrow> db \<Rightarrow> bool" where
  "sessions_kept d d' \<longleftrightarrow> (\<forall>i r. interaction_session i d = Some r \<longrightarrow>
     (\<exists>r'. interaction_session i d' = Some r' \<and> ss_ident r' = ss_ident r \<and> (ss_state r = ''CLOSED'' \<longrightarrow> r' = r)))"

lemma sessions_same: "interaction_sessions d' = interaction_sessions d \<Longrightarrow> sessions_kept d d'"
  by (simp add: sessions_kept_def interaction_session_def)

lemma sessions_update:
  assumes "x \<noteq> ''CLOSED''" and "interaction_sessions d' = update_where (\<lambda>r. ss_id r = i \<and> ss_state r = x)
      (\<lambda>r. r\<lparr>ss_state := y, ss_last_seen_revision := n, ss_updated_at := now\<rparr>) (interaction_sessions d)"
  shows "sessions_kept d d'"
  using assms unfolding sessions_kept_def interaction_session_def
  by (simp add: find_update_where ss_ident_def)

lemma session_write:
  assumes "write_eff w d = (Inr u, d')" and "client_ok w d"
  shows "sessions_kept d d'"
proof (cases w)
  case (W_Session r)
  with assms show ?thesis
    by (auto simp: sessions_kept_def interaction_session_def find_append elim!: eff_elims)
next
  case (W_Session_Update i x y n now)
  with assms(2) have "x \<noteq> ''CLOSED''" by (auto simp: session_moves_def)
  with W_Session_Update assms(1) show ?thesis by (auto elim!: eff_elims intro: sessions_update)
next
  case (W_Request v now a)
  from request_result [OF assms(1) [unfolded W_Request]] obtain d1
    where "only_workstreams d d1" "d' = d1\<lparr>decision_requests := decision_requests d @ [v]\<rparr>" .
  then show ?thesis by (intro sessions_same) (simp add: only_workstreams_tables)
next
  case (W_Resolve i x y b now a)
  from resolve_result [OF assms(1) [unfolded W_Resolve]] obtain d1
    where "only_workstreams d d1" "d' = d1\<lparr>decision_requests := map (resolved i x y now a) (decision_requests d)\<rparr>" .
  then show ?thesis by (intro sessions_same) (simp add: only_workstreams_tables)
next
  case (W_Row nr)
  with assms(1) show ?thesis by (cases nr) (auto simp: insert_row_def elim!: eff_elims intro: sessions_same)
qed (use assms(1) in \<open>auto simp: log_audit_def insert_envelope_def insert_acceptance_def set_job_state_def insert_dispatch_def insert_evidence_def
   change_rows_def Let_def upsert_control_def elim!: eff_elims intro!: sessions_same\<close>)

interpretation sess: step_preorder sessions_kept runtime_step
proof unfold_locales
  show "sessions_kept d d'" if "runtime_step d d'" for d d'
    using that by (auto elim!: step_byE intro: session_write)
  show "sessions_kept d d'" if "sessions_kept d e" "sessions_kept e d'" for d e d'
    unfolding sessions_kept_def
  proof (intro allI impI)
    fix i r assume r: "interaction_session i d = Some r"
    with that(1) obtain r1 where 1: "interaction_session i e = Some r1" "ss_ident r1 = ss_ident r" "ss_state r = ''CLOSED'' \<longrightarrow> r1 = r"
      by (auto simp: sessions_kept_def)
    with that(2) obtain r2 where "interaction_session i d' = Some r2" "ss_ident r2 = ss_ident r1" "ss_state r1 = ''CLOSED'' \<longrightarrow> r2 = r1"
      unfolding sessions_kept_def by blast
    with 1 show "\<exists>r'. interaction_session i d' = Some r' \<and> ss_ident r' = ss_ident r \<and> (ss_state r = ''CLOSED'' \<longrightarrow> r' = r)" by auto
  qed
qed (simp add: sessions_kept_def)

text \<open>What a successful reconnection checked.\<close>

lemma reconnect_checked:
  assumes "reconnect env co i tok a w = (Inr s, w')"
  shows "\<exists>r. interaction_session i (store_db w) = Some r \<and> ss_state r = ''DISCONNECTED'' \<and> ss_actor_id r = actor_id a \<and>
    ss_actor_type r = actor_type_value (actor_type a) \<and> ss_reconnect_token_hash r = sha_text env tok"
  using assms unfolding reconnect_def
  by (elim bnd_InrE req_InrE fetch_InrE)
    (auto simp: session_from_row_def rbind_Inr_iff to_interaction_state_def to_actor_type_def dest!: session_require_Inr member_of_Inr)

lemma opened_session:
  assumes "open_session env co cur root a ws r i w = (Inr (s, tok), w')"
  shows "\<exists>x. interaction_session (sx_session_id s) (store_db w') = Some x \<and> ss_actor_id x = actor_id a \<and>
    ss_actor_type x = actor_type_value (actor_type a) \<and> ss_reconnect_token_hash x = sha_text env tok"
proof -
  obtain x d w1 now u where c: "in_store (create_interaction_session x (co_token co) now (Principal a)) d = (Inr u, w1)"
    and s: "session_require (ss_id x) w1 = (Inr s, w')"
    and x: "ss_actor_id x = actor_id a" "ss_actor_type x = actor_type_value (actor_type a)" "ss_reconnect_token_hash x = sha_text env tok"
    using assms unfolding open_session_def
    by (elim bnd_InrE ret_InrE) (rule that, assumption, simp_all)
  have "interaction_session (ss_id x) (store_db w1) = Some x"
    using c by (elim in_store_InrE) (auto simp: create_interaction_session_def validate_actor_def Let_def assert_fence_def
        log_audit_def interaction_session_def find_append elim!: eff_elims)
  moreover from this have "sx_session_id s = ss_id x" "w' = w1"
    using session_require_Inr [OF s] by (auto simp: session_from_row_def rbind_Inr_iff)
  ultimately show ?thesis using x by simp
qed

lemma actor_type_value_inj: "actor_type_value x = actor_type_value y \<longleftrightarrow> x = y"
  by (cases x; cases y) simp_all

text \<open>
  A session stays with who opened it: after whatever operations of the service, a session is reconnected only by an actor of the
  identity and kind that opened it, who presents a token with the same hash as the one handed out.
\<close>

theorem session_bound_to_actor:
  assumes "open_session env co current root a ws r i w = (Inr (s, tok), w1)"
    and "reconnect env co2 (sx_session_id s) tok' b (run_ops env ops w1) = (Inr s', w3)"
  shows "actor_id b = actor_id a \<and> actor_type b = actor_type a \<and> sha_text env tok' = sha_text env tok"
proof -
  obtain x where x: "interaction_session (sx_session_id s) (store_db w1) = Some x" "ss_actor_id x = actor_id a"
    "ss_actor_type x = actor_type_value (actor_type a)" "ss_reconnect_token_hash x = sha_text env tok"
    using opened_session [OF assms(1)] by blast
  obtain y where y: "interaction_session (sx_session_id s) (store_db (run_ops env ops w1)) = Some y" "ss_ident y = ss_ident x"
    using sess.reach_R [OF run_ops_reach [of w1 env ops]] x(1) unfolding sessions_kept_def by blast
  with reconnect_checked [OF assms(2)] x(2-4) show ?thesis
    by (auto simp: ss_ident_def actor_type_value_inj)
qed

definition demo_client :: actor_principal where
  "demo_client = \<lparr>actor_id = ''cli'', actor_type = AT_INTERACTION_CLIENT, authenticated = True, authentication_method = ''os'',
     direct_permissions = [''*''], delegation = None\<rparr>"

definition connect :: "(world, session \<times> string) eff" where
  "connect = open_session demo_env (sv_coordinator demo_service)
     (\<lambda>_. Inr \<lparr>pv_project_id = ''P'', pv_number = 1, pv_fingerprint = ''f''\<rparr>) ''root'' demo_client None None (Some ''s'')"

definition leave_ops :: "(service \<times> service_op) list" where
  "leave_ops = [(demo_service, Op_Disconnect ''s'' demo_client)]"

lemma demo_reconnected:
  "case connect (demo_world [Op_Start ''svc'' 60]) of (Inl e, _) \<Rightarrow> False
   | (Inr (s, tok), w) \<Rightarrow> (case reconnect demo_env (sv_coordinator demo_service) (sx_session_id s) ''tok'' demo_client
       (run_ops demo_env leave_ops w) of (Inl e, _) \<Rightarrow> False | (Inr s', _) \<Rightarrow> sx_state s' = IS_ACTIVE)"
  by code_simp

theorem session_bound_to_actor_witness:
  "\<exists>s tok w1 s' w2. connect (demo_world [Op_Start ''svc'' 60]) = (Inr (s, tok), w1) \<and>
     reconnect demo_env (sv_coordinator demo_service) (sx_session_id s) ''tok'' demo_client (run_ops demo_env leave_ops w1) = (Inr s', w2) \<and>
     sha_text demo_env ''tok'' = sha_text demo_env tok"
proof -
  obtain s tok w1 where o: "connect (demo_world [Op_Start ''svc'' 60]) = (Inr (s, tok), w1)"
    using demo_reconnected by (cases "connect (demo_world [Op_Start ''svc'' 60])") (auto split: sum.split_asm)
  obtain s' w2 where r: "reconnect demo_env (sv_coordinator demo_service) (sx_session_id s) ''tok'' demo_client (run_ops demo_env leave_ops w1) = (Inr s', w2)"
    using demo_reconnected [unfolded o]
    by (cases "reconnect demo_env (sv_coordinator demo_service) (sx_session_id s) ''tok'' demo_client (run_ops demo_env leave_ops w1)")
      (auto split: sum.split_asm)
  from session_bound_to_actor [OF o [unfolded connect_def] r] o r show ?thesis by blast
qed

text \<open>
  Closing a session is final: after whatever operations of the service the row of a closed session is unchanged, and the session can
  neither be written under nor reconnected.
\<close>

theorem closed_session_final:
  assumes "interaction_session i (store_db w) = Some r" and "ss_state r = ''CLOSED''"
  shows "interaction_session i (store_db (run_ops env ops w)) = Some r \<and>
    refused (require_active env i a) (run_ops env ops w) \<and> refused (reconnect env co i tok a) (run_ops env ops w)"
proof -
  have r: "interaction_session i (store_db (run_ops env ops w)) = Some r"
    using sess.reach_R [OF run_ops_reach [of w env ops]] assms unfolding sessions_kept_def by blast
  have req: "keeps same_db (session_require i)"
    unfolding session_require_def by (intro ro_rules)
  have st: "sx_state s = IS_CLOSED" if "session_require i (run_ops env ops w) = (Inr s, w')" for s w'
    using session_require_Inr [OF that] r assms(2)
    by (auto simp: session_from_row_def rbind_Inr_iff to_interaction_state_def member_of_def split: option.splits if_splits)
  have closed: "refused (bnd (session_require i) (\<lambda>s. bnd (req (sx_state s = x) e) (m s))) (run_ops env ops w)" if "x \<noteq> IS_CLOSED" for x e m
    by (rule refused_bnd [OF req]) (use st that in \<open>auto simp: refused_def\<close>)
  show ?thesis unfolding require_active_def reconnect_def by (intro conjI r closed) simp_all
qed

definition closed_row :: session_row where
  "closed_row = \<lparr>ss_id = ''s'', ss_project_id = ''P'', ss_workstream_id = None, ss_run_id = None, ss_actor_id = ''cli'',
     ss_actor_type = ''INTERACTION_CLIENT'', ss_delegation_id = None, ss_delegated_actions = [], ss_opened_revision = 1,
     ss_last_seen_revision = 1, ss_state = ''CLOSED'', ss_reconnect_token_hash = ''tok'', ss_created_at = 1, ss_updated_at = 2\<rparr>"

theorem closed_session_final_witness:
  "refused (reconnect demo_env (sv_coordinator demo_service) ''s'' ''tok'' demo_client)
     (run_ops demo_env leave_ops \<lparr>store_db = demo_db\<lparr>interaction_sessions := [closed_row]\<rparr>, ticks = 0, draws = 0\<rparr>)"
proof -
  have "interaction_session ''s'' (store_db \<lparr>store_db = demo_db\<lparr>interaction_sessions := [closed_row]\<rparr>, ticks = 0, draws = 0\<rparr>) = Some closed_row"
    "ss_state closed_row = ''CLOSED''"
    by (simp_all add: interaction_session_def closed_row_def)
  from closed_session_final [OF this] show ?thesis by blast
qed

end
