(* ===== verification/Workspace_Properties.thy ===== *)
theory Workspace_Properties
  imports Runtime_Properties World_Laws
begin

text \<open>
  Properties of workspaces and promotion, where the runtime database and the Project authority meet.
\<close>

section \<open>Promotion in two parts\<close>

lemma on_runtime_InrE [eff_elims]:
  "on_runtime m h = (Inr x, h') \<Longrightarrow> (\<And>w. m (ho_runtime h) = (Inr x, w) \<Longrightarrow> h' = h\<lparr>ho_runtime := w\<rparr> \<Longrightarrow> P) \<Longrightarrow> P"
  by (auto simp: on_runtime_def split: prod.splits)

lemma update_same: "map_of xs k = Some v \<Longrightarrow> AList.update k v xs = xs"
  by (induction xs) (auto split: if_splits)

lemma on_project_run:
  assumes "map_of (ho_projects h) root = Some s" and "m (he_project env root) s = (r, s')"
  shows "on_project env root m h = (r, h\<lparr>ho_projects := AList.update root s' (ho_projects h)\<rparr>)"
  using assms by (simp add: on_project_def)

text \<open>The guards of \<open>promote\<close>, which write nothing, and the rest.\<close>

definition promotable :: "host_env \<Rightarrow> string \<Rightarrow> acceptance_decision \<Rightarrow> actor_like \<Rightarrow> (host, workspace_row \<times> string) eff" where
  "promotable env workspace_id decision actor =
     bnd (on_runtime (active_workspace workspace_id)) (\<lambda>ws.
     bnd (on_runtime (fetch RuntimeTransitionError (get_attempt (wk_attempt_id ws)))) (\<lambda>attempt.
     bnd (req (\<not> (dec_project_job_id decision \<noteq> at_project_job_id attempt \<or> outcome decision \<noteq> ACCEPT)) RuntimeTransitionError) (\<lambda>_.
     bnd (on_runtime (fetch RuntimeAuthorizationError (acceptance (at_project_job_id attempt)))) (\<lambda>stored_row.
     bnd (req (\<not> ac_decision_id stored_row \<noteq> decision_id decision) RuntimeAuthorizationError) (\<lambda>_.
     bnd (on_runtime (fetch RuntimeTransitionError (get_job (at_project_job_id attempt)))) (\<lambda>job.
     bnd (req (\<not> jb_state job \<noteq> job_state_value JOB_ACCEPTED) RuntimeTransitionError) (\<lambda>_.
     bnd (on_runtime (run_for_workspace ws)) (\<lambda>run.
     bnd (on_runtime (fetch RuntimeAuthorizationError (envelope (rn_envelope_id run) (rn_envelope_version run)))) (\<lambda>p.
     bnd (req (dec_envelope_fingerprint decision \<in> {None, Some (pl_fingerprint p)}) RuntimeAuthorizationError) (\<lambda>_.
     bnd (on_runtime (clock (he_runtime env))) (\<lambda>now1.
     bnd (lift (require (as_principal actor) ''project:promote'' (rn_project_id run) now1)) (\<lambda>_.
     bnd (on_runtime (query (dispatch_authorization (wk_attempt_id ws)))) (\<lambda>dispatch.
     bnd (req (case dispatch of None \<Rightarrow> True | Some dsp \<Rightarrow> dsp_actor_id dsp \<noteq> actor_id (as_principal actor)) RuntimeAuthorizationError) (\<lambda>_.
     ret (ws, at_project_job_id attempt)))))))))))))))"

definition promote_revision :: "host_env \<Rightarrow> workspace_manager \<Rightarrow> string \<Rightarrow> project_model \<Rightarrow> actor_like \<Rightarrow> workspace_row \<Rightarrow> string \<Rightarrow>
    (host, int) eff" where
  "promote_revision env wm workspace_id m actor ws job_id =
     (let principal = as_principal actor; root = he_resolve env (wk_project_root ws) in
     bnd (on_project env root current) (\<lambda>cur.
     bnd (on_runtime (clock (he_runtime env))) (\<lambda>now.
     let baseline = wk_baseline_revision ws in
     bnd (if sr_number cur \<noteq> baseline
          then
            bnd (on_runtime (in_store (set_workspace_state workspace_id ''ACTIVE'' ''PROMOTION_CONFLICT'' (wm_token wm) now (Principal principal)))) (\<lambda>_.
            bnd (on_runtime (in_store (transition_one ''project_jobs'' ''project_job_id'' job_id (job_state_value JOB_ACCEPTED)
              (job_state_value JOB_PROMOTION_CONFLICT) (wm_token wm) now (Principal principal) []))) (\<lambda>_.
            raise PromotionConflictError))
          else ret ()) (\<lambda>_.
     bnd (on_project env root (\<lambda>pe. propose pe m baseline (actor_id principal) ''EXECUTION_WORKSPACE_PROMOTION'' None None)) (\<lambda>proposal.
     bnd (on_project env root (\<lambda>pe. accept pe (sp_id proposal) baseline (actor_id principal) None)) (\<lambda>revision.
     bnd (on_runtime (in_store (set_workspace_state workspace_id ''ACTIVE'' ''PROMOTED'' (wm_token wm) now (Principal principal)))) (\<lambda>_.
     bnd (on_runtime (in_store (record_event ''WORKSPACE_PROMOTED'' ''workspaces'' workspace_id
       [(''project_job_id'', JStr job_id), (''baseline_revision'', JInt baseline), (''promoted_revision'', JInt (sr_number revision)),
        (''proposal_id'', JStr (sp_id proposal))] (wm_token wm) now (Principal principal) None))) (\<lambda>_.
     ret (sr_number revision)))))))))"

lemma promote_split:
  "promote env wm i m dec actor = bnd (promotable env i dec actor) (\<lambda>(ws, job). promote_revision env wm i m actor ws job)"
  by (simp only: promote_def promotable_def promote_revision_def bnd_assoc bnd_ret Let_def prod.case)

text \<open>Everything but the clock stays as it is.\<close>

definition unmoved :: "host \<Rightarrow> host \<Rightarrow> bool" where
  "unmoved h h' \<longleftrightarrow> (\<exists>n. h' = h\<lparr>ho_runtime := (ho_runtime h)\<lparr>ticks := n\<rparr>\<rparr>)"

lemma unmoved_refl: "unmoved h h"
  unfolding unmoved_def by (rule exI [of _ "ticks (ho_runtime h)"]) simp

interpretation um: state_preorder unmoved
  by unfold_locales (auto simp: unmoved_refl, auto simp: unmoved_def)

lemma um_runtime: "keeps unmoved (on_runtime (fetch e f))" "keeps unmoved (on_runtime (query g))" "keeps unmoved (on_runtime (clock env))"
  "keeps unmoved (on_runtime (active_workspace i))" "keeps unmoved (on_runtime (run_for_workspace ws))"
proof -
  show "keeps unmoved (on_runtime (clock env))" by (auto simp: keeps_def unmoved_def on_runtime_def clock_def)
  have pure: "keeps unmoved (on_runtime m)" if "\<And>w. snd (m w) = w" for m :: "(world, 'x) eff"
    using that unmoved_refl by (simp add: keeps_def on_runtime_def split: prod.splits) (metis host.surjective host.update_convs(1) snd_conv)
  show "keeps unmoved (on_runtime (fetch e f))" "keeps unmoved (on_runtime (query g))"
    by (rule pure, simp add: run_eff_simps split: option.splits)+
  show "keeps unmoved (on_runtime (active_workspace i))" "keeps unmoved (on_runtime (run_for_workspace ws))"
    by (rule pure, simp add: active_workspace_def run_for_workspace_def bnd_def run_eff_simps split: option.splits sum.splits prod.splits)+
qed

lemma promotable_keeps: "keeps unmoved (promotable env i dec actor)"
  unfolding promotable_def by (intro um.keeps_basic um_runtime)

lemma promotable_Inr:
  assumes "promotable env i dec actor h = (Inr (ws, job), h')"
  defines "d \<equiv> store_db (ho_runtime h)"
  shows "get_workspace i d = Some ws \<and> wk_state ws = ''ACTIVE'' \<and> outcome dec = ACCEPT \<and>
    (\<exists>att j c. get_attempt (wk_attempt_id ws) d = Some att \<and> at_project_job_id att = job \<and> get_job job d = Some j \<and> jb_state j = ''ACCEPTED'' \<and>
       acceptance job d = Some c \<and> ac_decision_id c = decision_id dec) \<and>
    (\<forall>x. dispatch_authorization (wk_attempt_id ws) d = Some x \<longrightarrow> dsp_actor_id x \<noteq> actor_id (as_principal actor))"
  using assms(1) unfolding promotable_def active_workspace_def run_for_workspace_def
  by (elim bnd_InrE req_InrE on_runtime_InrE fetch_InrE query_InrE ret_InrE clock_InrE lift_InrE) (simp add: d_def split: option.splits)

section \<open>The writes of promotion\<close>

lemma set_workspace_state_Inr:
  assumes "set_workspace_state i x y t now a d = (Inr u, d')"
  obtains au where "d' = d\<lparr>workspaces := update_where (\<lambda>r. wk_id r = i \<and> wk_state r = x) (\<lambda>r. r\<lparr>wk_state := y\<rparr>) (workspaces d), runtime_audit := au\<rparr>"
  using assms
  by (auto simp: set_workspace_state_def validate_actor_def Let_def assert_fence_def log_audit_def elim!: eff_elims)

lemma record_event_Inr:
  assumes "record_event ev ty i p t now a c d = (Inr u, d')"
  obtains au where "d' = d\<lparr>runtime_audit := au\<rparr>"
  using assms by (auto simp: record_event_def validate_actor_def Let_def assert_fence_def log_audit_def elim!: eff_elims)

lemma get_workspace_moved:
  assumes "get_workspace i d = Some ws" and "wk_state ws = x"
  shows "find (\<lambda>r. wk_id r = i) (update_where (\<lambda>r. wk_id r = i \<and> wk_state r = x) (\<lambda>r. r\<lparr>wk_state := y\<rparr>) (workspaces d)) = Some (ws\<lparr>wk_state := y\<rparr>)"
proof -
  have "find (\<lambda>r. wk_id r = i) (update_where (\<lambda>r. wk_id r = i \<and> wk_state r = x) (\<lambda>r. r\<lparr>wk_state := y\<rparr>) (workspaces d)) =
      map_option (\<lambda>r. if wk_id r = i \<and> wk_state r = x then r\<lparr>wk_state := y\<rparr> else r) (find (\<lambda>r. wk_id r = i) (workspaces d))"
    unfolding update_where_def by (rule find_map_key) simp
  with assms find_SomeD [of "\<lambda>r. wk_id r = i" "workspaces d" ws] show ?thesis by (simp add: get_workspace_def)
qed

lemma on_project_InrE:
  assumes "on_project env root m h = (Inr x, h')"
  obtains s s' where "map_of (ho_projects h) root = Some s" and "m (he_project env root) s = (Inr x, s')"
    and "h' = h\<lparr>ho_projects := AList.update root s' (ho_projects h)\<rparr>"
  using assms by (auto simp: on_project_def split: option.splits prod.splits)

text \<open>What the Project authority does for a promotion that is not stale\<close>

lemma promotion_accepted:
  assumes env: "plain_layout pe" and c: "chain pe s (rs @ [cur])" and lim: "Suc (Suc (length rs)) < revision_limit" and m: "project_model_ok m"
    and p: "propose pe m b actor src None None s = (Inr p, s1)" and a: "accept pe (sp_id p) b actor None s1 = (Inr r, s2)"
  shows "chain pe s2 (rs @ [cur, r])" and "sr_model r = m" and "sr_actor r = actor" and "sr_number r = sr_number cur + 1"
proof -
  note pr = propose_Inr [OF env c p]
  have c1: "chain pe s1 (rs @ [cur])" using pr(1) c by (simp add: undecided_def)
  note ac = accept_Inr [OF env c1 lim a]
  show "chain pe s2 (rs @ [cur, r])" using ac(1) by simp
  show "sr_model r = m" using ac(4) [OF pr(2) [OF m]] pr(3) by simp
  show "sr_actor r = actor" "sr_number r = sr_number cur + 1" by (rule ac)+
qed

text \<open>The two branches of promotion\<close>

definition promote_refuse :: "workspace_manager \<Rightarrow> string \<Rightarrow> actor_principal \<Rightarrow> string \<Rightarrow> int \<Rightarrow> (host, unit) eff" where
  "promote_refuse wm workspace_id pr job_id now =
     bnd (on_runtime (in_store (set_workspace_state workspace_id ''ACTIVE'' ''PROMOTION_CONFLICT'' (wm_token wm) now (Principal pr)))) (\<lambda>_.
     bnd (on_runtime (in_store (transition_one ''project_jobs'' ''project_job_id'' job_id (job_state_value JOB_ACCEPTED)
       (job_state_value JOB_PROMOTION_CONFLICT) (wm_token wm) now (Principal pr) []))) (\<lambda>_.
     raise PromotionConflictError))"

definition promote_publish :: "host_env \<Rightarrow> workspace_manager \<Rightarrow> string \<Rightarrow> project_model \<Rightarrow> actor_principal \<Rightarrow> string list \<Rightarrow> int \<Rightarrow> string \<Rightarrow> int \<Rightarrow>
    (host, int) eff" where
  "promote_publish env wm workspace_id m pr root baseline job_id now =
     bnd (on_project env root (\<lambda>pe. propose pe m baseline (actor_id pr) ''EXECUTION_WORKSPACE_PROMOTION'' None None)) (\<lambda>proposal.
     bnd (on_project env root (\<lambda>pe. accept pe (sp_id proposal) baseline (actor_id pr) None)) (\<lambda>revision.
     bnd (on_runtime (in_store (set_workspace_state workspace_id ''ACTIVE'' ''PROMOTED'' (wm_token wm) now (Principal pr)))) (\<lambda>_.
     bnd (on_runtime (in_store (record_event ''WORKSPACE_PROMOTED'' ''workspaces'' workspace_id
       [(''project_job_id'', JStr job_id), (''baseline_revision'', JInt baseline), (''promoted_revision'', JInt (sr_number revision)),
        (''proposal_id'', JStr (sp_id proposal))] (wm_token wm) now (Principal pr) None))) (\<lambda>_.
     ret (sr_number revision)))))"

lemma bnd_raise: "bnd (raise e) f = raise e"
  by (simp add: bnd_def fun_eq_iff)

lemma promote_revision_run:
  assumes s: "map_of (ho_projects h) (he_resolve env (wk_project_root ws)) = Some s"
    and c: "chain (he_project env (he_resolve env (wk_project_root ws))) s (rs @ [cur])"
  defines "now \<equiv> clock_reading (he_runtime env) (ticks (ho_runtime h))"
    and "h1 \<equiv> h\<lparr>ho_runtime := (ho_runtime h)\<lparr>ticks := Suc (ticks (ho_runtime h))\<rparr>\<rparr>"
  shows "promote_revision env wm i m actor ws job h =
    (if sr_number cur \<noteq> wk_baseline_revision ws then bnd (promote_refuse wm i (as_principal actor) job now) (\<lambda>_. raise PromotionConflictError) h1
     else promote_publish env wm i m (as_principal actor) (he_resolve env (wk_project_root ws)) (wk_baseline_revision ws) job now h1)"
proof -
  let ?root = "he_resolve env (wk_project_root ws)"
  have cur: "on_project env ?root current h = (Inr cur, h)"
    using on_project_run [OF s, of current env "Inr cur" s] current_run [OF c] update_same [OF s] by simp
  have clk: "on_runtime (clock (he_runtime env)) h = (Inr now, h1)"
    by (simp add: on_runtime_def clock_def now_def h1_def)
  show ?thesis
    unfolding promote_revision_def Let_def bnd_run_Inr [where m = "on_project env ?root current", OF cur]
      bnd_run_Inr [where m = "on_runtime (clock (he_runtime env))", OF clk]
    by (simp add: promote_refuse_def promote_publish_def bnd_assoc bnd_raise)
qed

text \<open>Operations of the runtime leave Projects and directories alone.\<close>

definition only_runtime :: "host \<Rightarrow> host \<Rightarrow> bool" where
  "only_runtime h h' \<longleftrightarrow> ho_projects h' = ho_projects h \<and> ho_trees h' = ho_trees h"

interpretation orn: state_preorder only_runtime
  by unfold_locales (simp_all add: only_runtime_def)

lemma only_runtime_on: "keeps only_runtime (on_runtime m)"
  by (simp add: keeps_def only_runtime_def on_runtime_def split: prod.splits)

lemma promote_refuse_outcome:
  "\<exists>e h'. (bnd (promote_refuse wm i a job now) (\<lambda>_. raise PromotionConflictError) :: (host, int) eff) h = (Inl e, h') \<and> only_runtime h h'"
proof -
  let ?m = "bnd (promote_refuse wm i a job now) (\<lambda>_. raise PromotionConflictError) :: (host, int) eff"
  obtain r h' where run: "?m h = (r, h')" by (cases "?m h")
  have "keeps only_runtime ?m"
    unfolding promote_refuse_def by (intro orn.keeps_basic only_runtime_on)
  then have "only_runtime h h'" using run by (metis keeps_def snd_conv)
  moreover have "r \<noteq> Inr x" for x using run by (auto elim!: bnd_InrE simp: raise_def)
  ultimately show ?thesis using run by (cases r) auto
qed

lemma promote_publishE:
  assumes "promote_publish env wm i m a root b job now h = (Inr n, h')"
  obtains p h1 r h2 u h3 u' ev where
    "on_project env root (\<lambda>pe. propose pe m b (actor_id a) ''EXECUTION_WORKSPACE_PROMOTION'' None None) h = (Inr p, h1)"
    "on_project env root (\<lambda>pe. accept pe (sp_id p) b (actor_id a) None) h1 = (Inr r, h2)"
    "on_runtime (in_store (set_workspace_state i ''ACTIVE'' ''PROMOTED'' (wm_token wm) now (Principal a))) h2 = (Inr u, h3)"
    "on_runtime (in_store (record_event ''WORKSPACE_PROMOTED'' ''workspaces'' i ev (wm_token wm) now (Principal a) None)) h3 = (Inr u', h')"
    "n = sr_number r"
  using assms unfolding promote_publish_def by (elim bnd_InrE ret_InrE) (rule that, assumption+, simp_all)

lemma promote_publish_Inr:
  assumes run: "promote_publish env wm i m a root b job now h = (Inr n, h')"
    and s: "map_of (ho_projects h) root = Some s" and pe: "plain_layout (he_project env root)"
    and c: "chain (he_project env root) s (rs @ [cur])"
    and lim: "Suc (Suc (length rs)) < revision_limit" and m: "project_model_ok m"
  obtains s' r au where "n = sr_number cur + 1"
    and "map_of (ho_projects h') = (map_of (ho_projects h))(root \<mapsto> s')" and "chain (he_project env root) s' (rs @ [cur, r])" and "sr_model r = m"
    and "sr_actor r = actor_id a"
    and "store_db (ho_runtime h') = (store_db (ho_runtime h))\<lparr>workspaces := update_where (\<lambda>r. wk_id r = i \<and> wk_state r = ''ACTIVE'')
      (\<lambda>r. r\<lparr>wk_state := ''PROMOTED''\<rparr>) (workspaces (store_db (ho_runtime h))), runtime_audit := au\<rparr>"
proof -
  let ?pe = "he_project env root" and ?d = "store_db (ho_runtime h)"
  obtain p h1 r h2 u h3 u' ev where
    1: "on_project env root (\<lambda>pe. propose pe m b (actor_id a) ''EXECUTION_WORKSPACE_PROMOTION'' None None) h = (Inr p, h1)" and
    2: "on_project env root (\<lambda>pe. accept pe (sp_id p) b (actor_id a) None) h1 = (Inr r, h2)" and
    3: "on_runtime (in_store (set_workspace_state i ''ACTIVE'' ''PROMOTED'' (wm_token wm) now (Principal a))) h2 = (Inr u, h3)" and
    4: "on_runtime (in_store (record_event ''WORKSPACE_PROMOTED'' ''workspaces'' i ev (wm_token wm) now (Principal a) None)) h3 = (Inr u', h')" and
    n: "n = sr_number r"
    by (rule promote_publishE [OF run])
  obtain s1 where p: "propose ?pe m b (actor_id a) ''EXECUTION_WORKSPACE_PROMOTION'' None None s = (Inr p, s1)"
    and h1: "h1 = h\<lparr>ho_projects := AList.update root s1 (ho_projects h)\<rparr>"
    using 1 s by (elim on_project_InrE) simp
  obtain s2 where r: "accept ?pe (sp_id p) b (actor_id a) None s1 = (Inr r, s2)"
    and h2: "h2 = h1\<lparr>ho_projects := AList.update root s2 (ho_projects h1)\<rparr>"
    using 2 h1 by (elim on_project_InrE) (simp add: AList.update_conv')
  obtain d where d: "set_workspace_state i ''ACTIVE'' ''PROMOTED'' (wm_token wm) now (Principal a) ?d = (Inr u, d)"
    and h3: "h3 = h2\<lparr>ho_runtime := (ho_runtime h)\<lparr>store_db := d\<rparr>\<rparr>"
    using 3 h1 h2 by (elim on_runtime_InrE in_store_InrE) simp
  obtain d' where d': "record_event ''WORKSPACE_PROMOTED'' ''workspaces'' i ev (wm_token wm) now (Principal a) None d = (Inr u', d')"
    and h': "h' = h3\<lparr>ho_runtime := (ho_runtime h)\<lparr>store_db := d'\<rparr>\<rparr>"
    using 4 h3 by (elim on_runtime_InrE in_store_InrE) simp
  note acc = promotion_accepted [OF pe c lim m p r]
  obtain au1 where e1: "d = ?d\<lparr>workspaces := update_where (\<lambda>r. wk_id r = i \<and> wk_state r = ''ACTIVE'')
      (\<lambda>r. r\<lparr>wk_state := ''PROMOTED''\<rparr>) (workspaces ?d), runtime_audit := au1\<rparr>"
    by (rule set_workspace_state_Inr [OF d])
  obtain au where e2: "d' = d\<lparr>runtime_audit := au\<rparr>" by (rule record_event_Inr [OF d'])
  show ?thesis
    by (rule that [of s2 r au]) (simp_all add: acc n h' h3 h2 h1 e2 e1 AList.update_conv')
qed

section \<open>A promotion that succeeds\<close>

text \<open>The demonstration history with a workspace for its Attempt, on a host with the small Project.\<close>

definition demo_ws :: workspace_row where
  "demo_ws = \<lparr>wk_id = ''ws1'', wk_attempt_id = ''a'', wk_project_root = ''/p'', wk_workspace_root = ''/ws/ws1'', wk_baseline_revision = 1,
     wk_state = ''ACTIVE'', wk_created_at = 50\<rparr>"

definition demo_db_ws :: db where
  "demo_db_ws = (store_db (demo_world (start_ops @ accept_ops)))\<lparr>workspaces := [demo_ws]\<rparr>"

definition demo_host :: "(string list \<times> project_state) list \<Rightarrow> host" where
  "demo_host ps = \<lparr>ho_runtime = \<lparr>store_db = demo_db_ws, ticks = 0, draws = 0\<rparr>, ho_projects = ps, ho_trees = [], ho_runs = 0\<rparr>"

definition demo_decision :: acceptance_decision where
  "demo_decision = \<lparr>decision_id = concat (map ac_decision_id (acceptance_decisions demo_db_ws)), dec_project_job_id = ''j'', outcome = ACCEPT,
     evidence_valid = True, dec_actor_id = ''ana'', reason = ''ok'', decided_at = 50, evidence_ids = [''e1''], dec_envelope_fingerprint = Some ''f''\<rparr>"

lemma demo_promotable:
  "case promotable demo_host_env ''ws1'' demo_decision (Principal demo_user) (demo_host ps) of
     (Inl e, _) \<Rightarrow> False | (Inr (ws, job), h) \<Rightarrow> ws = demo_ws \<and> job = ''j''"
  by code_simp

lemma demo_marked:
  "case set_workspace_state ''ws1'' ''ACTIVE'' ''PROMOTED'' (sv_acceptance_token demo_service) 50 (Principal demo_user) demo_db_ws of
     (Inl e, _) \<Rightarrow> False
   | (Inr _, d) \<Rightarrow> (case record_event ''WORKSPACE_PROMOTED'' ''workspaces'' ''ws1'' ev (sv_acceptance_token demo_service) 50 (Principal demo_user) None d of
       (Inl e, _) \<Rightarrow> False | (Inr _, _) \<Rightarrow> True)"
  by code_simp

lemma demo_chain_zero: "chain demo_penv (demo_project ''zero'') ([] @ [demo_revision])"
  by (simp add: demo_chain)

lemma demo_published_twice:
  obtains p s1 r s2 where "propose demo_penv (named_model ''one'') 1 ''ana'' ''EXECUTION_WORKSPACE_PROMOTION'' None None (demo_project ''zero'') = (Inr p, s1)"
    and "accept demo_penv (sp_id p) 1 ''ana'' None s1 = (Inr r, s2)"
proof -
  let ?s = "demo_project ''zero''"
  have words: "\<not> blank ''ana''" "\<not> blank ''EXECUTION_WORKSPACE_PROMOTION''" by code_simp+
  have uuid: "pe_uuid demo_penv (pj_draws ?s) = ''7f''" by (simp add: demo_penv_def)
  have chars: "list_all proposal_char (pe_uuid demo_penv (pj_draws ?s))" unfolding uuid by code_simp
  have new: "map_of (pj_files ?s) (proposal_directory @ ''/proposal-'' @ pe_uuid demo_penv (pj_draws ?s) @ ''.json'') = None"
    unfolding uuid by (simp add: demo_project_def put_file_def demo_unmanaged_def AList.update_conv' demo_path_def proposal_directory_def
      model_path_def revision_path_def revision_directory_def)
  have audit: "audit_readable demo_penv ?s" by (simp add: audit_readable_def demo_audit)
  obtain p s1 where p: "propose demo_penv (named_model ''one'') 1 ''ana'' ''EXECUTION_WORKSPACE_PROMOTION'' None None ?s = (Inr p, s1)"
    and p': "sp_expected_revision p = 1" "sp_project_id p = sr_project_id demo_revision" "audit_readable demo_penv s1"
    by (rule propose_succeeds [OF demo_layout demo_chain_zero _ _ words audit chars new, of "named_model ''one''" 1]) simp_all
  note pr = propose_Inr [OF demo_layout demo_chain_zero p]
  have c: "chain demo_penv s1 ([] @ [demo_revision])" using pr(1) demo_chain_zero by (simp add: undecided_def)
  have at_p: "proposal_at demo_penv (sp_id p) s1 = Inr p" by (rule pr(2)) (rule demo_models)
  have "map_of (pj_files s1) model_path = map_of (pj_files ?s) model_path" using pr(1) by (simp add: undecided_def)
  then have "model_at demo_penv s1 = model_at demo_penv ?s" unfolding model_at_def using demo_layout by (intro stored_cong) auto
  then have m: "model_at demo_penv s1 = Inr (named_model ''zero'')" using demo_model_at [OF demo_models(1)] by simp
  obtain x s2 where "accept demo_penv (sp_id p) (sr_number demo_revision) ''ana'' None s1 = (Inr (next_revision demo_penv demo_revision p ''ana'' x), s2)"
    by (rule accept_succeeds [OF demo_layout c demo_limit at_p _ p'(2) m _ p'(3) words(1)]) (simp_all add: p' demo_fingerprint)
  with p show ?thesis by (intro that) simp_all
qed

lemma demo_workspace_found: "get_workspace ''ws1'' (store_db (ho_runtime (demo_host ps))) = Some demo_ws"
  by (simp add: get_workspace_def demo_host_def demo_db_ws_def demo_ws_def)

lemma demo_project_found:
  "he_resolve demo_host_env (wk_project_root demo_ws) = [''p'']"
  "map_of (ho_projects (demo_host [([''p''], s)])) [''p''] = Some s"
  "he_project demo_host_env root = demo_penv"
  by (simp_all add: demo_host_env_def demo_ws_def demo_host_def path_parts_def)

lemma demo_promoted:
  obtains n h' where "promote demo_host_env (mr_workspaces demo_managed) ''ws1'' (named_model ''one'') demo_decision (Principal demo_user)
    (demo_host [([''p''], demo_project ''zero'')]) = (Inr n, h')"
proof -
  let ?ps = "[([''p''], demo_project ''zero'')]" and ?a = "Principal demo_user" and ?wm = "mr_workspaces demo_managed"
  obtain h1 where p: "promotable demo_host_env ''ws1'' demo_decision ?a (demo_host ?ps) = (Inr (demo_ws, ''j''), h1)"
    using demo_promotable [of ?ps] by (auto split: prod.splits sum.splits)
  obtain k where h1: "h1 = (demo_host ?ps)\<lparr>ho_runtime := (ho_runtime (demo_host ?ps))\<lparr>ticks := k\<rparr>\<rparr>"
    using promotable_keeps [of demo_host_env "''ws1''" demo_decision ?a] p unfolding keeps_def unmoved_def by (metis snd_conv)
  have root: "he_resolve demo_host_env (wk_project_root demo_ws) = [''p'']" by (simp add: demo_host_env_def demo_ws_def path_parts_def)
  have proj: "he_project demo_host_env r = demo_penv" for r by (simp add: demo_host_env_def)
  have s: "map_of (ho_projects h1) (he_resolve demo_host_env (wk_project_root demo_ws)) = Some (demo_project ''zero'')"
    by (simp add: root h1 demo_host_def)
  have c: "chain (he_project demo_host_env (he_resolve demo_host_env (wk_project_root demo_ws))) (demo_project ''zero'') ([] @ [demo_revision])"
    unfolding proj by (rule demo_chain_zero)
  let ?h = "h1\<lparr>ho_runtime := (ho_runtime h1)\<lparr>ticks := Suc (ticks (ho_runtime h1))\<rparr>\<rparr>"
  have run: "promote demo_host_env ?wm ''ws1'' (named_model ''one'') demo_decision ?a (demo_host ?ps) =
      promote_publish demo_host_env ?wm ''ws1'' (named_model ''one'') demo_user [''p''] 1 ''j'' 50 ?h"
    unfolding promote_split using p promote_revision_run [OF s c] root
    by (simp add: demo_ws_def demo_host_env_def demo_env_def)
  obtain q s1 r s2 where q: "propose demo_penv (named_model ''one'') 1 ''ana'' ''EXECUTION_WORKSPACE_PROMOTION'' None None (demo_project ''zero'') = (Inr q, s1)"
    and r: "accept demo_penv (sp_id q) 1 ''ana'' None s1 = (Inr r, s2)" by (rule demo_published_twice)
  let ?h2 = "?h\<lparr>ho_projects := [([''p''], s1)]\<rparr>" and ?h3 = "?h\<lparr>ho_projects := [([''p''], s2)]\<rparr>"
  have 1: "on_project demo_host_env [''p''] (\<lambda>pe. propose pe (named_model ''one'') 1 ''ana'' ''EXECUTION_WORKSPACE_PROMOTION'' None None) ?h = (Inr q, ?h2)"
    using q by (simp add: on_project_def proj h1 demo_host_def)
  have 2: "on_project demo_host_env [''p''] (\<lambda>pe. accept pe (sp_id q) 1 ''ana'' None) ?h2 = (Inr r, ?h3)"
    using r by (simp add: on_project_def proj h1 demo_host_def)
  have tok: "wm_token ?wm = sv_acceptance_token demo_service" by (simp add: demo_managed_def)
  have db: "store_db (ho_runtime ?h3) = demo_db_ws" by (simp add: h1 demo_host_def)
  let ?ev = "[(''project_job_id'', JStr ''j''), (''baseline_revision'', JInt 1), (''promoted_revision'', JInt (sr_number r)), (''proposal_id'', JStr (sp_id q))]"
  obtain u d u' d' where d: "set_workspace_state ''ws1'' ''ACTIVE'' ''PROMOTED'' (wm_token ?wm) 50 ?a demo_db_ws = (Inr u, d)"
    and d': "record_event ''WORKSPACE_PROMOTED'' ''workspaces'' ''ws1'' ?ev (wm_token ?wm) 50 ?a None d = (Inr u', d')"
    using demo_marked [of ?ev] unfolding tok by (auto split: prod.splits sum.splits)
  have 3: "on_runtime (in_store (set_workspace_state ''ws1'' ''ACTIVE'' ''PROMOTED'' (wm_token ?wm) 50 ?a)) ?h3 =
      (Inr u, ?h3\<lparr>ho_runtime := (ho_runtime ?h3)\<lparr>store_db := d\<rparr>\<rparr>)"
    using d db by (simp add: on_runtime_def in_store_def)
  have 4: "\<exists>h4. on_runtime (in_store (record_event ''WORKSPACE_PROMOTED'' ''workspaces'' ''ws1'' ?ev (wm_token ?wm) 50 ?a None))
      (?h3\<lparr>ho_runtime := (ho_runtime ?h3)\<lparr>store_db := d\<rparr>\<rparr>) = (Inr u', h4)"
    using d' by (simp add: on_runtime_def in_store_def)
  have ana: "actor_id demo_user = ''ana''" by (simp add: demo_user_def)
  show ?thesis
    using 4 that unfolding run promote_publish_def ana
    by (auto simp: 1 2 3)
qed

text \<open>
  C28. Promotion publishes exactly an accepted result. When the service promotes a workspace, the workspace was active, its ProjectJob was accepted with the very
  decision that is presented, which is an ACCEPT, and the promoter is not who dispatched the Attempt; the Project was still at the baseline
  of the workspace and now has exactly one more revision, which holds the promoted model under the promoter's name, and the workspace is
  PROMOTED. No other table of the runtime and no other Project changes.
\<close>

theorem promotion_publishes_accepted:
  assumes run: "promote env wm i m dec actor h = (Inr n, h')"
    and ws: "get_workspace i (store_db (ho_runtime h)) = Some ws" and root: "root = he_resolve env (wk_project_root ws)"
    and s: "map_of (ho_projects h) root = Some s" and pe: "plain_layout (he_project env root)"
    and c: "chain (he_project env root) s (rs @ [cur])" and lim: "Suc (Suc (length rs)) < revision_limit" and m: "project_model_ok m"
  shows "wk_state ws = ''ACTIVE'' \<and> outcome dec = ACCEPT \<and>
    (\<exists>att j a. get_attempt (wk_attempt_id ws) (store_db (ho_runtime h)) = Some att \<and>
       get_job (at_project_job_id att) (store_db (ho_runtime h)) = Some j \<and> jb_state j = ''ACCEPTED'' \<and>
       acceptance (at_project_job_id att) (store_db (ho_runtime h)) = Some a \<and> ac_decision_id a = decision_id dec) \<and>
    (\<forall>x. dispatch_authorization (wk_attempt_id ws) (store_db (ho_runtime h)) = Some x \<longrightarrow> dsp_actor_id x \<noteq> actor_id (as_principal actor)) \<and>
    sr_number cur = wk_baseline_revision ws \<and> n = sr_number cur + 1 \<and>
    (\<exists>s' r. map_of (ho_projects h') = (map_of (ho_projects h))(root \<mapsto> s') \<and> chain (he_project env root) s' (rs @ [cur, r]) \<and>
       sr_model r = m \<and> sr_actor r = actor_id (as_principal actor)) \<and>
    (\<exists>wks au. store_db (ho_runtime h') = (store_db (ho_runtime h))\<lparr>workspaces := wks, runtime_audit := au\<rparr>) \<and>
    get_workspace i (store_db (ho_runtime h')) = Some (ws\<lparr>wk_state := ''PROMOTED''\<rparr>)"
proof -
  obtain ws' job h1 where p: "promotable env i dec actor h = (Inr (ws', job), h1)"
    and q: "promote_revision env wm i m actor ws' job h1 = (Inr n, h')"
    using run unfolding promote_split by (auto elim!: bnd_InrE)
  note pi = promotable_Inr [OF p]
  have w: "ws' = ws" using pi ws by simp
  obtain k where h1: "h1 = h\<lparr>ho_runtime := (ho_runtime h)\<lparr>ticks := k\<rparr>\<rparr>"
    using promotable_keeps [of env i dec actor] p unfolding keeps_def unmoved_def by (metis snd_conv)
  have s1: "map_of (ho_projects h1) (he_resolve env (wk_project_root ws)) = Some s" using s root h1 by simp
  note run1 = q [unfolded w promote_revision_run [OF s1 c [unfolded root]]]
  have num: "sr_number cur = wk_baseline_revision ws" using run1 by (auto simp: bnd_def split: if_splits prod.splits sum.splits)
  let ?h = "h1\<lparr>ho_runtime := (ho_runtime h1)\<lparr>ticks := Suc (ticks (ho_runtime h1))\<rparr>\<rparr>"
  have pub: "promote_publish env wm i m (as_principal actor) root (wk_baseline_revision ws) job
      (clock_reading (he_runtime env) (ticks (ho_runtime h1))) ?h = (Inr n, h')"
    using run1 num by (simp add: root)
  have s2: "map_of (ho_projects ?h) root = Some s" using s1 root by simp
  have same: "ho_projects ?h = ho_projects h" "store_db (ho_runtime ?h) = store_db (ho_runtime h)" by (simp_all add: h1)
  obtain s' r au where *: "n = sr_number cur + 1" "map_of (ho_projects h') = (map_of (ho_projects h))(root \<mapsto> s')"
    "chain (he_project env root) s' (rs @ [cur, r])" "sr_model r = m" "sr_actor r = actor_id (as_principal actor)"
    "store_db (ho_runtime h') = (store_db (ho_runtime h))\<lparr>workspaces := update_where (\<lambda>r. wk_id r = i \<and> wk_state r = ''ACTIVE'')
      (\<lambda>r. r\<lparr>wk_state := ''PROMOTED''\<rparr>) (workspaces (store_db (ho_runtime h))), runtime_audit := au\<rparr>"
    by (rule promote_publish_Inr [OF pub s2 pe c lim m, unfolded same])
  have "get_workspace i (store_db (ho_runtime h')) = Some (ws\<lparr>wk_state := ''PROMOTED''\<rparr>)"
    using get_workspace_moved [OF ws, of "''ACTIVE''"] pi w by (simp add: *(6) get_workspace_def)
  with * pi w num show ?thesis by blast
qed

theorem promotion_publishes_accepted_witness:
  "\<exists>n h' s' r. promote demo_host_env (mr_workspaces demo_managed) ''ws1'' (named_model ''one'') demo_decision (Principal demo_user)
      (demo_host [([''p''], demo_project ''zero'')]) = (Inr n, h') \<and> n = 2 \<and>
    map_of (ho_projects h') [''p''] = Some s' \<and> chain demo_penv s' [demo_revision, r] \<and> sr_model r = named_model ''one'' \<and>
    get_workspace ''ws1'' (store_db (ho_runtime h')) = Some (demo_ws\<lparr>wk_state := ''PROMOTED''\<rparr>)"
proof -
  obtain n h' where run: "promote demo_host_env (mr_workspaces demo_managed) ''ws1'' (named_model ''one'') demo_decision (Principal demo_user)
      (demo_host [([''p''], demo_project ''zero'')]) = (Inr n, h')" by (rule demo_promoted)
  have root: "[''p''] = he_resolve demo_host_env (wk_project_root demo_ws)" by (simp add: demo_project_found)
  note demo = promotion_publishes_accepted [OF run demo_workspace_found root demo_project_found(2), unfolded demo_project_found(3),
    OF demo_layout demo_chain_zero demo_limit demo_models(2)]
  then obtain s' r where "map_of (ho_projects h') = (map_of (ho_projects (demo_host [([''p''], demo_project ''zero'')])))([''p''] \<mapsto> s')"
    "chain demo_penv s' [demo_revision, r]" "sr_model r = named_model ''one''" by auto
  with run demo show ?thesis by (intro exI [of _ n] exI [of _ h'] exI [of _ s'] exI [of _ r]) (simp add: demo_ws_def)
qed

section \<open>Stale workspaces\<close>

definition demo_stale_host :: host where
  "demo_stale_host = (demo_host [([''p''], demo_project ''zero'')])
     \<lparr>ho_runtime := \<lparr>store_db = demo_db_ws\<lparr>workspaces := [demo_ws\<lparr>wk_baseline_revision := 2\<rparr>]\<rparr>, ticks = 0, draws = 0\<rparr>\<rparr>"

text \<open>
  A stale workspace changes no Project. If the Project has moved on since the workspace was created, promotion fails, whatever else holds, and every
  Project and every directory stays exactly as it was.
\<close>

theorem stale_promotion_harmless:
  assumes ws: "get_workspace i (store_db (ho_runtime h)) = Some ws"
    and s: "map_of (ho_projects h) (he_resolve env (wk_project_root ws)) = Some s"
    and c: "chain (he_project env (he_resolve env (wk_project_root ws))) s (rs @ [cur])"
    and stale: "sr_number cur \<noteq> wk_baseline_revision ws"
  shows "\<exists>e h'. promote env wm i m dec actor h = (Inl e, h') \<and> ho_projects h' = ho_projects h \<and> ho_trees h' = ho_trees h"
proof -
  obtain r h1 where p: "promotable env i dec actor h = (r, h1)" by (cases "promotable env i dec actor h")
  obtain k where h1: "h1 = h\<lparr>ho_runtime := (ho_runtime h)\<lparr>ticks := k\<rparr>\<rparr>"
    using promotable_keeps [of env i dec actor] p unfolding keeps_def unmoved_def by (metis snd_conv)
  show ?thesis
  proof (cases r)
    case (Inl e)
    then show ?thesis using p h1 by (simp add: promote_split)
  next
    case (Inr x)
    obtain ws' job where x: "x = (ws', job)" by (cases x)
    have "ws' = ws" using promotable_Inr [of env i dec actor h ws' job h1] p Inr x ws by simp
    then have run: "promote env wm i m dec actor h = promote_revision env wm i m actor ws job h1"
      using p Inr x by (simp add: promote_split)
    have s1: "map_of (ho_projects h1) (he_resolve env (wk_project_root ws)) = Some s" using s h1 by simp
    show ?thesis
      using stale promote_refuse_outcome [of wm i "as_principal actor" job "clock_reading (he_runtime env) k" "h\<lparr>ho_runtime := (ho_runtime h)\<lparr>ticks := Suc k\<rparr>\<rparr>"] unfolding run promote_revision_run [OF s1 c] by (simp add: h1 only_runtime_def)
  qed
qed

theorem stale_promotion_harmless_witness:
  "\<exists>e h'. promote demo_host_env (mr_workspaces demo_managed) ''ws1'' (named_model ''one'') demo_decision (Principal demo_user) demo_stale_host = (Inl e, h') \<and>
     ho_projects h' = [([''p''], demo_project ''zero'')]"
proof -
  let ?ws = "demo_ws\<lparr>wk_baseline_revision := 2\<rparr>"
  have root: "he_resolve demo_host_env (wk_project_root ?ws) = [''p'']" using demo_project_found(1) by simp
  have ws: "get_workspace ''ws1'' (store_db (ho_runtime demo_stale_host)) = Some ?ws"
    by (simp add: get_workspace_def demo_stale_host_def demo_db_ws_def demo_ws_def)
  have s: "map_of (ho_projects demo_stale_host) [''p''] = Some (demo_project ''zero'')" by (simp add: demo_stale_host_def demo_host_def)
  have "sr_number demo_revision \<noteq> wk_baseline_revision ?ws" by simp
  from stale_promotion_harmless [OF ws, where env = demo_host_env, unfolded root demo_project_found(3), OF s demo_chain_zero this]
  show ?thesis by (simp add: demo_stale_host_def demo_host_def) blast
qed

section \<open>Promotion by a superseded service\<close>

lemma set_workspace_state_fenced:
  assumes "set_workspace_state i x y t now a d = (Inr u, d')" and "\<not> fence_ok t' now d"
  shows "set_workspace_state i x y t' now a d = (Inl CoordinatorFencedError, d)"
  using assms
  by (auto simp: set_workspace_state_def validate_actor_def Let_def assert_fence_def transaction_def bnd_def ensure_def check_def
    split: if_splits sum.splits prod.splits)

lemma promote_publish_fenced:
  assumes run: "promote_publish env wm i m a root b job now h = (Inr n, h')" and t: "\<not> fence_ok t now (store_db (ho_runtime h))"
  shows "\<exists>h''. promote_publish env (wm\<lparr>wm_token := t\<rparr>) i m a root b job now h = (Inl CoordinatorFencedError, h'') \<and>
    ho_projects h'' = ho_projects h' \<and> store_db (ho_runtime h'') = store_db (ho_runtime h)"
proof -
  obtain p h1 r h2 u h3 u' ev where
    1: "on_project env root (\<lambda>pe. propose pe m b (actor_id a) ''EXECUTION_WORKSPACE_PROMOTION'' None None) h = (Inr p, h1)" and
    2: "on_project env root (\<lambda>pe. accept pe (sp_id p) b (actor_id a) None) h1 = (Inr r, h2)" and
    3: "on_runtime (in_store (set_workspace_state i ''ACTIVE'' ''PROMOTED'' (wm_token wm) now (Principal a))) h2 = (Inr u, h3)" and
    4: "on_runtime (in_store (record_event ''WORKSPACE_PROMOTED'' ''workspaces'' i ev (wm_token wm) now (Principal a) None)) h3 = (Inr u', h')"
    by (rule promote_publishE [OF run])
  have rt: "ho_runtime h2 = ho_runtime h" using 1 2 by (auto elim!: on_project_InrE)
  have pr: "ho_projects h' = ho_projects h2" using 3 4 by (auto elim!: on_runtime_InrE)
  obtain d where "set_workspace_state i ''ACTIVE'' ''PROMOTED'' (wm_token wm) now (Principal a) (store_db (ho_runtime h2)) = (Inr u, d)"
    using 3 by (auto elim!: on_runtime_InrE in_store_InrE)
  then have "set_workspace_state i ''ACTIVE'' ''PROMOTED'' t now (Principal a) (store_db (ho_runtime h2)) =
      (Inl CoordinatorFencedError, store_db (ho_runtime h2))"
    by (rule set_workspace_state_fenced) (simp add: rt t)
  then have f: "on_runtime (in_store (set_workspace_state i ''ACTIVE'' ''PROMOTED'' t now (Principal a))) h2 = (Inl CoordinatorFencedError, h2)"
    by (simp add: on_runtime_def in_store_def)
  have "promote_publish env (wm\<lparr>wm_token := t\<rparr>) i m a root b job now h = (Inl CoordinatorFencedError, h2)"
    unfolding promote_publish_def by (simp add: 1 2 f)
  then show ?thesis using rt pr by simp
qed

text \<open>
  C39. The fence does not protect the Project. Promotion writes to the Project before its first fenced write to the database, so a service whose fence token has
  been superseded still publishes: where a promotion by the holder of the lease would succeed, the same promotion by any superseded service
  leaves the same Projects, then fails with \<open>CoordinatorFencedError\<close>, and the workspace stays active as if nothing had been promoted.
\<close>

theorem superseded_service_promotes:
  assumes run: "promote env wm i m dec actor h = (Inr n, h')"
    and ws: "get_workspace i (store_db (ho_runtime h)) = Some ws"
    and s: "map_of (ho_projects h) (he_resolve env (wk_project_root ws)) = Some s"
    and c: "chain (he_project env (he_resolve env (wk_project_root ws))) s (rs @ [cur])"
    and t: "\<And>now. \<not> fence_ok t now (store_db (ho_runtime h))"
  shows "\<exists>h''. promote env (wm\<lparr>wm_token := t\<rparr>) i m dec actor h = (Inl CoordinatorFencedError, h'') \<and> ho_projects h'' = ho_projects h' \<and>
    store_db (ho_runtime h'') = store_db (ho_runtime h)"
proof -
  obtain ws' job h1 where p: "promotable env i dec actor h = (Inr (ws', job), h1)"
    and q: "promote_revision env wm i m actor ws' job h1 = (Inr n, h')"
    using run unfolding promote_split by (auto elim!: bnd_InrE)
  have w: "ws' = ws" using promotable_Inr [OF p] ws by simp
  obtain k where h1: "h1 = h\<lparr>ho_runtime := (ho_runtime h)\<lparr>ticks := k\<rparr>\<rparr>"
    using promotable_keeps [of env i dec actor] p unfolding keeps_def unmoved_def by (metis snd_conv)
  have s1: "map_of (ho_projects h1) (he_resolve env (wk_project_root ws)) = Some s" using s h1 by simp
  note split = promote_revision_run [OF s1 c]
  have num: "sr_number cur = wk_baseline_revision ws"
    using q [unfolded w split] by (auto simp: bnd_def split: if_splits prod.splits sum.splits)
  let ?now = "clock_reading (he_runtime env) (ticks (ho_runtime h1))" and ?root = "he_resolve env (wk_project_root ws)"
  let ?h = "h1\<lparr>ho_runtime := (ho_runtime h1)\<lparr>ticks := Suc (ticks (ho_runtime h1))\<rparr>\<rparr>"
  have pub: "promote_publish env wm i m (as_principal actor) ?root (wk_baseline_revision ws) job ?now ?h = (Inr n, h')"
    using q [unfolded w split] num by simp
  have "\<not> fence_ok t ?now (store_db (ho_runtime ?h))" using t h1 by simp
  from promote_publish_fenced [OF pub this] show ?thesis
    unfolding promote_split using p num w split [of "wm\<lparr>wm_token := t\<rparr>"] by (simp add: h1)
qed

lemma demo_superseded: "coordinator_lease demo_db_ws \<noteq> None \<and> ls_generation (the (coordinator_lease demo_db_ws)) \<noteq> 0"
  by code_simp

theorem superseded_service_promotes_witness:
  "\<exists>n h' h''. promote demo_host_env (mr_workspaces demo_managed) ''ws1'' (named_model ''one'') demo_decision (Principal demo_user)
      (demo_host [([''p''], demo_project ''zero'')]) = (Inr n, h') \<and>
    promote demo_host_env ((mr_workspaces demo_managed)\<lparr>wm_token := \<lparr>holder_id = ''old'', generation = 0, expires_at = 0\<rparr>\<rparr>) ''ws1''
      (named_model ''one'') demo_decision (Principal demo_user) (demo_host [([''p''], demo_project ''zero'')]) = (Inl CoordinatorFencedError, h'') \<and>
    ho_projects h'' = ho_projects h'"
proof -
  let ?h = "demo_host [([''p''], demo_project ''zero'')]" and ?t = "\<lparr>holder_id = ''old'', generation = 0, expires_at = 0\<rparr>"
  obtain n h' where run: "promote demo_host_env (mr_workspaces demo_managed) ''ws1'' (named_model ''one'') demo_decision (Principal demo_user) ?h = (Inr n, h')"
    by (rule demo_promoted)
  have "\<not> fence_ok ?t now (store_db (ho_runtime ?h))" for now
    using demo_superseded by (auto simp: fence_ok_def demo_host_def)
  from superseded_service_promotes [OF run demo_workspace_found, unfolded demo_project_found(1,3), OF demo_project_found(2) demo_chain_zero this]
  show ?thesis using run by blast
qed

end
