(* ===== verification/Workspace_Access.thy ===== *)
theory Workspace_Access
  imports Workspace_Properties
begin

text \<open>
  Creation of workspaces and access to the paths in them: what a created workspace is, and that the path check of
  the workspace manager is the path rule of the Envelope.
\<close>

section \<open>Building the tree\<close>

lemma on_host_InrE [eff_elims]:
  "on_host m k = (Inr x, k') \<Longrightarrow> (\<And>h. m (mk_host k) = (Inr x, h) \<Longrightarrow> k' = k\<lparr>mk_host := h\<rparr> \<Longrightarrow> P) \<Longrightarrow> P"
  by (auto simp: on_host_def split: prod.splits)

lemma git_run_trees: "git_run env args h = (Inr x, h') \<Longrightarrow> ho_trees h' = ho_trees h"
  by (auto simp: git_run_def)

lemma git_output_trees: "git_output env p args h = (r, h') \<Longrightarrow> ho_trees h' = ho_trees h"
  by (auto simp: git_output_def bnd_def git_run_def some_or_def split: option.splits)

lemma git_root_trees: "git_root env p h = (r, h') \<Longrightarrow> ho_trees h' = ho_trees h"
  by (auto simp: git_root_def bnd_def git_run_def)

lemma git_create_trees: "git_create env t args h = (Inr u, h') \<Longrightarrow> ho_trees h' = t # ho_trees h"
  by (auto simp: git_create_def git_run_def add_tree_def elim!: eff_elims split: if_splits)

lemma copy_tree_trees: "copy_tree t h = (Inr u, h') \<Longrightarrow> ho_trees h' = t # ho_trees h"
  by (auto simp: copy_tree_def add_tree_def elim!: eff_elims)

text \<open>\<open>git rev-parse HEAD\<close> prints a commit or fails.\<close>

definition git_prints_head :: "host_env \<Rightarrow> bool" where
  "git_prints_head env \<longleftrightarrow> (\<forall>n p out. he_git env n [''-C'', p, ''rev-parse'', ''HEAD''] = Some out \<longrightarrow> strip out \<noteq> [])"

lemma head_printed: "git_prints_head env \<Longrightarrow> git_output env s [''rev-parse'', ''HEAD''] h = (Inr head, h') \<Longrightarrow> head \<noteq> []"
  by (auto simp: git_prints_head_def git_output_def git_run_def elim!: eff_elims)

lemma head_or_copy_trees:
  assumes "git_prints_head env" and "head_or_copy env e s t h = (Inr head, h')"
  shows "ho_trees h' = (if head = [] then t # ho_trees h else ho_trees h)"
proof -
  obtain r u where o: "git_output env s [''rev-parse'', ''HEAD''] h = (r, u)" by (cases "git_output env s [''rev-parse'', ''HEAD''] h")
  show ?thesis
  proof (cases r)
    case (Inl x)
    then obtain v where "copy_tree t u = (Inr v, h')" "head = []" using assms(2) o by (auto simp: head_or_copy_def elim!: eff_elims)
    with copy_tree_trees git_output_trees [OF o] show ?thesis by simp
  next
    case (Inr x)
    with o assms show ?thesis using head_printed git_output_trees [OF o] by (auto simp: head_or_copy_def)
  qed
qed

lemma build_tree_trees:
  assumes head: "git_prints_head env" and run: "build_tree env e s t k = (Inr u, k')"
  shows "ho_trees (mk_host k') = t # ho_trees (mk_host k) \<and> \<not> he_escaping env (ho_runs (mk_host k')) t"
  using run unfolding build_tree_def
  by (auto split: if_splits simp: assert_no_symlink_escape_def elim!: eff_elims
    dest!: git_root_trees head_or_copy_trees [OF head] git_output_trees git_create_trees copy_tree_trees)

lemma make_tree_Inr:
  assumes "git_prints_head env" and run: "make_tree env e s t h = (Inr u, h')"
  shows "ho_trees h' = t # ho_trees h \<and> \<not> he_escaping env (ho_runs h') t \<and> ho_runtime h' = ho_runtime h \<and> ho_projects h' = ho_projects h"
proof -
  let ?k = "\<lparr>mk_host = h, mk_git_created = False, mk_clone_created = False\<rparr>"
  obtain v k where k: "build_tree env e s t ?k = (Inr v, k)" and h': "h' = mk_host k"
    using run by (auto simp: make_tree_def elim!: eff_elims split: prod.splits sum.splits)
  have "apart h h'" using apart_make_tree [of env e s t] run by (metis keeps_def snd_conv)
  with build_tree_trees [OF assms(1) k] h' show ?thesis by (simp add: apart_def)
qed

section \<open>Creation\<close>

lemma insert_workspace_Inr:
  assumes "insert_values (New_Workspace r) t now a ev d = (Inr u, d')"
  shows "workspaces d' = workspaces d @ [r] \<and> get_workspace (wk_id r) d' = Some r \<and> fence_ok t now d"
  using assms
  by (auto simp: insert_values_def insert_row_def validate_actor_def Let_def assert_fence_def log_audit_def get_workspace_def find_append
    elim!: eff_elims)

lemma on_project_current:
  assumes "map_of (ho_projects h) root = Some s" and "chain (he_project env root) s (rs @ [cur])"
  shows "on_project env root current h = (Inr cur, h)"
  using on_project_run [where m = current, OF assms(1) current_run [OF assms(2)]] update_same [OF assms(1)] by simp

text \<open>
  A created workspace is what its Envelope names. When creation returns, one directory was added, directly below the managed root where none was, with no
  symbolic link out of it; no Project changed; the Attempt, ProjectJob, Run and Envelope exist, the Project is the one of the Run and is at exactly the
  revision (and fingerprint, when given) that the Envelope names; and the workspace is recorded as ACTIVE for that directory and revision. Relies on
  \<open>git rev-parse HEAD\<close> printing a commit when it succeeds.
\<close>

theorem workspace_created:
  assumes run: "create_workspace_tree env wm i aid proot b actor h = (Inr target, h')" and head: "git_prints_head env"
    and s: "map_of (ho_projects h) (he_resolve env proot) = Some s"
    and c: "chain (he_project env (he_resolve env proot)) s (rs @ [cur])"
  shows "ho_trees h' = target # ho_trees h \<and> target \<notin> set (ho_trees h) \<and> butlast target = wm_root wm \<and> \<not> he_escaping env (ho_runs h') target \<and>
    ho_projects h' = ho_projects h \<and>
    (\<exists>att job run p. get_attempt aid (store_db (ho_runtime h)) = Some att \<and> get_job (at_project_job_id att) (store_db (ho_runtime h)) = Some job \<and>
      get_run (jb_run_id job) (store_db (ho_runtime h)) = Some run \<and>
      envelope (rn_envelope_id run) (rn_envelope_version run) (store_db (ho_runtime h)) = Some p \<and>
      sr_project_id cur = rn_project_id run \<and> sr_number cur = baseline_revision (pl_envelope p) \<and>
      baseline_fingerprint (pl_envelope p) \<in> {None, Some (sr_fingerprint cur)}) \<and>
    (\<exists>ws. get_workspace i (store_db (ho_runtime h')) = Some ws \<and> wk_state ws = ''ACTIVE'' \<and> wk_attempt_id ws = aid \<and>
      wk_workspace_root ws = path_text target \<and> wk_baseline_revision ws = sr_number cur)"
  using run unfolding create_workspace_tree_def Let_def
  by (auto elim!: eff_elims simp: fetch_def query_def clock_def on_project_current [OF s c] dest!: make_tree_Inr [OF head] insert_workspace_Inr)

text \<open>The demonstration history before the workspace is created.\<close>

definition demo_bare_host :: host where
  "demo_bare_host = (demo_host [([''p''], demo_project ''zero'')])\<lparr>ho_runtime := demo_world (start_ops @ accept_ops)\<rparr>"

lemma demo_bound:
  "case get_attempt ''a'' (store_db (demo_world (start_ops @ accept_ops))) of None \<Rightarrow> False | Some att \<Rightarrow>
   (case get_job (at_project_job_id att) (store_db (demo_world (start_ops @ accept_ops))) of None \<Rightarrow> False | Some job \<Rightarrow>
   (case get_run (jb_run_id job) (store_db (demo_world (start_ops @ accept_ops))) of None \<Rightarrow> False | Some run \<Rightarrow>
   (case envelope (rn_envelope_id run) (rn_envelope_version run) (store_db (demo_world (start_ops @ accept_ops))) of None \<Rightarrow> False | Some p \<Rightarrow>
     rn_project_id run = ''P'' \<and> pl_envelope p = demo_envelope)))"
  by code_simp

lemma demo_permitted: "require (as_principal (Principal demo_user)) ''workspace:create'' ''P'' 50 = Inr ()"
  by code_simp

lemma demo_inserted:
  "case insert_values (New_Workspace demo_ws) (sv_acceptance_token demo_service) 50 (Principal demo_user) ''WORKSPACE_CREATED''
     (store_db (demo_world (start_ops @ accept_ops))) of (Inl e, _) \<Rightarrow> False | (Inr _, _) \<Rightarrow> True"
  by code_simp

lemma demo_created:
  obtains h' where "create_workspace_tree demo_host_env (mr_workspaces demo_managed) ''ws1'' ''a'' ''/p'' 1 (Principal demo_user) demo_bare_host =
    (Inr [''ws'', ''ws1''], h')"
proof -
  let ?d = "store_db (demo_world (start_ops @ accept_ops))"
  obtain att job run p where found: "get_attempt ''a'' ?d = Some att" "get_job (at_project_job_id att) ?d = Some job"
    "get_run (jb_run_id job) ?d = Some run" "envelope (rn_envelope_id run) (rn_envelope_version run) ?d = Some p"
    "rn_project_id run = ''P''" "pl_envelope p = demo_envelope"
    using demo_bound by (auto split: option.splits)
  obtain d where ins: "insert_values (New_Workspace demo_ws) (sv_acceptance_token demo_service) 50 (Principal demo_user) ''WORKSPACE_CREATED'' ?d = (Inr (), d)"
    using demo_inserted by (auto split: prod.splits sum.splits)
  have s: "map_of (ho_projects demo_bare_host) [''p''] = Some (demo_project ''zero'')" by (simp add: demo_bare_host_def demo_host_def)
  have c: "chain (he_project demo_host_env [''p'']) (demo_project ''zero'') ([] @ [demo_revision])"
    unfolding demo_project_found by (rule demo_chain_zero)
  note cur = on_project_current [OF s c]
  have paths: "he_resolve demo_host_env ''/p'' = [''p'']" "he_resolve demo_host_env (join_path [''ws''] ''ws1'') = [''ws'', ''ws1'']"
    "path_text [''p''] = ''/p''" "path_text [''ws'', ''ws1''] = ''/ws/ws1''" "safe_workspace_id ''ws1''"
    by code_simp+
  have host: "ho_trees demo_bare_host = []" "store_db (ho_runtime demo_bare_host) = ?d" "wm_root (mr_workspaces demo_managed) = [''ws'']"
    "wm_token (mr_workspaces demo_managed) = sv_acceptance_token demo_service" "clock_reading (he_runtime demo_host_env) n = 50" for n
    by (simp_all add: demo_bare_host_def demo_host_def demo_managed_def demo_host_env_def demo_env_def)
  have permitted: "require demo_user ''workspace:create'' ''P'' 50 = Inr ()" using demo_permitted by simp
  have tree: "make_tree demo_host_env demo_envelope [''p''] [''ws'', ''ws1''] h =
      (Inr (), h\<lparr>ho_trees := [[''ws'', ''ws1'']], ho_runs := Suc (ho_runs h)\<rparr>)" if "ho_trees h = []" for h
    using that by (simp add: make_tree_def build_tree_def git_root_def git_run_def on_host_def copy_tree_def add_tree_def
      assert_no_symlink_escape_def demo_host_env_def bnd_def)
  have envl: "baseline_revision demo_envelope = 1" "baseline_fingerprint demo_envelope = None"
    by (simp_all add: demo_envelope_def sample_envelope_def)
  have "\<exists>h'. create_workspace_tree demo_host_env (mr_workspaces demo_managed) ''ws1'' ''a'' ''/p'' 1 (Principal demo_user) demo_bare_host =
      (Inr [''ws'', ''ws1''], h')"
    unfolding create_workspace_tree_def
    by (simp add: Let_def paths host found cur envl permitted tree ins bnd_def on_runtime_def in_store_def fetch_def query_def clock_def demo_ws_def [symmetric]
      del: safe_workspace_id.simps)
  with that show ?thesis by blast
qed

theorem workspace_created_witness:
  "\<exists>h'. create_workspace_tree demo_host_env (mr_workspaces demo_managed) ''ws1'' ''a'' ''/p'' 1 (Principal demo_user) demo_bare_host =
      (Inr [''ws'', ''ws1''], h') \<and> ho_trees h' = [[''ws'', ''ws1'']] \<and>
    (\<exists>ws. get_workspace ''ws1'' (store_db (ho_runtime h')) = Some ws \<and> wk_state ws = ''ACTIVE'' \<and> wk_baseline_revision ws = 1)"
proof -
  obtain h' where run: "create_workspace_tree demo_host_env (mr_workspaces demo_managed) ''ws1'' ''a'' ''/p'' 1 (Principal demo_user) demo_bare_host =
      (Inr [''ws'', ''ws1''], h')" by (rule demo_created)
  have head: "git_prints_head demo_host_env" by (simp add: git_prints_head_def demo_host_env_def)
  have s: "map_of (ho_projects demo_bare_host) (he_resolve demo_host_env ''/p'') = Some (demo_project ''zero'')"
    by (simp add: demo_bare_host_def demo_host_def demo_host_env_def path_parts_def)
  have c: "chain (he_project demo_host_env (he_resolve demo_host_env ''/p'')) (demo_project ''zero'') ([] @ [demo_revision])"
    unfolding demo_project_found by (rule demo_chain_zero)
  from workspace_created [OF run head s c] run show ?thesis by (auto simp: demo_bare_host_def demo_host_def)
qed

section \<open>Access\<close>

lemma set_split_on: "w \<in> set (split_on d s) \<Longrightarrow> set w \<subseteq> set s"
  by (induction d s arbitrary: w rule: split_on.induct) (fastforce split: if_splits list.splits)+

lemma set_join_with: "set (join_with d ws) \<subseteq> insert d (\<Union> (set ` set ws))"
  by (induction d ws rule: join_with.induct) auto

lemma set_strip: "set (strip s) \<subseteq> set s"
  by (auto simp: strip_def dest!: set_dropWhileD)

lemma to_slashes_id: "(\<And>c. c \<in> set s \<Longrightarrow> ccode c \<noteq> 92) \<Longrightarrow> to_slashes s = s"
  by (simp add: to_slashes_def map_idI)

lemma normal_path:
  assumes "safe_relative_path v = Inr v"
  shows "remove_prefix ''./'' (to_slashes v) = v"
proof -
  let ?s = "strip (to_slashes v)"
  have v: "v = as_posix (path_parts ?s)" using safe_relative_path_Inr [OF assms] by blast
  have codes: "ccode CHR ''/'' \<noteq> 92" "ccode CHR ''.'' \<noteq> 92" by code_simp+
  have "set ?s \<subseteq> set (to_slashes v)" by (rule set_strip)
  then have "ccode c \<noteq> 92" if "c \<in> set ?s" for c using that codes by (auto simp: to_slashes_def split: if_splits)
  then have "ccode c \<noteq> 92" if "c \<in> set (as_posix (path_parts ?s))" for c
    using that codes set_join_with [of "CHR ''/''" "path_parts ?s"] set_split_on [of _ "CHR ''/''" ?s]
    by (fastforce simp: as_posix_def path_parts_def split: if_splits)
  then have "to_slashes v = v" using v by (intro to_slashes_id) simp
  then show ?thesis using as_posix_no_dot_slash [of "path_parts ?s"] path_parts_components v by metis
qed

lemma any_owner_normal:
  assumes "list_all (\<lambda>v. safe_relative_path v = Inr v) vs"
  shows "any_owner c vs = Inr (list_ex (\<lambda>owner. owns_path owner c) vs)"
  using assms by (induction vs) auto

lemma owners_normal:
  assumes "list_all (\<lambda>v. safe_relative_path v = Inr v) vs"
  shows "map (\<lambda>v. remove_prefix ''./'' (to_slashes v)) vs = vs"
  using assms by (simp add: list_all_iff normal_path map_idI)

text \<open>
  C29. The path check of the workspace manager is the path rule of the Envelope, as far as a path is in normal form. For an active workspace of a stored Run, an
  actor with the \<open>workspace:access\<close> permission and an Envelope whose paths are in normal form, \<open>assert_allowed_path\<close> raises for every path that does not
  resolve to one below the workspace. For a path whose relative form \<open>_safe_relative_path\<close> leaves alone it returns the resolved path exactly when
  \<open>ExecutionEnvelope.authorizes_path\<close>, a separate implementation with its own normalisation, authorizes that form with that permission. Another relative form
  (such as \<open>a:b\<close>, which \<open>authorizes_path\<close> refuses) is compared with the Envelope's paths as it stands.
\<close>

theorem workspace_paths_equivalent:
  assumes ws: "get_workspace i (store_db (ho_runtime h)) = Some ws" and act: "wk_state ws = ''ACTIVE''"
    and e: "envelope_for_attempt (wk_attempt_id ws) (store_db (ho_runtime h)) = Inr p"
    and normal: "list_all (\<lambda>v. safe_relative_path v = Inr v) (allowed_paths (pl_envelope p))"
    and run: "run_for_workspace ws (ho_runtime h) = (Inr run, ho_runtime h)"
    and may: "require (as_principal actor) ''workspace:access'' (rn_project_id run) (clock_reading (he_runtime env) (ticks (ho_runtime h))) = Inr ()"
    and cand: "cand = he_resolve env (join_path (he_resolve env (wk_workspace_root ws)) path)"
  shows "(case assert_allowed_path env i path perm actor h of (Inr c, _) \<Rightarrow> Some c | (Inl _, _) \<Rightarrow> None) =
    (case relative_to (he_resolve env (wk_workspace_root ws)) cand of None \<Rightarrow> None
     | Some rel \<Rightarrow>
         if (if safe_relative_path (as_posix rel) = Inr (as_posix rel) then authorizes_path (pl_envelope p) (as_posix rel) perm = Inr True
             else perm \<in> set (filesystem_permissions (pl_envelope p)) \<and>
               list_ex (\<lambda>owner. owns_path owner (as_posix rel)) (allowed_paths (pl_envelope p)))
         then Some cand else None)"
proof (cases "relative_to (he_resolve env (wk_workspace_root ws)) cand")
  case None
  then show ?thesis
    by (simp add: assert_allowed_path_def active_workspace_def ws act Let_def cand bnd_def on_runtime_def fetch_def query_def some_or_def)
next
  case (Some r)
  have "authorizes_path (pl_envelope p) (as_posix r) perm = Inr True \<longleftrightarrow>
      perm \<in> set (filesystem_permissions (pl_envelope p)) \<and> list_ex (\<lambda>owner. owns_path owner (as_posix r)) (allowed_paths (pl_envelope p))"
    if "safe_relative_path (as_posix r) = Inr (as_posix r)"
    using that any_owner_normal [OF normal] by (auto simp: authorizes_path_def)
  with Some show ?thesis
    by (simp add: assert_allowed_path_def active_workspace_def ws act Let_def cand [symmetric] e run may owners_normal [OF normal]
      bnd_def on_runtime_def fetch_def query_def some_or_def clock_def ensure_def)
qed

lemma demo_accessible:
  "case envelope_for_attempt ''a'' demo_db_ws of Inl _ \<Rightarrow> False | Inr p \<Rightarrow> pl_envelope p = demo_envelope"
  "case run_for_workspace demo_ws \<lparr>store_db = demo_db_ws, ticks = 0, draws = 0\<rparr> of (Inl _, _) \<Rightarrow> False | (Inr run, _) \<Rightarrow> rn_project_id run = ''P''"
  "require (as_principal (Principal demo_user)) ''workspace:access'' ''P'' 50 = Inr ()"
  by code_simp+

lemma run_for_workspace_same: "run_for_workspace ws w = (Inr run, w') \<Longrightarrow> w' = w"
  by (auto simp: run_for_workspace_def fetch_def query_def elim!: eff_elims)

theorem workspace_paths_equivalent_witness:
  "(case assert_allowed_path demo_host_env ''ws1'' ''src/app.py'' ''READ'' (Principal demo_user) (demo_host []) of (Inr c, _) \<Rightarrow> Some c | (Inl _, _) \<Rightarrow> None) =
     Some [''ws'', ''ws1'', ''src'', ''app.py''] \<and> authorizes_path demo_envelope ''src/app.py'' ''READ'' = Inr True"
proof -
  let ?h = "demo_host []" and ?cand = "[''ws'', ''ws1'', ''src'', ''app.py'']"
  have ws: "get_workspace ''ws1'' (store_db (ho_runtime ?h)) = Some demo_ws" by (rule demo_workspace_found)
  have act: "wk_state demo_ws = ''ACTIVE''" by (simp add: demo_ws_def)
  obtain p where e: "envelope_for_attempt (wk_attempt_id demo_ws) (store_db (ho_runtime ?h)) = Inr p" and p: "pl_envelope p = demo_envelope"
    using demo_accessible(1) by (auto simp: demo_ws_def demo_host_def split: sum.splits)
  obtain run where run: "run_for_workspace demo_ws (ho_runtime ?h) = (Inr run, ho_runtime ?h)" and pid: "rn_project_id run = ''P''"
    using demo_accessible(2) by (auto simp: demo_host_def split: sum.splits prod.splits dest: run_for_workspace_same)
  have may: "require (as_principal (Principal demo_user)) ''workspace:access'' (rn_project_id run)
      (clock_reading (he_runtime demo_host_env) (ticks (ho_runtime ?h))) = Inr ()"
    using demo_accessible(3) by (simp add: pid demo_host_env_def demo_env_def)
  have normal: "list_all (\<lambda>v. safe_relative_path v = Inr v) (allowed_paths (pl_envelope p))" unfolding p by code_simp
  have root: "he_resolve demo_host_env (wk_workspace_root demo_ws) = [''ws'', ''ws1'']" by code_simp
  have cand: "?cand = he_resolve demo_host_env (join_path (he_resolve demo_host_env (wk_workspace_root demo_ws)) ''src/app.py'')" by code_simp
  have allowed: "authorizes_path demo_envelope ''src/app.py'' ''READ'' = Inr True" by code_simp
  have posix: "as_posix [''src'', ''app.py''] = ''src/app.py''" "safe_relative_path ''src/app.py'' = Inr ''src/app.py''" by code_simp+
  have rel: "relative_to (he_resolve demo_host_env (wk_workspace_root demo_ws)) ?cand = Some [''src'', ''app.py'']" unfolding root by code_simp
  from workspace_paths_equivalent [OF ws act e normal run may cand, of "''READ''"] allowed
  show ?thesis unfolding rel p option.case posix by simp
qed

end
