(* ===== verification/Project_Catalog.thy ===== *)
theory Project_Catalog
  imports Json_Values "HOL-Library.List_Lexorder" "HOL-Library.Char_ord"
begin

text \<open>
  Models \<open>src/artifex/project/catalog.py\<close>: the catalog of the Projects of an instance, a SQLite database with the tables \<open>projects\<close>, \<open>aliases\<close>
  and \<open>locations\<close> and their key, reference and check constraints. A connection commits when its block returns and rolls back when it raises.
  Resolution of a location against the file system (\<open>resolve\<close>) and \<open>Path.is_dir\<close> are parameters.
\<close>

section \<open>Alias keys\<close>

text \<open>\<open>value.split()\<close>\<close>

function py_words :: "string \<Rightarrow> string list" where
  "py_words s = (case dropWhile is_space s of [] \<Rightarrow> []
     | c # cs \<Rightarrow> (c # takeWhile (\<lambda>d. \<not> is_space d) cs) # py_words (dropWhile (\<lambda>d. \<not> is_space d) cs))"
  by pat_completeness auto
termination
proof (relation "measure length")
  fix s c cs assume "dropWhile is_space s = c # cs"
  then have "length (c # cs) \<le> length s" by (metis length_dropWhile_le)
  moreover have "length (dropWhile (\<lambda>d. \<not> is_space d) cs) \<le> length cs" by (rule length_dropWhile_le)
  ultimately show "(dropWhile (\<lambda>d. \<not> is_space d) cs, s) \<in> measure length" by simp
qed simp

declare py_words.simps [simp del]

text \<open>
  \<open>casefold\<close> sends the micro sign to a character outside the modelled range and no other modelled character to it, so keys agree
  here exactly when they agree in Python.
\<close>

definition alias_key :: "string \<Rightarrow> string res" where
  "alias_key v = (let normalized = casefold (join_with CHR '' '' (py_words v)) in
     rbind (ensure (normalized \<noteq> []) ValueError) (\<lambda>_. Inr normalized))"

section \<open>The database\<close>

record project_row =
  cp_project_id :: string
  cp_primary_name :: string
  cp_location_mode :: string
  cp_lifecycle :: string
  cp_archived :: bool
  cp_last_semantic_revision :: int
  cp_runtime_association :: "string option"
  cp_reachable :: bool
  cp_last_activity :: "string option"
  cp_discovery_provenance :: string

record alias_row =
  al_key :: string
  al_display_name :: string
  al_project_id :: string

record location_row =
  lo_location :: string
  lo_project_id :: string
  lo_priority :: int

record catalog =
  ca_projects :: "project_row list"
  ca_aliases :: "alias_row list"
  ca_locations :: "location_row list"

definition empty_catalog :: catalog where
  "empty_catalog = \<lparr>ca_projects = [], ca_aliases = [], ca_locations = []\<rparr>"

definition committed :: "(catalog, 'a) eff \<Rightarrow> (catalog, 'a) eff" where
  "committed body c = (case body c of (Inl e, _) \<Rightarrow> (Inl e, c) | (Inr x, c') \<Rightarrow> (Inr x, c'))"

definition insert_project :: "project_row \<Rightarrow> (catalog, unit) eff" where
  "insert_project r =
     bnd (check (\<lambda>c. cp_project_id r \<notin> cp_project_id ` set (ca_projects c) \<and> 1 \<le> cp_last_semantic_revision r) IntegrityError) (\<lambda>_.
     modify (\<lambda>c. c\<lparr>ca_projects := ca_projects c @ [r]\<rparr>))"

definition insert_alias :: "alias_row \<Rightarrow> (catalog, unit) eff" where
  "insert_alias r =
     bnd (check (\<lambda>c. al_key r \<notin> al_key ` set (ca_aliases c) \<and> al_project_id r \<in> cp_project_id ` set (ca_projects c)) IntegrityError) (\<lambda>_.
     modify (\<lambda>c. c\<lparr>ca_aliases := ca_aliases c @ [r]\<rparr>))"

definition insert_location :: "location_row \<Rightarrow> (catalog, unit) eff" where
  "insert_location r =
     bnd (check (\<lambda>c. lo_location r \<notin> lo_location ` set (ca_locations c) \<and> lo_project_id r \<in> cp_project_id ` set (ca_projects c)) IntegrityError) (\<lambda>_.
     modify (\<lambda>c. c\<lparr>ca_locations := ca_locations c @ [r]\<rparr>))"

text \<open>\<open>except sqlite3.IntegrityError\<close>\<close>

definition as_conflict :: "(catalog, 'a) eff \<Rightarrow> (catalog, 'a) eff" where
  "as_conflict m = (\<lambda>c. case m c of (Inl e, c') \<Rightarrow> (Inl (if e = IntegrityError then CatalogConflictError else e), c') | (Inr x, c') \<Rightarrow> (Inr x, c'))"

section \<open>Entries\<close>

record catalog_entry =
  en_project_id :: string
  en_primary_name :: string
  en_aliases :: "string list"
  en_locations :: "string list"
  en_location_mode :: string
  en_lifecycle :: string
  en_archived :: bool
  en_last_semantic_revision :: int
  en_runtime_association :: "string option"
  en_reachable :: bool
  en_last_activity :: "string option"
  en_discovery_provenance :: string

definition catalog_entry_to_dict :: "catalog_entry \<Rightarrow> obj" where
  "catalog_entry_to_dict e =
     [(''project_id'', JStr (en_project_id e)), (''primary_name'', JStr (en_primary_name e)), (''aliases'', JArr (map JStr (en_aliases e))),
      (''locations'', JArr (map JStr (en_locations e))), (''location_mode'', JStr (en_location_mode e)), (''lifecycle'', JStr (en_lifecycle e)),
      (''archived'', JBool (en_archived e)), (''last_semantic_revision'', JInt (en_last_semantic_revision e)),
      (''runtime_association'', jopt JStr (en_runtime_association e)), (''reachable'', JBool (en_reachable e)),
      (''last_activity'', jopt JStr (en_last_activity e)), (''discovery_provenance'', JStr (en_discovery_provenance e))]"

definition entry_of :: "catalog \<Rightarrow> project_row \<Rightarrow> catalog_entry" where
  "entry_of c r = \<lparr>en_project_id = cp_project_id r, en_primary_name = cp_primary_name r,
     en_aliases = map al_display_name (sort_key al_key (filter (\<lambda>a. al_project_id a = cp_project_id r) (ca_aliases c))),
     en_locations = map lo_location (sort_key lo_priority (sort_key lo_location (filter (\<lambda>l. lo_project_id l = cp_project_id r) (ca_locations c)))),
     en_location_mode = cp_location_mode r, en_lifecycle = cp_lifecycle r, en_archived = cp_archived r,
     en_last_semantic_revision = cp_last_semantic_revision r, en_runtime_association = cp_runtime_association r, en_reachable = cp_reachable r,
     en_last_activity = cp_last_activity r, en_discovery_provenance = cp_discovery_provenance r\<rparr>"

definition catalog_get :: "string \<Rightarrow> (catalog, catalog_entry) eff" where
  "catalog_get project_id =
     bnd (gets (\<lambda>c. find (\<lambda>r. cp_project_id r = project_id) (ca_projects c))) (\<lambda>found.
     bnd (some_or KeyError found) (\<lambda>row.
     gets (\<lambda>c. entry_of c row)))"

definition catalog_resolve :: "string \<Rightarrow> (catalog, catalog_entry) eff" where
  "catalog_resolve name_or_alias =
     bnd (lift (alias_key name_or_alias)) (\<lambda>key.
     bnd (gets (\<lambda>c. filter (\<lambda>a. al_key a = key) (ca_aliases c))) (\<lambda>rows.
     bnd (req (rows \<noteq> []) KeyError) (\<lambda>_.
     bnd (req (\<not> length rows \<noteq> 1) CatalogConflictError) (\<lambda>_.
     catalog_get (al_project_id (hd rows))))))"

fun get_all :: "string list \<Rightarrow> (catalog, catalog_entry list) eff" where
  "get_all [] = ret []"
| "get_all (i # is) = bnd (catalog_get i) (\<lambda>e. bnd (get_all is) (\<lambda>es. ret (e # es)))"

definition catalog_list :: "(catalog, catalog_entry list) eff" where
  "catalog_list = bnd (gets (\<lambda>c. sort (map cp_project_id (ca_projects c)))) get_all"

section \<open>Changes\<close>

fun insert_aliases :: "alias_row list \<Rightarrow> (catalog, unit) eff" where
  "insert_aliases [] = ret ()"
| "insert_aliases (r # rs) = bnd (insert_alias r) (\<lambda>_. insert_aliases rs)"

record registration =
  rg_project_id :: string
  rg_name :: string
  rg_location :: string
  rg_lifecycle :: string
  rg_last_semantic_revision :: int
  rg_aliases :: "string list"
  rg_location_mode :: string
  rg_discovery_provenance :: string
  rg_last_activity :: "string option"

text \<open>\<open>tuple(dict.fromkeys((name, *aliases)))\<close>\<close>

fun remdups_first :: "string list \<Rightarrow> string list" where
  "remdups_first [] = []"
| "remdups_first (x # xs) = x # remdups_first (removeAll x xs)"

definition register_project :: "(string \<Rightarrow> string) \<Rightarrow> registration \<Rightarrow> (catalog, catalog_entry) eff" where
  "register_project resolve g =
     (let resolved_location = resolve (rg_location g);
          names = remdups_first (rg_name g # rg_aliases g) in
     bnd (committed (as_conflict (
       bnd (insert_project \<lparr>cp_project_id = rg_project_id g, cp_primary_name = rg_name g, cp_location_mode = rg_location_mode g,
         cp_lifecycle = rg_lifecycle g, cp_archived = False, cp_last_semantic_revision = rg_last_semantic_revision g,
         cp_runtime_association = None, cp_reachable = True, cp_last_activity = rg_last_activity g,
         cp_discovery_provenance = rg_discovery_provenance g\<rparr>) (\<lambda>_.
       bnd (lift (rmap (\<lambda>alias. rbind (alias_key alias) (\<lambda>key.
         Inr \<lparr>al_key = key, al_display_name = alias, al_project_id = rg_project_id g\<rparr>)) names)) (\<lambda>rows.
       bnd (insert_aliases rows) (\<lambda>_.
       insert_location \<lparr>lo_location = resolved_location, lo_project_id = rg_project_id g, lo_priority = 0\<rparr>)))))) (\<lambda>_.
     catalog_get (rg_project_id g)))"

definition set_reachable :: "string \<Rightarrow> bool \<Rightarrow> (catalog, unit) eff" where
  "set_reachable project_id reachable = modify (\<lambda>c. c\<lparr>ca_projects :=
     map (\<lambda>r. if cp_project_id r = project_id then r\<lparr>cp_reachable := reachable\<rparr> else r) (ca_projects c)\<rparr>)"

definition reachable_location :: "(string \<Rightarrow> bool) \<Rightarrow> string \<Rightarrow> (catalog, catalog_entry \<times> string) eff" where
  "reachable_location is_dir name_or_alias =
     bnd (catalog_resolve name_or_alias) (\<lambda>e.
     bnd (req (\<not> en_archived e) ProjectUnreachableError) (\<lambda>_.
     case find is_dir (en_locations e) of
       Some candidate \<Rightarrow>
         bnd (set_reachable (en_project_id e) True) (\<lambda>_.
         bnd (catalog_get (en_project_id e)) (\<lambda>e'.
         ret (e', candidate)))
     | None \<Rightarrow> bnd (set_reachable (en_project_id e) False) (\<lambda>_. raise ProjectUnreachableError)))"

definition move_project :: "(string \<Rightarrow> string) \<Rightarrow> string \<Rightarrow> string \<Rightarrow> (catalog, catalog_entry) eff" where
  "move_project resolve project_id location =
     bnd (committed (as_conflict (
       bnd (modify (\<lambda>c. c\<lparr>ca_locations := filter (\<lambda>l. lo_project_id l \<noteq> project_id) (ca_locations c)\<rparr>)) (\<lambda>_.
       insert_location \<lparr>lo_location = resolve location, lo_project_id = project_id, lo_priority = 0\<rparr>)))) (\<lambda>_.
     catalog_get project_id)"

text \<open>The check constraint on the revision is evaluated for a row that is updated, and its violation is not caught.\<close>

definition catalog_record_revision :: "string \<Rightarrow> int \<Rightarrow> string \<Rightarrow> (catalog, catalog_entry) eff" where
  "catalog_record_revision project_id revision activity =
     bnd (committed (
       bnd (gets (\<lambda>c. project_id \<in> cp_project_id ` set (ca_projects c))) (\<lambda>present.
       bnd (req (present \<longrightarrow> 1 \<le> revision) IntegrityError) (\<lambda>_.
       bnd (modify (\<lambda>c. c\<lparr>ca_projects := map (\<lambda>r. if cp_project_id r = project_id
         then r\<lparr>cp_last_semantic_revision := revision, cp_last_activity := Some activity, cp_reachable := True\<rparr> else r) (ca_projects c)\<rparr>)) (\<lambda>_.
       req present KeyError))))) (\<lambda>_.
     catalog_get project_id)"

definition platform_projection :: "(catalog, obj) eff" where
  "platform_projection =
     bnd catalog_list (\<lambda>es.
     ret [(''schema_version'', JStr ''1.0''), (''scope'', JStr ''PLATFORM''), (''authoritative'', JBool False),
       (''derived_from'', JStr ''PROJECT_CATALOG''), (''projects'', JArr (map (\<lambda>e. JObj (catalog_entry_to_dict e)) es))])"

section \<open>Histories\<close>

datatype catalog_call =
    Register registration
  | Move string string
  | Record_Revision string int string
  | Reachable "string \<Rightarrow> bool" string

fun do_catalog :: "(string \<Rightarrow> string) \<Rightarrow> catalog_call \<Rightarrow> (catalog, unit) eff" where
  "do_catalog resolve (Register g) = bnd (register_project resolve g) (\<lambda>_. ret ())"
| "do_catalog resolve (Move i l) = bnd (move_project resolve i l) (\<lambda>_. ret ())"
| "do_catalog resolve (Record_Revision i n a) = bnd (catalog_record_revision i n a) (\<lambda>_. ret ())"
| "do_catalog resolve (Reachable is_dir n) = bnd (reachable_location is_dir n) (\<lambda>_. ret ())"

fun run_catalog :: "(string \<Rightarrow> string) \<Rightarrow> catalog_call list \<Rightarrow> catalog \<Rightarrow> catalog" where
  "run_catalog resolve [] c = c"
| "run_catalog resolve (op # ops) c = run_catalog resolve ops (snd (do_catalog resolve op c))"

definition catalog_ok :: "catalog \<Rightarrow> bool" where
  "catalog_ok c \<longleftrightarrow> distinct (map cp_project_id (ca_projects c)) \<and> distinct (map al_key (ca_aliases c)) \<and> distinct (map lo_location (ca_locations c)) \<and>
     (\<forall>a \<in> set (ca_aliases c). al_project_id a \<in> cp_project_id ` set (ca_projects c)) \<and>
     (\<forall>l \<in> set (ca_locations c). lo_project_id l \<in> cp_project_id ` set (ca_projects c)) \<and>
     (\<forall>r \<in> set (ca_projects c). 1 \<le> cp_last_semantic_revision r)"

text \<open>What every statement keeps: the constraints, the Projects and the aliases there are.\<close>

definition catalog_grows :: "catalog \<Rightarrow> catalog \<Rightarrow> bool" where
  "catalog_grows c c' \<longleftrightarrow> prefix (ca_aliases c) (ca_aliases c') \<and>
     cp_project_id ` set (ca_projects c) \<subseteq> cp_project_id ` set (ca_projects c') \<and> (catalog_ok c \<longrightarrow> catalog_ok c')"

interpretation cg: state_preorder catalog_grows
  by unfold_locales (auto simp: catalog_grows_def)

lemma cg_insert: "keeps catalog_grows (insert_project r)" "keeps catalog_grows (insert_alias a)" "keeps catalog_grows (insert_location l)"
  by (auto simp: keeps_def catalog_grows_def catalog_ok_def insert_project_def insert_alias_def insert_location_def bnd_def ensure_def)

lemma cg_conflict: "keeps catalog_grows m \<Longrightarrow> keeps catalog_grows (as_conflict m)"
  unfolding keeps_def as_conflict_def
  by (metis (no_types, lifting) case_prod_conv old.sum.simps(5) old.sum.simps(6) snd_conv sum.exhaust surj_pair)

lemma cg_committed: "keeps catalog_grows m \<Longrightarrow> keeps catalog_grows (committed m)"
  unfolding keeps_def committed_def using cg.R_refl
  by (metis (no_types, lifting) case_prod_conv old.sum.simps(5) old.sum.simps(6) snd_conv sum.exhaust surj_pair)

lemma cg_edit:
  assumes "\<And>r. cp_project_id (f r) = cp_project_id r" and "\<And>r. 1 \<le> cp_last_semantic_revision r \<Longrightarrow> 1 \<le> cp_last_semantic_revision (f r)"
  shows "keeps catalog_grows (modify (\<lambda>c. c\<lparr>ca_projects := map f (ca_projects c)\<rparr>))"
  using assms by (auto simp: keeps_def catalog_grows_def catalog_ok_def image_image comp_def)

lemma cg_delete: "keeps catalog_grows (modify (\<lambda>c. c\<lparr>ca_locations := filter P (ca_locations c)\<rparr>))"
  by (auto simp: keeps_def catalog_grows_def catalog_ok_def distinct_map_filter)

lemma cg_aliases: "keeps catalog_grows (insert_aliases rs)"
  by (induction rs) (auto intro: cg.keeps_basic cg_insert)

lemmas cg_rules = cg.keeps_basic cg_insert cg_conflict cg_committed cg_delete cg_aliases

lemma cg_get: "keeps catalog_grows (catalog_get i)" "keeps catalog_grows (catalog_resolve n)"
  unfolding catalog_get_def catalog_resolve_def by (intro cg_rules)+

lemma cg_register: "keeps catalog_grows (register_project resolve g)"
  unfolding register_project_def Let_def by (intro cg_rules cg_get)

lemma cg_move: "keeps catalog_grows (move_project resolve i l)"
  unfolding move_project_def by (intro cg_rules cg_get)

lemma cg_reachable: "keeps catalog_grows (reachable_location is_dir n)"
  unfolding reachable_location_def set_reachable_def
  by (intro cg_rules cg_get cg_edit | simp split: option.split)+

lemma cg_record: "keeps catalog_grows (catalog_record_revision i n a)"
proof -
  let ?f = "\<lambda>r. if cp_project_id r = i then r\<lparr>cp_last_semantic_revision := n, cp_last_activity := Some a, cp_reachable := True\<rparr> else r"
  let ?body = "bnd (gets (\<lambda>c. i \<in> cp_project_id ` set (ca_projects c))) (\<lambda>present.
       bnd (req (present \<longrightarrow> 1 \<le> n) IntegrityError) (\<lambda>_.
       bnd (modify (\<lambda>c. c\<lparr>ca_projects := map ?f (ca_projects c)\<rparr>)) (\<lambda>_. req present KeyError)))"
  have "keeps catalog_grows (committed ?body)"
  proof (cases "1 \<le> n")
    case True
    then show ?thesis by (intro cg_rules cg_edit) auto
  next
    case False
    then show ?thesis by (auto simp: keeps_def committed_def bnd_def ensure_def cg.R_refl)
  qed
  then show ?thesis unfolding catalog_record_revision_def by (intro cg.keeps_bnd cg_get)
qed

lemma cg_call: "keeps catalog_grows (do_catalog resolve op)"
  by (cases op) (auto intro!: cg.keeps_basic cg_register cg_move cg_record cg_reachable)

lemma run_catalog_grows: "catalog_grows c (run_catalog resolve ops c)"
proof (induction ops arbitrary: c)
  case (Cons op ops)
  have "catalog_grows c (snd (do_catalog resolve op c))" using cg_call by (simp add: keeps_def)
  with Cons show ?case by (auto intro: cg.R_trans)
qed (simp add: cg.R_refl)

lemma catalog_ok_run: "catalog_ok (run_catalog resolve ops empty_catalog)"
  using run_catalog_grows [of empty_catalog] by (simp add: catalog_grows_def catalog_ok_def empty_catalog_def)

section \<open>Names\<close>

text \<open>In a catalog that satisfies its constraints a key has at most one row, and its Project exists.\<close>

lemma resolve_run:
  assumes ok: "catalog_ok c" and k: "alias_key n = Inr k"
  shows "catalog_resolve n c = (case find (\<lambda>a. al_key a = k) (ca_aliases c) of None \<Rightarrow> (Inl KeyError, c)
     | Some a \<Rightarrow> (case find (\<lambda>r. cp_project_id r = al_project_id a) (ca_projects c) of None \<Rightarrow> (Inl KeyError, c) | Some r \<Rightarrow> (Inr (entry_of c r), c)))"
proof -
  have one: "filter (\<lambda>a. al_key a = k) xs = (case find (\<lambda>a. al_key a = k) xs of None \<Rightarrow> [] | Some a \<Rightarrow> [a])"
    if "distinct (map al_key xs)" for xs :: "alias_row list"
    using that by (induction xs) (auto simp: filter_empty_conv image_iff find_key split: option.splits)
  show ?thesis
    using ok one [of "ca_aliases c"]
    by (auto simp: catalog_resolve_def k catalog_ok_def catalog_get_def bnd_def some_or_def split: option.splits)
qed

lemma resolve_known:
  assumes ok: "catalog_ok c" and k: "alias_key n = Inr k" and a: "a \<in> set (ca_aliases c)" "al_key a = k"
  shows "\<exists>e. catalog_resolve n c = (Inr e, c) \<and> en_project_id e = al_project_id a"
proof -
  have f: "find (\<lambda>b. al_key b = k) (ca_aliases c) = Some a"
    using ok a find_key [of al_key "ca_aliases c" k a] unfolding catalog_ok_def by blast
  obtain r where r: "find (\<lambda>r. cp_project_id r = al_project_id a) (ca_projects c) = Some r"
    using ok a find_key [of cp_project_id "ca_projects c" "al_project_id a"] unfolding catalog_ok_def by fastforce
  then have "cp_project_id r = al_project_id a" by (auto simp: find_Some_iff)
  then show ?thesis unfolding resolve_run [OF ok k] f by (simp add: r entry_of_def)
qed

lemma insert_aliases_Inr: "insert_aliases rs c = (Inr u, c') \<Longrightarrow> ca_aliases c' = ca_aliases c @ rs"
  by (induction rs arbitrary: c) (fastforce simp: insert_alias_def elim!: eff_elims)+

lemma set_remdups_first [simp]: "set (remdups_first xs) = set xs"
  by (induction xs rule: remdups_first.induct) auto

lemma committed_conflict_InrE: "committed (as_conflict m) c = (Inr x, c') \<Longrightarrow> (m c = (Inr x, c') \<Longrightarrow> P) \<Longrightarrow> P"
  by (auto simp: committed_def as_conflict_def split: prod.splits sum.splits)

lemma catalog_get_same: "catalog_get i c = (r, c') \<Longrightarrow> c' = c"
  by (auto simp: catalog_get_def bnd_def some_or_def split: option.splits)

lemma register_aliases:
  assumes "register_project resolve g c = (Inr e, c')" and "m \<in> set (rg_name g # rg_aliases g)" and "alias_key m = Inr k"
  shows "\<exists>a \<in> set (ca_aliases c'). al_key a = k \<and> al_project_id a = rg_project_id g"
proof -
  obtain rows c1 c2 u where r: "rmap (\<lambda>alias. rbind (alias_key alias) (\<lambda>key.
         Inr \<lparr>al_key = key, al_display_name = alias, al_project_id = rg_project_id g\<rparr>)) (remdups_first (rg_name g # rg_aliases g)) = Inr rows"
    and i: "insert_aliases rows c1 = (Inr u, c2)" and c': "ca_aliases c' = ca_aliases c2"
    using assms(1) unfolding register_project_def Let_def
    by (auto simp: insert_location_def simp del: remdups_first.simps elim!: eff_elims committed_conflict_InrE dest!: catalog_get_same)
  have "\<exists>y \<in> set rows. al_key y = k \<and> al_project_id y = rg_project_id g"
    using rmap_image [OF r, of m] assms(2,3) by (intro bexI [of _ "\<lparr>al_key = k, al_display_name = m, al_project_id = rg_project_id g\<rparr>"])
      (auto simp: rbind_Inr_iff simp del: remdups_first.simps)
  then show ?thesis unfolding c' insert_aliases_Inr [OF i] by auto
qed

text \<open>
  A registered name stays bound to its Project. After any history of the catalog, if a registration returns, then after any further operations of it, refused ones included, every
  text that equals one of the registered names up to letter case and white space resolves to that Project, and to no other.
\<close>

theorem registered_name_stable:
  assumes "register_project resolve g (run_catalog resolve ops empty_catalog) = (Inr e, c)"
    and "m \<in> set (rg_name g # rg_aliases g)" and "alias_key m = Inr k" and "alias_key n = Inr k"
  shows "\<exists>e'. catalog_resolve n (run_catalog resolve ops' c) = (Inr e', run_catalog resolve ops' c) \<and> en_project_id e' = rg_project_id g"
proof -
  let ?c = "run_catalog resolve ops' c"
  obtain a where a: "a \<in> set (ca_aliases c)" "al_key a = k" "al_project_id a = rg_project_id g"
    using register_aliases [OF assms(1-3)] by blast
  have "catalog_grows (run_catalog resolve ops empty_catalog) c"
    using cg_register [of resolve g] assms(1) by (metis keeps_def snd_conv)
  then have "catalog_ok c" using catalog_ok_run by (simp add: catalog_grows_def)
  then have "catalog_ok ?c" "a \<in> set (ca_aliases ?c)"
    using run_catalog_grows [of c resolve ops'] a by (auto simp: catalog_grows_def dest: set_mono_prefix)
  from resolve_known [OF this(1) assms(4) this(2) a(2)] a(3) show ?thesis by simp
qed

definition sample_registration :: registration where
  "sample_registration = \<lparr>rg_project_id = ''P'', rg_name = ''My  App'', rg_location = ''/p'', rg_lifecycle = ''GREENFIELD'', rg_last_semantic_revision = 1,
     rg_aliases = [''app''], rg_location_mode = ''local'', rg_discovery_provenance = ''created'', rg_last_activity = None\<rparr>"

theorem registered_name_stable_witness:
  "\<exists>e c e'. register_project id sample_registration (run_catalog id [] empty_catalog) = (Inr e, c) \<and>
     catalog_resolve '' my app'' (run_catalog id [Move ''P'' ''/q'', Register sample_registration] c) =
       (Inr e', run_catalog id [Move ''P'' ''/q'', Register sample_registration] c) \<and> en_project_id e' = ''P''"
proof -
  have "case register_project id sample_registration (run_catalog id [] empty_catalog) of (Inl _, _) \<Rightarrow> False | (Inr _, _) \<Rightarrow> True" by code_simp
  then obtain e c where r: "register_project id sample_registration (run_catalog id [] empty_catalog) = (Inr e, c)"
    by (auto split: prod.splits sum.splits)
  have k: "alias_key ''My  App'' = Inr ''my app''" "alias_key '' my app'' = Inr ''my app''" by code_simp+
  have m: "''My  App'' \<in> set (rg_name sample_registration # rg_aliases sample_registration)" by (simp add: sample_registration_def)
  have p: "rg_project_id sample_registration = ''P''" by (simp add: sample_registration_def)
  from registered_name_stable [OF r m k, of "[Move ''P'' ''/q'', Register sample_registration]"] r show ?thesis unfolding p by blast
qed

end
