(* ===== verification/Change_Sets.thy ===== *)
theory Change_Sets
  imports Authority_Laws
begin

text \<open>
  Models \<open>src/artifex/project/changeset.py\<close>: change sets of a brownfield Project, their lifecycle and their storage as JSON documents.
\<close>

section \<open>Change sets\<close>

datatype change_set_status = CS_PROPOSED | CS_ACCEPTED | CS_IMPLEMENTING | CS_VERIFIED | CS_APPLIED | CS_ARCHIVED

fun change_set_status_value :: "change_set_status \<Rightarrow> string" where
  "change_set_status_value CS_PROPOSED = ''PROPOSED''"
| "change_set_status_value CS_ACCEPTED = ''ACCEPTED''"
| "change_set_status_value CS_IMPLEMENTING = ''IMPLEMENTING''"
| "change_set_status_value CS_VERIFIED = ''VERIFIED''"
| "change_set_status_value CS_APPLIED = ''APPLIED''"
| "change_set_status_value CS_ARCHIVED = ''ARCHIVED''"

definition to_change_set_status :: "string \<Rightarrow> change_set_status res" where
  "to_change_set_status = member_of change_set_status_value [CS_PROPOSED, CS_ACCEPTED, CS_IMPLEMENTING, CS_VERIFIED, CS_APPLIED, CS_ARCHIVED]"

lemma to_change_set_status_value [simp]: "to_change_set_status (change_set_status_value x) = Inr x"
  by (cases x) (simp_all add: to_change_set_status_def member_of_def)

text \<open>\<open>_NEXT_STATUS.get\<close>\<close>

fun next_status :: "change_set_status \<Rightarrow> change_set_status option" where
  "next_status CS_PROPOSED = Some CS_ACCEPTED"
| "next_status CS_ACCEPTED = Some CS_IMPLEMENTING"
| "next_status CS_IMPLEMENTING = Some CS_VERIFIED"
| "next_status CS_VERIFIED = Some CS_APPLIED"
| "next_status CS_APPLIED = Some CS_ARCHIVED"
| "next_status CS_ARCHIVED = None"

record change_set =
  cs_id :: string
  cs_title :: string
  cs_description :: string
  cs_affected_artifacts :: "string list"
  cs_status :: change_set_status
  cs_baseline_commit :: "string option"

definition change_set_init :: "change_set \<Rightarrow> change_set res" where
  "change_set_init c =
     rbind (require_value (prefix ''CHG-'' (cs_id c))) (\<lambda>_.
     rbind (require_value (\<not> (blank (cs_title c) \<or> blank (cs_description c)))) (\<lambda>_.
     Inr c))"

text \<open>\<open>ChangeSet.transition\<close>; \<open>audited\<close> tells whether an audit log is given.\<close>

definition change_set_transition :: "project_env \<Rightarrow> change_set \<Rightarrow> string \<Rightarrow> string \<Rightarrow> bool \<Rightarrow> string option \<Rightarrow> (project_state, change_set) eff" where
  "change_set_transition env c target actor audited commit =
     bnd (lift (case to_change_set_status target of Inl _ \<Rightarrow> Inl InvalidTransitionError | Inr s \<Rightarrow> Inr s)) (\<lambda>status.
     bnd (req (Some status = next_status (cs_status c)) InvalidTransitionError) (\<lambda>_.
     bnd (lift (change_set_init (c\<lparr>cs_status := status\<rparr>))) (\<lambda>updated.
     bnd (if audited
          then bnd (new_event env ''CHANGESET_TRANSITION'' actor
            [(''changeset_id'', JStr (cs_id c)), (''from'', JStr (change_set_status_value (cs_status c))),
             (''to'', JStr (change_set_status_value status))] commit) (append_event env)
          else ret ()) (\<lambda>_.
     ret updated))))"

definition change_set_to_dict :: "change_set \<Rightarrow> obj" where
  "change_set_to_dict c =
     [(''id'', JStr (cs_id c)), (''title'', JStr (cs_title c)), (''description'', JStr (cs_description c)),
      (''affected_artifacts'', JArr (map JStr (cs_affected_artifacts c))), (''status'', JStr (change_set_status_value (cs_status c))),
      (''baseline_commit'', jopt JStr (cs_baseline_commit c))]"

text \<open>An array; a JSON text is a sequence in Python and is refused like every other value.\<close>

fun array_of :: "json \<Rightarrow> json list res" where
  "array_of (JArr xs) = Inr xs"
| "array_of _ = Inl ValueError"

definition change_set_from_dict :: "py_float \<Rightarrow> obj \<Rightarrow> change_set res" where
  "change_set_from_dict py v =
     rbind (array_of (item_or v ''affected_artifacts'' (JArr []))) (\<lambda>affected.
     rbind (rbind (item v ''id'') (\<lambda>j. stable_id (py_str py j))) (\<lambda>i.
     rbind (rbind (item v ''title'') (\<lambda>j. Inr (py_str py j))) (\<lambda>title.
     rbind (rbind (item v ''description'') (\<lambda>j. Inr (py_str py j))) (\<lambda>description.
     rbind (rmap (\<lambda>j. stable_id (py_str py j)) affected) (\<lambda>ids.
     rbind (to_change_set_status (py_str py (item_or v ''status'' (JStr ''PROPOSED'')))) (\<lambda>status.
     change_set_init \<lparr>cs_id = i, cs_title = title, cs_description = description, cs_affected_artifacts = ids, cs_status = status,
       cs_baseline_commit = str_or_none py (item_or v ''baseline_commit'' JNull)\<rparr>))))))"

section \<open>Storage\<close>

definition rstrip_slashes :: "string \<Rightarrow> string" where
  "rstrip_slashes s = rev (dropWhile (\<lambda>c. c = CHR ''/'' \<or> ccode c = 92) (rev s))"

definition change_set_path :: "string \<Rightarrow> string \<Rightarrow> string res" where
  "change_set_path directory i =
     rbind (require_value (prefix ''CHG-'' i)) (\<lambda>_. Inr (rstrip_slashes directory @ ''/'' @ i @ ''.json''))"

definition save_change_set :: "project_env \<Rightarrow> string \<Rightarrow> change_set \<Rightarrow> (project_state, string) eff" where
  "save_change_set env directory c =
     bnd (lift (change_set_path directory (cs_id c))) (\<lambda>path.
     bnd (write_atomic env path (JObj (change_set_to_dict c))) (\<lambda>_.
     ret path))"

definition load_change_set :: "project_env \<Rightarrow> string \<Rightarrow> string \<Rightarrow> (project_state, change_set) eff" where
  "load_change_set env directory changeset_id =
     bnd (lift (stable_id changeset_id)) (\<lambda>i.
     bnd (lift (change_set_path directory i)) (\<lambda>path.
     as_corrupt (
       bnd (read_file env path) (\<lambda>f.
       lift (rbind (loads f) (\<lambda>j. rbind (mapping_of j) (change_set_from_dict (pe_float env))))))))"

definition change_set_directory :: string where
  "change_set_directory = ''.artifex/changesets''"

section \<open>Round trip\<close>

definition change_set_ok :: "change_set \<Rightarrow> bool" where
  "change_set_ok c \<longleftrightarrow> change_set_init c = Inr c \<and> stable_text (cs_id c) \<and> list_all stable_text (cs_affected_artifacts c)"

lemma change_set_json: "change_set_ok c \<Longrightarrow> change_set_from_dict py (change_set_to_dict c) = Inr c"
proof -
  have ids: "list_all stable_text xs \<Longrightarrow> rmap (\<lambda>j. stable_id (py_str py j)) (map JStr xs) = Inr xs" for xs
    by (induction xs) (simp_all add: stable_text_def)
  assume "change_set_ok c"
  then show ?thesis
    by (cases c) (simp add: change_set_ok_def change_set_from_dict_def change_set_to_dict_def stable_text_def ids)
qed

lemma stable_rmap_text: "rmap (\<lambda>j. stable_id (g j)) xs = Inr ys \<Longrightarrow> list_all stable_text ys"
  by (induction xs arbitrary: ys) (auto simp: rbind_Inr_iff intro: stable_textI)

lemma change_set_decoded_ok: "change_set_from_dict py v = Inr c \<Longrightarrow> change_set_ok c"
  by (auto simp: change_set_from_dict_def change_set_ok_def change_set_init_def rbind_Inr_iff intro: stable_textI stable_rmap_text)

lemma change_set_id_chars:
  assumes "stable_text i"
  shows "list_all proposal_char i"
proof -
  have "id_text i" using assms stable_id_text [of i i] by (simp add: stable_text_def)
  then show ?thesis by (auto simp: id_text_def list_all_iff id_char_def proposal_char_def)
qed

lemma change_set_path_ok:
  assumes env: "plain_layout env" and i: "stable_text i" "prefix ''CHG-'' i"
  obtains path where "change_set_path change_set_directory i = Inr path" and "resolve_inside env path = Inr path"
proof -
  let ?p = "''.artifex/changesets/'' @ i @ ''.json''"
  have dir: "rstrip_slashes change_set_directory = ''.artifex/changesets''" by code_simp
  have "i \<noteq> ''CHG-''"
  proof
    assume "i = ''CHG-''"
    moreover have "stable_id ''CHG-'' = Inl ValueError" by code_simp
    ultimately show False using i(1) by (simp add: stable_text_def)
  qed
  with i(2) have len: "4 < length i" by (auto simp: prefix_def)
  note chars = change_set_id_chars [OF i(1)]
  have norm: "normalize_relative_path ?p = Inr ?p" using normalize_named [OF chars len, of "''changesets''"] by simp
  have "CHR 0x5C \<notin> set ?p" using chars proposal_char_codes by (auto simp: list_all_iff)
  then have "resolve_inside env ?p = Inr ?p" using resolve_control [OF env, of ?p] norm by simp
  then show ?thesis by (intro that [of ?p]) (simp_all add: change_set_path_def require_value_def i(2) dir)
qed

text \<open>
  Change sets survive storage. Every valid change set is saved to a document of its own, and loading its identifier returns exactly it; whatever a
  document holds, what is loaded from it is a valid change set.
\<close>

theorem change_set_roundtrip:
  assumes env: "plain_layout env" and c: "change_set_ok c"
  shows "\<exists>path s'. save_change_set env change_set_directory c s = (Inr path, s') \<and>
    load_change_set env change_set_directory (cs_id c) s' = (Inr c, s') \<and>
    (\<forall>i d t t'. load_change_set env change_set_directory i t = (Inr d, t') \<longrightarrow> change_set_ok d)"
proof -
  have id: "stable_text (cs_id c)" "prefix ''CHG-'' (cs_id c)"
    using c by (auto simp: change_set_ok_def change_set_init_def rbind_Inr_iff require_value_def)
  obtain path where p: "change_set_path change_set_directory (cs_id c) = Inr path" and r: "resolve_inside env path = Inr path"
    by (rule change_set_path_ok [OF env id])
  let ?s = "s\<lparr>pj_files := AList.update path (Document (JObj (change_set_to_dict c))) (pj_files s)\<rparr>"
  have "save_change_set env change_set_directory c s = (Inr path, ?s)"
    by (simp add: save_change_set_def p write_atomic_def r)
  moreover have "load_change_set env change_set_directory (cs_id c) ?s = (Inr c, ?s)"
    using id(1) change_set_json [OF c, of "pe_float env"]
    by (simp add: load_change_set_def stable_text_def p as_corrupt_def read_file_run r AList.update_conv')
  moreover have "change_set_ok d" if "load_change_set env change_set_directory i t = (Inr d, t')" for i d t t'
    using that change_set_decoded_ok [of "pe_float env"]
    by (auto simp: load_change_set_def as_corrupt_def rbind_Inr_iff elim!: eff_elims split: prod.splits sum.splits)
  ultimately show ?thesis by blast
qed

theorem change_set_roundtrip_witness:
  "\<exists>path s'. save_change_set \<lparr>pe_now = \<lambda>_. ''2026'', pe_uuid = \<lambda>_. ''7f'', pe_sha = \<lambda>_. [], pe_float = no_floats, pe_resolve = Some\<rparr> change_set_directory
      \<lparr>cs_id = ''CHG-1'', cs_title = ''t'', cs_description = ''d'', cs_affected_artifacts = [''REQ-F-001''], cs_status = CS_ACCEPTED, cs_baseline_commit = None\<rparr>
      \<lparr>pj_files = [], pj_audit = None, pj_ticks = 0, pj_draws = 0\<rparr> = (Inr path, s') \<and>
    load_change_set \<lparr>pe_now = \<lambda>_. ''2026'', pe_uuid = \<lambda>_. ''7f'', pe_sha = \<lambda>_. [], pe_float = no_floats, pe_resolve = Some\<rparr> change_set_directory ''CHG-1'' s' =
      (Inr \<lparr>cs_id = ''CHG-1'', cs_title = ''t'', cs_description = ''d'', cs_affected_artifacts = [''REQ-F-001''], cs_status = CS_ACCEPTED, cs_baseline_commit = None\<rparr>, s')"
proof -
  let ?env = "\<lparr>pe_now = \<lambda>_. ''2026'', pe_uuid = \<lambda>_. ''7f'', pe_sha = \<lambda>_. [], pe_float = no_floats, pe_resolve = Some\<rparr>"
  let ?c = "\<lparr>cs_id = ''CHG-1'', cs_title = ''t'', cs_description = ''d'', cs_affected_artifacts = [''REQ-F-001''], cs_status = CS_ACCEPTED, cs_baseline_commit = None\<rparr>"
  have env: "plain_layout ?env" by (simp add: plain_layout_def)
  have c: "change_set_ok ?c" by code_simp
  have i: "cs_id ?c = ''CHG-1''" by simp
  from change_set_roundtrip [OF env c, of "\<lparr>pj_files = [], pj_audit = None, pj_ticks = 0, pj_draws = 0\<rparr>"] show ?thesis unfolding i by blast
qed

section \<open>Lifecycle\<close>

text \<open>A list of transitions: target, actor, whether it is audited, and the commit.\<close>

fun run_transitions :: "project_env \<Rightarrow> (string \<times> string \<times> bool \<times> string option) list \<Rightarrow> change_set \<Rightarrow> (project_state, change_set) eff" where
  "run_transitions env [] c = ret c"
| "run_transitions env ((target, actor, au, commit) # ts) c = bnd (change_set_transition env c target actor au commit) (run_transitions env ts)"

definition status_order :: "change_set_status list" where
  "status_order = [CS_PROPOSED, CS_ACCEPTED, CS_IMPLEMENTING, CS_VERIFIED, CS_APPLIED, CS_ARCHIVED]"

lemma length_status_order: "length status_order = 6"
  by (simp add: status_order_def)

lemma next_status_order: "next_status s = Some t \<Longrightarrow> k < 6 \<Longrightarrow> s = status_order ! k \<Longrightarrow> Suc k < 6 \<and> t = status_order ! Suc k"
  by (auto simp: status_order_def less_Suc_eq numeral_eq_Suc)

lemma transition_Inr:
  assumes "change_set_transition env c target actor au commit s = (Inr c', s')"
  obtains t where "next_status (cs_status c) = Some t" and "c' = c\<lparr>cs_status := t\<rparr>" and "target = change_set_status_value t"
proof -
  obtain t where "to_change_set_status target = Inr t" "next_status (cs_status c) = Some t" "c' = c\<lparr>cs_status := t\<rparr>"
    using assms by (auto simp: change_set_transition_def change_set_init_def rbind_Inr_iff elim!: eff_elims split: sum.splits)
  then show ?thesis using that member_of_Inr [of change_set_status_value] by (auto simp: to_change_set_status_def)
qed

theorem change_set_in_order:
  assumes "run_transitions env ts c s = (Inr c', s')" and "k < 6" and "cs_status c = status_order ! k"
  shows "k + length ts < 6 \<and> c' = c\<lparr>cs_status := status_order ! (k + length ts)\<rparr> \<and>
    map fst ts = map change_set_status_value (take (length ts) (drop (Suc k) status_order))"
  using assms
proof (induction ts arbitrary: c s k)
  case (Cons x ts)
  obtain target actor au commit where x: "x = (target, actor, au, commit)" by (cases x)
  obtain c1 s1 where 1: "change_set_transition env c target actor au commit s = (Inr c1, s1)" and 2: "run_transitions env ts c1 s1 = (Inr c', s')"
    using Cons.prems(1) x by (auto elim!: bnd_InrE)
  obtain t where t: "next_status (cs_status c) = Some t" "c1 = c\<lparr>cs_status := t\<rparr>" "target = change_set_status_value t" by (rule transition_Inr [OF 1])
  have k: "Suc k < 6" "t = status_order ! Suc k" using next_status_order [OF t(1) Cons.prems(2,3)] by simp_all
  note IH = Cons.IH [OF 2 k(1)]
  have "drop (Suc k) status_order = t # drop (Suc (Suc k)) status_order"
    using Cons_nth_drop_Suc [of "Suc k" status_order] k by (simp add: length_status_order)
  then show ?case using IH k t x by simp
qed simp

end
