(* ===== verification/Artifact_Index.thy ===== *)
theory Artifact_Index
  imports Project_Store
begin

text \<open>
  Models \<open>src/artifex/project/index.py\<close>: the in-memory index of the artifacts of a Project, the propagation of
  staleness along dependencies, and the detection of edits made outside Artifex. SHA-256 of a file is the parameter \<open>digest\<close>; the parser
  is an argument of \<open>build_index\<close>, as it is in the source.
\<close>

section \<open>The index\<close>

text \<open>The two dictionaries, in insertion order.\<close>

record artifact_index =
  ix_artifacts :: "(string \<times> artifact) list"
  ix_paths :: "(string \<times> string) list"

definition empty_index :: artifact_index where
  "empty_index = \<lparr>ix_artifacts = [], ix_paths = []\<rparr>"

definition index_add :: "artifact \<Rightarrow> artifact_index \<Rightarrow> artifact_index res" where
  "index_add a ix =
     rbind (ensure (map_of (ix_artifacts ix) (ar_id a) = None) DuplicateArtifactError) (\<lambda>_.
     rbind (ensure (map_of (ix_paths ix) (ar_path a) = None) DuplicateArtifactError) (\<lambda>_.
     Inr \<lparr>ix_artifacts = AList.update (ar_id a) a (ix_artifacts ix), ix_paths = AList.update (ar_path a) (ar_id a) (ix_paths ix)\<rparr>))"

fun add_all :: "artifact list \<Rightarrow> artifact_index \<Rightarrow> artifact_index res" where
  "add_all [] ix = Inr ix"
| "add_all (a # as) ix = rbind (index_add a ix) (add_all as)"

definition index_init :: "artifact list \<Rightarrow> artifact_index res" where
  "index_init as = add_all as empty_index"

text \<open>The property \<open>artifacts\<close>\<close>

definition index_artifacts :: "artifact_index \<Rightarrow> artifact list" where
  "index_artifacts ix = sort_key ar_id (map snd (ix_artifacts ix))"

text \<open>A stable identifier is its text, which parses to itself.\<close>

definition index_get :: "string \<Rightarrow> artifact_index \<Rightarrow> artifact res" where
  "index_get i ix =
     rbind (stable_id i) (\<lambda>k.
     case map_of (ix_artifacts ix) k of None \<Rightarrow> Inl KeyError | Some a \<Rightarrow> Inr a)"

section \<open>Building the index\<close>

definition lower :: "string \<Rightarrow> string" where
  "lower s = concat (map (\<lambda>c. let n = ccode c in
     if (65 \<le> n \<and> n \<le> 90) \<or> (192 \<le> n \<and> n \<le> 222 \<and> n \<noteq> 215) then [char_of (n + 32)] else [c]) s)"

definition indexed_suffix :: "string \<Rightarrow> bool" where
  "indexed_suffix path = list_ex (\<lambda>x. suffix x (lower path)) [''.md'', ''.markdown'', ''.yaml'', ''.yml'', ''.json'']"

fun build_from :: "project_env \<Rightarrow> (string \<Rightarrow> file_content \<Rightarrow> string option \<Rightarrow> artifact res) \<Rightarrow> string option \<Rightarrow> bool \<Rightarrow> string list \<Rightarrow>
    artifact_index \<Rightarrow> (project_state, artifact_index) eff" where
  "build_from env parse commit strict [] ix = ret ix"
| "build_from env parse commit strict (p # ps) ix =
     (if \<not> indexed_suffix p then build_from env parse commit strict ps ix
      else bnd (read_file env p) (\<lambda>content.
        case parse p content commit of
          Inl e \<Rightarrow> if e = ArtifactCorruptError \<and> \<not> strict then build_from env parse commit strict ps ix else raise e
        | Inr a \<Rightarrow> bnd (lift (index_add a ix)) (build_from env parse commit strict ps)))"

definition build_index :: "project_env \<Rightarrow> (string \<Rightarrow> file_content \<Rightarrow> string option \<Rightarrow> artifact res) \<Rightarrow> string list option \<Rightarrow> string option \<Rightarrow>
    bool \<Rightarrow> (project_state, artifact_index) eff" where
  "build_index env parse paths commit strict =
     bnd (case paths of Some ps \<Rightarrow> ret ps | None \<Rightarrow> bnd (gets iter_files) lift) (\<lambda>ps.
     build_from env parse commit strict ps empty_index)"

section \<open>Staleness\<close>

text \<open>\<open>sorted(reverse[dependency], key=str)\<close>\<close>

definition dependents :: "artifact_index \<Rightarrow> string \<Rightarrow> string list" where
  "dependents ix d = sort (remdups (map (\<lambda>(_, a). ar_id a) (filter (\<lambda>(_, a). d \<in> set (ar_depends_on a)) (ix_artifacts ix))))"

fun enqueue :: "string list \<Rightarrow> string list \<Rightarrow> string list \<Rightarrow> string list \<times> string list" where
  "enqueue [] queue stale = (queue, stale)"
| "enqueue (d # ds) queue stale =
     (if d \<in> set stale then enqueue ds queue stale else enqueue ds (queue @ [d]) (d # stale))"

text \<open>What the loop has still to do: pop the queue, and push each artifact that is not stale yet once.\<close>

definition known_ids :: "artifact_index \<Rightarrow> string set" where
  "known_ids ix = (\<lambda>(_, a). ar_id a) ` set (ix_artifacts ix)"

lemma finite_known_ids [simp]: "finite (known_ids ix)"
  by (simp add: known_ids_def)

lemma set_dependents: "set (dependents ix d) = {ar_id a |k a. (k, a) \<in> set (ix_artifacts ix) \<and> d \<in> set (ar_depends_on a)}"
  by (force simp: dependents_def)

lemma dependents_known: "set (dependents ix d) \<subseteq> known_ids ix"
  unfolding set_dependents known_ids_def by force

lemma enqueue_card:
  assumes "enqueue ds queue stale = (queue', stale')" and "set ds \<subseteq> K" and "finite K"
  shows "card (K - set stale') + length queue' = card (K - set stale) + length queue"
  using assms(1,2)
proof (induction ds arbitrary: queue stale)
  case (Cons d ds)
  show ?case
  proof (cases "d \<in> set stale")
    case False
    have "K - set (d # stale) = (K - set stale) - {d}" by auto
    with False Cons.prems assms(3) have "Suc (card (K - set (d # stale))) = card (K - set stale)"
      by (metis Diff_iff card_Suc_Diff1 finite_Diff list.set_intros(1) subset_iff)
    with False Cons show ?thesis by fastforce
  qed (use Cons in auto)
qed simp

function spread :: "artifact_index \<Rightarrow> string list \<Rightarrow> string list \<Rightarrow> string list" where
  "spread ix [] stale = stale"
| "spread ix (d # queue) stale = (case enqueue (dependents ix d) queue stale of (queue', stale') \<Rightarrow> spread ix queue' stale')"
  by pat_completeness auto
termination
proof (relation "measure (\<lambda>(ix, queue, stale). card (known_ids ix - set stale) + length queue)")
  fix ix d queue stale queue' stale'
  assume "(queue', stale') = enqueue (dependents ix d) queue stale"
  then have "card (known_ids ix - set stale') + length queue' = card (known_ids ix - set stale) + length queue"
    by (intro enqueue_card [of "dependents ix d"]) (simp_all add: dependents_known)
  then show "((ix, queue', stale'), ix, d # queue, stale) \<in> measure (\<lambda>(ix, queue, stale). card (known_ids ix - set stale) + length queue)"
    by simp
qed simp

text \<open>\<open>stale: set = set(queue)\<close>, and the sorted result\<close>

definition stale_closure :: "string list \<Rightarrow> artifact_index \<Rightarrow> string list res" where
  "stale_closure changed ix =
     rbind (rmap stable_id changed) (\<lambda>queue.
     Inr (sort (remdups (spread ix queue queue))))"

definition mark_one :: "string \<Rightarrow> artifact_index \<Rightarrow> artifact_index" where
  "mark_one i ix = (case map_of (ix_artifacts ix) i of None \<Rightarrow> ix
     | Some a \<Rightarrow> if ar_status a = AS_SUPERSEDED then ix
        else ix\<lparr>ix_artifacts := AList.update i (a\<lparr>ar_status := AS_STALE\<rparr>) (ix_artifacts ix)\<rparr>)"

definition mark_stale :: "string list \<Rightarrow> artifact_index \<Rightarrow> (string list \<times> artifact_index) res" where
  "mark_stale changed ix =
     rbind (stale_closure changed ix) (\<lambda>stale.
     Inr (stale, fold mark_one stale ix))"

section \<open>Reconciliation\<close>

record reconciliation_event =
  re_artifact_id :: string
  re_path :: string
  re_previous_fingerprint :: string
  re_current_fingerprint :: "string option"
  re_stale_artifacts :: "string list"
  re_observed_at :: string
  re_kind :: string

definition reconciliation_event_to_dict :: "reconciliation_event \<Rightarrow> obj" where
  "reconciliation_event_to_dict e =
     [(''kind'', JStr (re_kind e)), (''artifact_id'', JStr (re_artifact_id e)), (''path'', JStr (re_path e)),
      (''previous_fingerprint'', JStr (re_previous_fingerprint e)), (''current_fingerprint'', jopt JStr (re_current_fingerprint e)),
      (''stale_artifacts'', JArr (map JStr (re_stale_artifacts e))), (''observed_at'', JStr (re_observed_at e))]"

definition file_fingerprint :: "(file_content \<Rightarrow> string) \<Rightarrow> project_env \<Rightarrow> string \<Rightarrow> (project_state, string) eff" where
  "file_fingerprint digest env path = bnd (read_file env path) (\<lambda>f. ret (digest f))"

definition observed_fingerprint :: "(file_content \<Rightarrow> string) \<Rightarrow> project_env \<Rightarrow> string \<Rightarrow> (project_state, string option) eff" where
  "observed_fingerprint digest env path =
     bnd (file_exists env path) (\<lambda>present.
     if present then bnd (file_fingerprint digest env path) (\<lambda>f. ret (Some f)) else ret None)"

fun changed_artifacts :: "(file_content \<Rightarrow> string) \<Rightarrow> project_env \<Rightarrow> artifact list \<Rightarrow> (project_state, (artifact \<times> string option) list) eff" where
  "changed_artifacts digest env [] = ret []"
| "changed_artifacts digest env (a # as) =
     bnd (observed_fingerprint digest env (ar_path a)) (\<lambda>cur.
     bnd (changed_artifacts digest env as) (\<lambda>rest.
     ret (if cur \<noteq> Some (ar_fingerprint a) then (a, cur) # rest else rest)))"

definition refresh :: "artifact \<times> string option \<Rightarrow> artifact_index \<Rightarrow> artifact_index" where
  "refresh c ix = (case c of (a, None) \<Rightarrow> ix
     | (a, Some f) \<Rightarrow> (case map_of (ix_artifacts ix) (ar_id a) of None \<Rightarrow> ix
         | Some b \<Rightarrow> ix\<lparr>ix_artifacts := AList.update (ar_id a) (b\<lparr>ar_fingerprint := f\<rparr>) (ix_artifacts ix)\<rparr>))"

definition change_event :: "string list \<Rightarrow> string \<Rightarrow> artifact \<times> string option \<Rightarrow> reconciliation_event" where
  "change_event stale timestamp c = (case c of (a, cur) \<Rightarrow>
     \<lparr>re_artifact_id = ar_id a, re_path = ar_path a, re_previous_fingerprint = ar_fingerprint a, re_current_fingerprint = cur,
      re_stale_artifacts = stale, re_observed_at = timestamp,
      re_kind = (if cur = None then ''EXTERNAL_DELETE'' else ''EXTERNAL_EDIT'')\<rparr>)"

text \<open>The events together with the index afterwards; nothing raises once the index has changed.\<close>

definition reconcile_index :: "(file_content \<Rightarrow> string) \<Rightarrow> project_env \<Rightarrow> string option \<Rightarrow> artifact_index \<Rightarrow>
    (project_state, reconciliation_event list \<times> artifact_index) eff" where
  "reconcile_index digest env observed_at ix =
     bnd (case observed_at of Some t \<Rightarrow> ret t | None \<Rightarrow> now_text env) (\<lambda>timestamp.
     bnd (changed_artifacts digest env (index_artifacts ix)) (\<lambda>changed.
     if changed = [] then ret ([], ix)
     else
       bnd (lift (mark_stale (map (ar_id \<circ> fst) changed) ix)) (\<lambda>(stale, ix').
       ret (map (change_event stale timestamp) changed, fold refresh changed ix'))))"

section \<open>What staleness is\<close>

text \<open>The reference definition: whatever depends on a changed artifact, directly or through others.\<close>

definition dependency :: "artifact_index \<Rightarrow> (string \<times> string) set" where
  "dependency ix = {(d, ar_id a) |d k a. (k, a) \<in> set (ix_artifacts ix) \<and> d \<in> set (ar_depends_on a)}"

lemma dependents_dependency: "set (dependents ix d) = dependency ix `` {d}"
  unfolding set_dependents dependency_def by blast

lemma enqueue_sets:
  "enqueue ds queue stale = (queue', stale') \<Longrightarrow> set stale' = set stale \<union> set ds \<and> set queue' = set queue \<union> (set ds - set stale)"
  by (induction ds queue stale rule: enqueue.induct) (auto split: if_splits)

lemma spread_sound: "set queue \<subseteq> set stale \<Longrightarrow> set (spread ix queue stale) \<subseteq> (dependency ix)\<^sup>* `` set stale"
proof (induction ix queue stale rule: spread.induct)
  case (2 ix d queue stale)
  obtain queue' stale' where e: "enqueue (dependents ix d) queue stale = (queue', stale')" by fastforce
  note sets = enqueue_sets [OF e, unfolded dependents_dependency]
  have "set (spread ix queue' stale') \<subseteq> (dependency ix)\<^sup>* `` set stale'" using 2 e sets by auto
  also have "\<dots> \<subseteq> (dependency ix)\<^sup>* `` set stale" using 2(2) sets by (auto intro: converse_rtrancl_into_rtrancl)
  finally show ?case using e by simp
qed auto

lemma spread_closed:
  assumes "set queue \<subseteq> set stale" and "\<And>x. x \<in> set stale - set queue \<Longrightarrow> dependency ix `` {x} \<subseteq> set stale"
  shows "set stale \<subseteq> set (spread ix queue stale) \<and> dependency ix `` set (spread ix queue stale) \<subseteq> set (spread ix queue stale)"
  using assms
proof (induction ix queue stale rule: spread.induct)
  case (2 ix d queue stale)
  obtain queue' stale' where e: "enqueue (dependents ix d) queue stale = (queue', stale')" by fastforce
  note sets = enqueue_sets [OF e, unfolded dependents_dependency]
  have step: "dependency ix `` {x} \<subseteq> set stale'" if "x \<in> set stale' - set queue'" for x
    using that 2(3) [of x] sets by (cases "x = d") auto
  have "set stale' \<subseteq> set (spread ix queue' stale') \<and> dependency ix `` set (spread ix queue' stale') \<subseteq> set (spread ix queue' stale')"
    by (rule 2(1) [OF e [symmetric]]) (use sets step 2(2) in auto)
  then show ?case using e sets by auto
qed auto

lemma spread_exact: "set (spread ix queue queue) = (dependency ix)\<^sup>* `` set queue"
proof
  show "set (spread ix queue queue) \<subseteq> (dependency ix)\<^sup>* `` set queue" by (rule spread_sound) simp
  let ?S = "set (spread ix queue queue)"
  have closed: "set queue \<subseteq> ?S" "dependency ix `` ?S \<subseteq> ?S" using spread_closed [of queue queue ix] by simp_all
  have "y \<in> ?S" if "(x, y) \<in> (dependency ix)\<^sup>*" "x \<in> set queue" for x y
    using that closed by (induction rule: rtrancl_induct) auto
  then show "(dependency ix)\<^sup>* `` set queue \<subseteq> ?S" by blast
qed

lemma stale_closure_run:
  assumes "rmap stable_id changed = Inr ids"
  obtains stale where "stale_closure changed ix = Inr stale" and "sorted stale" and "distinct stale" and "set stale = (dependency ix)\<^sup>* `` set ids"
  using assms that by (simp add: stale_closure_def spread_exact)

section \<open>Marking\<close>

definition index_ok :: "artifact_index \<Rightarrow> bool" where
  "index_ok ix \<longleftrightarrow> distinct (map fst (ix_artifacts ix)) \<and> (\<forall>(k, a) \<in> set (ix_artifacts ix). ar_id a = k \<and> stable_id k = Inr k) \<and>
     (\<forall>i p. map_of (ix_paths ix) p = Some i \<longleftrightarrow> (\<exists>a. map_of (ix_artifacts ix) i = Some a \<and> ar_path a = p))"

definition stale_mark :: "artifact \<Rightarrow> artifact" where
  "stale_mark a = (if ar_status a = AS_SUPERSEDED then a else a\<lparr>ar_status := AS_STALE\<rparr>)"

lemma stale_mark_idem [simp]: "stale_mark (stale_mark a) = stale_mark a"
  by (simp add: stale_mark_def)

lemma mark_one_map: "map_of (ix_artifacts (mark_one i ix)) k = (if k = i then map_option stale_mark else id) (map_of (ix_artifacts ix) k)"
  by (auto simp: mark_one_def stale_mark_def AList.update_conv' split: option.splits)

lemma mark_all_map:
  "map_of (ix_artifacts (fold mark_one is ix)) k = (if k \<in> set is then map_option stale_mark else id) (map_of (ix_artifacts ix) k)"
proof (induction "is" arbitrary: ix)
  case (Cons i "is")
  then show ?case by (cases "map_of (ix_artifacts ix) k") (auto simp: mark_one_map)
qed simp

lemma mark_stale_run:
  assumes "rmap stable_id changed = Inr ids"
  shows "\<exists>stale ix'. mark_stale changed ix = Inr (stale, ix') \<and> sorted stale \<and> distinct stale \<and> set stale = (dependency ix)\<^sup>* `` set ids \<and>
    map_of (ix_artifacts ix') = (\<lambda>k. (if k \<in> (dependency ix)\<^sup>* `` set ids then map_option stale_mark else id) (map_of (ix_artifacts ix) k)) \<and>
    ix_paths ix' = ix_paths ix"
proof -
  obtain stale where s: "stale_closure changed ix = Inr stale" "sorted stale" "distinct stale" "set stale = (dependency ix)\<^sup>* `` set ids"
    by (rule stale_closure_run [OF assms])
  have "ix_paths (fold mark_one xs jx) = ix_paths jx" for xs jx
    by (induction xs arbitrary: jx) (auto simp: mark_one_def split: option.splits)
  with s show ?thesis by (auto simp: mark_stale_def mark_all_map)
qed

text \<open>
  C31. Staleness reaches exactly what depends on a change. For every list of identifiers that parse, the propagation ends; the artifacts it returns are, sorted and without
  repetition, exactly the changed ones and those that depend on one of them directly or through others, cycles included; and
  it sets exactly the indexed artifacts among them that are not superseded to STALE and leaves every other artifact alone.
\<close>

theorem mark_stale_exact:
  assumes "rmap stable_id changed = Inr ids"
  shows "\<exists>stale ix'. mark_stale changed ix = Inr (stale, ix') \<and> sorted stale \<and> distinct stale \<and> set stale = (dependency ix)\<^sup>* `` set ids \<and>
    map_of (ix_artifacts ix') = (\<lambda>k. (if k \<in> (dependency ix)\<^sup>* `` set ids then map_option stale_mark else id) (map_of (ix_artifacts ix) k)) \<and>
    ix_paths ix' = ix_paths ix"
  by (rule mark_stale_run [OF assms])

definition sample_entry :: "string \<Rightarrow> string \<Rightarrow> string list \<Rightarrow> artifact" where
  "sample_entry i p ds = \<lparr>ar_id = i, ar_type = ''REQUIREMENT'', ar_path = p, ar_status = AS_ACCEPTED, ar_fingerprint = replicate 64 CHR ''a'',
     ar_depends_on = ds, ar_provenance = None, ar_metadata = []\<rparr>"

definition sample_artifacts :: "artifact list" where
  "sample_artifacts = [sample_entry ''REQ-F-001'' ''a.md'' [''REQ-F-003''], sample_entry ''REQ-F-002'' ''b.md'' [''REQ-F-001''],
     sample_entry ''REQ-F-003'' ''c.md'' [''REQ-F-001''], sample_entry ''REQ-F-004'' ''d.md'' []]"

definition sample_index :: artifact_index where
  "sample_index = projr (index_init sample_artifacts)"

theorem mark_stale_exact_witness:
  "\<exists>stale ix'. mark_stale ['' req-f-001''] sample_index = Inr (stale, ix') \<and> stale = [''REQ-F-001'', ''REQ-F-002'', ''REQ-F-003''] \<and>
     set stale = (dependency sample_index)\<^sup>* `` {''REQ-F-001''}"
proof -
  have ids: "rmap stable_id ['' req-f-001''] = Inr [''REQ-F-001'']" by code_simp
  obtain stale ix' where m: "mark_stale ['' req-f-001''] sample_index = Inr (stale, ix')" "set stale = (dependency sample_index)\<^sup>* `` {''REQ-F-001''}"
    using mark_stale_exact [OF ids, of sample_index] by auto
  moreover have "case mark_stale ['' req-f-001''] sample_index of Inl _ \<Rightarrow> False | Inr (stale, _) \<Rightarrow> stale = [''REQ-F-001'', ''REQ-F-002'', ''REQ-F-003'']"
    by code_simp
  ultimately show ?thesis by auto
qed

section \<open>Reconciliation finds every change\<close>

definition file_digest :: "(file_content \<Rightarrow> string) \<Rightarrow> project_state \<Rightarrow> artifact \<Rightarrow> string option" where
  "file_digest digest s a = map_option digest (map_of (pj_files s) (ar_path a))"

lemma observed_fingerprint_run:
  assumes "resolve_inside env (ar_path a) = Inr (ar_path a)"
  shows "observed_fingerprint digest env (ar_path a) s = (Inr (file_digest digest s a), s)"
  using assms
  by (cases "map_of (pj_files s) (ar_path a)")
    (simp_all add: observed_fingerprint_def file_exists_def file_fingerprint_def read_file_def file_digest_def bnd_def some_or_def)

lemma changed_artifacts_run:
  assumes "\<And>a. a \<in> set as \<Longrightarrow> resolve_inside env (ar_path a) = Inr (ar_path a)"
  shows "changed_artifacts digest env as s =
    (Inr (map (\<lambda>a. (a, file_digest digest s a)) (filter (\<lambda>a. file_digest digest s a \<noteq> Some (ar_fingerprint a)) as)), s)"
  using assms
  by (induction as) (auto simp: observed_fingerprint_run)

lemma refresh_map:
  "map_of (ix_artifacts (refresh (a, f) ix)) k =
     (case f of Some d \<Rightarrow> if k = ar_id a then map_option (\<lambda>b. b\<lparr>ar_fingerprint := d\<rparr>) else id | None \<Rightarrow> id) (map_of (ix_artifacts ix) k)"
  by (auto simp: refresh_def AList.update_conv' split: option.splits)

lemma refresh_all_map:
  assumes "distinct (map ar_id as)"
  shows "map_of (ix_artifacts (fold refresh (map (\<lambda>a. (a, g a)) as) ix)) k =
    (case find (\<lambda>a. ar_id a = k) as of None \<Rightarrow> id | Some a \<Rightarrow> (case g a of None \<Rightarrow> id | Some d \<Rightarrow> map_option (\<lambda>b. b\<lparr>ar_fingerprint := d\<rparr>)))
      (map_of (ix_artifacts ix) k)"
  using assms
proof (induction as arbitrary: ix)
  case (Cons a as)
  have "find (\<lambda>b. ar_id b = k) as = None" if "ar_id a = k" using Cons.prems that by (auto simp: find_None_iff) (metis image_eqI)
  with Cons show ?case by (auto simp: refresh_map split: option.splits)
qed simp

lemma index_ok_artifacts:
  assumes "index_ok ix"
  shows "a \<in> set (index_artifacts ix) \<longleftrightarrow> map_of (ix_artifacts ix) (ar_id a) = Some a"
    and "distinct (map ar_id (index_artifacts ix))" and "a \<in> set (index_artifacts ix) \<Longrightarrow> stable_id (ar_id a) = Inr (ar_id a)"
proof -
  have keys: "map ar_id (map snd (ix_artifacts ix)) = map fst (ix_artifacts ix)"
    using assms by (auto simp: index_ok_def)
  have "distinct (map ar_id (map snd (ix_artifacts ix)))" unfolding keys using assms by (simp add: index_ok_def)
  then have "distinct (map snd (ix_artifacts ix)) \<and> inj_on ar_id (set (map snd (ix_artifacts ix)))" by (subst (asm) distinct_map)
  then show "distinct (map ar_id (index_artifacts ix))" unfolding index_artifacts_def by (subst distinct_map) simp
  show "a \<in> set (index_artifacts ix) \<longleftrightarrow> map_of (ix_artifacts ix) (ar_id a) = Some a"
    using assms by (auto simp: index_ok_def index_artifacts_def image_iff dest: map_of_SomeD) (metis snd_conv)
  show "a \<in> set (index_artifacts ix) \<Longrightarrow> stable_id (ar_id a) = Inr (ar_id a)"
    using assms by (auto simp: index_ok_def index_artifacts_def)
qed

lemma update_append_new: "map_of xs k = None \<Longrightarrow> AList.update k v xs = xs @ [(k, v)]"
  by (induction xs) (auto split: if_splits)

lemma index_add_ok:
  assumes "index_ok ix" and "stable_id (ar_id a) = Inr (ar_id a)" and "index_add a ix = Inr ix'"
  shows "index_ok ix'"
proof -
  have new: "map_of (ix_artifacts ix) (ar_id a) = None" "map_of (ix_paths ix) (ar_path a) = None"
    and ix': "ix' = \<lparr>ix_artifacts = AList.update (ar_id a) a (ix_artifacts ix), ix_paths = AList.update (ar_path a) (ar_id a) (ix_paths ix)\<rparr>"
    using assms(3) by (auto simp: index_add_def rbind_Inr_iff)
  have upd: "AList.update (ar_id a) a (ix_artifacts ix) = ix_artifacts ix @ [(ar_id a, a)]"
    using new(1) by (rule update_append_new)
  have "distinct (map fst (ix_artifacts ix'))" "\<forall>(k, a) \<in> set (ix_artifacts ix'). ar_id a = k \<and> stable_id k = Inr k"
    using assms(1,2) new(1) by (auto simp: ix' upd index_ok_def map_of_eq_None_iff)
  moreover have "map_of (ix_paths ix') p = Some i \<longleftrightarrow> (\<exists>b. map_of (ix_artifacts ix') i = Some b \<and> ar_path b = p)" for i p
    using assms(1) new unfolding index_ok_def by (auto simp: ix' AList.update_conv') (metis option.distinct(1))
  ultimately show ?thesis by (simp add: index_ok_def)
qed

text \<open>
  C32. Reconciliation finds every change made outside Artifex. Over an index with resolvable paths it raises nothing and writes no file, and it reports exactly the artifacts whose
  file no longer has the recorded digest, missing files included; afterwards the index records the present digest of every file that exists,
  so the same change is not reported twice, and every changed artifact is STALE unless it was SUPERSEDED.
\<close>

theorem reconcile_finds_changes:
  assumes ok: "index_ok ix" and paths: "\<And>a. a \<in> set (index_artifacts ix) \<Longrightarrow> resolve_inside env (ar_path a) = Inr (ar_path a)"
  shows "\<exists>events ix' s'. reconcile_index digest env at_time ix s = (Inr (events, ix'), s') \<and> pj_files s' = pj_files s \<and>
    map re_artifact_id events = map ar_id (filter (\<lambda>a. file_digest digest s a \<noteq> Some (ar_fingerprint a)) (index_artifacts ix)) \<and>
    (\<forall>k a. map_of (ix_artifacts ix) k = Some a \<longrightarrow> (\<exists>b. map_of (ix_artifacts ix') k = Some b \<and> ar_path b = ar_path a \<and>
      ar_fingerprint b = (case file_digest digest s a of None \<Rightarrow> ar_fingerprint a | Some d \<Rightarrow> d) \<and>
      (file_digest digest s a \<noteq> Some (ar_fingerprint a) \<longrightarrow> ar_status b \<in> {AS_STALE, AS_SUPERSEDED})))"
proof -
  obtain ts s1 where t: "(case at_time of Some t \<Rightarrow> ret t | None \<Rightarrow> now_text env) s = (Inr ts, s1)" and s1: "pj_files s1 = pj_files s"
    by (cases at_time) (auto simp: now_text_def)
  let ?ch = "filter (\<lambda>a. file_digest digest s a \<noteq> Some (ar_fingerprint a)) (index_artifacts ix)"
  have d: "file_digest digest s1 = file_digest digest s" by (auto simp: file_digest_def s1)
  have ch: "changed_artifacts digest env (index_artifacts ix) s1 = (Inr (map (\<lambda>a. (a, file_digest digest s a)) ?ch), s1)"
    using changed_artifacts_run [OF paths, of "index_artifacts ix" digest s1] d by simp
  show ?thesis
  proof (cases "?ch = []")
    case True
    then have same: "file_digest digest s a = Some (ar_fingerprint a)" if "map_of (ix_artifacts ix) k = Some a" for k a
      using that index_ok_artifacts [OF ok] ok by (auto simp: filter_empty_conv index_ok_def dest: map_of_SomeD)
    have run: "reconcile_index digest env at_time ix s = (Inr ([], ix), s1)" using True by (simp add: reconcile_index_def t ch)
    show ?thesis using True same by (intro exI [of _ "[]"] exI [of _ ix] exI [of _ s1]) (simp add: run s1)
  next
    case False
    have ids: "rmap stable_id (map ar_id ?ch) = Inr (map ar_id ?ch)"
      by (rule rmap_self) (auto simp: index_ok_artifacts(3) [OF ok])
    obtain stale ix1 where m: "mark_stale (map ar_id ?ch) ix = Inr (stale, ix1)" "set stale = (dependency ix)\<^sup>* `` set (map ar_id ?ch)"
      "map_of (ix_artifacts ix1) = (\<lambda>k. (if k \<in> (dependency ix)\<^sup>* `` set (map ar_id ?ch) then map_option stale_mark else id) (map_of (ix_artifacts ix) k))"
      using mark_stale_run [OF ids] by blast
    let ?cs = "map (\<lambda>a. (a, file_digest digest s a)) ?ch"
    let ?ix = "fold refresh ?cs ix1"
    have run: "reconcile_index digest env at_time ix s = (Inr (map (change_event stale ts) ?cs, ?ix), s1)"
      using False m(1) by (simp add: reconcile_index_def t ch comp_def)
    have dist: "distinct (map ar_id ?ch)" using index_ok_artifacts(2) [OF ok] by (rule distinct_map_filter)
    have "\<exists>b. map_of (ix_artifacts ?ix) k = Some b \<and> ar_path b = ar_path a \<and>
        ar_fingerprint b = (case file_digest digest s a of None \<Rightarrow> ar_fingerprint a | Some d \<Rightarrow> d) \<and>
        (file_digest digest s a \<noteq> Some (ar_fingerprint a) \<longrightarrow> ar_status b \<in> {AS_STALE, AS_SUPERSEDED})"
      if a: "map_of (ix_artifacts ix) k = Some a" for k a
    proof -
      have k: "ar_id a = k" using a ok by (auto simp: index_ok_def dest: map_of_SomeD)
      have f: "find (\<lambda>b. ar_id b = k) ?ch = (if file_digest digest s a \<noteq> Some (ar_fingerprint a) then Some a else None)"
        using a k index_ok_artifacts(1) [OF ok, of a] index_ok_artifacts(1) [OF ok] find_key [OF dist, of k a]
        by (cases "file_digest digest s a = Some (ar_fingerprint a)") (auto simp: find_None_iff)
      have "k \<in> (dependency ix)\<^sup>* `` set (map ar_id ?ch)" if "file_digest digest s a \<noteq> Some (ar_fingerprint a)"
        using that a k index_ok_artifacts(1) [OF ok, of a] by auto
      with a f show ?thesis unfolding refresh_all_map [OF dist] m(3) k [symmetric]
        by (auto simp: stale_mark_def split: option.splits)
    qed
    then show ?thesis
      by (intro exI [of _ "map (change_event stale ts) ?cs"] exI [of _ ?ix] exI [of _ s1]) (simp add: run s1 change_event_def comp_def)
  qed
qed

lemma index_init_ok:
  assumes "index_init as = Inr ix" and "\<And>a. a \<in> set as \<Longrightarrow> stable_id (ar_id a) = Inr (ar_id a)"
  shows "index_ok ix"
proof -
  have "index_ok ix'" if "add_all bs jx = Inr ix'" "index_ok jx" "\<And>a. a \<in> set bs \<Longrightarrow> stable_id (ar_id a) = Inr (ar_id a)" for bs jx ix'
    using that by (induction bs arbitrary: jx) (auto simp: rbind_Inr_iff intro: index_add_ok)
  from this [of as empty_index] assms show ?thesis by (simp add: index_init_def empty_index_def index_ok_def)
qed

theorem reconcile_finds_changes_witness:
  "\<exists>events ix' s'. reconcile_index (\<lambda>_. replicate 64 CHR ''a'') (\<lparr>pe_now = \<lambda>_. ''2026'', pe_uuid = \<lambda>_. ''7f'', pe_sha = \<lambda>_. [], pe_float = no_floats, pe_resolve = Some\<rparr>)
      None sample_index \<lparr>pj_files = [(''a.md'', Undecodable)], pj_audit = None, pj_ticks = 0, pj_draws = 0\<rparr> = (Inr (events, ix'), s') \<and>
    map re_artifact_id events = [''REQ-F-002'', ''REQ-F-003'', ''REQ-F-004'']"
proof -
  let ?env = "\<lparr>pe_now = \<lambda>_. ''2026'', pe_uuid = \<lambda>_. ''7f'', pe_sha = \<lambda>_. [], pe_float = no_floats, pe_resolve = Some\<rparr>"
  let ?s = "\<lparr>pj_files = [(''a.md'', Undecodable)], pj_audit = None, pj_ticks = 0, pj_draws = 0\<rparr>"
  have "case index_init sample_artifacts of Inl _ \<Rightarrow> False | Inr _ \<Rightarrow> True" "list_all (\<lambda>a. stable_id (ar_id a) = Inr (ar_id a)) sample_artifacts" by code_simp+
  then have ok: "index_ok sample_index"
    by (intro index_init_ok [of sample_artifacts]) (auto simp: sample_index_def list_all_iff split: sum.splits)
  have paths: "list_all (\<lambda>a. resolve_inside ?env (ar_path a) = Inr (ar_path a)) (index_artifacts sample_index)" by code_simp
  have changes: "map ar_id (filter (\<lambda>a. file_digest (\<lambda>_. replicate 64 CHR ''a'') ?s a \<noteq> Some (ar_fingerprint a)) (index_artifacts sample_index)) =
      [''REQ-F-002'', ''REQ-F-003'', ''REQ-F-004'']" by code_simp
  show ?thesis
    using reconcile_finds_changes [OF ok, of ?env "\<lambda>_. replicate 64 CHR ''a''" None ?s] paths changes by (auto simp: list_all_iff)
qed

end
