(* ===== verification/Reality.thy ===== *)
theory Reality
  imports Artifact_Index Authority_Properties
begin

text \<open>
  Models \<open>src/artifex/reality\<close>: observations of what a Project really is, the divergences they reveal, their append-only stores, and the
  service that turns a divergence into a proposal without deciding it. The digest of a file's bytes is a parameter. The adapter that
  observes the state of Git is not modelled, nor is the adapter around a callback, which only calls it.
\<close>

section \<open>Records (\<open>models.py\<close>)\<close>

datatype observer_kind = OK_GIT | OK_FILE | OK_TEST | OK_PROVIDER | OK_RUNTIME | OK_SERVICE

fun observer_kind_value :: "observer_kind \<Rightarrow> string" where
  "observer_kind_value OK_GIT = ''GIT''"
| "observer_kind_value OK_FILE = ''FILE''"
| "observer_kind_value OK_TEST = ''TEST''"
| "observer_kind_value OK_PROVIDER = ''PROVIDER''"
| "observer_kind_value OK_RUNTIME = ''RUNTIME''"
| "observer_kind_value OK_SERVICE = ''SERVICE''"

definition to_observer_kind :: "string \<Rightarrow> observer_kind res" where
  "to_observer_kind = member_of observer_kind_value [OK_GIT, OK_FILE, OK_TEST, OK_PROVIDER, OK_RUNTIME, OK_SERVICE]"

datatype observation_status = OS_MATCH | OS_DIVERGED | OS_INVALID | OS_UNREACHABLE | OS_UNKNOWN

fun observation_status_value :: "observation_status \<Rightarrow> string" where
  "observation_status_value OS_MATCH = ''MATCH''"
| "observation_status_value OS_DIVERGED = ''DIVERGED''"
| "observation_status_value OS_INVALID = ''INVALID''"
| "observation_status_value OS_UNREACHABLE = ''UNREACHABLE''"
| "observation_status_value OS_UNKNOWN = ''UNKNOWN''"

definition to_observation_status :: "string \<Rightarrow> observation_status res" where
  "to_observation_status = member_of observation_status_value [OS_MATCH, OS_DIVERGED, OS_INVALID, OS_UNREACHABLE, OS_UNKNOWN]"

datatype divergence_status = DV_OPEN | DV_PROPOSED | DV_RESOLVED

fun divergence_status_value :: "divergence_status \<Rightarrow> string" where
  "divergence_status_value DV_OPEN = ''OPEN''"
| "divergence_status_value DV_PROPOSED = ''PROPOSED''"
| "divergence_status_value DV_RESOLVED = ''RESOLVED''"

definition to_divergence_status :: "string \<Rightarrow> divergence_status res" where
  "to_divergence_status = member_of divergence_status_value [DV_OPEN, DV_PROPOSED, DV_RESOLVED]"

lemma to_observer_kind_value [simp]: "to_observer_kind (observer_kind_value k) = Inr k"
  by (cases k) (simp_all add: to_observer_kind_def member_of_def)

lemma to_observation_status_value [simp]: "to_observation_status (observation_status_value s) = Inr s"
  by (cases s) (simp_all add: to_observation_status_def member_of_def)

lemma to_divergence_status_value [simp]: "to_divergence_status (divergence_status_value d) = Inr d"
  by (cases d) (simp_all add: to_divergence_status_def member_of_def)

record reality_observation =
  ob_observation_id :: string
  ob_project_id :: string
  ob_observer_kind :: observer_kind
  ob_source_ref :: string
  ob_status :: observation_status
  ob_observed_fingerprint :: "string option"
  ob_expected_fingerprint :: "string option"
  ob_observed_at :: string
  ob_actor :: string

definition observation_init :: "reality_observation \<Rightarrow> reality_observation res" where
  "observation_init b =
     rbind (require_value (\<not> list_ex (\<lambda>v. blank v) [ob_observation_id b, ob_project_id b, ob_source_ref b, ob_actor b])) (\<lambda>_.
     rbind (require_value (\<not> scrub_secrets (ob_source_ref b) \<noteq> ob_source_ref b)) (\<lambda>_.
     rbind (require_value (\<not> list_ex (\<lambda>v. case v of None \<Rightarrow> False | Some f \<Rightarrow> \<not> sha256_hex f)
       [ob_observed_fingerprint b, ob_expected_fingerprint b])) (\<lambda>_.
     Inr b)))"

definition observation_to_dict :: "reality_observation \<Rightarrow> obj" where
  "observation_to_dict b =
     [(''schema_version'', JStr ''1.0''), (''kind'', JStr ''OBSERVATION''), (''observation_id'', JStr (ob_observation_id b)),
      (''project_id'', JStr (ob_project_id b)), (''observer_kind'', JStr (observer_kind_value (ob_observer_kind b))),
      (''source_ref'', JStr (ob_source_ref b)), (''status'', JStr (observation_status_value (ob_status b))),
      (''observed_fingerprint'', jopt JStr (ob_observed_fingerprint b)), (''expected_fingerprint'', jopt JStr (ob_expected_fingerprint b)),
      (''observed_at'', JStr (ob_observed_at b)), (''actor'', JStr (ob_actor b)), (''semantic_acceptance'', JBool False)]"

definition text_item :: "py_float \<Rightarrow> obj \<Rightarrow> string \<Rightarrow> string res" where
  "text_item py v k = rbind (item v k) (\<lambda>j. Inr (py_str py j))"

definition observation_from_dict :: "py_float \<Rightarrow> obj \<Rightarrow> reality_observation res" where
  "observation_from_dict py v =
     rbind (text_item py v ''observation_id'') (\<lambda>i.
     rbind (text_item py v ''project_id'') (\<lambda>p.
     rbind (rbind (text_item py v ''observer_kind'') to_observer_kind) (\<lambda>k.
     rbind (text_item py v ''source_ref'') (\<lambda>r.
     rbind (rbind (text_item py v ''status'') to_observation_status) (\<lambda>st.
     rbind (text_item py v ''observed_at'') (\<lambda>t.
     rbind (text_item py v ''actor'') (\<lambda>a.
     observation_init \<lparr>ob_observation_id = i, ob_project_id = p, ob_observer_kind = k, ob_source_ref = r, ob_status = st,
       ob_observed_fingerprint = str_or_none py (item_or v ''observed_fingerprint'' JNull),
       ob_expected_fingerprint = str_or_none py (item_or v ''expected_fingerprint'' JNull), ob_observed_at = t, ob_actor = a\<rparr>)))))))"

record divergence =
  dv_divergence_id :: string
  dv_project_id :: string
  dv_observation_id :: string
  dv_status :: divergence_status
  dv_proposal_id :: "string option"
  dv_detected_at :: string
  dv_resolved_at :: "string option"

definition divergence_init :: "divergence \<Rightarrow> divergence res" where
  "divergence_init d =
     rbind (require_value (\<not> list_ex (\<lambda>v. blank v) [dv_divergence_id d, dv_project_id d, dv_observation_id d])) (\<lambda>_.
     rbind (require_value (\<not> (dv_status d = DV_RESOLVED \<and> dv_resolved_at d = None))) (\<lambda>_.
     Inr d))"

definition divergence_to_dict :: "divergence \<Rightarrow> obj" where
  "divergence_to_dict d =
     [(''schema_version'', JStr ''1.0''), (''kind'', JStr ''DIVERGENCE''), (''divergence_id'', JStr (dv_divergence_id d)),
      (''project_id'', JStr (dv_project_id d)), (''observation_id'', JStr (dv_observation_id d)),
      (''status'', JStr (divergence_status_value (dv_status d))), (''proposal_id'', jopt JStr (dv_proposal_id d)),
      (''detected_at'', JStr (dv_detected_at d)), (''resolved_at'', jopt JStr (dv_resolved_at d)), (''semantic_acceptance'', JBool False)]"

text \<open>\<open>str(value[k]) if value.get(k) else None\<close>: the empty text is no text\<close>

definition text_or_none :: "py_float \<Rightarrow> json \<Rightarrow> string option" where
  "text_or_none py j = (if py_bool j then Some (py_str py j) else None)"

definition divergence_from_dict :: "py_float \<Rightarrow> obj \<Rightarrow> divergence res" where
  "divergence_from_dict py v =
     rbind (text_item py v ''divergence_id'') (\<lambda>i.
     rbind (text_item py v ''project_id'') (\<lambda>p.
     rbind (text_item py v ''observation_id'') (\<lambda>oid.
     rbind (rbind (text_item py v ''status'') to_divergence_status) (\<lambda>st.
     rbind (text_item py v ''detected_at'') (\<lambda>t.
     divergence_init \<lparr>dv_divergence_id = i, dv_project_id = p, dv_observation_id = oid, dv_status = st,
       dv_proposal_id = text_or_none py (item_or v ''proposal_id'' JNull), dv_detected_at = t,
       dv_resolved_at = text_or_none py (item_or v ''resolved_at'' JNull)\<rparr>)))))"

section \<open>The stores (\<open>store.py\<close>)\<close>

text \<open>A Project together with its JSON-lines files; \<open>pe_resolve\<close> says which file a path leads to.\<close>

record reality =
  rl_project :: project_state
  rl_logs :: "(string \<times> audit_line list) list"

definition on_files :: "(project_state, 'a) eff \<Rightarrow> (reality, 'a) eff" where
  "on_files m = (\<lambda>w. case m (rl_project w) of (r, s) \<Rightarrow> (r, w\<lparr>rl_project := s\<rparr>))"

definition observation_store_path :: string where
  "observation_store_path = ''.artifex/reality/observations.jsonl''"

definition divergence_store_path :: string where
  "divergence_store_path = ''.artifex/reality/divergences.jsonl''"

fun log_line :: "audit_line \<Rightarrow> obj res" where
  "log_line Truncated_Line = Inl ArtifactCorruptError"
| "log_line (Line c) = rbind (loads c) mapping_of"

definition read_log :: "project_env \<Rightarrow> string \<Rightarrow> (reality, obj list) eff" where
  "read_log env path =
     bnd (lift (resolve_inside env path)) (\<lambda>target.
     bnd (gets (\<lambda>w. map_of (rl_logs w) target)) (\<lambda>lines.
     case lines of None \<Rightarrow> ret [] | Some ls \<Rightarrow> as_corrupt (lift (rmap log_line ls))))"

definition append_log :: "project_env \<Rightarrow> string \<Rightarrow> obj \<Rightarrow> (reality, unit) eff" where
  "append_log env path v =
     bnd (read_log env path) (\<lambda>_.
     bnd (lift (resolve_inside env path)) (\<lambda>target.
     modify (\<lambda>w. w\<lparr>rl_logs := AList.update target
       ((case map_of (rl_logs w) target of None \<Rightarrow> [] | Some ls \<Rightarrow> ls) @ [Line (Document (JObj v))]) (rl_logs w)\<rparr>)))"

definition append_observation :: "project_env \<Rightarrow> reality_observation \<Rightarrow> (reality, unit) eff" where
  "append_observation env b = append_log env observation_store_path (observation_to_dict b)"

definition append_divergence :: "project_env \<Rightarrow> divergence \<Rightarrow> (reality, unit) eff" where
  "append_divergence env d = append_log env divergence_store_path (divergence_to_dict d)"

definition observations :: "project_env \<Rightarrow> (reality, reality_observation list) eff" where
  "observations env =
     bnd (read_log env observation_store_path) (\<lambda>items.
     lift (rmap (observation_from_dict (pe_float env)) items))"

text \<open>The last record of an identifier counts; the result is sorted by identifier.\<close>

definition latest_divergences :: "divergence list \<Rightarrow> divergence list" where
  "latest_divergences ds = (let by_id = fold (\<lambda>d m. AList.update (dv_divergence_id d) d m) ds [] in
     map (\<lambda>k. the (map_of by_id k)) (sort (map fst by_id)))"

definition divergences :: "project_env \<Rightarrow> (reality, divergence list) eff" where
  "divergences env =
     bnd (read_log env divergence_store_path) (\<lambda>items.
     bnd (lift (rmap (divergence_from_dict (pe_float env)) items)) (\<lambda>ds.
     ret (latest_divergences ds)))"

section \<open>The service (\<open>service.py\<close>)\<close>

text \<open>\<open>FileFingerprintObserver.observe\<close>\<close>

definition file_observe :: "(file_content \<Rightarrow> string) \<Rightarrow> project_env \<Rightarrow> string \<Rightarrow> string \<Rightarrow>
    (project_state, string \<times> observation_status \<times> string option) eff" where
  "file_observe digest env path expected =
     bnd (file_exists env path) (\<lambda>present.
     if \<not> present then ret (path, OS_UNREACHABLE, None)
     else bnd (file_fingerprint digest env path) (\<lambda>observed.
       ret (path, if observed = expected then OS_MATCH else OS_DIVERGED, Some observed)))"

record repository_report =
  rr_observation :: reality_observation
  rr_divergence :: "divergence option"
  rr_proposal_id :: "string option"
  rr_semantic_revision :: int

text \<open>
  The \<open>try\<close> block of \<open>observe_repository\<close>: the status, the fingerprint and the proposal. \<open>raw\<close> is the SHA-256 of the bytes of the model file.
\<close>

definition observe_model :: "project_env \<Rightarrow> string \<Rightarrow> string \<Rightarrow> semantic_revision \<Rightarrow>
    (project_state, string \<times> observation_status \<times> string option) eff" where
  "observe_model env raw actor accepted =
     (\<lambda>s. case
        bnd (load_model env) (\<lambda>m.
        let observed = model_fingerprint env m in
        if observed = sr_fingerprint accepted then ret (observed, OS_MATCH, None)
        else bnd (observe_external_mutation env actor) (\<lambda>p.
          ret (observed, OS_DIVERGED, map_option sp_id p))) s of
        (Inl e, s') \<Rightarrow> if e = ArtifactCorruptError then (Inr (raw, OS_INVALID, None), s') else (Inl e, s')
      | (Inr x, s') \<Rightarrow> (Inr x, s'))"

text \<open>\<open>model_digest\<close> is the SHA-256 of the bytes of the model file, \<open>None\<close> when it does not exist.\<close>

definition observe_repository :: "(project_state \<Rightarrow> string option) \<Rightarrow> project_env \<Rightarrow> string \<Rightarrow> (reality, repository_report) eff" where
  "observe_repository model_digest env actor =
     bnd (on_files (current env)) (\<lambda>accepted.
     bnd (on_files (gets model_digest)) (\<lambda>found.
     bnd (some_or FileNotFoundError found) (\<lambda>raw.
     bnd (on_files (observe_model env raw actor accepted)) (\<lambda>(observed, status, proposal_id).
     bnd (on_files (now_text env)) (\<lambda>timestamp.
     bnd (on_files (new_uuid env)) (\<lambda>u.
     bnd (lift (observation_init \<lparr>ob_observation_id = ''observation-'' @ u, ob_project_id = sr_project_id accepted, ob_observer_kind = OK_FILE,
       ob_source_ref = model_path, ob_status = status, ob_observed_fingerprint = Some observed,
       ob_expected_fingerprint = Some (sr_fingerprint accepted), ob_observed_at = timestamp, ob_actor = actor\<rparr>)) (\<lambda>ob.
     bnd (append_observation env ob) (\<lambda>_.
     bnd (if status \<noteq> OS_MATCH
          then
            bnd (on_files (new_uuid env)) (\<lambda>v.
            bnd (lift (divergence_init \<lparr>dv_divergence_id = ''divergence-'' @ v, dv_project_id = sr_project_id accepted,
              dv_observation_id = ob_observation_id ob, dv_status = (if proposal_id \<noteq> None then DV_PROPOSED else DV_OPEN),
              dv_proposal_id = proposal_id, dv_detected_at = timestamp, dv_resolved_at = None\<rparr>)) (\<lambda>dv.
            bnd (append_divergence env dv) (\<lambda>_.
            ret (Some dv))))
          else ret None) (\<lambda>dv.
     ret \<lparr>rr_observation = ob, rr_divergence = dv, rr_proposal_id = proposal_id, rr_semantic_revision = sr_number accepted\<rparr>)))))))))"

definition observe_adapter :: "project_env \<Rightarrow> observer_kind \<Rightarrow> (project_state, string \<times> observation_status \<times> string option) eff \<Rightarrow> string \<Rightarrow>
    string option \<Rightarrow> (reality, reality_observation) eff" where
  "observe_adapter env kind observe actor expected =
     bnd (on_files observe) (\<lambda>(source_ref, status, fp).
     bnd (on_files (current env)) (\<lambda>accepted.
     bnd (on_files (new_uuid env)) (\<lambda>u.
     bnd (on_files (now_text env)) (\<lambda>t.
     bnd (lift (observation_init \<lparr>ob_observation_id = ''observation-'' @ u, ob_project_id = sr_project_id accepted, ob_observer_kind = kind,
       ob_source_ref = source_ref, ob_status = status, ob_observed_fingerprint = fp, ob_expected_fingerprint = expected,
       ob_observed_at = t, ob_actor = actor\<rparr>)) (\<lambda>ob.
     bnd (append_observation env ob) (\<lambda>_.
     bnd (if status \<noteq> OS_MATCH
          then
            bnd (on_files (new_uuid env)) (\<lambda>v.
            bnd (lift (divergence_init \<lparr>dv_divergence_id = ''divergence-'' @ v, dv_project_id = sr_project_id accepted,
              dv_observation_id = ob_observation_id ob, dv_status = DV_OPEN, dv_proposal_id = None,
              dv_detected_at = ob_observed_at ob, dv_resolved_at = None\<rparr>)) (append_divergence env))
          else ret ()) (\<lambda>_.
     ret ob)))))))"

definition reality_state_dict :: "project_env \<Rightarrow> (reality, obj) eff" where
  "reality_state_dict env =
     bnd (on_files (current env)) (\<lambda>accepted.
     bnd (observations env) (\<lambda>obs.
     bnd (divergences env) (\<lambda>ds.
     ret [(''schema_version'', JStr ''1.0''), (''authoritative'', JBool False),
       (''derived_from'', JArr [JStr ''PROJECT_AUTHORITY'', JStr ''OBSERVATION_STORE'']),
       (''project_id'', JStr (sr_project_id accepted)), (''semantic_revision'', JInt (sr_number accepted)),
       (''observations'', JArr (map (\<lambda>b. JObj (observation_to_dict b)) obs)),
       (''divergences'', JArr (map (\<lambda>d. JObj (divergence_to_dict d)) ds)),
       (''open_divergence_count'', JInt (int (length (filter (\<lambda>d. dv_status d \<noteq> DV_RESOLVED) ds))))])))"

fun resolve_each :: "project_env \<Rightarrow> string \<Rightarrow> string \<Rightarrow> divergence list \<Rightarrow> (reality, divergence list) eff" where
  "resolve_each env pid timestamp [] = ret []"
| "resolve_each env pid timestamp (d # ds) =
     (if dv_proposal_id d \<noteq> Some pid \<or> dv_status d = DV_RESOLVED then resolve_each env pid timestamp ds
      else
        bnd (lift (divergence_init \<lparr>dv_divergence_id = dv_divergence_id d, dv_project_id = dv_project_id d, dv_observation_id = dv_observation_id d,
          dv_status = DV_RESOLVED, dv_proposal_id = Some pid, dv_detected_at = dv_detected_at d, dv_resolved_at = Some timestamp\<rparr>)) (\<lambda>event.
        bnd (append_divergence env event) (\<lambda>_.
        bnd (resolve_each env pid timestamp ds) (\<lambda>rest.
        ret (event # rest)))))"

definition resolve_proposal :: "project_env \<Rightarrow> string \<Rightarrow> (reality, divergence list) eff" where
  "resolve_proposal env pid =
     bnd (on_files (now_text env)) (\<lambda>timestamp.
     bnd (divergences env) (\<lambda>ds.
     resolve_each env pid timestamp ds))"

end
