(* ===== verification/Reality_Properties.thy ===== *)
theory Reality_Properties
  imports Reality
begin

text \<open>
  Properties of observed reality: the logs as lists of records, that observing decides nothing, and that resolving a proposal closes exactly
  its divergences.
\<close>

section \<open>The logs as lists\<close>

lemma log_paths [simp]:
  assumes "plain_layout env"
  shows "resolve_inside env observation_store_path = Inr observation_store_path" "resolve_inside env divergence_store_path = Inr divergence_store_path"
proof -
  have norm: "normalize_relative_path observation_store_path = Inr observation_store_path" "normalize_relative_path divergence_store_path = Inr divergence_store_path"
    by code_simp+
  have pre: "prefix ''.artifex/'' observation_store_path" "prefix ''.artifex/'' divergence_store_path"
    by (simp_all add: observation_store_path_def divergence_store_path_def)
  show "resolve_inside env observation_store_path = Inr observation_store_path" "resolve_inside env divergence_store_path = Inr divergence_store_path"
    using assms norm pre by (simp_all add: resolve_inside_def plain_layout_def)
qed

definition log_items :: "string \<Rightarrow> reality \<Rightarrow> obj list res" where
  "log_items path w = rmap log_line (case map_of (rl_logs w) path of None \<Rightarrow> [] | Some ls \<Rightarrow> ls)"

lemma log_line_errors: "log_line l = Inl e \<Longrightarrow> e \<in> set decode_errors"
  by (cases l rule: log_line.cases) (auto simp: decode_errors_def rbind_Inl_iff elim!: loads.elims mapping_of.elims)

lemma read_log_run:
  assumes "resolve_inside env path = Inr path" and "log_items path w = Inr items"
  shows "read_log env path w = (Inr items, w)"
  using assms by (cases "map_of (rl_logs w) path") (simp_all add: read_log_def log_items_def as_corrupt_def)

lemma append_log_run:
  assumes "resolve_inside env path = Inr path" and "log_items path w = Inr items"
  obtains w' where "append_log env path v w = (Inr (), w')" and "log_items path w' = Inr (items @ [v])"
    and "rl_project w' = rl_project w" and "\<And>q. q \<noteq> path \<Longrightarrow> log_items q w' = log_items q w"
  by (rule that [of "w\<lparr>rl_logs := AList.update path
       ((case map_of (rl_logs w) path of None \<Rightarrow> [] | Some ls \<Rightarrow> ls) @ [Line (Document (JObj v))]) (rl_logs w)\<rparr>"])
    (use assms in \<open>simp_all add: append_log_def read_log_run log_items_def AList.update_conv' rmap_snoc\<close>)

section \<open>Divergences\<close>

definition divergence_ok :: "divergence \<Rightarrow> bool" where
  "divergence_ok d \<longleftrightarrow> divergence_init d = Inr d \<and> dv_proposal_id d \<noteq> Some [] \<and> dv_resolved_at d \<noteq> Some []"

lemma divergence_json: "divergence_ok d \<Longrightarrow> divergence_from_dict py (divergence_to_dict d) = Inr d"
proof -
  have "text_or_none py (jopt JStr x) = x" if "x \<noteq> Some []" for x
    using that by (cases x) (auto simp: text_or_none_def)
  moreover assume "divergence_ok d"
  ultimately show ?thesis
    by (cases d) (simp add: divergence_ok_def divergence_from_dict_def divergence_to_dict_def text_item_def)
qed

text \<open>The divergences of a log, oldest first.\<close>

definition recorded :: "project_env \<Rightarrow> reality \<Rightarrow> divergence list \<Rightarrow> bool" where
  "recorded env w ds \<longleftrightarrow> (\<exists>items. log_items divergence_store_path w = Inr items \<and> rmap (divergence_from_dict (pe_float env)) items = Inr ds)"

lemma divergences_run: "plain_layout env \<Longrightarrow> recorded env w ds \<Longrightarrow> divergences env w = (Inr (latest_divergences ds), w)"
  by (auto simp: divergences_def recorded_def read_log_run)

lemma append_divergence_run:
  assumes "plain_layout env" and "recorded env w ds" and "divergence_ok d"
  obtains w' where "append_divergence env d w = (Inr (), w')" and "recorded env w' (ds @ [d])" and "rl_project w' = rl_project w"
    and "log_items observation_store_path w' = log_items observation_store_path w"
proof -
  obtain items where i: "log_items divergence_store_path w = Inr items" "rmap (divergence_from_dict (pe_float env)) items = Inr ds"
    using assms(2) by (auto simp: recorded_def)
  have ne: "observation_store_path \<noteq> divergence_store_path" by code_simp
  obtain w' where "append_log env divergence_store_path (divergence_to_dict d) w = (Inr (), w')"
    "log_items divergence_store_path w' = Inr (items @ [divergence_to_dict d])" "rl_project w' = rl_project w"
    "log_items observation_store_path w' = log_items observation_store_path w"
    using append_log_run [OF log_paths(2) [OF assms(1)] i(1)] ne by metis
  then show ?thesis using that i(2) divergence_json [OF assms(3)] by (simp add: append_divergence_def recorded_def rmap_snoc)
qed

text \<open>The latest record of an identifier.\<close>

definition last_of :: "divergence list \<Rightarrow> string \<Rightarrow> divergence option" where
  "last_of ds k = find (\<lambda>d. dv_divergence_id d = k) (rev ds)"

lemma last_of_snoc [simp]: "last_of (ds @ [d]) k = (if dv_divergence_id d = k then Some d else last_of ds k)"
  by (simp add: last_of_def)

lemma fold_by_id:
  "map_of (fold (\<lambda>d m. AList.update (dv_divergence_id d) d m) ds []) = last_of ds \<and>
   distinct (map fst (fold (\<lambda>d m. AList.update (dv_divergence_id d) d m) ds []))"
proof (induction ds rule: rev_induct)
  case (snoc d ds)
  then show ?case by (auto simp: AList.update_conv' fun_eq_iff distinct_update)
qed (simp add: last_of_def fun_eq_iff)

lemma last_of_id: "last_of ds k = Some d \<Longrightarrow> dv_divergence_id d = k \<and> d \<in> set ds"
  by (auto simp: last_of_def dest: find_SomeD)

lemma latest_keys:
  obtains ks where "latest_divergences ds = map (\<lambda>k. the (last_of ds k)) ks" and "distinct ks" and "\<And>k. k \<in> set ks \<longleftrightarrow> last_of ds k \<noteq> None"
proof -
  let ?m = "fold (\<lambda>d m. AList.update (dv_divergence_id d) d m) ds []"
  have m: "map_of ?m = last_of ds" and d: "distinct (map fst ?m)" using fold_by_id [of ds] by simp_all
  have "k \<in> fst ` set ?m \<longleftrightarrow> last_of ds k \<noteq> None" for k unfolding m [symmetric] by (simp add: map_of_eq_None_iff)
  then show ?thesis using d by (intro that [of "sort (map fst ?m)"]) (simp_all add: latest_divergences_def Let_def m)
qed

lemma set_latest: "d \<in> set (latest_divergences ds) \<longleftrightarrow> last_of ds (dv_divergence_id d) = Some d"
proof -
  obtain ks where ks: "latest_divergences ds = map (\<lambda>k. the (last_of ds k)) ks" "\<And>k. k \<in> set ks \<longleftrightarrow> last_of ds k \<noteq> None" using latest_keys [of ds] by metis
  have "d \<in> set (latest_divergences ds) \<longleftrightarrow> (\<exists>k. last_of ds k = Some d)" unfolding ks(1) using ks(2) by force
  then show ?thesis using last_of_id by blast
qed

lemma distinct_latest: "distinct (map dv_divergence_id (latest_divergences ds))"
proof -
  obtain ks where ks: "latest_divergences ds = map (\<lambda>k. the (last_of ds k)) ks" "distinct ks" "\<And>k. k \<in> set ks \<longleftrightarrow> last_of ds k \<noteq> None" using latest_keys [of ds] by metis
  have "map dv_divergence_id (latest_divergences ds) = ks"
    unfolding ks(1) map_map by (rule map_idI) (use ks(3) last_of_id in force)
  with ks(2) show ?thesis by simp
qed

section \<open>Resolution\<close>

definition closed :: "string \<Rightarrow> divergence \<Rightarrow> divergence" where
  "closed t d = d\<lparr>dv_status := DV_RESOLVED, dv_resolved_at := Some t\<rparr>"

definition due :: "string \<Rightarrow> divergence \<Rightarrow> bool" where
  "due pid d \<longleftrightarrow> dv_proposal_id d = Some pid \<and> dv_status d \<noteq> DV_RESOLVED"

lemma resolve_each_run:
  assumes env: "plain_layout env" and r: "recorded env w ds" and t: "t \<noteq> []" and pid: "pid \<noteq> []" and ok: "\<And>d. d \<in> set es \<Longrightarrow> divergence_init d = Inr d"
  obtains w' where "resolve_each env pid t es w = (Inr (map (closed t) (filter (due pid) es)), w')"
    and "recorded env w' (ds @ map (closed t) (filter (due pid) es))" and "rl_project w' = rl_project w"
proof -
  have "\<exists>w'. resolve_each env pid t es w = (Inr (map (closed t) (filter (due pid) es)), w') \<and>
      recorded env w' (ds @ map (closed t) (filter (due pid) es)) \<and> rl_project w' = rl_project w"
    using r ok
  proof (induction es arbitrary: w ds)
    case (Cons e es)
    show ?case
    proof (cases "due pid e")
      case True
      then have p: "dv_proposal_id e = Some pid" "dv_status e \<noteq> DV_RESOLVED" by (simp_all add: due_def)
      let ?e = "closed t e"
      have ev: "\<lparr>dv_divergence_id = dv_divergence_id e, dv_project_id = dv_project_id e, dv_observation_id = dv_observation_id e,
          dv_status = DV_RESOLVED, dv_proposal_id = Some pid, dv_detected_at = dv_detected_at e, dv_resolved_at = Some t\<rparr> = ?e"
        using p by (cases e) (simp add: closed_def)
      have init: "divergence_init ?e = Inr ?e"
        using Cons.prems(2) [of e] by (auto simp: divergence_init_def closed_def require_value_def rbind_Inr_iff)
      then have "divergence_ok ?e" using p t pid by (simp add: divergence_ok_def closed_def)
      then obtain w1 where 1: "append_divergence env ?e w = (Inr (), w1)" "recorded env w1 (ds @ [?e])" "rl_project w1 = rl_project w"
        by (rule append_divergence_run [OF env Cons.prems(1)])
      obtain w2 where "resolve_each env pid t es w1 = (Inr (map (closed t) (filter (due pid) es)), w2)"
          "recorded env w2 ((ds @ [?e]) @ map (closed t) (filter (due pid) es))" "rl_project w2 = rl_project w1"
        using Cons.IH [OF 1(2)] Cons.prems(2) by auto
      with True p 1 init show ?thesis by (simp add: ev)
    next
      case False
      then show ?thesis using Cons by (auto simp: due_def)
    qed
  qed simp
  with that show ?thesis by blast
qed

lemma recorded_init: "recorded env w ds \<Longrightarrow> d \<in> set ds \<Longrightarrow> divergence_init d = Inr d"
  by (auto simp: recorded_def divergence_from_dict_def divergence_init_def rbind_Inr_iff dest!: rmap_nth_mem)

lemma last_of_append: "last_of (ds @ es) k = (case last_of es k of None \<Rightarrow> last_of ds k | Some d \<Rightarrow> Some d)"
  by (simp add: last_of_def find_append split: option.split)

lemma last_of_closed:
  assumes "distinct (map dv_divergence_id es)"
  shows "last_of (map (closed t) (filter (due pid) es)) k = Some d \<longleftrightarrow> (\<exists>e \<in> set es. due pid e \<and> dv_divergence_id e = k \<and> d = closed t e)"
proof -
  have ids: "map dv_divergence_id (map (closed t) xs) = map dv_divergence_id xs" for xs by (simp add: closed_def)
  have "distinct (map dv_divergence_id (rev (map (closed t) (filter (due pid) es))))"
    unfolding rev_map [symmetric] distinct_rev ids using assms by (rule distinct_map_filter)
  from find_key [OF this, of k d] show ?thesis by (auto simp: last_of_def closed_def)
qed

definition settle :: "string \<Rightarrow> string \<Rightarrow> divergence \<Rightarrow> divergence" where
  "settle pid t d = (if due pid d then closed t d else d)"

lemma last_of_settle:
  "last_of (ds @ map (closed t) (filter (due pid) (latest_divergences ds))) k = map_option (settle pid t) (last_of ds k)"
proof -
  let ?es = "map (closed t) (filter (due pid) (latest_divergences ds))"
  note cl = last_of_closed [OF distinct_latest, of t pid ds k]
  show ?thesis
  proof (cases "last_of ds k")
    case None
    then have "last_of ?es k \<noteq> Some d" for d using cl [of d] set_latest by fastforce
    then have "last_of ?es k = None" by (cases "last_of ?es k") auto
    with None show ?thesis by (simp add: last_of_append)
  next
    case (Some e)
    have only: "e' = e" if "e' \<in> set (latest_divergences ds)" "dv_divergence_id e' = k" for e' using that Some set_latest by simp
    have e: "e \<in> set (latest_divergences ds)" "dv_divergence_id e = k" using Some last_of_id set_latest by auto
    have "last_of ?es k = (if due pid e then Some (closed t e) else None)"
    proof (cases "due pid e")
      case False
      then have "last_of ?es k \<noteq> Some d" for d using cl [of d] only by blast
      with False show ?thesis by (cases "last_of ?es k") auto
    qed (use cl e in auto)
    with Some show ?thesis by (simp add: last_of_append settle_def)
  qed
qed

lemma set_latest_settle:
  "set (latest_divergences (ds @ map (closed t) (filter (due pid) (latest_divergences ds)))) = settle pid t ` set (latest_divergences ds)"
proof -
  have "d \<in> set (latest_divergences (ds @ map (closed t) (filter (due pid) (latest_divergences ds)))) \<longleftrightarrow> d \<in> settle pid t ` set (latest_divergences ds)" for d
    unfolding set_latest last_of_settle
    by (auto simp: image_iff set_latest settle_def closed_def)
  then show ?thesis by blast
qed

text \<open>
  Resolving a proposal closes exactly its divergences. Over a readable log, \<open>resolve_proposal\<close> returns and changes no file of the Project; afterwards every divergence that names the
  proposal is RESOLVED with the time of resolution, every other divergence is as it was, none is lost, and the log itself only grew.
\<close>

theorem resolve_closes_exactly:
  assumes env: "plain_layout env" and r: "recorded env w ds" and pid: "pid \<noteq> []" and t: "pe_now env (pj_ticks (rl_project w)) \<noteq> []"
  shows "\<exists>events w'. resolve_proposal env pid w = (Inr events, w') \<and> pj_files (rl_project w') = pj_files (rl_project w) \<and> recorded env w' (ds @ events) \<and>
    set (latest_divergences (ds @ events)) =
      settle pid (pe_now env (pj_ticks (rl_project w))) ` set (latest_divergences ds)"
proof -
  let ?t = "pe_now env (pj_ticks (rl_project w))"
  let ?w = "w\<lparr>rl_project := (rl_project w)\<lparr>pj_ticks := Suc (pj_ticks (rl_project w))\<rparr>\<rparr>"
  have r': "recorded env ?w ds" using r by (simp add: recorded_def log_items_def)
  have ok: "divergence_init d = Inr d" if "d \<in> set (latest_divergences ds)" for d
    using that recorded_init [OF r] last_of_id set_latest by metis
  let ?es = "map (closed ?t) (filter (due pid) (latest_divergences ds))"
  obtain w' where w': "resolve_each env pid ?t (latest_divergences ds) ?w = (Inr ?es, w')" "recorded env w' (ds @ ?es)" "rl_project w' = rl_project ?w"
    by (rule resolve_each_run [OF env r' t pid ok])
  have run: "resolve_proposal env pid w = (Inr ?es, w')"
    using w'(1) divergences_run [OF env r'] by (simp add: resolve_proposal_def on_files_def now_text_def bnd_def)
  show ?thesis using run w' set_latest_settle by auto
qed

definition demo_divergence :: divergence where
  "demo_divergence = \<lparr>dv_divergence_id = ''divergence-1'', dv_project_id = ''P'', dv_observation_id = ''observation-1'', dv_status = DV_PROPOSED,
     dv_proposal_id = Some ''proposal-7f'', dv_detected_at = ''2026'', dv_resolved_at = None\<rparr>"

definition demo_reality :: reality where
  "demo_reality = \<lparr>rl_project = demo_project ''zero'', rl_logs = [(divergence_store_path, [Line (Document (JObj (divergence_to_dict demo_divergence)))])]\<rparr>"

theorem resolve_closes_exactly_witness:
  "\<exists>events w'. resolve_proposal demo_penv ''proposal-7f'' demo_reality = (Inr events, w') \<and>
    set (latest_divergences (demo_divergence # events)) = {demo_divergence\<lparr>dv_status := DV_RESOLVED, dv_resolved_at := Some ''2026-01-01T00:00:00Z''\<rparr>}"
proof -
  have ok: "divergence_ok demo_divergence" by code_simp
  have r: "recorded demo_penv demo_reality [demo_divergence]" using divergence_json [OF ok] by (simp add: recorded_def log_items_def demo_reality_def)
  have now: "pe_now demo_penv n = ''2026-01-01T00:00:00Z''" for n by (simp add: demo_penv_def)
  have one: "latest_divergences [demo_divergence] = [demo_divergence]" by (simp add: latest_divergences_def)
  have due: "due ''proposal-7f'' demo_divergence" by (simp add: due_def demo_divergence_def)
  from resolve_closes_exactly [OF demo_layout r, of "''proposal-7f''"] show ?thesis
    by (auto simp: now one settle_def due closed_def)
qed

section \<open>Observation decides nothing\<close>

text \<open>Over a Project with an accepted revision, nothing but proposals, audit events and the logs is added.\<close>

definition watched :: "project_env \<Rightarrow> reality \<Rightarrow> reality \<Rightarrow> bool" where
  "watched env w w' \<longleftrightarrow> ((\<exists>rs cur. chain env (rl_project w) (rs @ [cur])) \<longrightarrow> undecided env (rl_project w) (rl_project w'))"

lemma undecided_refl: "undecided env s s"
  by (simp add: undecided_files)

lemma undecided_trans: "undecided env s t \<Longrightarrow> undecided env t u \<Longrightarrow> undecided env s u"
  unfolding undecided_def by (auto intro: prefix_order.trans)

interpretation wt: state_preorder "watched env" for env
  by unfold_locales (auto simp: watched_def undecided_refl intro: undecided_trans, metis undecided_def undecided_trans)

lemma watched_same: "rl_project w' = rl_project w \<Longrightarrow> watched env w w'"
  by (simp add: watched_def undecided_refl)

lemma wt_files:
  assumes "\<And>s rs cur. chain env s (rs @ [cur]) \<Longrightarrow> undecided env s (snd (m s))"
  shows "keeps (watched env) (on_files m)"
  using assms by (auto simp: keeps_def watched_def on_files_def split: prod.splits) (metis snd_conv)

lemma wt_ticks: "keeps (watched env) (on_files (now_text env'))" "keeps (watched env) (on_files (new_uuid env'))" "keeps (watched env) (on_files (gets f))"
  by (rule wt_files, simp add: now_text_def new_uuid_def undecided_files)+

lemma wt_current: "keeps (watched env) (on_files (current env))"
  by (rule wt_files) (simp add: current_run undecided_refl)

lemma wt_observe_model:
  assumes "plain_layout env"
  shows "keeps (watched env) (on_files (observe_model env raw actor accepted))"
proof (rule wt_files)
  fix s rs cur assume c: "chain env s (rs @ [cur])"
  have u: "undecided env s (snd (observe_external_mutation env actor s))" by (rule observe_undecided [OF assms c])
  have l: "load_model env s = (model_at env s, s)" by (rule load_model_at)
  show "undecided env s (snd (observe_model env raw actor accepted s))"
    using u by (auto simp: observe_model_def bnd_def l Let_def undecided_refl split: sum.splits prod.splits)
qed

lemma read_log_same: "rl_project (snd (read_log env path w)) = rl_project w"
  by (auto simp: read_log_def bnd_def as_corrupt_def split: sum.splits option.splits prod.splits)

lemma wt_read_log: "keeps (watched env) (read_log env' path)"
  using read_log_same by (simp add: keeps_def watched_same)

lemma wt_append: "keeps (watched env) (append_log env' path v)"
  unfolding append_log_def by (intro wt.keeps_basic wt.keeps_modify wt_read_log) (simp add: watched_same)

lemmas wt_rules = wt.keeps_basic wt_ticks wt_current wt_read_log wt_append

lemma wt_append_records: "keeps (watched env) (append_observation env' b)" "keeps (watched env) (append_divergence env' d)"
  unfolding append_observation_def append_divergence_def by (rule wt_append)+

lemma wt_prod: "(\<And>a b. keeps (watched env) (f a b)) \<Longrightarrow> keeps (watched env) (case x of (a, b) \<Rightarrow> f a b)"
  by (cases x) simp

lemma wt_observe_repository: "plain_layout env \<Longrightarrow> keeps (watched env) (observe_repository md env actor)"
  unfolding observe_repository_def by (intro wt_rules wt_prod wt_append_records wt_observe_model)

lemma wt_observe_adapter:
  assumes "\<And>s. snd (observe s) = s"
  shows "keeps (watched env) (observe_adapter env k observe actor expected)"
  unfolding observe_adapter_def using assms
  by (intro wt_rules wt_prod wt_append_records wt_files) (simp add: undecided_refl)

lemma wt_resolve_each: "keeps (watched env) (resolve_each env pid t ds)"
  by (induction ds) (auto intro!: wt_rules wt_append_records)

lemma wt_resolve: "keeps (watched env) (resolve_proposal env pid)"
  unfolding resolve_proposal_def divergences_def by (intro wt_rules wt_resolve_each)

datatype reality_call =
    Observe_Repository string
  | Observe_File string string string
  | Resolve_Proposal string

fun do_reality :: "(project_state \<Rightarrow> string option) \<Rightarrow> (file_content \<Rightarrow> string) \<Rightarrow> project_env \<Rightarrow> reality_call \<Rightarrow> (reality, unit) eff" where
  "do_reality md digest env (Observe_Repository actor) = bnd (observe_repository md env actor) (\<lambda>_. ret ())"
| "do_reality md digest env (Observe_File path expected actor) =
     bnd (observe_adapter env OK_FILE (file_observe digest env path expected) actor (Some expected)) (\<lambda>_. ret ())"
| "do_reality md digest env (Resolve_Proposal i) = bnd (resolve_proposal env i) (\<lambda>_. ret ())"

fun run_reality :: "(project_state \<Rightarrow> string option) \<Rightarrow> (file_content \<Rightarrow> string) \<Rightarrow> project_env \<Rightarrow> reality_call list \<Rightarrow> reality \<Rightarrow> reality" where
  "run_reality md digest env [] w = w"
| "run_reality md digest env (op # ops) w = run_reality md digest env ops (snd (do_reality md digest env op w))"

lemma file_observe_same: "snd (file_observe digest env path expected s) = s"
  by (auto simp: file_observe_def file_exists_def file_fingerprint_def read_file_def bnd_def some_or_def split: sum.splits option.splits)

lemma wt_call: "plain_layout env \<Longrightarrow> keeps (watched env) (do_reality md digest env op)"
  by (cases op) (auto intro!: wt.keeps_basic wt_observe_repository wt_observe_adapter wt_resolve file_observe_same)

lemma wt_run: "plain_layout env \<Longrightarrow> watched env w (run_reality md digest env ops w)"
proof (induction ops arbitrary: w)
  case (Cons op ops)
  have "watched env w (snd (do_reality md digest env op w))" using wt_call [OF Cons.prems] by (simp add: keeps_def)
  with Cons show ?case by (auto intro: wt.R_trans)
qed (simp add: wt.R_refl)

text \<open>
  Observed reality has no semantic authority. After any sequence of observations and resolutions, failing ones included, the Project has the same accepted revisions in the same order,
  the stored Project Model and every other file that was there are unchanged, and the audit history only grew: what was observed
  enters the Project as proposals only.
\<close>

theorem observation_never_decides:
  assumes "plain_layout env" and "chain env (rl_project w) (rs @ [cur])"
  shows "chain env (rl_project (run_reality md digest env ops w)) (rs @ [cur]) \<and>
    (\<forall>q. map_of (pj_files (rl_project w)) q \<noteq> None \<longrightarrow>
      map_of (pj_files (rl_project (run_reality md digest env ops w))) q = map_of (pj_files (rl_project w)) q) \<and>
    map_of (pj_files (rl_project (run_reality md digest env ops w))) model_path = map_of (pj_files (rl_project w)) model_path \<and>
    prefix (audit_lines (rl_project w)) (audit_lines (rl_project (run_reality md digest env ops w)))"
  using wt_run [OF assms(1), of w md digest ops] assms(2) unfolding watched_def undecided_def by blast

theorem observation_never_decides_witness:
  "chain demo_penv (rl_project (run_reality (\<lambda>_. Some []) (\<lambda>_. []) demo_penv [Observe_Repository ''eve'', Resolve_Proposal ''proposal-7f'']
     \<lparr>rl_project = demo_project ''three'', rl_logs = []\<rparr>)) [demo_revision]"
proof -
  have c: "chain demo_penv (rl_project \<lparr>rl_project = demo_project ''three'', rl_logs = []\<rparr>) ([] @ [demo_revision])" by (simp add: demo_chain)
  from observation_never_decides [OF demo_layout c] show ?thesis by (simp del: run_reality.simps)
qed

end
