(* ===== verification/Capabilities.thy ===== *)
theory Capabilities
  imports Project_Model "HOL-Library.List_Lexorder" "HOL-Library.Char_ord" "HOL-Library.Product_Lexorder"
begin

text \<open>
  Models \<open>src/artifex/capabilities\<close>: \<open>models.py\<close> (provider configurations, readiness, instances, requests and decisions), \<open>credentials.py\<close>
  (the credential broker), \<open>registry.py\<close>, \<open>resolver.py\<close> (which provider is available for a request) and \<open>certification.py\<close>.
\<close>

section \<open>Models\<close>

datatype provider_role = PR_INTERACTION | PR_EXECUTION_IMPLEMENTER | PR_HARNESS | PR_RESEARCH | PR_INFERENCE | PR_COMPUTE | PR_VALIDATION

fun provider_role_value :: "provider_role \<Rightarrow> string" where
  "provider_role_value PR_INTERACTION = ''INTERACTION''"
| "provider_role_value PR_EXECUTION_IMPLEMENTER = ''EXECUTION_IMPLEMENTER''"
| "provider_role_value PR_HARNESS = ''HARNESS''"
| "provider_role_value PR_RESEARCH = ''RESEARCH''"
| "provider_role_value PR_INFERENCE = ''INFERENCE''"
| "provider_role_value PR_COMPUTE = ''COMPUTE''"
| "provider_role_value PR_VALIDATION = ''VALIDATION''"

definition to_provider_role :: "string \<Rightarrow> provider_role res" where
  "to_provider_role = member_of provider_role_value
     [PR_INTERACTION, PR_EXECUTION_IMPLEMENTER, PR_HARNESS, PR_RESEARCH, PR_INFERENCE, PR_COMPUTE, PR_VALIDATION]"

datatype readiness_state = RD_NOT_DETECTED | RD_DETECTED | RD_CONFIGURED | RD_AUTHENTICATED | RD_HEALTHY | RD_REGISTERED | RD_AVAILABLE

fun readiness_state_value :: "readiness_state \<Rightarrow> string" where
  "readiness_state_value RD_NOT_DETECTED = ''NOT_DETECTED''"
| "readiness_state_value RD_DETECTED = ''DETECTED''"
| "readiness_state_value RD_CONFIGURED = ''CONFIGURED''"
| "readiness_state_value RD_AUTHENTICATED = ''AUTHENTICATED''"
| "readiness_state_value RD_HEALTHY = ''HEALTHY''"
| "readiness_state_value RD_REGISTERED = ''REGISTERED''"
| "readiness_state_value RD_AVAILABLE = ''AVAILABLE''"

datatype governance_mode = GM_STANDALONE | GM_PROVIDER_MANAGED | GM_ATLAS_GOVERNED

fun governance_mode_value :: "governance_mode \<Rightarrow> string" where
  "governance_mode_value GM_STANDALONE = ''STANDALONE''"
| "governance_mode_value GM_PROVIDER_MANAGED = ''PROVIDER_MANAGED''"
| "governance_mode_value GM_ATLAS_GOVERNED = ''ATLAS_GOVERNED''"

definition to_governance_mode :: "string \<Rightarrow> governance_mode res" where
  "to_governance_mode = member_of governance_mode_value [GM_STANDALONE, GM_PROVIDER_MANAGED, GM_ATLAS_GOVERNED]"

datatype data_classification = DC_PUBLIC | DC_INTERNAL | DC_CONFIDENTIAL | DC_RESTRICTED

record broker_reference =
  br_broker :: string
  br_reference :: string
  br_provider_id :: string
  br_scopes :: "string list"

definition broker_reference_init :: "broker_reference \<Rightarrow> broker_reference res" where
  "broker_reference_init r =
     rbind (require_value (list_all (\<lambda>v. \<not> blank v) [br_broker r, br_reference r, br_provider_id r])) (\<lambda>_.
     rbind (require_value (\<not> (br_scopes r = [] \<or> list_ex (\<lambda>s. blank s) (br_scopes r)))) (\<lambda>_.
     Inr r))"

definition broker_reference_to_dict :: "broker_reference \<Rightarrow> obj" where
  "broker_reference_to_dict r =
     [(''broker'', JStr (br_broker r)), (''reference'', JStr (br_reference r)), (''provider_id'', JStr (br_provider_id r)),
      (''scopes'', JArr (map JStr (br_scopes r))), (''secret_material_present'', JBool False)]"

record provider_configuration =
  pc_provider_id :: string
  pc_enabled :: bool
  pc_roles :: "provider_role set"
  pc_governance_mode :: governance_mode
  pc_command :: "string list"
  pc_credential_reference :: "broker_reference option"

definition provider_configuration_init :: "provider_configuration \<Rightarrow> provider_configuration res" where
  "provider_configuration_init c =
     rbind (require_value (\<not> (blank (pc_provider_id c) \<or> pc_command c = [] \<or> list_ex (\<lambda>p. blank p) (pc_command c)))) (\<lambda>_.
     rbind (require_value (pc_roles c \<noteq> {})) (\<lambda>_.
     rbind (require_value (\<not> (case pc_credential_reference c of None \<Rightarrow> False | Some r \<Rightarrow> br_provider_id r \<noteq> pc_provider_id c))) (\<lambda>_.
     Inr c)))"

definition role_values :: "provider_role set \<Rightarrow> json" where
  "role_values rs = JArr (map JStr (sorted_list_of_set (provider_role_value ` rs)))"

definition provider_configuration_to_dict :: "provider_configuration \<Rightarrow> obj" where
  "provider_configuration_to_dict c =
     [(''provider_id'', JStr (pc_provider_id c)), (''enabled'', JBool (pc_enabled c)), (''roles'', role_values (pc_roles c)),
      (''governance_mode'', JStr (governance_mode_value (pc_governance_mode c))), (''command'', JArr (map JStr (pc_command c))),
      (''credential_reference'', jopt (\<lambda>r. JObj (broker_reference_to_dict r)) (pc_credential_reference c))]"

record provider_readiness =
  rd_provider_id :: string
  rd_state :: readiness_state
  rd_checks :: "(string \<times> bool) list"
  rd_executable :: "string option"
  rd_command :: "string list"
  rd_version :: "string option"
  rd_detail :: string
  rd_auth_probe_sha256 :: "string option"
  rd_executable_sha256 :: "string option"

definition provider_readiness_to_dict :: "provider_readiness \<Rightarrow> obj" where
  "provider_readiness_to_dict r =
     [(''provider_id'', JStr (rd_provider_id r)), (''state'', JStr (readiness_state_value (rd_state r))),
      (''checks'', JObj (map (\<lambda>(k, b). (k, JBool b)) (sort_key fst (rd_checks r)))), (''executable'', jopt JStr (rd_executable r)),
      (''command'', JArr (map JStr (rd_command r))), (''version'', jopt JStr (rd_version r)), (''detail'', JStr (rd_detail r)),
      (''auth_probe_sha256'', jopt JStr (rd_auth_probe_sha256 r)), (''executable_sha256'', jopt JStr (rd_executable_sha256 r))]"

record provider_instance =
  pv_instance_id :: string
  pv_configuration :: provider_configuration
  pv_readiness :: provider_readiness
  pv_capabilities :: "string set"
  pv_certified_roles :: "provider_role set"

definition provider_instance_init :: "provider_instance \<Rightarrow> provider_instance res" where
  "provider_instance_init v =
     rbind (require_value (\<not> blank (pv_instance_id v))) (\<lambda>_.
     rbind (require_value (\<not> rd_provider_id (pv_readiness v) \<noteq> pc_provider_id (pv_configuration v))) (\<lambda>_.
     rbind (require_value (pv_certified_roles v \<subseteq> pc_roles (pv_configuration v))) (\<lambda>_.
     Inr v)))"

definition pv_provider_id :: "provider_instance \<Rightarrow> string" where
  "pv_provider_id v = pc_provider_id (pv_configuration v)"

definition globally_available :: "provider_instance \<Rightarrow> bool" where
  "globally_available v \<longleftrightarrow> rd_state (pv_readiness v) = RD_AVAILABLE"

definition provider_instance_to_dict :: "provider_instance \<Rightarrow> obj" where
  "provider_instance_to_dict v =
     [(''instance_id'', JStr (pv_instance_id v)), (''provider_id'', JStr (pv_provider_id v)),
      (''configuration'', JObj (provider_configuration_to_dict (pv_configuration v))),
      (''readiness'', JObj (provider_readiness_to_dict (pv_readiness v))),
      (''capabilities'', JArr (map JStr (sorted_list_of_set (pv_capabilities v)))),
      (''certified_roles'', role_values (pv_certified_roles v)), (''globally_available'', JBool (globally_available v))]"

record actor_context =
  ac_ctx_actor_id :: string
  ac_ctx_actor_type :: string
  ac_ctx_delegated_roles :: "provider_role set"

definition actor_context_init :: "actor_context \<Rightarrow> actor_context res" where
  "actor_context_init a = rbind (require_value (\<not> (blank (ac_ctx_actor_id a) \<or> blank (ac_ctx_actor_type a)))) (\<lambda>_. Inr a)"

record capability_request =
  cr_project_id :: string
  cr_project_job_id :: string
  cr_role :: provider_role
  cr_capabilities :: "string set"
  cr_allowed_providers :: "string set"
  cr_envelope_capabilities :: "string set"
  cr_actor :: actor_context
  cr_data_classification :: data_classification
  cr_preferred_provider :: "string option"
  cr_project_allowed_providers :: "string set"
  cr_project_allowed_roles :: "provider_role set"

definition capability_request_init :: "capability_request \<Rightarrow> capability_request res" where
  "capability_request_init r = rbind (require_value (\<not> (blank (cr_project_id r) \<or> blank (cr_project_job_id r)))) (\<lambda>_. Inr r)"

record evaluation =
  va_provider_id :: string
  va_eligible :: bool
  va_reasons :: "string list"

record eligibility_decision =
  ed_eligible :: bool
  ed_provider_id :: "string option"
  ed_instance_id :: "string option"
  ed_reasons :: "string list"
  ed_evaluated :: "evaluation list"

definition evaluation_to_dict :: "evaluation \<Rightarrow> obj" where
  "evaluation_to_dict v = [(''provider_id'', JStr (va_provider_id v)), (''eligible'', JBool (va_eligible v)), (''reasons'', JArr (map JStr (va_reasons v)))]"

definition eligibility_decision_to_dict :: "eligibility_decision \<Rightarrow> obj" where
  "eligibility_decision_to_dict d =
     [(''eligible'', JBool (ed_eligible d)), (''provider_id'', jopt JStr (ed_provider_id d)), (''instance_id'', jopt JStr (ed_instance_id d)),
      (''reasons'', JArr (map JStr (ed_reasons d))), (''evaluated'', JArr (map (\<lambda>v. JObj (evaluation_to_dict v)) (ed_evaluated d))),
      (''contextual'', JBool True)]"

section \<open>Credentials\<close>

record authentication_assertion =
  aa_authenticated :: bool
  aa_method :: string
  aa_detail :: string

definition authentication_assertion_to_dict :: "authentication_assertion \<Rightarrow> obj" where
  "authentication_assertion_to_dict a =
     [(''authenticated'', JBool (aa_authenticated a)), (''method'', JStr (aa_method a)), (''detail'', JStr (aa_detail a)),
      (''secret_material_present'', JBool False)]"

type_synonym credential_probe = "broker_reference \<Rightarrow> string list \<Rightarrow> authentication_assertion"

definition broker_resolve :: "(string \<times> credential_probe) list \<Rightarrow> broker_reference \<Rightarrow> string list \<Rightarrow> authentication_assertion" where
  "broker_resolve probes r command = (case map_of probes (br_broker r) of
     None \<Rightarrow> \<lparr>aa_authenticated = False, aa_method = br_broker r, aa_detail = ''credential broker unavailable''\<rparr>
   | Some probe \<Rightarrow> probe r command)"

section \<open>The registry\<close>

record capability_graph =
  cg_providers :: "provider_instance list"
  cg_source :: string

definition graph_provider :: "capability_graph \<Rightarrow> string \<Rightarrow> provider_instance option" where
  "graph_provider g i = find (\<lambda>v. pv_provider_id v = i) (cg_providers g)"

definition capability_graph_to_dict :: "capability_graph \<Rightarrow> obj" where
  "capability_graph_to_dict g =
     [(''providers'', JArr (map (\<lambda>v. JObj (provider_instance_to_dict v)) (cg_providers g))), (''source'', JStr (cg_source g)),
      (''authoritative'', JBool False), (''authority'', JStr ''CapabilityRegistry'')]"

type_synonym registry = "(string \<times> provider_instance) list"

definition register_provider :: "provider_instance \<Rightarrow> registry \<Rightarrow> registry res" where
  "register_provider v reg =
     rbind (ensure (map_of reg (pv_provider_id v) = None) ValueError) (\<lambda>_. Inr (reg @ [(pv_provider_id v, v)]))"

definition registry_graph :: "registry \<Rightarrow> string \<Rightarrow> capability_graph" where
  "registry_graph reg source = \<lparr>cg_providers = map snd (sort_key fst reg), cg_source = source\<rparr>"

section \<open>The resolver\<close>

definition reason :: "bool \<Rightarrow> string \<Rightarrow> string list" where
  "reason c r = (if c then [r] else [])"

definition ineligibility_reasons :: "provider_instance \<Rightarrow> capability_request \<Rightarrow> string list" where
  "ineligibility_reasons v r =
     reason (\<not> globally_available v) ''NOT_GLOBALLY_AVAILABLE'' @
     reason (cr_role r \<notin> pc_roles (pv_configuration v)) ''ROLE_NOT_CONFIGURED'' @
     reason (cr_role r \<notin> pv_certified_roles v) ''ROLE_NOT_CERTIFIED'' @
     reason (cr_role r \<notin> ac_ctx_delegated_roles (cr_actor r)) ''ACTOR_ROLE_NOT_DELEGATED'' @
     reason (\<not> cr_capabilities r \<subseteq> pv_capabilities v) ''CAPABILITIES_NOT_PROVIDED'' @
     reason (\<not> cr_capabilities r \<subseteq> cr_envelope_capabilities r) ''CAPABILITIES_NOT_AUTHORIZED_BY_ENVELOPE'' @
     reason (cr_allowed_providers r \<noteq> {} \<and> pv_provider_id v \<notin> cr_allowed_providers r) ''PROVIDER_NOT_AUTHORIZED_BY_ENVELOPE'' @
     reason (cr_project_allowed_providers r \<noteq> {} \<and> pv_provider_id v \<notin> cr_project_allowed_providers r) ''PROVIDER_NOT_AUTHORIZED_BY_PROJECT'' @
     reason (cr_project_allowed_roles r \<noteq> {} \<and> cr_role r \<notin> cr_project_allowed_roles r) ''ROLE_NOT_AUTHORIZED_BY_PROJECT'' @
     reason (pc_governance_mode (pv_configuration v) = GM_ATLAS_GOVERNED \<and> pv_provider_id v \<noteq> ''atlas'') ''ATLAS_GOVERNANCE_BOUNDARY_INVALID'' @
     reason (cr_data_classification r = DC_RESTRICTED \<and> pc_governance_mode (pv_configuration v) \<noteq> GM_ATLAS_GOVERNED) ''DATA_CLASSIFICATION_INELIGIBLE''"

definition preference :: "capability_request \<Rightarrow> provider_instance \<Rightarrow> bool \<times> string \<times> string" where
  "preference r v = (Some (pv_provider_id v) \<noteq> cr_preferred_provider r, pv_provider_id v, pv_instance_id v)"

definition resolve_provider :: "capability_graph \<Rightarrow> capability_request \<Rightarrow> eligibility_decision" where
  "resolve_provider g r =
     (let evaluated = map (\<lambda>v. let reasons = ineligibility_reasons v r in
            \<lparr>va_provider_id = pv_provider_id v, va_eligible = (reasons = []), va_reasons = reasons\<rparr>) (cg_providers g);
          candidates = filter (\<lambda>v. ineligibility_reasons v r = []) (cg_providers g) in
      case sort_key (preference r) candidates of
        [] \<Rightarrow> \<lparr>ed_eligible = False, ed_provider_id = None, ed_instance_id = None, ed_reasons = [''NO_CONTEXTUALLY_ELIGIBLE_PROVIDER''],
              ed_evaluated = evaluated\<rparr>
      | selected # _ \<Rightarrow> \<lparr>ed_eligible = True, ed_provider_id = Some (pv_provider_id selected), ed_instance_id = Some (pv_instance_id selected),
              ed_reasons = [''AVAILABLE_FOR_CONTEXT''], ed_evaluated = evaluated\<rparr>)"

section \<open>Certification\<close>

definition certification_ladder :: "string list" where
  "certification_ladder = [''ADAPTER_IMPLEMENTED'', ''ROLE_CONFORMANCE_VERIFIED'', ''PACKAGED'', ''PUBLIC_COMPOSITION_VERIFIED'', ''LIVE_ROLE_CERTIFIED'']"

definition role_projection :: "string \<Rightarrow> string \<Rightarrow> (provider_role \<times> string list) list \<Rightarrow> provider_role \<Rightarrow> json" where
  "role_projection provider_id version_range live r =
     (let evidence = (case map_of live r of None \<Rightarrow> [] | Some e \<Rightarrow> e) in
      JObj [(''provider'', JStr provider_id), (''role'', JStr (provider_role_value r)),
        (''state'', JStr (if evidence \<noteq> [] then ''LIVE_ROLE_CERTIFIED'' else ''PUBLIC_COMPOSITION_VERIFIED'')),
        (''supported_version_range'', JStr version_range),
        (''steps'', JObj [(''ADAPTER_IMPLEMENTED'', JStr ''PASS''), (''ROLE_CONFORMANCE_VERIFIED'', JStr ''PASS''), (''PACKAGED'', JStr ''PASS''),
           (''PUBLIC_COMPOSITION_VERIFIED'', JStr ''PASS''), (''LIVE_ROLE_CERTIFIED'', JStr (if evidence \<noteq> [] then ''PASS'' else ''IN_PROGRESS''))]),
        (''evidence'', JArr (map JStr evidence))])"

definition provider_certification_projection :: "string \<Rightarrow> string \<Rightarrow> provider_role list \<Rightarrow> (provider_role \<times> string list) list \<Rightarrow> obj" where
  "provider_certification_projection provider_id version_range roles live =
     [(''ladder'', JArr (map JStr certification_ladder)),
      (''roles'', JArr (map (role_projection provider_id version_range live) (sort_key provider_role_value (remdups roles))))]"

definition dispatch_authorized_roles :: "provider_role list" where
  "dispatch_authorized_roles = [PR_INTERACTION, PR_EXECUTION_IMPLEMENTER]"

definition codex_certification_projection :: "(provider_role \<times> string list) list \<Rightarrow> obj" where
  "codex_certification_projection = provider_certification_projection ''codex'' ''>=0.150.1,<0.151'' dispatch_authorized_roles"

definition claude_certification_projection :: "(provider_role \<times> string list) list \<Rightarrow> obj" where
  "claude_certification_projection = provider_certification_projection ''claude'' ''>=2.1.3,<3'' dispatch_authorized_roles"

definition deepseek_productized_roles :: "provider_role list" where
  "deepseek_productized_roles = [PR_EXECUTION_IMPLEMENTER]"

definition deepseek_certification_projection :: "(provider_role \<times> string list) list \<Rightarrow> obj" where
  "deepseek_certification_projection live =
     provider_certification_projection ''deepseek'' ''>=1.0.0,<2'' deepseek_productized_roles live @
     [(''release_status'', JStr ''EXPERIMENTAL''),
      (''omitted_roles'', JArr (map (\<lambda>r. JObj [(''provider'', JStr ''deepseek''), (''role'', JStr (provider_role_value r)),
         (''state'', JStr ''EXPERIMENTAL_NOT_CLAIMED''), (''reason'', JStr ''no frozen stable public r boundary'')]) [PR_INTERACTION, PR_HARNESS]))]"

section \<open>Which provider is selected\<close>

text \<open>What the resolver promises: the request may use the provider.\<close>

definition available_for :: "provider_instance \<Rightarrow> capability_request \<Rightarrow> bool" where
  "available_for v r \<longleftrightarrow> rd_state (pv_readiness v) = RD_AVAILABLE \<and>
     cr_role r \<in> pc_roles (pv_configuration v) \<inter> pv_certified_roles v \<inter> ac_ctx_delegated_roles (cr_actor r) \<and>
     cr_capabilities r \<subseteq> pv_capabilities v \<inter> cr_envelope_capabilities r \<and>
     (\<forall>allowed \<in> {cr_allowed_providers r, cr_project_allowed_providers r}. allowed = {} \<or> pv_provider_id v \<in> allowed) \<and>
     (cr_project_allowed_roles r = {} \<or> cr_role r \<in> cr_project_allowed_roles r) \<and>
     (pc_governance_mode (pv_configuration v) = GM_ATLAS_GOVERNED \<longrightarrow> pv_provider_id v = ''atlas'') \<and>
     (cr_data_classification r = DC_RESTRICTED \<longrightarrow> pc_governance_mode (pv_configuration v) = GM_ATLAS_GOVERNED)"

lemma no_reasons_iff: "ineligibility_reasons v r = [] \<longleftrightarrow> available_for v r"
  by (auto simp: ineligibility_reasons_def reason_def available_for_def globally_available_def split: if_splits)

text \<open>
  C33. The resolver selects exactly the right provider. A request is eligible exactly when some provider of the graph is available for it: AVAILABLE, configured, certified and delegated for
  the role, within the capabilities and providers that the provider, the Envelope and the Project allow, and within the governance boundary for restricted data. Then
  the selected provider is such a one, and no other available one comes before it in the order of preference, identifier and instance;
  every provider is evaluated, in order, with a reason exactly when it is not available.
\<close>

theorem resolver_exact:
  "let d = resolve_provider g r in
    (ed_eligible d \<longleftrightarrow> (\<exists>v \<in> set (cg_providers g). available_for v r)) \<and>
    (ed_eligible d \<longrightarrow> (\<exists>v \<in> set (cg_providers g). available_for v r \<and> ed_provider_id d = Some (pv_provider_id v) \<and>
       ed_instance_id d = Some (pv_instance_id v) \<and> (\<forall>u \<in> set (cg_providers g). available_for u r \<longrightarrow> preference r v \<le> preference r u))) \<and>
    (\<not> ed_eligible d \<longrightarrow> ed_provider_id d = None \<and> ed_instance_id d = None) \<and>
    map va_provider_id (ed_evaluated d) = map pv_provider_id (cg_providers g) \<and>
    list_all2 (\<lambda>v x. va_eligible x = available_for v r \<and> (va_reasons x = [] \<longleftrightarrow> available_for v r)) (cg_providers g) (ed_evaluated d)"
proof -
  let ?cs = "filter (\<lambda>v. available_for v r) (cg_providers g)"
  have all2: "list_all2 P xs (map f xs)" if "\<And>x. P x (f x)" for P f and xs :: "provider_instance list"
    using that by (induction xs) auto
  show ?thesis
  proof (cases "sort_key (preference r) ?cs")
    case Nil
    then have "?cs = []" by (metis set_empty set_sort)
    then have "\<forall>v \<in> set (cg_providers g). \<not> available_for v r" by (simp add: filter_empty_conv)
    with Nil show ?thesis by (auto simp: resolve_provider_def no_reasons_iff Let_def intro!: all2)
  next
    case (Cons v vs)
    have s: "set (v # vs) = set ?cs" unfolding Cons [symmetric] by simp
    have "sorted (map (preference r) (v # vs))" unfolding Cons [symmetric] by simp
    then have "\<forall>u \<in> set ?cs. preference r v \<le> preference r u" unfolding s [symmetric] by auto
    moreover have "v \<in> set ?cs" using s by auto
    ultimately show ?thesis using Cons by (auto simp: resolve_provider_def no_reasons_iff Let_def intro!: all2)
  qed
qed

definition demo_provider :: "string \<Rightarrow> readiness_state \<Rightarrow> provider_instance" where
  "demo_provider i st = \<lparr>pv_instance_id = i @ '':local'',
     pv_configuration = \<lparr>pc_provider_id = i, pc_enabled = True, pc_roles = {PR_INTERACTION, PR_EXECUTION_IMPLEMENTER},
       pc_governance_mode = GM_STANDALONE, pc_command = [i], pc_credential_reference = None\<rparr>,
     pv_readiness = \<lparr>rd_provider_id = i, rd_state = st, rd_checks = [], rd_executable = Some i, rd_command = [i], rd_version = Some ''2.1.3'',
       rd_detail = [], rd_auth_probe_sha256 = None, rd_executable_sha256 = None\<rparr>,
     pv_capabilities = {''code.write''}, pv_certified_roles = {PR_EXECUTION_IMPLEMENTER}\<rparr>"

definition demo_capability_request :: capability_request where
  "demo_capability_request = \<lparr>cr_project_id = ''P'', cr_project_job_id = ''J'', cr_role = PR_EXECUTION_IMPLEMENTER, cr_capabilities = {''code.write''},
     cr_allowed_providers = {}, cr_envelope_capabilities = {''code.write''},
     cr_actor = \<lparr>ac_ctx_actor_id = ''a'', ac_ctx_actor_type = ''HUMAN'', ac_ctx_delegated_roles = {PR_EXECUTION_IMPLEMENTER}\<rparr>,
     cr_data_classification = DC_INTERNAL, cr_preferred_provider = Some ''claude'', cr_project_allowed_providers = {}, cr_project_allowed_roles = {}\<rparr>"

definition demo_graph :: capability_graph where
  "demo_graph = \<lparr>cg_providers = [demo_provider ''claude'' RD_CONFIGURED, demo_provider ''codex'' RD_AVAILABLE], cg_source = ''setup.json''\<rparr>"

text \<open>The preferred provider is configured but not available, so the other one is selected.\<close>

theorem resolver_exact_witness:
  "ed_eligible (resolve_provider demo_graph demo_capability_request) \<and>
   ed_provider_id (resolve_provider demo_graph demo_capability_request) = Some ''codex''"
proof -
  have "\<not> available_for (demo_provider ''claude'' RD_CONFIGURED) demo_capability_request"
    "available_for (demo_provider ''codex'' RD_AVAILABLE) demo_capability_request"
    by (simp_all add: available_for_def demo_provider_def demo_capability_request_def)
  with resolver_exact [of demo_graph demo_capability_request] show ?thesis
    by (auto simp: Let_def demo_graph_def pv_provider_id_def demo_provider_def)
qed

end
