(* ===== verification/Provider_Composition.thy ===== *)
theory Provider_Composition
  imports Capabilities Artifact_Index
begin

text \<open>
  Models \<open>src/artifex/capabilities/composition.py\<close> and what it uses of \<open>src/artifex/integrations\<close> (the detections of \<open>codex.py\<close>, \<open>claude.py\<close> and
  \<open>deepseek.py\<close>): a persisted provider setup is decoded, each enabled provider is probed, and the results become the capability graph.

  Where an executable is found, what a command prints, the JSON value of a text, SHA-256 over JSON and over a file are parameters of a \<open>probe_env\<close>. A regular
  expression is a function from a text to the texts that may remain after a match, preferred first, as its backtracking matcher tries them.
\<close>

section \<open>Regular expressions\<close>

type_synonym matcher = "string \<Rightarrow> string list"

fun m_char :: "(char \<Rightarrow> bool) \<Rightarrow> matcher" where
  "m_char P [] = []"
| "m_char P (c # cs) = (if P c then [cs] else [])"

fun m_many :: "(char \<Rightarrow> bool) \<Rightarrow> matcher" where
  "m_many P [] = [[]]"
| "m_many P (c # cs) = (if P c then m_many P cs @ [c # cs] else [c # cs])"

definition m_seq :: "matcher \<Rightarrow> matcher \<Rightarrow> matcher" where
  "m_seq f g s = concat (map g (f s))"

definition m_plus :: "(char \<Rightarrow> bool) \<Rightarrow> matcher" where
  "m_plus P = m_seq (m_char P) (m_many P)"

fun m_upto :: "nat \<Rightarrow> matcher \<Rightarrow> matcher" where
  "m_upto 0 f s = [s]"
| "m_upto (Suc n) f s = concat (map (m_upto n f) (f s)) @ [s]"

definition m_opt :: "matcher \<Rightarrow> matcher" where
  "m_opt = m_upto 1"

text \<open>\<open>search\<close> for a pattern that starts with \<open>(?<!\d)\<close>: the text of the leftmost match\<close>

fun search_number :: "matcher \<Rightarrow> bool \<Rightarrow> string \<Rightarrow> string option" where
  "search_number m after_digit s =
     (if \<not> after_digit \<and> m s \<noteq> [] then Some (take (length s - length (hd (m s))) s)
      else (case s of [] \<Rightarrow> None | c # cs \<Rightarrow> search_number m (is_digit c) cs))"

declare search_number.simps [simp del]

definition is_dot :: "char \<Rightarrow> bool" where
  "is_dot c \<longleftrightarrow> c = CHR ''.''"

definition suffix_char :: "char \<Rightarrow> bool" where
  "suffix_char c \<longleftrightarrow> is_upper c \<or> is_lower c \<or> is_digit c \<or> c = CHR ''.'' \<or> c = CHR ''-''"

text \<open>\<open>(?:[-+][A-Za-z0-9.-]+)?\<close>\<close>

definition version_suffix :: matcher where
  "version_suffix = m_opt (m_seq (m_char (\<lambda>c. c = CHR ''-'' \<or> c = CHR ''+'')) (m_plus suffix_char))"

definition dotted_number :: matcher where
  "dotted_number = m_seq (m_char is_dot) (m_plus is_digit)"

text \<open>\<open>(\d+(?:\.\d+){1,3}(?:[-+][A-Za-z0-9.-]+)?)\<close> and \<open>(\d+\.\d+\.\d+(?:[-+][A-Za-z0-9.-]+)?)(?!\d)\<close>\<close>

definition version_matcher :: matcher where
  "version_matcher = m_seq (m_plus is_digit) (m_seq dotted_number (m_seq (m_upto 2 dotted_number) version_suffix))"

definition deepseek_version_matcher :: matcher where
  "deepseek_version_matcher = m_seq (m_plus is_digit) (m_seq dotted_number (m_seq dotted_number (m_seq version_suffix
     (\<lambda>s. if s \<noteq> [] \<and> is_digit (hd s) then [] else [s]))))"

section \<open>Probes\<close>

datatype process_result =
    Completed int string string
  | Raised_OSError string string
  | Raised_TimeoutExpired string string
  | Raised_SubprocessError string string

record probe_env =
  px_which :: "string \<Rightarrow> string option"
  px_run :: "string list \<Rightarrow> process_result"
  px_json :: "string \<Rightarrow> json option"
  px_sha :: "json \<Rightarrow> string"
  px_file_sha :: "string \<Rightarrow> string option"

text \<open>\<open>except (OSError, subprocess.SubprocessError)\<close>: the name of the error's class, or the code and the two outputs\<close>

fun outcome_of :: "process_result \<Rightarrow> string + int \<times> string \<times> string" where
  "outcome_of (Completed n out err_text) = Inr (n, out, err_text)"
| "outcome_of (Raised_OSError name m) = Inl name"
| "outcome_of (Raised_TimeoutExpired name m) = Inl name"
| "outcome_of (Raised_SubprocessError name m) = Inl name"

definition printed :: "string \<Rightarrow> string \<Rightarrow> string" where
  "printed out err_text = strip (if out \<noteq> [] then out else err_text)"

record codex_detection =
  cx_available :: bool
  cx_executable :: "string option"
  cx_version :: "string option"
  cx_raw_version :: string
  cx_error :: "string option"

definition codex_detection_init :: "codex_detection \<Rightarrow> codex_detection res" where
  "codex_detection_init d =
     rbind (ensure (\<not> (cx_available d \<and> (cx_executable d \<in> {None, Some []} \<or> cx_version d \<in> {None, Some []}))) IntegrationError) (\<lambda>_.
     rbind (ensure (\<not> (\<not> cx_available d \<and> cx_version d \<noteq> None)) IntegrationError) (\<lambda>_. Inr d))"

record claude_detection =
  cl_installed :: bool
  cl_executable :: "string option"
  cl_version :: "string option"
  cl_detail :: string

datatype deepseek_compatibility = DS_STABLE | DS_PREVIEW | DS_INCOMPATIBLE | DS_UNKNOWN

record deepseek_detection =
  ds_installed :: bool
  ds_executable :: "string option"
  ds_version :: "string option"
  ds_capabilities :: "string set"
  ds_compatibility :: deepseek_compatibility
  ds_detail :: string

definition stable_headless :: "deepseek_detection \<Rightarrow> bool" where
  "stable_headless d \<longleftrightarrow> ds_compatibility d = DS_STABLE \<and> {''headless'', ''structured_output''} \<subseteq> ds_capabilities d"

definition codex_capabilities :: "string set" where
  "codex_capabilities = {''interactive'', ''headless'', ''resume'', ''skills'', ''MCP'', ''worktrees'', ''subagents'', ''structured_output'',
     ''repository_read'', ''repository_write'', ''test_execution'', ''background_jobs''}"

definition claude_capabilities :: "string set" where
  "claude_capabilities = {''interactive'', ''headless'', ''skills'', ''worktrees'', ''structured_output'', ''repository_read'', ''repository_write'',
     ''test_execution''}"

definition detect_codex :: "probe_env \<Rightarrow> string list \<Rightarrow> (codex_detection \<times> string list) res" where
  "detect_codex env command = (case px_which env (hd command) of
     None \<Rightarrow> rbind (codex_detection_init \<lparr>cx_available = False, cx_executable = None, cx_version = None, cx_raw_version = [],
         cx_error = Some (hd command @ '' was not found on PATH'')\<rparr>) (\<lambda>d. Inr (d, command))
   | Some resolved \<Rightarrow>
       let rcmd = resolved # tl command in
       (case outcome_of (px_run env (rcmd @ [''--version''])) of
          Inl name \<Rightarrow> rbind (codex_detection_init \<lparr>cx_available = False, cx_executable = Some resolved, cx_version = None, cx_raw_version = [],
            cx_error = Some (''Codex version probe failed: '' @ name)\<rparr>) (\<lambda>d. Inr (d, rcmd))
        | Inr (n, out, err_text) \<Rightarrow>
            (case (n, search_number version_matcher False (printed out err_text)) of
               (code, m) \<Rightarrow>
                 if code \<noteq> 0 \<or> m = None then
                   rbind (codex_detection_init \<lparr>cx_available = False, cx_executable = Some resolved, cx_version = None,
                     cx_raw_version = printed out err_text,
                     cx_error = Some (if code \<noteq> 0 then ''Codex version probe exited with '' @ int_text code
                       else ''Codex version output did not contain a semantic version'')\<rparr>) (\<lambda>d. Inr (d, rcmd))
                 else rbind (codex_detection_init \<lparr>cx_available = True, cx_executable = Some resolved, cx_version = m,
                     cx_raw_version = printed out err_text, cx_error = None\<rparr>) (\<lambda>d. Inr (d, rcmd)))))"

definition detect_claude :: "probe_env \<Rightarrow> string list \<Rightarrow> claude_detection \<times> string list" where
  "detect_claude env command = (case px_which env (hd command) of
     None \<Rightarrow> (\<lparr>cl_installed = False, cl_executable = None, cl_version = None, cl_detail = hd command @ '' was not found on PATH''\<rparr>, command)
   | Some resolved \<Rightarrow>
       let rcmd = resolved # tl command in
       (case outcome_of (px_run env (rcmd @ [''--version''])) of
          Inl name \<Rightarrow> (\<lparr>cl_installed = False, cl_executable = Some resolved, cl_version = None,
            cl_detail = ''Claude version probe failed: '' @ name\<rparr>, rcmd)
        | Inr (n, out, err_text) \<Rightarrow>
            let m = search_number version_matcher False (printed out err_text) in
            if n \<noteq> 0 \<or> m = None then
              (\<lparr>cl_installed = False, cl_executable = Some resolved, cl_version = None,
                cl_detail = (if n \<noteq> 0 then ''Claude version probe exited with '' @ int_text n
                  else ''Claude version output did not contain a semantic version'')\<rparr>, rcmd)
            else (\<lparr>cl_installed = True, cl_executable = Some resolved, cl_version = m, cl_detail = printed out err_text\<rparr>, rcmd)))"

subsection \<open>DeepSeek\<close>

definition contains_text :: "string \<Rightarrow> string \<Rightarrow> bool" where
  "contains_text p s \<longleftrightarrow> list_ex (prefix p) (suffixes s)"

definition splits :: "string \<Rightarrow> (string \<times> string) list" where
  "splits s = map (\<lambda>n. (take n s, drop n s)) [0..<Suc (length s)]"

text \<open>\<open>(?<!non-)interactive mode\<close> and \<open>(?:^|[-+.])(alpha|beta|preview|rc|dev)(?:[.\d-]|$)\<close> without regard to case\<close>

definition interactive_mode :: "string \<Rightarrow> bool" where
  "interactive_mode s \<longleftrightarrow> list_ex (\<lambda>(a, b). prefix ''interactive mode'' b \<and> \<not> suffix ''non-'' a) (splits s)"

definition preview_version :: "string \<Rightarrow> bool" where
  "preview_version s \<longleftrightarrow> list_ex (\<lambda>(a, b). (a = [] \<or> last a \<in> set ''-+.'') \<and>
     list_ex (\<lambda>w. case eat_ci w b of None \<Rightarrow> False
       | Some r \<Rightarrow> r = [] \<or> r = [CHR 0x0A] \<or> hd r \<in> set ''.-'' \<or> is_digit (hd r)) [''alpha'', ''beta'', ''preview'', ''rc'', ''dev'']) (splits s)"

definition classify_compatibility :: "string option \<Rightarrow> bool \<Rightarrow> bool \<Rightarrow> bool \<Rightarrow> deepseek_compatibility" where
  "classify_compatibility ver probes_succeeded headless structured = (case ver of None \<Rightarrow> DS_UNKNOWN
   | Some v \<Rightarrow>
       if preview_version v then DS_PREVIEW
       else if \<not> list_ex (\<lambda>r. r = []) (deepseek_version_matcher v) then DS_UNKNOWN
       else if int_digits (takeWhile (\<lambda>c. \<not> is_dot c) v) \<noteq> 1 then DS_INCOMPATIBLE
       else if \<not> (probes_succeeded \<and> headless \<and> structured) then DS_UNKNOWN
       else DS_STABLE)"

text \<open>\<open>except (OSError, subprocess.TimeoutExpired)\<close>: a message, or the code and the two outputs\<close>

definition run_probe :: "probe_env \<Rightarrow> string list \<Rightarrow> (string + int \<times> string \<times> string) res" where
  "run_probe env command = (case px_run env command of
     Completed n out err_text \<Rightarrow> Inr (Inr (n, out, err_text))
   | Raised_OSError name m \<Rightarrow> Inr (Inl (''read-only capability detection failed: '' @ m))
   | Raised_TimeoutExpired name m \<Rightarrow> Inr (Inl (''read-only capability detection failed: '' @ m))
   | Raised_SubprocessError name m \<Rightarrow> Inl SubprocessError)"

definition undetected :: "string option \<Rightarrow> string \<Rightarrow> deepseek_detection" where
  "undetected executable detail = \<lparr>ds_installed = False, ds_executable = executable, ds_version = None, ds_capabilities = {},
     ds_compatibility = DS_UNKNOWN, ds_detail = detail\<rparr>"

definition help_text :: "string + int \<times> string \<times> string \<Rightarrow> string option" where
  "help_text r = (case r of Inr (n, out, err_text) \<Rightarrow> if n = 0 then Some (lower (out @ [CHR 0x0A] @ err_text)) else None | Inl m \<Rightarrow> None)"

definition help_capabilities :: "string \<Rightarrow> string set" where
  "help_capabilities h = {''repository_read''} \<union>
     (if contains_text ''--headless'' h \<or> contains_text ''non-interactive'' h then {''headless''} else {}) \<union>
     (if list_ex (\<lambda>p. contains_text p h) [''--json'', ''--format'', ''structured''] then {''structured_output''} else {}) \<union>
     (if contains_text ''--interactive'' h \<or> interactive_mode h then {''interactive''} else {}) \<union>
     (if list_ex (\<lambda>p. contains_text p h) [''write'', ''edit'', ''apply''] then {''repository_write''} else {}) \<union>
     (if list_ex (\<lambda>p. contains_text p h) [''test'', ''command'', ''shell''] then {''test_execution''} else {})"

definition help_detail :: "string + int \<times> string \<times> string \<Rightarrow> string" where
  "help_detail r = (case r of Inl m \<Rightarrow> ''; '' @ m
     | Inr (n, out, err_text) \<Rightarrow> if n \<noteq> 0 then ''; headless help exited with '' @ int_text n else [])"

definition detect_deepseek :: "probe_env \<Rightarrow> string \<Rightarrow> deepseek_detection res" where
  "detect_deepseek env executable = (case px_which env executable of
     None \<Rightarrow> Inr (undetected None (executable @ '' executable was not found''))
   | Some resolved \<Rightarrow>
       rbind (run_probe env [resolved, ''--version'']) (\<lambda>version_result.
       case version_result of
         Inl m \<Rightarrow> Inr (undetected (Some resolved) m)
       | Inr (n, out, err_text) \<Rightarrow>
           let shown = printed out err_text in
           if n \<noteq> 0 then Inr (undetected (Some resolved) (if shown \<noteq> [] then shown else ''version command exited with '' @ int_text n))
           else
             rbind (run_probe env [resolved, ''run'', ''--help'']) (\<lambda>help_result.
             let ver = search_number deepseek_version_matcher False shown;
                 h = (case help_text help_result of None \<Rightarrow> [] | Some t \<Rightarrow> t);
                 caps = help_capabilities h in
             Inr \<lparr>ds_installed = True, ds_executable = Some resolved, ds_version = ver, ds_capabilities = caps,
               ds_compatibility = classify_compatibility ver (help_text help_result \<noteq> None) (''headless'' \<in> caps) (''structured_output'' \<in> caps),
               ds_detail = (if shown \<noteq> [] then shown else ''version was not reported'') @ help_detail help_result\<rparr>)))"

definition detect_deepseek_command :: "probe_env \<Rightarrow> string list \<Rightarrow> (deepseek_detection \<times> string list) res" where
  "detect_deepseek_command env command =
     (if length command \<noteq> 1 then Inr (undetected None ''configured DeepSeek command cannot pre-supply caller flags'', command)
      else rbind (detect_deepseek env (hd command)) (\<lambda>d.
        Inr (d, case ds_executable d of None \<Rightarrow> command | Some x \<Rightarrow> [x])))"

section \<open>The persisted setup\<close>

fun setup_string :: "json option \<Rightarrow> string res" where
  "setup_string (Some (JStr s)) = rbind (ensure (\<not> blank s) ProviderSetupError) (\<lambda>_. Inr s)"
| "setup_string j = Inl ProviderSetupError"

fun setup_string_array :: "json option \<Rightarrow> string list res" where
  "setup_string_array (Some (JArr xs)) = rmap (\<lambda>j. setup_string (Some j)) xs"
| "setup_string_array j = Inl ProviderSetupError"

fun setup_reference :: "json \<Rightarrow> string \<Rightarrow> broker_reference res" where
  "setup_reference (JObj v) i =
     rbind (ensure (fst ` set v = {''broker'', ''reference'', ''provider_id'', ''scopes'', ''secret_material_present''}) ProviderSetupError) (\<lambda>_.
     rbind (ensure (map_of v ''secret_material_present'' = Some (JBool False)) ProviderSetupError) (\<lambda>_.
     rbind (setup_string (map_of v ''provider_id'')) (\<lambda>observed.
     rbind (ensure (observed = i) ProviderSetupError) (\<lambda>_.
     rbind (setup_string (map_of v ''broker'')) (\<lambda>broker.
     rbind (setup_string (map_of v ''reference'')) (\<lambda>ref.
     rbind (setup_string_array (map_of v ''scopes'')) (\<lambda>scopes.
     broker_reference_init \<lparr>br_broker = broker, br_reference = ref, br_provider_id = i, br_scopes = scopes\<rparr>)))))))"
| "setup_reference j i = Inl ProviderSetupError"

fun setup_bool :: "json option \<Rightarrow> bool res" where
  "setup_bool (Some (JBool b)) = Inr b"
| "setup_bool j = Inl ProviderSetupError"

definition setup_keys :: "string set" where
  "setup_keys = {''provider_id'', ''enabled'', ''roles'', ''governance_mode'', ''command'', ''credential_reference''}"

fun setup_configuration :: "json \<Rightarrow> provider_configuration res" where
  "setup_configuration (JObj v) =
     rbind (ensure (fst ` set v \<subseteq> setup_keys) ProviderSetupError) (\<lambda>_.
     rbind (setup_string (map_of v ''provider_id'')) (\<lambda>i.
     rbind (rbind (setup_string_array (map_of v ''roles'')) (rmap to_provider_role)) (\<lambda>roles.
     rbind (case map_of v ''credential_reference'' of None \<Rightarrow> Inr None | Some JNull \<Rightarrow> Inr None
       | Some j \<Rightarrow> rbind (setup_reference j i) (\<lambda>r. Inr (Some r))) (\<lambda>ref.
     rbind (setup_bool (map_of v ''enabled'')) (\<lambda>enabled.
     rbind (rbind (setup_string (map_of v ''governance_mode'')) to_governance_mode) (\<lambda>mode.
     rbind (setup_string_array (map_of v ''command'')) (\<lambda>command.
     provider_configuration_init \<lparr>pc_provider_id = i, pc_enabled = enabled, pc_roles = set roles, pc_governance_mode = mode,
       pc_command = command, pc_credential_reference = ref\<rparr>)))))))"
| "setup_configuration j = Inl ProviderSetupError"

definition native_configuration :: "string \<Rightarrow> provider_role list \<Rightarrow> governance_mode \<Rightarrow> provider_configuration res" where
  "native_configuration i roles mode =
     rbind (broker_reference_init \<lparr>br_broker = i @ ''-native-session'', br_reference = ''default'', br_provider_id = i,
       br_scopes = map provider_role_value roles\<rparr>) (\<lambda>r.
     provider_configuration_init \<lparr>pc_provider_id = i, pc_enabled = True, pc_roles = set roles, pc_governance_mode = mode, pc_command = [i],
       pc_credential_reference = Some r\<rparr>)"

definition default_configuration :: "string \<Rightarrow> provider_configuration res" where
  "default_configuration i =
     (if i = ''codex'' \<or> i = ''claude'' then native_configuration i [PR_INTERACTION, PR_EXECUTION_IMPLEMENTER] GM_STANDALONE
      else if i = ''deepseek'' then native_configuration i [PR_EXECUTION_IMPLEMENTER] GM_PROVIDER_MANAGED
      else provider_configuration_init \<lparr>pc_provider_id = i, pc_enabled = True, pc_roles = {PR_INTERACTION}, pc_governance_mode = GM_STANDALONE,
        pc_command = [i], pc_credential_reference = None\<rparr>)"

definition setup_configurations :: "obj \<Rightarrow> provider_configuration list res" where
  "setup_configurations v =
     (if map_of v ''schema_version'' = Some (JStr ''1.0'') then
        rbind (setup_string_array (map_of v ''enabled'')) (rmap default_configuration)
      else
        rbind (ensure (map_of v ''schema_version'' = Some (JStr ''2.0'')) ProviderSetupError) (\<lambda>_.
        case map_of v ''providers'' of Some (JArr xs) \<Rightarrow> rmap setup_configuration xs | _ \<Rightarrow> Inl ProviderSetupError))"

definition load_setup :: "file_content \<Rightarrow> obj res" where
  "load_setup f = (case loads f of
     Inr (JObj v) \<Rightarrow> rbind (ensure (map_of v ''authority'' = Some (JStr ''ARTIFEX_PROJECT_STATE'')) ProviderSetupError) (\<lambda>_. Inr v)
   | _ \<Rightarrow> Inl ProviderSetupError)"

section \<open>Authentication\<close>

definition native_assertion :: "string \<Rightarrow> string \<Rightarrow> bool \<Rightarrow> authentication_assertion" where
  "native_assertion broker name ok = \<lparr>aa_authenticated = ok, aa_method = broker,
     aa_detail = (if ok then ''native '' @ name @ '' session authenticated'' else ''native '' @ name @ '' session unavailable'')\<rparr>"

definition probe_failed :: "string \<Rightarrow> string \<Rightarrow> authentication_assertion" where
  "probe_failed broker name = \<lparr>aa_authenticated = False, aa_method = broker, aa_detail = ''authentication probe failed: '' @ name\<rparr>"

definition probe_codex_native_session :: "probe_env \<Rightarrow> credential_probe" where
  "probe_codex_native_session env r command = (case outcome_of (px_run env (command @ [''login'', ''status''])) of
     Inl name \<Rightarrow> probe_failed ''codex-native-session'' name
   | Inr (n, out, err_text) \<Rightarrow> native_assertion ''codex-native-session'' ''Codex'' (n = 0))"

text \<open>\<open>isinstance(status, Mapping) and status.get(key) is True\<close>\<close>

definition reports :: "probe_env \<Rightarrow> string \<Rightarrow> string \<Rightarrow> bool" where
  "reports env out key = (case px_json env out of Some (JObj v) \<Rightarrow> map_of v key = Some (JBool True) | _ \<Rightarrow> False)"

definition probe_claude_native_session :: "probe_env \<Rightarrow> credential_probe" where
  "probe_claude_native_session env r command = (case outcome_of (px_run env (command @ [''auth'', ''status''])) of
     Inl name \<Rightarrow> probe_failed ''claude-native-session'' name
   | Inr (n, out, err_text) \<Rightarrow> native_assertion ''claude-native-session'' ''Claude'' (n = 0 \<and> reports env out ''loggedIn''))"

definition probe_deepseek_native_session :: "probe_env \<Rightarrow> credential_probe" where
  "probe_deepseek_native_session env r command = (case outcome_of (px_run env (command @ [''auth'', ''status''])) of
     Inl name \<Rightarrow> probe_failed ''deepseek-native-session'' name
   | Inr (n, out, err_text) \<Rightarrow> native_assertion ''deepseek-native-session'' ''DeepSeek'' (n = 0 \<and> reports env out ''authenticated''))"

text \<open>The broker of a loader that is given none\<close>

definition default_probes :: "probe_env \<Rightarrow> (string \<times> credential_probe) list" where
  "default_probes env = [(''codex-native-session'', probe_codex_native_session env), (''claude-native-session'', probe_claude_native_session env),
     (''deepseek-native-session'', probe_deepseek_native_session env)]"

definition authenticate :: "(string \<times> credential_probe) list \<Rightarrow> broker_reference option \<Rightarrow> string option \<Rightarrow> string list \<Rightarrow> authentication_assertion" where
  "authenticate probes ref executable args = (case (ref, executable) of
     (Some r, Some x) \<Rightarrow> broker_resolve probes r (x # args)
   | _ \<Rightarrow> \<lparr>aa_authenticated = False, aa_method = ''none'', aa_detail = ''credential reference is missing''\<rparr>)"

definition not_probed :: "string \<Rightarrow> authentication_assertion" where
  "not_probed detail = \<lparr>aa_authenticated = False, aa_method = ''not-probed'', aa_detail = detail\<rparr>"

section \<open>Composition\<close>

definition or_text :: "string \<Rightarrow> string \<Rightarrow> string" where
  "or_text s d = (if s \<noteq> [] then s else d)"

type_synonym certifications = "(string \<times> provider_role set) list"

definition certified_for :: "certifications \<Rightarrow> string \<Rightarrow> provider_role set" where
  "certified_for certs i = (case map_of certs i of None \<Rightarrow> {} | Some rs \<Rightarrow> rs)"

definition file_sha256 :: "probe_env \<Rightarrow> string option \<Rightarrow> string option" where
  "file_sha256 env path = (case path of None \<Rightarrow> None | Some p \<Rightarrow> px_file_sha env p)"

definition compose_codex :: "probe_env \<Rightarrow> (string \<times> credential_probe) list \<Rightarrow> certifications \<Rightarrow> provider_configuration \<Rightarrow> provider_instance res" where
  "compose_codex env probes certs c =
     rbind (detect_codex env (pc_command c)) (\<lambda>(d, command).
     let missing = or_text (case cx_error d of None \<Rightarrow> [] | Some e \<Rightarrow> e) ''Codex was not detected'';
         a = (if cx_available d then authenticate probes (pc_credential_reference c) (cx_executable d) (tl (pc_command c)) else not_probed missing);
         ok = aa_authenticated a in
     provider_instance_init \<lparr>pv_instance_id = ''codex:local'', pv_configuration = c,
       pv_readiness = \<lparr>rd_provider_id = ''codex'',
         rd_state = (if \<not> cx_available d then RD_NOT_DETECTED else if ok then RD_AVAILABLE else RD_CONFIGURED),
         rd_checks = [(''detected'', cx_available d), (''configured'', pc_enabled c), (''authenticated'', ok), (''healthy'', ok), (''registered'', ok),
           (''available'', ok)],
         rd_executable = cx_executable d, rd_command = command, rd_version = cx_version d, rd_detail = aa_detail a,
         rd_auth_probe_sha256 = Some (px_sha env (JObj [(''provider_id'', JStr ''codex''), (''version'', jopt JStr (cx_version d)),
           (''authenticated'', JBool ok), (''method'', JStr (aa_method a))])),
         rd_executable_sha256 = file_sha256 env (cx_executable d)\<rparr>,
       pv_capabilities = codex_capabilities, pv_certified_roles = certified_for certs ''codex'' \<inter> pc_roles c\<rparr>)"

text \<open>\<open>(\d+)\.(\d+)\.(\d+)(?:[-+][A-Za-z0-9.-]+)?\<close>, matched in full\<close>

definition three_numbers :: "string \<Rightarrow> (int \<times> int \<times> int) option" where
  "three_numbers s =
     (let a = takeWhile is_digit s; r = dropWhile is_digit s;
          b = takeWhile is_digit (tl r); t = dropWhile is_digit (tl r);
          c = takeWhile is_digit (tl t); u = dropWhile is_digit (tl t) in
      if a \<noteq> [] \<and> r \<noteq> [] \<and> is_dot (hd r) \<and> b \<noteq> [] \<and> t \<noteq> [] \<and> is_dot (hd t) \<and> c \<noteq> [] \<and> list_ex (\<lambda>x. x = []) (version_suffix u)
      then Some (int_digits a, int_digits b, int_digits c) else None)"

definition supported_claude_version :: "string option \<Rightarrow> bool" where
  "supported_claude_version ver = (case ver of None \<Rightarrow> False
   | Some v \<Rightarrow> (case three_numbers v of None \<Rightarrow> False | Some n \<Rightarrow> (2, 1, 3) \<le> n \<and> n < (3, 0, 0)))"

definition compose_claude :: "probe_env \<Rightarrow> (string \<times> credential_probe) list \<Rightarrow> certifications \<Rightarrow> provider_configuration \<Rightarrow> provider_instance res" where
  "compose_claude env probes certs c =
     (case detect_claude env (pc_command c) of (d, command) \<Rightarrow>
      let supported_version = (cl_installed d \<and> supported_claude_version (cl_version d));
          missing = (if cl_installed d then ''Claude version is outside the certified range >=2.1.3,<3: '' @
              or_text (case cl_version d of None \<Rightarrow> [] | Some v \<Rightarrow> v) ''unknown''
            else or_text (cl_detail d) ''Claude was not detected'');
          a = (if supported_version then authenticate probes (pc_credential_reference c) (cl_executable d) (tl (pc_command c)) else not_probed missing);
          ok = aa_authenticated a in
      provider_instance_init \<lparr>pv_instance_id = ''claude:local'', pv_configuration = c,
        pv_readiness = \<lparr>rd_provider_id = ''claude'',
          rd_state = (if \<not> cl_installed d then RD_NOT_DETECTED else if ok then RD_AVAILABLE else RD_CONFIGURED),
          rd_checks = [(''detected'', cl_installed d), (''configured'', pc_enabled c), (''supported_version'', supported_version),
            (''authenticated'', ok), (''healthy'', ok), (''registered'', ok), (''available'', ok)],
          rd_executable = cl_executable d, rd_command = command, rd_version = cl_version d, rd_detail = aa_detail a,
          rd_auth_probe_sha256 = Some (px_sha env (JObj [(''provider_id'', JStr ''claude''), (''version'', jopt JStr (cl_version d)),
            (''authenticated'', JBool ok), (''method'', JStr (aa_method a)), (''supported_version'', JBool supported_version)])),
          rd_executable_sha256 = file_sha256 env (cl_executable d)\<rparr>,
        pv_capabilities = claude_capabilities, pv_certified_roles = certified_for certs ''claude'' \<inter> pc_roles c\<rparr>)"

definition compose_deepseek :: "probe_env \<Rightarrow> (string \<times> credential_probe) list \<Rightarrow> certifications \<Rightarrow> provider_configuration \<Rightarrow> provider_instance res" where
  "compose_deepseek env probes certs c =
     rbind (detect_deepseek_command env (pc_command c)) (\<lambda>(d, command).
     let stable = (ds_installed d \<and> stable_headless d);
         missing = or_text (ds_detail d) ''DeepSeek was not detected'';
         a = (if stable then authenticate probes (pc_credential_reference c) (ds_executable d) [] else not_probed missing);
         ok = aa_authenticated a in
     provider_instance_init \<lparr>pv_instance_id = ''deepseek:local'', pv_configuration = c,
       pv_readiness = \<lparr>rd_provider_id = ''deepseek'',
         rd_state = (if \<not> ds_installed d then RD_NOT_DETECTED else if ok then RD_AVAILABLE else RD_CONFIGURED),
         rd_checks = [(''detected'', ds_installed d), (''configured'', pc_enabled c), (''authenticated'', ok), (''healthy'', ok), (''registered'', ok),
           (''available'', ok), (''stable_headless_boundary'', stable_headless d)],
         rd_executable = ds_executable d, rd_command = command, rd_version = ds_version d,
         rd_detail = (if ds_installed d \<and> \<not> stable_headless d
           then ''DeepSeek stable headless structured-output boundary is unavailable; '' @ ds_detail d else aa_detail a),
         rd_auth_probe_sha256 = Some (px_sha env (JObj [(''provider_id'', JStr ''deepseek''), (''version'', jopt JStr (ds_version d)),
           (''authenticated'', JBool ok), (''method'', JStr (aa_method a)), (''stable_headless_boundary'', JBool (stable_headless d))])),
         rd_executable_sha256 = file_sha256 env (ds_executable d)\<rparr>,
       pv_capabilities = ds_capabilities d, pv_certified_roles = certified_for certs ''deepseek'' \<inter> pc_roles c\<rparr>)"

fun register_each :: "probe_env \<Rightarrow> (string \<times> credential_probe) list \<Rightarrow> certifications \<Rightarrow> provider_configuration list \<Rightarrow> registry \<Rightarrow> registry res" where
  "register_each env probes certs [] reg = Inr reg"
| "register_each env probes certs (c # cs) reg =
     rbind (if \<not> pc_enabled c then Inr reg
       else if pc_provider_id c = ''codex'' then rbind (compose_codex env probes certs c) (\<lambda>v. register_provider v reg)
       else if pc_provider_id c = ''claude'' then rbind (compose_claude env probes certs c) (\<lambda>v. register_provider v reg)
       else if pc_provider_id c = ''deepseek'' then rbind (compose_deepseek env probes certs c) (\<lambda>v. register_provider v reg)
       else Inr reg) (register_each env probes certs cs)"

text \<open>\<open>load\<close>: \<open>setup\<close> is the setup file of the Project, when it has one, and \<open>source\<close> its path.\<close>

definition load_providers :: "probe_env \<Rightarrow> (string \<times> credential_probe) list \<Rightarrow> certifications \<Rightarrow> file_content option \<Rightarrow> string \<Rightarrow> capability_graph res" where
  "load_providers env probes certs setup source = (case setup of
     None \<Rightarrow> Inr (registry_graph [] source)
   | Some f \<Rightarrow>
       rbind (load_setup f) (\<lambda>v.
       rbind (setup_configurations v) (\<lambda>cs.
       rbind (register_each env probes certs cs []) (\<lambda>reg.
       Inr (registry_graph reg source)))))"

section \<open>A selected provider is ready\<close>

text \<open>
  What the composition promises of an available provider: its executable was found and told a version, of Claude and DeepSeek a supported one (the version
  of Codex is read and compared with no range), and the broker that its own credential reference names says that the session of exactly this command is
  authenticated.
\<close>

definition signed_in :: "(string \<times> credential_probe) list \<Rightarrow> provider_configuration \<Rightarrow> string list \<Rightarrow> bool" where
  "signed_in probes c command \<longleftrightarrow> (\<exists>ref probe. pc_credential_reference c = Some ref \<and> br_provider_id ref = pc_provider_id c \<and>
     map_of probes (br_broker ref) = Some probe \<and> aa_authenticated (probe ref command))"

definition version_told :: "probe_env \<Rightarrow> string \<Rightarrow> string \<Rightarrow> string list \<Rightarrow> string \<Rightarrow> bool" where
  "version_told env i x args shown \<longleftrightarrow>
     (if i = ''deepseek'' then args = [] \<and> (\<exists>ver out err_text. search_number deepseek_version_matcher False shown = Some ver \<and>
        \<not> preview_version ver \<and> int_digits (takeWhile (\<lambda>c. \<not> is_dot c) ver) = 1 \<and> px_run env [x, ''run'', ''--help''] = Completed 0 out err_text \<and>
        {''headless'', ''structured_output''} \<subseteq> help_capabilities (lower (out @ [CHR 0x0A] @ err_text)))
      else \<exists>ver. search_number version_matcher False shown = Some ver \<and> (i = ''claude'' \<longrightarrow> supported_claude_version (Some ver)))"

definition provider_ready :: "probe_env \<Rightarrow> (string \<times> credential_probe) list \<Rightarrow> provider_configuration \<Rightarrow> bool" where
  "provider_ready env probes c \<longleftrightarrow> (\<exists>x out err_text. px_which env (hd (pc_command c)) = Some x \<and>
     px_run env (x # tl (pc_command c) @ [''--version'']) = Completed 0 out err_text \<and>
     version_told env (pc_provider_id c) x (tl (pc_command c)) (printed out err_text) \<and> signed_in probes c (x # tl (pc_command c)))"

definition configuration_ok :: "provider_configuration \<Rightarrow> bool" where
  "configuration_ok c \<longleftrightarrow> (case pc_credential_reference c of None \<Rightarrow> True | Some ref \<Rightarrow> br_provider_id ref = pc_provider_id c)"

lemma outcome_of_Inr: "outcome_of r = Inr (n, out, e) \<longleftrightarrow> r = Completed n out e"
  by (cases r) auto

lemma authenticate_signed_in:
  assumes "aa_authenticated (authenticate probes (pc_credential_reference c) executable args)" and "configuration_ok c"
  obtains x where "executable = Some x" and "signed_in probes c (x # args)"
  using assms by (auto simp: authenticate_def broker_resolve_def signed_in_def configuration_ok_def split: option.splits)

lemma not_probed_False [simp]: "\<not> aa_authenticated (not_probed d)"
  by (simp add: not_probed_def)

lemma provider_instance_init_Inr: "provider_instance_init v = Inr v' \<Longrightarrow> v' = v"
  by (auto simp: provider_instance_init_def rbind_Inr_iff)

lemma detect_codex_available:
  assumes "detect_codex env command = Inr (d, rcmd)" and "cx_available d"
  obtains x out e ver where "px_which env (hd command) = Some x" and "px_run env (x # tl command @ [''--version'']) = Completed 0 out e"
    and "search_number version_matcher False (printed out e) = Some ver" and "cx_executable d = Some x"
  using assms
  by (auto simp: detect_codex_def codex_detection_init_def rbind_Inr_iff Let_def outcome_of_Inr split: option.splits sum.splits if_splits)

lemma detect_claude_installed:
  assumes "detect_claude env command = (d, rcmd)" and "cl_installed d"
  obtains x out e where "px_which env (hd command) = Some x" and "px_run env (x # tl command @ [''--version'']) = Completed 0 out e"
    and "search_number version_matcher False (printed out e) = cl_version d" and "cl_executable d = Some x"
  using assms by (auto simp: detect_claude_def Let_def outcome_of_Inr split: option.splits sum.splits if_splits)

lemma run_probe_Inr: "run_probe env cmd = Inr (Inr (n, out, e)) \<longleftrightarrow> px_run env cmd = Completed n out e"
  by (simp add: run_probe_def split: process_result.split)

lemma help_text_Some: "help_text r = Some h \<longleftrightarrow> (\<exists>out e. r = Inr (0, out, e) \<and> h = lower (out @ [CHR 0x0A] @ e))"
  by (auto simp: help_text_def split: sum.splits if_splits)

lemma classify_stable:
  "classify_compatibility ver ok h s = DS_STABLE \<Longrightarrow> \<exists>v. ver = Some v \<and> \<not> preview_version v \<and> int_digits (takeWhile (\<lambda>c. \<not> is_dot c) v) = 1 \<and> ok"
  by (auto simp: classify_compatibility_def split: option.splits if_splits)

lemma detect_deepseek_stable:
  assumes "detect_deepseek env command = Inr d" and "ds_installed d" and "stable_headless d"
  obtains x out e where "px_which env command = Some x" and "px_run env [x, ''--version''] = Completed 0 out e" and "ds_executable d = Some x"
    and "version_told env ''deepseek'' x [] (printed out e)"
proof -
  obtain x where x: "px_which env command = Some x" using assms by (auto simp: detect_deepseek_def undetected_def split: option.splits)
  have "\<exists>out e. px_run env [x, ''--version''] = Completed 0 out e"
    using assms x
    by (cases "px_run env [x, ''--version'']") (auto simp: detect_deepseek_def undetected_def run_probe_def [of env "[x, ''--version'']"] Let_def split: if_splits)
  then obtain out e where run: "px_run env [x, ''--version''] = Completed 0 out e" by blast
  obtain r where r: "run_probe env [x, ''run'', ''--help''] = Inr r" and d: "ds_executable d = Some x"
      "classify_compatibility (search_number deepseek_version_matcher False (printed out e)) (help_text r \<noteq> None)
        (''headless'' \<in> ds_capabilities d) (''structured_output'' \<in> ds_capabilities d) = DS_STABLE"
      "ds_capabilities d = help_capabilities (case help_text r of None \<Rightarrow> [] | Some t \<Rightarrow> t)"
    using assms x run
    by (auto simp: detect_deepseek_def run_probe_def [of env "[x, ''--version'']"] rbind_Inr_iff Let_def stable_headless_def)
  from classify_stable [OF d(2)] obtain h ver where h: "help_text r = Some h" "search_number deepseek_version_matcher False (printed out e) = Some ver"
    "\<not> preview_version ver" "int_digits (takeWhile (\<lambda>c. \<not> is_dot c) ver) = 1" by auto
  then obtain out2 e2 where "r = Inr (0, out2, e2)" "h = lower (out2 @ [CHR 0x0A] @ e2)" by (auto simp: help_text_Some)
  then have "version_told env ''deepseek'' x [] (printed out e)"
    using h r d(3) assms(3) by (auto simp: version_told_def run_probe_Inr stable_headless_def)
  with x run d(1) show thesis by (rule that)
qed

text \<open>A composed provider keeps its configuration, is certified only as configured and certified, and is available only when ready.\<close>

definition composed_from :: "probe_env \<Rightarrow> (string \<times> credential_probe) list \<Rightarrow> certifications \<Rightarrow> provider_configuration \<Rightarrow> provider_instance \<Rightarrow> bool" where
  "composed_from env probes certs c v \<longleftrightarrow> pv_configuration v = c \<and> pv_certified_roles v = certified_for certs (pc_provider_id c) \<inter> pc_roles c \<and>
     (rd_state (pv_readiness v) = RD_AVAILABLE \<longrightarrow> provider_ready env probes c)"

lemma compose_codex_from:
  assumes "compose_codex env probes certs c = Inr v" and "pc_provider_id c = ''codex''" and "configuration_ok c"
  shows "composed_from env probes certs c v"
proof -
  obtain d rcmd where d: "detect_codex env (pc_command c) = Inr (d, rcmd)" using assms(1) by (auto simp: compose_codex_def rbind_Inr_iff)
  have v: "pv_configuration v = c" "pv_certified_roles v = certified_for certs ''codex'' \<inter> pc_roles c"
    "rd_state (pv_readiness v) = RD_AVAILABLE \<Longrightarrow> cx_available d \<and>
       aa_authenticated (authenticate probes (pc_credential_reference c) (cx_executable d) (tl (pc_command c)))"
    unfolding provider_instance_init_Inr [OF assms(1) [unfolded compose_codex_def d rbind_simps prod.case Let_def]] by (simp_all split: if_splits)
  have "provider_ready env probes c" if s: "rd_state (pv_readiness v) = RD_AVAILABLE"
  proof -
    obtain x out e ver where x: "px_which env (hd (pc_command c)) = Some x" "px_run env (x # tl (pc_command c) @ [''--version'']) = Completed 0 out e"
        "search_number version_matcher False (printed out e) = Some ver" "cx_executable d = Some x"
      using detect_codex_available [OF d] v(3) [OF s] by blast
    then have "version_told env ''codex'' x (tl (pc_command c)) (printed out e)" by (simp add: version_told_def)
    moreover have "signed_in probes c (x # tl (pc_command c))" using v(3) [OF s] x(4) authenticate_signed_in [OF _ assms(3)] by auto
    ultimately show ?thesis using x(1,2) assms(2) unfolding provider_ready_def by metis
  qed
  with v assms(2) show ?thesis by (simp add: composed_from_def)
qed

lemma compose_claude_from:
  assumes "compose_claude env probes certs c = Inr v" and "pc_provider_id c = ''claude''" and "configuration_ok c"
  shows "composed_from env probes certs c v"
proof -
  obtain d rcmd where d: "detect_claude env (pc_command c) = (d, rcmd)" by fastforce
  have v: "pv_configuration v = c" "pv_certified_roles v = certified_for certs ''claude'' \<inter> pc_roles c"
    "rd_state (pv_readiness v) = RD_AVAILABLE \<Longrightarrow> cl_installed d \<and> supported_claude_version (cl_version d) \<and>
       aa_authenticated (authenticate probes (pc_credential_reference c) (cl_executable d) (tl (pc_command c)))"
    unfolding provider_instance_init_Inr [OF assms(1) [unfolded compose_claude_def d prod.case Let_def]] by (simp_all split: if_splits)
  have "provider_ready env probes c" if s: "rd_state (pv_readiness v) = RD_AVAILABLE"
  proof -
    obtain x out e where x: "px_which env (hd (pc_command c)) = Some x" "px_run env (x # tl (pc_command c) @ [''--version'']) = Completed 0 out e"
        "search_number version_matcher False (printed out e) = cl_version d" "cl_executable d = Some x"
      using detect_claude_installed [OF d] v(3) [OF s] by blast
    moreover obtain ver where "cl_version d = Some ver" using v(3) [OF s] by (cases "cl_version d") (auto simp: supported_claude_version_def)
    ultimately have "version_told env ''claude'' x (tl (pc_command c)) (printed out e)"
      using v(3) [OF s] by (simp add: version_told_def del: char.inject)
    moreover have "signed_in probes c (x # tl (pc_command c))" using v(3) [OF s] x(4) authenticate_signed_in [OF _ assms(3)] by auto
    ultimately show ?thesis using x(1,2) assms(2) unfolding provider_ready_def by metis
  qed
  with v assms(2) show ?thesis by (simp add: composed_from_def)
qed

lemma compose_deepseek_from:
  assumes "compose_deepseek env probes certs c = Inr v" and "pc_provider_id c = ''deepseek''" and "configuration_ok c"
  shows "composed_from env probes certs c v"
proof -
  obtain d rcmd where d: "detect_deepseek_command env (pc_command c) = Inr (d, rcmd)" using assms(1) by (auto simp: compose_deepseek_def rbind_Inr_iff)
  have v: "pv_configuration v = c" "pv_certified_roles v = certified_for certs ''deepseek'' \<inter> pc_roles c"
    "rd_state (pv_readiness v) = RD_AVAILABLE \<Longrightarrow> ds_installed d \<and> stable_headless d \<and>
       aa_authenticated (authenticate probes (pc_credential_reference c) (ds_executable d) [])"
    unfolding provider_instance_init_Inr [OF assms(1) [unfolded compose_deepseek_def d rbind_simps prod.case Let_def]] by (simp_all split: if_splits)
  have "provider_ready env probes c" if s: "rd_state (pv_readiness v) = RD_AVAILABLE"
  proof -
    have one: "tl (pc_command c) = []" and "detect_deepseek env (hd (pc_command c)) = Inr d"
      using d v(3) [OF s] by (auto simp: detect_deepseek_command_def undetected_def rbind_Inr_iff length_Suc_conv split: if_splits)
    then obtain x out e where x: "px_which env (hd (pc_command c)) = Some x" "px_run env [x, ''--version''] = Completed 0 out e"
        "ds_executable d = Some x" "version_told env ''deepseek'' x [] (printed out e)"
      using detect_deepseek_stable v(3) [OF s] by blast
    moreover have "signed_in probes c [x]" using v(3) [OF s] x(3) authenticate_signed_in [OF _ assms(3)] by auto
    ultimately show ?thesis using one assms(2) by (auto simp: provider_ready_def)
  qed
  with v assms(2) show ?thesis by (simp add: composed_from_def)
qed

lemma register_each_from:
  assumes "register_each env probes certs cs reg = Inr reg'" and "(k, v) \<in> set reg'" and "\<forall>c \<in> set cs. configuration_ok c"
  shows "(k, v) \<in> set reg \<or> (\<exists>c \<in> set cs. pc_enabled c \<and> composed_from env probes certs c v)"
  using assms(1,3)
proof (induction cs arbitrary: reg)
  case (Cons c cs)
  then obtain mid where mid: "register_each env probes certs cs mid = Inr reg'"
    "mid = reg \<or> (\<exists>u. mid = reg @ [(pv_provider_id u, u)] \<and> pc_enabled c \<and> composed_from env probes certs c u)"
    by (auto simp: rbind_Inr_iff register_provider_def intro: compose_codex_from compose_claude_from compose_deepseek_from split: if_splits)
  with Cons.IH [OF mid(1)] Cons.prems(2) show ?case by auto
qed (use assms(2) in simp)

lemma provider_configuration_ok: "provider_configuration_init c = Inr d \<Longrightarrow> configuration_ok d"
  by (auto simp: provider_configuration_init_def configuration_ok_def rbind_Inr_iff split: option.splits)

lemma setup_configuration_ok: "setup_configuration j = Inr c \<Longrightarrow> configuration_ok c"
  by (cases j) (auto simp: rbind_Inr_iff dest: provider_configuration_ok)

lemma default_configuration_ok: "default_configuration i = Inr c \<Longrightarrow> configuration_ok c"
  by (auto simp: default_configuration_def native_configuration_def rbind_Inr_iff dest: provider_configuration_ok split: if_splits)

lemma setup_configurations_ok:
  assumes "setup_configurations v = Inr cs" and "c \<in> set cs"
  shows "configuration_ok c"
proof -
  consider xs where "rmap default_configuration xs = Inr cs" | js where "rmap setup_configuration js = Inr cs"
    using assms(1) by (auto simp: setup_configurations_def rbind_Inr_iff split: if_splits option.splits json.splits)
  then show ?thesis using assms(2) by cases (auto dest!: rmap_nth_mem intro: default_configuration_ok setup_configuration_ok)
qed

lemma resolve_selected:
  assumes "ed_eligible (resolve_provider g r)"
  obtains v where "v \<in> set (cg_providers g)" and "available_for v r" and "ed_provider_id (resolve_provider g r) = Some (pv_provider_id v)"
proof -
  obtain v vs where v: "sort_key (preference r) (filter (\<lambda>v. available_for v r) (cg_providers g)) = v # vs"
    using assms by (cases "sort_key (preference r) (filter (\<lambda>v. available_for v r) (cg_providers g))")
      (auto simp: resolve_provider_def no_reasons_iff Let_def)
  then have "v \<in> set (filter (\<lambda>v. available_for v r) (cg_providers g))" by (metis list.set_intros(1) set_sort)
  with v that show thesis by (auto simp: resolve_provider_def no_reasons_iff Let_def)
qed

text \<open>
  C11. Only a provider that is ready is ever selected. Whatever the setup file, the host and the credential broker, if the capability graph loads and the resolver selects a
  provider for a request, then the setup has an enabled configuration of this provider, its executable was found and reported a version, which for Claude and DeepSeek
  is a supported one (for DeepSeek with a stable headless interface) and for Codex any version at all, the broker named by its own credential reference confirmed the session of this command, and
  the requested role is configured, certified and delegated to the actor.
\<close>

theorem selected_provider_ready:
  assumes "load_providers env probes certs setup source = Inr g" and "ed_eligible (resolve_provider g r)"
  shows "\<exists>f v cs c. setup = Some f \<and> load_setup f = Inr v \<and> setup_configurations v = Inr cs \<and> c \<in> set cs \<and> pc_enabled c \<and>
    ed_provider_id (resolve_provider g r) = Some (pc_provider_id c) \<and> provider_ready env probes c \<and>
    cr_role r \<in> pc_roles c \<inter> certified_for certs (pc_provider_id c) \<inter> ac_ctx_delegated_roles (cr_actor r)"
proof -
  obtain p where p: "p \<in> set (cg_providers g)" "available_for p r" "ed_provider_id (resolve_provider g r) = Some (pv_provider_id p)"
    using resolve_selected [OF assms(2)] by blast
  obtain f v cs reg where l: "setup = Some f" "load_setup f = Inr v" "setup_configurations v = Inr cs" "register_each env probes certs cs [] = Inr reg"
      "g = registry_graph reg source"
    using assms(1) p(1) by (auto simp: load_providers_def registry_graph_def rbind_Inr_iff split: option.splits)
  have "\<exists>k. (k, p) \<in> set reg" using p(1) l(5) by (auto simp: registry_graph_def)
  then obtain c where c: "c \<in> set cs" "pc_enabled c" "composed_from env probes certs c p"
    using register_each_from [OF l(4)] setup_configurations_ok [OF l(3)] by (metis empty_iff empty_set)
  then have "provider_ready env probes c \<and> pv_provider_id p = pc_provider_id c \<and>
      cr_role r \<in> pc_roles c \<inter> certified_for certs (pc_provider_id c) \<inter> ac_ctx_delegated_roles (cr_actor r)"
    using p(2) by (auto simp: composed_from_def available_for_def pv_provider_id_def)
  with l c p(3) show ?thesis by auto
qed

section \<open>An example\<close>

definition demo_probe_env :: probe_env where
  "demo_probe_env = \<lparr>px_which = (\<lambda>x. if x = ''codex'' then Some ''/bin/codex'' else None), px_run = (\<lambda>cmd. Completed 0 ''codex-cli 0.150.1'' []),
     px_json = (\<lambda>s. None), px_sha = (\<lambda>j. ''s''), px_file_sha = (\<lambda>s. None)\<rparr>"

definition demo_setup :: file_content where
  "demo_setup = Document (JObj [(''authority'', JStr ''ARTIFEX_PROJECT_STATE''), (''schema_version'', JStr ''1.0''),
     (''enabled'', JArr [JStr ''claude'', JStr ''codex''])])"

definition demo_certs :: certifications where
  "demo_certs = [(''codex'', {PR_EXECUTION_IMPLEMENTER})]"

definition write_request :: capability_request where
  "write_request = demo_capability_request\<lparr>cr_capabilities := {''repository_write''}, cr_envelope_capabilities := {''repository_write''}\<rparr>"

lemma demo_version: "search_number version_matcher False ''codex-cli 0.150.1'' = Some ''0.150.1''"
  by code_simp

lemma demo_load:
  "case load_providers demo_probe_env (default_probes demo_probe_env) demo_certs (Some demo_setup) ''setup.json'' of
     Inr g \<Rightarrow> ed_eligible (resolve_provider g write_request) | Inl e \<Rightarrow> False"
  by code_simp

theorem selected_provider_ready_witness:
  "\<exists>g c. load_providers demo_probe_env (default_probes demo_probe_env) demo_certs (Some demo_setup) ''setup.json'' = Inr g \<and>
    ed_provider_id (resolve_provider g write_request) = Some (pc_provider_id c) \<and> provider_ready demo_probe_env (default_probes demo_probe_env) c"
proof -
  obtain g where g: "load_providers demo_probe_env (default_probes demo_probe_env) demo_certs (Some demo_setup) ''setup.json'' = Inr g"
      "ed_eligible (resolve_provider g write_request)"
    using demo_load by (auto split: sum.splits)
  with selected_provider_ready [OF g] show ?thesis by blast
qed

text \<open>
  The supported range of Codex, \<open>>=0.150.1,<0.151\<close> in \<open>certification.py\<close>, plays no part in its readiness: another version is selected just the same.
\<close>

theorem codex_version_unchecked:
  "case load_providers (demo_probe_env\<lparr>px_run := \<lambda>cmd. Completed 0 ''codex-cli 9.0.0'' []\<rparr>)
       (default_probes (demo_probe_env\<lparr>px_run := \<lambda>cmd. Completed 0 ''codex-cli 9.0.0'' []\<rparr>)) demo_certs (Some demo_setup) ''setup.json'' of
     Inr g \<Rightarrow> ed_provider_id (resolve_provider g write_request) = Some ''codex'' \<and> map rd_version (map pv_readiness (cg_providers g)) = [None, Some ''9.0.0'']
   | Inl e \<Rightarrow> False"
  by code_simp

end
