(* ===== verification/Validation.thy ===== *)
theory Validation
  imports Project_Store
begin

text \<open>
  Models \<open>src/artifex/validation/core.py\<close> up to the evidence ledger, and the evidence codec \<open>src/artifex/validation/evidence.py\<close>:
  acceptance contracts and their seal, the validators, evidence entries, their JSON form, the append-only ledger with its journal
  and the historical journal before it.

  SHA-256 of a canonical JSON document, the text of a time and its parsing, and the JSON schema validator are parameters of a
  \<open>validation_env\<close>. A time is its instant and, when it is aware, its offset. A journal is kept decoded, line by line.
\<close>

section \<open>Times and the environment\<close>

record moment =
  mo_instant :: int
  mo_offset :: "int option"

definition aware :: "moment \<Rightarrow> bool" where
  "aware t \<longleftrightarrow> mo_offset t \<noteq> None"

record validation_env =
  ve_sha :: "json \<Rightarrow> string"
  ve_isoformat :: "moment \<Rightarrow> string"
  ve_fromisoformat :: "string \<Rightarrow> moment option"
  ve_schema :: "json \<Rightarrow> bool"

definition require_valid :: "bool \<Rightarrow> unit res" where
  "require_valid c = ensure c ValidationError"

lemma require_valid_Inr [simp]: "require_valid c = Inr u \<longleftrightarrow> c"
  by (simp add: require_valid_def)

text \<open>\<open>except (AssertionError, KeyError, TypeError, ValueError) as exc: raise ValidationError\<close>\<close>

definition as_invalid :: "'a res \<Rightarrow> 'a res" where
  "as_invalid r = (case r of Inl e \<Rightarrow> Inl ValidationError | Inr x \<Rightarrow> Inr x)"

lemma as_invalid_Inr [simp]: "as_invalid r = Inr x \<longleftrightarrow> r = Inr x"
  by (simp add: as_invalid_def split: sum.split)

section \<open>Acceptance contracts\<close>

datatype acceptance_contract_state = CS_DRAFT | CS_EXECUTION_STARTED | CS_SUPERSEDED

record acceptance_criterion =
  cn_criterion_id :: string
  cn_outcome :: string

definition acceptance_criterion_init :: "acceptance_criterion \<Rightarrow> acceptance_criterion res" where
  "acceptance_criterion_init c =
     rbind (require_valid (\<not> (cn_criterion_id c = [] \<or> cn_outcome c = []))) (\<lambda>_. Inr c)"

record acceptance_contract =
  ct_contract_id :: string
  ct_deliverable :: string
  ct_requirements :: "string list"
  ct_interfaces :: "string list"
  ct_invariants :: "string list"
  ct_criteria :: "acceptance_criterion list"
  ct_validators :: "string list"
  ct_base_commit :: string
  ct_project_model_fingerprint :: string
  ct_version :: int
  ct_state :: acceptance_contract_state
  ct_sealed_hash :: "string option"

definition contract_payload :: "acceptance_contract \<Rightarrow> json" where
  "contract_payload c = JObj
     [(''contract_id'', JStr (ct_contract_id c)), (''deliverable'', JStr (ct_deliverable c)),
      (''requirements'', JArr (map JStr (ct_requirements c))), (''interfaces'', JArr (map JStr (ct_interfaces c))),
      (''invariants'', JArr (map JStr (ct_invariants c))),
      (''criteria'', JArr (map (\<lambda>i. JObj [(''criterion_id'', JStr (cn_criterion_id i)), (''outcome'', JStr (cn_outcome i))]) (ct_criteria c))),
      (''validators'', JArr (map JStr (ct_validators c))), (''base_commit'', JStr (ct_base_commit c)),
      (''project_model_fingerprint'', JStr (ct_project_model_fingerprint c)), (''version'', JInt (ct_version c))]"

definition contract_fingerprint :: "validation_env \<Rightarrow> acceptance_contract \<Rightarrow> string" where
  "contract_fingerprint env c = ve_sha env (contract_payload c)"

definition acceptance_contract_init :: "validation_env \<Rightarrow> acceptance_contract \<Rightarrow> acceptance_contract res" where
  "acceptance_contract_init env c =
     rbind (require_valid (ct_contract_id c \<noteq> [] \<and> ct_deliverable c \<noteq> [] \<and> ct_base_commit c \<noteq> [] \<and>
       ct_project_model_fingerprint c \<noteq> [] \<and> 1 \<le> ct_version c)) (\<lambda>_.
     rbind (require_valid (ct_criteria c \<noteq> [] \<and> ct_validators c \<noteq> [])) (\<lambda>_.
     rbind (require_valid (distinct (map cn_criterion_id (ct_criteria c)))) (\<lambda>_.
     if ct_state c = CS_EXECUTION_STARTED then
       rbind (require_valid (ct_sealed_hash c = Some (contract_fingerprint env c))) (\<lambda>_. Inr c)
     else rbind (require_valid (ct_sealed_hash c = None)) (\<lambda>_. Inr c))))"

definition start_contract :: "validation_env \<Rightarrow> acceptance_contract \<Rightarrow> acceptance_contract res" where
  "start_contract env c =
     rbind (require_valid (ct_state c = CS_DRAFT)) (\<lambda>_.
     acceptance_contract_init env (c\<lparr>ct_state := CS_EXECUTION_STARTED, ct_sealed_hash := Some (contract_fingerprint env c)\<rparr>))"

definition assert_untampered :: "validation_env \<Rightarrow> acceptance_contract \<Rightarrow> unit res" where
  "assert_untampered env c =
     rbind (require_valid (ct_state c = CS_EXECUTION_STARTED)) (\<lambda>_.
     require_valid (ct_sealed_hash c = Some (contract_fingerprint env c)))"

definition given :: "'a option \<Rightarrow> 'a \<Rightarrow> 'a" where
  "given x d = (case x of None \<Rightarrow> d | Some y \<Rightarrow> y)"

definition new_contract_version :: "validation_env \<Rightarrow> acceptance_contract \<Rightarrow> acceptance_criterion list \<Rightarrow> string list option \<Rightarrow> string option \<Rightarrow>
    string option \<Rightarrow> acceptance_contract res" where
  "new_contract_version env c criteria validators base_commit project_model_fingerprint =
     acceptance_contract_init env (c\<lparr>ct_criteria := criteria, ct_validators := given validators (ct_validators c),
       ct_base_commit := given base_commit (ct_base_commit c),
       ct_project_model_fingerprint := given project_model_fingerprint (ct_project_model_fingerprint c),
       ct_version := ct_version c + 1, ct_state := CS_DRAFT, ct_sealed_hash := None\<rparr>)"

section \<open>Validators\<close>

datatype validator_kind = VK_DETERMINISTIC | VK_STRUCTURED_INSPECTION | VK_INDEPENDENT_AGENT | VK_MANUAL

fun validator_kind_value :: "validator_kind \<Rightarrow> string" where
  "validator_kind_value VK_DETERMINISTIC = ''DETERMINISTIC''"
| "validator_kind_value VK_STRUCTURED_INSPECTION = ''STRUCTURED_INSPECTION''"
| "validator_kind_value VK_INDEPENDENT_AGENT = ''INDEPENDENT_AGENT''"
| "validator_kind_value VK_MANUAL = ''MANUAL''"

definition to_validator_kind :: "string \<Rightarrow> validator_kind res" where
  "to_validator_kind = member_of validator_kind_value [VK_DETERMINISTIC, VK_STRUCTURED_INSPECTION, VK_INDEPENDENT_AGENT, VK_MANUAL]"

datatype evidence_outcome = EO_PASS | EO_FAIL | EO_BLOCKED

fun evidence_outcome_value :: "evidence_outcome \<Rightarrow> string" where
  "evidence_outcome_value EO_PASS = ''PASS''"
| "evidence_outcome_value EO_FAIL = ''FAIL''"
| "evidence_outcome_value EO_BLOCKED = ''BLOCKED''"

definition to_evidence_outcome :: "string \<Rightarrow> evidence_outcome res" where
  "to_evidence_outcome = member_of evidence_outcome_value [EO_PASS, EO_FAIL, EO_BLOCKED]"

record measured_fact =
  mf_name :: string
  mf_value :: json

text \<open>A value is a JSON scalar; every number of the model is finite.\<close>

fun json_scalar :: "json \<Rightarrow> bool" where
  "json_scalar (JArr xs) \<longleftrightarrow> False"
| "json_scalar (JObj kvs) \<longleftrightarrow> False"
| "json_scalar j \<longleftrightarrow> True"

definition measured_fact_init :: "measured_fact \<Rightarrow> measured_fact res" where
  "measured_fact_init f =
     rbind (require_valid (mf_name f \<noteq> [] \<and> length (mf_name f) \<le> 200)) (\<lambda>_.
     rbind (require_valid (scrub_secrets (mf_name f) = mf_name f)) (\<lambda>_.
     rbind (require_valid (json_scalar (mf_value f))) (\<lambda>_.
     case mf_value f of
       JStr s \<Rightarrow> rbind (require_valid (length s \<le> 1000)) (\<lambda>_. rbind (require_valid (scrub_secrets s = s)) (\<lambda>_. Inr f))
     | _ \<Rightarrow> Inr f)))"

record evidence_binding =
  eb_base_commit :: string
  eb_contract_hash :: string
  eb_project_model_fingerprints :: "string list"

definition evidence_binding_init :: "evidence_binding \<Rightarrow> evidence_binding res" where
  "evidence_binding_init b =
     rbind (require_valid (\<not> (eb_base_commit b = [] \<or> eb_contract_hash b = [] \<or> eb_project_model_fingerprints b = []))) (\<lambda>_. Inr b)"

record validation_context =
  vc_claim :: string
  vc_executor_id :: string
  vc_binding :: evidence_binding

record validator_result =
  vr_validator_id :: string
  vr_validator_version :: string
  vr_kind :: validator_kind
  vr_claim :: string
  vr_outcome :: evidence_outcome
  vr_facts :: "measured_fact list"
  vr_output :: string
  vr_producer_id :: string
  vr_independent_of_executor :: bool

record command_outcome =
  co_exit_code :: int
  co_stdout :: string
  co_stderr :: string

text \<open>The timeout, a floating-point number, is kept as its mantissa and exponent.\<close>

record deterministic_validator =
  dv_validator_id :: string
  dv_version :: string
  dv_argv :: "string list"
  dv_cwd :: string
  dv_timeout_seconds :: "int \<times> int"
  dv_expected_exit_code :: int

definition deterministic_validator_init :: "deterministic_validator \<Rightarrow> deterministic_validator res" where
  "deterministic_validator_init v =
     rbind (require_valid (\<not> (dv_validator_id v = [] \<or> dv_version v = [] \<or> dv_argv v = []))) (\<lambda>_.
     rbind (require_valid (\<not> (fst (dv_timeout_seconds v) \<le> 0 \<or> list_ex (\<lambda>a. a = []) (dv_argv v)))) (\<lambda>_. Inr v))"

definition passed_outcome :: "bool \<Rightarrow> evidence_outcome" where
  "passed_outcome ok = (if ok then EO_PASS else EO_FAIL)"

definition deterministic_validate :: "(string list \<Rightarrow> string \<Rightarrow> int \<times> int \<Rightarrow> command_outcome res) \<Rightarrow> deterministic_validator \<Rightarrow> validation_context \<Rightarrow>
    validator_result res" where
  "deterministic_validate runner v context =
     rbind (runner (dv_argv v) (dv_cwd v) (dv_timeout_seconds v)) (\<lambda>r.
     rbind (measured_fact_init \<lparr>mf_name = ''exit_code'', mf_value = JInt (co_exit_code r)\<rparr>) (\<lambda>fact.
     Inr \<lparr>vr_validator_id = dv_validator_id v, vr_validator_version = dv_version v, vr_kind = VK_DETERMINISTIC, vr_claim = vc_claim context,
       vr_outcome = passed_outcome (co_exit_code r = dv_expected_exit_code v), vr_facts = [fact],
       vr_output = co_stdout r @ co_stderr r, vr_producer_id = ''ARTIFEX_DETERMINISTIC_RUNNER'', vr_independent_of_executor = True\<rparr>))"

definition structured_validate :: "string \<Rightarrow> string \<Rightarrow> validation_context \<Rightarrow> string \<Rightarrow> bool \<Rightarrow> measured_fact list \<Rightarrow> string \<Rightarrow> validator_result res" where
  "structured_validate validator_id validator_version context inspector_id ok facts output =
     rbind (require_valid (inspector_id \<noteq> [])) (\<lambda>_.
     Inr \<lparr>vr_validator_id = validator_id, vr_validator_version = validator_version, vr_kind = VK_STRUCTURED_INSPECTION,
       vr_claim = vc_claim context, vr_outcome = passed_outcome ok, vr_facts = facts, vr_output = output, vr_producer_id = inspector_id,
       vr_independent_of_executor = (inspector_id \<noteq> vc_executor_id context)\<rparr>)"

definition agent_validate :: "string \<Rightarrow> string \<Rightarrow> validation_context \<Rightarrow> string \<Rightarrow> bool \<Rightarrow> measured_fact list \<Rightarrow> string \<Rightarrow> validator_result res" where
  "agent_validate validator_id validator_version context evaluator_id ok facts output =
     rbind (require_valid (\<not> (evaluator_id = [] \<or> evaluator_id = vc_executor_id context))) (\<lambda>_.
     Inr \<lparr>vr_validator_id = validator_id, vr_validator_version = validator_version, vr_kind = VK_INDEPENDENT_AGENT,
       vr_claim = vc_claim context, vr_outcome = passed_outcome ok, vr_facts = facts, vr_output = output, vr_producer_id = evaluator_id,
       vr_independent_of_executor = True\<rparr>)"

definition manual_validate :: "string \<Rightarrow> string \<Rightarrow> validation_context \<Rightarrow> string \<Rightarrow> acceptance_authority \<Rightarrow> bool \<Rightarrow> measured_fact list \<Rightarrow> string \<Rightarrow>
    validator_result res" where
  "manual_validate validator_id validator_version context human_id authority ok facts output =
     rbind (require_valid (\<not> (human_id = [] \<or> authority \<notin> {HUMAN, ARCHITECT}))) (\<lambda>_.
     Inr \<lparr>vr_validator_id = validator_id, vr_validator_version = validator_version, vr_kind = VK_MANUAL,
       vr_claim = vc_claim context, vr_outcome = passed_outcome ok, vr_facts = facts, vr_output = output, vr_producer_id = human_id,
       vr_independent_of_executor = (human_id \<noteq> vc_executor_id context)\<rparr>)"

section \<open>Evidence entries\<close>

text \<open>\<open>[A-Za-z0-9][A-Za-z0-9._:-]{0,127}\<close> and \<open>[A-Za-z0-9][A-Za-z0-9.+_-]{0,63}\<close>, matched in full\<close>

definition alnum :: "char \<Rightarrow> bool" where
  "alnum c = (is_upper c \<or> is_lower c \<or> is_digit c)"

definition starts_alnum :: "string \<Rightarrow> nat \<Rightarrow> string \<Rightarrow> bool" where
  "starts_alnum extra n s = (case s of [] \<Rightarrow> False
     | c # cs \<Rightarrow> alnum c \<and> length cs \<le> n \<and> list_all (\<lambda>d. alnum d \<or> d \<in> set extra) cs)"

definition identity_pattern :: "string \<Rightarrow> bool" where
  "identity_pattern = starts_alnum ''._:-'' 127"

definition version_pattern :: "string \<Rightarrow> bool" where
  "version_pattern = starts_alnum ''.+_-'' 63"

definition evidence_id_pattern :: "string \<Rightarrow> bool" where
  "evidence_id_pattern = matches_after ''EVD-'' id_body"

definition secret_safe_text :: "nat \<Rightarrow> string \<Rightarrow> unit res" where
  "secret_safe_text maximum s =
     rbind (require_valid (\<not> (s = [] \<or> maximum < length s))) (\<lambda>_. require_valid (scrub_secrets s = s))"

record evidence_entry =
  ee_evidence_id :: string
  ee_validator_id :: string
  ee_validator_version :: string
  ee_validator_kind :: validator_kind
  ee_claim :: string
  ee_outcome :: evidence_outcome
  ee_facts :: "measured_fact list"
  ee_binding :: evidence_binding
  ee_output :: string
  ee_recorded_at :: moment
  ee_producer_id :: string
  ee_independent_of_executor :: bool
  ee_entry_hash :: string

definition evidence_entry_init :: "evidence_entry \<Rightarrow> evidence_entry res" where
  "evidence_entry_init e =
     rbind (require_valid (length (ee_evidence_id e) \<le> 128 \<and> evidence_id_pattern (ee_evidence_id e))) (\<lambda>_.
     rbind (rmap (\<lambda>(s, pattern). rbind (require_valid (pattern s)) (\<lambda>_. require_valid (scrub_secrets s = s)))
       [(ee_validator_id e, identity_pattern), (ee_producer_id e, identity_pattern), (ee_validator_version e, version_pattern)]) (\<lambda>_.
     rbind (secret_safe_text 1000 (ee_claim e)) (\<lambda>_.
     rbind (require_valid (length (ee_output e) \<le> 4000 \<and> scrub_secrets (ee_output e) = ee_output e)) (\<lambda>_.
     rbind (require_valid (aware (ee_recorded_at e))) (\<lambda>_.
     rbind (require_valid (hex_digits 64 (ee_entry_hash e))) (\<lambda>_.
     Inr e))))))"

definition binding_json :: "evidence_binding \<Rightarrow> json" where
  "binding_json b = JObj [(''base_commit'', JStr (eb_base_commit b)), (''contract_hash'', JStr (eb_contract_hash b)),
     (''project_model_fingerprints'', JArr (map JStr (eb_project_model_fingerprints b)))]"

text \<open>The values an entry's hash is taken over\<close>

definition entry_values :: "validation_env \<Rightarrow> evidence_entry \<Rightarrow> json" where
  "entry_values env e = JObj
     [(''evidence_id'', JStr (ee_evidence_id e)), (''validator_id'', JStr (ee_validator_id e)),
      (''validator_version'', JStr (ee_validator_version e)), (''validator_kind'', JStr (validator_kind_value (ee_validator_kind e))),
      (''claim'', JStr (ee_claim e)), (''outcome'', JStr (evidence_outcome_value (ee_outcome e))),
      (''facts'', JArr (map (\<lambda>f. JArr [JStr (mf_name f), mf_value f]) (ee_facts e))), (''binding'', binding_json (ee_binding e)),
      (''output'', JStr (ee_output e)), (''recorded_at'', JStr (ve_isoformat env (ee_recorded_at e))),
      (''producer_id'', JStr (ee_producer_id e)), (''independent_of_executor'', JBool (ee_independent_of_executor e))]"

definition create_entry :: "validation_env \<Rightarrow> string \<Rightarrow> validator_result \<Rightarrow> evidence_binding \<Rightarrow> moment \<Rightarrow> evidence_entry res" where
  "create_entry env i result binding timestamp =
     rbind (require_valid (prefix ''EVD-'' i)) (\<lambda>_.
     rbind (require_valid (aware timestamp)) (\<lambda>_.
     let e = \<lparr>ee_evidence_id = i, ee_validator_id = vr_validator_id result, ee_validator_version = vr_validator_version result,
           ee_validator_kind = vr_kind result, ee_claim = vr_claim result, ee_outcome = vr_outcome result, ee_facts = vr_facts result,
           ee_binding = binding, ee_output = take 4000 (scrub_secrets (vr_output result)), ee_recorded_at = timestamp,
           ee_producer_id = vr_producer_id result, ee_independent_of_executor = vr_independent_of_executor result, ee_entry_hash = []\<rparr> in
     evidence_entry_init (e\<lparr>ee_entry_hash := ve_sha env (entry_values env e)\<rparr>)))"

definition verify_integrity :: "validation_env \<Rightarrow> evidence_entry \<Rightarrow> bool" where
  "verify_integrity env e \<longleftrightarrow> ee_entry_hash e = ve_sha env (entry_values env e)"

section \<open>The canonical JSON form\<close>

definition evidence_to_payload :: "validation_env \<Rightarrow> evidence_entry \<Rightarrow> obj" where
  "evidence_to_payload env e =
     [(''schema_version'', JStr ''2.0''), (''evidence_id'', JStr (ee_evidence_id e)), (''validator_id'', JStr (ee_validator_id e)),
      (''validator_version'', JStr (ee_validator_version e)), (''validator_kind'', JStr (validator_kind_value (ee_validator_kind e))),
      (''claim'', JStr (ee_claim e)), (''outcome'', JStr (evidence_outcome_value (ee_outcome e))),
      (''facts'', JArr (map (\<lambda>f. JObj [(''name'', JStr (mf_name f)), (''value'', mf_value f)]) (ee_facts e))),
      (''binding'', binding_json (ee_binding e)), (''output'', JStr (ee_output e)),
      (''recorded_at'', JStr (ve_isoformat env (ee_recorded_at e))), (''producer_id'', JStr (ee_producer_id e)),
      (''independent_of_executor'', JBool (ee_independent_of_executor e)), (''entry_hash'', JStr (ee_entry_hash e))]"

text \<open>
  Items of a document by type. A value of another type than the constructors check for raises one of the errors the decoders turn into
  \<open>ValidationError\<close>; the schema, which is checked first, admits only strings in a binding.
\<close>

fun text_value :: "json \<Rightarrow> string res" where
  "text_value (JStr s) = Inr s"
| "text_value j = Inl TypeError"

fun bool_value :: "json \<Rightarrow> bool res" where
  "bool_value (JBool b) = Inr b"
| "bool_value j = Inl TypeError"

fun list_value :: "json \<Rightarrow> json list res" where
  "list_value (JArr xs) = Inr xs"
| "list_value j = Inl AssertionError"

definition text_at :: "obj \<Rightarrow> string \<Rightarrow> string res" where
  "text_at v k = rbind (item v k) text_value"

fun object_or_none :: "json \<Rightarrow> obj option" where
  "object_or_none (JObj kvs) = Some kvs"
| "object_or_none j = None"

fun object_value :: "json \<Rightarrow> obj res" where
  "object_value (JObj kvs) = Inr kvs"
| "object_value j = Inl AssertionError"

definition fact_from :: "obj \<Rightarrow> measured_fact res" where
  "fact_from v =
     rbind (text_at v ''name'') (\<lambda>name.
     rbind (item v ''value'') (\<lambda>j.
     measured_fact_init \<lparr>mf_name = name, mf_value = j\<rparr>))"

definition binding_from :: "obj \<Rightarrow> evidence_binding res" where
  "binding_from v =
     rbind (text_at v ''base_commit'') (\<lambda>base.
     rbind (text_at v ''contract_hash'') (\<lambda>contract.
     rbind (rbind (item v ''project_model_fingerprints'') list_value) (\<lambda>xs.
     rbind (rmap text_value xs) (\<lambda>fps.
     evidence_binding_init \<lparr>eb_base_commit = base, eb_contract_hash = contract, eb_project_model_fingerprints = fps\<rparr>))))"

text \<open>The entry named by the items of a document\<close>

definition entry_from :: "validation_env \<Rightarrow> obj \<Rightarrow> evidence_entry res" where
  "entry_from env v =
     rbind (rbind (item v ''binding'') object_value) (\<lambda>bv.
     rbind (rbind (item v ''facts'') list_value) (\<lambda>fv.
     rbind (text_at v ''evidence_id'') (\<lambda>i.
     rbind (text_at v ''validator_id'') (\<lambda>vi.
     rbind (text_at v ''validator_version'') (\<lambda>vv.
     rbind (rbind (text_at v ''validator_kind'') to_validator_kind) (\<lambda>kind.
     rbind (text_at v ''claim'') (\<lambda>claim.
     rbind (rbind (text_at v ''outcome'') to_evidence_outcome) (\<lambda>out.
     rbind (rmap fact_from (List.map_filter object_or_none fv)) (\<lambda>facts.
     rbind (binding_from bv) (\<lambda>binding.
     rbind (text_at v ''output'') (\<lambda>output.
     rbind (text_at v ''recorded_at'') (\<lambda>at_text.
     rbind (case ve_fromisoformat env at_text of None \<Rightarrow> Inl ValueError | Some t \<Rightarrow> Inr t) (\<lambda>at.
     rbind (text_at v ''producer_id'') (\<lambda>producer.
     rbind (rbind (item v ''independent_of_executor'') bool_value) (\<lambda>independent.
     rbind (text_at v ''entry_hash'') (\<lambda>hash.
     evidence_entry_init \<lparr>ee_evidence_id = i, ee_validator_id = vi, ee_validator_version = vv, ee_validator_kind = kind, ee_claim = claim,
       ee_outcome = out, ee_facts = facts, ee_binding = binding, ee_output = output, ee_recorded_at = at, ee_producer_id = producer,
       ee_independent_of_executor = independent, ee_entry_hash = hash\<rparr>))))))))))))))))"

type_synonym validators = "(string \<times> string) list"

definition evidence_from_payload :: "validation_env \<Rightarrow> validators \<Rightarrow> evidence_binding option \<Rightarrow> bool \<Rightarrow> obj \<Rightarrow> evidence_entry res" where
  "evidence_from_payload env trusted expected require_independent payload =
     rbind (as_invalid (rbind (require_valid (ve_schema env (JObj payload))) (\<lambda>_. entry_from env payload))) (\<lambda>e.
     rbind (require_valid (map_of trusted (ee_validator_id e) = Some (ee_validator_version e))) (\<lambda>_.
     rbind (require_valid (verify_integrity env e)) (\<lambda>_.
     rbind (require_valid (require_independent \<longrightarrow> ee_independent_of_executor e)) (\<lambda>_.
     rbind (require_valid (case expected of None \<Rightarrow> True | Some b \<Rightarrow> ee_binding e = b)) (\<lambda>_.
     Inr e)))))"

section \<open>The ledger\<close>

text \<open>
  A line of a journal is blank or an event. The journal in use is appended to line by line; the historical one is only read, and
  its last line may be truncated.
\<close>

datatype journal_line = Blank_Line | Event_Line file_content

datatype legacy_journal = Legacy_Absent | Legacy_Truncated | Legacy_Lines "journal_line list"

datatype evidence_state = ES_CURRENT | ES_STALE

record ledger =
  lg_trusted :: validators
  lg_entries :: "evidence_entry list"
  lg_invalidations :: "(string \<times> string) list"
  lg_historical_ids :: "string list"
  lg_historical_invalidations :: "(string \<times> string) list"
  lg_journal :: "journal_line list option"

definition legacy_keys :: "string list" where
  "legacy_keys = [''evidence_id'', ''validator_id'', ''validator_version'', ''validator_kind'', ''claim'', ''outcome'', ''facts'', ''binding'',
     ''output'', ''recorded_at'', ''producer_id'', ''independent_of_executor'', ''entry_hash'']"

text \<open>\<open>object_pairs_hook\<close>: no object repeats a key\<close>

fun strict_json :: "json \<Rightarrow> bool" where
  "strict_json (JArr xs) \<longleftrightarrow> list_all strict_json xs"
| "strict_json (JObj kvs) \<longleftrightarrow> distinct (map fst kvs) \<and> list_all (\<lambda>(k, j). strict_json j) kvs"
| "strict_json j \<longleftrightarrow> True"

definition strict_json_loads :: "file_content \<Rightarrow> json res" where
  "strict_json_loads f = rbind (loads f) (\<lambda>j. rbind (require_valid (strict_json j)) (\<lambda>_. Inr j))"

definition entry_from_payload :: "validation_env \<Rightarrow> ledger \<Rightarrow> obj \<Rightarrow> evidence_entry res" where
  "entry_from_payload env l payload =
     rbind (require_valid (\<not> (''schema_version'' \<notin> fst ` set payload \<and> set legacy_keys \<subseteq> fst ` set payload))) (\<lambda>_.
     evidence_from_payload env (lg_trusted l) None False payload)"

text \<open>Python compares two aware times by their instants and takes an aware and a naive one for different.\<close>

definition same_moment :: "moment \<Rightarrow> moment \<Rightarrow> bool" where
  "same_moment s t \<longleftrightarrow> aware s = aware t \<and> mo_instant s = mo_instant t"

definition same_entry :: "evidence_entry \<Rightarrow> evidence_entry \<Rightarrow> bool" where
  "same_entry d e \<longleftrightarrow> same_moment (ee_recorded_at d) (ee_recorded_at e) \<and> d\<lparr>ee_recorded_at := ee_recorded_at e\<rparr> = e"

definition validate_entry :: "validation_env \<Rightarrow> ledger \<Rightarrow> evidence_entry \<Rightarrow> unit res" where
  "validate_entry env l e =
     rbind (entry_from_payload env l (evidence_to_payload env e)) (\<lambda>decoded.
     rbind (require_valid (same_entry decoded e)) (\<lambda>_.
     rbind (require_valid (map_of (lg_trusted l) (ee_validator_id e) = Some (ee_validator_version e))) (\<lambda>_.
     rbind (require_valid (verify_integrity env e)) (\<lambda>_.
     require_valid (\<not> (ee_evidence_id e \<in> set (lg_historical_ids l) \<or> list_ex (\<lambda>d. ee_evidence_id d = ee_evidence_id e) (lg_entries l)))))))"

definition persist :: "json \<Rightarrow> ledger \<Rightarrow> ledger" where
  "persist event l = l\<lparr>lg_journal := map_option (\<lambda>lines. lines @ [Event_Line (Document event)]) (lg_journal l)\<rparr>"

definition append_evidence :: "validation_env \<Rightarrow> evidence_entry \<Rightarrow> (ledger, unit) eff" where
  "append_evidence env e =
     bnd (\<lambda>l. (validate_entry env l e, l)) (\<lambda>_.
     bnd (modify (persist (JObj [(''type'', JStr ''EVIDENCE''), (''entry'', JObj (evidence_to_payload env e))]))) (\<lambda>_.
     modify (\<lambda>l. l\<lparr>lg_entries := lg_entries l @ [e]\<rparr>)))"

fun invalidate_each :: "string list \<Rightarrow> string \<Rightarrow> string list \<Rightarrow> (ledger, unit) eff" where
  "invalidate_each known reason_text [] = ret ()"
| "invalidate_each known reason_text (i # is) =
     bnd (req (evidence_id_pattern i \<and> i \<in> set known) ValidationError) (\<lambda>_.
     bnd (check (\<lambda>l. map_of (lg_invalidations l) i = None) ValidationError) (\<lambda>_.
     bnd (modify (persist (JObj [(''type'', JStr ''INVALIDATION''), (''evidence_id'', JStr i), (''reason'', JStr reason_text)]))) (\<lambda>_.
     bnd (modify (\<lambda>l. l\<lparr>lg_invalidations := lg_invalidations l @ [(i, reason_text)]\<rparr>)) (\<lambda>_.
     invalidate_each known reason_text is))))"

definition invalidate :: "string list \<Rightarrow> string \<Rightarrow> (ledger, unit) eff" where
  "invalidate ids reason_text =
     bnd (lift (secret_safe_text 500 reason_text)) (\<lambda>_.
     bnd (gets (\<lambda>l. map ee_evidence_id (lg_entries l))) (\<lambda>known.
     invalidate_each known reason_text ids))"

definition ledger_state :: "ledger \<Rightarrow> evidence_entry \<Rightarrow> evidence_binding \<Rightarrow> evidence_state" where
  "ledger_state l e expected =
     (if map_of (lg_invalidations l) (ee_evidence_id e) \<noteq> None \<or> ee_binding e \<noteq> expected then ES_STALE else ES_CURRENT)"

definition keys_are :: "string list \<Rightarrow> obj \<Rightarrow> bool" where
  "keys_are ks v \<longleftrightarrow> fst ` set v = set ks"

definition load_event :: "validation_env \<Rightarrow> obj \<Rightarrow> ledger \<Rightarrow> ledger res" where
  "load_event env v l =
     (if map_of v ''type'' = Some (JStr ''EVIDENCE'') then
        rbind (require_valid (keys_are [''type'', ''entry''] v)) (\<lambda>_.
        rbind (case map_of v ''entry'' of Some (JObj p) \<Rightarrow> Inr p | _ \<Rightarrow> Inl ValidationError) (\<lambda>p.
        rbind (entry_from_payload env l p) (\<lambda>e.
        rbind (validate_entry env l e) (\<lambda>_.
        Inr (l\<lparr>lg_entries := lg_entries l @ [e]\<rparr>)))))
      else if map_of v ''type'' = Some (JStr ''INVALIDATION'') then
        (case (map_of v ''evidence_id'', map_of v ''reason'') of
          (Some (JStr i), Some (JStr r)) \<Rightarrow>
            rbind (require_valid (\<not> (\<not> keys_are [''type'', ''evidence_id'', ''reason''] v \<or> \<not> evidence_id_pattern i \<or> r = [] \<or> 500 < length r \<or>
              scrub_secrets r \<noteq> r \<or> map_of (lg_invalidations l) i \<noteq> None \<or> i \<notin> ee_evidence_id ` set (lg_entries l)))) (\<lambda>_.
            Inr (l\<lparr>lg_invalidations := lg_invalidations l @ [(i, r)]\<rparr>))
        | _ \<Rightarrow> Inl ValidationError)
      else Inl ValidationError)"

fun load_line :: "validation_env \<Rightarrow> journal_line \<Rightarrow> ledger \<Rightarrow> ledger res" where
  "load_line env Blank_Line l = Inr l"
| "load_line env (Event_Line f) l =
     rbind (strict_json_loads f) (\<lambda>j. case j of JObj v \<Rightarrow> load_event env v l | _ \<Rightarrow> Inl ValidationError)"

fun load_lines :: "validation_env \<Rightarrow> journal_line list \<Rightarrow> ledger \<Rightarrow> ledger res" where
  "load_lines env [] l = Inr l"
| "load_lines env (x # xs) l = rbind (load_line env x l) (load_lines env xs)"

definition load_journal :: "validation_env \<Rightarrow> ledger \<Rightarrow> ledger res" where
  "load_journal env l = as_invalid (case lg_journal l of None \<Rightarrow> Inl AssertionError | Some lines \<Rightarrow> load_lines env lines l)"

subsection \<open>The historical journal\<close>

definition text_sat :: "obj \<Rightarrow> string \<Rightarrow> (string \<Rightarrow> bool) \<Rightarrow> bool" where
  "text_sat v k P = (case map_of v k of Some (JStr s) \<Rightarrow> P s | _ \<Rightarrow> False)"

definition scalar_at :: "obj \<Rightarrow> string \<Rightarrow> bool" where
  "scalar_at v k = (case map_of v k of Some j \<Rightarrow> json_scalar j | None \<Rightarrow> False)"

definition hashes_at :: "obj \<Rightarrow> string \<Rightarrow> bool" where
  "hashes_at v k = (case map_of v k of
     Some (JArr xs) \<Rightarrow> xs \<noteq> [] \<and> list_all (\<lambda>j. case j of JStr s \<Rightarrow> hex_digits 64 s | _ \<Rightarrow> False) xs | _ \<Rightarrow> False)"

definition binding_keys :: "string list" where
  "binding_keys = [''base_commit'', ''contract_hash'', ''project_model_fingerprints'']"

definition legacy_binding :: "obj \<Rightarrow> bool" where
  "legacy_binding b \<longleftrightarrow> keys_are binding_keys b \<and> text_sat b ''base_commit'' (hex_digits 40) \<and>
     text_sat b ''contract_hash'' (hex_digits 64) \<and> hashes_at b ''project_model_fingerprints''"

definition legacy_structure :: "obj \<Rightarrow> bool" where
  "legacy_structure v = (case (map_of v ''binding'', map_of v ''facts'') of
     (Some (JObj b), Some (JArr fs)) \<Rightarrow> legacy_binding b \<and>
       (case map_of v ''independent_of_executor'' of Some (JBool i) \<Rightarrow> True | _ \<Rightarrow> False) \<and>
       text_sat v ''evidence_id'' evidence_id_pattern \<and>
       list_all (\<lambda>k. text_sat v k (\<lambda>s. s \<noteq> [])) [''validator_id'', ''validator_version'', ''claim'', ''producer_id''] \<and>
       text_sat v ''output'' (\<lambda>s. True) \<and> text_sat v ''entry_hash'' (hex_digits 64) \<and>
       list_all (\<lambda>j. case j of JObj f \<Rightarrow> keys_are [''name'', ''value''] f \<and> text_sat f ''name'' (\<lambda>s. s \<noteq> []) \<and> scalar_at f ''value'' | _ \<Rightarrow> False) fs
   | _ \<Rightarrow> False)"

definition legacy_entry_id :: "validation_env \<Rightarrow> obj \<Rightarrow> string res" where
  "legacy_entry_id env v =
     rbind (require_valid (keys_are legacy_keys v)) (\<lambda>_.
     as_invalid (
       rbind (ensure (legacy_structure v) ValueError) (\<lambda>_.
       rbind (entry_from env v) (\<lambda>e.
       rbind (ensure (aware (ee_recorded_at e) \<and> verify_integrity env e) ValueError) (\<lambda>_.
       Inr (ee_evidence_id e))))))"

definition load_legacy_event :: "validation_env \<Rightarrow> obj \<Rightarrow> ledger \<Rightarrow> ledger res" where
  "load_legacy_event env v l =
     (if map_of v ''type'' = Some (JStr ''EVIDENCE'') \<and> keys_are [''type'', ''entry''] v then
        rbind (case map_of v ''entry'' of Some (JObj p) \<Rightarrow> Inr p | _ \<Rightarrow> Inl ValidationError) (\<lambda>p.
        rbind (legacy_entry_id env p) (\<lambda>i.
        rbind (require_valid (\<not> (i \<in> set (lg_historical_ids l) \<or> list_ex (\<lambda>d. ee_evidence_id d = i) (lg_entries l)))) (\<lambda>_.
        Inr (l\<lparr>lg_historical_ids := lg_historical_ids l @ [i]\<rparr>))))
      else if map_of v ''type'' = Some (JStr ''INVALIDATION'') \<and> keys_are [''type'', ''evidence_id'', ''reason''] v then
        (case (map_of v ''evidence_id'', map_of v ''reason'') of
          (Some (JStr i), Some (JStr r)) \<Rightarrow>
            rbind (require_valid (\<not> (i \<notin> set (lg_historical_ids l) \<or> r = [] \<or> map_of (lg_historical_invalidations l) i \<noteq> None))) (\<lambda>_.
            Inr (l\<lparr>lg_historical_invalidations := lg_historical_invalidations l @ [(i, r)]\<rparr>))
        | _ \<Rightarrow> Inl ValidationError)
      else Inl ValidationError)"

fun load_legacy_line :: "validation_env \<Rightarrow> journal_line \<Rightarrow> ledger \<Rightarrow> ledger res" where
  "load_legacy_line env Blank_Line l = Inr l"
| "load_legacy_line env (Event_Line f) l =
     rbind (strict_json_loads f) (\<lambda>j. case j of JObj v \<Rightarrow> load_legacy_event env v l | _ \<Rightarrow> Inl ValidationError)"

fun load_legacy_lines :: "validation_env \<Rightarrow> journal_line list \<Rightarrow> ledger \<Rightarrow> ledger res" where
  "load_legacy_lines env [] l = Inr l"
| "load_legacy_lines env (x # xs) l = rbind (load_legacy_line env x l) (load_legacy_lines env xs)"

fun load_legacy_journal :: "validation_env \<Rightarrow> legacy_journal \<Rightarrow> ledger \<Rightarrow> ledger res" where
  "load_legacy_journal env Legacy_Absent l = Inr l"
| "load_legacy_journal env Legacy_Truncated l = Inl ValidationError"
| "load_legacy_journal env (Legacy_Lines xs) l = as_invalid (load_legacy_lines env xs l)"

subsection \<open>Opening a ledger\<close>

definition empty_ledger :: "validators \<Rightarrow> journal_line list option \<Rightarrow> ledger" where
  "empty_ledger trusted journal = \<lparr>lg_trusted = trusted, lg_entries = [], lg_invalidations = [], lg_historical_ids = [],
     lg_historical_invalidations = [], lg_journal = journal\<rparr>"

text \<open>\<open>EvidenceLedger(trusted, journal_path=...)\<close>; a journal that does not exist yet has no lines.\<close>

definition open_ledger :: "validation_env \<Rightarrow> validators \<Rightarrow> journal_line list option \<Rightarrow> ledger res" where
  "open_ledger env trusted journal = (case journal of
     None \<Rightarrow> Inr (empty_ledger trusted None)
   | Some lines \<Rightarrow> load_journal env (empty_ledger trusted (Some lines)))"

definition open_canonical :: "validation_env \<Rightarrow> validators \<Rightarrow> legacy_journal \<Rightarrow> journal_line list \<Rightarrow> ledger res" where
  "open_canonical env trusted legacy lines =
     rbind (open_ledger env trusted None) (\<lambda>l.
     rbind (load_legacy_journal env legacy l) (\<lambda>l.
     load_journal env (l\<lparr>lg_journal := Some lines\<rparr>)))"

section \<open>Evidence documents\<close>

datatype evidence_classification = EC_CANONICAL | EC_LEGACY_HISTORICAL

record decoded_evidence =
  de_classification :: evidence_classification
  de_entry :: "evidence_entry option"
  de_reason :: "string option"

definition nonempty_text :: "string \<Rightarrow> bool" where
  "nonempty_text s \<longleftrightarrow> strip s \<noteq> []"

text \<open>\<open>value.replace("Z", "+00:00")\<close>\<close>

definition zulu :: "string \<Rightarrow> string" where
  "zulu s = concat (map (\<lambda>c. if c = CHR ''Z'' then ''+00:00'' else [c]) s)"

definition aware_timestamp :: "validation_env \<Rightarrow> string \<Rightarrow> bool" where
  "aware_timestamp env s = (case ve_fromisoformat env (zulu s) of None \<Rightarrow> False | Some t \<Rightarrow> aware t)"

text \<open>The flat historical form as a document of the present shape: the validator's items are moved up and the entry counts as independent.\<close>

definition flat_legacy_integrity :: "validation_env \<Rightarrow> obj \<Rightarrow> bool" where
  "flat_legacy_integrity env v = (case
     rbind (rbind (item v ''validator'') object_value) (\<lambda>w.
     rbind (item w ''id'') (\<lambda>i.
     rbind (item w ''version'') (\<lambda>n.
     rbind (item w ''kind'') (\<lambda>k.
     rbind (text_at v ''recorded_at'') (\<lambda>at.
     rbind (rbind (item v ''facts'') list_value) (\<lambda>fs.
     rbind (rmap object_value fs) (\<lambda>_.
     entry_from env ([(''validator_id'', i), (''validator_version'', n), (''validator_kind'', k), (''independent_of_executor'', JBool True),
       (''recorded_at'', JStr (zulu at))] @ v)))))))) of
     Inl e \<Rightarrow> False | Inr e \<Rightarrow> verify_integrity env e)"

definition wrapped_legacy :: "validation_env \<Rightarrow> obj \<Rightarrow> bool" where
  "wrapped_legacy env w = (case (map_of w ''validator'', map_of w ''source'', map_of w ''result'') of
     (Some (JObj vd), Some (JObj sr), Some (JObj rs)) \<Rightarrow>
       keys_are [''id'', ''gate'', ''claim'', ''validator'', ''source'', ''result'', ''evidence_excerpt'', ''scrubbed'', ''created_at''] w \<and>
       text_sat w ''id'' evidence_id_pattern \<and> text_sat w ''gate'' (matches_after ''G-'' id_body) \<and> text_sat w ''claim'' nonempty_text \<and>
       keys_are [''id'', ''version'', ''type''] vd \<and> text_sat vd ''id'' nonempty_text \<and> text_sat vd ''version'' nonempty_text \<and>
       map_of vd ''type'' = Some (JStr ''independent_agent'') \<and>
       keys_are [''commit'', ''contract_hash'', ''project_model_fingerprint''] sr \<and> text_sat sr ''commit'' (hex_digits 40) \<and>
       text_sat sr ''contract_hash'' (hex_digits 64) \<and> text_sat sr ''project_model_fingerprint'' (hex_digits 64) \<and>
       keys_are [''status'', ''measured''] rs \<and> text_sat rs ''status'' (\<lambda>s. s \<in> {''PASS'', ''FAIL'', ''BLOCKED''}) \<and>
       (case map_of rs ''measured'' of Some (JObj m) \<Rightarrow> True | _ \<Rightarrow> False) \<and>
       text_sat w ''evidence_excerpt'' nonempty_text \<and> map_of w ''scrubbed'' = Some (JBool True) \<and> text_sat w ''created_at'' (aware_timestamp env)
   | _ \<Rightarrow> False)"

definition flat_legacy :: "validation_env \<Rightarrow> obj \<Rightarrow> bool" where
  "flat_legacy env v = (case (map_of v ''validator'', map_of v ''binding'', map_of v ''facts'') of
     (Some (JObj vd), Some (JObj b), Some (JArr fs)) \<Rightarrow>
       keys_are [''evidence_id'', ''validator'', ''claim'', ''outcome'', ''facts'', ''binding'', ''output'', ''recorded_at'', ''producer_id'',
         ''entry_hash''] v \<and>
       keys_are [''id'', ''version'', ''kind''] vd \<and> text_sat vd ''id'' nonempty_text \<and> text_sat vd ''version'' nonempty_text \<and>
       text_sat vd ''kind'' (\<lambda>s. \<not> isl (to_validator_kind s)) \<and> text_sat v ''evidence_id'' evidence_id_pattern \<and>
       text_sat v ''claim'' nonempty_text \<and> text_sat v ''outcome'' (\<lambda>s. \<not> isl (to_evidence_outcome s)) \<and>
       list_all (\<lambda>j. case j of JObj f \<Rightarrow> keys_are [''name'', ''value''] f \<and> text_sat f ''name'' nonempty_text \<and> scalar_at f ''value'' | _ \<Rightarrow> False) fs \<and>
       legacy_binding b \<and> text_sat v ''output'' (\<lambda>s. True) \<and> text_sat v ''recorded_at'' (aware_timestamp env) \<and>
       text_sat v ''producer_id'' nonempty_text \<and> text_sat v ''entry_hash'' (hex_digits 64) \<and> flat_legacy_integrity env v
   | _ \<Rightarrow> False)"

definition classify_evidence_payload :: "validation_env \<Rightarrow> obj \<Rightarrow> evidence_classification res" where
  "classify_evidence_payload env v =
     (if map_of v ''schema_version'' = Some (JStr ''2.0'') then Inr EC_CANONICAL
      else if keys_are [''schema_version'', ''evidence''] v \<and> map_of v ''schema_version'' = Some (JStr ''1.0'') \<and>
        (case map_of v ''evidence'' of Some (JObj w) \<Rightarrow> wrapped_legacy env w | _ \<Rightarrow> False) then Inr EC_LEGACY_HISTORICAL
      else if flat_legacy env v then Inr EC_LEGACY_HISTORICAL
      else Inl ValidationError)"

definition decode_evidence :: "validation_env \<Rightarrow> validators \<Rightarrow> evidence_binding option \<Rightarrow> bool \<Rightarrow> obj \<Rightarrow> decoded_evidence res" where
  "decode_evidence env trusted expected require_independent v =
     rbind (classify_evidence_payload env v) (\<lambda>c.
     case c of
       EC_LEGACY_HISTORICAL \<Rightarrow> Inr \<lparr>de_classification = c, de_entry = None, de_reason = Some ''legacy evidence cannot satisfy current gates''\<rparr>
     | EC_CANONICAL \<Rightarrow> rbind (evidence_from_payload env trusted expected require_independent v) (\<lambda>e.
         Inr \<lparr>de_classification = c, de_entry = Some e, de_reason = None\<rparr>))"

text \<open>Evidence files, JSON or YAML, by path; both readers refuse a repeated key.\<close>

type_synonym evidence_files = "(string \<times> file_content) list"

definition load_evidence :: "validation_env \<Rightarrow> validators \<Rightarrow> evidence_binding option \<Rightarrow> bool \<Rightarrow> evidence_files \<Rightarrow> string \<Rightarrow> decoded_evidence res" where
  "load_evidence env trusted expected require_independent files path =
     rbind (as_invalid (case map_of files path of None \<Rightarrow> Inl FileNotFoundError | Some f \<Rightarrow> strict_json_loads f)) (\<lambda>j.
     case j of JObj v \<Rightarrow> decode_evidence env trusted expected require_independent v | _ \<Rightarrow> Inl ValidationError)"

definition dump_evidence :: "validation_env \<Rightarrow> evidence_entry \<Rightarrow> string \<Rightarrow> evidence_files \<Rightarrow> evidence_files" where
  "dump_evidence env e path files = AList.update path (Document (JObj (evidence_to_payload env e))) files"

fun validate_evidence_each :: "validation_env \<Rightarrow> validators \<Rightarrow> evidence_binding \<Rightarrow> evidence_files \<Rightarrow> string set \<Rightarrow> string list \<Rightarrow> evidence_entry list res" where
  "validate_evidence_each env trusted expected files seen [] = Inr []"
| "validate_evidence_each env trusted expected files seen (path # paths) =
     rbind (load_evidence env trusted (Some expected) True files path) (\<lambda>d.
     case de_entry d of None \<Rightarrow> Inl ValidationError
     | Some e \<Rightarrow> rbind (require_valid (ee_evidence_id e \<notin> seen)) (\<lambda>_.
         rbind (validate_evidence_each env trusted expected files (insert (ee_evidence_id e) seen) paths) (\<lambda>es. Inr (e # es))))"

definition validate_evidence_set :: "validation_env \<Rightarrow> validators \<Rightarrow> evidence_binding \<Rightarrow> evidence_files \<Rightarrow> string list \<Rightarrow> evidence_entry list res" where
  "validate_evidence_set env trusted expected files paths = validate_evidence_each env trusted expected files {} paths"

end
