(* ===== verification/Gates.thy ===== *)
theory Gates
  imports Validation
begin

text \<open>
  Models the waivers and the gates of \<open>src/artifex/validation/core.py\<close>: who may approve a waiver, what a gate requires, the graph of gates and
  its evaluation over an evidence ledger.

  The evaluation of a gate calls itself for the children of the gate. Its first argument bounds the depth of these calls, as the recursion limit of the
  interpreter does; for a graph that its constructor accepts, depth 4 is always enough (\<open>gate_evaluation_ends\<close>).
\<close>

section \<open>Waivers\<close>

record waiver_request =
  wq_waiver_id :: string
  wq_gate_id :: string
  wq_reason :: string
  wq_impact :: string
  wq_requested_by :: string

definition waiver_request_init :: "waiver_request \<Rightarrow> waiver_request res" where
  "waiver_request_init w =
     rbind (require_valid (\<not> (\<not> prefix ''WAV-'' (wq_waiver_id w) \<or>
       \<not> (wq_gate_id w \<noteq> [] \<and> wq_reason w \<noteq> [] \<and> wq_impact w \<noteq> [] \<and> wq_requested_by w \<noteq> [])))) (\<lambda>_. Inr w)"

record approved_waiver =
  aw_waiver_id :: string
  aw_gate_id :: string
  aw_reason :: string
  aw_impact :: string
  aw_requested_by :: string
  aw_approved_by :: string
  aw_authority :: acceptance_authority
  aw_expires_at :: "moment option"
  aw_revisit_condition :: "string option"

definition approve_waiver :: "waiver_request \<Rightarrow> string \<Rightarrow> acceptance_authority \<Rightarrow> moment option \<Rightarrow> string option \<Rightarrow> approved_waiver res" where
  "approve_waiver w approved_by authority expiry revisit_condition =
     rbind (require_valid (approved_by \<noteq> wq_requested_by w)) (\<lambda>_.
     rbind (require_valid (authority \<in> {ARCHITECT, HUMAN})) (\<lambda>_.
     rbind (require_valid (\<not> (expiry = None \<and> (revisit_condition = None \<or> revisit_condition = Some [])))) (\<lambda>_.
     rbind (require_valid (case expiry of None \<Rightarrow> True | Some t \<Rightarrow> aware t)) (\<lambda>_.
     Inr \<lparr>aw_waiver_id = wq_waiver_id w, aw_gate_id = wq_gate_id w, aw_reason = wq_reason w, aw_impact = wq_impact w,
       aw_requested_by = wq_requested_by w, aw_approved_by = approved_by, aw_authority = authority, aw_expires_at = expiry,
       aw_revisit_condition = revisit_condition\<rparr>))))"

text \<open>Comparing an aware time with a naive one raises \<open>TypeError\<close>.\<close>

definition earlier :: "moment \<Rightarrow> moment \<Rightarrow> bool res" where
  "earlier s t = rbind (ensure (aware s = aware t) TypeError) (\<lambda>_. Inr (mo_instant s < mo_instant t))"

definition is_active :: "moment \<Rightarrow> approved_waiver \<Rightarrow> bool res" where
  "is_active at w =
     rbind (require_valid (aware at)) (\<lambda>_.
     case aw_expires_at w of None \<Rightarrow> Inr True | Some t \<Rightarrow> earlier at t)"

section \<open>Gates\<close>

datatype gate_level = GL_TASK | GL_INTEGRATION | GL_MILESTONE | GL_RELEASE

datatype gate_state = GS_PENDING | GS_PASS | GS_FAIL | GS_BLOCKED | GS_WAIVED | GS_STALE

record evidence_requirement =
  er_claim :: string
  er_allowed_validator_ids :: "string set"
  er_allowed_kinds :: "validator_kind set"
  er_require_independent :: bool
  er_minimum_passes :: int

definition evidence_requirement_init :: "evidence_requirement \<Rightarrow> evidence_requirement res" where
  "evidence_requirement_init r =
     rbind (require_valid (\<not> (er_claim r = [] \<or> er_allowed_validator_ids r = {} \<or> er_allowed_kinds r = {}))) (\<lambda>_.
     rbind (require_valid (1 \<le> er_minimum_passes r)) (\<lambda>_. Inr r))"

record gate_definition =
  gd_gate_id :: string
  gd_level :: gate_level
  gd_evidence :: "evidence_requirement list"
  gd_children :: "string list"
  gd_waiver_allowed :: bool

definition gate_definition_init :: "gate_definition \<Rightarrow> gate_definition res" where
  "gate_definition_init g =
     rbind (require_valid (\<not> (gd_gate_id g = [] \<or> \<not> distinct (gd_children g)))) (\<lambda>_.
     rbind (require_valid (\<not> (gd_level g = GL_TASK \<and> gd_children g \<noteq> []))) (\<lambda>_.
     rbind (require_valid (gd_evidence g \<noteq> [])) (\<lambda>_. Inr g)))"

fun level_rank :: "gate_level \<Rightarrow> nat" where
  "level_rank GL_TASK = 0"
| "level_rank GL_INTEGRATION = 1"
| "level_rank GL_MILESTONE = 2"
| "level_rank GL_RELEASE = 3"

type_synonym gate_graph = "(string \<times> gate_definition) list"

definition gate_graph_init :: "gate_definition list \<Rightarrow> gate_graph res" where
  "gate_graph_init gates =
     (let g = map (\<lambda>d. (gd_gate_id d, d)) gates in
      rbind (require_valid (distinct (map fst g))) (\<lambda>_.
      rbind (rmap (\<lambda>d. rmap (\<lambda>c. case map_of g c of None \<Rightarrow> Inl ValidationError
        | Some child \<Rightarrow> require_valid (level_rank (gd_level d) = level_rank (gd_level child) + 1)) (gd_children d)) gates) (\<lambda>_.
      Inr g)))"

definition requirement_candidate :: "evidence_requirement \<Rightarrow> evidence_entry \<Rightarrow> bool" where
  "requirement_candidate r e \<longleftrightarrow> ee_claim e = er_claim r \<and> ee_validator_id e \<in> er_allowed_validator_ids r \<and>
     ee_validator_kind e \<in> er_allowed_kinds r \<and> (\<not> er_require_independent r \<or> ee_independent_of_executor e)"

definition evaluate_requirement :: "ledger \<Rightarrow> evidence_binding \<Rightarrow> evidence_requirement \<Rightarrow> gate_state" where
  "evaluate_requirement l b r =
     (let candidates = filter (requirement_candidate r) (lg_entries l);
          now_current = filter (\<lambda>e. ledger_state l e b = ES_CURRENT) candidates in
      if list_ex (\<lambda>e. ee_outcome e = EO_FAIL) now_current then GS_FAIL
      else if list_ex (\<lambda>e. ee_outcome e = EO_BLOCKED) now_current then GS_BLOCKED
      else if er_minimum_passes r \<le> int (length (filter (\<lambda>e. ee_outcome e = EO_PASS) now_current)) then GS_PASS
      else if candidates \<noteq> [] then GS_STALE
      else GS_PENDING)"

text \<open>The first of the states that keep a gate from passing\<close>

definition blocking_state :: "gate_state list \<Rightarrow> gate_state option" where
  "blocking_state states = find (\<lambda>s. s \<in> set states) [GS_FAIL, GS_BLOCKED, GS_STALE, GS_PENDING]"

fun active_waivers :: "moment \<Rightarrow> approved_waiver list \<Rightarrow> approved_waiver list res" where
  "active_waivers now [] = Inr []"
| "active_waivers now (w # ws) =
     rbind (is_active now w) (\<lambda>a. rbind (active_waivers now ws) (\<lambda>r. Inr (if a then w # r else r)))"

text \<open>The dictionary of the active waivers by gate: the last one of a gate, at the place of the first\<close>

definition waivers_by_gate :: "approved_waiver list \<Rightarrow> (string \<times> approved_waiver) list" where
  "waivers_by_gate ws = dict_of (map (\<lambda>w. (aw_gate_id w, w)) ws)"

fun evaluate_gate :: "nat \<Rightarrow> gate_graph \<Rightarrow> ledger \<Rightarrow> evidence_binding \<Rightarrow> acceptance_authority \<Rightarrow> moment \<Rightarrow> approved_waiver list \<Rightarrow> string \<Rightarrow>
    gate_state res" where
  "evaluate_gate 0 g l b authority now waivers gate_id = Inl RecursionError"
| "evaluate_gate (Suc n) g l b authority now waivers gate_id =
     rbind (require_valid (authority = CORE)) (\<lambda>_.
     rbind (require_valid (aware now)) (\<lambda>_.
     case map_of g gate_id of None \<Rightarrow> Inl ValidationError
     | Some d \<Rightarrow>
       rbind (active_waivers now waivers) (\<lambda>active.
       let by_gate = waivers_by_gate active in
       if map_of by_gate gate_id \<noteq> None then rbind (require_valid (gd_waiver_allowed d)) (\<lambda>_. Inr GS_WAIVED)
       else rbind (rmap (evaluate_gate n g l b authority now (map snd by_gate)) (gd_children d)) (\<lambda>child_states.
         case blocking_state child_states of Some s \<Rightarrow> Inr s
         | None \<Rightarrow> (case blocking_state (map (evaluate_requirement l b) (gd_evidence d)) of Some s \<Rightarrow> Inr s | None \<Rightarrow> Inr GS_PASS)))))"

end
