(* ===== verification/Validation_Properties.thy ===== *)
theory Validation_Properties
  imports Gates
begin

text \<open>
  Properties of \<open>src/artifex/validation\<close>: the journal of an evidence ledger replays to the ledger it was written by, a gate that passes is justified by
  trusted, intact and current evidence all the way down, and the evaluation of gates ends.
\<close>

section \<open>Histories of a ledger\<close>

datatype ledger_call = Append_Evidence evidence_entry | Invalidate_Evidence "string list" string

fun do_ledger :: "validation_env \<Rightarrow> ledger_call \<Rightarrow> (ledger, unit) eff" where
  "do_ledger env (Append_Evidence e) = append_evidence env e"
| "do_ledger env (Invalidate_Evidence ids r) = invalidate ids r"

fun run_ledger :: "validation_env \<Rightarrow> ledger_call list \<Rightarrow> ledger \<Rightarrow> ledger" where
  "run_ledger env [] l = l"
| "run_ledger env (c # cs) l = run_ledger env cs (snd (do_ledger env c l))"

section \<open>The journal\<close>

text \<open>\<open>datetime.fromisoformat\<close> is documented as the inverse of \<open>isoformat\<close>.\<close>

definition isoformat_inverse :: "validation_env \<Rightarrow> bool" where
  "isoformat_inverse env \<longleftrightarrow> (\<forall>t. ve_fromisoformat env (ve_isoformat env t) = Some t)"

lemma map_filter_objects: "List.map_filter object_or_none (map (\<lambda>x. JObj (f x)) xs) = map f xs"
  by (induction xs) (simp_all add: map_filter_simps)

lemma fact_from_scalar: "fact_from [(''name'', JStr n), (''value'', j)] = Inr f \<Longrightarrow> json_scalar j"
  by (auto simp: fact_from_def text_at_def item_def measured_fact_init_def rbind_Inr_iff)

lemma entry_from_payload_parts:
  assumes "entry_from env (evidence_to_payload env e) = Inr d"
  shows "ve_fromisoformat env (ve_isoformat env (ee_recorded_at e)) = Some (ee_recorded_at d)"
    and "\<forall>f \<in> set (ee_facts e). json_scalar (mf_value f)"
proof -
  have time: "ve_fromisoformat env (ve_isoformat env (ee_recorded_at e)) = Some (ee_recorded_at d) \<and>
    (\<exists>fs. rmap fact_from (map (\<lambda>f. [(''name'', JStr (mf_name f)), (''value'', mf_value f)]) (ee_facts e)) = Inr fs)"
    using assms unfolding entry_from_def evidence_to_payload_def
    by (auto simp: rbind_Inr_iff item_def text_at_def map_filter_objects evidence_entry_init_def split: option.splits)
  then show "ve_fromisoformat env (ve_isoformat env (ee_recorded_at e)) = Some (ee_recorded_at d)" by blast
  from time obtain fs where
    "rmap fact_from (map (\<lambda>f. [(''name'', JStr (mf_name f)), (''value'', mf_value f)]) (ee_facts e)) = Inr fs" by blast
  then show "\<forall>f \<in> set (ee_facts e). json_scalar (mf_value f)"
    by (auto simp: rmap_Inr_iff list_all2_conv_all_nth in_set_conv_nth dest!: fact_from_scalar)
qed

lemma scalar_strict: "json_scalar j \<Longrightarrow> strict_json j"
  by (cases j) auto

lemma payload_strict:
  "\<forall>f \<in> set (ee_facts e). json_scalar (mf_value f) \<Longrightarrow> strict_json (JObj (evidence_to_payload env e))"
  by (auto simp: evidence_to_payload_def binding_json_def list_all_iff scalar_strict)

lemma validate_entry_decodes:
  assumes "validate_entry env l e = Inr ()" and "isoformat_inverse env"
  shows "entry_from_payload env l (evidence_to_payload env e) = Inr e" and "strict_json (JObj (evidence_to_payload env e))"
proof -
  from assms(1) obtain d where d: "entry_from_payload env l (evidence_to_payload env e) = Inr d" "same_entry d e"
    by (auto simp: validate_entry_def rbind_Inr_iff)
  then have parts: "entry_from env (evidence_to_payload env e) = Inr d"
    by (auto simp: entry_from_payload_def evidence_from_payload_def rbind_Inr_iff)
  have "ee_recorded_at d = ee_recorded_at e" using entry_from_payload_parts(1) [OF parts] assms(2) by (simp add: isoformat_inverse_def)
  with d show "entry_from_payload env l (evidence_to_payload env e) = Inr e" by (cases d) (auto simp: same_entry_def)
  show "strict_json (JObj (evidence_to_payload env e))" by (rule payload_strict [OF entry_from_payload_parts(2) [OF parts]])
qed

text \<open>Loading neither reads nor changes the journal a ledger appends to.\<close>

definition at_journal :: "journal_line list option \<Rightarrow> ledger \<Rightarrow> ledger" where
  "at_journal j l = l\<lparr>lg_journal := j\<rparr>"

lemma at_journal_simps [simp]:
  "lg_trusted (at_journal j l) = lg_trusted l" "lg_entries (at_journal j l) = lg_entries l"
  "lg_invalidations (at_journal j l) = lg_invalidations l" "lg_historical_ids (at_journal j l) = lg_historical_ids l"
  "lg_journal (at_journal j l) = j" "at_journal j (at_journal k l) = at_journal j l" "at_journal (lg_journal l) l = l"
  "(at_journal j l)\<lparr>lg_entries := es\<rparr> = at_journal j (l\<lparr>lg_entries := es\<rparr>)"
  "(at_journal j l)\<lparr>lg_invalidations := vs\<rparr> = at_journal j (l\<lparr>lg_invalidations := vs\<rparr>)"
  by (simp_all add: at_journal_def)

lemma entry_from_payload_at [simp]: "entry_from_payload env (at_journal j l) p = entry_from_payload env l p"
  by (simp add: entry_from_payload_def)

lemma validate_entry_at [simp]: "validate_entry env (at_journal j l) e = validate_entry env l e"
  by (simp add: validate_entry_def)

lemma load_event_at: "load_event env v (at_journal j l) = rbind (load_event env v l) (\<lambda>l. Inr (at_journal j l))"
  by (auto simp: load_event_def require_valid_def ensure_def rbind_def split: sum.splits option.splits json.splits)

lemma load_line_at: "load_line env x (at_journal j l) = rbind (load_line env x l) (\<lambda>l. Inr (at_journal j l))"
proof (cases x)
  case (Event_Line f)
  then show ?thesis by (cases "strict_json_loads f") (auto simp: load_event_at split: json.splits)
qed simp

lemma load_lines_at: "load_lines env xs (at_journal j l) = rbind (load_lines env xs l) (\<lambda>l. Inr (at_journal j l))"
proof (induction xs arbitrary: l)
  case (Cons x xs)
  then show ?case by (cases "load_line env x l") (simp_all add: load_line_at)
qed simp

lemma load_lines_append: "load_lines env (xs @ ys) l = rbind (load_lines env xs l) (load_lines env ys)"
proof (induction xs arbitrary: l)
  case (Cons x xs)
  then show ?case by (cases "load_line env x l") simp_all
qed simp

lemma load_lines_journal: "load_lines env xs l = Inr l' \<Longrightarrow> lg_journal l' = lg_journal l"
  using load_lines_at [of env xs "lg_journal l" l] by (cases "load_lines env xs l") (auto, metis at_journal_simps(5))

text \<open>What a call adds to the journal, and that loading it has the effect of the call\<close>

definition journaled :: "validation_env \<Rightarrow> journal_line list \<Rightarrow> ledger \<Rightarrow> ledger \<Rightarrow> bool" where
  "journaled env new l l' \<longleftrightarrow> lg_journal l' = map_option (\<lambda>lines. lines @ new) (lg_journal l) \<and>
     load_lines env new l = Inr (at_journal (lg_journal l) l')"

lemma journaled_refl [simp]: "journaled env [] l l"
  by (simp add: journaled_def option.map_ident)

lemma journaled_trans:
  assumes "journaled env xs l m" and "journaled env ys m k"
  shows "journaled env (xs @ ys) l k"
proof -
  have "load_lines env ys (at_journal (lg_journal l) m) = Inr (at_journal (lg_journal l) k)"
    using assms(2) by (simp add: journaled_def load_lines_at)
  with assms show ?thesis by (auto simp: journaled_def load_lines_append option.map_comp comp_def)
qed

lemma load_evidence_event:
  assumes "strict_json (JObj p)" and "entry_from_payload env l p = Inr e" and "validate_entry env l e = Inr ()"
  shows "load_lines env [Event_Line (Document (JObj [(''type'', JStr ''EVIDENCE''), (''entry'', JObj p)]))] l = Inr (l\<lparr>lg_entries := lg_entries l @ [e]\<rparr>)"
proof -
  have "load_event env [(''type'', JStr ''EVIDENCE''), (''entry'', JObj p)] l = Inr (l\<lparr>lg_entries := lg_entries l @ [e]\<rparr>)"
    by (simp add: load_event_def keys_are_def require_valid_def ensure_def assms(2,3))
  then show ?thesis using assms(1) by (simp add: strict_json_loads_def require_valid_def ensure_def)
qed

lemma load_invalidation_event:
  assumes "evidence_id_pattern i" and "i \<in> ee_evidence_id ` set (lg_entries l)" and "map_of (lg_invalidations l) i = None"
    and "secret_safe_text 500 r = Inr ()"
  shows "load_lines env [Event_Line (Document (JObj [(''type'', JStr ''INVALIDATION''), (''evidence_id'', JStr i), (''reason'', JStr r)]))] l =
    Inr (l\<lparr>lg_invalidations := lg_invalidations l @ [(i, r)]\<rparr>)"
proof -
  have "r \<noteq> []" "length r \<le> 500" "scrub_secrets r = r" using assms(4) by (auto simp: secret_safe_text_def rbind_Inr_iff)
  then have "load_event env [(''type'', JStr ''INVALIDATION''), (''evidence_id'', JStr i), (''reason'', JStr r)] l =
    Inr (l\<lparr>lg_invalidations := lg_invalidations l @ [(i, r)]\<rparr>)"
    using assms(1-3) by (simp add: load_event_def keys_are_def require_valid_def ensure_def)
  then show ?thesis by (simp add: strict_json_loads_def require_valid_def ensure_def)
qed

lemma journaledI:
  assumes "load_lines env new l = Inr m" and "lg_journal l' = map_option (\<lambda>lines. lines @ new) (lg_journal l)" and "at_journal (lg_journal l) l' = m"
  shows "journaled env new l l'"
  unfolding journaled_def using assms by (intro conjI) (simp_all only:)

lemma append_journaled:
  assumes "isoformat_inverse env"
  shows "\<exists>new. journaled env new l (snd (append_evidence env e l))"
proof (cases "validate_entry env l e")
  case (Inl x)
  then show ?thesis by (auto simp: append_evidence_def eff_defs intro: exI [of _ "[]"])
next
  case (Inr u)
  define p where "p = evidence_to_payload env e"
  have load: "load_lines env [Event_Line (Document (JObj [(''type'', JStr ''EVIDENCE''), (''entry'', JObj p)]))] l =
      Inr (l\<lparr>lg_entries := lg_entries l @ [e]\<rparr>)"
    unfolding p_def using validate_entry_decodes [OF _ assms, of l e] Inr by (intro load_evidence_event) simp_all
  have "journaled env [Event_Line (Document (JObj [(''type'', JStr ''EVIDENCE''), (''entry'', JObj p)]))] l (snd (append_evidence env e l))"
    by (rule journaledI [OF load]) (simp_all add: append_evidence_def eff_defs persist_def at_journal_def Inr flip: p_def)
  then show ?thesis by blast
qed

lemma invalidate_each_journaled:
  assumes "secret_safe_text 500 r = Inr ()" and "known = map ee_evidence_id (lg_entries l)"
  shows "\<exists>new. journaled env new l (snd (invalidate_each known r ids l))"
  using assms(2)
proof (induction ids arbitrary: l)
  case Nil
  then show ?case by (auto simp: eff_defs intro: exI [of _ "[]"])
next
  case (Cons i ids)
  show ?case
  proof (cases "evidence_id_pattern i \<and> i \<in> set known \<and> map_of (lg_invalidations l) i = None")
    case True
    let ?event = "JObj [(''type'', JStr ''INVALIDATION''), (''evidence_id'', JStr i), (''reason'', JStr r)]"
    let ?m = "(persist ?event l)\<lparr>lg_invalidations := lg_invalidations l @ [(i, r)]\<rparr>"
    have "load_lines env [Event_Line (Document ?event)] l = Inr (l\<lparr>lg_invalidations := lg_invalidations l @ [(i, r)]\<rparr>)"
      using True Cons.prems assms(1) by (intro load_invalidation_event) auto
    then have "journaled env [Event_Line (Document ?event)] l ?m" by (rule journaledI) (simp_all add: persist_def at_journal_def)
    moreover have "\<exists>new. journaled env new ?m (snd (invalidate_each known r ids ?m))"
      by (rule Cons.IH) (simp add: Cons.prems persist_def)
    moreover have "snd (invalidate_each known r (i # ids) l) = snd (invalidate_each known r ids ?m)"
      using True by (simp add: eff_defs ensure_def persist_def)
    ultimately show ?thesis by (auto simp only: intro: journaled_trans)
  next
    case False
    then have "snd (invalidate_each known r (i # ids) l) = l" by (auto simp: eff_defs ensure_def)
    then show ?thesis by (metis journaled_refl)
  qed
qed

lemma call_journaled:
  assumes "isoformat_inverse env"
  shows "\<exists>new. journaled env new l (snd (do_ledger env c l))"
proof (cases c)
  case (Append_Evidence e)
  then show ?thesis using append_journaled [OF assms] by simp
next
  case (Invalidate_Evidence ids r)
  have "snd (invalidate ids r l) = (if secret_safe_text 500 r = Inr () then snd (invalidate_each (map ee_evidence_id (lg_entries l)) r ids l) else l)"
    by (cases "secret_safe_text 500 r") (auto simp: invalidate_def eff_defs)
  then show ?thesis using Invalidate_Evidence invalidate_each_journaled [OF _ refl] by (metis do_ledger.simps(2) journaled_refl)
qed

lemma run_journaled: "isoformat_inverse env \<Longrightarrow> \<exists>new. journaled env new l (run_ledger env cs l)"
proof (induction cs arbitrary: l)
  case (Cons c cs)
  then show ?case using call_journaled [of env l c] by (metis journaled_trans run_ledger.simps(2))
qed (auto intro: exI [of _ "[]"])

lemma open_canonical_Inr:
  "open_canonical env trusted legacy lines = Inr l \<longleftrightarrow> (\<exists>k. load_legacy_journal env legacy (empty_ledger trusted None) = Inr k \<and>
     load_lines env lines (at_journal (Some lines) k) = Inr l)"
  by (auto simp: open_canonical_def open_ledger_def load_journal_def rbind_Inr_iff at_journal_def)

text \<open>
  C12. A ledger survives a restart. However a ledger was opened, over whatever historical and present journals, after any sequence of appended and invalidated
  evidence, refused calls and calls that stop half-way included, its journal has only grown, and opening the ledger again from its journal gives exactly
  the ledger it was: the same entries and invalidations in the same order.
\<close>

theorem ledger_reload:
  assumes "isoformat_inverse env" and "open_canonical env trusted legacy lines = Inr l"
  shows "\<exists>new. lg_journal (run_ledger env calls l) = Some (lines @ new) \<and>
    open_canonical env trusted legacy (lines @ new) = Inr (run_ledger env calls l)"
proof -
  let ?l' = "run_ledger env calls l"
  obtain k where k: "load_legacy_journal env legacy (empty_ledger trusted None) = Inr k" "load_lines env lines (at_journal (Some lines) k) = Inr l"
    using assms(2) unfolding open_canonical_Inr by blast
  then obtain m where m: "load_lines env lines k = Inr m" "l = at_journal (Some lines) m" by (auto simp: load_lines_at rbind_Inr_iff)
  obtain new where new: "lg_journal ?l' = Some (lines @ new)" "load_lines env new l = Inr (at_journal (Some lines) ?l')"
    using run_journaled [OF assms(1), of l calls] m(2) by (auto simp: journaled_def)
  have "load_lines env new (at_journal (Some (lines @ new)) m) = Inr (at_journal (Some (lines @ new)) ?l')"
    using load_lines_at [of env new "Some (lines @ new)" l] new(2) m(2) by simp
  then have "load_lines env (lines @ new) (at_journal (Some (lines @ new)) k) = Inr ?l'"
    using m(1) at_journal_simps(7) [of ?l'] unfolding new(1) by (simp only: load_lines_append load_lines_at [of env lines] rbind_simps)
  with k(1) new(1) show ?thesis unfolding open_canonical_Inr by blast
qed

section \<open>What a ledger holds\<close>

text \<open>Identifiers are unique, also against the historical journal, and every entry is by a trusted validator and carries the hash of its values.\<close>

definition ledger_ok :: "validation_env \<Rightarrow> ledger \<Rightarrow> bool" where
  "ledger_ok env l \<longleftrightarrow> distinct (map ee_evidence_id (lg_entries l)) \<and> ee_evidence_id ` set (lg_entries l) \<inter> set (lg_historical_ids l) = {} \<and>
     (\<forall>e \<in> set (lg_entries l). verify_integrity env e \<and> map_of (lg_trusted l) (ee_validator_id e) = Some (ee_validator_version e))"

lemma ledger_ok_entry:
  assumes "ledger_ok env l" and "validate_entry env l e = Inr ()"
  shows "ledger_ok env (l\<lparr>lg_entries := lg_entries l @ [e]\<rparr>)"
  using assms by (auto simp: ledger_ok_def validate_entry_def rbind_Inr_iff list_ex_iff)

lemma ledger_ok_at [simp]: "ledger_ok env (at_journal j l) \<longleftrightarrow> ledger_ok env l"
  by (simp add: ledger_ok_def)

lemma ledger_ok_invalidation [simp]: "ledger_ok env (l\<lparr>lg_invalidations := vs\<rparr>) \<longleftrightarrow> ledger_ok env l"
  by (simp add: ledger_ok_def)

lemma load_event_ok: "load_event env v l = Inr l' \<Longrightarrow> ledger_ok env l \<Longrightarrow> ledger_ok env l'"
  by (auto simp: load_event_def rbind_Inr_iff intro: ledger_ok_entry split: if_splits option.splits json.splits)

lemma case_object_Inr: "(case j of JObj v \<Rightarrow> f v | _ \<Rightarrow> Inl e) = Inr y \<longleftrightarrow> (\<exists>v. j = JObj v \<and> f v = Inr y)"
  by (cases j) auto

lemma load_lineE:
  assumes "load_line env x l = Inr l'"
  obtains "l' = l" | v where "load_event env v l = Inr l'"
  using assms by (cases x) (auto simp: rbind_Inr_iff case_object_Inr)

lemma load_line_ok: "load_line env x l = Inr l' \<Longrightarrow> ledger_ok env l \<Longrightarrow> ledger_ok env l'"
  by (erule load_lineE) (auto intro: load_event_ok)

lemma load_lines_ok: "load_lines env xs l = Inr l' \<Longrightarrow> ledger_ok env l \<Longrightarrow> ledger_ok env l'"
  by (induction xs arbitrary: l) (auto simp: rbind_Inr_iff intro: load_line_ok)

lemma load_legacy_event_entries: "load_legacy_event env v l = Inr l' \<Longrightarrow> lg_entries l' = lg_entries l \<and> lg_trusted l' = lg_trusted l"
  by (auto simp: load_legacy_event_def rbind_Inr_iff split: if_splits option.splits json.splits)

lemma load_legacy_line_entries: "load_legacy_line env x l = Inr l' \<Longrightarrow> lg_entries l' = lg_entries l \<and> lg_trusted l' = lg_trusted l"
  by (cases x) (auto simp: rbind_Inr_iff case_object_Inr dest: load_legacy_event_entries)

lemma load_legacy_entries:
  "load_legacy_lines env xs l = Inr l' \<Longrightarrow> lg_entries l' = lg_entries l \<and> lg_trusted l' = lg_trusted l"
  by (induction xs arbitrary: l) (fastforce simp: rbind_Inr_iff dest: load_legacy_line_entries)+

lemma load_legacy_journal_entries:
  "load_legacy_journal env legacy l = Inr l' \<Longrightarrow> lg_entries l' = lg_entries l \<and> lg_trusted l' = lg_trusted l"
  by (cases legacy) (auto dest: load_legacy_entries)

lemma load_event_trusted: "load_event env v l = Inr l' \<Longrightarrow> lg_trusted l' = lg_trusted l"
  by (auto simp: load_event_def rbind_Inr_iff split: if_splits option.splits json.splits)

lemma load_lines_trusted: "load_lines env xs l = Inr l' \<Longrightarrow> lg_trusted l' = lg_trusted l"
  by (induction xs arbitrary: l) (fastforce simp: rbind_Inr_iff elim!: load_lineE dest: load_event_trusted)+

lemma open_canonical_ok:
  assumes "open_canonical env trusted legacy lines = Inr l"
  shows "ledger_ok env l \<and> lg_trusted l = trusted"
proof -
  obtain k where k: "load_legacy_journal env legacy (empty_ledger trusted None) = Inr k" "load_lines env lines (at_journal (Some lines) k) = Inr l"
    using assms unfolding open_canonical_Inr by blast
  have "ledger_ok env (at_journal (Some lines) k)" "lg_trusted k = trusted"
    using load_legacy_journal_entries [OF k(1)] by (simp_all add: ledger_ok_def empty_ledger_def)
  with load_lines_ok [OF k(2)] load_lines_trusted [OF k(2)] show ?thesis by simp
qed

lemma invalidate_each_entries:
  "lg_entries (snd (invalidate_each known r ids l)) = lg_entries l \<and> lg_trusted (snd (invalidate_each known r ids l)) = lg_trusted l \<and>
   lg_historical_ids (snd (invalidate_each known r ids l)) = lg_historical_ids l"
  by (induction ids arbitrary: l) (simp_all add: eff_defs ensure_def persist_def)

lemma do_ledger_ok: "ledger_ok env l \<Longrightarrow> ledger_ok env (snd (do_ledger env c l)) \<and> lg_trusted (snd (do_ledger env c l)) = lg_trusted l"
proof (cases c)
  case (Append_Evidence e)
  then show "ledger_ok env l \<Longrightarrow> ?thesis"
    using ledger_ok_entry [of env l e] by (cases "validate_entry env l e") (simp_all add: append_evidence_def eff_defs persist_def ledger_ok_def)
next
  case (Invalidate_Evidence ids r)
  then show "ledger_ok env l \<Longrightarrow> ?thesis"
    by (cases "secret_safe_text 500 r") (simp_all add: invalidate_def eff_defs ledger_ok_def invalidate_each_entries)
qed

lemma run_ledger_ok: "ledger_ok env l \<Longrightarrow> ledger_ok env (run_ledger env cs l) \<and> lg_trusted (run_ledger env cs l) = lg_trusted l"
  by (induction cs arbitrary: l) (auto simp: do_ledger_ok)

section \<open>Gates\<close>

text \<open>The entries that count for a requirement under a binding, and when they suffice\<close>

definition supporting :: "validation_env \<Rightarrow> ledger \<Rightarrow> evidence_binding \<Rightarrow> evidence_requirement \<Rightarrow> evidence_entry set" where
  "supporting env l b r = {e \<in> set (lg_entries l). requirement_candidate r e \<and> ee_outcome e = EO_PASS \<and> ee_binding e = b \<and>
     ee_evidence_id e \<notin> fst ` set (lg_invalidations l) \<and> verify_integrity env e \<and>
     map_of (lg_trusted l) (ee_validator_id e) = Some (ee_validator_version e)}"

definition requirement_met :: "validation_env \<Rightarrow> ledger \<Rightarrow> evidence_binding \<Rightarrow> evidence_requirement \<Rightarrow> bool" where
  "requirement_met env l b r \<longleftrightarrow> er_minimum_passes r \<le> int (card (ee_evidence_id ` supporting env l b r)) \<and>
     (\<forall>e \<in> set (lg_entries l). requirement_candidate r e \<and> ee_binding e = b \<and> ee_evidence_id e \<notin> fst ` set (lg_invalidations l) \<longrightarrow>
        ee_outcome e = EO_PASS)"

lemma ledger_state_current: "ledger_state l e b = ES_CURRENT \<longleftrightarrow> ee_binding e = b \<and> ee_evidence_id e \<notin> fst ` set (lg_invalidations l)"
  by (auto simp: ledger_state_def map_of_eq_None_iff)

lemma card_filter_ids:
  assumes "distinct (map k xs)"
  shows "card (k ` {x \<in> set xs. P x}) = length (filter P xs)"
proof -
  have "distinct (map k (filter P xs))" using assms by (rule distinct_map_filter)
  then have "card (set (map k (filter P xs))) = length (filter P xs)" by (metis distinct_card length_map)
  then show ?thesis by (simp only: set_map set_filter)
qed

lemma evaluate_requirement_pass:
  assumes "ledger_ok env l"
  shows "evaluate_requirement l b r = GS_PASS \<longleftrightarrow> requirement_met env l b r"
proof -
  let ?P = "\<lambda>e. (requirement_candidate r e \<and> ledger_state l e b = ES_CURRENT) \<and> ee_outcome e = EO_PASS"
  have "supporting env l b r = {e \<in> set (lg_entries l). ?P e}"
    using assms by (auto simp: supporting_def ledger_ok_def ledger_state_current)
  then have "card (ee_evidence_id ` supporting env l b r) = length (filter ?P (lg_entries l))"
    using assms by (simp add: card_filter_ids ledger_ok_def)
  moreover have "ee_outcome e = EO_PASS \<longleftrightarrow> ee_outcome e \<noteq> EO_FAIL \<and> ee_outcome e \<noteq> EO_BLOCKED" for e
    by (cases "ee_outcome e") auto
  ultimately show ?thesis
    by (auto simp: evaluate_requirement_def requirement_met_def Let_def list_ex_iff ledger_state_current conj_commute conj_left_commute)
qed

lemma evaluate_requirement_not_waived: "evaluate_requirement l b r \<noteq> GS_WAIVED"
  by (simp add: evaluate_requirement_def Let_def)

lemma blocking_state_None: "blocking_state ss = None \<longleftrightarrow> (\<forall>s \<in> set ss. s = GS_PASS \<or> s = GS_WAIVED)"
proof -
  have "s = GS_PASS \<or> s = GS_WAIVED \<longleftrightarrow> s \<notin> {GS_FAIL, GS_BLOCKED, GS_STALE, GS_PENDING}" for s by (cases s) auto
  then show ?thesis by (auto simp: blocking_state_def)
qed

lemma blocking_state_Some: "blocking_state ss = Some s \<Longrightarrow> s \<noteq> GS_PASS \<and> s \<noteq> GS_WAIVED"
  by (auto simp: blocking_state_def split: if_splits)

text \<open>The gates with an active waiver\<close>

definition waived :: "moment \<Rightarrow> approved_waiver list \<Rightarrow> string set" where
  "waived now ws = {aw_gate_id w |w. w \<in> set ws \<and> is_active now w = Inr True}"

lemma active_waivers_filter: "active_waivers now ws = Inr active \<Longrightarrow> active = filter (\<lambda>w. is_active now w = Inr True) ws"
  by (induction ws arbitrary: active) (auto simp: rbind_Inr_iff split: if_splits)

lemma dict_of_snoc: "dict_of (kvs @ [(k, v)]) = AList.update k v (dict_of kvs)"
  by (simp add: dict_of_def)

lemma dict_of_keys: "fst ` set (dict_of kvs) = fst ` set kvs"
proof (induction kvs rule: rev_induct)
  case (snoc kv kvs)
  then show ?case by (cases kv) (simp add: dict_of_snoc dom_update)
qed (simp add: dict_of_def)

lemma dict_of_subset: "set (dict_of kvs) \<subseteq> set kvs"
proof (induction kvs rule: rev_induct)
  case (snoc kv kvs)
  have "set (AList.update (fst kv) (snd kv) d) \<subseteq> insert kv (set d)" for d :: "(string \<times> 'a) list"
    by (induction d) auto
  with snoc show ?case by (cases kv) (fastforce simp: dict_of_snoc)
qed (simp add: dict_of_def)

lemma waivers_by_gate_keys: "active_waivers now ws = Inr active \<Longrightarrow> fst ` set (waivers_by_gate active) = waived now ws"
  by (drule active_waivers_filter) (auto simp: waivers_by_gate_def dict_of_keys waived_def image_iff)

lemma waivers_by_gate_waived:
  assumes "active_waivers now ws = Inr active"
  shows "waived now (map snd (waivers_by_gate active)) = waived now ws"
proof -
  have w: "aw_gate_id w = k \<and> w \<in> set active" if "(k, w) \<in> set (waivers_by_gate active)" for k w
    using that dict_of_subset [of "map (\<lambda>w. (aw_gate_id w, w)) active"] by (auto simp: waivers_by_gate_def)
  have "is_active now v = Inr True" if "(k, v) \<in> set (waivers_by_gate active)" for k v
    using w [OF that] active_waivers_filter [OF assms] by simp
  then have "waived now (map snd (waivers_by_gate active)) = (\<lambda>(k, v). aw_gate_id v) ` set (waivers_by_gate active)"
    by (force simp: waived_def image_iff)
  also have "\<dots> = fst ` set (waivers_by_gate active)" using w by (intro image_cong) auto
  finally have "waived now (map snd (waivers_by_gate active)) = fst ` set (waivers_by_gate active)" .
  with waivers_by_gate_keys [OF assms] show ?thesis by simp
qed

text \<open>The gates an evaluation depends on: it stops at a waived gate.\<close>

inductive depends_on :: "gate_graph \<Rightarrow> string set \<Rightarrow> string \<Rightarrow> string \<Rightarrow> bool" for g ws where
  depends_refl: "depends_on g ws i i"
| depends_step: "i \<notin> ws \<Longrightarrow> map_of g i = Some d \<Longrightarrow> c \<in> set (gd_children d) \<Longrightarrow> depends_on g ws c k \<Longrightarrow> depends_on g ws i k"

inductive_cases depends_onE: "depends_on g ws i k"

definition gate_justified :: "validation_env \<Rightarrow> gate_graph \<Rightarrow> ledger \<Rightarrow> evidence_binding \<Rightarrow> string set \<Rightarrow> string \<Rightarrow> bool" where
  "gate_justified env g l b ws k \<longleftrightarrow> (\<exists>d. map_of g k = Some d \<and>
     (if k \<in> ws then gd_waiver_allowed d else \<forall>r \<in> set (gd_evidence d). requirement_met env l b r))"

lemma evaluate_gate_ok:
  assumes "evaluate_gate (Suc n) g l b authority now ws i = Inr s" and "s = GS_PASS \<or> s = GS_WAIVED"
  obtains d active where "authority = CORE" and "map_of g i = Some d" and "active_waivers now ws = Inr active"
    and "if i \<in> waived now ws then gd_waiver_allowed d \<and> s = GS_WAIVED
      else s = GS_PASS \<and> (\<forall>r \<in> set (gd_evidence d). evaluate_requirement l b r = GS_PASS) \<and>
        (\<forall>c \<in> set (gd_children d). \<exists>t. (t = GS_PASS \<or> t = GS_WAIVED) \<and>
          evaluate_gate n g l b authority now (map snd (waivers_by_gate active)) c = Inr t)"
proof -
  from assms(1) obtain d active where d: "authority = CORE" "aware now" "map_of g i = Some d" "active_waivers now ws = Inr active"
    by (auto simp: rbind_Inr_iff split: option.splits)
  have w: "map_of (waivers_by_gate active) i \<noteq> None \<longleftrightarrow> i \<in> waived now ws"
    using waivers_by_gate_keys [OF d(4)] by (simp add: map_of_eq_None_iff)
  show thesis
  proof (cases "i \<in> waived now ws")
    case True
    with w d assms(1) show thesis by (intro that [OF d(1,3,4)]) (auto simp: rbind_Inr_iff Let_def)
  next
    case False
    then obtain ts where ts: "rmap (evaluate_gate n g l b authority now (map snd (waivers_by_gate active))) (gd_children d) = Inr ts"
        "blocking_state ts = None" "blocking_state (map (evaluate_requirement l b) (gd_evidence d)) = None" "s = GS_PASS"
      using assms w d by (auto simp: rbind_Inr_iff Let_def dest: blocking_state_Some split: option.splits)
    have "\<forall>c \<in> set (gd_children d). \<exists>t. (t = GS_PASS \<or> t = GS_WAIVED) \<and>
        evaluate_gate n g l b authority now (map snd (waivers_by_gate active)) c = Inr t"
      using rmap_image [OF ts(1)] ts(2) unfolding blocking_state_None by metis
    with False ts show thesis
      by (intro that [OF d(1,3,4)]) (auto simp: blocking_state_None evaluate_requirement_not_waived)
  qed
qed

lemma evaluation_justified:
  assumes "ledger_ok env l" and "evaluate_gate n g l b authority now ws i = Inr s" and "s = GS_PASS \<or> s = GS_WAIVED"
    and "depends_on g (waived now ws) i k"
  shows "gate_justified env g l b (waived now ws) k"
  using assms(2-)
proof (induction n arbitrary: ws i s)
  case (Suc n)
  obtain d active where d: "map_of g i = Some d" "active_waivers now ws = Inr active"
    and ok: "if i \<in> waived now ws then gd_waiver_allowed d \<and> s = GS_WAIVED
      else s = GS_PASS \<and> (\<forall>r \<in> set (gd_evidence d). evaluate_requirement l b r = GS_PASS) \<and>
        (\<forall>c \<in> set (gd_children d). \<exists>t. (t = GS_PASS \<or> t = GS_WAIVED) \<and>
          evaluate_gate n g l b authority now (map snd (waivers_by_gate active)) c = Inr t)"
    using Suc.prems(1,2) by (rule evaluate_gate_ok)
  note same = waivers_by_gate_waived [OF d(2)]
  from Suc.prems(3) consider "k = i"
    | d' c where "i \<notin> waived now ws" "map_of g i = Some d'" "c \<in> set (gd_children d')" "depends_on g (waived now ws) c k"
    by (auto elim: depends_onE)
  then show ?case
  proof cases
    case 1
    with d ok show ?thesis by (auto simp: gate_justified_def evaluate_requirement_pass [OF assms(1)] split: if_splits)
  next
    case 2
    with d ok obtain t where "t = GS_PASS \<or> t = GS_WAIVED" "evaluate_gate n g l b authority now (map snd (waivers_by_gate active)) c = Inr t"
      by auto
    then show ?thesis using Suc.IH [of "map snd (waivers_by_gate active)" c t] 2(4) unfolding same by blast
  qed
qed simp

text \<open>
  C10. A gate passes only on evidence. For a ledger opened over any journals and used in any way, if the evaluation of a gate answers PASS, the caller had CORE
  authority, and every gate it depends on either has an active waiver, and may be waived, or meets each of its requirements: at least the required
  number of passing entries with different identifiers, for the claim, by allowed and trusted validators, independent where demanded,
  bound to exactly the binding that was asked for, not invalidated and carrying the hash of their values, and no entry that counts says otherwise.
\<close>

theorem gate_pass_justified:
  assumes "open_canonical env trusted legacy lines = Inr l0" and "l = run_ledger env calls l0"
    and "evaluate_gate n g l b authority now ws i = Inr GS_PASS"
  shows "authority = CORE \<and> i \<notin> waived now ws \<and>
    (\<forall>k. depends_on g (waived now ws) i k \<longrightarrow> gate_justified env g l b (waived now ws) k)"
proof -
  have ok: "ledger_ok env l" using open_canonical_ok [OF assms(1)] run_ledger_ok assms(2) by blast
  obtain m where n: "n = Suc m" using assms(3) by (cases n) auto
  have "authority = CORE \<and> i \<notin> waived now ws"
    by (rule evaluate_gate_ok [OF assms(3) [unfolded n]]) (auto split: if_splits)
  with evaluation_justified [OF ok assms(3)] show ?thesis by blast
qed

section \<open>The evaluation of gates ends\<close>

lemma gate_graph_ranks:
  assumes "gate_graph_init gates = Inr g" and "map_of g i = Some d" and "c \<in> set (gd_children d)"
  shows "\<exists>child. map_of g c = Some child \<and> level_rank (gd_level d) = Suc (level_rank (gd_level child))"
proof -
  have g: "g = map (\<lambda>d. (gd_gate_id d, d)) gates" using assms(1) by (auto simp: gate_graph_init_def Let_def rbind_Inr_iff)
  then have "d \<in> set gates" using map_of_SomeD [OF assms(2)] by auto
  moreover obtain us where "rmap (\<lambda>d. rmap (\<lambda>c. case map_of g c of None \<Rightarrow> Inl ValidationError
      | Some child \<Rightarrow> require_valid (level_rank (gd_level d) = level_rank (gd_level child) + 1)) (gd_children d)) gates = Inr us"
    using assms(1) unfolding g by (auto simp: gate_graph_init_def Let_def rbind_Inr_iff)
  ultimately obtain vs where "rmap (\<lambda>c. case map_of g c of None \<Rightarrow> Inl ValidationError
      | Some child \<Rightarrow> require_valid (level_rank (gd_level d) = level_rank (gd_level child) + 1)) (gd_children d) = Inr vs"
    by (auto simp: rmap_Inr_iff list_all2_conv_all_nth in_set_conv_nth)
  with assms(3) show ?thesis
    by (fastforce simp: rmap_Inr_iff list_all2_conv_all_nth in_set_conv_nth split: option.splits)
qed

lemma level_rank_bound: "level_rank x < 4"
  by (cases x) auto

lemma active_waivers_no_recursion: "active_waivers now ws \<noteq> Inl RecursionError"
  by (induction ws) (auto simp: rbind_Inl_iff is_active_def earlier_def require_valid_def ensure_def split: option.splits if_splits)

lemma evaluation_depth:
  assumes "gate_graph_init gates = Inr g" and "\<And>d. map_of g i = Some d \<Longrightarrow> level_rank (gd_level d) < m" and "0 < m"
  shows "evaluate_gate (m + n) g l b authority now ws i = evaluate_gate m g l b authority now ws i \<and>
    evaluate_gate m g l b authority now ws i \<noteq> Inl RecursionError"
  using assms(2-)
proof (induction m arbitrary: ws i)
  case (Suc m)
  have child: "evaluate_gate (m + n) g l b authority now vs c = evaluate_gate m g l b authority now vs c"
      "evaluate_gate m g l b authority now vs c \<noteq> Inl RecursionError"
    if "map_of g i = Some d" "c \<in> set (gd_children d)" for d c vs
  proof -
    have "level_rank (gd_level k) < m" if "map_of g c = Some k" for k
      using gate_graph_ranks [OF assms(1) \<open>map_of g i = Some d\<close> \<open>c \<in> set (gd_children d)\<close>] Suc.prems(1) [OF \<open>map_of g i = Some d\<close>] that by auto
    moreover have "0 < m"
      using gate_graph_ranks [OF assms(1) \<open>map_of g i = Some d\<close> \<open>c \<in> set (gd_children d)\<close>] Suc.prems(1) [OF \<open>map_of g i = Some d\<close>] by auto
    ultimately show "evaluate_gate (m + n) g l b authority now vs c = evaluate_gate m g l b authority now vs c"
      "evaluate_gate m g l b authority now vs c \<noteq> Inl RecursionError" using Suc.IH by blast+
  qed
  then have "rmap (evaluate_gate (m + n) g l b authority now vs) (gd_children d) = rmap (evaluate_gate m g l b authority now vs) (gd_children d)"
      "rmap (evaluate_gate m g l b authority now vs) (gd_children d) \<noteq> Inl RecursionError" if "map_of g i = Some d" for d vs
    using that by (intro rmap_cong rmap_no_error; simp)+
  then show ?case
    using active_waivers_no_recursion [of now ws]
    by (cases "map_of g i") (auto simp: rbind_def Let_def require_valid_def ensure_def split: sum.splits option.splits)
qed simp

text \<open>
  C13. The evaluation of a gate always ends. In a graph that the constructor accepts every child is one level below its gate and there are four levels, so four
  nested calls answer for every gate, ledger and set of waivers: more depth changes nothing and the limit is never reached.
\<close>

theorem gate_evaluation_ends:
  assumes "gate_graph_init gates = Inr g"
  shows "evaluate_gate (4 + n) g l b authority now ws i = evaluate_gate 4 g l b authority now ws i \<and>
    evaluate_gate 4 g l b authority now ws i \<noteq> Inl RecursionError"
  by (rule evaluation_depth [OF assms]) (simp_all add: level_rank_bound)

section \<open>An example\<close>

text \<open>A text for a time from which it can be read back\<close>

definition demo_int :: "int \<Rightarrow> string" where
  "demo_int i = (if i < 0 then CHR ''-'' else CHR ''+'') # replicate (nat \<bar>i\<bar>) CHR ''1''"

definition demo_int_of :: "string \<Rightarrow> int" where
  "demo_int_of s = (if hd s = CHR ''-'' then - int (length (tl s)) else int (length (tl s)))"

definition demo_isoformat :: "moment \<Rightarrow> string" where
  "demo_isoformat t = demo_int (mo_instant t) @ CHR ''/'' # (case mo_offset t of None \<Rightarrow> [] | Some z \<Rightarrow> demo_int z)"

definition demo_fromisoformat :: "string \<Rightarrow> moment option" where
  "demo_fromisoformat s = (let r = tl (dropWhile (\<lambda>c. c \<noteq> CHR ''/'') s) in
     Some \<lparr>mo_instant = demo_int_of (takeWhile (\<lambda>c. c \<noteq> CHR ''/'') s), mo_offset = (if r = [] then None else Some (demo_int_of r))\<rparr>)"

definition demo_venv :: validation_env where
  "demo_venv = \<lparr>ve_sha = (\<lambda>j. replicate 64 CHR ''0''), ve_isoformat = demo_isoformat, ve_fromisoformat = demo_fromisoformat, ve_schema = (\<lambda>j. True)\<rparr>"

lemma demo_isoformat_inverse: "isoformat_inverse demo_venv"
proof -
  have i: "demo_int_of (demo_int i) = i" "demo_int i \<noteq> []" "\<forall>c \<in> set (demo_int i). c \<noteq> CHR ''/''" for i
    by (auto simp: demo_int_def demo_int_of_def)
  have "takeWhile (\<lambda>c. c \<noteq> CHR ''/'') (demo_int i @ CHR ''/'' # r) = demo_int i"
    "dropWhile (\<lambda>c. c \<noteq> CHR ''/'') (demo_int i @ CHR ''/'' # r) = CHR ''/'' # r" for i r
    using i(3) by (simp_all add: takeWhile_append2 dropWhile_append2)
  then show ?thesis
    by (auto simp: isoformat_inverse_def demo_venv_def demo_fromisoformat_def demo_isoformat_def i split: option.split)
qed

definition demo_binding :: evidence_binding where
  "demo_binding = \<lparr>eb_base_commit = ''c1'', eb_contract_hash = ''h1'', eb_project_model_fingerprints = [''f1'']\<rparr>"

definition demo_entry :: evidence_entry where
  "demo_entry = \<lparr>ee_evidence_id = ''EVD-1'', ee_validator_id = ''tests'', ee_validator_version = ''1'', ee_validator_kind = VK_DETERMINISTIC,
     ee_claim = ''builds'', ee_outcome = EO_PASS, ee_facts = [\<lparr>mf_name = ''exit_code'', mf_value = JInt 0\<rparr>], ee_binding = demo_binding, ee_output = ''ok'',
     ee_recorded_at = \<lparr>mo_instant = 5, mo_offset = Some 0\<rparr>, ee_producer_id = ''runner'', ee_independent_of_executor = True,
     ee_entry_hash = replicate 64 CHR ''0''\<rparr>"

definition demo_validators :: validators where
  "demo_validators = [(''tests'', ''1'')]"

definition demo_ledger :: ledger where
  "demo_ledger = empty_ledger demo_validators (Some [])"

lemma demo_opened: "open_canonical demo_venv demo_validators Legacy_Absent [] = Inr demo_ledger"
  by (simp add: open_canonical_def open_ledger_def load_journal_def demo_ledger_def empty_ledger_def)

lemma demo_valid: "validate_entry demo_venv demo_ledger demo_entry = Inr ()"
  by code_simp

lemma demo_appended: "lg_entries (run_ledger demo_venv [Append_Evidence demo_entry] demo_ledger) = [demo_entry]"
  by (simp add: append_evidence_def eff_defs demo_valid persist_def) (simp add: demo_ledger_def empty_ledger_def)

theorem ledger_reload_witness:
  "\<exists>new. open_canonical demo_venv demo_validators Legacy_Absent new = Inr (run_ledger demo_venv [Append_Evidence demo_entry] demo_ledger) \<and>
    lg_entries (run_ledger demo_venv [Append_Evidence demo_entry] demo_ledger) = [demo_entry]"
  using ledger_reload [OF demo_isoformat_inverse demo_opened, of "[Append_Evidence demo_entry]"] demo_appended by auto

definition demo_requirement :: evidence_requirement where
  "demo_requirement = \<lparr>er_claim = ''builds'', er_allowed_validator_ids = {''tests''}, er_allowed_kinds = {VK_DETERMINISTIC}, er_require_independent = True,
     er_minimum_passes = 1\<rparr>"

definition demo_gates :: "gate_definition list" where
  "demo_gates = [\<lparr>gd_gate_id = ''G-T'', gd_level = GL_TASK, gd_evidence = [demo_requirement], gd_children = [], gd_waiver_allowed = False\<rparr>,
     \<lparr>gd_gate_id = ''G-I'', gd_level = GL_INTEGRATION, gd_evidence = [demo_requirement], gd_children = [''G-T''], gd_waiver_allowed = True\<rparr>]"

definition demo_gate_graph :: gate_graph where
  "demo_gate_graph = map (\<lambda>d. (gd_gate_id d, d)) demo_gates"

definition demo_now :: moment where
  "demo_now = \<lparr>mo_instant = 9, mo_offset = Some 0\<rparr>"

lemma demo_graph_valid: "gate_graph_init demo_gates = Inr demo_gate_graph"
  by (simp add: gate_graph_init_def demo_gate_graph_def demo_gates_def require_valid_def)

lemma demo_requirement_passes:
  "evaluate_requirement (run_ledger demo_venv [Append_Evidence demo_entry] demo_ledger) demo_binding demo_requirement = GS_PASS"
proof -
  have "lg_invalidations (run_ledger demo_venv [Append_Evidence demo_entry] demo_ledger) = []"
    by (simp add: append_evidence_def eff_defs demo_valid persist_def) (simp add: demo_ledger_def empty_ledger_def)
  then show ?thesis
    unfolding evaluate_requirement_def demo_appended
    by (simp add: requirement_candidate_def demo_requirement_def demo_entry_def ledger_state_def)
qed

lemma demo_evaluated:
  "evaluate_gate 4 demo_gate_graph (run_ledger demo_venv [Append_Evidence demo_entry] demo_ledger) demo_binding CORE demo_now [] ''G-I'' = Inr GS_PASS"
proof -
  have "map_of demo_gate_graph ''G-I'' = Some (demo_gates ! 1)" "map_of demo_gate_graph ''G-T'' = Some (demo_gates ! 0)"
    "gd_children (demo_gates ! 1) = [''G-T'']" "gd_children (demo_gates ! 0) = []" "gd_evidence (demo_gates ! 1) = [demo_requirement]"
    "gd_evidence (demo_gates ! 0) = [demo_requirement]"
    by (simp_all add: demo_gate_graph_def demo_gates_def)
  then show ?thesis
    by (simp add: numeral_eq_Suc demo_now_def aware_def waivers_by_gate_def dict_of_def blocking_state_def demo_requirement_passes require_valid_def
      del: run_ledger.simps)
qed

theorem gate_pass_justified_witness:
  "gate_justified demo_venv demo_gate_graph (run_ledger demo_venv [Append_Evidence demo_entry] demo_ledger) demo_binding (waived demo_now []) ''G-T''"
proof -
  have "depends_on demo_gate_graph (waived demo_now []) ''G-I'' ''G-T''"
    by (rule depends_step [where d = "demo_gates ! 1" and c = "''G-T''"]) (simp_all add: waived_def demo_gate_graph_def demo_gates_def depends_refl)
  with gate_pass_justified [OF demo_opened refl demo_evaluated] show ?thesis by blast
qed

theorem gate_evaluation_ends_witness:
  "evaluate_gate 9 demo_gate_graph demo_ledger demo_binding CORE demo_now [] ''G-I'' = evaluate_gate 4 demo_gate_graph demo_ledger demo_binding CORE demo_now [] ''G-I''"
  using gate_evaluation_ends [OF demo_graph_valid, of 5 demo_ledger demo_binding CORE demo_now "[]" "''G-I''"] by simp

end
