(* ===== verification/Knowledge.thy ===== *)
theory Knowledge
  imports Validation Project_Model "HOL-Library.List_Lexorder" "HOL-Library.Char_ord"
begin

text \<open>
  Models \<open>src/artifex/knowledge/model.py\<close> (knowledge items, improvement proposals and candidate overlays with their JSON forms) and
  \<open>src/artifex/knowledge/evolution.py\<close> (promotion from scope to scope, and the preview of overlays over the Core configuration).

  A floating-point number is its mantissa and exponent. How a time is read from a text is a parameter of type \<open>string \<Rightarrow> moment option\<close>.
\<close>

section \<open>Enumerations\<close>

datatype knowledge_scope = SC_CORE | SC_PROFILE | SC_INSTANCE | SC_PROJECT | SC_RUN | SC_HARNESS

fun knowledge_scope_value :: "knowledge_scope \<Rightarrow> string" where
  "knowledge_scope_value SC_CORE = ''CORE''"
| "knowledge_scope_value SC_PROFILE = ''PROFILE''"
| "knowledge_scope_value SC_INSTANCE = ''INSTANCE''"
| "knowledge_scope_value SC_PROJECT = ''PROJECT''"
| "knowledge_scope_value SC_RUN = ''RUN''"
| "knowledge_scope_value SC_HARNESS = ''HARNESS''"

definition to_knowledge_scope :: "string \<Rightarrow> knowledge_scope res" where
  "to_knowledge_scope = member_of knowledge_scope_value [SC_CORE, SC_PROFILE, SC_INSTANCE, SC_PROJECT, SC_RUN, SC_HARNESS]"

lemma to_knowledge_scope_value [simp]: "to_knowledge_scope (knowledge_scope_value x) = Inr x"
  by (cases x) (simp_all add: to_knowledge_scope_def member_of_def)

datatype knowledge_kind = KK_FACT | KK_ASSUMPTION | KK_DECISION | KK_PREFERENCE | KK_LESSON | KK_PATTERN

fun knowledge_kind_value :: "knowledge_kind \<Rightarrow> string" where
  "knowledge_kind_value KK_FACT = ''FACT''"
| "knowledge_kind_value KK_ASSUMPTION = ''ASSUMPTION''"
| "knowledge_kind_value KK_DECISION = ''DECISION''"
| "knowledge_kind_value KK_PREFERENCE = ''PREFERENCE''"
| "knowledge_kind_value KK_LESSON = ''LESSON''"
| "knowledge_kind_value KK_PATTERN = ''PATTERN''"

definition to_knowledge_kind :: "string \<Rightarrow> knowledge_kind res" where
  "to_knowledge_kind = member_of knowledge_kind_value [KK_FACT, KK_ASSUMPTION, KK_DECISION, KK_PREFERENCE, KK_LESSON, KK_PATTERN]"

lemma to_knowledge_kind_value [simp]: "to_knowledge_kind (knowledge_kind_value x) = Inr x"
  by (cases x) (simp_all add: to_knowledge_kind_def member_of_def)

datatype sensitivity = SN_PUBLIC | SN_INTERNAL | SN_SENSITIVE | SN_RESTRICTED

fun sensitivity_value :: "sensitivity \<Rightarrow> string" where
  "sensitivity_value SN_PUBLIC = ''PUBLIC''"
| "sensitivity_value SN_INTERNAL = ''INTERNAL''"
| "sensitivity_value SN_SENSITIVE = ''SENSITIVE''"
| "sensitivity_value SN_RESTRICTED = ''RESTRICTED''"

definition to_sensitivity :: "string \<Rightarrow> sensitivity res" where
  "to_sensitivity = member_of sensitivity_value [SN_PUBLIC, SN_INTERNAL, SN_SENSITIVE, SN_RESTRICTED]"

lemma to_sensitivity_value [simp]: "to_sensitivity (sensitivity_value x) = Inr x"
  by (cases x) (simp_all add: to_sensitivity_def member_of_def)

fun sensitivity_rank :: "sensitivity \<Rightarrow> nat" where
  "sensitivity_rank SN_PUBLIC = 0"
| "sensitivity_rank SN_INTERNAL = 1"
| "sensitivity_rank SN_SENSITIVE = 2"
| "sensitivity_rank SN_RESTRICTED = 3"

datatype knowledge_state = KS_CURRENT | KS_STALE | KS_SUPERSEDED

fun knowledge_state_value :: "knowledge_state \<Rightarrow> string" where
  "knowledge_state_value KS_CURRENT = ''CURRENT''"
| "knowledge_state_value KS_STALE = ''STALE''"
| "knowledge_state_value KS_SUPERSEDED = ''SUPERSEDED''"

definition to_knowledge_state :: "string \<Rightarrow> knowledge_state res" where
  "to_knowledge_state = member_of knowledge_state_value [KS_CURRENT, KS_STALE, KS_SUPERSEDED]"

lemma to_knowledge_state_value [simp]: "to_knowledge_state (knowledge_state_value x) = Inr x"
  by (cases x) (simp_all add: to_knowledge_state_def member_of_def)

datatype revisit_kind = RK_ARTIFACT_CHANGED | RK_CORE_VERSION_CHANGED | RK_DATE_REACHED | RK_MANUAL

fun revisit_kind_value :: "revisit_kind \<Rightarrow> string" where
  "revisit_kind_value RK_ARTIFACT_CHANGED = ''ARTIFACT_CHANGED''"
| "revisit_kind_value RK_CORE_VERSION_CHANGED = ''CORE_VERSION_CHANGED''"
| "revisit_kind_value RK_DATE_REACHED = ''DATE_REACHED''"
| "revisit_kind_value RK_MANUAL = ''MANUAL''"

definition to_revisit_kind :: "string \<Rightarrow> revisit_kind res" where
  "to_revisit_kind = member_of revisit_kind_value [RK_ARTIFACT_CHANGED, RK_CORE_VERSION_CHANGED, RK_DATE_REACHED, RK_MANUAL]"

lemma to_revisit_kind_value [simp]: "to_revisit_kind (revisit_kind_value x) = Inr x"
  by (cases x) (simp_all add: to_revisit_kind_def member_of_def)

datatype overlay_validation_status = OV_PROPOSED | OV_PASSED | OV_FAILED

fun overlay_validation_status_value :: "overlay_validation_status \<Rightarrow> string" where
  "overlay_validation_status_value OV_PROPOSED = ''PROPOSED''"
| "overlay_validation_status_value OV_PASSED = ''PASSED''"
| "overlay_validation_status_value OV_FAILED = ''FAILED''"

definition to_overlay_validation_status :: "string \<Rightarrow> overlay_validation_status res" where
  "to_overlay_validation_status = member_of overlay_validation_status_value [OV_PROPOSED, OV_PASSED, OV_FAILED]"

lemma to_overlay_validation_status_value [simp]: "to_overlay_validation_status (overlay_validation_status_value x) = Inr x"
  by (cases x) (simp_all add: to_overlay_validation_status_def member_of_def)

datatype update_classification = UC_CARRY_FORWARD | UC_SUPERSEDED | UC_REVALIDATE | UC_CONFLICT

fun update_classification_value :: "update_classification \<Rightarrow> string" where
  "update_classification_value UC_CARRY_FORWARD = ''CARRY_FORWARD''"
| "update_classification_value UC_SUPERSEDED = ''SUPERSEDED''"
| "update_classification_value UC_REVALIDATE = ''REVALIDATE''"
| "update_classification_value UC_CONFLICT = ''CONFLICT''"

section \<open>Numbers, times and texts\<close>

text \<open>\<open>x < y\<close> on floating-point numbers, and the double nearest to 0.7\<close>

definition float_less :: "int \<times> int \<Rightarrow> int \<times> int \<Rightarrow> bool" where
  "float_less x y = (let k = min (snd x) (snd y) in fst x * 2 ^ nat (snd x - k) < fst y * 2 ^ nat (snd y - k))"

definition seven_tenths :: "int \<times> int" where
  "seven_tenths = (3152519739159347, - 52)"

definition parse_timestamp :: "(string \<Rightarrow> moment option) \<Rightarrow> string \<Rightarrow> moment res" where
  "parse_timestamp timeof s = (case timeof (zulu s) of None \<Rightarrow> Inl ValueError | Some t \<Rightarrow> rbind (require_value (aware t)) (\<lambda>_. Inr t))"

definition non_secret_text :: "string \<Rightarrow> unit res" where
  "non_secret_text s = rbind (require_value (\<not> blank s)) (\<lambda>_. require_value (scrub_secrets s = s))"

lemma rmap_fundef_cong [fundef_cong]: "xs = ys \<Longrightarrow> (\<And>x. x \<in> set ys \<Longrightarrow> f x = g x) \<Longrightarrow> rmap f xs = rmap g ys"
  using rmap_cong by blast

fun reject_secrets :: "json \<Rightarrow> unit res" where
  "reject_secrets (JStr s) = non_secret_text s"
| "reject_secrets (JObj kvs) = rbind (rmap (\<lambda>(k, j). rbind (non_secret_text k) (\<lambda>_. reject_secrets j)) kvs) (\<lambda>_. Inr ())"
| "reject_secrets (JArr xs) = rbind (rmap reject_secrets xs) (\<lambda>_. Inr ())"
| "reject_secrets j = Inr ()"

definition str_item :: "py_float \<Rightarrow> obj \<Rightarrow> string \<Rightarrow> string res" where
  "str_item py v k = rbind (item v k) (\<lambda>j. Inr (py_str py j))"

section \<open>Knowledge items\<close>

record knowledge_provenance =
  kv_source :: string
  kv_observed_at :: string
  kv_artifact :: "string option"
  kv_commit :: "string option"
  kv_integration :: "string option"
  kv_evidence_ids :: "string list"

definition given_text :: "string option \<Rightarrow> bool" where
  "given_text x \<longleftrightarrow> x \<noteq> None \<and> x \<noteq> Some []"

definition knowledge_provenance_init :: "(string \<Rightarrow> moment option) \<Rightarrow> knowledge_provenance \<Rightarrow> knowledge_provenance res" where
  "knowledge_provenance_init timeof p =
     rbind (non_secret_text (kv_source p)) (\<lambda>_.
     rbind (parse_timestamp timeof (kv_observed_at p)) (\<lambda>_.
     rbind (require_value (given_text (kv_artifact p) \<or> given_text (kv_commit p) \<or> given_text (kv_integration p) \<or> kv_evidence_ids p \<noteq> [])) (\<lambda>_.
     rbind (require_value (distinct (kv_evidence_ids p))) (\<lambda>_. Inr p))))"

definition knowledge_provenance_to_dict :: "knowledge_provenance \<Rightarrow> obj" where
  "knowledge_provenance_to_dict p =
     [(''source'', JStr (kv_source p)), (''observed_at'', JStr (kv_observed_at p)), (''artifact'', jopt JStr (kv_artifact p)),
      (''commit'', jopt JStr (kv_commit p)), (''integration'', jopt JStr (kv_integration p)), (''evidence_ids'', jstrs (kv_evidence_ids p))]"

definition knowledge_provenance_from_dict :: "py_float \<Rightarrow> (string \<Rightarrow> moment option) \<Rightarrow> obj \<Rightarrow> knowledge_provenance res" where
  "knowledge_provenance_from_dict py timeof v =
     rbind (str_item py v ''source'') (\<lambda>s.
     rbind (str_item py v ''observed_at'') (\<lambda>at.
     rbind (optional_string (item_or v ''artifact'' JNull)) (\<lambda>a.
     rbind (optional_string (item_or v ''commit'' JNull)) (\<lambda>c.
     rbind (optional_string (item_or v ''integration'' JNull)) (\<lambda>i.
     rbind (string_sequence (item_or v ''evidence_ids'' (JArr []))) (\<lambda>es.
     knowledge_provenance_init timeof \<lparr>kv_source = s, kv_observed_at = at, kv_artifact = a, kv_commit = c, kv_integration = i,
       kv_evidence_ids = es\<rparr>))))))"

record verified_against =
  vg_artifact :: string
  vg_fingerprint :: string
  vg_verified_at :: string

definition verified_against_init :: "(string \<Rightarrow> moment option) \<Rightarrow> verified_against \<Rightarrow> verified_against res" where
  "verified_against_init timeof g =
     rbind (non_secret_text (vg_artifact g)) (\<lambda>_.
     rbind (require_value (sha256_hex (vg_fingerprint g))) (\<lambda>_.
     rbind (parse_timestamp timeof (vg_verified_at g)) (\<lambda>_. Inr g)))"

definition verified_against_to_dict :: "verified_against \<Rightarrow> obj" where
  "verified_against_to_dict g =
     [(''artifact'', JStr (vg_artifact g)), (''fingerprint'', JStr (vg_fingerprint g)), (''verified_at'', JStr (vg_verified_at g))]"

definition verified_against_from_dict :: "py_float \<Rightarrow> (string \<Rightarrow> moment option) \<Rightarrow> obj \<Rightarrow> verified_against res" where
  "verified_against_from_dict py timeof v =
     rbind (str_item py v ''artifact'') (\<lambda>a.
     rbind (str_item py v ''fingerprint'') (\<lambda>f.
     rbind (str_item py v ''verified_at'') (\<lambda>at.
     verified_against_init timeof \<lparr>vg_artifact = a, vg_fingerprint = f, vg_verified_at = at\<rparr>)))"

record revisit_trigger =
  rv_kind :: revisit_kind
  rv_value :: string

definition revisit_trigger_init :: "(string \<Rightarrow> moment option) \<Rightarrow> revisit_trigger \<Rightarrow> revisit_trigger res" where
  "revisit_trigger_init timeof t =
     rbind (non_secret_text (rv_value t)) (\<lambda>_.
     if rv_kind t = RK_DATE_REACHED then rbind (parse_timestamp timeof (rv_value t)) (\<lambda>_. Inr t) else Inr t)"

definition revisit_trigger_to_dict :: "revisit_trigger \<Rightarrow> obj" where
  "revisit_trigger_to_dict t = [(''kind'', JStr (revisit_kind_value (rv_kind t))), (''value'', JStr (rv_value t))]"

definition revisit_trigger_from_dict :: "py_float \<Rightarrow> (string \<Rightarrow> moment option) \<Rightarrow> obj \<Rightarrow> revisit_trigger res" where
  "revisit_trigger_from_dict py timeof v =
     rbind (rbind (str_item py v ''kind'') to_revisit_kind) (\<lambda>k.
     rbind (str_item py v ''value'') (\<lambda>s.
     revisit_trigger_init timeof \<lparr>rv_kind = k, rv_value = s\<rparr>))"

record promotion_policy =
  pp_allowed_targets :: "knowledge_scope set"
  pp_minimum_confidence :: "int \<times> int"
  pp_minimum_evidence :: int
  pp_maximum_sensitivity :: sensitivity
  pp_require_validation :: bool

definition promotion_policy_init :: "promotion_policy \<Rightarrow> promotion_policy res" where
  "promotion_policy_init p =
     rbind (require_value (unit_interval (pp_minimum_confidence p))) (\<lambda>_.
     rbind (require_value (\<not> pp_minimum_evidence p < 1)) (\<lambda>_.
     rbind (require_value (pp_allowed_targets p \<subseteq> {SC_PROJECT, SC_INSTANCE})) (\<lambda>_. Inr p)))"

definition promotion_policy_to_dict :: "promotion_policy \<Rightarrow> obj" where
  "promotion_policy_to_dict p =
     [(''allowed_targets'', jstrs (sorted_list_of_set (knowledge_scope_value ` pp_allowed_targets p))),
      (''minimum_confidence'', (case pp_minimum_confidence p of (m, e) \<Rightarrow> JFloat m e)), (''minimum_evidence'', JInt (pp_minimum_evidence p)),
      (''maximum_sensitivity'', JStr (sensitivity_value (pp_maximum_sensitivity p))), (''require_validation'', JBool (pp_require_validation p))]"

definition promotion_policy_from_dict :: "py_float \<Rightarrow> obj \<Rightarrow> promotion_policy res" where
  "promotion_policy_from_dict py v =
     rbind (string_sequence (item_or v ''allowed_targets'' (JArr []))) (\<lambda>ts.
     rbind (rmap to_knowledge_scope ts) (\<lambda>targets.
     rbind (to_float py (item_or v ''minimum_confidence'' (case seven_tenths of (m, e) \<Rightarrow> JFloat m e))) (\<lambda>c.
     rbind (py_int (item_or v ''minimum_evidence'' (JInt 1))) (\<lambda>n.
     rbind (to_sensitivity (py_str py (item_or v ''maximum_sensitivity'' (JStr ''SENSITIVE'')))) (\<lambda>s.
     promotion_policy_init \<lparr>pp_allowed_targets = set targets, pp_minimum_confidence = c, pp_minimum_evidence = n, pp_maximum_sensitivity = s,
       pp_require_validation = py_bool (item_or v ''require_validation'' (JBool True))\<rparr>)))))"

record knowledge_item =
  ki_id :: string
  ki_scope :: knowledge_scope
  ki_kind :: knowledge_kind
  ki_statement :: string
  ki_provenance :: "knowledge_provenance list"
  ki_confidence :: "int \<times> int"
  ki_sensitivity :: sensitivity
  ki_promotion_policy :: promotion_policy
  ki_verified_against :: "verified_against list"
  ki_revisit_triggers :: "revisit_trigger list"
  ki_state :: knowledge_state
  ki_project_id :: "string option"
  ki_run_id :: "string option"
  ki_promoted_from :: "knowledge_scope option"

definition knowledge_item_init :: "knowledge_item \<Rightarrow> knowledge_item res" where
  "knowledge_item_init i =
     rbind (require_value (\<not> (ki_kind i = KK_LESSON \<and> \<not> prefix ''LES-'' (ki_id i)))) (\<lambda>_.
     rbind (non_secret_text (ki_statement i)) (\<lambda>_.
     rbind (require_value (ki_provenance i \<noteq> [])) (\<lambda>_.
     rbind (require_value (unit_interval (ki_confidence i))) (\<lambda>_.
     rbind (require_value (\<not> (ki_scope i = SC_PROJECT \<and> \<not> given_text (ki_project_id i)))) (\<lambda>_.
     rbind (require_value (\<not> (ki_scope i = SC_RUN \<and> \<not> given_text (ki_run_id i)))) (\<lambda>_. Inr i))))))"

definition knowledge_item_to_dict :: "knowledge_item \<Rightarrow> obj" where
  "knowledge_item_to_dict i =
     [(''id'', JStr (ki_id i)), (''scope'', JStr (knowledge_scope_value (ki_scope i))), (''kind'', JStr (knowledge_kind_value (ki_kind i))),
      (''statement'', JStr (ki_statement i)), (''provenance'', JArr (map (\<lambda>x. JObj (knowledge_provenance_to_dict x)) (ki_provenance i))),
      (''confidence'', (case ki_confidence i of (m, e) \<Rightarrow> JFloat m e)), (''sensitivity'', JStr (sensitivity_value (ki_sensitivity i))),
      (''promotion_policy'', JObj (promotion_policy_to_dict (ki_promotion_policy i))),
      (''verified_against'', JArr (map (\<lambda>x. JObj (verified_against_to_dict x)) (ki_verified_against i))),
      (''revisit_triggers'', JArr (map (\<lambda>x. JObj (revisit_trigger_to_dict x)) (ki_revisit_triggers i))),
      (''state'', JStr (knowledge_state_value (ki_state i))), (''project_id'', jopt JStr (ki_project_id i)), (''run_id'', jopt JStr (ki_run_id i)),
      (''promoted_from'', jopt (\<lambda>s. JStr (knowledge_scope_value s)) (ki_promoted_from i))]"

definition knowledge_item_from_dict :: "py_float \<Rightarrow> (string \<Rightarrow> moment option) \<Rightarrow> obj \<Rightarrow> knowledge_item res" where
  "knowledge_item_from_dict py timeof v =
     rbind (rbind (str_item py v ''id'') stable_id) (\<lambda>i.
     rbind (rbind (str_item py v ''scope'') to_knowledge_scope) (\<lambda>scope.
     rbind (rbind (str_item py v ''kind'') to_knowledge_kind) (\<lambda>kind.
     rbind (str_item py v ''statement'') (\<lambda>statement.
     rbind (rbind (mapping_sequence (item_or v ''provenance'' (JArr []))) (rmap (knowledge_provenance_from_dict py timeof))) (\<lambda>ps.
     rbind (rbind (item v ''confidence'') (to_float py)) (\<lambda>c.
     rbind (rbind (str_item py v ''sensitivity'') to_sensitivity) (\<lambda>s.
     rbind (rbind (mapping_of (item_or v ''promotion_policy'' JNull)) (promotion_policy_from_dict py)) (\<lambda>policy.
     rbind (rbind (mapping_sequence (item_or v ''verified_against'' (JArr []))) (rmap (verified_against_from_dict py timeof))) (\<lambda>gs.
     rbind (rbind (mapping_sequence (item_or v ''revisit_triggers'' (JArr []))) (rmap (revisit_trigger_from_dict py timeof))) (\<lambda>ts.
     rbind (to_knowledge_state (py_str py (item_or v ''state'' (JStr ''CURRENT'')))) (\<lambda>st.
     rbind (optional_string (item_or v ''project_id'' JNull)) (\<lambda>pid.
     rbind (optional_string (item_or v ''run_id'' JNull)) (\<lambda>rid.
     rbind (case item_or v ''promoted_from'' JNull of JNull \<Rightarrow> Inr None | j \<Rightarrow> rbind (to_knowledge_scope (py_str py j)) (\<lambda>x. Inr (Some x))) (\<lambda>pf.
     knowledge_item_init \<lparr>ki_id = i, ki_scope = scope, ki_kind = kind, ki_statement = statement, ki_provenance = ps, ki_confidence = c,
       ki_sensitivity = s, ki_promotion_policy = policy, ki_verified_against = gs, ki_revisit_triggers = ts, ki_state = st,
       ki_project_id = pid, ki_run_id = rid, ki_promoted_from = pf\<rparr>))))))))))))))"

text \<open>Whether a trigger fires; comparing an aware time with a naive one raises \<open>TypeError\<close>.\<close>

definition trigger_fires :: "(string \<Rightarrow> moment option) \<Rightarrow> string set \<Rightarrow> string option \<Rightarrow> moment \<Rightarrow> string set \<Rightarrow> revisit_trigger \<Rightarrow> bool res" where
  "trigger_fires timeof changed core now manual t = (case rv_kind t of
     RK_ARTIFACT_CHANGED \<Rightarrow> Inr (rv_value t \<in> changed)
   | RK_CORE_VERSION_CHANGED \<Rightarrow> Inr (core \<noteq> None \<and> core \<noteq> Some (rv_value t))
   | RK_DATE_REACHED \<Rightarrow> rbind (parse_timestamp timeof (rv_value t)) (\<lambda>at. rbind (ensure (aware now) TypeError) (\<lambda>_. Inr (mo_instant at \<le> mo_instant now)))
   | RK_MANUAL \<Rightarrow> Inr (rv_value t \<in> manual))"

fun any_fires :: "(revisit_trigger \<Rightarrow> bool res) \<Rightarrow> revisit_trigger list \<Rightarrow> bool res" where
  "any_fires f [] = Inr False"
| "any_fires f (t # ts) = rbind (f t) (\<lambda>b. if b then Inr True else any_fires f ts)"

definition revisit :: "(string \<Rightarrow> moment option) \<Rightarrow> string set \<Rightarrow> string option \<Rightarrow> moment \<Rightarrow> string set \<Rightarrow> knowledge_item \<Rightarrow> knowledge_item res" where
  "revisit timeof changed core now manual i =
     rbind (any_fires (trigger_fires timeof changed core now manual) (ki_revisit_triggers i)) (\<lambda>fired.
     if fired then knowledge_item_init (i\<lparr>ki_state := KS_STALE\<rparr>) else Inr i)"

section \<open>Improvement proposals and overlays\<close>

record improvement_proposal =
  ip_id :: string
  ip_title :: string
  ip_lesson_ids :: "string list"
  ip_target :: string
  ip_reason :: string
  ip_expected_benefit :: string
  ip_evidence :: "string list"
  ip_requested_privileges :: "string set"

definition improvement_proposal_init :: "improvement_proposal \<Rightarrow> improvement_proposal res" where
  "improvement_proposal_init p =
     rbind (require_value (prefix ''IMP-'' (ip_id p))) (\<lambda>_.
     rbind (rmap non_secret_text [ip_title p, ip_target p, ip_reason p, ip_expected_benefit p]) (\<lambda>_.
     rbind (require_value (ip_lesson_ids p \<noteq> [] \<and> ip_evidence p \<noteq> [])) (\<lambda>_. Inr p)))"

definition improvement_proposal_to_dict :: "improvement_proposal \<Rightarrow> obj" where
  "improvement_proposal_to_dict p =
     [(''id'', JStr (ip_id p)), (''title'', JStr (ip_title p)), (''lesson_ids'', jstrs (ip_lesson_ids p)), (''target'', JStr (ip_target p)),
      (''reason'', JStr (ip_reason p)), (''expected_benefit'', JStr (ip_expected_benefit p)), (''evidence'', jstrs (ip_evidence p)),
      (''requested_privileges'', jstrs (sorted_list_of_set (ip_requested_privileges p)))]"

definition improvement_proposal_from_dict :: "py_float \<Rightarrow> obj \<Rightarrow> improvement_proposal res" where
  "improvement_proposal_from_dict py v =
     rbind (rbind (str_item py v ''id'') stable_id) (\<lambda>i.
     rbind (str_item py v ''title'') (\<lambda>title.
     rbind (rbind (rbind (item v ''lesson_ids'') string_sequence) (rmap stable_id)) (\<lambda>ls.
     rbind (str_item py v ''target'') (\<lambda>target.
     rbind (str_item py v ''reason'') (\<lambda>why.
     rbind (str_item py v ''expected_benefit'') (\<lambda>benefit.
     rbind (rbind (item v ''evidence'') string_sequence) (\<lambda>es.
     rbind (string_sequence (item_or v ''requested_privileges'' (JArr []))) (\<lambda>rs.
     improvement_proposal_init \<lparr>ip_id = i, ip_title = title, ip_lesson_ids = ls, ip_target = target, ip_reason = why,
       ip_expected_benefit = benefit, ip_evidence = es, ip_requested_privileges = set rs\<rparr>))))))))"

record candidate_overlay =
  ov_id :: string
  ov_proposal_id :: string
  ov_origin_core_version :: string
  ov_reason :: string
  ov_evidence :: "string list"
  ov_target :: string
  ov_expected_benefit :: string
  ov_compatibility :: string
  ov_validation_status :: overlay_validation_status
  ov_changes :: obj
  ov_requested_privileges :: "string set"

definition candidate_overlay_init :: "candidate_overlay \<Rightarrow> candidate_overlay res" where
  "candidate_overlay_init x =
     rbind (rmap non_secret_text [ov_id x, ov_origin_core_version x, ov_reason x, ov_target x, ov_expected_benefit x, ov_compatibility x]) (\<lambda>_.
     rbind (require_value (ov_evidence x \<noteq> [])) (\<lambda>_.
     rbind (require_value (prefix ''IMP-'' (ov_proposal_id x))) (\<lambda>_.
     rbind (reject_secrets (JObj (ov_changes x))) (\<lambda>_. Inr x))))"

definition candidate_overlay_to_dict :: "candidate_overlay \<Rightarrow> obj" where
  "candidate_overlay_to_dict x =
     [(''id'', JStr (ov_id x)), (''proposal_id'', JStr (ov_proposal_id x)), (''origin_core_version'', JStr (ov_origin_core_version x)),
      (''reason'', JStr (ov_reason x)), (''evidence'', jstrs (ov_evidence x)), (''target'', JStr (ov_target x)),
      (''expected_benefit'', JStr (ov_expected_benefit x)), (''compatibility'', JStr (ov_compatibility x)),
      (''validation_status'', JStr (overlay_validation_status_value (ov_validation_status x))), (''changes'', JObj (ov_changes x)),
      (''requested_privileges'', jstrs (sorted_list_of_set (ov_requested_privileges x)))]"

definition candidate_overlay_from_dict :: "py_float \<Rightarrow> obj \<Rightarrow> candidate_overlay res" where
  "candidate_overlay_from_dict py v =
     rbind (str_item py v ''id'') (\<lambda>i.
     rbind (rbind (str_item py v ''proposal_id'') stable_id) (\<lambda>p.
     rbind (str_item py v ''origin_core_version'') (\<lambda>core.
     rbind (str_item py v ''reason'') (\<lambda>why.
     rbind (rbind (item v ''evidence'') string_sequence) (\<lambda>es.
     rbind (str_item py v ''target'') (\<lambda>target.
     rbind (str_item py v ''expected_benefit'') (\<lambda>benefit.
     rbind (str_item py v ''compatibility'') (\<lambda>compat.
     rbind (rbind (str_item py v ''validation_status'') to_overlay_validation_status) (\<lambda>st.
     rbind (mapping_of (item_or v ''changes'' JNull)) (\<lambda>changes.
     rbind (string_sequence (item_or v ''requested_privileges'' (JArr []))) (\<lambda>rs.
     candidate_overlay_init \<lparr>ov_id = i, ov_proposal_id = p, ov_origin_core_version = core, ov_reason = why, ov_evidence = es, ov_target = target,
       ov_expected_benefit = benefit, ov_compatibility = compat, ov_validation_status = st, ov_changes = changes,
       ov_requested_privileges = set rs\<rparr>)))))))))))"

record overlay_update_assessment =
  oa_overlay_id :: string
  oa_from_core_version :: string
  oa_to_core_version :: string
  oa_classification :: update_classification
  oa_reason :: string

definition overlay_update_assessment_init :: "overlay_update_assessment \<Rightarrow> overlay_update_assessment res" where
  "overlay_update_assessment_init a =
     rbind (rmap non_secret_text [oa_overlay_id a, oa_from_core_version a, oa_to_core_version a, oa_reason a]) (\<lambda>_. Inr a)"

definition overlay_update_assessment_to_dict :: "overlay_update_assessment \<Rightarrow> obj" where
  "overlay_update_assessment_to_dict a =
     [(''overlay_id'', JStr (oa_overlay_id a)), (''from_core_version'', JStr (oa_from_core_version a)),
      (''to_core_version'', JStr (oa_to_core_version a)), (''classification'', JStr (update_classification_value (oa_classification a))),
      (''reason'', JStr (oa_reason a))]"

section \<open>Promotion\<close>

fun adjacent_scope :: "knowledge_scope \<Rightarrow> knowledge_scope option" where
  "adjacent_scope SC_RUN = Some SC_PROJECT"
| "adjacent_scope SC_HARNESS = Some SC_PROJECT"
| "adjacent_scope SC_PROJECT = Some SC_INSTANCE"
| "adjacent_scope s = None"

definition require_promotable :: "bool \<Rightarrow> unit res" where
  "require_promotable c = ensure c PromotionDeniedError"

text \<open>\<open>project_id or item.project_id\<close>\<close>

definition chosen_project :: "string option \<Rightarrow> knowledge_item \<Rightarrow> string option" where
  "chosen_project pid i = (if given_text pid then pid else ki_project_id i)"

definition promote_knowledge :: "knowledge_item \<Rightarrow> knowledge_scope \<Rightarrow> string list \<Rightarrow> bool \<Rightarrow> string option \<Rightarrow> knowledge_item res" where
  "promote_knowledge i target evidence independently_validated pid =
     (let policy = ki_promotion_policy i in
      rbind (require_promotable (adjacent_scope (ki_scope i) = Some target)) (\<lambda>_.
      rbind (require_promotable (target \<in> pp_allowed_targets policy)) (\<lambda>_.
      rbind (require_promotable (ki_state i = KS_CURRENT)) (\<lambda>_.
      rbind (require_promotable (\<not> float_less (ki_confidence i) (pp_minimum_confidence policy))) (\<lambda>_.
      rbind (require_promotable (\<not> int (card (set evidence)) < max (pp_minimum_evidence policy) (if target = SC_INSTANCE then 2 else 1))) (\<lambda>_.
      rbind (require_promotable (\<not> (pp_require_validation policy \<and> \<not> independently_validated))) (\<lambda>_.
      rbind (require_promotable (\<not> sensitivity_rank (ki_sensitivity i) > sensitivity_rank (pp_maximum_sensitivity policy))) (\<lambda>_.
      rbind (require_promotable (ki_sensitivity i \<noteq> SN_RESTRICTED)) (\<lambda>_.
      rbind (require_promotable (\<not> (target = SC_PROJECT \<and> \<not> given_text (chosen_project pid i)))) (\<lambda>_.
      knowledge_item_init (i\<lparr>ki_scope := target, ki_project_id := (if target = SC_PROJECT then chosen_project pid i else None), ki_run_id := None,
        ki_promoted_from := Some (ki_scope i)\<rparr>)))))))))))"

section \<open>Overlays over the Core configuration\<close>

fun merge_changes :: "string \<Rightarrow> obj \<Rightarrow> obj \<Rightarrow> (obj \<times> string list) res" where
  "merge_changes pre target [] = Inr (target, [])"
| "merge_changes pre target ((k, j) # changes) =
     rbind (require_value (k \<noteq> [])) (\<lambda>_.
     let path = (if pre \<noteq> [] then pre @ ''.'' @ k else k) in
     rbind (case (map_of target k, j) of
         (Some (JObj inner), JObj kvs) \<Rightarrow> rbind (merge_changes path inner kvs) (\<lambda>(merged, paths). Inr (JObj merged, paths))
       | _ \<Rightarrow> Inr (j, [path])) (\<lambda>(value, paths).
     rbind (merge_changes pre (AList.update k value target) changes) (\<lambda>(result, others). Inr (result, paths @ others))))"

record divergence_report =
  dg_effective_configuration :: obj
  dg_overlay_ids :: "string list"
  dg_changed_paths :: "string list"
  dg_core_unchanged :: bool

definition divergence_report_to_dict :: "divergence_report \<Rightarrow> obj" where
  "divergence_report_to_dict r =
     [(''effective_configuration'', JObj (dg_effective_configuration r)), (''overlay_ids'', jstrs (dg_overlay_ids r)),
      (''changed_paths'', jstrs (dg_changed_paths r)), (''core_unchanged'', JBool (dg_core_unchanged r))]"

fun apply_overlays :: "privilege_policy \<Rightarrow> string list \<Rightarrow> candidate_overlay list \<Rightarrow> obj \<Rightarrow> (obj \<times> string list) res" where
  "apply_overlays policy seen [] effective = Inr (effective, [])"
| "apply_overlays policy seen (x # xs) effective =
     rbind (require_value (ov_id x \<notin> set seen)) (\<lambda>_.
     rbind (require_value (ov_validation_status x = OV_PASSED)) (\<lambda>_.
     rbind (ensure (permits_overlay policy (ov_requested_privileges x)) OverlayPrivilegeError) (\<lambda>_.
     rbind (merge_changes [] effective (ov_changes x)) (\<lambda>(merged, paths).
     rbind (apply_overlays policy (ov_id x # seen) xs merged) (\<lambda>(result, others). Inr (result, paths @ others))))))"

text \<open>The supplied configuration is copied before it is changed, so it is never changed itself.\<close>

definition inspect_divergence :: "obj \<Rightarrow> candidate_overlay list \<Rightarrow> privilege_policy option \<Rightarrow> divergence_report res" where
  "inspect_divergence core overlays policy = (case policy of None \<Rightarrow> Inl OverlayPrivilegeError
   | Some p \<Rightarrow> rbind (apply_overlays p [] overlays core) (\<lambda>(effective, paths).
       Inr \<lparr>dg_effective_configuration = effective, dg_overlay_ids = map ov_id overlays,
         dg_changed_paths = sorted_list_of_set (set paths), dg_core_unchanged = True\<rparr>))"

end
