(* ===== verification/Knowledge_Properties.thy ===== *)
theory Knowledge_Properties
  imports Knowledge
begin

text \<open>
  What promotion can make of a knowledge item over any number of calls, that decoded items and overlays survive encoding, and that the report
  of an overlay preview names every place where the effective configuration differs from the Core one.
\<close>

section \<open>Promotion\<close>

lemma promote_knowledge_Inr:
  assumes "promote_knowledge i target evidence validated pid = Inr j"
  shows "adjacent_scope (ki_scope i) = Some target" "target \<in> pp_allowed_targets (ki_promotion_policy i)" "ki_state i = KS_CURRENT"
    "\<not> float_less (ki_confidence i) (pp_minimum_confidence (ki_promotion_policy i))"
    "pp_minimum_evidence (ki_promotion_policy i) \<le> int (card (set evidence))" "target = SC_INSTANCE \<longrightarrow> 2 \<le> card (set evidence)"
    "pp_require_validation (ki_promotion_policy i) \<longrightarrow> validated"
    "sensitivity_rank (ki_sensitivity i) \<le> sensitivity_rank (pp_maximum_sensitivity (ki_promotion_policy i))" "ki_sensitivity i \<noteq> SN_RESTRICTED"
    "j = i\<lparr>ki_scope := target, ki_project_id := (if target = SC_PROJECT then chosen_project pid i else None), ki_run_id := None,
           ki_promoted_from := Some (ki_scope i)\<rparr>"
    "knowledge_item_init j = Inr j"
proof -
  let ?j = "i\<lparr>ki_scope := target, ki_project_id := (if target = SC_PROJECT then chosen_project pid i else None), ki_run_id := None,
           ki_promoted_from := Some (ki_scope i)\<rparr>"
  have init: "knowledge_item_init ?j = Inr j"
    using assms by (auto simp: promote_knowledge_def Let_def rbind_Inr_iff)
  then show "j = ?j" by (auto simp: knowledge_item_init_def rbind_Inr_iff)
  with init show "knowledge_item_init j = Inr j" by simp
qed (use assms in \<open>auto simp: promote_knowledge_def Let_def rbind_Inr_iff require_promotable_def split: if_splits\<close>)

lemma promotion_evidence:
  assumes "promote_knowledge i target evidence validated pid = Inr j"
  shows "(if target = SC_INSTANCE then 2 else 1) \<le> card (set evidence)"
  using assms by (auto simp: promote_knowledge_def Let_def rbind_Inr_iff require_promotable_def split: if_splits)

text \<open>
  What a sequence of promotions makes of an item. A promotion is given by its target, the evidence presented for it and whether it was validated
  independently.
\<close>

type_synonym promotion = "knowledge_scope \<times> string list \<times> bool"

inductive promoted :: "promotion list \<Rightarrow> knowledge_item \<Rightarrow> knowledge_item \<Rightarrow> bool" where
  promoted_none: "promoted [] i i"
| promoted_once: "promoted ps i j \<Longrightarrow> promote_knowledge j target evidence validated pid = Inr k \<Longrightarrow> promoted (ps @ [(target, evidence, validated)]) i k"

text \<open>What the policy of the item asks of a promotion, with the evidence that INSTANCE scope asks of every item\<close>

definition within_policy :: "knowledge_item \<Rightarrow> promotion \<Rightarrow> bool" where
  "within_policy i = (\<lambda>(target, evidence, validated). target \<in> pp_allowed_targets (ki_promotion_policy i) \<and>
     pp_minimum_evidence (ki_promotion_policy i) \<le> int (card (set evidence)) \<and> (if target = SC_INSTANCE then 2 else 1) \<le> card (set evidence) \<and>
     (pp_require_validation (ki_promotion_policy i) \<longrightarrow> validated) \<and>
     \<not> float_less (ki_confidence i) (pp_minimum_confidence (ki_promotion_policy i)) \<and>
     sensitivity_rank (ki_sensitivity i) \<le> sensitivity_rank (pp_maximum_sensitivity (ki_promotion_policy i)) \<and>
     ki_sensitivity i \<noteq> SN_RESTRICTED \<and> ki_state i = KS_CURRENT)"

definition same_knowledge :: "knowledge_item \<Rightarrow> knowledge_item \<Rightarrow> bool" where
  "same_knowledge i j \<longleftrightarrow> ki_id j = ki_id i \<and> ki_kind j = ki_kind i \<and> ki_statement j = ki_statement i \<and> ki_provenance j = ki_provenance i \<and>
     ki_confidence j = ki_confidence i \<and> ki_sensitivity j = ki_sensitivity i \<and> ki_promotion_policy j = ki_promotion_policy i \<and>
     ki_verified_against j = ki_verified_against i \<and> ki_revisit_triggers j = ki_revisit_triggers i \<and> ki_state j = ki_state i"

definition soundly_promoted :: "promotion list \<Rightarrow> knowledge_item \<Rightarrow> bool" where
  "soundly_promoted ps j \<longleftrightarrow> map fst ps \<in> {[SC_PROJECT], [SC_INSTANCE], [SC_PROJECT, SC_INSTANCE]} \<and> ki_scope j = fst (last ps) \<and>
     list_all (within_policy j) ps \<and> ki_run_id j = None \<and>
     (ki_scope j = SC_INSTANCE \<longrightarrow> ki_project_id j = None \<and> ki_promoted_from j = Some SC_PROJECT) \<and>
     (ki_scope j = SC_PROJECT \<longrightarrow> ki_promoted_from j \<in> {Some SC_RUN, Some SC_HARNESS}) \<and> knowledge_item_init j = Inr j"

lemma adjacent_scope_Some: "adjacent_scope s = Some t \<Longrightarrow> (s \<in> {SC_RUN, SC_HARNESS} \<and> t = SC_PROJECT) \<or> (s = SC_PROJECT \<and> t = SC_INSTANCE)"
  by (cases s) simp_all

lemma within_policy_same: "same_knowledge i j \<Longrightarrow> within_policy j = within_policy i"
  by (simp add: within_policy_def same_knowledge_def)

lemma promote_within_policy:
  assumes "promote_knowledge i target evidence validated pid = Inr j"
  shows "within_policy i (target, evidence, validated)"
  using promote_knowledge_Inr [OF assms] promotion_evidence [OF assms] by (simp add: within_policy_def)

lemma promoted_soundly:
  assumes "promoted ps i j"
  shows "same_knowledge i j \<and> (ps = [] \<longrightarrow> j = i) \<and> (ps \<noteq> [] \<longrightarrow> soundly_promoted ps j)"
  using assms
proof (induction rule: promoted.induct)
  case (promoted_once ps i j target evidence validated pid k)
  note facts = promote_knowledge_Inr [OF promoted_once.hyps(2)]
  have step: "same_knowledge j k" by (simp add: facts(10) same_knowledge_def)
  have same: "same_knowledge i k" using promoted_once.IH step by (simp add: same_knowledge_def)
  have unchanged: "ki_scope k = target" "ki_run_id k = None" "ki_promoted_from k = Some (ki_scope j)"
    "ki_project_id k = (if target = SC_PROJECT then chosen_project pid j else None)"
    by (simp_all add: facts(10))
  have new: "within_policy k (target, evidence, validated)"
    using promote_within_policy [OF promoted_once.hyps(2)] within_policy_same [OF step] by simp
  have "soundly_promoted (ps @ [(target, evidence, validated)]) k"
  proof (cases "ps = []")
    case True
    with new show ?thesis
      unfolding soundly_promoted_def unchanged using adjacent_scope_Some [OF facts(1)] facts(11) by auto
  next
    case False
    then have earlier: "soundly_promoted ps j" using promoted_once.IH by blast
    then have "ki_scope j = SC_PROJECT" "target = SC_INSTANCE"
      using adjacent_scope_Some [OF facts(1)] False
      by (auto simp: soundly_promoted_def last_map [symmetric])
    moreover from this earlier have "map fst ps = [SC_PROJECT]" using False by (auto simp: soundly_promoted_def last_map [symmetric])
    moreover have "list_all (within_policy k) ps" using earlier within_policy_same [OF step] by (simp add: soundly_promoted_def)
    ultimately show ?thesis using new facts(11) unfolding soundly_promoted_def unchanged by simp
  qed
  with same show ?case by simp
qed (simp add: same_knowledge_def)

text \<open>
  C17. Whatever promotions are asked for, those that succeed take an item at most into PROJECT and then into INSTANCE scope, never into PROFILE or
  CORE. Each was within the item's own policy: an allowed target, at least the evidence the policy and the target ask for, independent validation if
  the policy requires it, enough confidence, a sensitivity up to the policy's maximum and not RESTRICTED. The item says the same from the same
  provenance under the same policy, is CURRENT, without a Run, without a Project in INSTANCE scope, and passes the checks of its class.
\<close>

theorem promotion_stays_in_bounds:
  assumes "promoted ps i j" "ps \<noteq> []"
  shows "same_knowledge i j \<and> soundly_promoted ps j"
  using promoted_soundly [OF assms(1)] assms(2) by simp

definition run_lesson :: knowledge_item where
  "run_lesson = \<lparr>ki_id = ''LES-1'', ki_scope = SC_RUN, ki_kind = KK_LESSON, ki_statement = ''retry'',
     ki_provenance = [\<lparr>kv_source = ''run'', kv_observed_at = ''t'', kv_artifact = None, kv_commit = None, kv_integration = None,
       kv_evidence_ids = [''e'']\<rparr>],
     ki_confidence = (1, 0), ki_sensitivity = SN_INTERNAL,
     ki_promotion_policy = \<lparr>pp_allowed_targets = {SC_PROJECT, SC_INSTANCE}, pp_minimum_confidence = (1, - 1), pp_minimum_evidence = 1,
       pp_maximum_sensitivity = SN_INTERNAL, pp_require_validation = True\<rparr>,
     ki_verified_against = [], ki_revisit_triggers = [], ki_state = KS_CURRENT, ki_project_id = None, ki_run_id = Some ''r'',
     ki_promoted_from = None\<rparr>"

definition project_lesson :: knowledge_item where
  "project_lesson = run_lesson\<lparr>ki_scope := SC_PROJECT, ki_project_id := Some ''p'', ki_run_id := None, ki_promoted_from := Some SC_RUN\<rparr>"

lemma non_secret_retry: "non_secret_text ''retry'' = Inr ()"
  by code_simp

lemma run_lesson_promoted: "promote_knowledge run_lesson SC_PROJECT [''e''] True (Some ''p'') = Inr project_lesson"
  by (simp add: run_lesson_def project_lesson_def promote_knowledge_def knowledge_item_init_def non_secret_retry unit_interval_def require_promotable_def
      chosen_project_def given_text_def float_less_def require_value_def ensure_def)

lemma project_lesson_promoted: "\<exists>k. promote_knowledge project_lesson SC_INSTANCE [''e'', ''f''] True None = Inr k"
  by (simp add: run_lesson_def project_lesson_def promote_knowledge_def knowledge_item_init_def non_secret_retry unit_interval_def require_promotable_def
      chosen_project_def given_text_def float_less_def require_value_def ensure_def)

theorem promotion_stays_in_bounds_witness: "\<exists>k. same_knowledge run_lesson k \<and> soundly_promoted [(SC_PROJECT, [''e''], True), (SC_INSTANCE, [''e'', ''f''], True)] k"
proof -
  obtain k where "promote_knowledge project_lesson SC_INSTANCE [''e'', ''f''] True None = Inr k"
    using project_lesson_promoted by blast
  from promoted_once [OF promoted_once [OF promoted_none run_lesson_promoted] this] have k: "promoted [(SC_PROJECT, [''e''], True), (SC_INSTANCE, [''e'', ''f''], True)] run_lesson k"
    by simp
  from promotion_stays_in_bounds [OF k] show ?thesis by (intro exI [of _ k]) simp
qed

section \<open>Preview of overlays\<close>

fun at_path :: "json \<Rightarrow> string list \<Rightarrow> json option" where
  "at_path j [] = Some j"
| "at_path (JObj kvs) (k # ks) = (case map_of kvs k of None \<Rightarrow> None | Some j \<Rightarrow> at_path j ks)"
| "at_path j (k # ks) = None"

text \<open>The name a change has in the report\<close>

definition path_below :: "string \<Rightarrow> string \<Rightarrow> string" where
  "path_below pre k = (if pre \<noteq> [] then pre @ ''.'' @ k else k)"

lemma merge_changes_Cons:
  assumes "merge_changes pre target ((k, j) # changes) = Inr (result, paths)"
  obtains (nested) inner kvs merged ps others where "map_of target k = Some (JObj inner)" "j = JObj kvs"
      "merge_changes (path_below pre k) inner kvs = Inr (merged, ps)"
      "merge_changes pre (AList.update k (JObj merged) target) changes = Inr (result, others)" "paths = ps @ others"
  | (set_value) others where "merge_changes pre (AList.update k j target) changes = Inr (result, others)" "paths = path_below pre k # others"
  using assms
  by (auto simp: rbind_Inr_iff Let_def path_below_def split: option.splits json.splits prod.splits)

text \<open>Induction over the merges that succeed\<close>

lemma merge_induct [consumes 1, case_names none nested set_value]:
  assumes "merge_changes pre target changes = Inr (result, paths)"
    and none: "\<And>pre target. P pre target [] target []"
    and nested: "\<And>pre target k inner kvs merged ps changes result others. map_of target k = Some (JObj inner) \<Longrightarrow>
      merge_changes (path_below pre k) inner kvs = Inr (merged, ps) \<Longrightarrow> P (path_below pre k) inner kvs merged ps \<Longrightarrow> P pre (AList.update k (JObj merged) target) changes result others \<Longrightarrow>
      P pre target ((k, JObj kvs) # changes) result (ps @ others)"
    and set_value: "\<And>pre target k j changes result others. P pre (AList.update k j target) changes result others \<Longrightarrow>
      P pre target ((k, j) # changes) result (path_below pre k # others)"
  shows "P pre target changes result paths"
  using assms(1)
proof (induction "size (JObj changes)" arbitrary: pre target changes result paths rule: less_induct)
  case less
  show ?case
  proof (cases changes)
    case Nil
    with less.prems none show ?thesis by simp
  next
    case (Cons c rest)
    obtain k j where c: "c = (k, j)" by (cases c)
    from less.prems [unfolded Cons c] show ?thesis
    proof (cases rule: merge_changes_Cons)
      case (nested inner kvs merged ps others)
      have "P (path_below pre k) inner kvs merged ps" "P pre (AList.update k (JObj merged) target) rest result others"
        by (rule less.hyps [OF _ nested(3)], simp add: Cons c nested) (rule less.hyps [OF _ nested(4)], simp add: Cons c)
      then show ?thesis using assms(3) [OF nested(1,3)] by (simp add: Cons c nested)
    next
      case (set_value others)
      have "P pre (AList.update k j target) rest result others"
        by (rule less.hyps, simp add: Cons c, rule set_value)
      then show ?thesis using assms(4) by (simp add: Cons c set_value)
    qed
  qed
qed

lemma merge_paths_below:
  assumes "merge_changes pre target changes = Inr (result, paths)" "p \<in> set paths"
  shows "\<exists>k us. p = foldl path_below pre (k # us)"
  using assms
proof (induction rule: merge_induct)
  case (nested pre target k inner kvs merged ps changes result others)
  then show ?case by (auto, metis foldl_Cons)
next
  case (set_value pre target k j changes result others)
  then show ?case by (auto, metis foldl_Nil foldl_Cons)
qed simp

lemma merge_without_paths: "merge_changes pre target changes = Inr (result, paths) \<Longrightarrow> paths = [] \<Longrightarrow> result = target"
  by (induction rule: merge_induct) (auto simp: AList.update_triv)

lemma merge_reports_changes:
  assumes "merge_changes pre target changes = Inr (result, paths)" "ks \<noteq> []" "at_path (JObj result) ks \<noteq> at_path (JObj target) ks"
  shows "\<exists>us. us \<noteq> [] \<and> foldl path_below pre us \<in> set paths \<and> (prefix us ks \<or> prefix ks us)"
  using assms
proof (induction arbitrary: ks rule: merge_induct)
  case (nested pre target k inner kvs merged ps changes result others)
  obtain k' ks' where ks: "ks = k' # ks'" using nested.prems by (cases ks) auto
  consider (later) "at_path (JObj result) ks \<noteq> at_path (JObj (AList.update k (JObj merged) target)) ks"
    | (whole) "k' = k" "ks' = []" "merged \<noteq> inner" | (below) "k' = k" "ks' \<noteq> []" "at_path (JObj merged) ks' \<noteq> at_path (JObj inner) ks'"
    using nested.prems(2) nested.hyps(1) by (cases "at_path (JObj result) ks = at_path (JObj (AList.update k (JObj merged) target)) ks";
      cases "k' = k"; cases "ks' = []") (auto simp: ks update_conv')
  then show ?case
  proof cases
    case later
    with nested.IH(2) [OF nested.prems(1)] show ?thesis by auto
  next
    case whole
    then obtain p where p: "p \<in> set ps" using merge_without_paths [OF nested.hyps(2)] by (cases ps) auto
    then obtain q us where "p = foldl path_below (path_below pre k) (q # us)" using merge_paths_below [OF nested.hyps(2)] by blast
    with p show ?thesis by (intro exI [of _ "k # q # us"]) (simp add: ks whole)
  next
    case below
    with nested.IH(1) obtain us where "us \<noteq> []" "foldl path_below (path_below pre k) us \<in> set ps" "prefix us ks' \<or> prefix ks' us" by blast
    then show ?thesis by (intro exI [of _ "k # us"]) (auto simp: ks below)
  qed
next
  case (set_value pre target k j changes result others)
  obtain k' ks' where ks: "ks = k' # ks'" using set_value.prems by (cases ks) auto
  show ?case
  proof (cases "at_path (JObj result) ks = at_path (JObj (AList.update k j target)) ks")
    case True
    with set_value.prems have "k' = k" by (auto simp: ks update_conv' split: if_splits)
    then show ?thesis by (intro exI [of _ "[k]"]) (simp add: ks)
  next
    case False
    with set_value.IH [OF set_value.prems(1)] show ?thesis by auto
  qed
qed simp

lemma apply_overlays_allowed:
  assumes "apply_overlays policy seen xs effective = Inr (result, paths)"
  shows "list_all (\<lambda>x. ov_validation_status x = OV_PASSED \<and> ov_requested_privileges x \<subseteq> allowed policy) xs \<and>
    distinct (map ov_id xs) \<and> set seen \<inter> ov_id ` set xs = {}"
  using assms
  by (induction xs arbitrary: seen effective result paths) (fastforce simp: rbind_Inr_iff permits_overlay_def)+

lemma apply_overlays_reports:
  assumes "apply_overlays policy seen xs effective = Inr (result, paths)" "ks \<noteq> []"
    "at_path (JObj result) ks \<noteq> at_path (JObj effective) ks"
  shows "\<exists>us. us \<noteq> [] \<and> foldl path_below [] us \<in> set paths \<and> (prefix us ks \<or> prefix ks us)"
  using assms
proof (induction xs arbitrary: seen effective paths)
  case (Cons x xs)
  then obtain merged ps others where step: "merge_changes [] effective (ov_changes x) = Inr (merged, ps)"
      "apply_overlays policy (ov_id x # seen) xs merged = Inr (result, others)" "paths = ps @ others"
    by (auto simp: rbind_Inr_iff)
  show ?case
  proof (cases "at_path (JObj merged) ks = at_path (JObj effective) ks")
    case True
    with Cons.IH [OF step(2) Cons.prems(2)] Cons.prems(3) show ?thesis by (auto simp: step(3))
  next
    case False
    with merge_reports_changes [OF step(1) Cons.prems(2)] show ?thesis by (auto simp: step(3))
  qed
qed simp

text \<open>
  C18. A preview of overlays that returns names, among its changed paths, every place where the effective configuration differs from the Core one:
  the place itself, one above it that was replaced, or one below it. All overlays had passed validation, requested privileges inside the policy's
  ceiling only, and had identifiers of their own; without a policy there is no preview at all.
\<close>

theorem preview_reports_every_change:
  assumes "inspect_divergence core overlays chosen = Inr r"
  shows "\<exists>policy. chosen = Some policy \<and> distinct (dg_overlay_ids r) \<and>
    list_all (\<lambda>x. ov_validation_status x = OV_PASSED \<and> ov_requested_privileges x \<subseteq> allowed policy) overlays \<and>
    (\<forall>ks. ks \<noteq> [] \<and> at_path (JObj (dg_effective_configuration r)) ks \<noteq> at_path (JObj core) ks \<longrightarrow>
      (\<exists>us. us \<noteq> [] \<and> foldl path_below [] us \<in> set (dg_changed_paths r) \<and> (prefix us ks \<or> prefix ks us)))"
proof -
  obtain policy effective paths where chosen: "chosen = Some policy" and run: "apply_overlays policy [] overlays core = Inr (effective, paths)"
    and r: "dg_effective_configuration r = effective" "dg_overlay_ids r = map ov_id overlays" "set (dg_changed_paths r) = set paths"
    using assms by (auto simp: inspect_divergence_def rbind_Inr_iff split: option.splits)
  show ?thesis
    using apply_overlays_allowed [OF run] apply_overlays_reports [OF run] by (intro exI [of _ policy]) (simp add: chosen r)
qed

definition depth_overlay :: candidate_overlay where
  "depth_overlay = \<lparr>ov_id = ''o'', ov_proposal_id = ''IMP-1'', ov_origin_core_version = ''2'', ov_reason = ''r'', ov_evidence = [''e''],
     ov_target = ''t'', ov_expected_benefit = ''b'', ov_compatibility = ''c'', ov_validation_status = OV_PASSED,
     ov_changes = [(''a'', JObj [(''b'', JInt 2)])], ov_requested_privileges = {}\<rparr>"

theorem preview_reports_every_change_witness:
  "\<exists>policy r. inspect_divergence [(''a'', JObj [(''b'', JInt 1), (''c'', JInt 3)])] [depth_overlay] (Some policy) = Inr r \<and>
    distinct (dg_overlay_ids r) \<and> at_path (JObj (dg_effective_configuration r)) [''a'', ''b''] = Some (JInt 2) \<and>
    (\<exists>us. us \<noteq> [] \<and> foldl path_below [] us \<in> set (dg_changed_paths r) \<and> (prefix us [''a'', ''b''] \<or> prefix [''a'', ''b''] us))"
proof -
  let ?core = "[(''a'', JObj [(''b'', JInt 1), (''c'', JInt 3)])]"
  obtain policy :: privilege_policy where "policy = \<lparr>allowed = {}\<rparr>" by simp
  obtain r where r: "inspect_divergence ?core [depth_overlay] (Some policy) = Inr r"
      "dg_effective_configuration r = [(''a'', JObj [(''b'', JInt 2), (''c'', JInt 3)])]"
    by (simp add: inspect_divergence_def depth_overlay_def permits_overlay_def require_value_def ensure_def)
  show ?thesis
    using preview_reports_every_change [OF r(1)]
    by (intro exI [of _ policy] exI [of _ r] conjI r(1)) (auto simp: r(2))
qed

section \<open>Encoding\<close>

lemma str_item_simps [simp]: "str_item py v k = rbind (item v k) (\<lambda>j. Inr (py_str py j))"
  by (fact str_item_def)

definition provenance_valid :: "(string \<Rightarrow> moment option) \<Rightarrow> knowledge_provenance \<Rightarrow> bool" where
  "provenance_valid timeof p \<longleftrightarrow> knowledge_provenance_init timeof p = Inr p"

definition guard_valid :: "(string \<Rightarrow> moment option) \<Rightarrow> verified_against \<Rightarrow> bool" where
  "guard_valid timeof g \<longleftrightarrow> verified_against_init timeof g = Inr g"

definition trigger_valid :: "(string \<Rightarrow> moment option) \<Rightarrow> revisit_trigger \<Rightarrow> bool" where
  "trigger_valid timeof t \<longleftrightarrow> revisit_trigger_init timeof t = Inr t"

text \<open>The checks of every class an item is made of\<close>

definition knowledge_item_ok :: "(string \<Rightarrow> moment option) \<Rightarrow> knowledge_item \<Rightarrow> bool" where
  "knowledge_item_ok timeof i \<longleftrightarrow> stable_text (ki_id i) \<and> list_all (provenance_valid timeof) (ki_provenance i) \<and>
     list_all (guard_valid timeof) (ki_verified_against i) \<and> list_all (trigger_valid timeof) (ki_revisit_triggers i) \<and>
     promotion_policy_init (ki_promotion_policy i) = Inr (ki_promotion_policy i) \<and> knowledge_item_init i = Inr i"

lemma init_same:
  "knowledge_provenance_init timeof p = Inr p' \<Longrightarrow> p' = p" "verified_against_init timeof g = Inr g' \<Longrightarrow> g' = g"
  "revisit_trigger_init timeof t = Inr t' \<Longrightarrow> t' = t" "promotion_policy_init c = Inr c' \<Longrightarrow> c' = c" "knowledge_item_init i = Inr i' \<Longrightarrow> i' = i"
  by (auto simp: knowledge_provenance_init_def verified_against_init_def revisit_trigger_init_def promotion_policy_init_def knowledge_item_init_def
      rbind_Inr_iff split: if_splits)

lemma knowledge_provenance_decoded: "knowledge_provenance_from_dict py timeof v = Inr p \<Longrightarrow> provenance_valid timeof p"
  unfolding knowledge_provenance_from_dict_def provenance_valid_def rbind_Inr_iff by (metis init_same(1))

lemma verified_against_decoded: "verified_against_from_dict py timeof v = Inr g \<Longrightarrow> guard_valid timeof g"
  unfolding verified_against_from_dict_def guard_valid_def rbind_Inr_iff by (metis init_same(2))

lemma revisit_trigger_decoded: "revisit_trigger_from_dict py timeof v = Inr t \<Longrightarrow> trigger_valid timeof t"
  unfolding revisit_trigger_from_dict_def trigger_valid_def rbind_Inr_iff by (metis init_same(3))

lemma promotion_policy_decoded: "promotion_policy_from_dict py v = Inr c \<Longrightarrow> promotion_policy_init c = Inr c"
  unfolding promotion_policy_from_dict_def rbind_Inr_iff by (metis init_same(4))

lemma knowledge_provenance_roundtrip:
  "provenance_valid timeof p \<Longrightarrow> knowledge_provenance_from_dict py timeof (knowledge_provenance_to_dict p) = Inr p"
  by (cases p) (simp add: provenance_valid_def knowledge_provenance_from_dict_def knowledge_provenance_to_dict_def)

lemma verified_against_roundtrip: "guard_valid timeof g \<Longrightarrow> verified_against_from_dict py timeof (verified_against_to_dict g) = Inr g"
  by (cases g) (simp add: guard_valid_def verified_against_from_dict_def verified_against_to_dict_def)

lemma revisit_trigger_roundtrip: "trigger_valid timeof t \<Longrightarrow> revisit_trigger_from_dict py timeof (revisit_trigger_to_dict t) = Inr t"
  by (cases t) (simp add: trigger_valid_def revisit_trigger_from_dict_def revisit_trigger_to_dict_def)

lemma scopes_roundtrip: "rmap to_knowledge_scope (map knowledge_scope_value xs) = Inr xs"
  by (induction xs) simp_all

lemma scope_value_inj: "inj knowledge_scope_value"
  by (rule inj_on_inverseI [where g = "\<lambda>s. projr (to_knowledge_scope s)"]) simp

lemma finite_scopes: "finite (S :: knowledge_scope set)"
proof -
  have "S \<subseteq> {SC_CORE, SC_PROFILE, SC_INSTANCE, SC_PROJECT, SC_RUN, SC_HARNESS}" using knowledge_scope.exhaust by blast
  then show ?thesis by (rule finite_subset) simp
qed

lemma promotion_policy_roundtrip:
  assumes "promotion_policy_init c = Inr c"
  shows "promotion_policy_from_dict py (promotion_policy_to_dict c) = Inr c"
proof -
  let ?names = "sorted_list_of_set (knowledge_scope_value ` pp_allowed_targets c)"
  have names: "set ?names = knowledge_scope_value ` pp_allowed_targets c" by (simp add: finite_scopes)
  have "\<exists>xs. ?names = map knowledge_scope_value xs" unfolding ex_map_conv names by blast
  then obtain xs where xs: "?names = map knowledge_scope_value xs" by (rule exE)
  with names have "knowledge_scope_value ` set xs = knowledge_scope_value ` pp_allowed_targets c" by simp
  then have "set xs = pp_allowed_targets c" using scope_value_inj by (simp add: inj_image_eq_iff)
  moreover obtain m e where "pp_minimum_confidence c = (m, e)" by fastforce
  ultimately show ?thesis
    using assms xs by (cases c) (simp add: promotion_policy_from_dict_def promotion_policy_to_dict_def scopes_roundtrip)
qed

lemma knowledge_item_decoded:
  assumes "knowledge_item_from_dict py timeof v = Inr i"
  shows "knowledge_item_ok timeof i"
proof -
  obtain x i' policy scope kind statement ps c s gs ts st pid rid pf where parts:
      "stable_id x = Inr i'" "promotion_policy_init policy = Inr policy"
      "list_all (provenance_valid timeof) ps" "list_all (guard_valid timeof) gs" "list_all (trigger_valid timeof) ts"
      "knowledge_item_init \<lparr>ki_id = i', ki_scope = scope, ki_kind = kind, ki_statement = statement, ki_provenance = ps, ki_confidence = c,
       ki_sensitivity = s, ki_promotion_policy = policy, ki_verified_against = gs, ki_revisit_triggers = ts, ki_state = st,
       ki_project_id = pid, ki_run_id = rid, ki_promoted_from = pf\<rparr> = Inr i"
    using assms unfolding knowledge_item_from_dict_def rbind_Inr_iff
    by (elim exE conjE) (rule that, assumption, erule promotion_policy_decoded,
        auto elim!: rmap_decoded intro: knowledge_provenance_decoded verified_against_decoded revisit_trigger_decoded)
  note i = init_same(5) [OF parts(6)]
  show ?thesis
    unfolding knowledge_item_ok_def using parts stable_textI [OF parts(1)] by (simp add: i)
qed

lemma promoted_from_roundtrip:
  "(case jopt (\<lambda>s. JStr (knowledge_scope_value s)) x of JNull \<Rightarrow> Inr None
    | j \<Rightarrow> rbind (to_knowledge_scope (py_str py j)) (\<lambda>x. Inr (Some x))) = Inr x"
  by (cases x) simp_all

lemma knowledge_item_roundtrip:
  assumes "knowledge_item_ok timeof i"
  shows "knowledge_item_from_dict py timeof (knowledge_item_to_dict i) = Inr i"
proof -
  have lists: "rmap (knowledge_provenance_from_dict py timeof) (map knowledge_provenance_to_dict (ki_provenance i)) = Inr (ki_provenance i)"
    "rmap (verified_against_from_dict py timeof) (map verified_against_to_dict (ki_verified_against i)) = Inr (ki_verified_against i)"
    "rmap (revisit_trigger_from_dict py timeof) (map revisit_trigger_to_dict (ki_revisit_triggers i)) = Inr (ki_revisit_triggers i)"
    using assms unfolding knowledge_item_ok_def
    by (auto intro: rmap_roundtrip knowledge_provenance_roundtrip verified_against_roundtrip revisit_trigger_roundtrip)
  have parts: "stable_id (ki_id i) = Inr (ki_id i)" "knowledge_item_init i = Inr i"
    "promotion_policy_from_dict py (promotion_policy_to_dict (ki_promotion_policy i)) = Inr (ki_promotion_policy i)"
    using assms by (simp_all add: knowledge_item_ok_def stable_text_def promotion_policy_roundtrip)
  obtain m e where "ki_confidence i = (m, e)" by fastforce
  with lists parts show ?thesis
    by (cases i) (simp add: knowledge_item_from_dict_def knowledge_item_to_dict_def promoted_from_roundtrip)
qed

text \<open>
  A knowledge item survives storage: the decoder accepts only items that pass the checks of every class they are made of, and decoding the
  JSON form of a decoded item gives exactly that item, whatever order its promotion policy lists its targets in.
\<close>

theorem knowledge_item_json_roundtrip:
  assumes "knowledge_item_from_dict py timeof v = Inr i"
  shows "knowledge_item_ok timeof i \<and> knowledge_item_from_dict py timeof (knowledge_item_to_dict i) = Inr i"
  using knowledge_item_decoded [OF assms] knowledge_item_roundtrip by blast

lemma no_secret_text: "non_secret_text ''run'' = Inr ()"
  by code_simp

definition some_time :: "string \<Rightarrow> moment option" where
  "some_time s = Some \<lparr>mo_instant = 0, mo_offset = Some 0\<rparr>"

lemma project_lesson_ok: "knowledge_item_from_dict no_floats some_time (knowledge_item_to_dict project_lesson) = Inr project_lesson"
proof (rule knowledge_item_roundtrip)
  have "stable_id ''LES-1'' = Inr ''LES-1''" by code_simp
  then show "knowledge_item_ok some_time project_lesson"
    by (simp add: knowledge_item_ok_def stable_text_def project_lesson_def run_lesson_def provenance_valid_def knowledge_provenance_init_def some_time_def aware_def
        no_secret_text parse_timestamp_def given_text_def promotion_policy_init_def unit_interval_def knowledge_item_init_def non_secret_retry require_value_def ensure_def)
qed

theorem knowledge_item_json_roundtrip_witness:
  "\<exists>v. knowledge_item_ok some_time project_lesson \<and>
     knowledge_item_from_dict no_floats some_time v = Inr project_lesson"
  using knowledge_item_json_roundtrip [OF project_lesson_ok] by blast

end
