(* ===== verification/Knowledge_Store.thy ===== *)
theory Knowledge_Store
  imports Knowledge_Properties Artifact_Index
begin

text \<open>
  Models \<open>src/artifex/knowledge/store.py\<close>: JSON collections with unique identifiers, the lessons of one Project, and the knowledge, proposals,
  overlays and integration memory of one instance, kept apart from the installed Core.

  A collection is the content of its file, \<open>None\<close> while there is no file. Paths are resolved and given as lists of components. The fingerprint of the
  installed Core tree is part of the state, since others may change the tree, and \<open>None\<close> when the tree is gone.
\<close>

section \<open>Collections\<close>

fun collection_records :: "json \<Rightarrow> obj list res" where
  "collection_records (JArr xs) = rmap mapping_of xs"
| "collection_records j = Inl ValueError"

definition collection_load :: "file_content option \<Rightarrow> obj list res" where
  "collection_load f = (case f of None \<Rightarrow> Inr [] | Some c \<Rightarrow> rbind (loads c) collection_records)"

definition append_unique :: "string \<Rightarrow> obj \<Rightarrow> file_content option \<Rightarrow> file_content res" where
  "append_unique identifier value f =
     rbind (collection_load f) (\<lambda>records.
     rbind (require_value (\<not> list_ex (\<lambda>r. item_or r ''id'' JNull = JStr identifier) records)) (\<lambda>_.
     Inr (Document (JArr (map JObj (records @ [value]))))))"

text \<open>\<open>^[A-Za-z0-9][A-Za-z0-9._-]{0,127}$\<close>\<close>

definition namespace_char :: "char \<Rightarrow> bool" where
  "namespace_char c \<longleftrightarrow> is_lower c \<or> is_upper c \<or> is_digit c \<or> c \<in> set ''._-''"

definition namespace_text :: "string \<Rightarrow> bool" where
  "namespace_text v \<longleftrightarrow> (case v of [] \<Rightarrow> False
     | c # cs \<Rightarrow> (is_lower c \<or> is_upper c \<or> is_digit c) \<and> list_all namespace_char cs \<and> length cs \<le> 127)"

definition require_isolated :: "bool \<Rightarrow> unit res" where
  "require_isolated c = ensure c KnowledgeIsolationError"

definition knowledge_namespace :: "string \<Rightarrow> string res" where
  "knowledge_namespace v =
     rbind (require_isolated (namespace_text v)) (\<lambda>_.
     rbind (case normalize_relative_path v of Inl e \<Rightarrow> Inl (if e = UnsafePathError then KnowledgeIsolationError else e) | Inr n \<Rightarrow> Inr n) (\<lambda>n.
     rbind (require_isolated (n = v)) (\<lambda>_. Inr v)))"

section \<open>The lessons of a Project\<close>

definition project_lesson_store :: "string \<Rightarrow> string res" where
  "project_lesson_store project_id = knowledge_namespace project_id"

definition lesson_add :: "string \<Rightarrow> knowledge_item \<Rightarrow> file_content option \<Rightarrow> file_content res" where
  "lesson_add project_id lesson f =
     rbind (require_isolated (\<not> (ki_scope lesson \<noteq> SC_PROJECT \<or> ki_project_id lesson \<noteq> Some project_id))) (\<lambda>_.
     append_unique (ki_id lesson) (knowledge_item_to_dict lesson) f)"

definition lesson_list :: "py_float \<Rightarrow> (string \<Rightarrow> moment option) \<Rightarrow> string \<Rightarrow> file_content option \<Rightarrow> knowledge_item list res" where
  "lesson_list py timeof project_id f =
     rbind (rbind (collection_load f) (rmap (knowledge_item_from_dict py timeof))) (\<lambda>items.
     rbind (require_isolated (\<not> list_ex (\<lambda>i. ki_scope i \<noteq> SC_PROJECT \<or> ki_project_id i \<noteq> Some project_id) items)) (\<lambda>_. Inr items))"

section \<open>The knowledge of an instance\<close>

record instance_dir =
  kd_knowledge :: "file_content option"
  kd_proposals :: "file_content option"
  kd_overlays :: "file_content option"
  kd_memory :: "(string \<times> file_content) list"
  kd_core :: "string option"

record instance_store =
  is_instance_id :: string
  is_root :: "string list"
  is_core_fingerprint :: "string option"

text \<open>\<open>_tree_fingerprint\<close> of the installed Core\<close>

definition core_fingerprint :: "(instance_dir, string) eff" where
  "core_fingerprint = bnd (gets kd_core) (some_or FileNotFoundError)"

definition instance_store_init :: "string list \<Rightarrow> string \<Rightarrow> string list option \<Rightarrow> (instance_dir, instance_store) eff" where
  "instance_store_init state_root instance_id core_root =
     bnd (lift (knowledge_namespace instance_id)) (\<lambda>i.
     let root = state_root @ [''instances'', i] in
     bnd (lift (require_isolated (case core_root of None \<Rightarrow> True | Some c \<Rightarrow> \<not> (root = c \<or> prefix c root \<or> prefix root c)))) (\<lambda>_.
     bnd (case core_root of None \<Rightarrow> ret None | Some c \<Rightarrow> bnd core_fingerprint (\<lambda>f. ret (Some f))) (\<lambda>fingerprint.
     ret \<lparr>is_instance_id = i, is_root = root, is_core_fingerprint = fingerprint\<rparr>)))"

definition assert_core_unchanged :: "instance_store \<Rightarrow> (instance_dir, unit) eff" where
  "assert_core_unchanged st = (case is_core_fingerprint st of None \<Rightarrow> ret ()
   | Some before \<Rightarrow> bnd core_fingerprint (\<lambda>f. lift (require_isolated (\<not> f \<noteq> before))))"

definition instance_add :: "instance_store \<Rightarrow> knowledge_item \<Rightarrow> (instance_dir, unit) eff" where
  "instance_add st i =
     bnd (lift (require_isolated (\<not> ki_scope i \<noteq> SC_INSTANCE))) (\<lambda>_.
     bnd (gets kd_knowledge) (\<lambda>f.
     bnd (lift (append_unique (ki_id i) (knowledge_item_to_dict i) f)) (\<lambda>f'.
     bnd (modify (\<lambda>d. d\<lparr>kd_knowledge := Some f'\<rparr>)) (\<lambda>_.
     assert_core_unchanged st))))"

definition instance_list :: "py_float \<Rightarrow> (string \<Rightarrow> moment option) \<Rightarrow> file_content option \<Rightarrow> knowledge_item list res" where
  "instance_list py timeof f =
     rbind (rbind (collection_load f) (rmap (knowledge_item_from_dict py timeof))) (\<lambda>items.
     rbind (require_isolated (\<not> list_ex (\<lambda>i. ki_scope i \<noteq> SC_INSTANCE) items)) (\<lambda>_. Inr items))"

definition add_proposal :: "instance_store \<Rightarrow> improvement_proposal \<Rightarrow> (instance_dir, unit) eff" where
  "add_proposal st p =
     bnd (gets kd_proposals) (\<lambda>f.
     bnd (lift (append_unique (ip_id p) (improvement_proposal_to_dict p) f)) (\<lambda>f'.
     bnd (modify (\<lambda>d. d\<lparr>kd_proposals := Some f'\<rparr>)) (\<lambda>_.
     assert_core_unchanged st)))"

definition list_proposals :: "py_float \<Rightarrow> file_content option \<Rightarrow> improvement_proposal list res" where
  "list_proposals py f = rbind (collection_load f) (rmap (improvement_proposal_from_dict py))"

definition add_overlay :: "instance_store \<Rightarrow> candidate_overlay \<Rightarrow> (instance_dir, unit) eff" where
  "add_overlay st x =
     bnd (gets kd_overlays) (\<lambda>f.
     bnd (lift (append_unique (ov_id x) (candidate_overlay_to_dict x) f)) (\<lambda>f'.
     bnd (modify (\<lambda>d. d\<lparr>kd_overlays := Some f'\<rparr>)) (\<lambda>_.
     assert_core_unchanged st)))"

definition list_overlays :: "py_float \<Rightarrow> file_content option \<Rightarrow> candidate_overlay list res" where
  "list_overlays py f = rbind (collection_load f) (rmap (candidate_overlay_from_dict py))"

text \<open>The integrations that provenance declares, in lower case\<close>

definition declared_integrations :: "knowledge_item \<Rightarrow> string set" where
  "declared_integrations i = lower ` set (filter (\<lambda>v. v \<noteq> []) (List.map_filter kv_integration (ki_provenance i)))"

definition add_integration_memory :: "instance_store \<Rightarrow> string \<Rightarrow> knowledge_item \<Rightarrow> (instance_dir, unit) eff" where
  "add_integration_memory st integration i =
     bnd (lift (knowledge_namespace (lower integration))) (\<lambda>provider.
     bnd (lift (require_isolated (\<not> ki_scope i \<noteq> SC_HARNESS))) (\<lambda>_.
     bnd (lift (require_isolated (\<not> declared_integrations i \<noteq> {provider}))) (\<lambda>_.
     bnd (gets (\<lambda>d. map_of (kd_memory d) provider)) (\<lambda>f.
     bnd (lift (append_unique (ki_id i) (knowledge_item_to_dict i) f)) (\<lambda>f'.
     bnd (modify (\<lambda>d. d\<lparr>kd_memory := AList.update provider f' (kd_memory d)\<rparr>)) (\<lambda>_.
     assert_core_unchanged st))))))"

definition list_integration_memory :: "py_float \<Rightarrow> (string \<Rightarrow> moment option) \<Rightarrow> string \<Rightarrow> instance_dir \<Rightarrow> knowledge_item list res" where
  "list_integration_memory py timeof integration d =
     rbind (knowledge_namespace (lower integration)) (\<lambda>provider.
     rbind (rbind (collection_load (map_of (kd_memory d) provider)) (rmap (knowledge_item_from_dict py timeof))) (\<lambda>items.
     rbind (require_isolated (\<not> list_ex (\<lambda>i. ki_scope i \<noteq> SC_HARNESS \<or> declared_integrations i \<noteq> {provider}) items)) (\<lambda>_.
     Inr items)))"

end
