(* ===== verification/Canonical_Json.thy ===== *)
theory Canonical_Json
  imports Json_Values Run_Store
begin

text \<open>The canonical text of a JSON document, over which knowledge and compiled views take their digests.\<close>

section \<open>Canonical text\<close>

text \<open>\<open>json.dumps(value, sort_keys=True, separators=(",", ":"), ensure_ascii=False)\<close>\<close>

definition raw_escape :: "char \<Rightarrow> string" where
  "raw_escape c = (if 127 \<le> ccode c then [c] else json_escape c)"

definition raw_string :: "string \<Rightarrow> string" where
  "raw_string s = CHR 0x22 # concat (map raw_escape s) @ [CHR 0x22]"

fun canonical_text :: "py_float \<Rightarrow> json \<Rightarrow> string" where
  "canonical_text py JNull = ''null''"
| "canonical_text py (JBool b) = (if b then ''true'' else ''false'')"
| "canonical_text py (JInt i) = int_text i"
| "canonical_text py (JFloat m e) = float_text py m e"
| "canonical_text py (JStr s) = raw_string s"
| "canonical_text py (JArr xs) = ''['' @ join_with CHR '','' (map (canonical_text py) xs) @ '']''"
| "canonical_text py (JObj kvs) = ''{'' @ join_with CHR '',''
     (map (\<lambda>(k, t). raw_string k @ '':'' @ t) (sort_key fst (map (\<lambda>(k, j). (k, canonical_text py j)) kvs))) @ ''}''"

end
