(* ===== verification/Organizational_Knowledge.thy ===== *)
theory Organizational_Knowledge
  imports Knowledge_Store Project_Authority Canonical_Json Complex_Main
begin

text \<open>
  Models \<open>src/artifex/knowledge/organizational.py\<close> (the advisory store of knowledge across Projects and its service) and, of
  \<open>src/artifex/knowledge/store.py\<close>, the JSON collections with the lessons of a Project and the knowledge of an instance that the service reads.

  The SQLite tables carry their key, uniqueness and reference constraints; a payload is kept as the document its text holds. SHA-256, UUIDs, the
  clock, the parsing of times and the resolution of paths are parameters of an \<open>advisory_env\<close>; Project roots are given resolved. The collection
  file of a Project's lessons is kept apart from the files the Project authority reads, which are others.
\<close>

section \<open>The environment and the state\<close>

record advisory_env =
  ad_project :: "string list \<Rightarrow> project_env"
  ad_instant :: "string \<Rightarrow> moment option"
  ad_epoch :: "nat \<Rightarrow> int"
  ad_now :: "nat \<Rightarrow> string"
  ad_uuid :: "nat \<Rightarrow> string"
  ad_sha :: "string \<Rightarrow> string"
  ad_float :: py_float
  ad_database :: "string list"

record knowledge_row =
  kr_id :: string
  kr_digest :: string
  kr_payload :: json

record recommendation_row =
  rr_id :: string
  rr_knowledge_id :: string
  rr_target_project_id :: string
  rr_digest :: string
  rr_payload :: json

record quarantine_row =
  qr_migration_id :: string
  qr_instance_id :: string
  qr_lesson_id :: string
  qr_classification :: string
  qr_payload :: json

record advisory_event =
  av_event_type :: string
  av_actor_id :: string
  av_payload :: json

record advisory_db =
  ad_records :: "knowledge_row list"
  ad_recommendations :: "recommendation_row list"
  ad_quarantine :: "quarantine_row list"
  ad_audit :: "advisory_event list"

record advisory =
  aw_db :: advisory_db
  aw_projects :: "(string list \<times> project_state) list"
  aw_lessons :: "(string list \<times> file_content) list"
  aw_instances :: "(string list \<times> file_content) list"
  aw_ticks :: nat
  aw_draws :: nat

definition empty_advisory_db :: advisory_db where
  "empty_advisory_db = \<lparr>ad_records = [], ad_recommendations = [], ad_quarantine = [], ad_audit = []\<rparr>"

definition digest_of :: "advisory_env \<Rightarrow> obj \<Rightarrow> string" where
  "digest_of env v = ad_sha env (canonical_text (ad_float env) (JObj v))"

definition advisory_now :: "advisory_env \<Rightarrow> (advisory, string) eff" where
  "advisory_now env = (\<lambda>w. (Inr (ad_now env (aw_ticks w)), w\<lparr>aw_ticks := Suc (aw_ticks w)\<rparr>))"

definition advisory_epoch :: "advisory_env \<Rightarrow> (advisory, int) eff" where
  "advisory_epoch env = (\<lambda>w. (Inr (ad_epoch env (aw_ticks w)), w\<lparr>aw_ticks := Suc (aw_ticks w)\<rparr>))"

definition advisory_uuid :: "advisory_env \<Rightarrow> (advisory, string) eff" where
  "advisory_uuid env = (\<lambda>w. (Inr (ad_uuid env (aw_draws w)), w\<lparr>aw_draws := Suc (aw_draws w)\<rparr>))"

text \<open>\<open>value or _now()\<close>\<close>

definition given_or_now :: "advisory_env \<Rightarrow> string option \<Rightarrow> (advisory, string) eff" where
  "given_or_now env v = (case v of Some t \<Rightarrow> if t \<noteq> [] then ret t else advisory_now env | None \<Rightarrow> advisory_now env)"

text \<open>An operation of \<open>ProjectAuthority(project_root)\<close>, whose constructor refuses a root that does not exist\<close>

definition at_project :: "advisory_env \<Rightarrow> string list \<Rightarrow> (project_env \<Rightarrow> (project_state, 'a) eff) \<Rightarrow> (advisory, 'a) eff" where
  "at_project env project_root m = (\<lambda>w. case map_of (aw_projects w) project_root of
     None \<Rightarrow> (Inl ArtifactNotFoundError, w)
   | Some s \<Rightarrow> (case m (ad_project env project_root) s of (r, s') \<Rightarrow> (r, w\<lparr>aw_projects := AList.update project_root s' (aw_projects w)\<rparr>)))"

text \<open>\<open>with self._connect() as connection\<close>: the transaction commits when the block returns and rolls back when it raises.\<close>

definition in_database :: "(advisory_db, 'a) eff \<Rightarrow> (advisory, 'a) eff" where
  "in_database m = (\<lambda>w. case m (aw_db w) of (Inl e, _) \<Rightarrow> (Inl e, w) | (Inr x, d) \<Rightarrow> (Inr x, w\<lparr>aw_db := d\<rparr>))"

section \<open>Checks\<close>

definition require_org :: "bool \<Rightarrow> unit res" where
  "require_org c = ensure c OrganizationalKnowledgeError"

definition org_instant :: "advisory_env \<Rightarrow> string \<Rightarrow> moment res" where
  "org_instant env s = (case ad_instant env (zulu s) of None \<Rightarrow> Inl OrganizationalKnowledgeError
   | Some t \<Rightarrow> rbind (require_org (aware t)) (\<lambda>_. Inr t))"

definition org_sha256 :: "string \<Rightarrow> unit res" where
  "org_sha256 s = require_org (sha256_hex s)"

fun org_mapping :: "json \<Rightarrow> obj res" where
  "org_mapping (JObj kvs) = Inr kvs"
| "org_mapping _ = Inl OrganizationalKnowledgeError"

fun org_string :: "json \<Rightarrow> string res" where
  "org_string (JStr s) = Inr s"
| "org_string _ = Inl OrganizationalKnowledgeError"

fun org_strings :: "json \<Rightarrow> string list res" where
  "org_strings (JArr xs) = rmap org_string xs"
| "org_strings _ = Inl OrganizationalKnowledgeError"

definition authorize_knowledge :: "advisory_env \<Rightarrow> actor_principal \<Rightarrow> string \<Rightarrow> string \<Rightarrow> (advisory, unit) eff" where
  "authorize_knowledge env actor action project_id =
     bnd (req (actor_type actor \<notin> {AT_PROVIDER, AT_INTERACTION_CLIENT, AT_AGENT}) PermissionError) (\<lambda>_.
     bnd (advisory_epoch env) (\<lambda>now.
     lift (require actor action project_id now)))"

section \<open>Applicability\<close>

record knowledge_applicability =
  kb_project_ids :: "string list"
  kb_tags :: "string list"
  kb_domains :: "string list"
  kb_excluded_project_ids :: "string list"

definition knowledge_applicability_init :: "knowledge_applicability \<Rightarrow> knowledge_applicability res" where
  "knowledge_applicability_init b =
     rbind (require_org (kb_project_ids b \<noteq> [] \<or> kb_tags b \<noteq> [] \<or> kb_domains b \<noteq> [])) (\<lambda>_.
     rbind (require_org (list_all (\<lambda>v. \<not> blank v) (kb_project_ids b @ kb_tags b @ kb_domains b @ kb_excluded_project_ids b))) (\<lambda>_.
     rbind (require_org (distinct (kb_project_ids b) \<and> distinct (kb_tags b) \<and> distinct (kb_domains b) \<and> distinct (kb_excluded_project_ids b))) (\<lambda>_.
     Inr b)))"

definition applicable_to :: "knowledge_applicability \<Rightarrow> string \<Rightarrow> string set \<Rightarrow> string set \<Rightarrow> bool" where
  "applicable_to b project_id tags domains =
     (if project_id \<in> set (kb_excluded_project_ids b) then False
      else project_id \<in> set (kb_project_ids b) \<or> set (kb_tags b) \<inter> tags \<noteq> {} \<or> set (kb_domains b) \<inter> domains \<noteq> {})"

definition knowledge_applicability_to_dict :: "knowledge_applicability \<Rightarrow> obj" where
  "knowledge_applicability_to_dict b =
     [(''project_ids'', jstrs (kb_project_ids b)), (''tags'', jstrs (kb_tags b)), (''domains'', jstrs (kb_domains b)),
      (''excluded_project_ids'', jstrs (kb_excluded_project_ids b))]"

definition knowledge_applicability_from_dict :: "obj \<Rightarrow> knowledge_applicability res" where
  "knowledge_applicability_from_dict v =
     rbind (org_strings (item_or v ''project_ids'' (JArr []))) (\<lambda>ps.
     rbind (org_strings (item_or v ''tags'' (JArr []))) (\<lambda>ts.
     rbind (org_strings (item_or v ''domains'' (JArr []))) (\<lambda>ds.
     rbind (org_strings (item_or v ''excluded_project_ids'' (JArr []))) (\<lambda>es.
     knowledge_applicability_init \<lparr>kb_project_ids = ps, kb_tags = ts, kb_domains = ds, kb_excluded_project_ids = es\<rparr>))))"

section \<open>Records\<close>

record organizational_record =
  okr_id :: string
  okr_source_project_id :: string
  okr_source_project_revision :: int
  okr_source_project_fingerprint :: string
  okr_source_lesson_id :: string
  okr_kind :: knowledge_kind
  okr_statement :: string
  okr_provenance :: "obj list"
  okr_evidence_digests :: "string list"
  okr_confidence :: "int \<times> int"
  okr_sensitivity :: sensitivity
  okr_applicability :: knowledge_applicability
  okr_fresh_until :: string
  okr_validator_id :: string
  okr_promotion_actor_id :: string
  okr_promotion_policy :: string
  okr_promotion_decision :: string
  okr_created_at :: string
  okr_record_digest :: string

text \<open>\<open>x <= y\<close> on aware times\<close>

definition moment_le :: "moment \<Rightarrow> moment \<Rightarrow> bool" where
  "moment_le t u \<longleftrightarrow> mo_instant t \<le> mo_instant u"

definition organizational_record_init :: "advisory_env \<Rightarrow> organizational_record \<Rightarrow> organizational_record res" where
  "organizational_record_init env r =
     rbind (require_org (prefix ''ORGK-'' (okr_id r))) (\<lambda>_.
     rbind (require_org (\<not> (okr_source_project_revision r < 1 \<or> okr_provenance r = []))) (\<lambda>_.
     rbind (org_sha256 (okr_source_project_fingerprint r)) (\<lambda>_.
     rbind (org_sha256 (okr_record_digest r)) (\<lambda>_.
     rbind (require_org (okr_evidence_digests r \<noteq> [])) (\<lambda>_.
     rbind (rmap org_sha256 (okr_evidence_digests r)) (\<lambda>_.
     rbind (require_org (\<not> (float_less (okr_confidence r) seven_tenths \<or> float_less (1, 0) (okr_confidence r)))) (\<lambda>_.
     rbind (require_org (okr_sensitivity r \<noteq> SN_RESTRICTED)) (\<lambda>_.
     rbind (org_instant env (okr_fresh_until r)) (\<lambda>horizon.
     rbind (org_instant env (okr_created_at r)) (\<lambda>created.
     rbind (require_org (\<not> moment_le horizon created)) (\<lambda>_.
     rbind (require_org (okr_promotion_decision r = ''APPROVED'')) (\<lambda>_. Inr r))))))))))))"

definition unsigned_dict :: "organizational_record \<Rightarrow> obj" where
  "unsigned_dict r =
     [(''id'', JStr (okr_id r)), (''source_project_id'', JStr (okr_source_project_id r)),
      (''source_project_revision'', JInt (okr_source_project_revision r)),
      (''source_project_fingerprint'', JStr (okr_source_project_fingerprint r)), (''source_lesson_id'', JStr (okr_source_lesson_id r)),
      (''kind'', JStr (knowledge_kind_value (okr_kind r))), (''statement'', JStr (okr_statement r)),
      (''provenance'', JArr (map JObj (okr_provenance r))), (''evidence_digests'', jstrs (okr_evidence_digests r)),
      (''confidence'', (case okr_confidence r of (m, e) \<Rightarrow> JFloat m e)), (''sensitivity'', JStr (sensitivity_value (okr_sensitivity r))),
      (''applicability'', JObj (knowledge_applicability_to_dict (okr_applicability r))), (''fresh_until'', JStr (okr_fresh_until r)),
      (''validator_id'', JStr (okr_validator_id r)), (''promotion_actor_id'', JStr (okr_promotion_actor_id r)),
      (''promotion_policy'', JStr (okr_promotion_policy r)), (''promotion_decision'', JStr (okr_promotion_decision r)),
      (''created_at'', JStr (okr_created_at r))]"

definition organizational_record_to_dict :: "organizational_record \<Rightarrow> obj" where
  "organizational_record_to_dict r = unsigned_dict r @ [(''record_digest'', JStr (okr_record_digest r))]"

fun org_mappings :: "json \<Rightarrow> obj list res" where
  "org_mappings (JArr xs) = rmap org_mapping xs"
| "org_mappings _ = Inl OrganizationalKnowledgeError"

text \<open>
  A provenance that is not an array raises at once; its items are checked after the texts that come before it in the constructor call.
\<close>

definition is_array :: "json \<Rightarrow> bool" where
  "is_array j = (case j of JArr _ \<Rightarrow> True | _ \<Rightarrow> False)"

definition organizational_record_from_dict :: "advisory_env \<Rightarrow> obj \<Rightarrow> organizational_record res" where
  "organizational_record_from_dict env v = (let py = ad_float env in
     rbind (require_org (is_array (item_or v ''provenance'' (JArr [])))) (\<lambda>_.
     rbind (str_item py v ''id'') (\<lambda>i.
     rbind (str_item py v ''source_project_id'') (\<lambda>project.
     rbind (rbind (item v ''source_project_revision'') py_int) (\<lambda>revision.
     rbind (str_item py v ''source_project_fingerprint'') (\<lambda>fingerprint.
     rbind (str_item py v ''source_lesson_id'') (\<lambda>lesson.
     rbind (rbind (str_item py v ''kind'') to_knowledge_kind) (\<lambda>kind.
     rbind (str_item py v ''statement'') (\<lambda>statement.
     rbind (org_mappings (item_or v ''provenance'' (JArr []))) (\<lambda>provenance.
     rbind (org_strings (item_or v ''evidence_digests'' (JArr []))) (\<lambda>digests.
     rbind (rbind (item v ''confidence'') (to_float py)) (\<lambda>confidence.
     rbind (rbind (str_item py v ''sensitivity'') to_sensitivity) (\<lambda>s.
     rbind (rbind (rbind (item v ''applicability'') org_mapping) knowledge_applicability_from_dict) (\<lambda>b.
     rbind (str_item py v ''fresh_until'') (\<lambda>fresh.
     rbind (str_item py v ''validator_id'') (\<lambda>validator.
     rbind (str_item py v ''promotion_actor_id'') (\<lambda>actor.
     rbind (str_item py v ''promotion_policy'') (\<lambda>policy.
     rbind (str_item py v ''promotion_decision'') (\<lambda>decision.
     rbind (str_item py v ''created_at'') (\<lambda>created.
     rbind (str_item py v ''record_digest'') (\<lambda>digest.
     rbind (organizational_record_init env \<lparr>okr_id = i, okr_source_project_id = project, okr_source_project_revision = revision,
       okr_source_project_fingerprint = fingerprint, okr_source_lesson_id = lesson, okr_kind = kind, okr_statement = statement,
       okr_provenance = provenance, okr_evidence_digests = digests, okr_confidence = confidence, okr_sensitivity = s, okr_applicability = b,
       okr_fresh_until = fresh, okr_validator_id = validator, okr_promotion_actor_id = actor, okr_promotion_policy = policy,
       okr_promotion_decision = decision, okr_created_at = created, okr_record_digest = digest\<rparr>) (\<lambda>r.
     rbind (require_org (digest_of env (unsigned_dict r) = okr_record_digest r)) (\<lambda>_. Inr r)))))))))))))))))))))))"

section \<open>Recommendations\<close>

record knowledge_recommendation =
  krc_id :: string
  krc_knowledge_id :: string
  krc_knowledge_digest :: string
  krc_target_project_id :: string
  krc_target_revision :: int
  krc_target_fingerprint :: string
  krc_recommended_by :: string
  krc_created_at :: string
  krc_advisory :: bool

definition knowledge_recommendation_to_dict :: "knowledge_recommendation \<Rightarrow> obj" where
  "knowledge_recommendation_to_dict x =
     [(''id'', JStr (krc_id x)), (''knowledge_id'', JStr (krc_knowledge_id x)), (''knowledge_digest'', JStr (krc_knowledge_digest x)),
      (''target_project_id'', JStr (krc_target_project_id x)), (''target_revision'', JInt (krc_target_revision x)),
      (''target_fingerprint'', JStr (krc_target_fingerprint x)), (''recommended_by'', JStr (krc_recommended_by x)),
      (''created_at'', JStr (krc_created_at x)), (''advisory'', JBool (krc_advisory x))]"

definition knowledge_recommendation_from_dict :: "py_float \<Rightarrow> obj \<Rightarrow> knowledge_recommendation res" where
  "knowledge_recommendation_from_dict py v =
     rbind (str_item py v ''id'') (\<lambda>i.
     rbind (str_item py v ''knowledge_id'') (\<lambda>k.
     rbind (str_item py v ''knowledge_digest'') (\<lambda>d.
     rbind (str_item py v ''target_project_id'') (\<lambda>p.
     rbind (rbind (item v ''target_revision'') py_int) (\<lambda>n.
     rbind (str_item py v ''target_fingerprint'') (\<lambda>f.
     rbind (str_item py v ''recommended_by'') (\<lambda>who.
     rbind (str_item py v ''created_at'') (\<lambda>created.
     let result = \<lparr>krc_id = i, krc_knowledge_id = k, krc_knowledge_digest = d, krc_target_project_id = p, krc_target_revision = n,
       krc_target_fingerprint = f, krc_recommended_by = who, krc_created_at = created,
       krc_advisory = py_bool (item_or v ''advisory'' (JBool True))\<rparr> in
     rbind (require_org (\<not> (\<not> prefix ''ORGR-'' (krc_id result) \<or> \<not> krc_advisory result))) (\<lambda>_.
     rbind (org_sha256 (krc_knowledge_digest result)) (\<lambda>_.
     rbind (org_sha256 (krc_target_fingerprint result)) (\<lambda>_. Inr result)))))))))))"

section \<open>The store\<close>

definition audit_org :: "string \<Rightarrow> string \<Rightarrow> json \<Rightarrow> (advisory_db, unit) eff" where
  "audit_org event actor payload =
     modify (\<lambda>d. d\<lparr>ad_audit := ad_audit d @ [\<lparr>av_event_type = event, av_actor_id = actor, av_payload = payload\<rparr>]\<rparr>)"

definition insert_record :: "knowledge_row \<Rightarrow> (advisory_db, unit) eff" where
  "insert_record r =
     bnd (check (\<lambda>d. kr_id r \<notin> kr_id ` set (ad_records d) \<and> kr_digest r \<notin> kr_digest ` set (ad_records d)) IntegrityError) (\<lambda>_.
     modify (\<lambda>d. d\<lparr>ad_records := ad_records d @ [r]\<rparr>))"

definition insert_recommendation :: "recommendation_row \<Rightarrow> (advisory_db, unit) eff" where
  "insert_recommendation r =
     bnd (check (\<lambda>d. rr_id r \<notin> rr_id ` set (ad_recommendations d) \<and> rr_digest r \<notin> rr_digest ` set (ad_recommendations d) \<and>
       rr_knowledge_id r \<in> kr_id ` set (ad_records d)) IntegrityError) (\<lambda>_.
     modify (\<lambda>d. d\<lparr>ad_recommendations := ad_recommendations d @ [r]\<rparr>))"

definition insert_quarantine :: "quarantine_row \<Rightarrow> (advisory_db, unit) eff" where
  "insert_quarantine r =
     bnd (check (\<lambda>d. qr_migration_id r \<notin> qr_migration_id ` set (ad_quarantine d) \<and>
       (qr_instance_id r, qr_lesson_id r) \<notin> (\<lambda>q. (qr_instance_id q, qr_lesson_id q)) ` set (ad_quarantine d)) IntegrityError) (\<lambda>_.
     modify (\<lambda>d. d\<lparr>ad_quarantine := ad_quarantine d @ [r]\<rparr>))"

definition add_record :: "organizational_record \<Rightarrow> (advisory, unit) eff" where
  "add_record r = in_database (
     bnd (insert_record \<lparr>kr_id = okr_id r, kr_digest = okr_record_digest r, kr_payload = JObj (organizational_record_to_dict r)\<rparr>) (\<lambda>_.
     audit_org ''KNOWLEDGE_PROMOTED'' (okr_promotion_actor_id r)
       (JObj [(''id'', JStr (okr_id r)), (''digest'', JStr (okr_record_digest r))])))"

text \<open>What the store reads for an identifier\<close>

definition stored_record :: "advisory_env \<Rightarrow> string \<Rightarrow> advisory_db \<Rightarrow> organizational_record res" where
  "stored_record env identifier d = (case find (\<lambda>r. kr_id r = identifier) (ad_records d) of
     None \<Rightarrow> Inl OrganizationalKnowledgeError
   | Some row \<Rightarrow> rbind (rbind (org_mapping (kr_payload row)) (organizational_record_from_dict env)) (\<lambda>r.
       rbind (require_org (\<not> okr_record_digest r \<noteq> kr_digest row)) (\<lambda>_. Inr r)))"

definition get_record :: "advisory_env \<Rightarrow> string \<Rightarrow> (advisory, organizational_record) eff" where
  "get_record env identifier = (\<lambda>w. (stored_record env identifier (aw_db w), w))"

text \<open>\<open>records\<close>\<close>

definition stored_records :: "advisory_env \<Rightarrow> advisory_db \<Rightarrow> organizational_record list res" where
  "stored_records env d = rmap (\<lambda>i. stored_record env i d) (sort (map kr_id (ad_records d)))"

definition add_recommendation :: "advisory_env \<Rightarrow> knowledge_recommendation \<Rightarrow> (advisory, unit) eff" where
  "add_recommendation env x = in_database (
     bnd (insert_recommendation \<lparr>rr_id = krc_id x, rr_knowledge_id = krc_knowledge_id x, rr_target_project_id = krc_target_project_id x,
       rr_digest = digest_of env (knowledge_recommendation_to_dict x), rr_payload = JObj (knowledge_recommendation_to_dict x)\<rparr>) (\<lambda>_.
     audit_org ''KNOWLEDGE_RECOMMENDED'' (krc_recommended_by x) (JObj (knowledge_recommendation_to_dict x))))"

definition stored_recommendation :: "advisory_env \<Rightarrow> string \<Rightarrow> advisory_db \<Rightarrow> knowledge_recommendation res" where
  "stored_recommendation env identifier d = (case find (\<lambda>r. rr_id r = identifier) (ad_recommendations d) of
     None \<Rightarrow> Inl OrganizationalKnowledgeError
   | Some row \<Rightarrow> rbind (rbind (org_mapping (rr_payload row)) (knowledge_recommendation_from_dict (ad_float env))) (\<lambda>x.
       rbind (require_org (\<not> (krc_knowledge_id x \<noteq> rr_knowledge_id row \<or> krc_target_project_id x \<noteq> rr_target_project_id row \<or>
         digest_of env (knowledge_recommendation_to_dict x) \<noteq> rr_digest row))) (\<lambda>_. Inr x)))"

definition get_recommendation :: "advisory_env \<Rightarrow> string \<Rightarrow> (advisory, knowledge_recommendation) eff" where
  "get_recommendation env identifier = (\<lambda>w. (stored_recommendation env identifier (aw_db w), w))"

definition quarantine_knowledge :: "advisory_env \<Rightarrow> string \<Rightarrow> knowledge_item \<Rightarrow> string \<Rightarrow> string list \<Rightarrow> string \<Rightarrow> (advisory, obj) eff" where
  "quarantine_knowledge env instance_id i classification reasons actor =
     bnd (advisory_uuid env) (\<lambda>u.
     bnd (advisory_now env) (\<lambda>now.
     let payload = [(''migration_id'', JStr (''MIGK-'' @ u)), (''instance_id'', JStr instance_id), (''lesson_id'', JStr (ki_id i)),
       (''classification'', JStr classification), (''reasons'', jstrs reasons), (''knowledge'', JObj (knowledge_item_to_dict i)),
       (''acceptance'', JStr ''N/A''), (''searchable'', JBool False), (''created_at'', JStr now)] in
     in_database (
       bnd (gets (\<lambda>d. find (\<lambda>q. qr_instance_id q = instance_id \<and> qr_lesson_id q = ki_id i) (ad_quarantine d))) (\<lambda>existing.
       case existing of Some q \<Rightarrow> lift (org_mapping (qr_payload q))
       | None \<Rightarrow>
         bnd (insert_quarantine \<lparr>qr_migration_id = ''MIGK-'' @ u, qr_instance_id = instance_id, qr_lesson_id = ki_id i,
           qr_classification = classification, qr_payload = JObj payload\<rparr>) (\<lambda>_.
         bnd (audit_org ''V1_KNOWLEDGE_QUARANTINED'' actor (JObj payload)) (\<lambda>_.
         ret payload))))))"

section \<open>The service\<close>

text \<open>\<open>max(0.7, item.promotion_policy.minimum_confidence)\<close>\<close>

definition float_max :: "int \<times> int \<Rightarrow> int \<times> int \<Rightarrow> int \<times> int" where
  "float_max x y = (if float_less x y then y else x)"

definition validate_promotable :: "knowledge_item \<Rightarrow> unit res" where
  "validate_promotable i = (let policy = ki_promotion_policy i in
     rbind (require_org (\<not> (ki_scope i \<noteq> SC_PROJECT \<or> ki_state i \<noteq> KS_CURRENT))) (\<lambda>_.
     rbind (require_org (ki_kind i \<in> {KK_LESSON, KK_PATTERN})) (\<lambda>_.
     rbind (require_org (\<not> float_less (ki_confidence i) (float_max seven_tenths (pp_minimum_confidence policy)))) (\<lambda>_.
     rbind (require_org (ki_sensitivity i \<noteq> SN_RESTRICTED)) (\<lambda>_.
     rbind (require_org (\<not> sensitivity_rank (ki_sensitivity i) > sensitivity_rank (pp_maximum_sensitivity policy))) (\<lambda>_.
     require_org (\<not> int (sum_list (map (\<lambda>p. length (kv_evidence_ids p)) (ki_provenance i))) < pp_minimum_evidence policy)))))))"

definition require_separate_from :: "advisory_env \<Rightarrow> string list \<Rightarrow> unit res" where
  "require_separate_from env project_root = require_org (\<not> prefix project_root (ad_database env))"

definition record_project_lesson :: "advisory_env \<Rightarrow> string list \<Rightarrow> string \<Rightarrow> knowledge_item \<Rightarrow> actor_principal \<Rightarrow> (advisory, knowledge_item) eff" where
  "record_project_lesson env project_root project_id lesson actor =
     bnd (lift (require_separate_from env project_root)) (\<lambda>_.
     bnd (authorize_knowledge env actor ''knowledge:record'' project_id) (\<lambda>_.
     bnd (at_project env project_root current) (\<lambda>cur.
     bnd (lift (require_org (\<not> sr_project_id cur \<noteq> project_id))) (\<lambda>_.
     bnd (lift (require_org (\<not> (ki_scope lesson \<noteq> SC_PROJECT \<or> ki_project_id lesson \<noteq> Some project_id)))) (\<lambda>_.
     bnd (lift (validate_promotable lesson)) (\<lambda>_.
     bnd (lift (project_lesson_store project_id)) (\<lambda>p.
     bnd (gets (\<lambda>w. map_of (aw_lessons w) project_root)) (\<lambda>f.
     bnd (lift (lesson_add p lesson f)) (\<lambda>f'.
     bnd (modify (\<lambda>w. w\<lparr>aw_lessons := AList.update project_root f' (aw_lessons w)\<rparr>)) (\<lambda>_.
     ret lesson))))))))))"

text \<open>The document a promotion signs\<close>

definition promotion_document :: "advisory_env \<Rightarrow> string \<Rightarrow> string \<Rightarrow> semantic_revision \<Rightarrow> knowledge_item \<Rightarrow> knowledge_applicability \<Rightarrow> string \<Rightarrow>
    string list \<Rightarrow> string \<Rightarrow> actor_principal \<Rightarrow> string \<Rightarrow> obj" where
  "promotion_document env u project_id source lesson b fresh digests validator actor timestamp =
     [(''id'', JStr (''ORGK-'' @ u)), (''source_project_id'', JStr project_id),
       (''source_project_revision'', JInt (sr_number source)), (''source_project_fingerprint'', JStr (sr_fingerprint source)),
       (''source_lesson_id'', JStr (ki_id lesson)), (''kind'', JStr (knowledge_kind_value (ki_kind lesson))),
       (''statement'', JStr (ki_statement lesson)),
       (''provenance'', JArr (map (\<lambda>x. JObj (knowledge_provenance_to_dict x)) (ki_provenance lesson))), (''evidence_digests'', jstrs digests),
       (''confidence'', (case ki_confidence lesson of (m, e) \<Rightarrow> JFloat m e)), (''sensitivity'', JStr (sensitivity_value (ki_sensitivity lesson))),
       (''applicability'', JObj (knowledge_applicability_to_dict b)), (''fresh_until'', JStr fresh), (''validator_id'', JStr validator),
       (''promotion_actor_id'', JStr (actor_id actor)),
       (''promotion_policy'', JStr (canonical_text (ad_float env) (JObj (promotion_policy_to_dict (ki_promotion_policy lesson))))),
       (''promotion_decision'', JStr ''APPROVED''), (''created_at'', JStr timestamp)]"

definition promote_organizational :: "advisory_env \<Rightarrow> string list \<Rightarrow> string \<Rightarrow> string \<Rightarrow> knowledge_applicability \<Rightarrow> string \<Rightarrow> string list \<Rightarrow>
    string \<Rightarrow> actor_principal \<Rightarrow> string option \<Rightarrow> (advisory, organizational_record) eff" where
  "promote_organizational env project_root project_id lesson_id b fresh digests validator actor created_at =
     bnd (lift (require_separate_from env project_root)) (\<lambda>_.
     bnd (authorize_knowledge env actor ''knowledge:promote'' project_id) (\<lambda>_.
     bnd (at_project env project_root current) (\<lambda>source.
     bnd (lift (require_org (\<not> sr_project_id source \<noteq> project_id))) (\<lambda>_.
     bnd (lift (project_lesson_store project_id)) (\<lambda>p.
     bnd (gets (\<lambda>w. map_of (aw_lessons w) project_root)) (\<lambda>f.
     bnd (lift (lesson_list (ad_float env) (ad_instant env) p f)) (\<lambda>lessons.
     let matches = filter (\<lambda>i. ki_id i = lesson_id) lessons in
     bnd (lift (require_org (length matches = 1))) (\<lambda>_.
     let lesson = hd matches in
     bnd (lift (validate_promotable lesson)) (\<lambda>_.
     bnd (lift (rmap org_sha256 digests)) (\<lambda>_.
     let evidence_ids = remdups (concat (map kv_evidence_ids (ki_provenance lesson))) in
     bnd (lift (require_org (\<not> length digests < max 1 (length evidence_ids)))) (\<lambda>_.
     bnd (given_or_now env created_at) (\<lambda>timestamp.
     bnd (advisory_uuid env) (\<lambda>u.
     let unsigned = promotion_document env u project_id source lesson b fresh digests validator actor timestamp in
     bnd (lift (organizational_record_from_dict env (unsigned @ [(''record_digest'', JStr (digest_of env unsigned))]))) (\<lambda>r.
     bnd (add_record r) (\<lambda>_.
     ret r)))))))))))))))"

text \<open>\<open>re.findall(r"[A-Za-z0-9_-]+", text)\<close>\<close>

definition term_char :: "char \<Rightarrow> bool" where
  "term_char c \<longleftrightarrow> is_lower c \<or> is_upper c \<or> is_digit c \<or> c = CHR ''_'' \<or> c = CHR ''-''"

fun find_terms :: "string \<Rightarrow> string \<Rightarrow> string list" where
  "find_terms word [] = (if word = [] then [] else [word])"
| "find_terms word (c # cs) = (if term_char c then find_terms (word @ [c]) cs else (if word = [] then [] else [word]) @ find_terms [] cs)"

definition found_by :: "string \<Rightarrow> organizational_record \<Rightarrow> bool" where
  "found_by query r \<longleftrightarrow> set (map casefold (find_terms [] query)) \<inter> set (find_terms [] (casefold (okr_statement r))) \<noteq> {}"

definition float_value :: "int \<times> int \<Rightarrow> rat" where
  "float_value x = (case x of (m, e) \<Rightarrow> if 0 \<le> e then of_int m * 2 ^ nat e else of_int m / 2 ^ nat (- e))"

text \<open>\<open>sorted\<close> by falling confidence and then by identifier\<close>

definition by_confidence :: "organizational_record list \<Rightarrow> organizational_record list" where
  "by_confidence rs = sort_key (\<lambda>r. - float_value (okr_confidence r)) (sort_key okr_id rs)"

fun search_records :: "advisory_env \<Rightarrow> (organizational_record \<Rightarrow> bool) \<Rightarrow> moment \<Rightarrow> organizational_record list \<Rightarrow> organizational_record list res" where
  "search_records env wanted now [] = Inr []"
| "search_records env wanted now (r # rs) =
     rbind (org_instant env (okr_fresh_until r)) (\<lambda>horizon.
     rbind (search_records env wanted now rs) (\<lambda>found.
     Inr (if \<not> moment_le horizon now \<and> wanted r then r # found else found)))"

definition search_knowledge :: "advisory_env \<Rightarrow> string \<Rightarrow> string \<Rightarrow> actor_principal \<Rightarrow> sensitivity \<Rightarrow> string set \<Rightarrow> string set \<Rightarrow> string option \<Rightarrow>
    (advisory, organizational_record list) eff" where
  "search_knowledge env query project_id actor clearance tags domains now =
     bnd (authorize_knowledge env actor ''knowledge:read'' project_id) (\<lambda>_.
     bnd (lift (require_org (\<not> blank query))) (\<lambda>_.
     bnd (given_or_now env now) (\<lambda>seen.
     bnd (lift (org_instant env seen)) (\<lambda>instant.
     bnd (\<lambda>w. (stored_records env (aw_db w), w)) (\<lambda>records.
     lift (rbind (search_records env (\<lambda>r. \<not> sensitivity_rank (okr_sensitivity r) > sensitivity_rank clearance \<and>
         applicable_to (okr_applicability r) project_id tags domains \<and> found_by query r) instant records) (\<lambda>found.
       Inr (by_confidence found))))))))"

definition recommend :: "advisory_env \<Rightarrow> string \<Rightarrow> string list \<Rightarrow> string \<Rightarrow> actor_principal \<Rightarrow> sensitivity \<Rightarrow> string option \<Rightarrow>
    (advisory, knowledge_recommendation) eff" where
  "recommend env knowledge_id project_root project_id actor clearance now =
     bnd (lift (require_separate_from env project_root)) (\<lambda>_.
     bnd (authorize_knowledge env actor ''knowledge:recommend'' project_id) (\<lambda>_.
     bnd (get_record env knowledge_id) (\<lambda>r.
     bnd (given_or_now env now) (\<lambda>seen.
     bnd (lift (org_instant env seen)) (\<lambda>instant.
     bnd (lift (org_instant env (okr_fresh_until r))) (\<lambda>horizon.
     bnd (lift (require_org (\<not> moment_le horizon instant))) (\<lambda>_.
     bnd (req (\<not> sensitivity_rank (okr_sensitivity r) > sensitivity_rank clearance) PermissionError) (\<lambda>_.
     bnd (lift (require_org (applicable_to (okr_applicability r) project_id {} {}))) (\<lambda>_.
     bnd (at_project env project_root current) (\<lambda>target.
     bnd (lift (require_org (\<not> sr_project_id target \<noteq> project_id))) (\<lambda>_.
     bnd (advisory_uuid env) (\<lambda>u.
     bnd (given_or_now env now) (\<lambda>created.
     let x = \<lparr>krc_id = ''ORGR-'' @ u, krc_knowledge_id = okr_id r, krc_knowledge_digest = okr_record_digest r,
       krc_target_project_id = project_id, krc_target_revision = sr_number target, krc_target_fingerprint = sr_fingerprint target,
       krc_recommended_by = actor_id actor, krc_created_at = created, krc_advisory = True\<rparr> in
     bnd (add_recommendation env x) (\<lambda>_.
     ret x))))))))))))))"

definition adoption_of :: "advisory_env \<Rightarrow> organizational_record \<Rightarrow> string \<Rightarrow> string \<Rightarrow> string \<Rightarrow> adoption_provenance list \<Rightarrow> knowledge_adoption" where
  "adoption_of env r recommendation_id actor adopted_at provenance = \<lparr>ka_organizational_knowledge_id = okr_id r, ka_recommendation_id = recommendation_id,
     ka_statement = okr_statement r, ka_source_project_id = okr_source_project_id r, ka_source_project_revision = okr_source_project_revision r,
     ka_source_project_fingerprint = okr_source_project_fingerprint r, ka_source_lesson_id = okr_source_lesson_id r, ka_provenance = provenance,
     ka_confidence = okr_confidence r, ka_applicable_project_ids = kb_project_ids (okr_applicability r),
     ka_applicability_tags = kb_tags (okr_applicability r), ka_applicability_domains = kb_domains (okr_applicability r),
     ka_fresh_until = okr_fresh_until r, ka_record_digest = okr_record_digest r, ka_evidence_digests = okr_evidence_digests r,
     ka_validator_id = okr_validator_id r, ka_promotion_actor_id = okr_promotion_actor_id r, ka_promotion_policy = okr_promotion_policy r,
     ka_promotion_decision = okr_promotion_decision r, ka_adopted_by = actor, ka_adopted_at = adopted_at\<rparr>"

definition adopt_knowledge :: "advisory_env \<Rightarrow> string \<Rightarrow> string list \<Rightarrow> int \<Rightarrow> actor_principal \<Rightarrow> string option \<Rightarrow>
    (advisory, semantic_proposal \<times> semantic_revision \<times> knowledge_adoption) eff" where
  "adopt_knowledge env recommendation_id project_root expected actor accepted_at =
     bnd (lift (require_separate_from env project_root)) (\<lambda>_.
     bnd (get_recommendation env recommendation_id) (\<lambda>x.
     bnd (authorize_knowledge env actor ''knowledge:adopt'' (krc_target_project_id x)) (\<lambda>_.
     bnd (at_project env project_root current) (\<lambda>cur.
     bnd (lift (require_org (\<not> (sr_number cur \<noteq> expected \<or> sr_number cur \<noteq> krc_target_revision x)))) (\<lambda>_.
     bnd (lift (require_org (\<not> sr_fingerprint cur \<noteq> krc_target_fingerprint x))) (\<lambda>_.
     bnd (get_record env (krc_knowledge_id x)) (\<lambda>r.
     bnd (lift (require_org (\<not> okr_record_digest r \<noteq> krc_knowledge_digest x))) (\<lambda>_.
     bnd (lift (org_instant env (okr_fresh_until r))) (\<lambda>horizon.
     bnd (given_or_now env accepted_at) (\<lambda>seen.
     bnd (lift (org_instant env seen)) (\<lambda>instant.
     bnd (lift (require_org (\<not> moment_le horizon instant))) (\<lambda>_.
     bnd (lift (require_org (applicable_to (okr_applicability r) (sr_project_id cur) {} {}))) (\<lambda>_.
     bnd (lift (rmap (adoption_provenance_from_dict (ad_float env)) (okr_provenance r))) (\<lambda>provenance.
     bnd (given_or_now env accepted_at) (\<lambda>adopted_at.
     bnd (lift (knowledge_adoption_init (adoption_of env r (krc_id x) (actor_id actor) adopted_at provenance))) (\<lambda>adoption.
     bnd (lift (project_model_init ((sr_model cur)\<lparr>pm_knowledge_adoptions := pm_knowledge_adoptions (sr_model cur) @ [adoption]\<rparr>))) (\<lambda>m.
     bnd (at_project env project_root (\<lambda>pe. propose pe m expected (actor_id actor) ''ORGANIZATIONAL_KNOWLEDGE_ADOPTION'' None None)) (\<lambda>proposal.
     bnd (at_project env project_root (\<lambda>pe. accept pe (sp_id proposal) expected (actor_id actor) accepted_at)) (\<lambda>revision.
     ret (proposal, revision, adoption))))))))))))))))))))"

text \<open>\<open>_PROJECT_SOURCE.fullmatch(provenance.source)\<close>: the Project a provenance names\<close>

definition project_source :: "knowledge_provenance \<Rightarrow> string option" where
  "project_source p = (if prefix ''project:'' (kv_source p) \<and> namespace_text (drop 8 (kv_source p)) then Some (drop 8 (kv_source p)) else None)"

definition quarantine_reasons :: "knowledge_item \<Rightarrow> string list" where
  "quarantine_reasons i =
     (if ki_scope i \<noteq> SC_INSTANCE then [''NOT_INSTANCE''] else []) @
     (if ki_promoted_from i \<noteq> Some SC_PROJECT then [''NOT_PROJECT_PROMOTED''] else []) @
     (if ki_state i \<noteq> KS_CURRENT then [''NOT_CURRENT''] else []) @
     (if card (set (List.map_filter project_source (ki_provenance i))) \<noteq> 1 then [''PROJECT_PROVENANCE_UNBOUND''] else []) @
     (if ki_sensitivity i = SN_RESTRICTED then [''RESTRICTED''] else []) @
     (if float_less (ki_confidence i) seven_tenths then [''LOW_CONFIDENCE''] else []) @
     (if \<not> list_ex (\<lambda>p. kv_evidence_ids p \<noteq> []) (ki_provenance i) then [''EVIDENCE_UNBOUND''] else [])"

definition quarantine_class :: "knowledge_item \<Rightarrow> string" where
  "quarantine_class i = (if quarantine_reasons i = [] then ''ELIGIBLE_QUARANTINE'' else ''INELIGIBLE_QUARANTINE'')"

fun classify_items :: "advisory_env \<Rightarrow> string \<Rightarrow> string \<Rightarrow> bool \<Rightarrow> knowledge_item list \<Rightarrow> (advisory, obj list) eff" where
  "classify_items env instance_id actor applied [] = ret []"
| "classify_items env instance_id actor applied (i # is) =
     bnd (if applied then quarantine_knowledge env instance_id i (quarantine_class i) (quarantine_reasons i) actor
          else ret [(''instance_id'', JStr instance_id), (''lesson_id'', JStr (ki_id i)), (''classification'', JStr (quarantine_class i)),
            (''reasons'', jstrs (quarantine_reasons i)), (''acceptance'', JStr ''N/A''), (''searchable'', JBool False)]) (\<lambda>value.
     bnd (classify_items env instance_id actor applied is) (\<lambda>others. ret (value # others)))"

definition classify_v1_instance :: "advisory_env \<Rightarrow> string list \<Rightarrow> string \<Rightarrow> actor_principal \<Rightarrow> bool \<Rightarrow> (advisory, obj list) eff" where
  "classify_v1_instance env state_root instance_id actor applied =
     bnd (authorize_knowledge env actor ''knowledge:migrate'' ''*'') (\<lambda>_.
     bnd (lift (knowledge_namespace instance_id)) (\<lambda>i.
     bnd (gets (\<lambda>w. map_of (aw_instances w) (state_root @ [''instances'', i]))) (\<lambda>f.
     bnd (lift (instance_list (ad_float env) (ad_instant env) f)) (\<lambda>items.
     classify_items env instance_id (actor_id actor) applied items))))"

end
