(* ===== verification/Knowledge_Isolation.thy ===== *)
theory Knowledge_Isolation
  imports Knowledge_Store
begin

text \<open>
  What the knowledge collections promise: every collection returns the records that were accepted into it, in order and once per identifier
  (locale \<open>typed_collection\<close>, interpreted for items, proposals and overlays), and the collections of an instance never mix scopes or
  integrations, whatever calls are made and whatever happens to the installed Core.
\<close>

section \<open>Typed collections\<close>

definition keep_new :: "('a \<Rightarrow> string) \<Rightarrow> 'a list \<Rightarrow> 'a \<Rightarrow> 'a list" where
  "keep_new ident xs x = (if ident x \<in> ident ` set xs then xs else xs @ [x])"

locale typed_collection =
  fixes encode :: "'a \<Rightarrow> obj" and decode :: "obj \<Rightarrow> 'a res" and ident :: "'a \<Rightarrow> string" and valid :: "'a \<Rightarrow> bool"
  assumes decode_encode: "valid x \<Longrightarrow> decode (encode x) = Inr x"
    and encoded_id: "item_or (encode x) ''id'' JNull = JStr (ident x)"
begin

text \<open>The collection's file holds these records.\<close>

definition holds :: "file_content option \<Rightarrow> 'a list \<Rightarrow> bool" where
  "holds f xs \<longleftrightarrow> list_all valid xs \<and> distinct (map ident xs) \<and> collection_load f = Inr (map encode xs)"

lemma holds_empty: "holds None []"
  by (simp add: holds_def collection_load_def)

lemma holds_load: "holds f xs \<Longrightarrow> rbind (collection_load f) (rmap decode) = Inr xs"
  unfolding holds_def by (elim conjE) (simp add: rmap_roundtrip [where P = valid] decode_encode)

lemma append_run:
  assumes "holds f xs"
  shows "append_unique (ident x) (encode x) f =
    (if ident x \<in> ident ` set xs then Inl ValueError else Inr (Document (JArr (map JObj (map encode (keep_new ident xs x))))))"
proof -
  have "list_ex (\<lambda>r. item_or r ''id'' JNull = JStr (ident x)) (map encode xs) \<longleftrightarrow> ident x \<in> ident ` set xs"
    by (auto simp: list_ex_iff encoded_id image_iff intro: sym)
  then show ?thesis
    using assms by (auto simp: append_unique_def holds_def keep_new_def require_value_def ensure_def)
qed

lemma holds_appended:
  assumes "holds f xs" "valid x" "ident x \<notin> ident ` set xs"
  shows "holds (Some (Document (JArr (map JObj (map encode (keep_new ident xs x)))))) (keep_new ident xs x)"
  using assms rmap_objs [of encode "keep_new ident xs x"] by (simp add: holds_def keep_new_def collection_load_def comp_def)

text \<open>Whether a call raises or not, the file holds the records it held and the new one, unless its identifier was taken.\<close>

lemma holds_step:
  assumes "holds f xs" "valid x"
  shows "holds (case append_unique (ident x) (encode x) f of Inl e \<Rightarrow> f | Inr f' \<Rightarrow> Some f') (keep_new ident xs x)"
  using assms append_run [OF assms(1), of x] holds_appended [OF assms] by (simp add: keep_new_def)

end

section \<open>The three kinds of record\<close>

definition proposal_ok :: "improvement_proposal \<Rightarrow> bool" where
  "proposal_ok p \<longleftrightarrow> stable_text (ip_id p) \<and> list_all stable_text (ip_lesson_ids p) \<and> finite (ip_requested_privileges p) \<and>
     improvement_proposal_init p = Inr p"

definition overlay_ok :: "candidate_overlay \<Rightarrow> bool" where
  "overlay_ok x \<longleftrightarrow> stable_text (ov_proposal_id x) \<and> finite (ov_requested_privileges x) \<and> candidate_overlay_init x = Inr x"

lemma improvement_proposal_roundtrip:
  "proposal_ok p \<Longrightarrow> improvement_proposal_from_dict py (improvement_proposal_to_dict p) = Inr p"
  by (cases p) (simp add: proposal_ok_def improvement_proposal_from_dict_def improvement_proposal_to_dict_def stable_rmap stable_text_def)

lemma candidate_overlay_roundtrip: "overlay_ok x \<Longrightarrow> candidate_overlay_from_dict py (candidate_overlay_to_dict x) = Inr x"
  by (cases x) (simp add: overlay_ok_def candidate_overlay_from_dict_def candidate_overlay_to_dict_def stable_text_def)

interpretation items: typed_collection knowledge_item_to_dict "knowledge_item_from_dict py timeof" ki_id "knowledge_item_ok timeof" for py timeof
  by unfold_locales (erule knowledge_item_roundtrip, simp add: knowledge_item_to_dict_def)

interpretation proposals: typed_collection improvement_proposal_to_dict "improvement_proposal_from_dict py" ip_id proposal_ok for py
  by unfold_locales (erule improvement_proposal_roundtrip, simp add: improvement_proposal_to_dict_def)

interpretation overlays: typed_collection candidate_overlay_to_dict "candidate_overlay_from_dict py" ov_id overlay_ok for py
  by unfold_locales (erule candidate_overlay_roundtrip, simp add: candidate_overlay_to_dict_def)

section \<open>The instance store as lists\<close>

text \<open>Calls of the store, and what others may do to the installed Core meanwhile\<close>

datatype isolation_call = Add_Item knowledge_item | Add_Proposal improvement_proposal | Add_Overlay candidate_overlay
  | Add_Memory string knowledge_item | Core_Becomes "string option"

fun isolation_run :: "instance_store \<Rightarrow> isolation_call \<Rightarrow> instance_dir \<Rightarrow> instance_dir" where
  "isolation_run st (Add_Item i) d = snd (instance_add st i d)"
| "isolation_run st (Add_Proposal p) d = snd (add_proposal st p d)"
| "isolation_run st (Add_Overlay x) d = snd (add_overlay st x d)"
| "isolation_run st (Add_Memory g i) d = snd (add_integration_memory st g i d)"
| "isolation_run st (Core_Becomes c) d = d\<lparr>kd_core := c\<rparr>"

text \<open>The arguments are objects the classes can construct.\<close>

fun isolation_call_ok :: "(string \<Rightarrow> moment option) \<Rightarrow> isolation_call \<Rightarrow> bool" where
  "isolation_call_ok timeof (Add_Item i) = knowledge_item_ok timeof i"
| "isolation_call_ok timeof (Add_Proposal p) = proposal_ok p"
| "isolation_call_ok timeof (Add_Overlay x) = overlay_ok x"
| "isolation_call_ok timeof (Add_Memory g i) = knowledge_item_ok timeof i"
| "isolation_call_ok timeof (Core_Becomes c) = True"

text \<open>The abstract store: lists, one for every integration\<close>

record knowledge_view =
  vw_items :: "knowledge_item list"
  vw_proposals :: "improvement_proposal list"
  vw_overlays :: "candidate_overlay list"
  vw_memory :: "string \<Rightarrow> knowledge_item list"

definition empty_view :: knowledge_view where
  "empty_view = \<lparr>vw_items = [], vw_proposals = [], vw_overlays = [], vw_memory = (\<lambda>_. [])\<rparr>"

definition belongs_to :: "string \<Rightarrow> knowledge_item \<Rightarrow> bool" where
  "belongs_to provider i \<longleftrightarrow> ki_scope i = SC_HARNESS \<and> declared_integrations i = {provider}"

fun view_step :: "isolation_call \<Rightarrow> knowledge_view \<Rightarrow> knowledge_view" where
  "view_step (Add_Item i) v = (if ki_scope i = SC_INSTANCE then v\<lparr>vw_items := keep_new ki_id (vw_items v) i\<rparr> else v)"
| "view_step (Add_Proposal p) v = v\<lparr>vw_proposals := keep_new ip_id (vw_proposals v) p\<rparr>"
| "view_step (Add_Overlay x) v = v\<lparr>vw_overlays := keep_new ov_id (vw_overlays v) x\<rparr>"
| "view_step (Add_Memory g i) v = (case knowledge_namespace (lower g) of Inl e \<Rightarrow> v
    | Inr p \<Rightarrow> if belongs_to p i then v\<lparr>vw_memory := (vw_memory v)(p := keep_new ki_id (vw_memory v p) i)\<rparr> else v)"
| "view_step (Core_Becomes c) v = v"

definition shows_view :: "(string \<Rightarrow> moment option) \<Rightarrow> instance_dir \<Rightarrow> knowledge_view \<Rightarrow> bool" where
  "shows_view timeof d v \<longleftrightarrow> items.holds timeof (kd_knowledge d) (vw_items v) \<and> list_all (\<lambda>i. ki_scope i = SC_INSTANCE) (vw_items v) \<and>
     proposals.holds (kd_proposals d) (vw_proposals v) \<and> overlays.holds (kd_overlays d) (vw_overlays v) \<and>
     (\<forall>p. items.holds timeof (map_of (kd_memory d) p) (vw_memory v p) \<and> list_all (belongs_to p) (vw_memory v p))"

definition appended :: "string \<Rightarrow> obj \<Rightarrow> file_content option \<Rightarrow> file_content option" where
  "appended i value f = (case append_unique i value f of Inl e \<Rightarrow> f | Inr f' \<Rightarrow> Some f')"

lemma assert_core_unchanged_keeps [simp]: "snd (assert_core_unchanged st d) = d"
  by (simp add: assert_core_unchanged_def core_fingerprint_def bnd_def some_or_def split: option.split)

lemma instance_add_state:
  "snd (instance_add st i d) = (if ki_scope i = SC_INSTANCE then d\<lparr>kd_knowledge := appended (ki_id i) (knowledge_item_to_dict i) (kd_knowledge d)\<rparr> else d)"
  by (simp add: instance_add_def require_isolated_def appended_def bnd_def split: sum.split)

lemma add_proposal_state: "snd (add_proposal st p d) = d\<lparr>kd_proposals := appended (ip_id p) (improvement_proposal_to_dict p) (kd_proposals d)\<rparr>"
  by (simp add: add_proposal_def appended_def bnd_def split: sum.split)

lemma add_overlay_state: "snd (add_overlay st x d) = d\<lparr>kd_overlays := appended (ov_id x) (candidate_overlay_to_dict x) (kd_overlays d)\<rparr>"
  by (simp add: add_overlay_def appended_def bnd_def split: sum.split)

lemma add_memory_state:
  "map_of (kd_memory (snd (add_integration_memory st g i d))) q = (case knowledge_namespace (lower g) of
     Inr p \<Rightarrow> if belongs_to p i \<and> q = p then appended (ki_id i) (knowledge_item_to_dict i) (map_of (kd_memory d) q) else map_of (kd_memory d) q
   | Inl e \<Rightarrow> map_of (kd_memory d) q)"
  "kd_knowledge (snd (add_integration_memory st g i d)) = kd_knowledge d" "kd_proposals (snd (add_integration_memory st g i d)) = kd_proposals d"
  "kd_overlays (snd (add_integration_memory st g i d)) = kd_overlays d"
  by (auto simp: add_integration_memory_def appended_def belongs_to_def require_isolated_def ensure_def bnd_def update_conv' split: sum.split)

lemma list_all_keep_new: "list_all P xs \<Longrightarrow> P x \<Longrightarrow> list_all P (keep_new ident xs x)"
  by (simp add: keep_new_def)

lemma shows_view_step:
  assumes v: "shows_view timeof d v" and ok: "isolation_call_ok timeof call"
  shows "shows_view timeof (isolation_run st call d) (view_step call v)"
proof (cases call)
  case (Add_Memory g i)
  note files = items.holds_step [of timeof "map_of (kd_memory d) p" "vw_memory v p" i for p, folded appended_def]
  show ?thesis
  proof (cases "knowledge_namespace (lower g)")
    case (Inr p)
    then show ?thesis using v ok files by (auto simp: shows_view_def Add_Memory add_memory_state list_all_keep_new)
  qed (use v in \<open>simp add: shows_view_def Add_Memory add_memory_state\<close>)
qed (use v ok items.holds_step [of timeof, folded appended_def] proposals.holds_step [folded appended_def] overlays.holds_step [folded appended_def] in
    \<open>auto simp: shows_view_def instance_add_state add_proposal_state add_overlay_state list_all_keep_new\<close>)

definition new_instance_dir :: "string option \<Rightarrow> instance_dir" where
  "new_instance_dir core = \<lparr>kd_knowledge = None, kd_proposals = None, kd_overlays = None, kd_memory = [], kd_core = core\<rparr>"

lemma shows_view_empty: "shows_view timeof (new_instance_dir core) empty_view"
  by (simp add: shows_view_def new_instance_dir_def empty_view_def items.holds_empty proposals.holds_empty overlays.holds_empty)

lemma shows_view_fold:
  "shows_view timeof d v \<Longrightarrow> list_all (isolation_call_ok timeof) calls \<Longrightarrow>
   shows_view timeof (fold (isolation_run st) calls d) (fold view_step calls v)"
  by (induction calls arbitrary: d v) (auto intro: shows_view_step)

lemma shows_view_listed:
  assumes "shows_view timeof d v"
  shows "instance_list py timeof (kd_knowledge d) = Inr (vw_items v)" "list_proposals py (kd_proposals d) = Inr (vw_proposals v)"
    "list_overlays py (kd_overlays d) = Inr (vw_overlays v)"
    "knowledge_namespace (lower g) = Inr p \<Longrightarrow> list_integration_memory py timeof g d = Inr (vw_memory v p)"
proof -
  have pure: "\<not> list_ex (\<lambda>i. ki_scope i \<noteq> SC_INSTANCE) (vw_items v)"
    "\<not> list_ex (\<lambda>i. ki_scope i \<noteq> SC_HARNESS \<or> declared_integrations i \<noteq> {q}) (vw_memory v q)" for q
    using assms by (auto simp: shows_view_def list_ex_iff list_all_iff belongs_to_def)
  have loads: "rbind (collection_load (kd_knowledge d)) (rmap (knowledge_item_from_dict py timeof)) = Inr (vw_items v)"
    "rbind (collection_load (map_of (kd_memory d) q)) (rmap (knowledge_item_from_dict py timeof)) = Inr (vw_memory v q)"
    "rbind (collection_load (kd_proposals d)) (rmap (improvement_proposal_from_dict py)) = Inr (vw_proposals v)"
    "rbind (collection_load (kd_overlays d)) (rmap (candidate_overlay_from_dict py)) = Inr (vw_overlays v)" for q
    using assms by (auto simp: shows_view_def intro: items.holds_load proposals.holds_load overlays.holds_load)
  show "instance_list py timeof (kd_knowledge d) = Inr (vw_items v)"
    unfolding instance_list_def loads using pure(1) by (simp add: require_isolated_def ensure_def)
  show "list_proposals py (kd_proposals d) = Inr (vw_proposals v)" "list_overlays py (kd_overlays d) = Inr (vw_overlays v)"
    by (simp_all add: list_proposals_def list_overlays_def loads)
  show "list_integration_memory py timeof g d = Inr (vw_memory v p)" if "knowledge_namespace (lower g) = Inr p"
    using pure(2) by (simp add: list_integration_memory_def that loads require_isolated_def ensure_def)
qed

text \<open>
  C16. The knowledge of an instance is what was accepted into it. After any sequence of store calls, some of which raise, and any changes others make to
  the installed Core meanwhile, listing returns the INSTANCE items, the proposals and the overlays that were added, in order and once per identifier,
  and for each integration the HARNESS items whose provenance names exactly that integration; no list ever fails as contaminated.
\<close>

theorem instance_collections_refine_lists:
  assumes "list_all (isolation_call_ok timeof) calls"
    and "d = fold (isolation_run st) calls (new_instance_dir core)" "v = fold view_step calls empty_view"
  shows "instance_list py timeof (kd_knowledge d) = Inr (vw_items v) \<and> list_proposals py (kd_proposals d) = Inr (vw_proposals v) \<and>
    list_overlays py (kd_overlays d) = Inr (vw_overlays v) \<and>
    (\<forall>g p. knowledge_namespace (lower g) = Inr p \<longrightarrow> list_integration_memory py timeof g d = Inr (vw_memory v p) \<and>
      list_all (belongs_to p) (vw_memory v p))"
proof -
  have "shows_view timeof d v"
    unfolding assms(2,3) using shows_view_fold [OF shows_view_empty assms(1)] .
  then show ?thesis
    using shows_view_listed [OF \<open>shows_view timeof d v\<close>, where py = py] by (auto simp: shows_view_def)
qed

definition instance_lesson :: knowledge_item where
  "instance_lesson = project_lesson\<lparr>ki_scope := SC_INSTANCE, ki_project_id := None, ki_promoted_from := Some SC_PROJECT\<rparr>"

lemma instance_lesson_ok: "knowledge_item_ok some_time instance_lesson"
proof -
  have "knowledge_item_ok some_time project_lesson" using knowledge_item_decoded [OF project_lesson_ok] .
  then show ?thesis
    by (simp add: knowledge_item_ok_def instance_lesson_def project_lesson_def run_lesson_def knowledge_item_init_def non_secret_retry
        require_value_def ensure_def unit_interval_def given_text_def)
qed

theorem instance_collections_refine_lists_witness:
  "\<exists>d. d = fold (isolation_run \<lparr>is_instance_id = ''i'', is_root = [''s''], is_core_fingerprint = Some ''c''\<rparr>)
      [Add_Item instance_lesson, Core_Becomes (Some ''x''), Add_Item instance_lesson, Add_Item project_lesson] (new_instance_dir (Some ''c'')) \<and>
    instance_list no_floats some_time (kd_knowledge d) = Inr [instance_lesson]"
proof -
  let ?calls = "[Add_Item instance_lesson, Core_Becomes (Some ''x''), Add_Item instance_lesson, Add_Item project_lesson]"
  have "list_all (isolation_call_ok some_time) ?calls"
    using instance_lesson_ok knowledge_item_decoded [OF project_lesson_ok] by simp
  note lists = conjunct1 [OF instance_collections_refine_lists [OF this refl refl]]
  have view: "vw_items (fold view_step ?calls empty_view) = [instance_lesson]"
    by (simp add: empty_view_def keep_new_def instance_lesson_def project_lesson_def run_lesson_def)
  show ?thesis by (intro exI conjI, rule refl) (rule lists [unfolded view])
qed

end
