(* ===== verification/Organizational_Laws.thy ===== *)
theory Organizational_Laws
  imports Organizational_Knowledge Knowledge_Isolation
begin

text \<open>
  What the organizational store promises over any sequence of service calls: its tables only grow, every record read back is the one that was
  promoted, with a digest that fits, and every recommendation names a stored record.
\<close>

section \<open>Records survive storage\<close>

lemma org_strings_jstrs [simp]: "org_strings (jstrs xs) = Inr xs"
  by (simp add: jstrs_def rmap_map rmap_Inr_all [where g = "\<lambda>x. x"])

lemma org_mappings_objs [simp]: "org_mappings (JArr (map JObj vs)) = Inr vs"
  by (simp add: rmap_map rmap_Inr_all [where g = "\<lambda>x. x"])

definition applicability_ok :: "knowledge_applicability \<Rightarrow> bool" where
  "applicability_ok b \<longleftrightarrow> knowledge_applicability_init b = Inr b"

lemma applicability_init_Inr: "knowledge_applicability_init b = Inr b' \<Longrightarrow> b' = b \<and> applicability_ok b'"
  by (auto simp: knowledge_applicability_init_def applicability_ok_def rbind_Inr_iff)

lemma applicability_decoded: "knowledge_applicability_from_dict v = Inr b \<Longrightarrow> applicability_ok b"
  unfolding knowledge_applicability_from_dict_def rbind_Inr_iff by (elim exE conjE) (drule applicability_init_Inr, erule conjE, assumption)

lemma applicability_roundtrip: "applicability_ok b \<Longrightarrow> knowledge_applicability_from_dict (knowledge_applicability_to_dict b) = Inr b"
  by (cases b) (simp add: applicability_ok_def knowledge_applicability_from_dict_def knowledge_applicability_to_dict_def)

definition genuine_record :: "advisory_env \<Rightarrow> organizational_record \<Rightarrow> bool" where
  "genuine_record env r \<longleftrightarrow> organizational_record_init env r = Inr r \<and> applicability_ok (okr_applicability r) \<and>
     digest_of env (unsigned_dict r) = okr_record_digest r"

lemma organizational_record_init_Inr: "organizational_record_init env r = Inr r' \<Longrightarrow> r' = r"
  by (auto simp: organizational_record_init_def rbind_Inr_iff)

lemma require_org_Inr [simp]: "require_org c = Inr u \<longleftrightarrow> c"
  by (simp add: require_org_def)

lemma organizational_record_decoded:
  assumes "organizational_record_from_dict env v = Inr r"
  shows "genuine_record env r"
proof -
  obtain v' b x where "knowledge_applicability_from_dict v' = Inr b" "organizational_record_init env x = Inr r" "okr_applicability x = b"
      "digest_of env (unsigned_dict r) = okr_record_digest r"
    using assms unfolding organizational_record_from_dict_def Let_def rbind_Inr_iff require_org_Inr sum.inject
    by (elim exE conjE) (hypsubst, rule that, assumption, assumption, simp only: organizational_record.select_convs, assumption+)
  then show ?thesis
    using organizational_record_init_Inr [of env x r] applicability_decoded [of v' b] by (auto simp: genuine_record_def)
qed

lemma organizational_record_roundtrip:
  assumes "genuine_record env r"
  shows "organizational_record_from_dict env (organizational_record_to_dict r) = Inr r"
proof -
  have facts: "organizational_record_init env r = Inr r" "applicability_ok (okr_applicability r)"
    "digest_of env (unsigned_dict r) = okr_record_digest r" "is_array (JArr (map JObj (okr_provenance r)))"
    using assms by (simp_all add: genuine_record_def is_array_def)
  obtain m e where "okr_confidence r = (m, e)" by fastforce
  with facts show ?thesis
    by (cases r) (simp add: organizational_record_from_dict_def organizational_record_to_dict_def unsigned_dict_def Let_def
        applicability_roundtrip require_org_def ensure_def del: org_mappings.simps)
qed

section \<open>What a call of the service does to the tables\<close>

definition record_row_ok :: "advisory_env \<Rightarrow> knowledge_row \<Rightarrow> bool" where
  "record_row_ok env row \<longleftrightarrow> (\<exists>r. kr_payload row = JObj (organizational_record_to_dict r) \<and> kr_id row = okr_id r \<and>
     kr_digest row = okr_record_digest r \<and> genuine_record env r)"

definition recommendation_row_ok :: "advisory_db \<Rightarrow> recommendation_row \<Rightarrow> bool" where
  "recommendation_row_ok d row \<longleftrightarrow> (\<exists>x. rr_payload row = JObj (knowledge_recommendation_to_dict x) \<and> rr_id row = krc_id x \<and>
     rr_knowledge_id row = krc_knowledge_id x \<and> krc_advisory x \<and>
     (\<exists>r \<in> set (ad_records d). kr_id r = krc_knowledge_id x \<and> kr_digest r = krc_knowledge_digest x))"

definition advisory_ok :: "advisory_env \<Rightarrow> advisory_db \<Rightarrow> bool" where
  "advisory_ok env d \<longleftrightarrow> distinct (map kr_id (ad_records d)) \<and> list_all (record_row_ok env) (ad_records d) \<and>
     distinct (map rr_id (ad_recommendations d)) \<and> list_all (recommendation_row_ok d) (ad_recommendations d)"

definition tables_grow :: "advisory_db \<Rightarrow> advisory_db \<Rightarrow> bool" where
  "tables_grow d d' \<longleftrightarrow> prefix (ad_records d) (ad_records d') \<and> prefix (ad_recommendations d) (ad_recommendations d') \<and>
     prefix (ad_quarantine d) (ad_quarantine d') \<and> prefix (ad_audit d) (ad_audit d')"

definition advisory_step :: "advisory_env \<Rightarrow> advisory \<Rightarrow> advisory \<Rightarrow> bool" where
  "advisory_step env w w' \<longleftrightarrow> tables_grow (aw_db w) (aw_db w') \<and> (advisory_ok env (aw_db w) \<longrightarrow> advisory_ok env (aw_db w'))"

definition same_tables :: "advisory \<Rightarrow> advisory \<Rightarrow> bool" where
  "same_tables w w' \<longleftrightarrow> aw_db w' = aw_db w"

interpretation tables: state_preorder same_tables
  by unfold_locales (simp_all add: same_tables_def)

interpretation steps: state_preorder "advisory_step env" for env
  by unfold_locales (auto simp: advisory_step_def tables_grow_def)

lemma same_tables_step: "keeps same_tables m \<Longrightarrow> keeps (advisory_step env) m"
  unfolding keeps_def same_tables_def advisory_step_def tables_grow_def by simp

text \<open>After an operation that leaves the tables alone, what was read from them still holds.\<close>

lemma from_same:
  assumes "keeps same_tables m" and "\<And>x t. m s = (Inr x, t) \<Longrightarrow> aw_db t = aw_db s \<Longrightarrow> steps.from_state env (f x) t"
  shows "steps.from_state env (bnd m f) s"
proof (rule steps.from_bnd)
  have "keeps (advisory_step env) m" by (rule same_tables_step) (rule assms(1))
  then show "steps.from_state env m s" unfolding steps.keeps_from_state by blast
  fix x t assume run: "m s = (Inr x, t)"
  have "same_tables s (snd (m s))" using assms(1) by (simp add: keeps_def)
  then have "aw_db t = aw_db s" by (simp add: same_tables_def run)
  with run show "steps.from_state env (f x) t" by (rule assms(2))
qed

lemma same_tables_now: "keeps same_tables (advisory_now env)"
  and same_tables_epoch: "keeps same_tables (advisory_epoch env)"
  and same_tables_uuid: "keeps same_tables (advisory_uuid env)"
  by (simp_all add: keeps_def same_tables_def advisory_now_def advisory_epoch_def advisory_uuid_def)

lemma same_tables_project: "keeps same_tables (at_project env project_root m)"
  by (auto simp: keeps_def same_tables_def at_project_def split: option.splits prod.splits)

lemma same_tables_read: "keeps same_tables (\<lambda>w. (g w, w))"
  by (simp add: keeps_def same_tables_def)

lemma same_tables_files: "keeps same_tables (modify (\<lambda>w. w\<lparr>aw_lessons := g w\<rparr>))"
  by (simp add: keeps_def same_tables_def)

lemma same_tables_given: "keeps same_tables (given_or_now env v)"
  by (auto simp: given_or_now_def split: option.split intro: tables.keeps_basic same_tables_now)

lemma same_tables_authorize: "keeps same_tables (authorize_knowledge env actor action p)"
  by (auto simp: authorize_knowledge_def intro!: tables.keeps_basic same_tables_epoch)

lemma same_tables_get: "keeps same_tables (get_record env i)" "keeps same_tables (get_recommendation env i)"
  by (simp_all add: get_record_def get_recommendation_def same_tables_read)

lemmas same_tables_rules = tables.keeps_basic same_tables_now same_tables_epoch same_tables_uuid same_tables_project same_tables_read
  same_tables_files same_tables_given same_tables_authorize same_tables_get

lemma database_step:
  assumes "\<And>x d. m (aw_db w) = (Inr x, d) \<Longrightarrow> tables_grow (aw_db w) d \<and> (advisory_ok env (aw_db w) \<longrightarrow> advisory_ok env d)"
  shows "steps.from_state env (in_database m) w"
proof (cases "m (aw_db w)")
  case (Pair r d)
  then show ?thesis
    using assms by (cases r) (simp_all add: steps.from_state_def in_database_def advisory_step_def tables_grow_def)
qed

lemma recommendation_row_ok_more: "recommendation_row_ok d row \<Longrightarrow> set (ad_records d) \<subseteq> set (ad_records d') \<Longrightarrow> recommendation_row_ok d' row"
  unfolding recommendation_row_ok_def by blast

lemma add_record_step:
  assumes "genuine_record env r"
  shows "steps.from_state env (add_record r) w"
  unfolding add_record_def
proof (rule database_step)
  let ?row = "\<lparr>kr_id = okr_id r, kr_digest = okr_record_digest r, kr_payload = JObj (organizational_record_to_dict r)\<rparr>"
  fix x d
  assume "bnd (insert_record ?row) (\<lambda>_. audit_org ''KNOWLEDGE_PROMOTED'' (okr_promotion_actor_id r)
       (JObj [(''id'', JStr (okr_id r)), (''digest'', JStr (okr_record_digest r))])) (aw_db w) = (Inr x, d)"
  then have d: "okr_id r \<notin> kr_id ` set (ad_records (aw_db w))" "ad_records d = ad_records (aw_db w) @ [?row]"
      "ad_recommendations d = ad_recommendations (aw_db w)" "ad_quarantine d = ad_quarantine (aw_db w)" "prefix (ad_audit (aw_db w)) (ad_audit d)"
    by (auto simp: insert_record_def audit_org_def elim!: eff_elims)
  have "record_row_ok env ?row"
    using assms by (auto simp: record_row_ok_def)
  moreover have "list_all (recommendation_row_ok d) (ad_recommendations d)" if "advisory_ok env (aw_db w)"
    using that recommendation_row_ok_more [of "aw_db w" _ d] unfolding advisory_ok_def list_all_iff d(2,3) by auto
  ultimately show "tables_grow (aw_db w) d \<and> (advisory_ok env (aw_db w) \<longrightarrow> advisory_ok env d)"
    using d by (auto simp: tables_grow_def advisory_ok_def)
qed

definition names_stored :: "advisory_db \<Rightarrow> knowledge_recommendation \<Rightarrow> bool" where
  "names_stored d x \<longleftrightarrow> krc_advisory x \<and> (\<exists>r \<in> set (ad_records d). kr_id r = krc_knowledge_id x \<and> kr_digest r = krc_knowledge_digest x)"

lemma add_recommendation_step:
  assumes "advisory_ok env (aw_db w) \<Longrightarrow> names_stored (aw_db w) x"
  shows "steps.from_state env (add_recommendation env x) w"
  unfolding add_recommendation_def
proof (rule database_step)
  let ?row = "\<lparr>rr_id = krc_id x, rr_knowledge_id = krc_knowledge_id x, rr_target_project_id = krc_target_project_id x,
       rr_digest = digest_of env (knowledge_recommendation_to_dict x), rr_payload = JObj (knowledge_recommendation_to_dict x)\<rparr>"
  fix y d
  assume "bnd (insert_recommendation ?row) (\<lambda>_. audit_org ''KNOWLEDGE_RECOMMENDED'' (krc_recommended_by x)
       (JObj (knowledge_recommendation_to_dict x))) (aw_db w) = (Inr y, d)"
  then have d: "krc_id x \<notin> rr_id ` set (ad_recommendations (aw_db w))" "ad_recommendations d = ad_recommendations (aw_db w) @ [?row]"
      "ad_records d = ad_records (aw_db w)" "ad_quarantine d = ad_quarantine (aw_db w)" "prefix (ad_audit (aw_db w)) (ad_audit d)"
    by (auto simp: insert_recommendation_def audit_org_def elim!: eff_elims)
  have "recommendation_row_ok d ?row" if "advisory_ok env (aw_db w)"
    using assms [OF that] unfolding recommendation_row_ok_def names_stored_def d(3) by (intro exI [of _ x]) simp
  moreover have "list_all (recommendation_row_ok d) (ad_recommendations (aw_db w))" if "advisory_ok env (aw_db w)"
    using that recommendation_row_ok_more [of "aw_db w" _ d] unfolding advisory_ok_def list_all_iff d(3) by auto
  ultimately show "tables_grow (aw_db w) d \<and> (advisory_ok env (aw_db w) \<longrightarrow> advisory_ok env d)"
    using d by (auto simp: tables_grow_def advisory_ok_def)
qed

lemma insert_quarantine_step:
  "(bnd (insert_quarantine row) (\<lambda>_. bnd (audit_org event actor payload) (\<lambda>_. ret x))) d = (Inr y, d') \<Longrightarrow>
   tables_grow d d' \<and> (advisory_ok env d \<longrightarrow> advisory_ok env d')"
  by (auto simp: insert_quarantine_def audit_org_def tables_grow_def advisory_ok_def list_all_iff recommendation_row_ok_def elim!: eff_elims)

lemma quarantine_step: "steps.from_state env (quarantine_knowledge env inst i c reasons actor) w"
  unfolding quarantine_knowledge_def Let_def
  by (rule from_same, rule same_tables_uuid, rule from_same, rule same_tables_now, rule database_step)
    (auto elim!: bnd_InrE gets_InrE lift_InrE dest!: insert_quarantine_step [where env = env] split: option.splits simp: tables_grow_def)

section \<open>The calls of the service\<close>

lemma record_project_lesson_step: "steps.from_state env (record_project_lesson env project_root p lesson actor) w"
proof -
  have "keeps same_tables (record_project_lesson env project_root p lesson actor)"
    unfolding record_project_lesson_def by (intro same_tables_rules)
  then show ?thesis using same_tables_step steps.keeps_from_state by blast
qed

lemma search_knowledge_step: "steps.from_state env (search_knowledge env query p actor clearance tags domains now) w"
proof -
  have "keeps same_tables (search_knowledge env query p actor clearance tags domains now)"
    unfolding search_knowledge_def by (intro same_tables_rules)
  then show ?thesis using same_tables_step steps.keeps_from_state by blast
qed

lemma adopt_knowledge_step: "steps.from_state env (adopt_knowledge env i project_root expected actor acc) w"
proof -
  have "keeps same_tables (adopt_knowledge env i project_root expected actor acc)"
    unfolding adopt_knowledge_def by (intro same_tables_rules)
  then show ?thesis using same_tables_step steps.keeps_from_state by blast
qed

lemma promote_organizational_step:
  "steps.from_state env (promote_organizational env project_root p lesson_id b fresh digests validator actor created) w"
  unfolding promote_organizational_def Let_def
proof (intro from_same [OF tables.keeps_lift] from_same [OF same_tables_authorize] from_same [OF same_tables_project] from_same [OF tables.keeps_gets]
    from_same [OF same_tables_given] from_same [OF same_tables_uuid])
  show "steps.from_state env (bnd (add_record r) (\<lambda>_. ret r)) t"
    if "lift (organizational_record_from_dict env v) s = (Inr r, t)" for v s r t
    using that organizational_record_decoded [of env v r] by (intro steps.from_bnd add_record_step steps.from_ret) simp
qed

lemma classify_items_step: "steps.from_state env (classify_items env inst actor applied is) w"
proof (induction "is" arbitrary: w)
  case (Cons i "is")
  then show ?case
    by (auto intro!: steps.from_bnd steps.from_ret quarantine_step)
qed (simp add: steps.from_ret)

lemma classify_v1_instance_step: "steps.from_state env (classify_v1_instance env state_root inst actor applied) w"
  unfolding classify_v1_instance_def
  by (intro from_same [OF tables.keeps_lift] from_same [OF same_tables_authorize] from_same [OF tables.keeps_gets] classify_items_step)

lemma stored_record_named:
  assumes "stored_record env i d = Inr r" "advisory_ok env d"
  shows "\<exists>row \<in> set (ad_records d). kr_id row = okr_id r \<and> kr_digest row = okr_record_digest r" "okr_id r = i" "genuine_record env r"
proof -
  obtain row where row: "row \<in> set (ad_records d)" "kr_id row = i"
      "rbind (rbind (org_mapping (kr_payload row)) (organizational_record_from_dict env)) (\<lambda>r.
         rbind (require_org (\<not> okr_record_digest r \<noteq> kr_digest row)) (\<lambda>_. Inr r)) = Inr r"
    using assms(1) by (auto simp: stored_record_def find_Some_iff split: option.splits dest: nth_mem)
  obtain r' where r': "kr_payload row = JObj (organizational_record_to_dict r')" "kr_id row = okr_id r'" "kr_digest row = okr_record_digest r'"
      "genuine_record env r'"
    using assms(2) row(1) by (auto simp: advisory_ok_def list_all_iff record_row_ok_def)
  then have "r = r'"
    using row(3) by (simp add: organizational_record_roundtrip require_org_def ensure_def split: if_splits)
  with row r' show "\<exists>row \<in> set (ad_records d). kr_id row = okr_id r \<and> kr_digest row = okr_record_digest r" "okr_id r = i" "genuine_record env r"
    by auto
qed

lemma read_names_stored:
  assumes "get_record env i t = (Inr r, t')" "aw_db s = aw_db t" "advisory_ok env (aw_db s)"
    and "krc_knowledge_id x = okr_id r" "krc_knowledge_digest x = okr_record_digest r" "krc_advisory x"
  shows "names_stored (aw_db s) x"
proof -
  have "stored_record env i (aw_db s) = Inr r" using assms(1,2) by (auto simp: get_record_def)
  from stored_record_named(1) [OF this assms(3)] show ?thesis by (simp add: names_stored_def assms(4-6))
qed

lemma recommend_step: "steps.from_state env (recommend env i project_root p actor clearance now) w"
  unfolding recommend_def Let_def
  by (intro from_same [OF tables.keeps_lift] from_same [OF same_tables_authorize] from_same [OF tables.keeps_req]
      from_same [OF same_tables_get(1)] from_same [OF same_tables_given] from_same [OF same_tables_uuid] from_same [OF same_tables_project]
      steps.from_bnd [OF add_recommendation_step] steps.from_ret, elim read_names_stored) simp_all

section \<open>Histories\<close>

datatype advisory_call =
    Record_Lesson "string list" string knowledge_item actor_principal
  | Promote "string list" string string knowledge_applicability string "string list" string actor_principal "string option"
  | Search string string actor_principal sensitivity "string set" "string set" "string option"
  | Recommend string "string list" string actor_principal sensitivity "string option"
  | Adopt string "string list" int actor_principal "string option"
  | Classify "string list" string actor_principal bool

fun advisory_run :: "advisory_env \<Rightarrow> advisory_call \<Rightarrow> advisory \<Rightarrow> advisory" where
  "advisory_run env (Record_Lesson root_path p lesson actor) w = snd (record_project_lesson env root_path p lesson actor w)"
| "advisory_run env (Promote root_path p i b fresh digests validator actor created) w =
     snd (promote_organizational env root_path p i b fresh digests validator actor created w)"
| "advisory_run env (Search query p actor clearance tags domains now) w = snd (search_knowledge env query p actor clearance tags domains now w)"
| "advisory_run env (Recommend i root_path p actor clearance now) w = snd (recommend env i root_path p actor clearance now w)"
| "advisory_run env (Adopt i root_path expected actor acc) w = snd (adopt_knowledge env i root_path expected actor acc w)"
| "advisory_run env (Classify state_root inst actor applied) w = snd (classify_v1_instance env state_root inst actor applied w)"

lemma advisory_run_step: "advisory_step env w (advisory_run env call w)"
  using record_project_lesson_step promote_organizational_step search_knowledge_step recommend_step adopt_knowledge_step classify_v1_instance_step
  by (cases call) (simp_all add: steps.from_state_def)

lemma advisory_fold_step: "advisory_step env w (fold (advisory_run env) calls w)"
proof (induction calls arbitrary: w)
  case (Cons call calls)
  show ?case using steps.R_trans [OF advisory_run_step Cons.IH] by simp
qed (simp add: steps.R_refl)

lemma find_appended: "find P xs = Some x \<Longrightarrow> find P (xs @ zs) = Some x"
  by (induction xs) (auto split: if_splits)

lemma find_in_prefix: "prefix xs ys \<Longrightarrow> find P xs = Some x \<Longrightarrow> find P ys = Some x"
  by (elim prefixE) (simp add: find_appended)

lemma find_distinct: "distinct (map f xs) \<Longrightarrow> x \<in> set xs \<Longrightarrow> find (\<lambda>y. f y = f x) xs = Some x"
  by (induction xs) (auto simp: image_iff)

lemma stored_record_grows: "tables_grow d d' \<Longrightarrow> stored_record env i d = Inr r \<Longrightarrow> stored_record env i d' = Inr r"
  by (cases "find (\<lambda>r. kr_id r = i) (ad_records d)") (auto simp: stored_record_def tables_grow_def dest: find_in_prefix)

lemma stored_record_row:
  assumes "advisory_ok env d" "row \<in> set (ad_records d)"
  shows "\<exists>r. stored_record env (kr_id row) d = Inr r"
proof -
  obtain r where r: "kr_payload row = JObj (organizational_record_to_dict r)" "kr_digest row = okr_record_digest r" "genuine_record env r"
    using assms by (auto simp: advisory_ok_def list_all_iff record_row_ok_def)
  have "find (\<lambda>r. kr_id r = kr_id row) (ad_records d) = Some row"
    using assms by (intro find_distinct) (simp_all add: advisory_ok_def)
  then show ?thesis by (simp add: stored_record_def r organizational_record_roundtrip require_org_def)
qed

lemma advisory_ok_empty: "advisory_ok env empty_advisory_db"
  by (simp add: advisory_ok_def empty_advisory_db_def)

lemma genuine_record_bounds:
  "genuine_record env r \<Longrightarrow> okr_sensitivity r \<noteq> SN_RESTRICTED \<and> \<not> float_less (okr_confidence r) seven_tenths \<and> okr_promotion_decision r = ''APPROVED''"
  by (auto simp: genuine_record_def organizational_record_init_def rbind_Inr_iff)

end
