(* ===== verification/Advisory_Demo.thy ===== *)
theory Advisory_Demo
  imports Organizational_Laws Authority_Demo
begin

text \<open>
  A small organization on which the properties of the organizational store are exercised: one Project with one accepted revision and one lesson,
  and the record that the promotion of the lesson makes.
\<close>

section \<open>The Project and its lesson\<close>

definition org_hex :: string where
  "org_hex = replicate 64 CHR ''a''"

definition org_penv :: project_env where
  "org_penv = demo_penv\<lparr>pe_sha := (\<lambda>_. org_hex)\<rparr>"

definition org_revision :: semantic_revision where
  "org_revision = demo_revision\<lparr>sr_fingerprint := org_hex\<rparr>"

definition org_project :: project_state where
  "org_project = put_file (revision_path 1) (semantic_revision_to_dict org_revision) demo_unmanaged"

definition org_lesson :: knowledge_item where
  "org_lesson = project_lesson\<lparr>ki_project_id := Some ''P''\<rparr>"

definition org_env :: advisory_env where
  "org_env = \<lparr>ad_project = (\<lambda>_. org_penv), ad_instant = (\<lambda>s. Some \<lparr>mo_instant = (if s = ''late'' then 1 else 0), mo_offset = Some 0\<rparr>),
     ad_epoch = (\<lambda>_. 0), ad_now = (\<lambda>_. ''now''), ad_uuid = (\<lambda>_. ''u''), ad_sha = (\<lambda>_. org_hex), ad_float = no_floats,
     ad_database = [''org.db'']\<rparr>"

definition org_actor :: actor_principal where
  "org_actor = \<lparr>actor_id = ''alice'', actor_type = AT_USER, authenticated = True, authentication_method = ''local'',
     direct_permissions = [''*''], delegation = None\<rparr>"

definition org_world :: advisory where
  "org_world = \<lparr>aw_db = empty_advisory_db, aw_projects = [([''p''], org_project)],
     aw_lessons = [([''p''], Document (JArr [JObj (knowledge_item_to_dict org_lesson)]))], aw_instances = [], aw_ticks = 0, aw_draws = 0\<rparr>"

definition project_bound :: knowledge_applicability where
  "project_bound = \<lparr>kb_project_ids = [''P''], kb_tags = [], kb_domains = [], kb_excluded_project_ids = []\<rparr>"

definition tag_bound :: knowledge_applicability where
  "tag_bound = \<lparr>kb_project_ids = [], kb_tags = [''t''], kb_domains = [], kb_excluded_project_ids = []\<rparr>"

definition org_record :: "knowledge_applicability \<Rightarrow> organizational_record" where
  "org_record b = \<lparr>okr_id = ''ORGK-u'', okr_source_project_id = ''P'', okr_source_project_revision = 1, okr_source_project_fingerprint = org_hex,
     okr_source_lesson_id = ''LES-1'', okr_kind = KK_LESSON, okr_statement = ''retry'',
     okr_provenance = map knowledge_provenance_to_dict (ki_provenance org_lesson), okr_evidence_digests = [org_hex], okr_confidence = (1, 0),
     okr_sensitivity = SN_INTERNAL, okr_applicability = b, okr_fresh_until = ''late'', okr_validator_id = ''v'', okr_promotion_actor_id = ''alice'',
     okr_promotion_policy = canonical_text no_floats (JObj (promotion_policy_to_dict (ki_promotion_policy org_lesson))),
     okr_promotion_decision = ''APPROVED'', okr_created_at = ''now'', okr_record_digest = org_hex\<rparr>"

lemma org_layout: "plain_layout org_penv"
  by (simp add: plain_layout_def org_penv_def demo_penv_def)

lemma org_fingerprint: "model_fingerprint org_penv m = org_hex"
  by (simp add: model_fingerprint_def org_penv_def)

lemma org_hex_ok [simp]: "sha256_hex org_hex"
  by (simp add: sha256_hex_def org_hex_def list_all_iff)

lemma org_chain: "chain org_penv org_project [org_revision]"
proof -
  have "chain org_penv demo_unmanaged []"
    using demo_unmanaged_chain by (simp add: chain_def chain_names_def)
  then have "chain org_penv (put_file (revision_path (sr_number org_revision)) (semantic_revision_to_dict org_revision) demo_unmanaged) ([] @ [org_revision])"
    unfolding put_file_def
    by (rule chain_add [OF org_layout])
      (simp_all add: revision_limit_def semantic_revision_init_Inr org_revision_def demo_revision_def org_fingerprint demo_models)
  then show ?thesis by (simp add: org_project_def org_revision_def)
qed

lemma org_current: "at_project org_env [''p''] current w = (Inr org_revision, w)" if "aw_projects w = [([''p''], org_project)]"
proof -
  have "current org_penv org_project = (Inr org_revision, org_project)"
    using current_run [of org_penv org_project "[]" org_revision] org_chain by simp
  then show ?thesis using that by (simp add: at_project_def org_env_def)
qed

lemma org_bound_ok: "applicability_ok project_bound" "applicability_ok tag_bound"
proof -
  have "list_all (\<lambda>v. \<not> blank v) [''P'', ''t'']" by code_simp
  then show "applicability_ok project_bound" "applicability_ok tag_bound"
    by (simp_all add: applicability_ok_def knowledge_applicability_init_def project_bound_def tag_bound_def require_org_def)
qed

lemma org_times: "org_instant org_env ''late'' = Inr \<lparr>mo_instant = 1, mo_offset = Some 0\<rparr>" "org_instant org_env ''now'' = Inr \<lparr>mo_instant = 0, mo_offset = Some 0\<rparr>"
proof -
  have "zulu ''late'' = ''late''" "zulu ''now'' = ''now''" by code_simp+
  then show "org_instant org_env ''late'' = Inr \<lparr>mo_instant = 1, mo_offset = Some 0\<rparr>" "org_instant org_env ''now'' = Inr \<lparr>mo_instant = 0, mo_offset = Some 0\<rparr>"
    by (simp_all add: org_instant_def org_env_def aware_def require_org_def)
qed

lemma org_record_genuine:
  assumes "applicability_ok b"
  shows "genuine_record org_env (org_record b)"
proof -
  have "\<not> float_less (1, 0) seven_tenths" by code_simp
  then have "organizational_record_init org_env (org_record b) = Inr (org_record b)"
    by (simp add: organizational_record_init_def org_record_def org_lesson_def project_lesson_def run_lesson_def org_times require_org_def
        org_sha256_def moment_le_def float_less_def)
  moreover have "digest_of org_env v = org_hex" for v by (simp add: digest_of_def org_env_def)
  ultimately show ?thesis using assms by (simp add: genuine_record_def) (simp add: org_record_def)
qed

section \<open>Its promotion\<close>

lemma org_lesson_ok: "knowledge_item_ok (ad_instant org_env) org_lesson"
proof -
  have "knowledge_item_ok some_time project_lesson" using knowledge_item_decoded [OF project_lesson_ok] .
  moreover have "zulu ''t'' = ''t''" by code_simp
  ultimately show ?thesis
    by (simp add: knowledge_item_ok_def org_lesson_def project_lesson_def run_lesson_def knowledge_item_init_def non_secret_retry
        require_value_def ensure_def unit_interval_def given_text_def provenance_valid_def knowledge_provenance_init_def no_secret_text
        parse_timestamp_def aware_def org_env_def some_time_def)
qed

lemma org_lessons: "lesson_list no_floats (ad_instant org_env) ''P'' (Some (Document (JArr [JObj (knowledge_item_to_dict org_lesson)]))) = Inr [org_lesson]"
  using knowledge_item_roundtrip [OF org_lesson_ok, of no_floats]
  by (simp add: lesson_list_def collection_load_def require_isolated_def org_lesson_def project_lesson_def)

lemma org_promotable: "validate_promotable org_lesson = Inr ()"
proof -
  have "\<not> float_less (1, 0) (float_max seven_tenths (1, - 1))" by code_simp
  then show ?thesis
    by (simp add: validate_promotable_def org_lesson_def project_lesson_def run_lesson_def require_org_def ensure_def)
qed

lemma org_authorized: "authorize_knowledge org_env org_actor action p w = (Inr (), w\<lparr>aw_ticks := Suc (aw_ticks w)\<rparr>)"
proof -
  have "\<not> is_anonymous ''alice''" by code_simp
  then show ?thesis by (simp add: authorize_knowledge_def advisory_epoch_def org_env_def org_actor_def require_def)
qed

lemma org_namespace: "project_lesson_store ''P'' = Inr ''P''"
  by code_simp

definition promoted_world :: "knowledge_applicability \<Rightarrow> advisory" where
  "promoted_world b = org_world\<lparr>aw_db := \<lparr>ad_records = [\<lparr>kr_id = ''ORGK-u'', kr_digest = org_hex, kr_payload = JObj (organizational_record_to_dict (org_record b))\<rparr>],
     ad_recommendations = [], ad_quarantine = [],
     ad_audit = [\<lparr>av_event_type = ''KNOWLEDGE_PROMOTED'', av_actor_id = ''alice'', av_payload = JObj [(''id'', JStr ''ORGK-u''), (''digest'', JStr org_hex)]\<rparr>]\<rparr>,
     aw_ticks := 1, aw_draws := 1\<rparr>"

lemma org_promotion:
  assumes "applicability_ok b"
  shows "promote_organizational org_env [''p''] ''P'' ''LES-1'' b ''late'' [org_hex] ''v'' org_actor (Some ''now'') org_world = (Inr (org_record b), promoted_world b)"
proof -
  let ?r = "org_record b" and ?w = "org_world\<lparr>aw_ticks := Suc 0\<rparr>"
  have cur: "at_project org_env [''p''] current ?w = (Inr org_revision, ?w)" by (rule org_current) (simp add: org_world_def)
  have "okr_record_digest ?r = org_hex" by (simp add: org_record_def)
  then have decoded: "organizational_record_from_dict org_env (unsigned_dict ?r @ [(''record_digest'', JStr org_hex)]) = Inr ?r"
    using organizational_record_roundtrip [OF org_record_genuine [OF assms]] by (simp add: organizational_record_to_dict_def)
  have revision: "sr_project_id org_revision = ''P''" "sr_number org_revision = 1" "sr_fingerprint org_revision = org_hex"
    by (simp_all add: org_revision_def)
  have lessons: "map_of (aw_lessons org_world) [''p''] = Some (Document (JArr [JObj (knowledge_item_to_dict org_lesson)]))"
    by (simp add: org_world_def)
  have document: "promotion_document org_env ''u'' ''P'' org_revision org_lesson b ''late'' [org_hex] ''v'' org_actor ''now'' = unsigned_dict ?r"
    by (simp add: promotion_document_def unsigned_dict_def org_record_def revision org_env_def org_actor_def org_lesson_def project_lesson_def run_lesson_def)
  have sign: "digest_of org_env v = org_hex" for v by (simp add: digest_of_def org_env_def)
  have sel: "ad_float org_env = no_floats" "ad_database org_env = [''org.db'']" "aw_ticks org_world = 0" "ki_id org_lesson = ''LES-1''"
    "remdups (concat (map kv_evidence_ids (ki_provenance org_lesson))) = [''e'']"
    by (simp_all add: org_env_def org_world_def org_lesson_def project_lesson_def run_lesson_def)
  have uuid: "advisory_uuid org_env ?w = (Inr ''u'', ?w\<lparr>aw_draws := Suc 0\<rparr>)" by (simp add: advisory_uuid_def org_env_def org_world_def)
  have added: "add_record ?r (?w\<lparr>aw_draws := Suc 0\<rparr>) = (Inr (), promoted_world b)"
    by (simp add: add_record_def in_database_def insert_record_def audit_org_def promoted_world_def org_world_def empty_advisory_db_def org_record_def)
  show ?thesis
    unfolding promote_organizational_def
    by (simp add: require_separate_from_def require_org_def org_authorized cur revision org_namespace lessons org_lessons org_promotable sel org_sha256_def
        given_or_now_def uuid document sign decoded added)
qed

lemma org_stored:
  assumes "applicability_ok b"
  shows "stored_record org_env ''ORGK-u'' (aw_db (promoted_world b)) = Inr (org_record b)"
proof -
  have "okr_record_digest (org_record b) = org_hex" by (simp add: org_record_def)
  then show ?thesis
    using organizational_record_roundtrip [OF org_record_genuine [OF assms]] by (simp add: stored_record_def promoted_world_def require_org_def)
qed

lemma org_found: "search_knowledge org_env ''retry'' ''Q'' org_actor SN_INTERNAL {''t''} {} (Some ''now'') (promoted_world tag_bound) =
    (Inr [org_record tag_bound], (promoted_world tag_bound)\<lparr>aw_ticks := 2\<rparr>)"
proof -
  have texts: "\<not> blank ''retry''" "found_by ''retry'' (org_record tag_bound)"
    by (code_simp, simp add: found_by_def org_record_def, code_simp)
  have records: "stored_records org_env (aw_db (promoted_world tag_bound)) = Inr [org_record tag_bound]"
  proof -
    have "map kr_id (ad_records (aw_db (promoted_world tag_bound))) = [''ORGK-u'']" by (simp add: promoted_world_def)
    then show ?thesis by (simp add: stored_records_def org_stored [OF org_bound_ok(2)])
  qed
  have sel: "okr_fresh_until (org_record tag_bound) = ''late''" "okr_sensitivity (org_record tag_bound) = SN_INTERNAL"
    "applicable_to (okr_applicability (org_record tag_bound)) ''Q'' {''t''} {}" "aw_ticks (promoted_world tag_bound) = 1"
    by (simp_all add: org_record_def applicable_to_def tag_bound_def promoted_world_def)
  show ?thesis
    by (simp add: search_knowledge_def org_authorized require_org_def texts given_or_now_def org_times records sel moment_le_def by_confidence_def)
qed

section \<open>Its adoption\<close>

definition org_recommendation :: knowledge_recommendation where
  "org_recommendation = \<lparr>krc_id = ''ORGR-u'', krc_knowledge_id = ''ORGK-u'', krc_knowledge_digest = org_hex, krc_target_project_id = ''P'',
     krc_target_revision = 1, krc_target_fingerprint = org_hex, krc_recommended_by = ''alice'', krc_created_at = ''now'', krc_advisory = True\<rparr>"

definition recommended_world :: advisory where
  "recommended_world = (promoted_world project_bound)\<lparr>aw_db := (aw_db (promoted_world project_bound))\<lparr>ad_recommendations :=
     [\<lparr>rr_id = ''ORGR-u'', rr_knowledge_id = ''ORGK-u'', rr_target_project_id = ''P'', rr_digest = org_hex,
       rr_payload = JObj (knowledge_recommendation_to_dict org_recommendation)\<rparr>]\<rparr>\<rparr>"

lemma org_recommended:
  "stored_recommendation org_env ''ORGR-u'' (aw_db recommended_world) = Inr org_recommendation"
  "stored_record org_env ''ORGK-u'' (aw_db recommended_world) = Inr (org_record project_bound)"
proof -
  have "knowledge_recommendation_from_dict no_floats (knowledge_recommendation_to_dict org_recommendation) = Inr org_recommendation"
    by (simp add: knowledge_recommendation_from_dict_def knowledge_recommendation_to_dict_def org_recommendation_def Let_def require_org_def org_sha256_def)
  then show "stored_recommendation org_env ''ORGR-u'' (aw_db recommended_world) = Inr org_recommendation"
    by (simp add: stored_recommendation_def recommended_world_def digest_of_def org_env_def org_recommendation_def require_org_def)
  show "stored_record org_env ''ORGK-u'' (aw_db recommended_world) = Inr (org_record project_bound)"
    using org_stored [OF org_bound_ok(1)] by (simp add: stored_record_def recommended_world_def)
qed

definition org_provenance :: adoption_provenance where
  "org_provenance = \<lparr>kp_source = ''run'', kp_observed_at = ''t'', kp_artifact = None, kp_commit = None, kp_integration = None, kp_evidence_ids = [''e'']\<rparr>"

definition org_adoption :: knowledge_adoption where
  "org_adoption = adoption_of org_env (org_record project_bound) ''ORGR-u'' ''alice'' ''now'' [org_provenance]"

definition org_next_model :: project_model where
  "org_next_model = (named_model ''zero'')\<lparr>pm_knowledge_adoptions := [org_adoption]\<rparr>"

lemma org_adopted:
  "rmap (adoption_provenance_from_dict no_floats) (okr_provenance (org_record project_bound)) = Inr [org_provenance]"
  "knowledge_adoption_init org_adoption = Inr org_adoption" "project_model_init org_next_model = Inr org_next_model"
  "knowledge_adoption_ok org_adoption"
proof -
  have provenance: "adoption_provenance_init org_provenance = Inr org_provenance" by code_simp
  then show "rmap (adoption_provenance_from_dict no_floats) (okr_provenance (org_record project_bound)) = Inr [org_provenance]"
    by (simp add: org_record_def org_lesson_def project_lesson_def run_lesson_def knowledge_provenance_to_dict_def adoption_provenance_from_dict_def org_provenance_def)
  show init: "knowledge_adoption_init org_adoption = Inr org_adoption" by code_simp
  have "ka_provenance org_adoption = [org_provenance]" by (simp add: org_adoption_def adoption_of_def)
  with init provenance show "knowledge_adoption_ok org_adoption" by (simp add: knowledge_adoption_ok_def adoption_provenance_ok_def)
  show "project_model_init org_next_model = Inr org_next_model"
    by (simp add: project_model_init_def org_next_model_def named_model_def require_value_def)
qed

lemma org_propose_accept:
  obtains p new t u where
    "propose org_penv org_next_model 1 ''alice'' ''ORGANIZATIONAL_KNOWLEDGE_ADOPTION'' None None org_project = (Inr p, t)"
    "accept org_penv (sp_id p) 1 ''alice'' None t = (Inr new, u)"
proof -
  have chain: "chain org_penv org_project ([] @ [org_revision])" by (simp add: org_chain)
  have project: "pi_id (pm_project org_next_model) = sr_project_id org_revision"
    by (simp add: org_next_model_def named_model_def org_revision_def)
  have texts: "\<not> blank ''alice''" "\<not> blank ''ORGANIZATIONAL_KNOWLEDGE_ADOPTION''" "list_all proposal_char ''7f''" by code_simp+
  have audit: "audit_readable org_penv org_project"
    by (simp add: audit_readable_def org_project_def put_file_def demo_unmanaged_def)
  have draws: "pj_draws org_project = 0" "pe_uuid org_penv 0 = ''7f''"
    by (simp_all add: org_project_def put_file_def demo_unmanaged_def org_penv_def demo_penv_def)
  have free: "map_of (pj_files org_project) (proposal_directory @ ''/proposal-'' @ pe_uuid org_penv (pj_draws org_project) @ ''.json'') = None"
    by (simp add: draws org_project_def put_file_def demo_unmanaged_def AList.update_conv' proposal_directory_def revision_path_def revision_directory_def model_path_def)
  obtain p t where p: "propose org_penv org_next_model 1 ''alice'' ''ORGANIZATIONAL_KNOWLEDGE_ADOPTION'' None None org_project = (Inr p, t)"
      "sp_expected_revision p = 1" "sp_project_id p = sr_project_id org_revision" "audit_readable org_penv t"
    by (rule propose_succeeds [OF org_layout chain project _ texts(1,2) audit _ free, of 1]) (use texts(3) in \<open>simp_all add: draws\<close>)
  note proposed = propose_Inr [OF org_layout chain p(1)]
  have ok: "project_model_ok org_next_model"
    using demo_models(1) org_adopted(3,4) by (simp add: project_model_ok_def org_next_model_def)
  have "model_at org_penv t = model_at org_penv org_project"
    using proposed(1) unfolding model_at_def undecided_def by (intro stored_cong) (simp add: org_layout)
  moreover have "model_at org_penv org_project = Inr (named_model ''zero'')"
    unfolding model_at_def
    by (rule stored_document [OF resolve_model_path [OF org_layout]])
      (simp add: org_project_def put_file_def AList.update_conv' demo_unmanaged_def, rule project_model_roundtrip [OF demo_models(1)])
  ultimately have model: "model_at org_penv t = Inr (named_model ''zero'')" by simp
  have chain_t: "chain org_penv t ([] @ [org_revision])" using proposed(1) chain by (simp add: undecided_def)
  have number: "sr_number org_revision = 1" by (simp add: org_revision_def)
  obtain x u where "accept org_penv (sp_id p) (sr_number org_revision) ''alice'' None t = (Inr (next_revision org_penv org_revision p ''alice'' x), u)"
    by (rule accept_succeeds [OF org_layout chain_t demo_limit proposed(2) [OF ok] _ p(3) model _ p(4) texts(1)])
      (simp_all add: number p(2) org_fingerprint)
  with p(1) number that show ?thesis by simp
qed

lemma org_adopt: "\<exists>p new w'. adopt_knowledge org_env ''ORGR-u'' [''p''] 1 org_actor None recommended_world = (Inr (p, new, org_adoption), w')"
proof (rule org_propose_accept)
  fix p new t u
  assume p: "propose org_penv org_next_model 1 ''alice'' ''ORGANIZATIONAL_KNOWLEDGE_ADOPTION'' None None org_project = (Inr p, t)"
    and new: "accept org_penv (sp_id p) 1 ''alice'' None t = (Inr new, u)"
  define w1 where "w1 = recommended_world\<lparr>aw_ticks := 2\<rparr>"
  have read: "get_recommendation org_env ''ORGR-u'' recommended_world = (Inr org_recommendation, recommended_world)"
    "get_record org_env ''ORGK-u'' w1 = (Inr (org_record project_bound), w1)"
    by (simp_all add: get_recommendation_def get_record_def org_recommended w1_def)
  have auth: "authorize_knowledge org_env org_actor a pr recommended_world = (Inr (), w1)" for a pr
    unfolding org_authorized by (simp add: w1_def recommended_world_def promoted_world_def)
  have projects: "aw_projects recommended_world = [([''p''], org_project)]" by (simp add: recommended_world_def promoted_world_def org_world_def)
  have cur: "at_project org_env [''p''] current w1 = (Inr org_revision, w1)" by (rule org_current) (simp add: w1_def projects)
  have revision: "sr_project_id org_revision = ''P''" "sr_number org_revision = 1" "sr_fingerprint org_revision = org_hex" "sr_model org_revision = named_model ''zero''"
    by (simp_all add: org_revision_def demo_revision_def)
  have sel: "krc_target_project_id org_recommendation = ''P''" "krc_target_revision org_recommendation = 1" "krc_target_fingerprint org_recommendation = org_hex"
    "krc_knowledge_id org_recommendation = ''ORGK-u''" "krc_knowledge_digest org_recommendation = org_hex" "krc_id org_recommendation = ''ORGR-u''"
    "okr_record_digest (org_record project_bound) = org_hex" "okr_fresh_until (org_record project_bound) = ''late''"
    "applicable_to (okr_applicability (org_record project_bound)) ''P'' {} {}" "ad_float org_env = no_floats" "actor_id org_actor = ''alice''"
    "ad_database org_env = [''org.db'']" "ad_project org_env r = org_penv" for r
    by (simp_all add: org_recommendation_def org_record_def applicable_to_def project_bound_def org_env_def org_actor_def)
  have now: "given_or_now org_env None w = (Inr ''now'', w\<lparr>aw_ticks := Suc (aw_ticks w)\<rparr>)" for w
    by (simp add: given_or_now_def advisory_now_def org_env_def)
  have model: "(named_model ''zero'')\<lparr>pm_knowledge_adoptions := pm_knowledge_adoptions (named_model ''zero'') @ [org_adoption]\<rparr> = org_next_model"
    by (simp add: org_next_model_def) (simp add: named_model_def)
  have w1: "aw_projects w1 = [([''p''], org_project)]" by (simp add: w1_def projects)
  have run: "aw_projects w = [([''p''], org_project)] \<Longrightarrow> at_project org_env [''p''] (\<lambda>pe. propose pe org_next_model 1 ''alice''
        ''ORGANIZATIONAL_KNOWLEDGE_ADOPTION'' None None) w = (Inr p, w\<lparr>aw_projects := [([''p''], t)]\<rparr>)"
      "aw_projects w = [([''p''], t)] \<Longrightarrow> at_project org_env [''p''] (\<lambda>pe. accept pe (sp_id p) 1 ''alice'' None) w =
        (Inr new, w\<lparr>aw_projects := [([''p''], u)]\<rparr>)" for w
    by (simp_all add: at_project_def sel p new)
  show ?thesis
    unfolding adopt_knowledge_def
    by (simp add: require_separate_from_def require_org_def read auth cur revision sel org_times moment_le_def now org_adopted
        org_adoption_def [symmetric] model w1 run)
qed

end
