(* ===== verification/Organizational_Properties.thy ===== *)
theory Organizational_Properties
  imports Advisory_Demo Authority_Properties
begin

text \<open>
  The properties of the organizational store: what it keeps over any sequence of service calls, what an adoption does to the Project that adopts,
  and a recommendation that can never be made.
\<close>

section \<open>The store\<close>

text \<open>
  C15. The organizational store keeps what was promoted. After any sequence of service calls on a store whose tables were empty, whether they return
  or raise, no row was removed or changed since any earlier point of the sequence; every stored record is read back as the genuine record that was
  promoted, with the digest of its content, not RESTRICTED, approved, and with a confidence of at least 0.7; and every recommendation is advisory and
  names a stored record by identifier and digest.
\<close>

theorem organizational_store_genuine:
  assumes "aw_db w = empty_advisory_db" "w1 = fold (advisory_run env) before w" "w2 = fold (advisory_run env) later w1"
  shows "tables_grow (aw_db w1) (aw_db w2) \<and>
    (\<forall>i r. stored_record env i (aw_db w1) = Inr r \<longrightarrow> okr_id r = i \<and> genuine_record env r \<and> okr_sensitivity r \<noteq> SN_RESTRICTED \<and>
      \<not> float_less (okr_confidence r) seven_tenths \<and> okr_promotion_decision r = ''APPROVED'' \<and> stored_record env i (aw_db w2) = Inr r) \<and>
    (\<forall>row \<in> set (ad_records (aw_db w1)). \<exists>r. stored_record env (kr_id row) (aw_db w1) = Inr r) \<and>
    list_all (recommendation_row_ok (aw_db w2)) (ad_recommendations (aw_db w2))"
proof (intro conjI allI impI ballI)
  have ok: "advisory_ok env (aw_db w1)"
    using advisory_fold_step [of env w before] assms(1) advisory_ok_empty by (simp add: advisory_step_def assms(2))
  show grow: "tables_grow (aw_db w1) (aw_db w2)" and "list_all (recommendation_row_ok (aw_db w2)) (ad_recommendations (aw_db w2))"
    using advisory_fold_step [of env w1 later] ok by (simp_all add: advisory_step_def assms(3) advisory_ok_def)
  show "\<exists>r. stored_record env (kr_id row) (aw_db w1) = Inr r" if "row \<in> set (ad_records (aw_db w1))" for row
    using stored_record_row [OF ok that] .
  fix i r
  assume read: "stored_record env i (aw_db w1) = Inr r"
  show "okr_id r = i" "genuine_record env r" using stored_record_named [OF read ok] by simp_all
  then show "okr_sensitivity r \<noteq> SN_RESTRICTED" "\<not> float_less (okr_confidence r) seven_tenths" "okr_promotion_decision r = ''APPROVED''"
    using genuine_record_bounds by blast+
  show "stored_record env i (aw_db w2) = Inr r" by (rule stored_record_grows [OF grow read])
qed

theorem organizational_store_genuine_witness:
  "\<exists>w1. w1 = fold (advisory_run org_env) [Promote [''p''] ''P'' ''LES-1'' tag_bound ''late'' [org_hex] ''v'' org_actor (Some ''now'')] org_world \<and>
     stored_record org_env ''ORGK-u'' (aw_db w1) = Inr (org_record tag_bound) \<and> genuine_record org_env (org_record tag_bound) \<and>
     stored_record org_env ''ORGK-u'' (aw_db (fold (advisory_run org_env) [Search ''retry'' ''Q'' org_actor SN_INTERNAL {''t''} {} None] w1)) =
       Inr (org_record tag_bound)"
proof -
  let ?w1 = "fold (advisory_run org_env) [Promote [''p''] ''P'' ''LES-1'' tag_bound ''late'' [org_hex] ''v'' org_actor (Some ''now'')] org_world"
  have "aw_db org_world = empty_advisory_db" by (simp add: org_world_def)
  note store = organizational_store_genuine [OF this refl refl]
  have "stored_record org_env ''ORGK-u'' (aw_db ?w1) = Inr (org_record tag_bound)"
    by (simp add: org_promotion [OF org_bound_ok(2)] org_stored [OF org_bound_ok(2)])
  with store show ?thesis by blast
qed

section \<open>Adoption\<close>

lemma at_project_Inr:
  assumes "at_project env project_root m w = (Inr x, w')"
  obtains s t where "map_of (aw_projects w) project_root = Some s" "m (ad_project env project_root) s = (Inr x, t)"
    "w' = w\<lparr>aw_projects := AList.update project_root t (aw_projects w)\<rparr>"
  using assms by (auto simp: at_project_def split: option.splits prod.splits)

text \<open>Readings of the clock and of identifiers leave everything else alone.\<close>

definition same_world :: "advisory \<Rightarrow> advisory \<Rightarrow> bool" where
  "same_world w w' \<longleftrightarrow> aw_db w' = aw_db w \<and> aw_projects w' = aw_projects w \<and> aw_lessons w' = aw_lessons w \<and> aw_instances w' = aw_instances w"

interpretation world: state_preorder same_world
  by unfold_locales (simp_all add: same_world_def)

lemma same_world_rules:
  "given_or_now env v w = (Inr x, w') \<Longrightarrow> same_world w w'"
  "authorize_knowledge env actor action p w = (Inr u, w') \<Longrightarrow>
    same_world w w' \<and> actor_type actor \<notin> {AT_PROVIDER, AT_INTERACTION_CLIENT, AT_AGENT} \<and> (\<exists>now. require actor action p now = Inr ())"
  by (auto simp: given_or_now_def advisory_now_def advisory_epoch_def authorize_knowledge_def same_world_def elim!: eff_elims split: option.splits if_splits)

lemma project_model_with_adoption:
  assumes "project_model_ok m" "knowledge_adoption_ok a"
    "project_model_init (m\<lparr>pm_knowledge_adoptions := pm_knowledge_adoptions m @ [a]\<rparr>) = Inr m'"
  shows "m' = m\<lparr>pm_knowledge_adoptions := pm_knowledge_adoptions m @ [a]\<rparr> \<and> project_model_ok m'"
  using project_model_init_Inr [OF assms(3)] assms(1,2) by (auto simp: project_model_ok_def)

text \<open>\<open>accepted_at or _now()\<close> where the clock is read for the \<open>n\<close>-th time\<close>

definition time_given :: "advisory_env \<Rightarrow> string option \<Rightarrow> nat \<Rightarrow> string" where
  "time_given env v n = (case v of Some t \<Rightarrow> if t \<noteq> [] then t else ad_now env n | None \<Rightarrow> ad_now env n)"

lemma given_or_now_time:
  assumes "given_or_now env v w = (Inr t, w')"
  shows "t = time_given env v (aw_ticks w) \<and> (v \<in> {None, Some []} \<longrightarrow> aw_ticks w' = Suc (aw_ticks w))"
  using assms by (auto simp: given_or_now_def advisory_now_def time_given_def ret_def split: option.splits if_splits)

lemma given_twice:
  assumes "given_or_now env v w = (Inr t, w')" "given_or_now env v w' = (Inr t', w'')"
  shows "t' = time_given env v (Suc (aw_ticks w))"
  using given_or_now_time [OF assms(1)] given_or_now_time [OF assms(2)] by (cases v) (auto simp: time_given_def split: if_splits)

lemma authorize_time:
  assumes "authorize_knowledge env actor action p w = (Inr u, w')"
  shows "require actor action p (ad_epoch env (aw_ticks w)) = Inr () \<and> aw_ticks w' = Suc (aw_ticks w)"
  using assms by (auto simp: authorize_knowledge_def advisory_epoch_def elim!: eff_elims)

text \<open>
  What adoption has read and checked before it writes the Project. The time it compares with the end of the record's freshness is the time of acceptance
  that was given, or the clock's.
\<close>

definition adoption_ready :: "advisory_env \<Rightarrow> string \<Rightarrow> string list \<Rightarrow> int \<Rightarrow> actor_principal \<Rightarrow> string option \<Rightarrow> semantic_revision \<Rightarrow> advisory \<Rightarrow>
    organizational_record \<Rightarrow> knowledge_adoption \<Rightarrow> bool" where
  "adoption_ready env recommendation_id project_root expected actor acc cur w r a \<longleftrightarrow>
     \<not> prefix project_root (ad_database env) \<and> actor_type actor \<notin> {AT_PROVIDER, AT_INTERACTION_CLIENT, AT_AGENT} \<and> expected = sr_number cur \<and>
     (\<exists>x horizon instant provenance. stored_recommendation env recommendation_id (aw_db w) = Inr x \<and>
       require actor ''knowledge:adopt'' (krc_target_project_id x) (ad_epoch env (aw_ticks w)) = Inr () \<and> krc_target_revision x = sr_number cur \<and>
       krc_target_fingerprint x = sr_fingerprint cur \<and> stored_record env (krc_knowledge_id x) (aw_db w) = Inr r \<and>
       okr_record_digest r = krc_knowledge_digest x \<and> org_instant env (okr_fresh_until r) = Inr horizon \<and>
       org_instant env (time_given env acc (Suc (aw_ticks w))) = Inr instant \<and>
       mo_instant instant < mo_instant horizon \<and> applicable_to (okr_applicability r) (sr_project_id cur) {} {} \<and>
       rmap (adoption_provenance_from_dict (ad_float env)) (okr_provenance r) = Inr provenance \<and>
       a = adoption_of env r (krc_id x) (actor_id actor) (time_given env acc (Suc (Suc (aw_ticks w)))) provenance \<and> knowledge_adoption_ok a)"

lemma current_at_project:
  assumes "map_of (aw_projects w) project_root = Some s" "chain (ad_project env project_root) s (rs @ [cur])"
  shows "at_project env project_root current w = (Inr cur, w)"
  using current_run [OF assms(2)] assms(1) by (simp add: at_project_def AList.update_triv)

lemma read_org:
  "get_recommendation env i w = (Inr x, w') \<Longrightarrow> w' = w \<and> stored_recommendation env i (aw_db w) = Inr x"
  "get_record env i w = (Inr r, w') \<Longrightarrow> w' = w \<and> stored_record env i (aw_db w) = Inr r"
  by (auto simp: get_recommendation_def get_record_def)

lemma adopt_Inr:
  assumes "map_of (aw_projects w) project_root = Some s" and c: "chain (ad_project env project_root) s (rs @ [cur])"
    and run: "adopt_knowledge env recommendation_id project_root expected actor acc w = (Inr (p, new, a), w')"
  obtains r m t u where "adoption_ready env recommendation_id project_root expected actor acc cur w r a"
    "project_model_init ((sr_model cur)\<lparr>pm_knowledge_adoptions := pm_knowledge_adoptions (sr_model cur) @ [a]\<rparr>) = Inr m"
    "propose (ad_project env project_root) m expected (actor_id actor) ''ORGANIZATIONAL_KNOWLEDGE_ADOPTION'' None None s = (Inr p, t)"
    "accept (ad_project env project_root) (sp_id p) expected (actor_id actor) acc t = (Inr new, u)"
    "aw_db w' = aw_db w" "aw_lessons w' = aw_lessons w"
    "aw_projects w' = AList.update project_root u (AList.update project_root t (aw_projects w))"
  using run unfolding adopt_knowledge_def
proof (elim eff_elims at_project_Inr)
  let ?pe = "ad_project env project_root"
  fix sep w0 x w1 granted w2 c1 w3 num w4 fpr w5 r1 w6 dig w7 horizon w8 seen w9 instant w10 fresh w11 applies w12 provenance w13 adopted_at w14
    a1 w15 m w16 p1 w17 n1 w18 s1 t1 s2 t2 s3 t3
  assume x: "get_recommendation env recommendation_id w0 = (Inr x, w1)"
    and auth: "authorize_knowledge env actor ''knowledge:adopt'' (krc_target_project_id x) w1 = (Inr granted, w2)"
    and c1: "map_of (aw_projects w2) project_root = Some s1" "current ?pe s1 = (Inr c1, t1)"
      "w3 = w2\<lparr>aw_projects := AList.update project_root t1 (aw_projects w2)\<rparr>"
    and r1: "get_record env (krc_knowledge_id x) w5 = (Inr r1, w6)"
    and seen: "given_or_now env acc w8 = (Inr seen, w9)" and again: "given_or_now env acc w13 = (Inr adopted_at, w14)"
    and result: "(p, new, a) = (p1, n1, a1)" "w' = w18"
    and sep: "require_separate_from env project_root = Inr sep"
    and num: "require_org (\<not> (sr_number c1 \<noteq> expected \<or> sr_number c1 \<noteq> krc_target_revision x)) = Inr num"
    and fpr: "require_org (\<not> sr_fingerprint c1 \<noteq> krc_target_fingerprint x) = Inr fpr"
    and dig: "require_org (\<not> okr_record_digest r1 \<noteq> krc_knowledge_digest x) = Inr dig"
    and times: "org_instant env (okr_fresh_until r1) = Inr horizon" "org_instant env seen = Inr instant"
      "require_org (\<not> moment_le horizon instant) = Inr fresh"
    and applies: "require_org (applicable_to (okr_applicability r1) (sr_project_id c1) {} {}) = Inr applies"
    and provenance: "rmap (adoption_provenance_from_dict (ad_float env)) (okr_provenance r1) = Inr provenance"
    and a1: "knowledge_adoption_init (adoption_of env r1 (krc_id x) (actor_id actor) adopted_at provenance) = Inr a1"
    and m: "project_model_init ((sr_model c1)\<lparr>pm_knowledge_adoptions := pm_knowledge_adoptions (sr_model c1) @ [a1]\<rparr>) = Inr m"
    and p1: "map_of (aw_projects w16) project_root = Some s2"
      "propose ?pe m expected (actor_id actor) ''ORGANIZATIONAL_KNOWLEDGE_ADOPTION'' None None s2 = (Inr p1, t2)"
      "w17 = w16\<lparr>aw_projects := AList.update project_root t2 (aw_projects w16)\<rparr>"
    and n1: "map_of (aw_projects w17) project_root = Some s3" "accept ?pe (sp_id p1) expected (actor_id actor) acc s3 = (Inr n1, t3)"
      "w18 = w17\<lparr>aw_projects := AList.update project_root t3 (aw_projects w17)\<rparr>"
    and same: "w0 = w" "w4 = w3" "w5 = w4" "w7 = w6" "w8 = w7" "w10 = w9" "w11 = w10" "w12 = w11" "w13 = w12" "w15 = w14" "w16 = w15"
  have w1: "w1 = w" "stored_recommendation env recommendation_id (aw_db w) = Inr x"
    using read_org(1) [OF x] by (simp_all add: same)
  have g: "same_world w w2" "actor_type actor \<notin> {AT_PROVIDER, AT_INTERACTION_CLIENT, AT_AGENT}"
      "require actor ''knowledge:adopt'' (krc_target_project_id x) (ad_epoch env (aw_ticks w)) = Inr ()" "aw_ticks w2 = Suc (aw_ticks w)"
    using same_world_rules(2) [OF auth] authorize_time [OF auth] by (auto simp: w1)
  have cur: "s1 = s" "c1 = cur" "w3 = w2"
    using c1 assms(1) g(1) current_run [OF c] by (auto simp: same_world_def AList.update_triv)
  have w6: "w6 = w2" "stored_record env (krc_knowledge_id x) (aw_db w) = Inr r1"
    using read_org(2) [OF r1] g(1) by (auto simp: same cur same_world_def)
  have w14: "same_world w2 w14"
    using same_world_rules(1) [OF seen] same_world_rules(1) [OF again] world.R_trans by (auto simp: same w6)
  with g(1) have w: "same_world w w14" using world.R_trans by blast
  then have s2: "s2 = s" using p1(1) assms(1) by (simp add: same same_world_def)
  have s3: "s3 = t2" using n1(1) p1(3) by (simp add: update_conv')
  have a1': "a1 = adoption_of env r1 (krc_id x) (actor_id actor) adopted_at provenance" "knowledge_adoption_ok a1"
    using knowledge_adoption_init_Inr [OF a1] rmap_decoded [OF provenance, of adoption_provenance_ok] adoption_provenance_decoded
    by (auto simp: knowledge_adoption_ok_def adoption_of_def)
  have clock_read: "seen = time_given env acc (Suc (aw_ticks w))" "adopted_at = time_given env acc (Suc (Suc (aw_ticks w)))"
    using given_or_now_time [OF seen] given_twice [of env acc w8 seen w9 adopted_at w14] seen again g(4) by (simp_all add: same w6)
  have ready: "adoption_ready env recommendation_id project_root expected actor acc cur w r1 a1"
    unfolding adoption_ready_def
    using sep num fpr dig times applies provenance w1(2) g(2,3) w6(2) a1'
    by (intro conjI exI [of _ x] exI [of _ horizon] exI [of _ instant] exI [of _ provenance])
      (simp_all add: require_separate_from_def moment_le_def cur clock_read)
  show thesis
  proof (rule that [of r1 m t2 t3])
    show "adoption_ready env recommendation_id project_root expected actor acc cur w r1 a"
      using ready result by simp
  qed (use m p1 n1 s2 s3 cur w result in \<open>simp_all add: same same_world_def\<close>)
qed

lemma chain_model_ok:
  assumes "chain env s (rs @ [cur])"
  shows "project_model_ok (sr_model cur)"
proof -
  have "\<exists>p. stored env (semantic_revision_from_dict env) p s = Inr cur"
    using assms rmap_nth_mem [where y = cur] by (fastforce simp: chain_def)
  then show ?thesis using semantic_revision_decoded by (blast elim: stored_InrE)
qed

text \<open>
  C14. Adoption of organizational knowledge is a decision of the Project's own authority. When it succeeds, the actor was a person or the service with
  the right to adopt, and the recommendation, made against exactly the revision that is current, named a stored record with a matching digest that
  applies to the Project and is still fresh at the time of acceptance, the given one or the clock's. Then the Project gains exactly one revision, child of the current one, whose model is the current model with one
  adoption added, which carries the record's statement, source and digest; the organizational store, every other Project and all lessons stay as they are.
\<close>

theorem adoption_adds_one_revision:
  assumes "map_of (aw_projects w) project_root = Some s" "chain (ad_project env project_root) s (rs @ [cur])"
    and "plain_layout (ad_project env project_root)" "Suc (Suc (length rs)) < revision_limit"
    and "adopt_knowledge env recommendation_id project_root expected actor acc w = (Inr (p, new, a), w')"
  shows "\<exists>r u. adoption_ready env recommendation_id project_root expected actor acc cur w r a \<and> map_of (aw_projects w') project_root = Some u \<and>
    chain (ad_project env project_root) u (rs @ [cur, new]) \<and>
    sr_model new = (sr_model cur)\<lparr>pm_knowledge_adoptions := pm_knowledge_adoptions (sr_model cur) @ [a]\<rparr> \<and>
    (\<forall>other. other \<noteq> project_root \<longrightarrow> map_of (aw_projects w') other = map_of (aw_projects w) other) \<and>
    aw_db w' = aw_db w \<and> aw_lessons w' = aw_lessons w"
  using assms(1,2,5)
proof (rule adopt_Inr)
  let ?pe = "ad_project env project_root"
  fix r m t u
  assume ready: "adoption_ready env recommendation_id project_root expected actor acc cur w r a"
    and m: "project_model_init ((sr_model cur)\<lparr>pm_knowledge_adoptions := pm_knowledge_adoptions (sr_model cur) @ [a]\<rparr>) = Inr m"
    and p: "propose ?pe m expected (actor_id actor) ''ORGANIZATIONAL_KNOWLEDGE_ADOPTION'' None None s = (Inr p, t)"
    and acc: "accept ?pe (sp_id p) expected (actor_id actor) acc t = (Inr new, u)"
    and rest: "aw_db w' = aw_db w" "aw_lessons w' = aw_lessons w"
      "aw_projects w' = AList.update project_root u (AList.update project_root t (aw_projects w))"
  have "project_model_ok (sr_model cur)" by (rule chain_model_ok [OF assms(2)])
  then have m': "m = (sr_model cur)\<lparr>pm_knowledge_adoptions := pm_knowledge_adoptions (sr_model cur) @ [a]\<rparr>" "project_model_ok m"
    using project_model_with_adoption [OF _ _ m] ready by (auto simp: adoption_ready_def)
  note proposed = propose_Inr [OF assms(3,2) p]
  have chain: "chain ?pe t (rs @ [cur])" using proposed(1) assms(2) by (simp add: undecided_def)
  note accepted = accept_Inr [OF assms(3) chain assms(4) acc]
  have "sr_model new = m" using accepted(4) proposed(2) [OF m'(2)] proposed(3) by simp
  with accepted(1) ready rest show ?thesis
    by (intro exI [of _ r] exI [of _ u]) (auto simp: update_conv' m'(1))
qed

theorem adoption_adds_one_revision_witness:
  "\<exists>p new w' u. adopt_knowledge org_env ''ORGR-u'' [''p''] 1 org_actor None recommended_world = (Inr (p, new, org_adoption), w') \<and>
     map_of (aw_projects w') [''p''] = Some u \<and> chain org_penv u [org_revision, new] \<and> pm_knowledge_adoptions (sr_model new) = [org_adoption]"
proof -
  obtain p new w' where run: "adopt_knowledge org_env ''ORGR-u'' [''p''] 1 org_actor None recommended_world = (Inr (p, new, org_adoption), w')"
    using org_adopt by blast
  have project: "map_of (aw_projects recommended_world) [''p''] = Some org_project"
    by (simp add: recommended_world_def promoted_world_def org_world_def)
  have env: "ad_project org_env r = org_penv" for r by (simp add: org_env_def)
  have chain: "chain (ad_project org_env [''p'']) org_project ([] @ [org_revision])" by (simp add: env org_chain)
  have layout: "plain_layout (ad_project org_env [''p''])" by (simp add: env org_layout)
  have none: "pm_knowledge_adoptions (sr_model org_revision) = []" by (simp add: org_revision_def demo_revision_def named_model_def)
  from adoption_adds_one_revision [OF project chain layout demo_limit run] show ?thesis
    by (intro exI [of _ p] exI [of _ new] exI [of _ w']) (auto simp: run env none)
qed

section \<open>Knowledge bounded by tags or domains\<close>

lemma from_same_tables:
  assumes "keeps same_tables m" and "\<And>x t. m s = (Inr x, t) \<Longrightarrow> aw_db t = aw_db s \<Longrightarrow> tables.from_state (f x) t"
  shows "tables.from_state (bnd m f) s"
  using assms by (intro tables.from_bnd) (auto simp: tables.keeps_from_state tables.from_state_def same_tables_def keeps_def, metis snd_conv)

lemma search_records_exact:
  assumes "search_records env wanted now rs = Inr found"
  shows "r \<in> set found \<longleftrightarrow> r \<in> set rs \<and> wanted r \<and> (\<exists>horizon. org_instant env (okr_fresh_until r) = Inr horizon \<and> \<not> moment_le horizon now)"
  using assms by (induction rs arbitrary: found) (auto simp: rbind_Inr_iff split: if_splits)

lemma search_records_horizons:
  "search_records env wanted now rs = Inr found \<Longrightarrow> r \<in> set rs \<Longrightarrow> \<exists>horizon. org_instant env (okr_fresh_until r) = Inr horizon"
  by (induction rs arbitrary: found) (auto simp: rbind_Inr_iff split: if_splits)

lemma stored_records_member:
  assumes "stored_records env d = Inr rs" and "stored_record env i d = Inr r"
  shows "r \<in> set rs"
proof -
  have "i \<in> set (sort (map kr_id (ad_records d)))" using assms(2) by (auto simp: stored_record_def find_Some_iff split: option.splits)
  then show ?thesis using rmap_image [of "\<lambda>i. stored_record env i d"] assms by (fastforce simp: stored_records_def)
qed

lemma search_finds:
  assumes "stored_record env i (aw_db w) = Inr r" and "search_knowledge env query p actor clearance tags domains now w = (Inr found, w')"
  obtains instant horizon where "org_instant env (time_given env now (Suc (aw_ticks w))) = Inr instant"
    "org_instant env (okr_fresh_until r) = Inr horizon"
    "r \<in> set found \<longleftrightarrow> mo_instant instant < mo_instant horizon \<and> sensitivity_rank (okr_sensitivity r) \<le> sensitivity_rank clearance \<and>
       applicable_to (okr_applicability r) p tags domains \<and> found_by query r"
  using assms(2) unfolding search_knowledge_def
proof (elim eff_elims)
  fix u w1 q w2 seen w3 instant w4 records w5 hits
  assume auth: "authorize_knowledge env actor ''knowledge:read'' p w = (Inr u, w1)"
    and seen: "given_or_now env now w2 = (Inr seen, w3)" and same: "w2 = w1" "w4 = w3"
    and instant: "org_instant env seen = Inr instant"
    and records: "(stored_records env (aw_db w4), w4) = (Inr records, w5)"
    and found: "rbind (search_records env (\<lambda>r. \<not> sensitivity_rank (okr_sensitivity r) > sensitivity_rank clearance \<and>
         applicable_to (okr_applicability r) p tags domains \<and> found_by query r) instant records) (\<lambda>found. Inr (by_confidence found)) = Inr found"
  have ticks: "aw_ticks w1 = Suc (aw_ticks w)" "aw_db w1 = aw_db w"
    using authorize_time [OF auth] same_world_rules(2) [OF auth] by (simp_all add: same_world_def)
  have db: "aw_db w4 = aw_db w" using same_world_rules(1) [OF seen] ticks by (simp add: same same_world_def)
  have time: "org_instant env (time_given env now (Suc (aw_ticks w))) = Inr instant"
    using given_or_now_time [OF seen] instant by (simp add: same ticks)
  obtain hits where hits: "search_records env (\<lambda>r. \<not> sensitivity_rank (okr_sensitivity r) > sensitivity_rank clearance \<and>
      applicable_to (okr_applicability r) p tags domains \<and> found_by query r) instant records = Inr hits" "set found = set hits"
    using found by (auto simp: rbind_Inr_iff by_confidence_def)
  have member: "r \<in> set records" using stored_records_member [of env "aw_db w"] records assms(1) by (simp add: db)
  then obtain horizon where horizon: "org_instant env (okr_fresh_until r) = Inr horizon" using search_records_horizons [OF hits(1)] by blast
  show thesis
    by (rule that [OF time horizon]) (use search_records_exact [OF hits(1), of r] member horizon in \<open>auto simp: hits(2) moment_le_def\<close>)
qed

text \<open>
  C19. Knowledge whose applicability names no Project can be found and never used. A search that returns finds it exactly when it is fresh at the time of
  the search, within the clearance, said in words of the query, and one of its tags or domains is asked for from a Project it does not exclude. Yet
  \<open>recommend\<close>, which asks for applicability without tags and domains, raises for every Project, actor, clearance and time and leaves the store as it is.
\<close>

theorem tagged_knowledge_never_recommended:
  assumes "stored_record env i (aw_db w) = Inr r" "kb_project_ids (okr_applicability r) = []"
    and "search_knowledge env query q searcher searcher_clearance tags domains asked w = (Inr found, w')"
  shows "(\<exists>e. fst (recommend env i project_root p actor clearance now w) = Inl e) \<and>
    aw_db (snd (recommend env i project_root p actor clearance now w)) = aw_db w \<and>
    (\<exists>instant horizon. org_instant env (time_given env asked (Suc (aw_ticks w))) = Inr instant \<and> org_instant env (okr_fresh_until r) = Inr horizon \<and>
      (r \<in> set found \<longleftrightarrow> mo_instant instant < mo_instant horizon \<and> sensitivity_rank (okr_sensitivity r) \<le> sensitivity_rank searcher_clearance \<and>
        found_by query r \<and> q \<notin> set (kb_excluded_project_ids (okr_applicability r)) \<and>
        (set (kb_tags (okr_applicability r)) \<inter> tags \<noteq> {} \<or> set (kb_domains (okr_applicability r)) \<inter> domains \<noteq> {})))"
proof (intro conjI)
  show "\<exists>instant horizon. org_instant env (time_given env asked (Suc (aw_ticks w))) = Inr instant \<and> org_instant env (okr_fresh_until r) = Inr horizon \<and>
      (r \<in> set found \<longleftrightarrow> mo_instant instant < mo_instant horizon \<and> sensitivity_rank (okr_sensitivity r) \<le> sensitivity_rank searcher_clearance \<and>
        found_by query r \<and> q \<notin> set (kb_excluded_project_ids (okr_applicability r)) \<and>
        (set (kb_tags (okr_applicability r)) \<inter> tags \<noteq> {} \<or> set (kb_domains (okr_applicability r)) \<inter> domains \<noteq> {}))"
    using search_finds [OF assms(1,3)] assms(2) by (metis applicable_to_def empty_iff empty_set)
  have no: "\<not> applicable_to (okr_applicability r) p {} {}" using assms(2) by (simp add: applicable_to_def)
  have pre: "aw_db t = aw_db w" if "authorize_knowledge env actor ''knowledge:recommend'' p w = (Inr u, t)" for u t
    using same_world_rules(2) [OF that] by (simp add: same_world_def)
  show "\<exists>e. fst (recommend env i project_root p actor clearance now w) = Inl e"
  proof (cases "fst (recommend env i project_root p actor clearance now w)")
    case (Inr x)
    then obtain t where "recommend env i project_root p actor clearance now w = (Inr x, t)" by (metis prod.collapse)
    then have False
      unfolding recommend_def using no assms(1)
      by (auto elim!: bnd_InrE lift_InrE req_InrE dest!: read_org(2) same_world_rules(2) simp: same_world_def)
    then show ?thesis ..
  qed simp
  have "tables.from_state (recommend env i project_root p actor clearance now) w"
    unfolding recommend_def Let_def
    by (intro from_same_tables [OF tables.keeps_lift] from_same_tables [OF same_tables_authorize] from_same_tables [OF tables.keeps_req]
        from_same_tables [OF same_tables_get(1)] from_same_tables [OF same_tables_given] from_same_tables [OF same_tables_uuid]
        from_same_tables [OF same_tables_project]) (use no assms(1) in \<open>auto dest!: read_org(2)\<close>)
  then show "aw_db (snd (recommend env i project_root p actor clearance now w)) = aw_db w"
    by (simp add: tables.from_state_def same_tables_def)
qed

theorem tagged_knowledge_never_recommended_witness:
  "fst (search_knowledge org_env ''retry'' ''Q'' org_actor SN_INTERNAL {''t''} {} (Some ''now'') (promoted_world tag_bound)) = Inr [org_record tag_bound] \<and>
   found_by ''retry'' (org_record tag_bound) \<and>
   (\<exists>e. fst (recommend org_env ''ORGK-u'' [''p''] ''P'' org_actor SN_INTERNAL (Some ''now'') (promoted_world tag_bound)) = Inl e)"
proof -
  have "kb_project_ids (okr_applicability (org_record tag_bound)) = []" by (simp add: org_record_def tag_bound_def)
  note both = tagged_knowledge_never_recommended [OF org_stored [OF org_bound_ok(2)] this org_found,
    of "[''p'']" "''P''" org_actor SN_INTERNAL "Some ''now''"]
  have "org_record tag_bound \<in> set [org_record tag_bound]" by simp
  with both have "found_by ''retry'' (org_record tag_bound)" by blast
  with both org_found show ?thesis by simp
qed

end
