(* ===== verification/Compilation.thy ===== *)
theory Compilation
  imports Canonical_Json Project_Model
begin

text \<open>
  Models of \<open>src/artifex/compilation\<close> the shared helpers (\<open>_util.py\<close>), the projection from the typed Project Model to the read model
  (\<open>projection.py\<close>), the manifests and freshness of generated views (\<open>freshness.py\<close>) and the context and execution packets (\<open>packets.py\<close>).

  A Python dictionary is the list of its items in order. SHA-256 of a text is the parameter \<open>ce_sha\<close>.
\<close>

section \<open>Helpers\<close>

record compile_env =
  ce_sha :: "string \<Rightarrow> string"
  ce_float :: py_float

text \<open>\<open>json.loads\<close> of the canonical text: the same value with the keys of every object in order\<close>

fun copy_json :: "json \<Rightarrow> json" where
  "copy_json (JObj kvs) = JObj (sort_key fst (map (\<lambda>(k, j). (k, copy_json j)) kvs))"
| "copy_json (JArr xs) = JArr (map copy_json xs)"
| "copy_json j = j"

definition copy_obj :: "obj \<Rightarrow> obj" where
  "copy_obj v = sort_key fst (map (\<lambda>(k, j). (k, copy_json j)) v)"

fun fingerprint_value :: "compile_env \<Rightarrow> json \<Rightarrow> string" where
  "fingerprint_value env (JStr s) = ce_sha env s"
| "fingerprint_value env j = ce_sha env (canonical_text (ce_float env) j)"

definition compiled_fingerprint :: "compile_env \<Rightarrow> obj \<Rightarrow> string" where
  "compiled_fingerprint env v = fingerprint_value env (JObj v)"

fun lookup_parts :: "json \<Rightarrow> string list \<Rightarrow> json option" where
  "lookup_parts j [] = Some j"
| "lookup_parts (JObj kvs) (p # ps) = (case map_of kvs p of None \<Rightarrow> None | Some j \<Rightarrow> lookup_parts j ps)"
| "lookup_parts j (p # ps) = None"

fun lookup_json :: "obj \<Rightarrow> string list \<Rightarrow> json" where
  "lookup_json model [] = JNull"
| "lookup_json model (path # paths) = (case lookup_parts (JObj model) (split_on CHR ''.'' path) of
     None \<Rightarrow> lookup_json model paths | Some j \<Rightarrow> j)"

fun as_object :: "json \<Rightarrow> obj option" where
  "as_object (JObj kvs) = Some kvs"
| "as_object j = None"

fun as_array :: "json \<Rightarrow> json list option" where
  "as_array (JArr xs) = Some xs"
| "as_array j = None"

definition identity_keys :: "string list" where
  "identity_keys = [''id'', ''name'', ''description'', ''lifecycle'', ''workflow_depth'', ''experience_mode'', ''autonomy_mode'',
     ''architecture_version'', ''implementation_plan_version'']"

definition project_identity :: "obj \<Rightarrow> obj res" where
  "project_identity model =
     (let project = (case as_object (lookup_json model [''project'']) of None \<Rightarrow> model | Some p \<Rightarrow> p);
        result = concat (map (\<lambda>k. case map_of project k of None \<Rightarrow> [] | Some j \<Rightarrow> [(k, copy_json j)]) identity_keys) in
      rbind (require_value (result \<noteq> [])) (\<lambda>_. Inr result))"

section \<open>The read model\<close>

definition understanding_fields :: "string list" where
  "understanding_fields = [''acceptance_contracts'', ''admin_guide'', ''architecture'', ''authority'', ''capabilities'', ''components'', ''concepts'',
     ''core_components'', ''decisions'', ''deployment'', ''developer_guide'', ''extension_points'', ''extensions'', ''history'', ''implementation'',
     ''integrations'', ''interfaces'', ''invariants'', ''known_limitations'', ''limitations'', ''migration'', ''milestones'', ''operations'',
     ''paper'', ''permissions'', ''project_history'', ''purpose'', ''recovery'', ''requirements'', ''runbook'', ''security'', ''status'', ''tasks'',
     ''testing'', ''upgrade'', ''user_guide'', ''validation'', ''versioning'', ''workflow'', ''workflows'']"

definition typed_model_fields :: "string list" where
  "typed_model_fields = [''schema_version'', ''project'', ''git'', ''artifacts'', ''entities'']"

definition entity_collections :: "(string \<times> string) list" where
  "entity_collections = [(''requirement'', ''requirements''), (''invariant'', ''invariants''), (''capability'', ''capabilities''),
     (''interface'', ''interfaces''), (''milestone'', ''milestones''), (''task'', ''tasks'')]"

definition is_typed_project_model :: "obj \<Rightarrow> bool" where
  "is_typed_project_model v \<longleftrightarrow> set typed_model_fields \<subseteq> fst ` set v \<and> fst ` set v \<subseteq> set typed_model_fields \<and>
     as_array (item_or v ''artifacts'' JNull) \<noteq> None \<and> as_array (item_or v ''entities'' JNull) \<noteq> None"

definition objects_of :: "json list \<Rightarrow> obj list" where
  "objects_of xs = List.map_filter as_object xs"

definition str_or :: "py_float \<Rightarrow> obj \<Rightarrow> string \<Rightarrow> string" where
  "str_or py v k = py_str py (item_or v k (JStr []))"

definition accepted_artifacts :: "py_float \<Rightarrow> json list \<Rightarrow> obj list" where
  "accepted_artifacts py xs = sort_key (\<lambda>a. str_or py a ''id'') (filter (\<lambda>a. item_or a ''status'' JNull = JStr ''ACCEPTED'') (objects_of xs))"

fun add_fields :: "py_float \<Rightarrow> obj \<Rightarrow> obj \<Rightarrow> obj res" where
  "add_fields py projected [] = Inr projected"
| "add_fields py projected ((name, j) # entries) =
     rbind (require_value (case map_of projected name of None \<Rightarrow> True
       | Some old \<Rightarrow> canonical_text py old = canonical_text py (copy_json j))) (\<lambda>_.
     add_fields py (AList.update name (copy_json j) projected) entries)"

definition artifact_understanding :: "obj \<Rightarrow> obj res" where
  "artifact_understanding a =
     rbind (mapping_of (item_or a ''metadata'' (JObj []))) (\<lambda>metadata.
     case map_of metadata ''understanding'' of None \<Rightarrow> Inr []
     | Some u \<Rightarrow> rbind (mapping_of u) (\<lambda>entries.
         rbind (require_value (list_all (\<lambda>(k, _). k \<in> set understanding_fields) entries)) (\<lambda>_. Inr (sort_key fst entries))))"

fun accepted_understanding :: "py_float \<Rightarrow> obj \<Rightarrow> obj list \<Rightarrow> obj res" where
  "accepted_understanding py projected [] = Inr projected"
| "accepted_understanding py projected (a # as) =
     rbind (artifact_understanding a) (\<lambda>entries.
     rbind (add_fields py projected entries) (\<lambda>projected'.
     accepted_understanding py projected' as))"

definition entity_fallbacks :: "py_float \<Rightarrow> json list \<Rightarrow> (string \<times> json list) list" where
  "entity_fallbacks py xs =
     (let typed = sort_key (\<lambda>e. str_or py e ''id'') (sort_key (\<lambda>e. str_or py e ''kind'') (objects_of xs)) in
      map (\<lambda>(kind, collection). (collection, map (\<lambda>e. copy_json (JObj e)) (filter (\<lambda>e. str_or py e ''kind'' = kind) typed))) entity_collections)"

definition add_fallbacks :: "(string \<times> json list) list \<Rightarrow> obj \<Rightarrow> obj" where
  "add_fallbacks fallbacks projected = fold (\<lambda>(field, items) v. if map_of v field = None \<and> items \<noteq> [] then AList.update field (JArr items) v else v)
     fallbacks projected"

definition add_purpose :: "obj \<Rightarrow> obj \<Rightarrow> obj" where
  "add_purpose model projected = (if map_of projected ''purpose'' \<noteq> None then projected
     else case as_object (item_or model ''project'' JNull) of None \<Rightarrow> projected
     | Some p \<Rightarrow> (case item_or p ''description'' JNull of JNull \<Rightarrow> projected | j \<Rightarrow> AList.update ''purpose'' (copy_json j) projected))"

definition update_all :: "obj \<Rightarrow> obj \<Rightarrow> obj" where
  "update_all new v = fold (\<lambda>(k, j). AList.update k j) new v"

definition typed_fields :: "py_float \<Rightarrow> obj \<Rightarrow> obj res" where
  "typed_fields py model =
     rbind (accepted_understanding py [] (accepted_artifacts py (the (as_array (item_or model ''artifacts'' JNull))))) (\<lambda>projected.
     Inr (add_purpose model (add_fallbacks (entity_fallbacks py (the (as_array (item_or model ''entities'' JNull)))) projected)))"

definition project_understanding :: "py_float \<Rightarrow> obj \<Rightarrow> obj res" where
  "project_understanding py model =
     (if \<not> is_typed_project_model model then Inr (copy_obj model)
      else rbind (typed_fields py model) (\<lambda>projected. Inr (update_all projected (copy_obj model))))"

section \<open>Manifests and freshness\<close>

datatype generated_view_state = GV_CURRENT | GV_STALE | GV_MISSING | GV_NOT_APPLICABLE

text \<open>\<open>sorted(sources, key=str)\<close>: a source is a JSON value, so the bytes that \<open>fingerprint_value\<close> also takes do not arise\<close>

definition fingerprint_sources :: "compile_env \<Rightarrow> obj \<Rightarrow> (string \<times> string) list" where
  "fingerprint_sources env sources = map (\<lambda>(name, j). (name, fingerprint_value env j)) (sort_key fst sources)"

definition generation_manifest :: "compile_env \<Rightarrow> obj \<Rightarrow> obj option \<Rightarrow> string \<Rightarrow> obj" where
  "generation_manifest env model sources generator =
     (let source_content = (case sources of None \<Rightarrow> [(''project_model'', JObj model)] | Some v \<Rightarrow> v) in
      [(''generated'', JBool True), (''canonical'', JBool False), (''generator'', JStr generator),
       (''project_model_fingerprint'', JStr (compiled_fingerprint env model)),
       (''source_fingerprints'', JObj (map (\<lambda>(name, t). (name, JStr t)) (fingerprint_sources env source_content)))])"

text \<open>Two dictionaries are equal when they have the same keys with the same values.\<close>

definition same_dict :: "(string \<times> string) list \<Rightarrow> (string \<times> string) list \<Rightarrow> bool" where
  "same_dict v w \<longleftrightarrow> list_all (\<lambda>k. map_of v k = map_of w k) (map fst v @ map fst w)"

definition classify_generated_view :: "compile_env \<Rightarrow> obj \<Rightarrow> obj option \<Rightarrow> bool \<Rightarrow> generated_view_state" where
  "classify_generated_view env current_sources stored_manifest applicable =
     (if \<not> applicable then GV_NOT_APPLICABLE
      else case stored_manifest of None \<Rightarrow> GV_MISSING
      | Some v \<Rightarrow> (case as_object (item_or v ''source_fingerprints'' JNull) of None \<Rightarrow> GV_STALE
        | Some stored \<Rightarrow> if same_dict (map (\<lambda>(k, j). (k, py_str (ce_float env) j)) stored) (fingerprint_sources env current_sources)
            then GV_CURRENT else GV_STALE))"

section \<open>Packets\<close>

definition context_paths :: "(string \<times> string list) list" where
  "context_paths = [(''purpose'', [''purpose'', ''project.description'']), (''architecture'', [''architecture'']),
     (''core_components'', [''core_components'', ''architecture.components'', ''components'']),
     (''workflows'', [''workflows'', ''workflow.stages'']), (''capabilities'', [''capabilities'']),
     (''interfaces'', [''interfaces'', ''integrations.interfaces'']), (''invariants'', [''invariants'']),
     (''extension_points'', [''extension_points'', ''extensions'']), (''known_limitations'', [''known_limitations'', ''limitations'']),
     (''implementation_state'', [''implementation'', ''status''])]"

definition find_task :: "obj \<Rightarrow> string \<Rightarrow> json" where
  "find_task model task_id = (case lookup_json model [''tasks'', ''implementation.tasks''] of
     JObj kvs \<Rightarrow> item_or kvs task_id JNull
   | JArr xs \<Rightarrow> (case List.find (\<lambda>t. item_or t ''id'' JNull = JStr task_id) (objects_of xs) of None \<Rightarrow> JNull | Some t \<Rightarrow> JObj t)
   | _ \<Rightarrow> JNull)"

definition select_context :: "obj \<Rightarrow> obj" where
  "select_context model = concat (map (\<lambda>(name, paths). case lookup_json model paths of JNull \<Rightarrow> [] | j \<Rightarrow> [(name, copy_json j)]) context_paths)"

definition with_id :: "string \<Rightarrow> json \<Rightarrow> json" where
  "with_id identifier value = (case value of
     JObj kvs \<Rightarrow> if map_of kvs ''id'' = None then JObj ((''id'', JStr identifier) # kvs) else value
   | _ \<Rightarrow> value)"

definition artifact_items :: "obj \<Rightarrow> json list" where
  "artifact_items model = (case lookup_json model [''artifacts.items'', ''artifacts''] of
     JObj kvs \<Rightarrow> map (\<lambda>(k, j). with_id k j) kvs
   | JArr xs \<Rightarrow> xs
   | _ \<Rightarrow> [])"

text \<open>The index by identifier: of several items with one identifier the last is found.\<close>

definition artifacts_by_id :: "py_float \<Rightarrow> obj \<Rightarrow> (string \<times> obj) list" where
  "artifacts_by_id py model = List.rev (List.map_filter
     (\<lambda>kvs. case map_of kvs ''id'' of None \<Rightarrow> None | Some j \<Rightarrow> Some (py_str py j, kvs)) (objects_of (artifact_items model)))"

definition item_dependencies :: "py_float \<Rightarrow> (string \<times> obj) list \<Rightarrow> string \<Rightarrow> string list" where
  "item_dependencies py by_id identifier = (case map_of by_id identifier of None \<Rightarrow> []
     | Some kvs \<Rightarrow> (case as_array (item_or kvs ''depends_on'' (item_or kvs ''dependencies'' (JArr []))) of None \<Rightarrow> []
       | Some xs \<Rightarrow> map (py_str py) xs))"

definition push_dependency :: "string \<Rightarrow> string list \<times> string list \<Rightarrow> string list \<times> string list" where
  "push_dependency dependency = (\<lambda>(selected, pending).
     if dependency \<in> set selected then (selected, pending) else (dependency # selected, dependency # pending))"

text \<open>The dependencies that are not selected yet: every step that selects one leaves fewer of them.\<close>

definition unselected :: "py_float \<Rightarrow> (string \<times> obj) list \<Rightarrow> string list \<Rightarrow> string set" where
  "unselected py by_id selected = (\<Union>i\<in>fst ` set by_id. set (item_dependencies py by_id i)) - set selected"

lemma finite_unselected [simp, intro]: "finite (unselected py by_id selected)"
  by (simp add: unselected_def)

lemma push_dependencies_shape:
  "\<exists>new. fold push_dependency ds (selected, pending) = (new @ selected, new @ pending) \<and> set new = set ds - set selected \<and> distinct new"
proof (induction ds arbitrary: selected pending)
  case (Cons d ds)
  show ?case
  proof (cases "d \<in> set selected")
    case True
    then show ?thesis using Cons.IH [of selected pending] by (auto simp: push_dependency_def)
  next
    case False
    obtain new where "fold push_dependency ds (d # selected, d # pending) = (new @ d # selected, new @ d # pending)"
      "set new = set ds - set (d # selected)" "distinct new" using Cons.IH [of "d # selected" "d # pending"] by auto
    note new = this
    have "fold push_dependency (d # ds) (selected, pending) = ((new @ [d]) @ selected, (new @ [d]) @ pending)"
      using False new(1) by (simp add: push_dependency_def)
    moreover have "set (new @ [d]) = set (d # ds) - set selected" "distinct (new @ [d])" using False new(2,3) by auto
    ultimately show ?thesis by blast
  qed
qed simp

lemma item_dependencies_indexed:
  "d \<in> set (item_dependencies py by_id i) \<Longrightarrow> i \<in> fst ` set by_id"
  by (cases "map_of by_id i") (auto simp: item_dependencies_def dest!: map_of_SomeD intro: rev_image_eqI)

function select_dependencies :: "py_float \<Rightarrow> (string \<times> obj) list \<Rightarrow> string list \<Rightarrow> string list \<Rightarrow> string list" where
  "select_dependencies py by_id selected [] = selected"
| "select_dependencies py by_id selected (i # pending) =
     (case fold push_dependency (item_dependencies py by_id i) (selected, pending) of
        (selected', pending') \<Rightarrow> select_dependencies py by_id selected' pending')"
  by pat_completeness auto

termination
proof (relation "measures [\<lambda>(py, by_id, selected, _). card (unselected py by_id selected), \<lambda>(_, _, _, pending). length pending]", goal_cases)
  case (2 py by_id selected i pending selected' pending')
  obtain new where new: "fold push_dependency (item_dependencies py by_id i) (selected, pending) = (new @ selected, new @ pending)"
    "set new = set (item_dependencies py by_id i) - set selected" using push_dependencies_shape by blast
  show ?case
  proof (cases "new = []")
    case True
    with 2 new show ?thesis by simp
  next
    case False
    then obtain d where d: "d \<in> set new" by (cases new) auto
    then have "d \<in> unselected py by_id selected" using new(2) item_dependencies_indexed by (fastforce simp: unselected_def)
    moreover have "unselected py by_id (new @ selected) \<subseteq> unselected py by_id selected - {d}" using d by (auto simp: unselected_def)
    ultimately have "unselected py by_id (new @ selected) \<subset> unselected py by_id selected" by blast
    then have "card (unselected py by_id (new @ selected)) < card (unselected py by_id selected)" by (simp add: psubset_card_mono)
    with 2 new show ?thesis by simp
  qed
qed simp

definition relevant_artifacts :: "py_float \<Rightarrow> obj \<Rightarrow> string list \<Rightarrow> json list" where
  "relevant_artifacts py model relevant_ids =
     (let by_id = artifacts_by_id py model;
        selected = select_dependencies py by_id (remdups relevant_ids) (List.rev relevant_ids) in
      List.map_filter (\<lambda>i. case map_of by_id i of None \<Rightarrow> None | Some kvs \<Rightarrow> Some (copy_json (JObj kvs))) (sort selected))"

definition task_focus :: "obj \<Rightarrow> string \<Rightarrow> obj" where
  "task_focus model task_id = (''task_id'', JStr task_id) # (case find_task model task_id of
     JObj t \<Rightarrow> [(''dependencies'', copy_json (item_or t ''dependencies'' (item_or t ''depends_on'' (JArr []))))]
   | _ \<Rightarrow> [])"

definition focused_context :: "py_float \<Rightarrow> obj \<Rightarrow> string option \<Rightarrow> string list \<Rightarrow> obj \<Rightarrow> obj" where
  "focused_context py model task_id relevant_ids context =
     (let focus = (case task_id of None \<Rightarrow> [] | Some i \<Rightarrow> task_focus model i) @
            (if relevant_ids = [] then [] else [(''relevant_ids'', JArr (map JStr (sort (remdups relevant_ids))))]);
        artifacts = (if relevant_ids = [] then [] else relevant_artifacts py model relevant_ids) in
      context @ (if focus = [] then [] else [(''focus'', JObj focus)]) @
        (if artifacts = [] then [] else [(''relevant_artifacts'', JArr artifacts)]))"

definition compile_context_packet :: "compile_env \<Rightarrow> obj \<Rightarrow> string option \<Rightarrow> string list \<Rightarrow> obj \<Rightarrow> obj res" where
  "compile_context_packet env model task_id relevant_ids additional =
     rbind (project_understanding (ce_float env) model) (\<lambda>read_model.
     let context = focused_context (ce_float env) read_model task_id relevant_ids (select_context read_model) @
           (if additional = [] then [] else [(''additional'', JObj (copy_obj additional))]) in
     rbind (project_identity read_model) (\<lambda>identity.
     Inr [(''schema_version'', JStr ''1.0''), (''kind'', JStr ''CONTEXT_PACKET''),
       (''generated_view'', JObj (generation_manifest env model None ''context-packet-v1'')),
       (''project'', JObj identity), (''context'', JObj context),
       (''project_model_fingerprint'', JStr (compiled_fingerprint env model))]))"

definition execution_task_id :: "py_float \<Rightarrow> obj \<Rightarrow> string option" where
  "execution_task_id py task = (case item_or task ''id'' JNull of JNull \<Rightarrow> None | j \<Rightarrow> Some (py_str py j))"

definition compile_execution_packet ::
  "compile_env \<Rightarrow> obj \<Rightarrow> obj \<Rightarrow> obj \<Rightarrow> obj \<Rightarrow> string list \<Rightarrow> json \<Rightarrow> string list \<Rightarrow> obj option \<Rightarrow> obj res" where
  "compile_execution_packet env model task contract ownership permissions expected relevant_ids context_packet =
     rbind (require_value (task \<noteq> [])) (\<lambda>_.
     rbind (require_value (contract \<noteq> [])) (\<lambda>_.
     rbind (case context_packet of Some p \<Rightarrow> Inr (copy_obj p)
       | None \<Rightarrow> compile_context_packet env model (execution_task_id (ce_float env) task) relevant_ids []) (\<lambda>packet.
     rbind (require_value (item_or packet ''kind'' JNull = JStr ''CONTEXT_PACKET'')) (\<lambda>_.
     let execution = [(''schema_version'', JStr ''1.0''), (''kind'', JStr ''EXECUTION_PACKET''),
           (''generated_view'', JObj (generation_manifest env model None ''execution-packet-v1'')),
           (''context_packet'', JObj packet), (''task'', JObj (copy_obj task)), (''acceptance_contract'', JObj (copy_obj contract)),
           (''ownership'', JObj (copy_obj ownership)), (''permissions'', JArr (map JStr (sort (remdups permissions)))),
           (''expected_output'', copy_json expected)] in
     Inr (execution @ [(''execution_contract_fingerprint'', JStr (compiled_fingerprint env execution))])))))"

end
