(* ===== verification/Canonical_Laws.thy ===== *)
theory Canonical_Laws
  imports Compilation Authority_Laws
begin

text \<open>
  The canonical text determines a document up to the order of keys: two documents have the same canonical
  text exactly when their copies are equal. A text is read from the left: what precedes a separator is one value.
\<close>

section \<open>Separators\<close>

definition at_end :: "string \<Rightarrow> bool" where
  "at_end r \<longleftrightarrow> r = [] \<or> hd r \<in> {CHR '','', CHR '']'', CHR ''}''}"

lemma at_end_simps [simp]:
  "at_end []" "at_end (CHR '','' # r)" "at_end (CHR '']'' # r)" "at_end (CHR ''}'' # r)"
  by (simp_all add: at_end_def)

declare nat_text.simps [simp del]

section \<open>Texts of numbers\<close>

lemma nat_text_digits_all: "list_all is_digit (nat_text n)"
  using nat_text_chars [of n] by (simp add: list_all_iff is_digit_def)

lemma nat_text_not_Nil [simp]: "nat_text n \<noteq> []"
  by (subst nat_text.simps) simp

lemma int_digits_snoc: "int_digits (s @ [c]) = 10 * int_digits s + int (ccode c - 48)"
  by (simp add: int_digits_def)

lemma int_digits_nat_text: "int_digits (nat_text n) = int n"
proof (induction n rule: nat_text.induct)
  case (1 n)
  show ?case
  proof (cases "n < 10")
    case True
    then show ?thesis by (subst nat_text.simps) (simp add: int_digits_def ccode_def)
  next
    case False
    then have "nat_text n = nat_text (n div 10) @ [char_of (48 + n mod 10)]" by (subst nat_text.simps) simp
    moreover have "ccode (char_of (48 + n mod 10)) = 48 + n mod 10" by (simp add: ccode_def)
    moreover have "10 * int (n div 10) + int (n mod 10) = int n"
      by (metis mult_div_mod_eq of_nat_add of_nat_mult of_nat_numeral)
    ultimately show ?thesis using 1 [OF False] by (simp add: int_digits_snoc)
  qed
qed

lemma at_end_not_digit: "at_end r \<Longrightarrow> r = [] \<or> \<not> is_digit (hd r)"
  by (auto simp: at_end_def is_digit_def ccode_def)

lemma digits_prefix:
  assumes "list_all is_digit s" and "at_end r"
  shows "takeWhile is_digit (s @ r) = s"
  using assms(1) at_end_not_digit [OF assms(2)] by (cases r) (auto simp: list_all_iff takeWhile_append)

lemma nat_text_cancel:
  assumes "nat_text n @ r = nat_text n' @ r'" "at_end r" "at_end r'"
  shows "n = n' \<and> r = r'"
proof -
  have eq: "nat_text n = nat_text n'"
    using digits_prefix [OF nat_text_digits_all assms(2)] digits_prefix [OF nat_text_digits_all assms(3)] assms(1) by metis
  then have "int n = int n'" using int_digits_nat_text by metis
  with assms(1) eq show ?thesis by simp
qed

lemma nat_text_head: "nat_text n = c # s \<Longrightarrow> is_digit c"
  using nat_text_digits_all [of n] by simp

lemma minus_not_digit [simp]: "\<not> is_digit CHR ''-''"
  by code_simp

lemma int_text_cancel:
  assumes "int_text i @ r = int_text i' @ r'" "at_end r" "at_end r'"
  shows "i = i' \<and> r = r'"
proof -
  obtain c s where c: "nat_text (nat i) = c # s" by (cases "nat_text (nat i)") auto
  obtain c' s' where c': "nat_text (nat i') = c' # s'" by (cases "nat_text (nat i')") auto
  have "c \<noteq> CHR ''-''" "c' \<noteq> CHR ''-''" using nat_text_head [OF c] nat_text_head [OF c'] by auto
  then have signs: "i < 0 \<longleftrightarrow> i' < 0" using assms(1) c c' by (auto simp: int_text_def split: if_splits)
  show ?thesis
  proof (cases "i < 0")
    case True
    with signs assms(1) have "nat_text (nat (- i)) @ r = nat_text (nat (- i')) @ r'" by (simp add: int_text_def)
    from nat_text_cancel [OF this assms(2,3)] True signs show ?thesis by (simp add: eq_nat_nat_iff)
  next
    case False
    with signs assms(1) have "nat_text (nat i) @ r = nat_text (nat i') @ r'" by (simp add: int_text_def)
    from nat_text_cancel [OF this assms(2,3)] False signs show ?thesis by (simp add: eq_nat_nat_iff)
  qed
qed

section \<open>Texts of strings\<close>

definition hex_value :: "char \<Rightarrow> nat" where
  "hex_value c = (if ccode c < 58 then ccode c - 48 else ccode c - 87)"

definition escaped_char :: "char \<Rightarrow> char" where
  "escaped_char c = (if c = CHR ''b'' then char_of (8::nat) else if c = CHR ''t'' then char_of (9::nat) else if c = CHR ''n'' then char_of (10::nat)
     else if c = CHR ''f'' then char_of (12::nat) else if c = CHR ''r'' then char_of (13::nat) else c)"

fun read_char :: "string \<Rightarrow> (char \<times> string) option" where
  "read_char [] = None"
| "read_char (c # s) = (if c \<noteq> CHR 0x5C then Some (c, s)
     else case s of [] \<Rightarrow> None
     | d # s' \<Rightarrow> if d \<noteq> CHR ''u'' then Some (escaped_char d, s')
       else case s' of _ # _ # h # l # s'' \<Rightarrow> Some (char_of (16 * hex_value h + hex_value l), s'') | _ \<Rightarrow> None)"

lemma read_char_append: "read_char s = Some (c, r) \<Longrightarrow> read_char (s @ x) = Some (c, r @ x)"
  by (cases s) (auto split: if_splits list.splits)

lemma hex_value_char: "k < 16 \<Longrightarrow> hex_value (hex_char k) = k"
  by (simp add: hex_value_def hex_char_def ccode_def)

lemma char_of_ccode [simp]: "char_of (ccode c) = c"
  by (simp add: ccode_def)

lemma ccode_quote: "ccode c = 34 \<longleftrightarrow> c = CHR 0x22"
proof -
  have "ccode CHR 0x22 = 34" by (simp add: ccode_def)
  then show ?thesis using char_of_ccode by metis
qed

lemma ccode_marks [simp]: "ccode CHR 0x22 = 34" "ccode CHR 0x5C = 92"
  by (simp_all add: ccode_def)

lemma read_plain: "ccode c \<noteq> 92 \<Longrightarrow> read_char [c] = Some (c, [])"
  by (auto simp: ccode_def)

lemma read_control:
  assumes "ccode c < 32"
  shows "read_char (json_escape c) = Some (c, [])"
proof -
  have c: "c = char_of (ccode c)" by simp
  consider "ccode c = 8" | "ccode c = 9" | "ccode c = 10" | "ccode c = 12" | "ccode c = 13"
    | "ccode c \<notin> {8, 9, 10, 12, 13}" by auto
  then show ?thesis
  proof cases
    case 6
    then have "json_escape c = [CHR 0x5C, CHR ''u'', CHR ''0'', CHR ''0'', hex_char (ccode c div 16), hex_char (ccode c mod 16)]"
      using assms by (auto simp: json_escape_def Let_def)
    moreover have "16 * (ccode c div 16) + ccode c mod 16 = ccode c" by simp
    ultimately show ?thesis using assms by (simp add: hex_value_char)
  qed (use c in \<open>simp_all add: json_escape_def escaped_char_def\<close>)
qed

lemma read_raw: "read_char (raw_escape c) = Some (c, [])"
proof -
  consider "ccode c = 34" | "ccode c = 92" | "32 \<le> ccode c" "ccode c \<noteq> 34" "ccode c \<noteq> 92" | "ccode c < 32" by linarith
  then show ?thesis
  proof cases
    case 1
    then have "c = CHR 0x22" using ccode_quote by simp
    then show ?thesis by (simp add: raw_escape_def json_escape_def escaped_char_def ccode_def)
  next
    case 2
    then have "c = CHR 0x5C" using ccode_backslash by simp
    then show ?thesis by (simp add: raw_escape_def json_escape_def escaped_char_def ccode_def)
  next
    case 3
    then have "raw_escape c = [c]" by (auto simp: raw_escape_def json_escape_def)
    with 3 show ?thesis using read_plain by simp
  next
    case 4
    then show ?thesis using read_control by (simp add: raw_escape_def)
  qed
qed

lemma read_raw_escape: "read_char (raw_escape c @ x) = Some (c, x)"
  using read_char_append [OF read_raw] by simp

lemma raw_escape_cancel: "raw_escape c @ x = raw_escape d @ y \<Longrightarrow> c = d \<and> x = y"
  using read_raw_escape [of c x] read_raw_escape [of d y] by (metis option.inject prod.inject)

lemma raw_escape_head: "raw_escape c \<noteq> [] \<and> hd (raw_escape c) \<noteq> CHR 0x22"
  using ccode_quote [of c] by (simp add: raw_escape_def json_escape_def Let_def)

lemma raw_escape_not_quote: "raw_escape c @ x \<noteq> CHR 0x22 # y"
proof -
  obtain d t where "raw_escape c = d # t" "d \<noteq> CHR 0x22" using raw_escape_head [of c] by (cases "raw_escape c") simp_all
  then show ?thesis by simp
qed

lemma raw_body_cancel:
  "concat (map raw_escape s) @ CHR 0x22 # r = concat (map raw_escape s') @ CHR 0x22 # r' \<Longrightarrow> s = s' \<and> r = r'"
proof (induction s arbitrary: s')
  case Nil
  then show ?case using raw_escape_not_quote by (cases s') (auto dest: sym)
next
  case (Cons c s)
  show ?case
  proof (cases s')
    case Nil
    with Cons.prems raw_escape_not_quote show ?thesis by simp
  next
    case (Cons d t)
    with Cons.prems have "raw_escape c @ concat (map raw_escape s) @ CHR 0x22 # r = raw_escape d @ concat (map raw_escape t) @ CHR 0x22 # r'"
      by simp
    from raw_escape_cancel [OF this] Cons.IH [of t] Cons show ?thesis by simp
  qed
qed

lemma raw_string_cancel: "raw_string s @ r = raw_string s' @ r' \<Longrightarrow> s = s' \<and> r = r'"
  using raw_body_cancel [of s r s' r'] by (simp add: raw_string_def)

section \<open>Texts of documents\<close>

text \<open>
  A floating-point number is a double in lowest terms: an odd mantissa, or zero. Python prints different doubles differently, in digits and signs with a
  point or an exponent, so that none reads as an integer. Negative zero, infinities and NaN are not numbers of the model; \<open>allow_nan=False\<close>
  refuses the last two.
\<close>

definition double :: "int \<Rightarrow> int \<Rightarrow> bool" where
  "double m e \<longleftrightarrow> (odd m \<or> m = 0 \<and> e = 0) \<and> \<bar>m\<bar> < 2 ^ 53 \<and> - 1074 \<le> e \<and> (0 \<le> e \<longrightarrow> e \<le> 1023 \<and> \<bar>m\<bar> * 2 ^ nat e < 2 ^ 1024)"

definition number_char :: "char \<Rightarrow> bool" where
  "number_char c \<longleftrightarrow> is_digit c \<or> c \<in> {CHR ''-'', CHR ''+'', CHR ''.'', CHR ''e''}"

definition float_literal :: "string \<Rightarrow> bool" where
  "float_literal s \<longleftrightarrow> list_all number_char s \<and> s \<noteq> [] \<and> (hd s = CHR ''-'' \<or> is_digit (hd s)) \<and> (CHR ''.'' \<in> set s \<or> CHR ''e'' \<in> set s)"

definition python_floats :: "py_float \<Rightarrow> bool" where
  "python_floats py \<longleftrightarrow> (\<forall>m e. double m e \<longrightarrow> float_literal (float_text py m e)) \<and>
     (\<forall>m e m' e'. double m e \<and> double m' e' \<and> float_text py m e = float_text py m' e' \<longrightarrow> m = m' \<and> e = e')"

fun normal_floats :: "json \<Rightarrow> bool" where
  "normal_floats (JFloat m e) \<longleftrightarrow> double m e"
| "normal_floats (JArr xs) \<longleftrightarrow> list_all normal_floats xs"
| "normal_floats (JObj kvs) \<longleftrightarrow> list_all (\<lambda>(k, j). normal_floats j) kvs"
| "normal_floats j \<longleftrightarrow> True"

text \<open>The text with the keys in the order the document has them\<close>

fun plain_text :: "py_float \<Rightarrow> json \<Rightarrow> string" where
  "plain_text py JNull = ''null''"
| "plain_text py (JBool b) = (if b then ''true'' else ''false'')"
| "plain_text py (JInt i) = int_text i"
| "plain_text py (JFloat m e) = float_text py m e"
| "plain_text py (JStr s) = raw_string s"
| "plain_text py (JArr xs) = CHR ''['' # join_with CHR '','' (map (plain_text py) xs) @ '']''"
| "plain_text py (JObj kvs) = CHR ''{'' # join_with CHR '','' (map (\<lambda>(k, j). raw_string k @ CHR '':'' # plain_text py j) kvs) @ ''}''"

definition pair_text :: "py_float \<Rightarrow> string \<times> json \<Rightarrow> string" where
  "pair_text py = (\<lambda>(k, j). raw_string k @ CHR '':'' # plain_text py j)"

text \<open>The kind of a value is seen at the first character of its text.\<close>

definition first_char :: "json \<Rightarrow> char \<Rightarrow> bool" where
  "first_char j c = (case j of JNull \<Rightarrow> c = CHR ''n'' | JBool b \<Rightarrow> c = (if b then CHR ''t'' else CHR ''f'')
     | JInt i \<Rightarrow> c = CHR ''-'' \<or> is_digit c
     | JFloat m e \<Rightarrow> c = CHR ''-'' \<or> is_digit c | JStr s \<Rightarrow> c = CHR 0x22 | JArr xs \<Rightarrow> c = CHR ''['' | JObj kvs \<Rightarrow> c = CHR ''{'')"

lemma int_text_first: "\<exists>c s. int_text i = c # s \<and> (c = CHR ''-'' \<or> is_digit c)"
proof -
  obtain c s where c: "nat_text (nat i) = c # s" by (cases "nat_text (nat i)") auto
  then show ?thesis using nat_text_head [OF c] by (auto simp: int_text_def)
qed

lemma float_text_first:
  assumes "python_floats py" "double m e"
  shows "\<exists>c s. float_text py m e = c # s \<and> (c = CHR ''-'' \<or> is_digit c)"
proof -
  have "float_literal (float_text py m e)" using assms by (simp add: python_floats_def)
  then show ?thesis by (cases "float_text py m e") (simp_all add: float_literal_def)
qed

lemma plain_text_first:
  assumes "python_floats py" "normal_floats j"
  shows "\<exists>c s. plain_text py j = c # s \<and> first_char j c"
  using assms(2) int_text_first float_text_first [OF assms(1)] by (cases j) (simp_all add: first_char_def raw_string_def)

section \<open>Numbers before a separator\<close>

fun is_number :: "json \<Rightarrow> bool" where
  "is_number (JInt i) \<longleftrightarrow> True"
| "is_number (JFloat m e) \<longleftrightarrow> True"
| "is_number j \<longleftrightarrow> False"

lemma at_end_not_number: "at_end r \<Longrightarrow> r = [] \<or> \<not> number_char (hd r)"
  by (auto simp: at_end_def number_char_def is_digit_def ccode_def)

lemma number_cancel:
  assumes "list_all number_char s" "list_all number_char s'" "s @ r = s' @ r'" "at_end r" "at_end r'"
  shows "s = s' \<and> r = r'"
proof -
  have "takeWhile number_char (s @ r) = s" using assms(1) at_end_not_number [OF assms(4)]
    by (cases r) (auto simp: list_all_iff takeWhile_append)
  moreover have "takeWhile number_char (s' @ r') = s'" using assms(2) at_end_not_number [OF assms(5)]
    by (cases r') (auto simp: list_all_iff takeWhile_append)
  ultimately have "s = s'" using assms(3) by metis
  with assms(3) show ?thesis by simp
qed

lemma nat_text_number: "c \<in> set (nat_text n) \<Longrightarrow> is_digit c"
  using nat_text_digits_all [of n] by (simp add: list_all_iff)

lemma int_text_chars: "c \<in> set (int_text i) \<Longrightarrow> c = CHR ''-'' \<or> is_digit c"
  by (auto simp: int_text_def dest: nat_text_number split: if_splits)

lemma point_not_digit: "\<not> is_digit CHR ''.''" "\<not> is_digit CHR ''e''"
  by (simp_all add: is_digit_def ccode_def)

lemma number_text_cancel:
  assumes "python_floats py" "is_number j" "is_number j'" "normal_floats j" "normal_floats j'"
    and "plain_text py j @ r = plain_text py j' @ r'" "at_end r" "at_end r'"
  shows "j = j' \<and> r = r'"
proof -
  have literal: "float_literal (float_text py m e)" if "double m e" for m e using assms(1) that by (simp add: python_floats_def)
  have chars: "list_all number_char (plain_text py x)" if "is_number x" "normal_floats x" for x
  proof (cases x)
    case (JInt i)
    then show ?thesis using int_text_chars [of _ i] by (auto simp: list_all_iff number_char_def)
  next
    case (JFloat m e)
    then show ?thesis using literal [of m e] that(2) by (simp add: float_literal_def)
  qed (use that in simp_all)
  have eq: "plain_text py j = plain_text py j'" "r = r'"
    using number_cancel [OF chars [OF assms(2,4)] chars [OF assms(3,5)] assms(6-8)] by simp_all
  have differ: "int_text i \<noteq> float_text py m e" if "double m e" for i m e
    using literal [OF that] int_text_chars [of _ i] point_not_digit by (fastforce simp: float_literal_def)
  have same: "int_text i = int_text i' \<Longrightarrow> i = i'" for i i' using int_text_cancel [of i "[]" i' "[]"] by simp
  have "j = j'"
    using assms(1-5) eq(1) differ same by (cases j; cases j') (auto simp: python_floats_def, metis+)
  with eq(2) show ?thesis by simp
qed

lemma first_char_not_end: "first_char j c \<Longrightarrow> c \<notin> {CHR '','', CHR '']'', CHR ''}''}"
  by (auto simp: first_char_def is_digit_def ccode_def split: json.splits if_splits)

lemma not_digits [simp]: "\<not> is_digit CHR ''n''" "\<not> is_digit CHR ''t''" "\<not> is_digit CHR ''f''" "\<not> is_digit CHR 0x22"
  "\<not> is_digit CHR ''[''" "\<not> is_digit CHR ''{''"
  by (simp_all add: is_digit_def ccode_def)

lemma join_cancel:
  assumes "join_with CHR '','' (map t xs) @ e # r = join_with CHR '','' (map t ys) @ e # r'"
    and "e = CHR '']'' \<or> e = CHR ''}''"
    and "\<And>x y r r'. x \<in> set xs \<Longrightarrow> y \<in> set ys \<Longrightarrow> t x @ r = t y @ r' \<Longrightarrow> at_end r \<Longrightarrow> at_end r' \<Longrightarrow> x = y \<and> r = r'"
    and "\<And>x. x \<in> set xs \<union> set ys \<Longrightarrow> t x \<noteq> [] \<and> hd (t x) \<noteq> e"
  shows "xs = ys \<and> r = r'"
  using assms
proof (induction xs arbitrary: ys)
  case Nil
  show ?case
  proof (cases ys)
    case (Cons y ys')
    have "t y \<noteq> []" "hd (t y) \<noteq> e" using Nil.prems(4) [of y] Cons by auto
    moreover have "e # r = t y @ (if ys' = [] then [] else CHR '','' # join_with CHR '','' (map t ys')) @ e # r'"
      using Nil.prems(1) Cons by (cases ys') auto
    ultimately show ?thesis by (cases "t y") auto
  qed (use Nil in simp)
next
  case (Cons x xs)
  define rest where "rest zs q = (if zs = [] then e # q else CHR '','' # join_with CHR '','' (map t zs) @ e # q)" for zs q
  have ends: "at_end (rest zs q)" for zs q using Cons.prems(2) by (auto simp: rest_def)
  have left: "join_with CHR '','' (map t (z # zs)) @ e # q = t z @ rest zs q" for z zs q by (cases zs) (simp_all add: rest_def)
  show ?case
  proof (cases ys)
    case Nil
    have "t x \<noteq> []" "hd (t x) \<noteq> e" using Cons.prems(4) [of x] by auto
    with Cons.prems(1) Nil left [of x xs r] show ?thesis by (cases "t x") auto
  next
    case (Cons y ys')
    have "t x @ rest xs r = t y @ rest ys' r'" using Cons.prems(1) left Cons by metis
    with Cons.prems(3) [of x y "rest xs r" "rest ys' r'"] ends Cons have eq: "x = y" "rest xs r = rest ys' r'" by auto
    have e: "e \<noteq> CHR '',''" using Cons.prems(2) by auto
    show ?thesis
    proof (cases "xs = [] \<or> ys' = []")
      case True
      with eq(2) e Cons eq(1) show ?thesis by (auto simp: rest_def split: if_splits)
    next
      case False
      with eq(2) have "join_with CHR '','' (map t xs) @ e # r = join_with CHR '','' (map t ys') @ e # r'" by (simp add: rest_def)
      then have "xs = ys' \<and> r = r'"
      proof (rule Cons.IH [OF _ Cons.prems(2)], goal_cases)
        case (1 x y q q')
        then show ?case using Cons.prems(3) [of x y q q'] Cons by simp
      next
        case (2 z)
        then show ?case using Cons.prems(4) [of z] Cons by auto
      qed
      with eq(1) Cons show ?thesis by simp
    qed
  qed
qed

lemma first_char_kind:
  assumes "first_char j c" and "first_char j' c"
  shows "(is_number j \<and> is_number j') \<or> (\<exists>s s'. j = JStr s \<and> j' = JStr s') \<or> (\<exists>xs xs'. j = JArr xs \<and> j' = JArr xs') \<or>
    (\<exists>kvs kvs'. j = JObj kvs \<and> j' = JObj kvs') \<or> j = j'"
  using assms by (cases j; cases j') (auto simp: first_char_def split: if_splits)

lemma plain_text_not_end:
  assumes "python_floats py" "normal_floats j" and "e = CHR '']'' \<or> e = CHR ''}''"
  shows "plain_text py j \<noteq> [] \<and> hd (plain_text py j) \<noteq> e"
proof -
  obtain c s where "plain_text py j = c # s" "first_char j c" using plain_text_first [OF assms(1,2)] by blast
  then show ?thesis using first_char_not_end [of j c] assms(3) by auto
qed

lemma pair_text_not_end:
  assumes "e = CHR '']'' \<or> e = CHR ''}''"
  shows "pair_text py p \<noteq> [] \<and> hd (pair_text py p) \<noteq> e"
  using assms by (auto simp: pair_text_def raw_string_def split: prod.splits)

lemma pair_text_cancel:
  assumes "pair_text py (k, j) @ r = pair_text py (k', j') @ r'"
  shows "k = k' \<and> plain_text py j @ r = plain_text py j' @ r'"
  using raw_string_cancel [of k "CHR '':'' # plain_text py j @ r" k' "CHR '':'' # plain_text py j' @ r'"] assms
  by (simp add: pair_text_def)

lemma plain_text_constant:
  assumes "python_floats py" "j = JNull \<or> j = JBool b" and "plain_text py j @ r = plain_text py j' @ r'" and "normal_floats j'"
  shows "j = j' \<and> r = r'"
proof -
  obtain c s where "plain_text py j = c # s" "first_char j c" using plain_text_first [OF assms(1), of j] assms(2) by fastforce
  moreover obtain c' s' where "plain_text py j' = c' # s'" "first_char j' c'" using plain_text_first [OF assms(1,4)] by blast
  ultimately have "j' = j" using assms(2,3) first_char_kind [of j c j'] by auto
  with assms(3) show ?thesis by simp
qed

theorem plain_text_cancel:
  assumes python: "python_floats py"
    and "plain_text py j @ r = plain_text py j' @ r'" and "normal_floats j" "normal_floats j'" and "at_end r" "at_end r'"
  shows "j = j' \<and> r = r'"
  using assms(2-)
proof (induction j arbitrary: j' r r')
  case (JInt i)
  obtain c s where "plain_text py (JInt i) = c # s" "first_char (JInt i) c" using plain_text_first [OF python] JInt.prems(2) by blast
  moreover obtain c' s' where "plain_text py j' = c' # s'" "first_char j' c'" using plain_text_first [OF python] JInt.prems(3) by blast
  ultimately have "is_number j'" using JInt.prems(1) first_char_kind [of "JInt i" c j'] by auto
  then show ?case using number_text_cancel [OF python _ _ JInt.prems(2,3,1,4,5)] by simp
next
  case (JFloat n e)
  obtain c s where "plain_text py (JFloat n e) = c # s" "first_char (JFloat n e) c" using plain_text_first [OF python] JFloat.prems(2) by blast
  moreover obtain c' s' where "plain_text py j' = c' # s'" "first_char j' c'" using plain_text_first [OF python] JFloat.prems(3) by blast
  ultimately have "is_number j'" using JFloat.prems(1) first_char_kind [of "JFloat n e" c j'] by auto
  then show ?case using number_text_cancel [OF python _ _ JFloat.prems(2,3,1,4,5)] by simp
next
  case (JStr s)
  obtain c t where "plain_text py (JStr s) = c # t" "first_char (JStr s) c" using plain_text_first [OF python] JStr.prems(2) by blast
  moreover obtain c' t' where "plain_text py j' = c' # t'" "first_char j' c'" using plain_text_first [OF python] JStr.prems(3) by blast
  ultimately obtain s' where "j' = JStr s'" using JStr.prems(1) first_char_kind [of "JStr s" c j'] by auto
  then show ?case using JStr.prems(1) raw_string_cancel [of s r s' r'] by simp
next
  case (JArr xs)
  obtain c s where "plain_text py (JArr xs) = c # s" "first_char (JArr xs) c" using plain_text_first [OF python] JArr.prems(2) by blast
  moreover obtain c' s' where "plain_text py j' = c' # s'" "first_char j' c'" using plain_text_first [OF python] JArr.prems(3) by blast
  ultimately obtain ys where j': "j' = JArr ys" using JArr.prems(1) first_char_kind [of "JArr xs" c j'] by auto
  have "xs = ys \<and> r = r'"
  proof (rule join_cancel [of "plain_text py" xs "CHR '']''"])
    show "x = y \<and> q = q'" if "x \<in> set xs" "y \<in> set ys" "plain_text py x @ q = plain_text py y @ q'" "at_end q" "at_end q'" for x y q q'
      using JArr.IH [OF that(1,3)] that JArr.prems(2,3) j' by (simp add: list_all_iff)
    show "plain_text py x \<noteq> [] \<and> hd (plain_text py x) \<noteq> CHR '']''" if "x \<in> set xs \<union> set ys" for x
      using that JArr.prems(2,3) j' by (intro plain_text_not_end [OF python]) (auto simp: list_all_iff)
  qed (use JArr.prems(1) j' in simp_all)
  with j' show ?case by simp
next
  case (JObj kvs)
  obtain c s where "plain_text py (JObj kvs) = c # s" "first_char (JObj kvs) c" using plain_text_first [OF python] JObj.prems(2) by blast
  moreover obtain c' s' where "plain_text py j' = c' # s'" "first_char j' c'" using plain_text_first [OF python] JObj.prems(3) by blast
  ultimately obtain kvs' where j': "j' = JObj kvs'" using JObj.prems(1) first_char_kind [of "JObj kvs" c j'] by auto
  have "kvs = kvs' \<and> r = r'"
  proof (rule join_cancel [of "pair_text py" kvs "CHR ''}''"])
    show "x = y \<and> q = q'" if "x \<in> set kvs" "y \<in> set kvs'" "pair_text py x @ q = pair_text py y @ q'" "at_end q" "at_end q'" for x y q q'
    proof -
      obtain k j l i where x: "x = (k, j)" and y: "y = (l, i)" by (cases x, cases y)
      with that(3) have eq: "k = l" "plain_text py j @ q = plain_text py i @ q'" using pair_text_cancel by blast+
      have "normal_floats j" "normal_floats i" using JObj.prems(2,3) j' that(1,2) x y by (auto simp: list_all_iff)
      then have "j = i \<and> q = q'" using JObj.IH [OF that(1) _ eq(2)] that(4,5) x by simp
      with x y eq(1) show ?thesis by simp
    qed
    show "pair_text py x \<noteq> [] \<and> hd (pair_text py x) \<noteq> CHR ''}''" for x by (rule pair_text_not_end) simp
  qed (use JObj.prems(1) j' in \<open>simp_all add: pair_text_def\<close>)
  with j' show ?case by simp
next
  case JNull
  show ?case by (rule plain_text_constant [OF python _ JNull.prems(1,3)]) simp
next
  case (JBool b)
  show ?case by (rule plain_text_constant [OF python _ JBool.prems(1,3)]) simp
qed

lemma sort_key_map_snd: "sort_key fst (map (\<lambda>(k, j). (k, f j)) kvs) = map (\<lambda>(k, j). (k, f j)) (sort_key fst kvs)"
proof (induction kvs)
  case (Cons p kvs)
  have "insort_key fst ((\<lambda>(k, j). (k, f j)) p) (map (\<lambda>(k, j). (k, f j)) ps) = map (\<lambda>(k, j). (k, f j)) (insort_key fst p ps)" for ps
    by (induction ps) (auto split: prod.splits)
  with Cons show ?case by simp
qed simp

lemma canonical_text_plain: "canonical_text py j = plain_text py (copy_json j)"
proof (induction j)
  case (JArr xs)
  then show ?case by (simp add: comp_def cong: map_cong)
next
  case (JObj kvs)
  have "map (\<lambda>(k, j). (k, canonical_text py j)) kvs = map (\<lambda>(k, j). (k, plain_text py j)) (map (\<lambda>(k, j). (k, copy_json j)) kvs)"
    using JObj by auto
  then have "sort_key fst (map (\<lambda>(k, j). (k, canonical_text py j)) kvs) =
    map (\<lambda>(k, j). (k, plain_text py j)) (sort_key fst (map (\<lambda>(k, j). (k, copy_json j)) kvs))"
    by (simp only: sort_key_map_snd)
  then show ?case by (simp add: comp_def split_def)
qed simp_all

lemma normal_floats_copy [simp]: "normal_floats j \<Longrightarrow> normal_floats (copy_json j)"
  by (induction j) (auto simp: list_all_iff)

theorem canonical_text_eq:
  assumes "python_floats py" and "normal_floats j" and "normal_floats j'"
  shows "canonical_text py j = canonical_text py j' \<longleftrightarrow> copy_json j = copy_json j'"
  using plain_text_cancel [of py "copy_json j" "[]" "copy_json j'" "[]"] assms by (auto simp: canonical_text_plain)

end
