(* ===== verification/Compilation_Properties.thy ===== *)
theory Compilation_Properties
  imports Canonical_Laws
begin

text \<open>
  Properties of the compiled views: what may enter the read model of a Project, that a Project Model with optional parts is not
  recognised, that the relevant artifacts are the exact closure of the dependencies, and that the digests of packets and manifests
  identify what they were taken over.
\<close>

section \<open>Copies\<close>

lemma map_of_sort_key: "distinct (map fst v) \<Longrightarrow> map_of (sort_key fst v) = map_of v"
  by (subst map_of_inject_set) (simp_all add: distinct_map)

lemma map_of_copy_obj: "distinct (map fst v) \<Longrightarrow> map_of (copy_obj v) k = map_option copy_json (map_of v k)"
  unfolding copy_obj_def by (subst map_of_sort_key) (simp_all add: comp_def split_def map_of_map [unfolded split_def])

lemma copy_json_obj [simp]: "copy_json (JObj v) = JObj (copy_obj v)"
  by (simp add: copy_obj_def)

declare copy_json.simps(1) [simp del]

lemma copy_json_twice [simp]: "copy_json (copy_json j) = copy_json j"
proof (induction j)
  case (JObj kvs)
  let ?copies = "map (\<lambda>(k, j). (k, copy_json j))"
  have "?copies (?copies kvs) = ?copies kvs" using JObj by auto
  then have "sort_key fst (?copies (sort_key fst (?copies kvs))) = sort_key fst (sort_key fst (?copies kvs))"
    by (simp only: sort_key_map_snd [symmetric])
  then show ?case by (simp add: copy_obj_def sort_key_id_if_sorted)
qed (simp_all cong: map_cong)

lemma copy_obj_twice [simp]: "copy_obj (copy_obj v) = copy_obj v"
  using copy_json_twice [of "JObj v"] by simp

lemma copy_jstrs [simp]: "copy_json (JArr (map JStr xs)) = JArr (map JStr xs)"
  by simp

section \<open>Packets\<close>

lemma compile_execution_packet_Inr:
  assumes "compile_execution_packet env model task contract ownership permissions expected relevant_ids context_packet = Inr packet"
  obtains view execution where "execution = [(''schema_version'', JStr ''1.0''), (''kind'', JStr ''EXECUTION_PACKET''),
      (''generated_view'', JObj (generation_manifest env model None ''execution-packet-v1'')),
      (''context_packet'', JObj view), (''task'', JObj (copy_obj task)), (''acceptance_contract'', JObj (copy_obj contract)),
      (''ownership'', JObj (copy_obj ownership)), (''permissions'', JArr (map JStr (sort (remdups permissions)))),
      (''expected_output'', copy_json expected)]"
    "packet = execution @ [(''execution_contract_fingerprint'', JStr (compiled_fingerprint env execution))]"
  using assms by (auto simp: compile_execution_packet_def Let_def rbind_Inr_iff simp del: copy_json.simps)


definition packet_body :: "obj \<Rightarrow> obj" where
  "packet_body packet = filter (\<lambda>(k, _). k \<noteq> ''execution_contract_fingerprint'') packet"

definition packet_text :: "compile_env \<Rightarrow> obj \<Rightarrow> string" where
  "packet_text env packet = canonical_text (ce_float env) (JObj (packet_body packet))"

lemma same_texts_same_values:
  assumes "python_floats py" and "canonical_text py (JObj v) = canonical_text py (JObj w)" and "normal_floats (JObj v)" "normal_floats (JObj w)"
    and "distinct (map fst v)" "distinct (map fst w)"
  shows "map_option copy_json (map_of v k) = map_option copy_json (map_of w k)"
proof -
  have "copy_obj v = copy_obj w" using canonical_text_eq [of py "JObj v" "JObj w"] assms(1-4) by simp
  then show ?thesis using map_of_copy_obj [OF assms(5)] map_of_copy_obj [OF assms(6)] by metis
qed

text \<open>
  C20. The fingerprint of an execution packet identifies the contract: two packets with the same fingerprint were compiled from the same
  task, the same acceptance contract, the same ownership, the same set of permissions and the same expected output, up to the order of
  keys, whenever the digest does not collide on the two texts. Nothing of a contract can be weakened under an unchanged fingerprint, be it a text, a
  flag or a threshold. Floating-point numbers are doubles in lowest terms that Python prints as it documents (\<open>python_floats\<close>: different
  doubles differently, none as an integer).
\<close>

theorem packet_fingerprint_binds:
  assumes "compile_execution_packet env model task contract ownership permissions expected relevant_ids view = Inr packet"
    and "compile_execution_packet env model' task' contract' ownership' permissions' expected' relevant_ids' view' = Inr packet'"
    and "map_of packet ''execution_contract_fingerprint'' = map_of packet' ''execution_contract_fingerprint''"
    and "inj_on (ce_sha env) {packet_text env packet, packet_text env packet'}"
    and "python_floats (ce_float env)" "normal_floats (JObj packet)" "normal_floats (JObj packet')"
  shows "copy_obj task = copy_obj task' \<and> copy_obj contract = copy_obj contract' \<and> copy_obj ownership = copy_obj ownership' \<and>
    set permissions = set permissions' \<and> copy_json expected = copy_json expected'"
proof -
  obtain c e where e: "e = [(''schema_version'', JStr ''1.0''), (''kind'', JStr ''EXECUTION_PACKET''),
      (''generated_view'', JObj (generation_manifest env model None ''execution-packet-v1'')),
      (''context_packet'', JObj c), (''task'', JObj (copy_obj task)), (''acceptance_contract'', JObj (copy_obj contract)),
      (''ownership'', JObj (copy_obj ownership)), (''permissions'', JArr (map JStr (sort (remdups permissions)))),
      (''expected_output'', copy_json expected)]"
    "packet = e @ [(''execution_contract_fingerprint'', JStr (compiled_fingerprint env e))]"
    using compile_execution_packet_Inr [OF assms(1)] by metis
  obtain c' e' where e': "e' = [(''schema_version'', JStr ''1.0''), (''kind'', JStr ''EXECUTION_PACKET''),
      (''generated_view'', JObj (generation_manifest env model' None ''execution-packet-v1'')),
      (''context_packet'', JObj c'), (''task'', JObj (copy_obj task')), (''acceptance_contract'', JObj (copy_obj contract')),
      (''ownership'', JObj (copy_obj ownership')), (''permissions'', JArr (map JStr (sort (remdups permissions')))),
      (''expected_output'', copy_json expected')]"
    "packet' = e' @ [(''execution_contract_fingerprint'', JStr (compiled_fingerprint env e'))]"
    using compile_execution_packet_Inr [OF assms(2)] by metis
  have bodies: "packet_body packet = e" "packet_body packet' = e'" unfolding packet_body_def e(2) e'(2) by (simp_all add: e(1) e'(1))
  have "map_of e ''execution_contract_fingerprint'' = None" "map_of e' ''execution_contract_fingerprint'' = None"
    unfolding e(1) e'(1) by simp_all
  then have "compiled_fingerprint env e = compiled_fingerprint env e'" using assms(3) unfolding e(2) e'(2)
    by (simp only: map_of_append map_add_None map_add_def option.simps map_of.simps fun_upd_same fst_conv snd_conv json.inject)
  then have "ce_sha env (packet_text env packet) = ce_sha env (packet_text env packet')"
    by (simp only: compiled_fingerprint_def packet_text_def bodies fingerprint_value.simps)
  then have "packet_text env packet = packet_text env packet'"
    by (rule inj_onD [OF assms(4)]) (rule insertI1, rule insertI2, rule singletonI)
  then have "canonical_text (ce_float env) (JObj e) = canonical_text (ce_float env) (JObj e')" by (simp only: packet_text_def bodies)
  moreover have "normal_floats (JObj e)" "normal_floats (JObj e')" using assms(6,7) unfolding e(2) e'(2) by simp_all
  moreover have "distinct (map fst e)" "distinct (map fst e')" unfolding e(1) e'(1) by simp_all
  ultimately have same: "map_option copy_json (map_of e k) = map_option copy_json (map_of e' k)" for k
    by (rule same_texts_same_values [OF assms(5)])
  have "copy_obj task = copy_obj task'" using same [of "''task''"] unfolding e(1) e'(1) by simp
  moreover have "copy_obj contract = copy_obj contract'" using same [of "''acceptance_contract''"] unfolding e(1) e'(1) by simp
  moreover have "copy_obj ownership = copy_obj ownership'" using same [of "''ownership''"] unfolding e(1) e'(1) by simp
  moreover have "copy_json expected = copy_json expected'" using same [of "''expected_output''"] unfolding e(1) e'(1) by simp
  moreover have "map JStr (sort (remdups permissions)) = map JStr (sort (remdups permissions'))"
    using same [of "''permissions''"] unfolding e(1) e'(1) by (simp add: comp_def)
  then have "sort (remdups permissions) = sort (remdups permissions')" by (simp add: inj_map_eq_map inj_def)
  then have "set permissions = set permissions'" by (metis set_remdups set_sort)
  ultimately show ?thesis by blast
qed

text \<open>A printing of doubles that has what is asked of Python's: the mantissa, the letter e and the exponent\<close>

definition exact_floats :: py_float where
  "exact_floats = \<lparr>float_text = (\<lambda>m e. int_text m @ CHR ''e'' # int_text e), float_parse = (\<lambda>_. None)\<rparr>"

lemma int_text_unique: "int_text i = int_text j \<longleftrightarrow> i = j"
  using int_text_cancel [of i "[]" j "[]"] by auto

lemma exact_floats_python: "python_floats exact_floats"
  unfolding python_floats_def
proof (intro conjI allI impI)
  fix m e
  show "float_literal (float_text exact_floats m e)"
    using int_text_first [of m] int_text_chars
    by (auto simp: exact_floats_def float_literal_def list_all_iff number_char_def)
next
  fix m e m' e'
  assume "double m e \<and> double m' e' \<and> float_text exact_floats m e = float_text exact_floats m' e'"
  then have eq: "int_text m @ CHR ''e'' # int_text e = int_text m' @ CHR ''e'' # int_text e'" by (simp add: exact_floats_def)
  have no: "CHR ''e'' \<notin> set (int_text i)" for i using int_text_chars [of "CHR ''e''" i] point_not_digit by auto
  have "takeWhile (\<lambda>c. c \<noteq> CHR ''e'') (int_text i @ CHR ''e'' # s) = int_text i" for i s
    using no [of i] by (subst takeWhile_append2) auto
  then have "int_text m = int_text m'" using eq by metis
  with eq show "m = m'" "e = e'" by (simp_all add: int_text_unique)
qed

definition sample_env :: compile_env where
  "sample_env = \<lparr>ce_sha = (\<lambda>s. s), ce_float = exact_floats\<rparr>"

definition sample_rich_model :: obj where
  "sample_rich_model = [(''name'', JStr ''artifex''), (''purpose'', JStr ''build'')]"

definition sample_packet :: "json \<Rightarrow> obj res" where
  "sample_packet threshold = compile_execution_packet sample_env sample_rich_model [(''id'', JStr ''t1'')] [(''coverage'', threshold)] []
     [''write'', ''read''] JNull [] None"

text \<open>The thresholds 0.75 and 0.5\<close>

lemma sample_packets:
  "case sample_packet (JFloat 3 (- 2)) of Inl e \<Rightarrow> False | Inr p \<Rightarrow> (case sample_packet (JFloat 1 (- 1)) of Inl e \<Rightarrow> False
     | Inr q \<Rightarrow> normal_floats (JObj p) \<and> normal_floats (JObj q))"
  by code_simp

theorem packet_fingerprint_binds_witness:
  "\<exists>p q. sample_packet (JFloat 3 (- 2)) = Inr p \<and> sample_packet (JFloat 1 (- 1)) = Inr q \<and>
     map_of p ''execution_contract_fingerprint'' \<noteq> map_of q ''execution_contract_fingerprint''"
proof -
  obtain p q where pq: "sample_packet (JFloat 3 (- 2)) = Inr p" "sample_packet (JFloat 1 (- 1)) = Inr q"
    "normal_floats (JObj p)" "normal_floats (JObj q)"
    using sample_packets by (auto split: sum.splits)
  have inj: "inj_on (ce_sha sample_env) X" for X by (simp add: sample_env_def inj_on_def)
  have python: "python_floats (ce_float sample_env)" by (simp add: sample_env_def exact_floats_python)
  have "copy_obj [(''coverage'', JFloat 3 (- 2))] \<noteq> copy_obj [(''coverage'', JFloat 1 (- 1))]"
    by (simp add: copy_obj_def)
  then have "map_of p ''execution_contract_fingerprint'' \<noteq> map_of q ''execution_contract_fingerprint''"
    using packet_fingerprint_binds [OF pq(1) [unfolded sample_packet_def] pq(2) [unfolded sample_packet_def] _ inj python pq(3,4)] by blast
  with pq(1,2) show ?thesis by blast
qed

section \<open>Relevant artifacts\<close>

definition depends :: "py_float \<Rightarrow> (string \<times> obj) list \<Rightarrow> (string \<times> string) set" where
  "depends py by_id = {(i, j). j \<in> set (item_dependencies py by_id i)}"

lemma select_dependencies_exact:
  assumes "distinct selected" and "set pending \<subseteq> set selected"
    and "\<And>i. i \<in> set selected - set pending \<Longrightarrow> depends py by_id `` {i} \<subseteq> set selected"
  shows "distinct (select_dependencies py by_id selected pending) \<and>
    set (select_dependencies py by_id selected pending) = (depends py by_id)\<^sup>* `` set selected"
  using assms
proof (induction py by_id selected pending rule: select_dependencies.induct)
  case (1 py by_id selected)
  then have "depends py by_id `` set selected \<subseteq> set selected" by auto
  with 1 show ?case by (simp add: Image_closed_trancl)
next
  case (2 py by_id selected i pending)
  let ?ds = "item_dependencies py by_id i"
  obtain new where new: "fold push_dependency ?ds (selected, pending) = (new @ selected, new @ pending)"
    "set new = set ?ds - set selected" "distinct new" using push_dependencies_shape by blast
  have "distinct (new @ selected)" using new(2,3) "2.prems"(1) by auto
  moreover have "set (new @ pending) \<subseteq> set (new @ selected)" using "2.prems"(2) by auto
  moreover have "depends py by_id `` {j} \<subseteq> set (new @ selected)" if "j \<in> set (new @ selected) - set (new @ pending)" for j
  proof (cases "j = i")
    case True
    then show ?thesis using new(2) by (auto simp: depends_def)
  next
    case False
    with that "2.prems"(3) [of j] show ?thesis by auto
  qed
  ultimately have "distinct (select_dependencies py by_id (new @ selected) (new @ pending))"
    "set (select_dependencies py by_id (new @ selected) (new @ pending)) = (depends py by_id)\<^sup>* `` set (new @ selected)"
    using "2.IH" [OF new(1) [symmetric]] by blast+
  moreover have "(depends py by_id)\<^sup>* `` set (new @ selected) = (depends py by_id)\<^sup>* `` set selected"
  proof -
    have "set new \<subseteq> depends py by_id `` set selected" using new(2) "2.prems"(2) by (auto simp: depends_def)
    then show ?thesis by (auto intro: converse_rtrancl_into_rtrancl)
  qed
  ultimately show ?case using new(1) by simp
qed

text \<open>
  C22. The artifacts of a context packet are exactly those of the index that the requested identifiers reach through \<open>depends_on\<close> (or
  \<open>dependencies\<close>), whatever cycles the dependencies have, each once, in the order of the identifiers.
\<close>

theorem relevant_artifacts_closed:
  "relevant_artifacts py model relevant_ids = map (\<lambda>i. copy_json (JObj (the (map_of (artifacts_by_id py model) i))))
     (filter (\<lambda>i. map_of (artifacts_by_id py model) i \<noteq> None)
       (sorted_list_of_set ((depends py (artifacts_by_id py model))\<^sup>* `` set relevant_ids)))"
proof -
  let ?by_id = "artifacts_by_id py model"
  let ?selected = "select_dependencies py ?by_id (remdups relevant_ids) (rev relevant_ids)"
  have "distinct ?selected \<and> set ?selected = (depends py ?by_id)\<^sup>* `` set (remdups relevant_ids)"
    by (rule select_dependencies_exact) simp_all
  then have "sort ?selected = sorted_list_of_set ((depends py ?by_id)\<^sup>* `` set relevant_ids)"
    by (metis distinct_remdups_id set_remdups sorted_list_of_set_sort_remdups)
  then show ?thesis by (auto simp: relevant_artifacts_def Let_def List.map_filter_def intro!: arg_cong2 [of _ _ _ _ map] split: option.splits)
qed

section \<open>The read model\<close>

definition has_optional_parts :: "project_model \<Rightarrow> bool" where
  "has_optional_parts m \<longleftrightarrow> pm_governance m \<noteq> default_governance \<or> pm_knowledge_adoptions m \<noteq> [] \<or> pm_research_adoptions m \<noteq> []"

lemma typed_documents: "is_typed_project_model (project_model_to_dict m) \<longleftrightarrow> \<not> has_optional_parts m"
  by (cases "pm_governance m = default_governance"; cases "pm_knowledge_adoptions m = []"; cases "pm_research_adoptions m = []")
    (simp_all add: is_typed_project_model_def typed_model_fields_def project_model_to_dict_def has_optional_parts_def item_or_def)

lemma copy_obj_keys: "fst ` set (copy_obj v) = fst ` set v"
  by (force simp: copy_obj_def)

lemma document_keys: "fst ` set (project_model_to_dict m) \<subseteq> set (typed_model_fields @ [''governance'', ''knowledge_adoptions'', ''research_adoptions''])"
  by (auto simp: project_model_to_dict_def typed_model_fields_def)

lemma no_understanding_keys: "set understanding_fields \<inter> set (typed_model_fields @ [''governance'', ''knowledge_adoptions'', ''research_adoptions'']) = {}"
  by code_simp

text \<open>
  C24. The document of a Project Model is recognised as one exactly when its governance is the default one and it has no adoption. With
  accepted governance or an adoption it is compiled as a rich mapping: its view has none of the understanding fields, so what the accepted
  artifacts and the entities contribute, and the refusal of unknown fields, is lost.
\<close>

theorem governed_model_not_projected:
  "project_understanding py (project_model_to_dict m) =
     (if has_optional_parts m then Inr (copy_obj (project_model_to_dict m))
      else rbind (typed_fields py (project_model_to_dict m)) (\<lambda>projected. Inr (update_all projected (copy_obj (project_model_to_dict m))))) \<and>
   set understanding_fields \<inter> fst ` set (copy_obj (project_model_to_dict m)) = {}"
  using document_keys [of m] no_understanding_keys by (auto simp: project_understanding_def typed_documents copy_obj_keys)

section \<open>Freshness\<close>

text \<open>The text whose digest is the fingerprint of a value.\<close>

fun fingerprinted_text :: "compile_env \<Rightarrow> json \<Rightarrow> string" where
  "fingerprinted_text env (JStr s) = s"
| "fingerprinted_text env j = canonical_text (ce_float env) j"

lemma fingerprint_value_text: "fingerprint_value env j = ce_sha env (fingerprinted_text env j)"
  by (cases j) simp_all

lemma map_of_fingerprints:
  "distinct (map fst v) \<Longrightarrow> map_of (fingerprint_sources env v) k = map_option (fingerprint_value env) (map_of v k)"
  unfolding fingerprint_sources_def
  by (subst map_of_map) (simp_all add: map_of_sort_key)

lemma same_dict_maps: "same_dict v w \<longleftrightarrow> map_of v = map_of w"
proof -
  have "map_of v k = map_of w k" if "same_dict v w" for k
  proof (cases "k \<in> fst ` set v \<union> fst ` set w")
    case True
    with that show ?thesis by (auto simp: same_dict_def list_all_iff)
  next
    case False
    then have "map_of v k = None" "map_of w k = None" by (simp_all add: map_of_eq_None_iff)
    then show ?thesis by simp
  qed
  then show ?thesis by (auto simp: same_dict_def list_all_iff)
qed

lemma same_maps:
  "(\<forall>k. map_option f (map_of v k) = map_option f (map_of w k)) \<longleftrightarrow>
     fst ` set v = fst ` set w \<and> (\<forall>k i j. map_of v k = Some i \<and> map_of w k = Some j \<longrightarrow> f i = f j)"
proof -
  have "map_option f a = map_option f b \<longleftrightarrow> (a = None \<longleftrightarrow> b = None) \<and> (\<forall>i j. a = Some i \<and> b = Some j \<longrightarrow> f i = f j)" for a b
    by (cases a; cases b) simp_all
  moreover have "fst ` set v = fst ` set w \<longleftrightarrow> (\<forall>k. map_of v k = None \<longleftrightarrow> map_of w k = None)"
    unfolding map_of_eq_None_iff by blast
  ultimately show ?thesis by auto
qed

lemma classify_manifest:
  "classify_generated_view env sources (Some (generation_manifest env model (Some old) generator)) True =
     (if map_of (fingerprint_sources env old) = map_of (fingerprint_sources env sources) then GV_CURRENT else GV_STALE)"
  by (simp add: classify_generated_view_def generation_manifest_def item_or_def same_dict_maps comp_def split_def)

text \<open>
  When two sources have the same fingerprint unless the digest collides: they are the same up to the order of keys, or one is bare text that spells the
  canonical text of the other. (A bare text is digested as it is, every other value by its canonical text.)
\<close>

definition spells :: "compile_env \<Rightarrow> json \<Rightarrow> json \<Rightarrow> bool" where
  "spells env i j \<longleftrightarrow> (\<forall>s. j \<noteq> JStr s) \<and> i = JStr (canonical_text (ce_float env) j)"

lemma fingerprinted_text_eq:
  assumes "python_floats (ce_float env)" "normal_floats i" "normal_floats j"
  shows "fingerprinted_text env i = fingerprinted_text env j \<longleftrightarrow> copy_json i = copy_json j \<or> spells env i j \<or> spells env j i"
proof -
  have other: "fingerprinted_text env x = canonical_text (ce_float env) x" "copy_json x \<noteq> JStr s" if "\<forall>s. x \<noteq> JStr s" for x s
    using that by (cases x; simp)+
  consider s t where "i = JStr s" "j = JStr t" | s where "i = JStr s" "\<forall>t. j \<noteq> JStr t" | t where "\<forall>s. i \<noteq> JStr s" "j = JStr t"
    | "\<forall>s. i \<noteq> JStr s" "\<forall>t. j \<noteq> JStr t" by blast
  then show ?thesis
  proof cases
    case 1
    then show ?thesis by (auto simp: spells_def)
  next
    case 2
    then show ?thesis using other(1) [OF 2(2)] other(2) [OF 2(2), of s] by (auto simp: spells_def)
  next
    case 3
    then show ?thesis using other(1) [OF 3(1)] other(2) [OF 3(1), of t] by (auto simp: spells_def)
  next
    case 4
    then show ?thesis using other(1) canonical_text_eq [OF assms] by (auto simp: spells_def)
  qed
qed

text \<open>
  C23. A view generated from sources is CURRENT against the present sources exactly when both have the same names and, under each name, the same value up to
  the order of keys, or bare text on one side that spells the canonical text of the value on the other, whenever the digest does not collide on their
  texts; otherwise it is STALE. A dictionary has each name once; floating-point numbers are doubles in lowest terms that Python prints as it
  documents (\<open>python_floats\<close>).
\<close>

theorem current_view_up_to_date:
  assumes "distinct (map fst sources)" "distinct (map fst old)"
    and "python_floats (ce_float env)" "normal_floats (JObj sources)" "normal_floats (JObj old)"
    and "inj_on (ce_sha env) ((\<lambda>(_, j). fingerprinted_text env j) ` (set sources \<union> set old))"
  shows "classify_generated_view env sources (Some (generation_manifest env model (Some old) generator)) True =
    (if fst ` set old = fst ` set sources \<and>
        (\<forall>k i j. map_of old k = Some i \<and> map_of sources k = Some j \<longrightarrow> copy_json i = copy_json j \<or> spells env i j \<or> spells env j i)
     then GV_CURRENT else GV_STALE)"
proof -
  have same: "fingerprint_value env i = fingerprint_value env j \<longleftrightarrow> copy_json i = copy_json j \<or> spells env i j \<or> spells env j i"
    if "map_of old k = Some i" "map_of sources k = Some j" for i j k
  proof -
    have mem: "(k, i) \<in> set old" "(k, j) \<in> set sources" using that by (auto dest: map_of_SomeD)
    then have "fingerprint_value env i = fingerprint_value env j \<longleftrightarrow> fingerprinted_text env i = fingerprinted_text env j"
      unfolding fingerprint_value_text by (intro inj_on_eq_iff [OF assms(6)]) force+
    moreover have "normal_floats i" "normal_floats j" using assms(4,5) mem by (auto simp: list_all_iff)
    ultimately show ?thesis using fingerprinted_text_eq [OF assms(3)] by simp
  qed
  have "map_of (fingerprint_sources env old) = map_of (fingerprint_sources env sources) \<longleftrightarrow>
      fst ` set old = fst ` set sources \<and>
      (\<forall>k i j. map_of old k = Some i \<and> map_of sources k = Some j \<longrightarrow> fingerprint_value env i = fingerprint_value env j)"
    unfolding fun_eq_iff map_of_fingerprints [OF assms(1)] map_of_fingerprints [OF assms(2)] by (rule same_maps)
  then show ?thesis using same by (simp add: classify_manifest) metis
qed

theorem current_view_up_to_date_witness:
  "classify_generated_view sample_env [(''a'', JObj [(''x'', JFloat 1 (- 1)), (''w'', JNull)]), (''b'', JStr ''{}'')]
     (Some (generation_manifest sample_env [] (Some [(''b'', JObj []), (''a'', JObj [(''w'', JNull), (''x'', JFloat 1 (- 1))])]) ''g'')) True = GV_CURRENT"
proof -
  let ?sources = "[(''a'', JObj [(''x'', JFloat 1 (- 1)), (''w'', JNull)]), (''b'', JStr ''{}'')]"
  let ?old = "[(''b'', JObj []), (''a'', JObj [(''w'', JNull), (''x'', JFloat 1 (- 1))])]"
  have same: "copy_json (JObj [(''w'', JNull), (''x'', JFloat 1 (- 1))]) = copy_json (JObj [(''x'', JFloat 1 (- 1)), (''w'', JNull)])"
    "canonical_text exact_floats (JObj []) = ''{}''"
    by code_simp+
  have "inj_on (ce_sha sample_env) X" for X by (simp add: sample_env_def inj_on_def)
  moreover have "python_floats (ce_float sample_env)" by (simp add: sample_env_def exact_floats_python)
  moreover have "normal_floats (JObj ?sources)" "normal_floats (JObj ?old)" by code_simp+
  ultimately have "classify_generated_view sample_env ?sources (Some (generation_manifest sample_env [] (Some ?old) ''g'')) True =
    (if fst ` set ?old = fst ` set ?sources \<and> (\<forall>k i j. map_of ?old k = Some i \<and> map_of ?sources k = Some j \<longrightarrow>
        copy_json i = copy_json j \<or> spells sample_env i j \<or> spells sample_env j i) then GV_CURRENT else GV_STALE)"
    by (intro current_view_up_to_date) (simp_all only: list.map fst_conv distinct.simps list.set, simp_all)
  moreover have "fst ` set ?old = fst ` set ?sources" by auto
  moreover have "\<forall>k i j. map_of ?old k = Some i \<and> map_of ?sources k = Some j \<longrightarrow>
      copy_json i = copy_json j \<or> spells sample_env i j \<or> spells sample_env j i"
    using same by (auto simp: spells_def sample_env_def split: if_splits)
  ultimately show ?thesis by simp
qed

section \<open>Sources of the projected fields\<close>

definition understanding_of :: "obj \<Rightarrow> obj" where
  "understanding_of a = (case item_or a ''metadata'' (JObj []) of JObj metadata \<Rightarrow>
     (case map_of metadata ''understanding'' of Some (JObj u) \<Rightarrow> u | _ \<Rightarrow> []) | _ \<Rightarrow> [])"

lemma mapping_of_Inr: "mapping_of j = Inr v \<longleftrightarrow> j = JObj v"
  by (cases j) auto

lemma artifact_understanding_Inr:
  assumes "artifact_understanding a = Inr entries"
  shows "entries = sort_key fst (understanding_of a) \<and> fst ` set entries \<subseteq> set understanding_fields"
  using assms by (auto simp: artifact_understanding_def understanding_of_def rbind_Inr_iff mapping_of_Inr require_value_def list_all_iff
    split: option.splits if_splits) (metis case_prodD)

lemma in_update: "p \<in> set (AList.update k j v) \<Longrightarrow> p \<in> set v \<or> p = (k, j)"
  by (induction v) (auto split: if_splits)

lemma in_update_all: "p \<in> set (update_all new v) \<Longrightarrow> p \<in> set v \<or> p \<in> set new"
  unfolding update_all_def by (induction new arbitrary: v) (auto dest: in_update split: prod.splits)

lemma add_fields_sources:
  "add_fields py projected entries = Inr projected' \<Longrightarrow> (k, j) \<in> set projected' \<Longrightarrow>
   (k, j) \<in> set projected \<or> (\<exists>i. (k, i) \<in> set entries \<and> j = copy_json i)"
proof (induction entries arbitrary: projected)
  case (Cons p entries)
  obtain name i where p: "p = (name, i)" by (cases p)
  have "add_fields py (AList.update name (copy_json i) projected) entries = Inr projected'"
    using Cons.prems(1) p by (auto simp: rbind_Inr_iff)
  from Cons.IH [OF this Cons.prems(2)] p show ?case by (auto dest: in_update)
qed simp

definition contributed :: "obj \<Rightarrow> string \<Rightarrow> json \<Rightarrow> bool" where
  "contributed a k j \<longleftrightarrow> k \<in> set understanding_fields \<and> (\<exists>i. (k, i) \<in> set (understanding_of a) \<and> j = copy_json i)"

lemma accepted_understanding_sources:
  "accepted_understanding py projected as = Inr projected' \<Longrightarrow> (k, j) \<in> set projected' \<Longrightarrow>
   (k, j) \<in> set projected \<or> (\<exists>a \<in> set as. contributed a k j)"
proof (induction as arbitrary: projected)
  case (Cons a as)
  obtain entries p where step: "artifact_understanding a = Inr entries" "add_fields py projected entries = Inr p"
    "accepted_understanding py p as = Inr projected'"
    using Cons.prems(1) by (auto simp: rbind_Inr_iff)
  note entries = artifact_understanding_Inr [OF step(1)]
  consider "(k, j) \<in> set p" | "\<exists>a \<in> set as. contributed a k j" using Cons.IH [OF step(3) Cons.prems(2)] by blast
  then show ?case
  proof cases
    case 1
    with add_fields_sources [OF step(2)] entries show ?thesis by (force simp: contributed_def)
  qed auto
qed simp

lemma add_fallbacks_sources:
  "(k, j) \<in> set (add_fallbacks fallbacks projected) \<Longrightarrow> (k, j) \<in> set projected \<or> (\<exists>xs. (k, xs) \<in> set fallbacks \<and> j = JArr xs)"
proof (induction fallbacks arbitrary: projected)
  case (Cons p fallbacks)
  obtain name xs where p: "p = (name, xs)" by (cases p)
  define projected' where "projected' = (if map_of projected name = None \<and> xs \<noteq> [] then AList.update name (JArr xs) projected else projected)"
  have "(k, j) \<in> set (add_fallbacks fallbacks projected')" using Cons.prems p by (simp add: add_fallbacks_def projected'_def)
  from Cons.IH [OF this] p show ?case by (auto simp: projected'_def dest: in_update split: if_splits)
qed (simp add: add_fallbacks_def)

definition from_entities :: "py_float \<Rightarrow> json list \<Rightarrow> string \<Rightarrow> json \<Rightarrow> bool" where
  "from_entities py es k j \<longleftrightarrow> (\<exists>kind. (kind, k) \<in> set entity_collections \<and>
     (\<exists>xs. j = JArr (map copy_json xs) \<and> (\<forall>x \<in> set xs. x \<in> set es \<and> (\<exists>e. x = JObj e \<and> str_or py e ''kind'' = kind))))"

lemma in_objects_of: "e \<in> set (objects_of xs) \<longleftrightarrow> JObj e \<in> set xs"
  by (induction xs) (auto simp: objects_of_def List.map_filter_simps elim: as_object.elims split: option.splits)

lemma entity_fallbacks_sources:
  assumes "(k, xs) \<in> set (entity_fallbacks py es)"
  shows "from_entities py es k (JArr xs)"
proof -
  obtain kind where kind: "(kind, k) \<in> set entity_collections" and xs: "xs = map (\<lambda>e. copy_json (JObj e))
      (filter (\<lambda>e. str_or py e ''kind'' = kind) (sort_key (\<lambda>e. str_or py e ''id'') (sort_key (\<lambda>e. str_or py e ''kind'') (objects_of es))))"
    using assms by (auto simp: entity_fallbacks_def Let_def)
  show ?thesis unfolding from_entities_def
    by (intro exI [of _ kind] exI [of _ "map JObj (filter (\<lambda>e. str_or py e ''kind'' = kind)
      (sort_key (\<lambda>e. str_or py e ''id'') (sort_key (\<lambda>e. str_or py e ''kind'') (objects_of es))))"] conjI kind)
      (auto simp: xs comp_def in_objects_of)
qed

lemma typed_arrays:
  assumes "is_typed_project_model model"
  obtains artifacts entities where "item_or model ''artifacts'' JNull = JArr artifacts" "item_or model ''entities'' JNull = JArr entities"
  using assms unfolding is_typed_project_model_def by (auto elim!: as_array.elims)

text \<open>
  C21. Every field that the read model of a Project Model has beside the model's own ones comes from the understanding of an ACCEPTED
  artifact under an allowed name, from the entities of the kind the field collects, or, for the purpose, from the Project's description:
  drafts, superseded artifacts and unknown names never reach a packet.
\<close>

theorem projected_fields_have_sources:
  assumes "is_typed_project_model model" and "item_or model ''artifacts'' JNull = JArr artifacts"
    and "item_or model ''entities'' JNull = JArr entities"
    and "project_understanding py model = Inr view" and "(k, j) \<in> set view" and "k \<notin> set typed_model_fields"
  shows "(\<exists>a. JObj a \<in> set artifacts \<and> item_or a ''status'' JNull = JStr ''ACCEPTED'' \<and> contributed a k j) \<or>
    from_entities py entities k j \<or>
    (k = ''purpose'' \<and> (\<exists>p. item_or model ''project'' JNull = JObj p \<and> j = copy_json (item_or p ''description'' JNull)))"
proof -
  obtain understood where parts: "accepted_understanding py [] (accepted_artifacts py artifacts) = Inr understood"
    "view = update_all (add_purpose model (add_fallbacks (entity_fallbacks py entities) understood)) (copy_obj model)"
    using assms(1-4) by (auto simp: project_understanding_def typed_fields_def rbind_Inr_iff)
  have "fst ` set (copy_obj model) \<subseteq> set typed_model_fields" using assms(1) by (simp add: copy_obj_keys is_typed_project_model_def)
  then have "(k, j) \<notin> set (copy_obj model)" using assms(6) by force
  then have "(k, j) \<in> set (add_purpose model (add_fallbacks (entity_fallbacks py entities) understood))"
    using in_update_all assms(5) parts(2) by blast
  then consider "(k, j) \<in> set (add_fallbacks (entity_fallbacks py entities) understood)"
    | "k = ''purpose'' \<and> (\<exists>p. item_or model ''project'' JNull = JObj p \<and> j = copy_json (item_or p ''description'' JNull))"
    by (auto simp: add_purpose_def dest!: in_update elim!: as_object.elims split: if_splits option.splits json.splits)
  then show ?thesis
  proof cases
    case 1
    then consider "(k, j) \<in> set understood" | xs where "(k, xs) \<in> set (entity_fallbacks py entities)" "j = JArr xs"
      using add_fallbacks_sources by blast
    then show ?thesis
    proof cases
      case 1
      then obtain a where "a \<in> set (accepted_artifacts py artifacts)" "contributed a k j"
        using accepted_understanding_sources [OF parts(1)] by auto
      then show ?thesis by (auto simp: accepted_artifacts_def in_objects_of)
    qed (use entity_fallbacks_sources in blast)
  qed blast
qed

definition sample_contributions :: "json list" where
  "sample_contributions =
     [JObj [(''id'', JStr ''ADR-2''), (''status'', JStr ''DRAFT''),
        (''metadata'', JObj [(''understanding'', JObj [(''security'', JStr ''none'')])])],
      JObj [(''id'', JStr ''ADR-1''), (''status'', JStr ''ACCEPTED''),
        (''metadata'', JObj [(''understanding'', JObj [(''architecture'', JStr ''layers'')])])]]"

definition sample_typed_model :: obj where
  "sample_typed_model = [(''schema_version'', JStr ''1.0''), (''project'', JObj [(''name'', JStr ''p''), (''description'', JStr ''a tool'')]),
     (''git'', JObj []), (''artifacts'', JArr sample_contributions),
     (''entities'', JArr [JObj [(''id'', JStr ''T-1''), (''kind'', JStr ''task'')]])]"

lemma sample_typed_view:
  "case project_understanding no_floats sample_typed_model of Inl e \<Rightarrow> False
   | Inr view \<Rightarrow> map_of view ''architecture'' = Some (JStr ''layers'') \<and> map_of view ''security'' = None \<and>
       map_of view ''purpose'' = Some (JStr ''a tool'') \<and> map_of view ''tasks'' \<noteq> None"
  by code_simp

theorem projected_fields_have_sources_witness:
  "\<exists>a. JObj a \<in> set sample_contributions \<and> item_or a ''status'' JNull = JStr ''ACCEPTED'' \<and> contributed a ''architecture'' (JStr ''layers'')"
proof -
  obtain view where view: "project_understanding no_floats sample_typed_model = Inr view" "map_of view ''architecture'' = Some (JStr ''layers'')"
    using sample_typed_view by (auto split: sum.splits)
  have typed: "is_typed_project_model sample_typed_model" by code_simp
  have arrays: "item_or sample_typed_model ''artifacts'' JNull = JArr sample_contributions"
    "item_or sample_typed_model ''entities'' JNull = JArr [JObj [(''id'', JStr ''T-1''), (''kind'', JStr ''task'')]]"
    by (simp_all add: sample_typed_model_def item_or_def)
  have "''architecture'' \<notin> set typed_model_fields" "\<not> from_entities no_floats es ''architecture'' j" for es j
    by (simp_all add: typed_model_fields_def from_entities_def entity_collections_def)
  then show ?thesis using projected_fields_have_sources [OF typed arrays view(1) map_of_SomeD [OF view(2)]] by auto
qed

end
