(* ===== verification/Spec2Isabelle.thy ===== *)
theory Spec2Isabelle
  imports Workflow Runtime_Properties Governance_Properties Workspace_Access Project_Catalog Change_Sets Reality_Properties Provider_Composition Validation_Properties Organizational_Properties Compilation_Properties
begin

text \<open>
  Verification of the core of Artifex, a local service that lets coding agents work on a software Project under explicit authority.

  \<^bold>\<open>The program.\<close> A Project is a directory whose Project Model is changed only by accepted semantic revisions
  (\<open>src/artifex/project\<close>). Work is done by a managed runtime (\<open>src/artifex/runtime\<close>): a Run is authorized by an Execution Envelope,
  split into ProjectJobs and Attempts, dispatched to providers, evidenced, and decided by an acceptance authority other than who
  dispatched it; an accepted result is promoted from an isolated workspace into the Project as its next revision. All durable state
  of the runtime is one SQLite database whose writers hold a lease with a fencing generation. Policy (\<open>policy.py\<close>, \<open>ids.py\<close>) and the
  stage engine (\<open>workflow/core.py\<close>) stand beside them.

  \<^bold>\<open>Theories and sources.\<close>
  \<^item> \<open>Prelude\<close>: errors, the state and error monad, Python string operations, the locale \<open>state_preorder\<close>.
  \<^item> \<open>Policy\<close> (\<open>policy.py\<close>, \<open>ids.py\<close>): the secret scrubber with its regular expressions as matchers, stable identifiers.
  \<^item> \<open>Workflow\<close> (\<open>workflow/core.py\<close>): stage contracts, the engine, the liveness guard.
  \<^item> \<open>Runtime_Models\<close> (\<open>runtime/models.py\<close>): actors, delegation, Envelopes, evidence, decisions and their constructor checks.
  \<^item> \<open>Run_Store\<close> (\<open>runtime/store.py\<close>): the tables as a record of lists and each method as a transaction. \<open>Store_Laws\<close> states what the
    store promises (locales for fenced operations and for clients with a write discipline); \<open>Store_Properties\<close> draws the
    conclusions for arbitrary clients.
  \<^item> \<open>Coordinator\<close>, \<open>Acceptance\<close>, \<open>Governance\<close>, \<open>Managed_Service\<close> (\<open>runtime/coordinator.py\<close>, \<open>acceptance.py\<close>, \<open>governance.py\<close>,
    \<open>service.py\<close>): the operations over a world of database, clock and random numbers. \<open>Runtime_Steps\<close> is the abstract specification, an
    inductive step relation of the database, and the proof that every operation moves along it; \<open>Runtime_Invariants\<close> and
    \<open>Runtime_Decisions\<close> prove its invariants by rule induction; \<open>Runtime_Properties\<close> and \<open>Governance_Properties\<close> state them for
    every history. \<open>World_Laws\<close> and \<open>Demo_Run\<close> support these.
  \<^item> \<open>Json_Values\<close>, \<open>Project_Paths\<close>, \<open>Project_Model\<close>, \<open>Project_Store\<close>, \<open>Project_Authority\<close> (\<open>project/paths.py\<close>, \<open>model.py\<close>, \<open>store.py\<close>,
    \<open>audit.py\<close>, \<open>repository.py\<close> in part, \<open>authority.py\<close>): the Project Model with its decoders, the files of a Project, proposals and
    revisions. \<open>Authority_Laws\<close> abstracts the revision files to a list (\<open>chain\<close>); \<open>Authority_Demo\<close> and \<open>Authority_Properties\<close> prove
    that the history is an append-only log.
  \<^item> \<open>Artifact_Index\<close>, \<open>Project_Catalog\<close>, \<open>Change_Sets\<close> (\<open>project/index.py\<close>, \<open>catalog.py\<close>, \<open>changeset.py\<close>): the index of artifacts with the propagation of
    staleness against its reference definition, the catalog of Projects with its constraints, and change sets.
  \<^item> \<open>Reality\<close>, \<open>Reality_Properties\<close> (\<open>reality/\<close>): observations and divergences, and that observing decides nothing.
  \<^item> \<open>Capabilities\<close>, \<open>Provider_Composition\<close> (\<open>capabilities/\<close>, the detections of \<open>integrations/\<close>): providers, their readiness, the
    resolver against the specification of who may be selected, and the composition of the graph from a persisted setup and probes.
  \<^item> \<open>Validation\<close>, \<open>Gates\<close>, \<open>Validation_Properties\<close> (\<open>validation/\<close>): acceptance contracts, validators, the evidence codec and the append-only
    ledger with its journals, waivers and the evaluation of gates.
  \<^item> \<open>Knowledge\<close>, \<open>Knowledge_Store\<close>, \<open>Organizational_Knowledge\<close> (\<open>knowledge/\<close>): knowledge items, promotion from scope to scope and overlays; the JSON
    collections of Projects and instances; the advisory store across Projects, whose adoption goes through the Project authority.
    \<open>Knowledge_Properties\<close>, \<open>Knowledge_Isolation\<close> (a locale of typed collections and the refinement to lists), \<open>Organizational_Laws\<close> (the step relation
    of the store's tables), \<open>Advisory_Demo\<close> and \<open>Organizational_Properties\<close> hold what is proved of them.
  \<^item> \<open>Canonical_Json\<close>, \<open>Compilation\<close> (\<open>compilation/\<close> but for the rendered text): the canonical text of documents, the projection of the Project Model to
    the read model, manifests and freshness of generated views, context and execution packets. \<open>Canonical_Laws\<close> shows that the canonical text
    determines a document up to the order of keys, by which \<open>Compilation_Properties\<close> shows what the fingerprints identify.
  \<^item> \<open>Workspace\<close> (\<open>runtime/workspace.py\<close>, the rest of \<open>service.py\<close>): workspaces and promotion over a host with the database and several
    Projects. \<open>Host_Steps\<close> extends the histories to such hosts; \<open>Workspace_Properties\<close> and \<open>Workspace_Access\<close> are about
    promotion, creation and path checks.

  \<^bold>\<open>Operations and errors.\<close> An operation is a function from a state to an outcome and a state. A raise is the outcome \<open>Inl e\<close> together
  with whatever was written before it; only a database transaction undoes its writes. Histories are arbitrary lists of operations with
  arbitrary arguments, tokens and clock readings, failing ones included, so properties over histories cover every interleaving of
  whole operations of several service processes and of direct users of the Project authority.

  \<^bold>\<open>Parameters.\<close> Clock readings, UUIDs, tokens, SHA-256 over canonical JSON and the text of floating-point numbers are functions in an
  environment record; so are git, path resolution, the symbolic links of a directory, the processes that probe a provider, the JSON schema validator
  and the text of a time. Where a property needs something of them it is a
  named hypothesis (\<open>plain_layout\<close>: no link redirects a path of the store; \<open>git_prints_head\<close>; \<open>isoformat_inverse\<close>; \<open>python_floats\<close>: Python
  prints different doubles differently), and its witness instantiates them.

  \<^bold>\<open>Bounds.\<close> Integers of the program are unbounded and are \<open>int\<close>. Characters are code points below 256. Revision numbers are padded to
  20 digits in file names, so the properties of the revision chain assume fewer than \<open>revision_limit\<close> = 10^20 revisions. Every
  recursion is structural or has a termination proof. Floating-point values are finite and are mantissa and exponent, durations rationals: infinities and NaN, which
  \<open>LivenessPolicy\<close> would take for its stall limit, are not represented. The one bounded recursion is the evaluation of gates: its bound is the interpreter's
  recursion limit, and depth 4 is shown to be enough.

  \<^bold>\<open>Not modelled.\<close> Failures of the operating system inside a single file operation, the contents of workspace directories, and threads: the
  heartbeat is its body. Parsing of Markdown and YAML artifacts, git commands of the repository, the rendered views of a Project and the service around them, the application interface,
  command line and MCP transport, the adapters that drive providers, distribution, the rendered documents and comprehension gates of compilation, the evidence and interaction of providers, migration, documentation
  and the release tooling are outside the modelled core.
\<close>

end
